(* ===== verification/Prelude.thy ===== *)
theory Prelude
  imports Main "HOL-Library.State_Monad" "HOL-Library.AList"
begin

text \<open>
  Shared by every theory of the development: the named collections the component proofs draw
  from, association lists as Go maps, the few list facts the standard library lacks, and the
  parts of Go's standard library the modelled code calls (package \<open>strings\<close>, \<open>strconv\<close>,
  \<open>fmt\<close> verbs, 64-bit wrap-around, \<open>slices\<close>).
\<close>

named_theorems emits_intros "compositional rules for the calls a program may issue"
named_theorems pool_intros "compositional rules for programs that leave the connection pool alone"
named_theorems run_defs "definitions of primitive steps, unfolded when a program is run"

section \<open>Go maps\<close>

text \<open>
  A Go map with string keys is an association list. Its order is the order in which a
  \<open>range\<close> loop visits it, which Go leaves open: a theorem about all lists is a theorem about
  every visiting order. Reading a missing key gives the zero value.
\<close>

type_synonym strmap = "(string \<times> string) list"

definition mget :: "strmap \<Rightarrow> string \<Rightarrow> string" where
  "mget m k = (case map_of m k of None \<Rightarrow> [] | Some v \<Rightarrow> v)"

lemma mget_update [simp]: "mget (AList.update k v m) k' = (if k' = k then v else mget m k')"
  by (simp add: mget_def update_conv')

lemma mget_delete [simp]: "mget (AList.delete k m) k' = (if k' = k then [] else mget m k')"
  by (simp add: mget_def delete_conv')

lemma mget_Nil [simp]: "mget [] k = []"
  by (simp add: mget_def)

lemma map_of_filter_keys:
  "map_of (filter (\<lambda>(k, v). P k) m) k = (if P k then map_of m k else None)"
  by (induction m) auto

section \<open>Slices\<close>

text \<open>\<open>slices.Contains\<close> is list membership; \<open>slices.DeleteFunc\<close> keeps what the predicate rejects.\<close>

definition slices_DeleteFunc :: "'a list \<Rightarrow> ('a \<Rightarrow> bool) \<Rightarrow> 'a list" where
  "slices_DeleteFunc xs p = filter (\<lambda>x. \<not> p x) xs"

lemma set_slices_DeleteFunc [simp]: "set (slices_DeleteFunc xs p) = {x \<in> set xs. \<not> p x}"
  by (auto simp: slices_DeleteFunc_def)

section \<open>64-bit and 32-bit integers\<close>

text \<open>Two's complement wrap-around of Go's \<open>int64\<close> and \<open>int32\<close>, on unbounded integers.\<close>

definition wrap64 :: "int \<Rightarrow> int" where
  "wrap64 x = (x + 2 ^ 63) mod 2 ^ 64 - 2 ^ 63"

definition wrap32 :: "int \<Rightarrow> int" where
  "wrap32 x = (x + 2 ^ 31) mod 2 ^ 32 - 2 ^ 31"

lemma wrap64_id: "- (2 ^ 63) \<le> x \<Longrightarrow> x < 2 ^ 63 \<Longrightarrow> wrap64 x = x"
  by (simp add: wrap64_def)

lemma wrap64_range: "- (2 ^ 63) \<le> wrap64 x" "wrap64 x < 2 ^ 63"
proof -
  have "0 \<le> (x + 2 ^ 63) mod 2 ^ 64" "(x + 2 ^ 63) mod 2 ^ 64 < 2 ^ 64"
    by simp_all
  then show "- (2 ^ 63) \<le> wrap64 x" "wrap64 x < 2 ^ 63"
    by (simp_all add: wrap64_def)
qed

lemma wrap32_id: "- (2 ^ 31) \<le> x \<Longrightarrow> x < 2 ^ 31 \<Longrightarrow> wrap32 x = x"
  by (simp add: wrap32_def)

section \<open>Strings\<close>

definition strings_HasPrefix :: "string \<Rightarrow> string \<Rightarrow> bool" where
  "strings_HasPrefix s p \<longleftrightarrow> take (length p) s = p"

lemma strings_HasPrefix_append [simp]: "strings_HasPrefix (p @ s) p"
  by (simp add: strings_HasPrefix_def)

lemma strings_HasPrefix_iff: "strings_HasPrefix s p \<longleftrightarrow> (\<exists>t. s = p @ t)"
  by (metis append_eq_conv_conj append_take_drop_id strings_HasPrefix_def)

fun strings_Contains :: "string \<Rightarrow> string \<Rightarrow> bool" where
  "strings_Contains [] sub \<longleftrightarrow> sub = []"
| "strings_Contains (c # s) sub \<longleftrightarrow> strings_HasPrefix (c # s) sub \<or> strings_Contains s sub"

lemma strings_Contains_iff: "strings_Contains s sub \<longleftrightarrow> (\<exists>a b. s = a @ sub @ b)"
proof (induction s)
  case Nil
  then show ?case by auto
next
  case (Cons c s)
  show ?case
  proof
    assume "strings_Contains (c # s) sub"
    then show "\<exists>a b. c # s = a @ sub @ b"
      using Cons.IH by (metis append_Cons append_Nil strings_Contains.simps(2) strings_HasPrefix_iff)
  next
    assume "\<exists>a b. c # s = a @ sub @ b"
    then show "strings_Contains (c # s) sub"
      using Cons.IH by (metis append_eq_Cons_conv strings_Contains.simps(2) strings_HasPrefix_iff)
  qed
qed

text \<open>\<open>strings.Count\<close> of a one-character string.\<close>

definition strings_Count :: "string \<Rightarrow> char \<Rightarrow> nat" where
  "strings_Count s c = count_list s c"

text \<open>\<open>strings.Split\<close> at a one-character separator, and the first cut of \<open>strings.SplitN(s, c, 2)\<close>.\<close>

fun strings_Split :: "string \<Rightarrow> char \<Rightarrow> string list" where
  "strings_Split [] c = [[]]"
| "strings_Split (x # s) c =
     (if x = c then [] # strings_Split s c
      else (case strings_Split s c of [] \<Rightarrow> [[x]] | w # ws \<Rightarrow> (x # w) # ws))"

definition strings_SplitN2 :: "string \<Rightarrow> char \<Rightarrow> string list" where
  "strings_SplitN2 s c =
     (if c \<in> set s then [takeWhile (\<lambda>x. x \<noteq> c) s, tl (dropWhile (\<lambda>x. x \<noteq> c) s)] else [s])"

text \<open>The ASCII white space of \<open>strings.TrimSpace\<close>.\<close>

definition is_space :: "char \<Rightarrow> bool" where
  "is_space c \<longleftrightarrow> c \<in> {CHR '' '', CHR 0x09, CHR 0x0A, CHR 0x0B, CHR 0x0C, CHR 0x0D}"

definition strings_TrimSpace :: "string \<Rightarrow> string" where
  "strings_TrimSpace s = rev (dropWhile is_space (rev (dropWhile is_space s)))"

text \<open>\<open>strings.LastIndex\<close> of a one-character string; \<open>None\<close> stands for \<open>-1\<close>.\<close>

fun strings_LastIndex :: "string \<Rightarrow> char \<Rightarrow> nat option" where
  "strings_LastIndex [] c = None"
| "strings_LastIndex (x # s) c =
     (case strings_LastIndex s c of Some i \<Rightarrow> Some (Suc i) | None \<Rightarrow> if x = c then Some 0 else None)"

lemma strings_LastIndex_Some:
  "strings_LastIndex s c = Some i \<Longrightarrow> i < length s \<and> s ! i = c \<and> c \<notin> set (drop (Suc i) s)"
proof (induction s arbitrary: i)
  case Nil
  then show ?case by simp
next
  case (Cons x s)
  have none: "strings_LastIndex s c = None \<Longrightarrow> c \<notin> set s"
    by (induction s) (auto split: option.splits if_splits)
  show ?case
    using Cons none by (auto split: option.splits if_splits)
qed

lemma strings_LastIndex_None: "strings_LastIndex s c = None \<longleftrightarrow> c \<notin> set s"
  by (induction s) (auto split: option.splits)

text \<open>\<open>strings.ReplaceAll\<close> with a non-empty pattern: leftmost, non-overlapping.\<close>

function strings_ReplaceAll :: "string \<Rightarrow> string \<Rightarrow> string \<Rightarrow> string" where
  "strings_ReplaceAll [] old new = []"
| "strings_ReplaceAll (c # s) old new =
     (if old \<noteq> [] \<and> strings_HasPrefix (c # s) old
      then new @ strings_ReplaceAll (drop (length old) (c # s)) old new
      else c # strings_ReplaceAll s old new)"
  by pat_completeness auto
termination
  by (relation "measure (\<lambda>(s, old, new). length s)") (auto simp: Suc_le_eq)

text \<open>The verb \<open>%q\<close> on ASCII text: control characters and the two special characters are escaped.\<close>

definition hexdigit :: "nat \<Rightarrow> char" where
  "hexdigit n = ''0123456789abcdef'' ! n"

definition quote_char :: "char \<Rightarrow> string" where
  "quote_char c =
     (if c = CHR 0x22 then [CHR 0x5C, CHR 0x22]
      else if c = CHR 0x5C then [CHR 0x5C, CHR 0x5C]
      else if c = CHR 0x07 then [CHR 0x5C, CHR ''a'']
      else if c = CHR 0x08 then [CHR 0x5C, CHR ''b'']
      else if c = CHR 0x0C then [CHR 0x5C, CHR ''f'']
      else if c = CHR 0x0A then [CHR 0x5C, CHR ''n'']
      else if c = CHR 0x0D then [CHR 0x5C, CHR ''r'']
      else if c = CHR 0x09 then [CHR 0x5C, CHR ''t'']
      else if c = CHR 0x0B then [CHR 0x5C, CHR ''v'']
      else if (of_char c :: nat) < 32 \<or> (of_char c :: nat) = 127
        then [CHR 0x5C, CHR ''x'', hexdigit (of_char c div 16), hexdigit (of_char c mod 16)]
      else [c])"

definition fmt_q :: "string \<Rightarrow> string" where
  "fmt_q s = [CHR 0x22] @ concat (map quote_char s) @ [CHR 0x22]"

section \<open>Decimal numbers\<close>

text \<open>The verb \<open>%d\<close>, and \<open>strconv.Atoi\<close> with its sign, syntax and range checks.\<close>

fun nat_digits :: "nat \<Rightarrow> string" where
  "nat_digits n =
     (if n < 10 then [char_of (48 + n)] else nat_digits (n div 10) @ [char_of (48 + n mod 10)])"

declare nat_digits.simps [simp del]

definition fmt_d :: "int \<Rightarrow> string" where
  "fmt_d i = (if i < 0 then CHR ''-'' # nat_digits (nat (- i)) else nat_digits (nat i))"

definition is_digit :: "char \<Rightarrow> bool" where
  "is_digit c \<longleftrightarrow> 48 \<le> (of_char c :: nat) \<and> (of_char c :: nat) \<le> 57"

definition digits_val :: "string \<Rightarrow> nat" where
  "digits_val s = foldl (\<lambda>n c. 10 * n + (of_char c - 48)) 0 s"

definition parse_unsigned :: "string \<Rightarrow> nat option" where
  "parse_unsigned s = (if s \<noteq> [] \<and> list_all is_digit s then Some (digits_val s) else None)"

definition strconv_Atoi :: "string \<Rightarrow> int option" where
  "strconv_Atoi s =
     (let (neg, body) =
        (case s of [] \<Rightarrow> (False, []) | c # r \<Rightarrow>
           if c = CHR ''-'' then (True, r) else if c = CHR ''+'' then (False, r) else (False, s))
      in case parse_unsigned body of
           None \<Rightarrow> None
         | Some n \<Rightarrow>
             let i = (if neg then - int n else int n)
             in if - (2 ^ 63) \<le> i \<and> i < 2 ^ 63 then Some i else None)"

lemma is_digit_char_of [simp]: "d < 10 \<Longrightarrow> is_digit (char_of (48 + d :: nat))"
  by (simp add: is_digit_def)

lemma list_all_is_digit_nat_digits: "list_all is_digit (nat_digits n)"
proof (induction n rule: nat_digits.induct)
  case (1 n)
  then show ?case by (subst nat_digits.simps) auto
qed

lemma nat_digits_not_Nil [simp]: "nat_digits n \<noteq> []"
  by (subst nat_digits.simps) simp

lemma digits_val_snoc: "digits_val (s @ [c]) = 10 * digits_val s + (of_char c - 48)"
  by (simp add: digits_val_def)

lemma digits_val_nat_digits: "digits_val (nat_digits n) = n"
proof (induction n rule: nat_digits.induct)
  case (1 n)
  show ?case
  proof (cases "n < 10")
    case True
    then show ?thesis by (simp add: nat_digits.simps [of n] digits_val_def)
  next
    case False
    then have "digits_val (nat_digits n) = 10 * digits_val (nat_digits (n div 10)) + n mod 10"
      by (simp add: nat_digits.simps [of n] digits_val_snoc)
    with 1 False show ?thesis by simp
  qed
qed

lemma parse_unsigned_nat_digits: "parse_unsigned (nat_digits n) = Some n"
  by (simp add: parse_unsigned_def list_all_is_digit_nat_digits digits_val_nat_digits)

lemma nat_digits_head: "is_digit (hd (nat_digits n))"
  by (metis list_all_is_digit_nat_digits list.set_sel(1) list_all_iff nat_digits_not_Nil)

lemma is_digit_not_sign: "is_digit c \<Longrightarrow> c \<noteq> CHR ''-'' \<and> c \<noteq> CHR ''+''"
  by (auto simp: is_digit_def)

theorem Atoi_fmt_d:
  assumes "- (2 ^ 63) \<le> i" "i < 2 ^ 63"
  shows "strconv_Atoi (fmt_d i) = Some i"
proof (cases "i < 0")
  case True
  with assms show ?thesis
    by (simp add: strconv_Atoi_def fmt_d_def parse_unsigned_nat_digits)
next
  case False
  obtain c r where cr: "nat_digits (nat i) = c # r"
    by (metis list.exhaust nat_digits_not_Nil)
  then have "c \<noteq> CHR ''-''" "c \<noteq> CHR ''+''"
    using nat_digits_head [of "nat i"] is_digit_not_sign by auto
  with False assms cr show ?thesis
    using parse_unsigned_nat_digits [of "nat i"]
    by (simp add: strconv_Atoi_def fmt_d_def)
qed

text \<open>Decimal numerals contain no white space, so trimming the padding gives the numeral back.\<close>

lemma fmt_d_no_space: "c \<in> set (fmt_d i) \<Longrightarrow> \<not> is_space c"
proof -
  have digit: "is_digit c \<Longrightarrow> \<not> is_space c" for c
    by (auto simp: is_digit_def is_space_def)
  have "c \<in> set (nat_digits n) \<Longrightarrow> \<not> is_space c" for n
    using list_all_is_digit_nat_digits [of n] digit by (auto simp: list_all_iff)
  moreover have "\<not> is_space (CHR ''-'')"
    by (simp add: is_space_def)
  ultimately show "c \<in> set (fmt_d i) \<Longrightarrow> \<not> is_space c"
    by (auto simp: fmt_d_def split: if_splits)
qed

lemma strings_TrimSpace_id: "(\<And>c. c \<in> set s \<Longrightarrow> \<not> is_space c) \<Longrightarrow> strings_TrimSpace s = s"
proof -
  assume no_space: "\<And>c. c \<in> set s \<Longrightarrow> \<not> is_space c"
  have "dropWhile is_space t = t" if "set t = set s" for t
    using that no_space by (cases t) auto
  then show ?thesis by (simp add: strings_TrimSpace_def)
qed

lemma strings_TrimSpace_lead: "strings_TrimSpace (CHR '' '' # s) = strings_TrimSpace s"
  by (simp add: strings_TrimSpace_def is_space_def)

end
