(* ===== verification/Go_Errors.thy ===== *)
theory Go_Errors
  imports Prelude
begin

text \<open>
  Go error values as the controllers see them: API server errors with their reason, gRPC status
  errors with their code, plain errors and errors wrapped with \<open>%w\<close>. The inspection functions
  of \<open>internal/util/error.go\<close> and of \<open>replication/replication.go\<close>, over the rules by which
  \<open>status.FromError\<close> and \<open>apierrors.IsNotFound\<close> look through wrapping.
\<close>

section \<open>Error values\<close>

datatype grpc_code =
  C_OK | C_Canceled | C_Unknown | C_InvalidArgument | C_DeadlineExceeded | C_NotFound
| C_AlreadyExists | C_PermissionDenied | C_ResourceExhausted | C_FailedPrecondition | C_Aborted
| C_OutOfRange | C_Unimplemented | C_Internal | C_Unavailable | C_DataLoss | C_Unauthenticated

fun code_String :: "grpc_code \<Rightarrow> string" where
  "code_String C_OK = ''OK''"
| "code_String C_Canceled = ''Canceled''"
| "code_String C_Unknown = ''Unknown''"
| "code_String C_InvalidArgument = ''InvalidArgument''"
| "code_String C_DeadlineExceeded = ''DeadlineExceeded''"
| "code_String C_NotFound = ''NotFound''"
| "code_String C_AlreadyExists = ''AlreadyExists''"
| "code_String C_PermissionDenied = ''PermissionDenied''"
| "code_String C_ResourceExhausted = ''ResourceExhausted''"
| "code_String C_FailedPrecondition = ''FailedPrecondition''"
| "code_String C_Aborted = ''Aborted''"
| "code_String C_OutOfRange = ''OutOfRange''"
| "code_String C_Unimplemented = ''Unimplemented''"
| "code_String C_Internal = ''Internal''"
| "code_String C_Unavailable = ''Unavailable''"
| "code_String C_DataLoss = ''DataLoss''"
| "code_String C_Unauthenticated = ''Unauthenticated''"

datatype api_reason = R_NotFound | R_AlreadyExists | R_Conflict | R_Other

text \<open>
  \<open>ErrWrap pre e post\<close> is \<open>fmt.Errorf("<pre>%w<post>", e)\<close>. A sentinel is a package-level
  error variable, told apart by identity.
\<close>

datatype goerr =
  ApiStatus api_reason string
| GrpcStatus grpc_code string
| ErrMsg string
| Sentinel string
| ErrWrap string goerr string

fun Error :: "goerr \<Rightarrow> string" where
  "Error (ApiStatus r m) = m"
| "Error (GrpcStatus c m) = ''rpc error: code = '' @ code_String c @ '' desc = '' @ m"
| "Error (ErrMsg m) = m"
| "Error (Sentinel m) = m"
| "Error (ErrWrap pre e post) = pre @ Error e @ post"

text \<open>\<open>errors.As\<close> follows the chain of wrapped errors; each function stops at the first match.\<close>

fun api_reason_of :: "goerr \<Rightarrow> api_reason option" where
  "api_reason_of (ApiStatus r m) = Some r"
| "api_reason_of (ErrWrap pre e post) = api_reason_of e"
| "api_reason_of _ = None"

definition IsNotFound :: "goerr \<Rightarrow> bool" where
  "IsNotFound e \<longleftrightarrow> api_reason_of e = Some R_NotFound"

definition IsAlreadyExists :: "goerr \<Rightarrow> bool" where
  "IsAlreadyExists e \<longleftrightarrow> api_reason_of e = Some R_AlreadyExists"

fun grpc_code_of :: "goerr \<Rightarrow> grpc_code option" where
  "grpc_code_of (GrpcStatus c m) = Some c"
| "grpc_code_of (ErrWrap pre e post) = grpc_code_of e"
| "grpc_code_of _ = None"

text \<open>\<open>status.FromError\<close>: code, message and whether a gRPC status was found.\<close>

fun status_FromError :: "goerr \<Rightarrow> grpc_code \<times> string \<times> bool" where
  "status_FromError (GrpcStatus c m) = (c, m, True)"
| "status_FromError e =
     (case grpc_code_of e of
        Some c \<Rightarrow> (c, Error e, True)
      | None \<Rightarrow> (C_Unknown, Error e, False))"

definition status_Code :: "goerr \<Rightarrow> grpc_code" where
  "status_Code e = fst (status_FromError e)"

section \<open>internal/util/error.go\<close>

definition GetErrorMessage :: "goerr \<Rightarrow> string" where
  "GetErrorMessage err =
     (let (c, m, ok) = status_FromError err in if \<not> ok then Error err else m)"

definition IsUnimplementedError :: "goerr \<Rightarrow> bool" where
  "IsUnimplementedError err =
     (let (c, m, ok) = status_FromError err in if \<not> ok then False else c = C_Unimplemented)"

section \<open>Error inspection of replication/replication.go\<close>

text \<open>The error field of a response is a pointer, \<open>None\<close> when the call succeeded.\<close>

definition HasKnownGRPCError :: "goerr option \<Rightarrow> grpc_code list \<Rightarrow> bool" where
  "HasKnownGRPCError err knownErrors =
     (case err of
        None \<Rightarrow> False
      | Some e \<Rightarrow>
          (let (c, m, ok) = status_FromError e in if \<not> ok then False else c \<in> set knownErrors))"

definition GetMessageFromError :: "goerr \<Rightarrow> string" where
  "GetMessageFromError err =
     (let (c, m, ok) = status_FromError err in if \<not> ok then Error err else m)"

section \<open>Facts\<close>

lemma status_FromError_ok: "snd (snd (status_FromError e)) \<longleftrightarrow> grpc_code_of e \<noteq> None"
  by (cases e) (auto split: option.splits)

lemma status_FromError_code: "grpc_code_of e = Some c \<Longrightarrow> fst (status_FromError e) = c"
  by (cases e) auto

lemma HasKnownGRPCError_iff:
  "HasKnownGRPCError (Some e) codes \<longleftrightarrow> (\<exists>c \<in> set codes. grpc_code_of e = Some c)"
  by (cases e) (auto simp: HasKnownGRPCError_def split: option.splits)

lemma HasKnownGRPCError_None [simp]: "\<not> HasKnownGRPCError None codes"
  by (simp add: HasKnownGRPCError_def)

lemma IsUnimplementedError_iff: "IsUnimplementedError e \<longleftrightarrow> grpc_code_of e = Some C_Unimplemented"
  by (cases e) (auto simp: IsUnimplementedError_def split: option.splits)

lemma status_Code_iff: "c \<noteq> C_Unknown \<Longrightarrow> status_Code e = c \<longleftrightarrow> grpc_code_of e = Some c"
  by (cases e) (auto simp: status_Code_def split: option.splits)

lemma GetMessageFromError_eq: "GetMessageFromError = GetErrorMessage"
  by (rule ext) (simp add: GetMessageFromError_def GetErrorMessage_def)

lemma GetErrorMessage_cases:
  "GetErrorMessage e = (case e of GrpcStatus c m \<Rightarrow> m | _ \<Rightarrow> Error e)"
  by (cases e) (auto simp: GetErrorMessage_def split: option.splits)

end
