(* ===== verification/Api_Types.thy ===== *)
theory Api_Types
  imports Go_Errors
begin

text \<open>
  The Kubernetes objects the controllers read and write: the custom resources of
  \<open>api/csiaddons/v1alpha1\<close> and \<open>api/replication.storage/v1alpha1\<close> with the fields the
  controllers touch, and the core objects (claims, volumes, attachments, pods, leases) as far as
  they are read. Pointers are \<open>option\<close> values, times are nanoseconds on one clock, durations are
  nanoseconds.
\<close>

type_synonym time = int
type_synonym duration = int

abbreviation second :: duration where "second \<equiv> 1000000000"
abbreviation minute :: duration where "minute \<equiv> 60 * second"
abbreviation hour :: duration where "hour \<equiv> 60 * minute"

record nsname =
  nn_namespace :: string
  nn_name :: string

section \<open>Object metadata and conditions\<close>

record owner_ref =
  or_apiVersion :: string
  or_kind :: string
  or_name :: string
  or_uid :: string
  or_controller :: bool

record object_meta =
  om_name :: string
  om_namespace :: string
  om_uid :: string
  om_generation :: int
  om_finalizers :: "string list"
  om_annotations :: strmap
  om_labels :: strmap
  om_ownerReferences :: "owner_ref list"
  om_creationTimestamp :: "time option"
  om_deletionTimestamp :: "time option"

definition empty_meta :: "string \<Rightarrow> string \<Rightarrow> object_meta" where
  "empty_meta n ns = \<lparr>om_name = n, om_namespace = ns, om_uid = [], om_generation = 0,
     om_finalizers = [], om_annotations = [], om_labels = [], om_ownerReferences = [],
     om_creationTimestamp = None, om_deletionTimestamp = None\<rparr>"

datatype cond_status = ConditionTrue | ConditionFalse | ConditionUnknown

record condition =
  cd_type :: string
  cd_status :: cond_status
  cd_observedGeneration :: int
  cd_lastTransitionTime :: time
  cd_reason :: string
  cd_message :: string

section \<open>Replication resources\<close>

datatype replication_state = Primary | Secondary | Resync | OtherReplicationState string

fun string_of_replication_state :: "replication_state \<Rightarrow> string" where
  "string_of_replication_state Primary = ''primary''"
| "string_of_replication_state Secondary = ''secondary''"
| "string_of_replication_state Resync = ''resync''"
| "string_of_replication_state (OtherReplicationState s) = s"

datatype vr_state = NoState | PrimaryState | SecondaryState | UnknownState

record data_source =
  ds_kind :: string
  ds_name :: string

record vr_spec =
  vrs_volumeReplicationClass :: string
  vrs_replicationState :: replication_state
  vrs_dataSource :: data_source
  vrs_autoResync :: bool
  vrs_replicationHandle :: string

record vr_status =
  vst_state :: vr_state
  vst_message :: string
  vst_conditions :: "condition list"
  vst_observedGeneration :: int
  vst_lastStartTime :: "time option"
  vst_lastCompletionTime :: "time option"
  vst_lastSyncTime :: "time option"
  vst_lastSyncBytes :: "int option"
  vst_lastSyncDuration :: "duration option"

record volume_replication =
  vr_meta :: object_meta
  vr_spec :: vr_spec
  vr_status :: vr_status

text \<open>\<open>VolumeReplicationClass\<close> and \<open>VolumeGroupReplicationClass\<close> carry the same two fields.\<close>

record replication_class =
  rc_name :: string
  rc_provisioner :: string
  rc_parameters :: strmap

record vgr_spec =
  vgs_volumeGroupReplicationClassName :: string
  vgs_volumeReplicationClassName :: string
  vgs_volumeReplicationName :: string
  vgs_volumeGroupReplicationContentName :: string
  vgs_selector :: string
  vgs_replicationState :: replication_state
  vgs_autoResync :: bool
  vgs_external :: bool

record vgr_status =
  vgst_replication :: vr_status
  vgst_pvcRefList :: "string list option"

record volume_group_replication =
  vgr_kind :: string
  vgr_meta :: object_meta
  vgr_spec :: vgr_spec
  vgr_status :: vgr_status

record vgrc_spec =
  vgcs_ref :: "nsname option"
  vgcs_handle :: string
  vgcs_provisioner :: string
  vgcs_className :: string
  vgcs_attributes :: strmap
  vgcs_volumeHandles :: "string list"

record vgr_content =
  vgrc_meta :: object_meta
  vgrc_spec :: vgrc_spec
  vgrc_pvRefList :: "string list"

section \<open>Core resources\<close>

datatype pvc_phase = ClaimBound | ClaimPending | ClaimLost

record pvc =
  pvc_meta :: object_meta
  pvc_volumeName :: string
  pvc_storageClassName :: "string option"
  pvc_phase :: pvc_phase

record csi_source =
  csi_driver :: string
  csi_volumeHandle :: string

record pv =
  pv_name :: string
  pv_csi :: "csi_source option"

record volume_attachment =
  va_deleting :: bool
  va_attached :: bool
  va_persistentVolumeName :: "string option"
  va_nodeName :: string

record lease =
  ls_namespace :: string
  ls_holderIdentity :: "string option"

record pod =
  pod_ip :: string

section \<open>CSI-Addons resources\<close>

datatype node_state = NodeNoState | NodeConnected | NodeFailed | NodeRetrying

record client_detail =
  cl_id :: string
  cl_cidrs :: "string list"

record fence_client_status =
  fcs_className :: string
  fcs_clients :: "client_detail list"

record csiaddons_node =
  can_meta :: object_meta
  can_driverName :: string
  can_endPoint :: string
  can_nodeID :: string
  can_state :: node_state
  can_message :: string
  can_reason :: string
  can_capabilities :: "string list"
  can_fenceClients :: "fence_client_status list"

record network_fence_class =
  nfc_meta :: object_meta
  nfc_provisioner :: string
  nfc_parameters :: strmap

datatype fence_state = Fenced | Unfenced | OtherFenceState string

datatype fence_result = FenceNoResult | FencingOperationResultSucceeded | FencingOperationResultFailed

record network_fence =
  nf_meta :: object_meta
  nf_className :: string
  nf_driver :: string
  nf_fenceState :: fence_state
  nf_cidrs :: "string list option"
  nf_secretName :: string
  nf_secretNamespace :: string
  nf_parameters :: "strmap option"
  nf_result :: fence_result
  nf_message :: string

datatype operation_result = NoResult | OperationResultSucceeded | OperationResultFailed

text \<open>
  \<open>ReclaimSpaceJob\<close> and \<open>EncryptionKeyRotationJob\<close> have the same fields but for
  \<open>reclaimedSpace\<close>, which only the former has and the latter never sets.
\<close>

record job_spec =
  js_targetPVC :: string
  js_backoffLimit :: int
  js_retryDeadlineSeconds :: int
  js_timeout :: "int option"

record job_status =
  jst_result :: operation_result
  jst_message :: string
  jst_reclaimedSpace :: "int option"
  jst_conditions :: "condition list"
  jst_retries :: int
  jst_startTime :: "time option"
  jst_completionTime :: "time option"

record job =
  job_meta :: object_meta
  job_spec :: job_spec
  job_status :: job_status

datatype concurrency_policy = ForbidConcurrent | ReplaceConcurrent | NoConcurrencyPolicy

record cronjob_spec =
  cjs_schedule :: string
  cjs_startingDeadlineSeconds :: "int option"
  cjs_concurrencyPolicy :: concurrency_policy
  cjs_suspend :: "bool option"
  cjs_jobAnnotations :: strmap
  cjs_jobLabels :: strmap
  cjs_jobSpec :: job_spec
  cjs_successfulJobsHistoryLimit :: "int option"
  cjs_failedJobsHistoryLimit :: "int option"

record cronjob =
  cj_meta :: object_meta
  cj_spec :: cronjob_spec
  cj_active :: "string option"
  cj_lastScheduleTime :: "time option"
  cj_lastSuccessfulTime :: "time option"

end
