(* ===== verification/Conditions.thy ===== *)
theory Conditions
  imports Api_Types
begin

text \<open>
  The status conditions of replication resources, \<open>replication.storage/status.go\<close> with the
  constants of \<open>api/replication.storage/v1alpha1/volumereplication_types.go\<close>, and the
  condition writer of the job controllers, \<open>setFailedCondition\<close> of
  \<open>csiaddons/reclaimspacejob_controller.go\<close>. A list of conditions stands for a map from
  condition types; the interface of such a writer is a locale with one interpretation per writer.
  The clock is read once per group of writes (\<open>now\<close>).
\<close>

section \<open>Constants\<close>

abbreviation (input) ConditionCompleted :: string where "ConditionCompleted \<equiv> ''Completed''"
abbreviation (input) ConditionDegraded :: string where "ConditionDegraded \<equiv> ''Degraded''"
abbreviation (input) ConditionResyncing :: string where "ConditionResyncing \<equiv> ''Resyncing''"
abbreviation (input) ConditionValidated :: string where "ConditionValidated \<equiv> ''Validated''"
abbreviation (input) ConditionReplicating :: string where "ConditionReplicating \<equiv> ''Replicating''"

abbreviation (input) MessagePromoted :: string where
  "MessagePromoted \<equiv> ''is promoted to primary and replicating to secondary''"
abbreviation (input) MessageHealthy :: string where "MessageHealthy \<equiv> ''is healthy''"
abbreviation (input) MessageNotResyncing :: string where "MessageNotResyncing \<equiv> ''is not resyncing''"
abbreviation (input) MessageValidated :: string where
  "MessageValidated \<equiv> ''is validated and met all prerequisites''"
abbreviation (input) MessageFailedPromoted :: string where "MessageFailedPromoted \<equiv> ''failed to promote''"
abbreviation (input) MessageFailedDemoted :: string where "MessageFailedDemoted \<equiv> ''failed to demote''"
abbreviation (input) MessageFailedPreCondition :: string where
  "MessageFailedPreCondition \<equiv> ''failed to meet prerequisite''"
abbreviation (input) MessageDemoted :: string where "MessageDemoted \<equiv> ''is demoted to secondary''"
abbreviation (input) MessageDegraded :: string where "MessageDegraded \<equiv> ''is degraded''"
abbreviation (input) MessageResyncTriggered :: string where
  "MessageResyncTriggered \<equiv> ''is resyncing changes from primary to secondary''"
abbreviation (input) MessageResyncFailed :: string where "MessageResyncFailed \<equiv> ''failed to resync''"
abbreviation (input) MessageReplicating :: string where "MessageReplicating \<equiv> ''is replicating''"
abbreviation (input) MessageNotReplicating :: string where "MessageNotReplicating \<equiv> ''is not replicating''"
abbreviation (input) MessageUnknownReplicationState :: string where
  "MessageUnknownReplicationState \<equiv> ''replication status is unknown''"

abbreviation (input) Promoted :: string where "Promoted \<equiv> ''Promoted''"
abbreviation (input) Demoted :: string where "Demoted \<equiv> ''Demoted''"
abbreviation (input) FailedToPromote :: string where "FailedToPromote \<equiv> ''FailedToPromote''"
abbreviation (input) FailedToDemote :: string where "FailedToDemote \<equiv> ''FailedToDemote''"
abbreviation (input) ErrorReason :: string where "ErrorReason \<equiv> ''Error''"
abbreviation (input) VolumeDegraded :: string where "VolumeDegraded \<equiv> ''VolumeDegraded''"
abbreviation (input) Healthy :: string where "Healthy \<equiv> ''Healthy''"
abbreviation (input) ResyncTriggered :: string where "ResyncTriggered \<equiv> ''ResyncTriggered''"
abbreviation (input) FailedToResync :: string where "FailedToResync \<equiv> ''FailedToResync''"
abbreviation (input) NotResyncing :: string where "NotResyncing \<equiv> ''NotResyncing''"
abbreviation (input) PrerequisiteMet :: string where "PrerequisiteMet \<equiv> ''PrerequisiteMet''"
abbreviation (input) PrerequisiteNotMet :: string where "PrerequisiteNotMet \<equiv> ''PrerequisiteNotMet''"
abbreviation (input) ReplicatingReason :: string where "ReplicatingReason \<equiv> ''Replicating''"
abbreviation (input) NotReplicating :: string where "NotReplicating \<equiv> ''NotReplicating''"

abbreviation (input) pvcDataSource :: string where "pvcDataSource \<equiv> ''PersistentVolumeClaim''"
abbreviation (input) volumeGroupReplicationDataSource :: string where
  "volumeGroupReplicationDataSource \<equiv> ''VolumeGroupReplication''"

section \<open>status.go\<close>

text \<open>A pointer into the slice of conditions is the index of the element.\<close>

fun findCondition :: "condition list \<Rightarrow> string \<Rightarrow> nat option" where
  "findCondition [] t = None"
| "findCondition (c # cs) t =
     (if cd_type c = t then Some 0 else map_option Suc (findCondition cs t))"

definition setStatusCondition :: "time \<Rightarrow> condition list \<Rightarrow> condition \<Rightarrow> condition list" where
  "setStatusCondition now existingConditions newCondition =
     (case findCondition existingConditions (cd_type newCondition) of
        None \<Rightarrow> existingConditions @ [newCondition\<lparr>cd_lastTransitionTime := now\<rparr>]
      | Some i \<Rightarrow>
          (let c = existingConditions ! i;
               c = (if cd_status c \<noteq> cd_status newCondition
                    then c\<lparr>cd_status := cd_status newCondition, cd_lastTransitionTime := now\<rparr>
                    else c)
           in existingConditions[i := c\<lparr>cd_message := cd_message newCondition,
                cd_reason := cd_reason newCondition,
                cd_observedGeneration := cd_observedGeneration newCondition\<rparr>]))"

definition removeCondition :: "condition list \<Rightarrow> string \<Rightarrow> condition list" where
  "removeCondition conditions conditionType =
     slices_DeleteFunc conditions (\<lambda>condition. cd_type condition = conditionType)"

definition mkCondition :: "string \<Rightarrow> string \<Rightarrow> string \<Rightarrow> int \<Rightarrow> cond_status \<Rightarrow> condition" where
  "mkCondition message ty reason observedGeneration status =
     \<lparr>cd_type = ty, cd_status = status, cd_observedGeneration = observedGeneration,
      cd_lastTransitionTime = 0, cd_reason = reason, cd_message = message\<rparr>"

definition getSource :: "string \<Rightarrow> string" where
  "getSource dataSource =
     (if dataSource = pvcDataSource then ''volume''
      else if dataSource = volumeGroupReplicationDataSource then ''volume group''
      else [])"

text \<open>\<open>fmt.Sprintf("%s %s", a, b)\<close> and \<open>fmt.Sprintf("%s %s: %s", a, b, c)\<close>\<close>

definition sprintf_ss :: "string \<Rightarrow> string \<Rightarrow> string" where
  "sprintf_ss a b = a @ '' '' @ b"

definition sprintf_sss :: "string \<Rightarrow> string \<Rightarrow> string \<Rightarrow> string" where
  "sprintf_sss a b c = a @ '' '' @ b @ '': '' @ c"

text \<open>Conditions written one after the other to the same slice.\<close>

definition setAll :: "time \<Rightarrow> condition list \<Rightarrow> condition list \<Rightarrow> condition list" where
  "setAll now conditions cs = foldl (setStatusCondition now) conditions cs"

definition setPromotedCondition :: "time \<Rightarrow> condition list \<Rightarrow> int \<Rightarrow> string \<Rightarrow> condition list" where
  "setPromotedCondition now conditions observedGeneration dataSource =
     (let source = getSource dataSource in setAll now conditions
       [mkCondition (sprintf_ss source MessagePromoted)
          ConditionCompleted Promoted observedGeneration ConditionTrue,
        mkCondition (sprintf_ss source MessageHealthy)
          ConditionDegraded Healthy observedGeneration ConditionFalse,
        mkCondition (sprintf_ss source MessageNotResyncing)
          ConditionResyncing NotResyncing observedGeneration ConditionFalse])"

definition setFailedPromotionCondition ::
  "time \<Rightarrow> condition list \<Rightarrow> int \<Rightarrow> string \<Rightarrow> string \<Rightarrow> string \<Rightarrow> condition list" where
  "setFailedPromotionCondition now conditions observedGeneration dataSource completedMessage
      degradedDetailedMessage =
     (let source = getSource dataSource in setAll now conditions
       [mkCondition completedMessage
          ConditionCompleted FailedToPromote observedGeneration ConditionFalse,
        mkCondition (sprintf_sss source MessageFailedPromoted degradedDetailedMessage)
          ConditionDegraded ErrorReason observedGeneration ConditionTrue,
        mkCondition (sprintf_ss source MessageNotResyncing)
          ConditionResyncing NotResyncing observedGeneration ConditionFalse,
        mkCondition (sprintf_ss source MessageValidated)
          ConditionValidated PrerequisiteMet observedGeneration ConditionTrue])"

definition setFailedValidationCondition ::
  "time \<Rightarrow> condition list \<Rightarrow> int \<Rightarrow> string \<Rightarrow> string \<Rightarrow> string \<Rightarrow> condition list" where
  "setFailedValidationCondition now conditions observedGeneration dataSource degradedMessage
      validationDetailedMessage =
     (let source = getSource dataSource in setAll now conditions
       [mkCondition (sprintf_ss source MessageFailedPromoted)
          ConditionCompleted FailedToPromote observedGeneration ConditionFalse,
        mkCondition degradedMessage
          ConditionDegraded ErrorReason observedGeneration ConditionTrue,
        mkCondition (sprintf_ss source MessageNotResyncing)
          ConditionResyncing NotResyncing observedGeneration ConditionFalse,
        mkCondition (MessageFailedPreCondition @ '': '' @ validationDetailedMessage)
          ConditionValidated PrerequisiteNotMet observedGeneration ConditionFalse])"

definition setNotDegradedCondition :: "time \<Rightarrow> condition list \<Rightarrow> int \<Rightarrow> string \<Rightarrow> condition list" where
  "setNotDegradedCondition now conditions observedGeneration dataSource =
     (let source = getSource dataSource in setAll now conditions
       [mkCondition (sprintf_ss source MessageDemoted)
          ConditionDegraded Healthy observedGeneration ConditionFalse,
        mkCondition (sprintf_ss source MessageNotResyncing)
          ConditionResyncing NotResyncing observedGeneration ConditionFalse])"

definition setDemotedCondition :: "time \<Rightarrow> condition list \<Rightarrow> int \<Rightarrow> string \<Rightarrow> condition list" where
  "setDemotedCondition now conditions observedGeneration dataSource =
     (let source = getSource dataSource in setAll now conditions
       [mkCondition (sprintf_ss source MessageDemoted)
          ConditionCompleted Demoted observedGeneration ConditionTrue,
        mkCondition (sprintf_ss source MessageDegraded)
          ConditionDegraded VolumeDegraded observedGeneration ConditionTrue,
        mkCondition (sprintf_ss source MessageNotResyncing)
          ConditionResyncing NotResyncing observedGeneration ConditionFalse])"

definition setFailedDemotionCondition ::
  "time \<Rightarrow> condition list \<Rightarrow> int \<Rightarrow> string \<Rightarrow> string \<Rightarrow> string \<Rightarrow> condition list" where
  "setFailedDemotionCondition now conditions observedGeneration dataSource completedMessage
      degradedDetailedMessage =
     (let source = getSource dataSource in setAll now conditions
       [mkCondition completedMessage
          ConditionCompleted FailedToDemote observedGeneration ConditionFalse,
        mkCondition (sprintf_sss source MessageFailedDemoted degradedDetailedMessage)
          ConditionDegraded ErrorReason observedGeneration ConditionTrue,
        mkCondition (sprintf_ss source MessageNotResyncing)
          ConditionResyncing NotResyncing observedGeneration ConditionFalse])"

definition setResyncCondition :: "time \<Rightarrow> condition list \<Rightarrow> int \<Rightarrow> string \<Rightarrow> condition list" where
  "setResyncCondition now conditions observedGeneration dataSource =
     (let source = getSource dataSource in setAll now conditions
       [mkCondition (sprintf_ss source MessageDemoted)
          ConditionCompleted Demoted observedGeneration ConditionTrue,
        mkCondition (sprintf_ss source MessageDegraded)
          ConditionDegraded VolumeDegraded observedGeneration ConditionTrue,
        mkCondition (sprintf_ss source MessageResyncTriggered)
          ConditionResyncing ResyncTriggered observedGeneration ConditionTrue])"

definition setFailedResyncCondition ::
  "time \<Rightarrow> condition list \<Rightarrow> int \<Rightarrow> string \<Rightarrow> string \<Rightarrow> string \<Rightarrow> condition list" where
  "setFailedResyncCondition now conditions observedGeneration dataSource completedMessage
      degradedDetailedMessage =
     (let source = getSource dataSource in setAll now conditions
       [mkCondition completedMessage
          ConditionCompleted FailedToResync observedGeneration ConditionFalse,
        mkCondition (sprintf_sss source MessageResyncFailed degradedDetailedMessage)
          ConditionDegraded ErrorReason observedGeneration ConditionTrue,
        mkCondition (sprintf_ss source MessageNotResyncing)
          ConditionResyncing FailedToResync observedGeneration ConditionFalse])"

definition setUnknownReplicationCondition ::
  "time \<Rightarrow> condition list \<Rightarrow> int \<Rightarrow> string \<Rightarrow> string \<Rightarrow> condition list" where
  "setUnknownReplicationCondition now conditions observedGeneration dataSource statusMessage =
     (let source = getSource dataSource in setStatusCondition now conditions
       (mkCondition (sprintf_sss source MessageUnknownReplicationState statusMessage)
          ConditionReplicating ReplicatingReason observedGeneration ConditionUnknown))"

definition setHealthyReplicationCondition ::
  "time \<Rightarrow> condition list \<Rightarrow> int \<Rightarrow> string \<Rightarrow> string \<Rightarrow> condition list" where
  "setHealthyReplicationCondition now conditions observedGeneration dataSource statusMessage =
     (let source = getSource dataSource in setStatusCondition now conditions
       (mkCondition (sprintf_sss source MessageReplicating statusMessage)
          ConditionReplicating ReplicatingReason observedGeneration ConditionTrue))"

definition setDegradedReplicationCondition ::
  "time \<Rightarrow> condition list \<Rightarrow> int \<Rightarrow> string \<Rightarrow> string \<Rightarrow> condition list" where
  "setDegradedReplicationCondition now conditions observedGeneration dataSource statusMessage =
     (let source = getSource dataSource in setStatusCondition now conditions
       (mkCondition (sprintf_sss source MessageNotReplicating statusMessage)
          ConditionReplicating NotReplicating observedGeneration ConditionFalse))"

section \<open>setFailedCondition of the job controllers\<close>

abbreviation (input) conditionFailed :: string where "conditionFailed \<equiv> ''Failed''"
abbreviation (input) reasonFailed :: string where "reasonFailed \<equiv> ''failed''"

fun replaceCondition :: "condition list \<Rightarrow> condition \<Rightarrow> condition list" where
  "replaceCondition [] new = [new]"
| "replaceCondition (c # cs) new =
     (if cd_type c = cd_type new then new # cs else c # replaceCondition cs new)"

definition setFailedCondition :: "time \<Rightarrow> condition list \<Rightarrow> string \<Rightarrow> int \<Rightarrow> condition list" where
  "setFailedCondition now conditions message observedGeneration =
     replaceCondition conditions
       \<lparr>cd_type = conditionFailed, cd_status = ConditionTrue,
        cd_observedGeneration = observedGeneration, cd_lastTransitionTime = now,
        cd_reason = reasonFailed, cd_message = message\<rparr>"

section \<open>Conditions as a map from types\<close>

definition cond_lookup :: "condition list \<Rightarrow> string \<Rightarrow> condition option" where
  "cond_lookup cs t = List.find (\<lambda>c. cd_type c = t) cs"

definition wf_conditions :: "condition list \<Rightarrow> bool" where
  "wf_conditions cs \<longleftrightarrow> distinct (map cd_type cs)"

lemma findCondition_None: "findCondition cs t = None \<longleftrightarrow> t \<notin> cd_type ` set cs"
  by (induction cs) auto

lemma findCondition_Some:
  "findCondition cs t = Some i \<Longrightarrow>
     i < length cs \<and> cd_type (cs ! i) = t \<and> (\<forall>j < i. cd_type (cs ! j) \<noteq> t)"
proof (induction cs arbitrary: i)
  case Nil
  then show ?case by simp
next
  case (Cons c cs)
  show ?case
  proof (cases "cd_type c = t")
    case True
    with Cons.prems show ?thesis by simp
  next
    case False
    with Cons.prems obtain k where k: "findCondition cs t = Some k" "i = Suc k" by auto
    with Cons.IH have IH: "k < length cs" "cd_type (cs ! k) = t" "\<forall>j < k. cd_type (cs ! j) \<noteq> t"
      by auto
    have "cd_type ((c # cs) ! j) \<noteq> t" if "j < Suc k" for j
      using that False IH(3) by (cases j) simp_all
    with IH k show ?thesis by simp
  qed
qed

lemma cond_lookup_findCondition: "cond_lookup cs t = map_option ((!) cs) (findCondition cs t)"
  by (induction cs) (auto simp: cond_lookup_def option.map_comp comp_def)

lemma cond_lookup_type: "cond_lookup cs t = Some c \<Longrightarrow> cd_type c = t"
  by (auto simp: cond_lookup_def find_Some_iff)

lemma cond_lookup_None: "cond_lookup cs t = None \<longleftrightarrow> t \<notin> cd_type ` set cs"
  by (auto simp: cond_lookup_def find_None_iff)

lemma cond_lookup_append:
  "cond_lookup (cs @ ds) t =
     (case cond_lookup cs t of None \<Rightarrow> cond_lookup ds t | Some c \<Rightarrow> Some c)"
  by (induction cs) (auto simp: cond_lookup_def)

lemma cond_lookup_list_update:
  assumes "findCondition cs t = Some i" "cd_type c = t"
  shows "cond_lookup (cs[i := c]) t' = (if t' = t then Some c else cond_lookup cs t')"
  using assms
proof (induction cs arbitrary: i)
  case Nil
  then show ?case by simp
next
  case (Cons d cs)
  show ?case
  proof (cases "cd_type d = t")
    case True
    with Cons.prems show ?thesis by (auto simp: cond_lookup_def)
  next
    case False
    with Cons.prems obtain k where "findCondition cs t = Some k" "i = Suc k" by auto
    with False Cons.IH Cons.prems show ?thesis by (auto simp: cond_lookup_def)
  qed
qed

text \<open>What a write makes of the condition found under its type.\<close>

definition merge_condition :: "time \<Rightarrow> condition option \<Rightarrow> condition \<Rightarrow> condition" where
  "merge_condition now old new =
     (case old of
        None \<Rightarrow> new\<lparr>cd_lastTransitionTime := now\<rparr>
      | Some c \<Rightarrow> new\<lparr>cd_lastTransitionTime :=
          (if cd_status c = cd_status new then cd_lastTransitionTime c else now)\<rparr>)"

lemma cond_lookup_setStatusCondition:
  "cond_lookup (setStatusCondition now cs new) t =
     (if t = cd_type new then Some (merge_condition now (cond_lookup cs t) new)
      else cond_lookup cs t)"
proof (cases "findCondition cs (cd_type new)")
  case None
  then have "cond_lookup cs (cd_type new) = None"
    by (simp add: cond_lookup_findCondition)
  moreover have "cond_lookup [c] u = (if u = cd_type c then Some c else None)" for c :: condition and u
    by (simp add: cond_lookup_def)
  ultimately show ?thesis
    using None
    by (simp add: setStatusCondition_def cond_lookup_append merge_condition_def
        split: option.splits)
next
  case (Some i)
  define c where "c = cs ! i"
  have lookup: "cond_lookup cs (cd_type new) = Some c"
    using Some by (simp add: cond_lookup_findCondition c_def)
  let ?d = "merge_condition now (Some c) new"
  have "cd_type c = cd_type new"
    using lookup by (rule cond_lookup_type)
  then have "setStatusCondition now cs new = cs[i := ?d]"
    using Some
    by (cases c; cases new)
      (simp add: setStatusCondition_def c_def [symmetric] merge_condition_def Let_def)
  moreover have "cd_type ?d = cd_type new"
    by (simp add: merge_condition_def)
  ultimately show ?thesis
    using cond_lookup_list_update [OF Some] lookup by simp
qed

lemma types_setStatusCondition:
  "map cd_type (setStatusCondition now cs new) =
     (if cd_type new \<in> cd_type ` set cs then map cd_type cs else map cd_type cs @ [cd_type new])"
proof (cases "findCondition cs (cd_type new)")
  case None
  then have "cd_type new \<notin> cd_type ` set cs" by (simp add: findCondition_None)
  with None show ?thesis by (simp add: setStatusCondition_def)
next
  case (Some i)
  then have "i < length cs" "cd_type (cs ! i) = cd_type new"
    using findCondition_Some by blast+
  moreover have "cd_type new \<in> cd_type ` set cs"
    using Some findCondition_None by (metis option.distinct(1))
  ultimately show ?thesis
    using Some by (simp add: setStatusCondition_def Let_def map_update list_update_same_conv)
qed

lemma cond_lookup_removeCondition:
  "cond_lookup (removeCondition cs t) t' = (if t' = t then None else cond_lookup cs t')"
  by (induction cs) (auto simp: removeCondition_def slices_DeleteFunc_def cond_lookup_def)

lemma cond_lookup_replaceCondition:
  "cond_lookup (replaceCondition cs new) t = (if t = cd_type new then Some new else cond_lookup cs t)"
  by (induction cs) (auto simp: cond_lookup_def)

lemma types_replaceCondition:
  "map cd_type (replaceCondition cs new) =
     (if cd_type new \<in> cd_type ` set cs then map cd_type cs else map cd_type cs @ [cd_type new])"
  by (induction cs) auto

section \<open>The interface of a condition writer\<close>

text \<open>
  A writer stores a condition under its type, touches no other type and keeps one condition per
  type. The writers of the repository differ only in the transition time.
\<close>

locale condition_writer =
  fixes put :: "time \<Rightarrow> 'c \<Rightarrow> condition \<Rightarrow> 'c"
    and look :: "'c \<Rightarrow> string \<Rightarrow> condition option"
    and wf :: "'c \<Rightarrow> bool"
  assumes look_write_other: "t \<noteq> cd_type new \<Longrightarrow> look (put now cs new) t = look cs t"
    and look_write_same:
      "\<exists>tr. look (put now cs new) (cd_type new) = Some (new\<lparr>cd_lastTransitionTime := tr\<rparr>)"
    and wf_write: "wf cs \<Longrightarrow> wf (put now cs new)"
begin

lemma wf_write_all: "wf cs \<Longrightarrow> wf (foldl (put now) cs news)"
  by (induction news arbitrary: cs) (auto simp: wf_write)

lemma look_write_all_other:
  "t \<notin> cd_type ` set news \<Longrightarrow> look (foldl (put now) cs news) t = look cs t"
  by (induction news arbitrary: cs) (auto simp: look_write_other)

text \<open>After several writes the last condition of each type is the one found there.\<close>

lemma look_write_all:
  assumes "distinct (map cd_type news)" "new \<in> set news"
  shows "\<exists>tr. look (foldl (put now) cs news) (cd_type new) = Some (new\<lparr>cd_lastTransitionTime := tr\<rparr>)"
  using assms
proof (induction news arbitrary: cs)
  case Nil
  then show ?case by simp
next
  case (Cons n news)
  show ?case
  proof (cases "new = n")
    case True
    with Cons.prems have "cd_type new \<notin> cd_type ` set news" by simp
    then have "look (foldl (put now) cs (n # news)) (cd_type new) = look (put now cs n) (cd_type new)"
      by (simp add: look_write_all_other)
    with True look_write_same [of now cs n] show ?thesis by metis
  next
    case False
    with Cons.prems have "distinct (map cd_type news)" "new \<in> set news" by simp_all
    then show ?thesis using Cons.IH by simp
  qed
qed

end

text \<open>A writer that also keeps the transition time while the status stays the same.\<close>

locale condition_store = condition_writer +
  assumes look_write_time:
    "look cs (cd_type new) = Some c \<Longrightarrow> cd_status c = cd_status new \<Longrightarrow>
     look (put now cs new) (cd_type new) = Some (new\<lparr>cd_lastTransitionTime := cd_lastTransitionTime c\<rparr>)"
begin

text \<open>Writing the same condition again changes nothing, however late the second put is.\<close>

lemma write_idem: "look (put now' (put now cs new) new) t = look (put now cs new) t"
proof (cases "t = cd_type new")
  case True
  obtain tr where tr: "look (put now cs new) (cd_type new) = Some (new\<lparr>cd_lastTransitionTime := tr\<rparr>)"
    using look_write_same by blast
  have "look (put now' (put now cs new) new) (cd_type new) = Some (new\<lparr>cd_lastTransitionTime := tr\<rparr>)"
    by (subst look_write_time [OF tr]) simp_all
  with tr True show ?thesis by simp
next
  case False
  then show ?thesis by (simp add: look_write_other)
qed

end

interpretation status_conditions: condition_store setStatusCondition cond_lookup wf_conditions
proof unfold_locales
  show "wf_conditions (setStatusCondition now cs new)" if "wf_conditions cs" for now cs new
    using that unfolding wf_conditions_def types_setStatusCondition by auto
qed (auto simp: cond_lookup_setStatusCondition merge_condition_def split: option.splits)

interpretation job_conditions: condition_writer
  "\<lambda>now cs new. replaceCondition cs (new\<lparr>cd_lastTransitionTime := now\<rparr>)" cond_lookup wf_conditions
proof unfold_locales
  show "wf_conditions (replaceCondition cs (new\<lparr>cd_lastTransitionTime := now\<rparr>))"
    if "wf_conditions cs" for now :: time and cs new
    using that unfolding wf_conditions_def types_replaceCondition by auto
qed (auto simp: cond_lookup_replaceCondition)

lemmas setter_defs =
  setPromotedCondition_def setFailedPromotionCondition_def setFailedValidationCondition_def
  setNotDegradedCondition_def setDemotedCondition_def setFailedDemotionCondition_def
  setResyncCondition_def setFailedResyncCondition_def setUnknownReplicationCondition_def
  setHealthyReplicationCondition_def setDegradedReplicationCondition_def

lemma wf_setAll: "wf_conditions cs \<Longrightarrow> wf_conditions (setAll now cs news)"
  unfolding setAll_def by (rule status_conditions.wf_write_all)

lemma cond_lookup_setAll_other:
  "t \<notin> cd_type ` set news \<Longrightarrow> cond_lookup (setAll now cs news) t = cond_lookup cs t"
  unfolding setAll_def by (rule status_conditions.look_write_all_other)

lemma cond_lookup_setAll:
  assumes "distinct (map cd_type news)" "mkCondition m t r g s \<in> set news"
  shows "\<exists>tr. cond_lookup (setAll now cs news) t = Some (mkCondition m t r g s\<lparr>cd_lastTransitionTime := tr\<rparr>)"
  using status_conditions.look_write_all [OF assms, of now cs]
  by (simp add: setAll_def mkCondition_def)

end
