(* ===== verification/Params.thy ===== *)
theory Params
  imports Api_Types
begin

text \<open>
  Small pure helpers of the operator: the configuration map (\<open>internal/util/config.go\<close>), the
  reserved class parameters (\<open>replication.storage/parameters.go\<close>), annotation helpers
  (\<open>controller/utils/annotations.go\<close>), replication state names
  (\<open>replication.storage/utils.go\<close>) and \<open>internal/util/strings.go\<close>.
  \<open>time.ParseDuration\<close> is the parameter \<open>parseDuration\<close> of the definitions that call it.
\<close>

section \<open>internal/util/config.go\<close>

record config =
  cfg_Namespace :: string
  cfg_ReclaimSpaceTimeout :: duration
  cfg_MaxConcurrentReconciles :: int
  cfg_SchedulePrecedence :: string
  cfg_MaxGroupPVC :: int
  cfg_CSIAddonsNodeRetryDelay :: int

abbreviation (input) csiAddonsConfigMapName :: string where "csiAddonsConfigMapName \<equiv> ''csi-addons-config''"
definition ReclaimSpaceTimeoutKey :: string where "ReclaimSpaceTimeoutKey = ''reclaim-space-timeout''"
definition MaxConcurrentReconcilesKey :: string where
  "MaxConcurrentReconcilesKey = ''max-concurrent-reconciles''"
abbreviation (input) defaultNamespace :: string where "defaultNamespace \<equiv> ''csi-addons-system''"
definition SchedulePrecedenceKey :: string where "SchedulePrecedenceKey = ''schedule-precedence''"
definition ScheduleSC :: string where "ScheduleSC = ''storageclass''"
definition SchedulePVC :: string where "SchedulePVC = ''pvc''"
definition MaxGroupPVCKey :: string where "MaxGroupPVCKey = ''max-group-pvcs''"
definition CsiaddonsNodeRetryDelayKey :: string where
  "CsiaddonsNodeRetryDelayKey = ''csi-addons-node-retry-delay''"

lemmas config_key_defs =
  ReclaimSpaceTimeoutKey_def MaxConcurrentReconcilesKey_def SchedulePrecedenceKey_def
  MaxGroupPVCKey_def CsiaddonsNodeRetryDelayKey_def

lemma config_keys_distinct:
  "distinct [ReclaimSpaceTimeoutKey, MaxConcurrentReconcilesKey, SchedulePrecedenceKey,
     MaxGroupPVCKey, CsiaddonsNodeRetryDelayKey]"
  "distinct [CsiaddonsNodeRetryDelayKey, MaxGroupPVCKey, SchedulePrecedenceKey,
     MaxConcurrentReconcilesKey, ReclaimSpaceTimeoutKey]"
  by (simp_all add: config_key_defs)

lemmas config_key_neqs [simp] = config_keys_distinct [simplified]

definition NewConfig :: config where
  "NewConfig = \<lparr>cfg_Namespace = defaultNamespace, cfg_ReclaimSpaceTimeout = minute * 3,
     cfg_MaxConcurrentReconciles = 100, cfg_SchedulePrecedence = SchedulePVC,
     cfg_MaxGroupPVC = 100, cfg_CSIAddonsNodeRetryDelay = 5\<rparr>"

text \<open>
  The error of a failed \<open>strconv.Atoi\<close>: digits that exceed 64 bits are a range error even
  when an invalid character follows them.
\<close>

definition atoi_error :: "string \<Rightarrow> goerr" where
  "atoi_error s =
     (let body = (case s of [] \<Rightarrow> [] | c # r \<Rightarrow> if c = CHR ''-'' \<or> c = CHR ''+'' then r else s);
          range = digits_val (takeWhile is_digit body) \<ge> 2 ^ 64 \<or> parse_unsigned body \<noteq> None
      in ErrMsg (''strconv.Atoi: parsing '' @ fmt_q s @
           (if range then '': value out of range'' else '': invalid syntax'')))"

text \<open>The verb \<open>%q\<close> of an integer below 1: a quoted NUL, or the replacement character.\<close>

definition fmt_q_int :: "int \<Rightarrow> string" where
  "fmt_q_int d =
     (if d = 0 then [CHR 0x27, CHR 0x5C, CHR ''x'', CHR ''0'', CHR ''0'', CHR 0x27]
      else [CHR 0x27, CHR 0xEF, CHR 0xBF, CHR 0xBD, CHR 0x27])"

definition validateAndSetSchedulePrecedence :: "config \<Rightarrow> string \<Rightarrow> config \<times> goerr option" where
  "validateAndSetSchedulePrecedence cfg val =
     (let validVals = [SchedulePVC, ScheduleSC, ''sc-only'', []] in
      if val \<notin> set validVals
      then (cfg, Some (ErrMsg (''invalid value '' @ fmt_q val @ '' for key '' @ fmt_q SchedulePrecedenceKey)))
      else
        (let cfg = cfg\<lparr>cfg_SchedulePrecedence := val\<rparr> in
         if val = ''sc-only'' then (cfg\<lparr>cfg_SchedulePrecedence := ScheduleSC\<rparr>, None)
         else if val = [] then (cfg\<lparr>cfg_SchedulePrecedence := SchedulePVC\<rparr>, None)
         else (cfg, None)))"

definition validateAndSetCSIAddonsNodeRetryDelay :: "config \<Rightarrow> string \<Rightarrow> config \<times> goerr option" where
  "validateAndSetCSIAddonsNodeRetryDelay cfg val =
     (case strconv_Atoi val of
        None \<Rightarrow> (cfg, Some (ErrWrap (''failed to parse value: '' @ fmt_q val @ '' for key: '' @
                   fmt_q CsiaddonsNodeRetryDelayKey @ '' as int, '') (atoi_error val) []))
      | Some delay \<Rightarrow>
          if delay < 1
          then (cfg, Some (ErrMsg (''got an invalid value: '' @ fmt_q_int delay @ '' for key: '' @
                  fmt_q CsiaddonsNodeRetryDelayKey)))
          else (cfg\<lparr>cfg_CSIAddonsNodeRetryDelay := delay\<rparr>, None))"

definition parse_failure :: "string \<Rightarrow> string \<Rightarrow> string \<Rightarrow> goerr \<Rightarrow> goerr" where
  "parse_failure key val kind err =
     ErrWrap (''failed to parse key '' @ fmt_q key @ '' value '' @ fmt_q val @ '' as '' @ kind @ '': '') err []"

text \<open>The body of the loop over the data of the map, and the loop, which stops at an error.\<close>

definition readConfigKey ::
  "(string \<Rightarrow> goerr + duration) \<Rightarrow> config \<Rightarrow> string \<Rightarrow> string \<Rightarrow> config \<times> goerr option" where
  "readConfigKey parseDuration cfg key val =
     (if key = ReclaimSpaceTimeoutKey then
        (case parseDuration val of
           Inl err \<Rightarrow> (cfg, Some (parse_failure ReclaimSpaceTimeoutKey val ''duration'' err))
         | Inr timeout \<Rightarrow> (cfg\<lparr>cfg_ReclaimSpaceTimeout := timeout\<rparr>, None))
      else if key = MaxConcurrentReconcilesKey then
        (case strconv_Atoi val of
           None \<Rightarrow> (cfg, Some (parse_failure MaxConcurrentReconcilesKey val ''int'' (atoi_error val)))
         | Some n \<Rightarrow> (cfg\<lparr>cfg_MaxConcurrentReconciles := n\<rparr>, None))
      else if key = SchedulePrecedenceKey then validateAndSetSchedulePrecedence cfg val
      else if key = MaxGroupPVCKey then
        (case strconv_Atoi val of
           None \<Rightarrow> (cfg, Some (parse_failure MaxGroupPVCKey val ''int'' (atoi_error val)))
         | Some n \<Rightarrow>
             if n \<le> 0 \<or> n > 100
             then (cfg, Some (ErrMsg (''invalid value '' @ fmt_q val @ '' for key '' @ fmt_q MaxGroupPVCKey)))
             else (cfg\<lparr>cfg_MaxGroupPVC := n\<rparr>, None))
      else if key = CsiaddonsNodeRetryDelayKey then validateAndSetCSIAddonsNodeRetryDelay cfg val
      else (cfg, Some (ErrMsg (''unknown config key '' @ fmt_q key))))"

fun readConfig :: "(string \<Rightarrow> goerr + duration) \<Rightarrow> config \<Rightarrow> strmap \<Rightarrow> config \<times> goerr option" where
  "readConfig parseDuration cfg [] = (cfg, None)"
| "readConfig parseDuration cfg ((key, val) # dataMap) =
     (case readConfigKey parseDuration cfg key val of
        (cfg', Some err) \<Rightarrow> (cfg', Some err)
      | (cfg', None) \<Rightarrow> readConfig parseDuration cfg' dataMap)"

text \<open>\<open>getConfigMap\<close> is the API server's answer to the lookup of the map by namespace and name.\<close>

definition ReadConfigMap ::
  "(string \<Rightarrow> goerr + duration) \<Rightarrow> (string \<Rightarrow> string \<Rightarrow> goerr + strmap) \<Rightarrow> config \<Rightarrow> config \<times> goerr option" where
  "ReadConfigMap parseDuration getConfigMap cfg =
     (case getConfigMap (cfg_Namespace cfg) csiAddonsConfigMapName of
        Inl err \<Rightarrow>
          if IsNotFound err then (cfg, None)
          else (cfg, Some (ErrWrap (''failed to get configmap '' @ fmt_q csiAddonsConfigMapName @ '': '') err []))
      | Inr cm \<Rightarrow> readConfig parseDuration cfg cm)"

section \<open>replication.storage/parameters.go\<close>

abbreviation (input) replicationParameterPrefix :: string where
  "replicationParameterPrefix \<equiv> ''replication.storage.openshift.io/''"
definition prefixedReplicationSecretNameKey :: string where
  "prefixedReplicationSecretNameKey = replicationParameterPrefix @ ''replication-secret-name''"
definition prefixedReplicationSecretNamespaceKey :: string where
  "prefixedReplicationSecretNamespaceKey = replicationParameterPrefix @ ''replication-secret-namespace''"
definition prefixedGroupReplicationSecretNameKey :: string where
  "prefixedGroupReplicationSecretNameKey = replicationParameterPrefix @ ''group-replication-secret-name''"
definition prefixedGroupReplicationSecretNamespaceKey :: string where
  "prefixedGroupReplicationSecretNamespaceKey =
     replicationParameterPrefix @ ''group-replication-secret-namespace''"

lemmas secret_key_defs =
  prefixedReplicationSecretNameKey_def prefixedReplicationSecretNamespaceKey_def
  prefixedGroupReplicationSecretNameKey_def prefixedGroupReplicationSecretNamespaceKey_def

fun filterPrefixedParameters :: "string \<Rightarrow> strmap \<Rightarrow> strmap" where
  "filterPrefixedParameters pre [] = []"
| "filterPrefixedParameters pre ((k, v) # param) =
     (let newParam = filterPrefixedParameters pre param
      in if \<not> strings_HasPrefix k pre then AList.update k v newParam else newParam)"

fun validatePrefixedParameters :: "strmap \<Rightarrow> goerr option" where
  "validatePrefixedParameters [] = None"
| "validatePrefixedParameters ((k, v) # param) =
     (if strings_HasPrefix k replicationParameterPrefix then
        (if k = prefixedReplicationSecretNameKey \<or> k = prefixedGroupReplicationSecretNameKey then
           (if v = [] then Some (ErrMsg ''secret name cannot be empty'')
            else validatePrefixedParameters param)
         else if k = prefixedReplicationSecretNamespaceKey \<or> k = prefixedGroupReplicationSecretNamespaceKey then
           (if v = [] then Some (ErrMsg ''secret namespace cannot be empty'')
            else validatePrefixedParameters param)
         else Some (ErrMsg (''found unknown parameter key '' @ fmt_q k @ '' with reserved prefix '' @
                replicationParameterPrefix)))
      else validatePrefixedParameters param)"

section \<open>controller/utils/annotations.go\<close>

abbreviation (input) csiaddonsGroup :: string where "csiaddonsGroup \<equiv> ''csiaddons.openshift.io''"
abbreviation (input) RsCronJobScheduleTimeAnnotation :: string where
  "RsCronJobScheduleTimeAnnotation \<equiv> ''reclaimspace.csiaddons.openshift.io/schedule''"
abbreviation (input) RsCronJobNameAnnotation :: string where
  "RsCronJobNameAnnotation \<equiv> ''reclaimspace.csiaddons.openshift.io/cronjob''"
abbreviation (input) KrEnableAnnotation :: string where
  "KrEnableAnnotation \<equiv> ''keyrotation.csiaddons.openshift.io/enable''"
abbreviation (input) KrcJobScheduleTimeAnnotation :: string where
  "KrcJobScheduleTimeAnnotation \<equiv> ''keyrotation.csiaddons.openshift.io/schedule''"
abbreviation (input) KrcJobNameAnnotation :: string where
  "KrcJobNameAnnotation \<equiv> ''keyrotation.csiaddons.openshift.io/cronjob''"
abbreviation (input) CSIAddonsStateAnnotation :: string where
  "CSIAddonsStateAnnotation \<equiv> ''csiaddons.openshift.io/state''"
abbreviation (input) CSIAddonsStateManaged :: string where "CSIAddonsStateManaged \<equiv> ''managed''"

fun AnnotationValueChanged :: "strmap \<Rightarrow> strmap \<Rightarrow> string list \<Rightarrow> bool" where
  "AnnotationValueChanged oldAnnotations newAnnotations [] = False"
| "AnnotationValueChanged oldAnnotations newAnnotations (key # keys) =
     (if (map_of oldAnnotations key \<noteq> None) \<noteq> (map_of newAnnotations key \<noteq> None) \<or>
         mget oldAnnotations key \<noteq> mget newAnnotations key
      then True
      else AnnotationValueChanged oldAnnotations newAnnotations keys)"

definition IsManagedByController :: "object_meta \<Rightarrow> bool" where
  "IsManagedByController obj =
     (case map_of (om_annotations obj) CSIAddonsStateAnnotation of
        Some v \<Rightarrow> if v \<noteq> CSIAddonsStateManaged then False else True
      | None \<Rightarrow> True)"

section \<open>replication.storage/utils.go and util/strings.go\<close>

fun GetReplicationState :: "replication_state \<Rightarrow> vr_state" where
  "GetReplicationState Primary = PrimaryState"
| "GetReplicationState Secondary = SecondaryState"
| "GetReplicationState Resync = SecondaryState"
| "GetReplicationState (OtherReplicationState s) = UnknownState"

definition GetCurrentReplicationState :: "vr_state \<Rightarrow> vr_state" where
  "GetCurrentReplicationState instanceStatusState =
     (if instanceStatusState = NoState then UnknownState else instanceStatusState)"

definition RemoveFromSlice :: "string list \<Rightarrow> string \<Rightarrow> string list" where
  "RemoveFromSlice slice s = slices_DeleteFunc slice (\<lambda>v. s = v)"

section \<open>Facts on the configuration\<close>

text \<open>The values the rest of the operator relies on.\<close>

definition cfg_ok :: "config \<Rightarrow> bool" where
  "cfg_ok cfg \<longleftrightarrow> 1 \<le> cfg_MaxGroupPVC cfg \<and> cfg_MaxGroupPVC cfg \<le> 100 \<and>
     1 \<le> cfg_CSIAddonsNodeRetryDelay cfg \<and>
     cfg_SchedulePrecedence cfg \<in> {SchedulePVC, ScheduleSC}"

text \<open>What a key means, read from the map as a whole.\<close>

definition precedence_of :: "string \<Rightarrow> string option" where
  "precedence_of val =
     (if val = ''sc-only'' \<or> val = ScheduleSC then Some ScheduleSC
      else if val = [] \<or> val = SchedulePVC then Some SchedulePVC else None)"

definition int_in :: "(int \<Rightarrow> bool) \<Rightarrow> string \<Rightarrow> int option" where
  "int_in P val = (case strconv_Atoi val of None \<Rightarrow> None | Some n \<Rightarrow> if P n then Some n else None)"

definition dur_of :: "(string \<Rightarrow> goerr + duration) \<Rightarrow> string \<Rightarrow> duration option" where
  "dur_of parseDuration val = (case parseDuration val of Inl _ \<Rightarrow> None | Inr d \<Rightarrow> Some d)"

definition entry_ok :: "(string \<Rightarrow> goerr + duration) \<Rightarrow> string \<Rightarrow> string \<Rightarrow> bool" where
  "entry_ok parseDuration key val \<longleftrightarrow>
     (key = ReclaimSpaceTimeoutKey \<and> dur_of parseDuration val \<noteq> None \<or>
      key = MaxConcurrentReconcilesKey \<and> strconv_Atoi val \<noteq> None \<or>
      key = SchedulePrecedenceKey \<and> precedence_of val \<noteq> None \<or>
      key = MaxGroupPVCKey \<and> int_in (\<lambda>n. 1 \<le> n \<and> n \<le> 100) val \<noteq> None \<or>
      key = CsiaddonsNodeRetryDelayKey \<and> int_in (\<lambda>n. 1 \<le> n) val \<noteq> None)"

definition field_from :: "(string \<rightharpoonup> string) \<Rightarrow> string \<Rightarrow> (string \<Rightarrow> 'a option) \<Rightarrow> 'a \<Rightarrow> 'a" where
  "field_from m key parse old = (case Option.bind (m key) parse of None \<Rightarrow> old | Some x \<Rightarrow> x)"

definition config_of :: "(string \<Rightarrow> goerr + duration) \<Rightarrow> config \<Rightarrow> (string \<rightharpoonup> string) \<Rightarrow> config" where
  "config_of parseDuration cfg m = \<lparr>
     cfg_Namespace = cfg_Namespace cfg,
     cfg_ReclaimSpaceTimeout =
       field_from m ReclaimSpaceTimeoutKey (dur_of parseDuration) (cfg_ReclaimSpaceTimeout cfg),
     cfg_MaxConcurrentReconciles =
       field_from m MaxConcurrentReconcilesKey strconv_Atoi (cfg_MaxConcurrentReconciles cfg),
     cfg_SchedulePrecedence =
       field_from m SchedulePrecedenceKey precedence_of (cfg_SchedulePrecedence cfg),
     cfg_MaxGroupPVC =
       field_from m MaxGroupPVCKey (int_in (\<lambda>n. 1 \<le> n \<and> n \<le> 100)) (cfg_MaxGroupPVC cfg),
     cfg_CSIAddonsNodeRetryDelay =
       field_from m CsiaddonsNodeRetryDelayKey (int_in (\<lambda>n. 1 \<le> n)) (cfg_CSIAddonsNodeRetryDelay cfg)\<rparr>"

lemmas readConfigKey_defs =
  readConfigKey_def validateAndSetSchedulePrecedence_def validateAndSetCSIAddonsNodeRetryDelay_def

text \<open>The body of the loop, key by key.\<close>

lemma config_key_cases:
  obtains (timeout) "key = ReclaimSpaceTimeoutKey" | (reconciles) "key = MaxConcurrentReconcilesKey"
  | (precedence) "key = SchedulePrecedenceKey" | (group) "key = MaxGroupPVCKey"
  | (delay) "key = CsiaddonsNodeRetryDelayKey"
  | (unknown) "key \<noteq> ReclaimSpaceTimeoutKey" "key \<noteq> MaxConcurrentReconcilesKey"
    "key \<noteq> SchedulePrecedenceKey" "key \<noteq> MaxGroupPVCKey" "key \<noteq> CsiaddonsNodeRetryDelayKey"
  by metis

lemma schedule_values_distinct [simp]:
  "ScheduleSC \<noteq> SchedulePVC" "SchedulePVC \<noteq> ScheduleSC" "ScheduleSC \<noteq> []" "SchedulePVC \<noteq> []"
  "ScheduleSC \<noteq> ''sc-only''" "SchedulePVC \<noteq> ''sc-only''"
  by (simp_all add: ScheduleSC_def SchedulePVC_def)

lemma validateAndSetSchedulePrecedence_eq:
  "precedence_of val = Some p \<Longrightarrow>
     validateAndSetSchedulePrecedence cfg val = (cfg\<lparr>cfg_SchedulePrecedence := p\<rparr>, None)"
  "precedence_of val = None \<Longrightarrow>
     fst (validateAndSetSchedulePrecedence cfg val) = cfg \<and> snd (validateAndSetSchedulePrecedence cfg val) \<noteq> None"
  unfolding validateAndSetSchedulePrecedence_def precedence_of_def Let_def
  by (cases "val = ''sc-only''"; cases "val = []"; cases "val = ScheduleSC"; cases "val = SchedulePVC"; simp)+

lemma readConfigKey_entry:
  "if entry_ok parseDuration key val
   then readConfigKey parseDuration cfg key val = (config_of parseDuration cfg [key \<mapsto> val], None)
   else fst (readConfigKey parseDuration cfg key val) = cfg \<and> snd (readConfigKey parseDuration cfg key val) \<noteq> None"
proof (cases key rule: config_key_cases)
  case timeout
  then show ?thesis
    by (cases "parseDuration val")
      (simp_all add: readConfigKey_def entry_ok_def config_of_def field_from_def dur_of_def)
next
  case reconciles
  then show ?thesis
    by (cases "strconv_Atoi val")
      (simp_all add: readConfigKey_def entry_ok_def config_of_def field_from_def)
next
  case precedence
  then show ?thesis
    using validateAndSetSchedulePrecedence_eq [where val = val and cfg = cfg]
    by (cases "precedence_of val")
      (simp_all add: readConfigKey_def entry_ok_def config_of_def field_from_def)
next
  case group
  then show ?thesis
    by (cases "strconv_Atoi val")
      (auto simp: readConfigKey_def entry_ok_def config_of_def field_from_def int_in_def)
next
  case delay
  then show ?thesis
    by (cases "strconv_Atoi val")
      (auto simp: readConfigKey_def validateAndSetCSIAddonsNodeRetryDelay_def entry_ok_def
        config_of_def field_from_def int_in_def)
next
  case unknown
  then show ?thesis by (simp add: readConfigKey_def entry_ok_def)
qed

lemma config_of_upd:
  assumes "m key = None"
  shows "config_of parseDuration (config_of parseDuration cfg [key \<mapsto> val]) m =
         config_of parseDuration cfg (m(key \<mapsto> val))"
  using assms
  by (cases key rule: config_key_cases) (simp_all add: config_of_def field_from_def)

lemma precedence_of_range: "precedence_of val = Some p \<Longrightarrow> p \<in> {SchedulePVC, ScheduleSC}"
  by (auto simp: precedence_of_def split: if_splits)

lemma int_in_range: "int_in P val = Some n \<Longrightarrow> P n"
  by (auto simp: int_in_def split: option.splits if_splits)

lemma field_from_range:
  assumes "P old" "\<And>val x. parse val = Some x \<Longrightarrow> P x"
  shows "P (field_from m key parse old)"
  using assms by (cases "m key") (auto simp: field_from_def split: option.splits)

lemma cfg_ok_config_of:
  assumes "cfg_ok cfg"
  shows "cfg_ok (config_of parseDuration cfg m)"
proof -
  have group: "1 \<le> cfg_MaxGroupPVC (config_of parseDuration cfg m) \<and>
      cfg_MaxGroupPVC (config_of parseDuration cfg m) \<le> 100"
    unfolding config_of_def config.simps
    by (rule field_from_range [where P = "\<lambda>n. 1 \<le> n \<and> n \<le> 100"])
      (use assms in \<open>auto simp: cfg_ok_def dest: int_in_range\<close>)
  have delay: "1 \<le> cfg_CSIAddonsNodeRetryDelay (config_of parseDuration cfg m)"
    unfolding config_of_def config.simps
    by (rule field_from_range [where P = "\<lambda>n. 1 \<le> n"])
      (use assms in \<open>auto simp: cfg_ok_def dest: int_in_range\<close>)
  have "cfg_SchedulePrecedence (config_of parseDuration cfg m) \<in> {SchedulePVC, ScheduleSC}"
    unfolding config_of_def config.simps
    by (rule field_from_range [where P = "\<lambda>p. p \<in> {SchedulePVC, ScheduleSC}"])
      (use assms in \<open>simp add: cfg_ok_def\<close>, rule precedence_of_range)
  with group delay show ?thesis
    by (simp add: cfg_ok_def)
qed

lemma readConfigKey_cfg_ok: "cfg_ok cfg \<Longrightarrow> cfg_ok (fst (readConfigKey parseDuration cfg key val))"
  using readConfigKey_entry [of parseDuration key val cfg] cfg_ok_config_of
  by (metis fst_conv)

lemma readConfig_cfg_ok: "cfg_ok cfg \<Longrightarrow> cfg_ok (fst (readConfig parseDuration cfg dataMap))"
proof (induction parseDuration cfg dataMap rule: readConfig.induct)
  case (1 parseDuration cfg)
  then show ?case by simp
next
  case (2 parseDuration cfg key val dataMap)
  then show ?case
    using readConfigKey_cfg_ok [of cfg parseDuration key val]
    by (auto split: prod.splits option.splits)
qed

lemma config_of_empty: "config_of parseDuration cfg Map.empty = cfg"
  by (simp add: config_of_def field_from_def)

lemma readConfig_eq:
  assumes "distinct (map fst dataMap)"
  shows "readConfig parseDuration cfg dataMap = (cfg', None) \<longleftrightarrow>
    (\<forall>(key, val) \<in> set dataMap. entry_ok parseDuration key val) \<and>
    cfg' = config_of parseDuration cfg (map_of dataMap)"
  using assms
proof (induction dataMap arbitrary: cfg)
  case Nil
  then show ?case by (auto simp: config_of_empty)
next
  case (Cons kv dataMap)
  obtain key val where kv: "kv = (key, val)" by fastforce
  have upd: "map_of (kv # dataMap) = (map_of dataMap)(key \<mapsto> val)"
    by (simp add: kv)
  have fresh: "map_of dataMap key = None"
    using Cons.prems by (simp add: kv map_of_eq_None_iff)
  show ?case
  proof (cases "entry_ok parseDuration key val")
    case True
    then have step: "readConfig parseDuration cfg (kv # dataMap) =
        readConfig parseDuration (config_of parseDuration cfg [key \<mapsto> val]) dataMap"
      using readConfigKey_entry [of parseDuration key val cfg] by (simp add: kv)
    have merge: "config_of parseDuration (config_of parseDuration cfg [key \<mapsto> val]) (map_of dataMap) =
        config_of parseDuration cfg (map_of (kv # dataMap))"
      unfolding upd by (rule config_of_upd) (rule fresh)
    have "(\<forall>(k, v) \<in> set (kv # dataMap). entry_ok parseDuration k v) \<longleftrightarrow>
        (\<forall>(k, v) \<in> set dataMap. entry_ok parseDuration k v)"
      using True by (simp add: kv)
    moreover have "distinct (map fst dataMap)"
      using Cons.prems by simp
    ultimately show ?thesis
      by (simp only: step Cons.IH merge)
  next
    case False
    then have "snd (readConfig parseDuration cfg (kv # dataMap)) \<noteq> None"
      using readConfigKey_entry [of parseDuration key val cfg]
      by (auto simp: kv split: prod.splits option.splits)
    with False show ?thesis by (auto simp: kv)
  qed
qed

section \<open>Facts on parameters and annotations\<close>

lemma map_of_filterPrefixedParameters:
  "map_of (filterPrefixedParameters pre param) k = (if strings_HasPrefix k pre then None else map_of param k)"
  by (induction pre param rule: filterPrefixedParameters.induct) (auto simp: Let_def update_conv')

lemma validatePrefixedParameters_None:
  "validatePrefixedParameters param = None \<longleftrightarrow>
     (\<forall>(k, v) \<in> set param. strings_HasPrefix k replicationParameterPrefix \<longrightarrow>
        v \<noteq> [] \<and> k \<in> {prefixedReplicationSecretNameKey, prefixedReplicationSecretNamespaceKey,
          prefixedGroupReplicationSecretNameKey, prefixedGroupReplicationSecretNamespaceKey})"
  by (induction param rule: validatePrefixedParameters.induct) auto

lemma AnnotationValueChanged_iff:
  "AnnotationValueChanged old new keys \<longleftrightarrow> (\<exists>key \<in> set keys. map_of old key \<noteq> map_of new key)"
  by (induction keys) (auto simp: mget_def split: option.splits)

lemma set_RemoveFromSlice [simp]: "set (RemoveFromSlice xs s) = set xs - {s}"
  by (auto simp: RemoveFromSlice_def)

end
