(* ===== verification/Cluster.thy ===== *)
theory Cluster
  imports Params
begin

text \<open>
  The world the controllers act on. A controller is a program in the state monad over a
  \<^emph>\<open>trace\<close> of the calls it made and the connection pool it shares with the other controllers.
  Everything outside the repository answers through the record \<open>env\<close>: the API server, the gRPC
  services of the sidecars, the clock and the parsers of third-party packages are functions from
  the trace so far and the request to the answer, so that an answer may depend on all that
  happened before. Every call appends one event to the trace.
\<close>

section \<open>Connections and capabilities\<close>

datatype service_type = Service_UNKNOWN | CONTROLLER_SERVICE | NODE_SERVICE
datatype reclaimspace_type = ReclaimSpace_UNKNOWN | OFFLINE | ONLINE
datatype networkfence_type = NetworkFence_UNKNOWN | NETWORK_FENCE | GET_CLIENTS_TO_FENCE
datatype replication_type = VolumeReplication_UNKNOWN | VOLUME_REPLICATION
datatype volumegroup_type =
  VolumeGroup_UNKNOWN | VOLUME_GROUP | LIMIT_VOLUME_TO_ONE_VOLUME_GROUP
| DO_NOT_ALLOW_VG_TO_DELETE_VOLUMES | MODIFY_VOLUME_GROUP | GET_VOLUME_GROUP | LIST_VOLUME_GROUPS
datatype keyrotation_type = EncryptionKeyRotation_UNKNOWN | ENCRYPTIONKEYROTATION

datatype capability =
  CapService service_type
| CapReclaimSpace reclaimspace_type
| CapNetworkFence networkfence_type
| CapVolumeReplication replication_type
| CapVolumeGroup volumegroup_type
| CapEncryptionKeyRotation keyrotation_type
| CapNone

text \<open>A \<open>*grpc.ClientConn\<close> is known by a number; \<open>Connection.Client\<close> is \<open>None\<close> when it is nil.\<close>

type_synonym grpc_client = nat

record connection =
  cn_Client :: "grpc_client option"
  cn_Capabilities :: "capability list"
  cn_Namespace :: string
  cn_Name :: string
  cn_NodeID :: string
  cn_DriverName :: string
  cn_Timeout :: duration
  cn_enableAuth :: bool
  cn_endpoint :: string
  cn_podName :: string

section \<open>Requests\<close>

datatype source = VolumeSource string | VolumeGroupSource string

record repl_req =
  rq_source :: source
  rq_replicationId :: string
  rq_parameters :: strmap
  rq_secretName :: string
  rq_secretNamespace :: string

record group_req =
  gq_id :: string
  gq_volumeIds :: "string list"
  gq_parameters :: strmap
  gq_secretName :: string
  gq_secretNamespace :: string

record fence_req =
  fq_parameters :: strmap
  fq_secretName :: string
  fq_secretNamespace :: string
  fq_cidrs :: "string list"

datatype rpc =
  RpcGetCapabilities
| RpcEnable repl_req
| RpcDisable repl_req
| RpcPromote repl_req bool
| RpcDemote repl_req
| RpcResync repl_req bool
| RpcGetInfo repl_req
| RpcCreateVolumeGroup group_req
| RpcModifyVolumeGroupMembership group_req
| RpcDeleteVolumeGroup group_req
| RpcControllerGetVolumeGroup group_req
| RpcFence fence_req
| RpcUnfence fence_req
| RpcGetFenceClients fence_req
| RpcControllerReclaimSpace string
| RpcNodeReclaimSpace string
| RpcEncryptionKeyRotate string

datatype info_status = INFO_UNKNOWN | INFO_HEALTHY | INFO_DEGRADED | INFO_ERROR | INFO_OTHER int

record info_response =
  ir_lastSyncTime :: "time option"
  ir_lastSyncDuration :: "duration option"
  ir_lastSyncBytes :: int
  ir_status :: info_status
  ir_statusMessage :: string

record volume_group =
  vg_id :: string
  vg_context :: strmap
  vg_volumeIds :: "string list"

text \<open>\<open>StorageConsumption\<close> of a reclaim-space answer, \<open>None\<close> for a nil pointer.\<close>

record reclaim_response =
  rr_preUsage :: "int option"
  rr_postUsage :: "int option"

section \<open>Events\<close>

datatype obj =
  O_VR volume_replication
| O_VGR volume_group_replication
| O_VGRContent vgr_content
| O_PVC pvc
| O_Node csiaddons_node
| O_Fence network_fence
| O_FenceClass network_fence_class
| O_RSJob job
| O_KRJob job
| O_RSCronJob cronjob
| O_KRCronJob cronjob

datatype event =
  ApiGet string nsname
| ApiList string string
| ApiCreate obj
| ApiUpdate obj
| ApiStatusUpdate obj
| ApiDelete obj
| ApiPatch obj "(string \<times> string option) list"
| Rpc "grpc_client option" rpc
| Dial string bool
| GetState grpc_client
| CloseClient grpc_client

record world =
  trace :: "event list"
  pool :: "(string \<times> connection) list"

type_synonym 'a prog = "(world, 'a) state"

section \<open>The environment\<close>

type_synonym ('q, 'a) answer = "event list \<Rightarrow> 'q \<Rightarrow> goerr + 'a"
type_synonym ('q, 'a) rpc_answer = "event list \<Rightarrow> grpc_client option \<Rightarrow> 'q \<Rightarrow> goerr + 'a"

record env =
  e_now :: "event list \<Rightarrow> time"
  e_parseDuration :: "string \<Rightarrow> goerr + duration"
  e_getVR :: "(nsname, volume_replication) answer"
  e_getVRClass :: "(nsname, replication_class) answer"
  e_getVGR :: "(nsname, volume_group_replication) answer"
  e_getVGRClass :: "(nsname, replication_class) answer"
  e_getVGRContent :: "(nsname, vgr_content) answer"
  e_getPVC :: "(nsname, pvc) answer"
  e_getPV :: "(nsname, pv) answer"
  e_getLease :: "(nsname, lease) answer"
  e_updateVR :: "(volume_replication, volume_replication) answer"
  e_statusVR :: "(volume_replication, volume_replication) answer"
  e_updateVGR :: "(volume_group_replication, volume_group_replication) answer"
  e_statusVGR :: "(volume_group_replication, volume_group_replication) answer"
  e_updateVGRContent :: "(vgr_content, vgr_content) answer"
  e_statusVGRContent :: "(vgr_content, vgr_content) answer"
  e_updatePVC :: "(pvc, pvc) answer"
  e_newClient :: "(string \<times> bool, grpc_client) answer"
  e_isShutdown :: "event list \<Rightarrow> grpc_client \<Rightarrow> bool"
  e_closeClient :: "event list \<Rightarrow> grpc_client \<Rightarrow> goerr option"
  e_rpcGetCapabilities :: "(unit, capability list) rpc_answer"
  e_rpcEnable :: "(repl_req, unit) rpc_answer"
  e_rpcDisable :: "(repl_req, unit) rpc_answer"
  e_rpcPromote :: "(repl_req \<times> bool, unit) rpc_answer"
  e_rpcDemote :: "(repl_req, unit) rpc_answer"
  e_rpcResync :: "(repl_req \<times> bool, bool) rpc_answer"
  e_rpcGetInfo :: "(repl_req, info_response) rpc_answer"

definition unavailable :: goerr where
  "unavailable = GrpcStatus C_Unavailable ''unavailable''"

definition notfound :: goerr where
  "notfound = ApiStatus R_NotFound ''not found''"

text \<open>An environment in which nothing exists and nothing answers, to build examples from.\<close>

definition env0 :: env where
  "env0 = \<lparr>e_now = (\<lambda>_. 0), e_parseDuration = (\<lambda>_. Inl (ErrMsg ''invalid duration'')),
     e_getVR = (\<lambda>_ _. Inl notfound), e_getVRClass = (\<lambda>_ _. Inl notfound),
     e_getVGR = (\<lambda>_ _. Inl notfound), e_getVGRClass = (\<lambda>_ _. Inl notfound),
     e_getVGRContent = (\<lambda>_ _. Inl notfound), e_getPVC = (\<lambda>_ _. Inl notfound),
     e_getPV = (\<lambda>_ _. Inl notfound), e_getLease = (\<lambda>_ _. Inl notfound),
     e_updateVR = (\<lambda>_ _. Inl notfound), e_statusVR = (\<lambda>_ _. Inl notfound),
     e_updateVGR = (\<lambda>_ _. Inl notfound), e_statusVGR = (\<lambda>_ _. Inl notfound),
     e_updateVGRContent = (\<lambda>_ _. Inl notfound), e_statusVGRContent = (\<lambda>_ _. Inl notfound),
     e_updatePVC = (\<lambda>_ _. Inl notfound), e_newClient = (\<lambda>_ _. Inl unavailable),
     e_isShutdown = (\<lambda>_ _. True), e_closeClient = (\<lambda>_ _. None),
     e_rpcGetCapabilities = (\<lambda>_ _ _. Inl unavailable), e_rpcEnable = (\<lambda>_ _ _. Inl unavailable),
     e_rpcDisable = (\<lambda>_ _ _. Inl unavailable), e_rpcPromote = (\<lambda>_ _ _. Inl unavailable),
     e_rpcDemote = (\<lambda>_ _ _. Inl unavailable), e_rpcResync = (\<lambda>_ _ _. Inl unavailable),
     e_rpcGetInfo = (\<lambda>_ _ _. Inl unavailable)\<rparr>"

section \<open>Primitive steps\<close>

text \<open>\<open>ask\<close> reads the trace without a call, \<open>call\<close> appends an event and returns the answer.\<close>

definition ask :: "(event list \<Rightarrow> 'a) \<Rightarrow> 'a prog" where
  "ask f = State (\<lambda>w. (f (trace w), w))"

definition call :: "(event list \<Rightarrow> 'a) \<Rightarrow> event \<Rightarrow> 'a prog" where
  "call ans ev = State (\<lambda>w. (ans (trace w), w\<lparr>trace := trace w @ [ev]\<rparr>))"

definition get_pool :: "(string \<times> connection) list prog" where
  "get_pool = State (\<lambda>w. (pool w, w))"

definition put_pool :: "(string \<times> connection) list \<Rightarrow> unit prog" where
  "put_pool p = State (\<lambda>w. ((), w\<lparr>pool := p\<rparr>))"

abbreviation ret :: "'a \<Rightarrow> 'a prog" where
  "ret \<equiv> State_Monad.return"

lemma run_ask [run_defs]: "run_state (ask f) w = (f (trace w), w)"
  by (simp add: ask_def)

lemma run_call [run_defs]: "run_state (call ans ev) w = (ans (trace w), w\<lparr>trace := trace w @ [ev]\<rparr>)"
  by (simp add: call_def)

lemma run_get_pool [run_defs]: "run_state get_pool w = (pool w, w)"
  by (simp add: get_pool_def)

lemma run_put_pool [run_defs]: "run_state (put_pool p) w = ((), w\<lparr>pool := p\<rparr>)"
  by (simp add: put_pool_def)

definition now :: "env \<Rightarrow> time prog" where
  "now e = ask (e_now e)"

text \<open>What \<open>Reconcile\<close> returns; a run-time panic is an outcome of its own.\<close>

record rresult =
  rr_requeue :: bool
  rr_requeueAfter :: duration

definition rr_empty :: rresult where
  "rr_empty = \<lparr>rr_requeue = False, rr_requeueAfter = 0\<rparr>"

datatype outcome = Returned rresult "goerr option" | Panicked string

abbreviation done_ok :: outcome where "done_ok \<equiv> Returned rr_empty None"
abbreviation done_err :: "goerr \<Rightarrow> outcome" where "done_err e \<equiv> Returned rr_empty (Some e)"

section \<open>A trace logic\<close>

text \<open>
  \<open>steps_ok R h es\<close>: every event of \<open>es\<close>, appended to the trace \<open>h\<close>, is allowed by \<open>R\<close> at the
  point where it happens. \<open>htriple H m K R\<close>: from every trace that satisfies \<open>H\<close>, whatever the
  environment answers, \<open>m\<close> only appends to the trace, every event is allowed by \<open>R\<close>, and \<open>K\<close> holds
  of the result and the trace at the end. \<open>emits R m\<close> is the special case without conditions.
\<close>

definition steps_ok :: "(event list \<Rightarrow> event \<Rightarrow> bool) \<Rightarrow> event list \<Rightarrow> event list \<Rightarrow> bool" where
  "steps_ok R h es \<longleftrightarrow> (\<forall>i < length es. R (h @ take i es) (es ! i))"

definition htriple ::
  "(event list \<Rightarrow> bool) \<Rightarrow> 'a prog \<Rightarrow> ('a \<Rightarrow> event list \<Rightarrow> bool) \<Rightarrow> (event list \<Rightarrow> event \<Rightarrow> bool) \<Rightarrow> bool" where
  "htriple H m K R \<longleftrightarrow> (\<forall>w x w'. run_state m w = (x, w') \<longrightarrow> H (trace w) \<longrightarrow>
     (\<exists>es. trace w' = trace w @ es \<and> steps_ok R (trace w) es \<and> K x (trace w')))"

definition emits :: "(event list \<Rightarrow> event \<Rightarrow> bool) \<Rightarrow> 'a prog \<Rightarrow> bool" where
  "emits R m \<longleftrightarrow> htriple (\<lambda>_. True) m (\<lambda>_ _. True) R"

lemma steps_ok_Nil [simp]: "steps_ok R h []"
  by (simp add: steps_ok_def)

lemma steps_ok_single [simp]: "steps_ok R h [ev] \<longleftrightarrow> R h ev"
  by (simp add: steps_ok_def)

lemma steps_ok_append: "steps_ok R h es \<Longrightarrow> steps_ok R (h @ es) es' \<Longrightarrow> steps_ok R h (es @ es')"
proof (unfold steps_ok_def, intro allI impI)
  fix i
  assume es: "\<forall>i < length es. R (h @ take i es) (es ! i)"
    and es': "\<forall>i < length es'. R ((h @ es) @ take i es') (es' ! i)"
    and i: "i < length (es @ es')"
  show "R (h @ take i (es @ es')) ((es @ es') ! i)"
  proof (cases "i < length es")
    case True
    with es show ?thesis by (simp add: nth_append)
  next
    case False
    with i es' [rule_format, of "i - length es"] show ?thesis by (simp add: nth_append)
  qed
qed

lemma steps_ok_split: "steps_ok R h (pre @ ev # post) \<Longrightarrow> R (h @ pre) ev"
  by (auto simp: steps_ok_def dest: spec [where x = "length pre"])

lemma steps_ok_mem: "steps_ok (\<lambda>_. P) h es \<Longrightarrow> ev \<in> set es \<Longrightarrow> P ev"
  by (auto simp: steps_ok_def in_set_conv_nth)

lemma htripleD:
  assumes "htriple H m K R" "run_state m w = (x, w')" "H (trace w)"
  obtains es where "trace w' = trace w @ es" "steps_ok R (trace w) es" "K x (trace w')"
  using assms unfolding htriple_def by blast

text \<open>The events a run appended, by their position in the trace.\<close>

definition appended :: "world \<Rightarrow> world \<Rightarrow> nat \<Rightarrow> event \<Rightarrow> bool" where
  "appended w w' i ev \<longleftrightarrow> length (trace w) \<le> i \<and> i < length (trace w') \<and> trace w' ! i = ev"

lemma appended_self [simp]: "\<not> appended w w i x"
  by (simp add: appended_def)

lemma appended_one [simp]:
  "appended w (w\<lparr>trace := trace w @ [ev]\<rparr>) i x \<longleftrightarrow> i = length (trace w) \<and> x = ev"
  by (auto simp: appended_def less_Suc_eq)

lemma steps_ok_appended:
  assumes "trace w' = trace w @ es" "steps_ok R (trace w) es" "appended w w' i ev"
  shows "R (take i (trace w')) ev"
proof -
  have "i - length (trace w) < length es"
    using assms(1,3) by (auto simp: appended_def)
  with assms(2) have "R (trace w @ take (i - length (trace w)) es) (es ! (i - length (trace w)))"
    by (simp add: steps_ok_def)
  with assms(1,3) show ?thesis by (auto simp: appended_def nth_append)
qed

lemma htriple_weaken:
  assumes "htriple H m K R" "\<And>h. H' h \<Longrightarrow> H h" "\<And>x h. K x h \<Longrightarrow> K' x h"
  shows "htriple H' m K' R"
  using assms unfolding htriple_def by blast

lemma htriple_mono: "htriple H m K R \<Longrightarrow> (\<And>h ev. R h ev \<Longrightarrow> S h ev) \<Longrightarrow> htriple H m K S"
  unfolding htriple_def steps_ok_def by meson

lemma htriple_ret [simp]: "htriple H (ret x) K R \<longleftrightarrow> (\<forall>h. H h \<longrightarrow> K x h)"
proof
  assume triple: "htriple H (ret x) K R"
  show "\<forall>h. H h \<longrightarrow> K x h"
  proof safe
    fix h assume "H h"
    then have "H (trace \<lparr>trace = h, pool = []\<rparr>)" by simp
    with triple run_state_return show "K x h"
      by (rule htripleD) simp
  qed
qed (auto simp: htriple_def)

lemma htriple_call:
  assumes "\<And>h. H h \<Longrightarrow> R h ev" "\<And>h. H h \<Longrightarrow> K (ans h) (h @ [ev])"
  shows "htriple H (call ans ev) K R"
  using assms by (auto simp: htriple_def run_call)

lemma htriple_ask: "(\<And>h. H h \<Longrightarrow> K (f h) h) \<Longrightarrow> htriple H (ask f) K R"
  by (auto simp: htriple_def run_ask)

lemma htriple_now: "(\<And>h t. H h \<Longrightarrow> K t h) \<Longrightarrow> htriple H (now e) K R"
  by (simp add: now_def htriple_ask)

lemma htriple_get_pool: "(\<And>h p. H h \<Longrightarrow> K p h) \<Longrightarrow> htriple H get_pool K R"
  by (auto simp: htriple_def run_get_pool)

lemma htriple_put_pool: "(\<And>h. H h \<Longrightarrow> K () h) \<Longrightarrow> htriple H (put_pool p) K R"
  by (auto simp: htriple_def run_put_pool)

lemma htriple_bind:
  assumes "htriple H m K R" "\<And>x. htriple (K x) (f x) L R"
  shows "htriple H (State_Monad.bind m f) L R"
  unfolding htriple_def
proof (intro allI impI)
  fix w y w''
  assume run: "run_state (State_Monad.bind m f) w = (y, w'')" and H: "H (trace w)"
  obtain x w' where m: "run_state m w = (x, w')" by fastforce
  with run have f: "run_state (f x) w' = (y, w'')" by simp
  obtain es where es: "trace w' = trace w @ es" "steps_ok R (trace w) es" "K x (trace w')"
    using assms(1) m H by (rule htripleD)
  obtain es' where "trace w'' = trace w' @ es'" "steps_ok R (trace w') es'" "L y (trace w'')"
    using assms(2) f es(3) by (rule htripleD)
  with es show "\<exists>es. trace w'' = trace w @ es \<and> steps_ok R (trace w) es \<and> L y (trace w'')"
    by (metis append.assoc steps_ok_append)
qed

lemma htriple_now_bind:
  "(\<And>t. htriple H (f t) L R) \<Longrightarrow> htriple H (State_Monad.bind (now e) f) L R"
  by (rule htriple_bind [where K = "\<lambda>_. H"]) (auto intro: htriple_now)

lemma htriple_emits: "emits R m \<Longrightarrow> (\<And>h es x. H h \<Longrightarrow> K x (h @ es)) \<Longrightarrow> htriple H m K R"
  unfolding emits_def htriple_def by (metis (full_types))

lemma emits_ret [emits_intros]: "emits R (ret x)"
  by (simp add: emits_def)

lemma emits_call [emits_intros]: "(\<And>h. R h ev) \<Longrightarrow> emits R (call ans ev)"
  by (simp add: emits_def htriple_call)

lemma emits_ask [emits_intros]: "emits R (ask f)"
  by (simp add: emits_def htriple_ask)

lemma emits_now [emits_intros]: "emits R (now e)"
  by (simp add: emits_def htriple_now)

lemma emits_get_pool [emits_intros]: "emits R get_pool"
  by (simp add: emits_def htriple_get_pool)

lemma emits_put_pool [emits_intros]: "emits R (put_pool p)"
  by (simp add: emits_def htriple_put_pool)

lemma emits_bind [emits_intros]:
  "emits R m \<Longrightarrow> (\<And>x. emits R (f x)) \<Longrightarrow> emits R (State_Monad.bind m f)"
  unfolding emits_def by (rule htriple_bind)

lemma emits_if [emits_intros]: "(b \<Longrightarrow> emits R m) \<Longrightarrow> (\<not> b \<Longrightarrow> emits R n) \<Longrightarrow> emits R (if b then m else n)"
  by simp

lemma emits_let [emits_intros]: "(\<And>x. emits R (f x)) \<Longrightarrow> emits R (Let x f)"
  by (simp add: Let_def)

lemma emits_sum [emits_intros]:
  "(\<And>x. emits R (f x)) \<Longrightarrow> (\<And>y. emits R (g y)) \<Longrightarrow> emits R (case s of Inl x \<Rightarrow> f x | Inr y \<Rightarrow> g y)"
  by (cases s) auto

lemma emits_option [emits_intros]:
  "emits R m \<Longrightarrow> (\<And>y. emits R (g y)) \<Longrightarrow> emits R (case s of None \<Rightarrow> m | Some y \<Rightarrow> g y)"
  by (cases s) auto

lemma emits_prod [emits_intros]: "(\<And>x y. emits R (f x y)) \<Longrightarrow> emits R (case p of (x, y) \<Rightarrow> f x y)"
  by (cases p) auto

lemma emits_mono: "emits R m \<Longrightarrow> (\<And>h ev. R h ev \<Longrightarrow> S h ev) \<Longrightarrow> emits S m"
  unfolding emits_def htriple_def steps_ok_def by metis

lemma emits_conj: "emits R m \<Longrightarrow> emits S m \<Longrightarrow> emits (\<lambda>h ev. R h ev \<and> S h ev) m"
  unfolding emits_def htriple_def steps_ok_def by (metis append_eq_append_conv)

lemma emitsD:
  assumes "emits R m" "run_state m w = (x, w')"
  obtains es where "trace w' = trace w @ es" "steps_ok R (trace w) es"
  using assms by (auto simp: emits_def elim!: htripleD)

text \<open>
  A call of the run that started at \<open>h0\<close>, made before the present point; facts of this form stay
  true as the trace grows.
\<close>

definition since :: "event list \<Rightarrow> (event list \<Rightarrow> event \<Rightarrow> bool) \<Rightarrow> event list \<Rightarrow> bool" where
  "since h0 Q h \<longleftrightarrow> (\<exists>h1 ev h2. h = h0 @ h1 @ ev # h2 \<and> Q (h0 @ h1) ev)"

definition extends :: "event list \<Rightarrow> event list \<Rightarrow> bool" where
  "extends h0 h \<longleftrightarrow> (\<exists>es. h = h0 @ es)"

definition stable :: "(event list \<Rightarrow> bool) \<Rightarrow> bool" where
  "stable H \<longleftrightarrow> (\<forall>h es. H h \<longrightarrow> H (h @ es))"

lemma since_append: "since h0 Q h \<Longrightarrow> since h0 Q (h @ es)"
  unfolding since_def by (metis append.assoc append_Cons)

lemma extends_refl [simp]: "extends h0 h0"
  by (simp add: extends_def)

lemma extends_append: "extends h0 h \<Longrightarrow> extends h0 (h @ es)"
  by (auto simp: extends_def)

lemma since_snoc: "extends h0 h \<Longrightarrow> Q h ev \<Longrightarrow> since h0 Q (h @ [ev])"
proof -
  assume "extends h0 h" "Q h ev"
  then obtain es where "h = h0 @ es" by (auto simp: extends_def)
  with \<open>Q h ev\<close> have "h @ [ev] = h0 @ es @ ev # []" "Q (h0 @ es) ev" by simp_all
  then show ?thesis unfolding since_def by blast
qed

lemma stable_intros [intro]:
  "stable (since h0 Q)" "stable (extends h0)" "stable (\<lambda>h. b)"
  "stable H \<Longrightarrow> stable H' \<Longrightarrow> stable (\<lambda>h. H h \<and> H' h)"
  "stable H \<Longrightarrow> stable H' \<Longrightarrow> stable (\<lambda>h. H h \<or> H' h)"
  "stable H \<Longrightarrow> stable (\<lambda>h. b \<longrightarrow> H h)"
  "(\<And>x. stable (P x)) \<Longrightarrow> stable (\<lambda>h. \<forall>x. P x h)"
  by (auto simp: stable_def since_append extends_append)

text \<open>A result that does not depend on the trace.\<close>

definition returns :: "'a prog \<Rightarrow> ('a \<Rightarrow> bool) \<Rightarrow> bool" where
  "returns m V \<longleftrightarrow> (\<forall>w. V (fst (run_state m w)))"

lemma returnsD: "returns m V \<Longrightarrow> run_state m w = (x, w') \<Longrightarrow> V x"
  unfolding returns_def by (metis fst_conv)

lemma returnsI: "(\<And>w x w'. run_state m w = (x, w') \<Longrightarrow> V x) \<Longrightarrow> returns m V"
  unfolding returns_def by (metis prod.collapse)

lemma returns_bind:
  assumes "returns m V" "\<And>x. V x \<Longrightarrow> returns (f x) W"
  shows "returns (State_Monad.bind m f) W"
proof (rule returnsI)
  fix w y w''
  assume run: "run_state (State_Monad.bind m f) w = (y, w'')"
  obtain x w' where m: "run_state m w = (x, w')" by fastforce
  with run have "run_state (f x) w' = (y, w'')" by simp
  with assms m show "W y" by (blast dest: returnsD)
qed

lemma returns_true: "returns m (\<lambda>_. True)"
  by (simp add: returns_def)

lemma returns_ret: "V x \<Longrightarrow> returns (ret x) V"
  by (simp add: returns_def)

lemma returns_mono: "returns m V \<Longrightarrow> (\<And>x. V x \<Longrightarrow> W x) \<Longrightarrow> returns m W"
  by (simp add: returns_def)

lemmas returns_any = returns_bind [OF returns_true]

lemma htriple_stable:
  assumes "emits (\<lambda>h ev. H h \<longrightarrow> R h ev) m" "stable H" "returns m V"
  shows "htriple H m (\<lambda>x h. H h \<and> V x) R"
  unfolding htriple_def
proof (intro allI impI)
  fix w x w'
  assume run: "run_state m w = (x, w')" and H: "H (trace w)"
  obtain es where es: "trace w' = trace w @ es" "steps_ok (\<lambda>h ev. H h \<longrightarrow> R h ev) (trace w) es"
    using assms(1) run by (rule emitsD)
  moreover have "steps_ok R (trace w) es"
    using es(2) H assms(2) by (simp add: steps_ok_def stable_def)
  moreover have "H (trace w')"
    using es(1) H assms(2) by (simp add: stable_def)
  ultimately show "\<exists>es. trace w' = trace w @ es \<and> steps_ok R (trace w) es \<and> H (trace w') \<and> V x"
    using assms(3) run by (metis returnsD)
qed

lemma emits_bind_returns:
  assumes "emits R m" "returns m V" "\<And>x. V x \<Longrightarrow> emits R (f x)"
  shows "emits R (State_Monad.bind m f)"
  unfolding emits_def
proof (rule htriple_bind [where K = "\<lambda>x _. V x"])
  show "htriple (\<lambda>_. True) m (\<lambda>x _. V x) R"
    using htriple_stable [of "\<lambda>_. True" R m V] assms(1,2) by (auto simp: stable_def)
  show "htriple (\<lambda>_. V x) (f x) (\<lambda>_ _. True) R" for x
    using assms(3) [of x] by (cases "V x") (auto simp: emits_def htriple_def)
qed

lemma returns_call: "returns (call ans ev) (\<lambda>r. \<exists>h. r = ans h)"
  by (auto simp: returns_def run_call)

text \<open>A stable fact may be carried along.\<close>

lemma htriple_frame:
  assumes "stable F" "htriple H m K R"
  shows "htriple (\<lambda>h. H h \<and> F h) m (\<lambda>x h. K x h \<and> F h) R"
  unfolding htriple_def
proof (intro allI impI)
  fix w x w'
  assume run: "run_state m w = (x, w')" and HF: "H (trace w) \<and> F (trace w)"
  obtain es where "trace w' = trace w @ es" "steps_ok R (trace w) es" "K x (trace w')"
    using assms(2) run conjunct1 [OF HF] by (rule htripleD)
  with HF assms(1) show "\<exists>es. trace w' = trace w @ es \<and> steps_ok R (trace w) es \<and> K x (trace w') \<and> F (trace w')"
    by (auto simp: stable_def)
qed

lemma htriple_ignore:
  assumes "emits (\<lambda>h ev. H h \<longrightarrow> R h ev) m" "stable H"
  shows "htriple H m (\<lambda>_. H) R"
proof -
  have "returns m (\<lambda>_. True)" by (simp add: returns_def)
  from htriple_stable [OF assms this] show ?thesis by simp
qed

lemma htriple_first_call:
  assumes "R h0 ev" "htriple (extends h0) (f (ans h0)) L R"
  shows "htriple (\<lambda>h. h = h0) (State_Monad.bind (call ans ev) f) L R"
proof (rule htriple_bind)
  show "htriple (\<lambda>h. h = h0) (call ans ev) (\<lambda>x h. extends h0 h \<and> x = ans h0) R"
    by (rule htriple_call) (auto simp: extends_def assms(1))
  show "htriple (\<lambda>h. extends h0 h \<and> x = ans h0) (f x) L R" for x
    using assms(2) unfolding htriple_def by auto
qed

lemma htriple_runD:
  assumes "htriple (\<lambda>h. h = h0) m K R" "run_state m w = (x, w')" "h0 = trace w"
  shows "\<exists>es. trace w' = trace w @ es \<and> steps_ok R (trace w) es \<and> K x (trace w')"
  using assms unfolding htriple_def by blast

lemma htriple_appended:
  assumes "htriple (\<lambda>h. h = trace w) m K R" "run_state m w = (x, w')" "appended w w' i ev"
  shows "R (take i (trace w')) ev"
  using htriple_runD [OF assms(1,2) refl] assms(3) by (auto dest: steps_ok_appended)

lemma emits_appended:
  assumes "emits R m" "run_state m w = (x, w')" "appended w w' i ev"
  shows "R (take i (trace w')) ev"
  using assms by (metis emitsD steps_ok_appended)

lemma htriple_true: "emits R m \<Longrightarrow> htriple H m (\<lambda>_ _. True) R"
  unfolding emits_def by (rule htriple_weaken) auto

lemma htriple_pre: "(\<And>h. H h \<Longrightarrow> b) \<Longrightarrow> (b \<Longrightarrow> htriple H m K R) \<Longrightarrow> htriple H m K R"
  unfolding htriple_def by blast

lemma htriple_pure: "(b \<Longrightarrow> htriple H m K R) \<Longrightarrow> htriple (\<lambda>h. H h \<and> b) m K R"
  unfolding htriple_def by blast

lemma htriple_if:
  "(b \<Longrightarrow> htriple H m K R) \<Longrightarrow> (\<not> b \<Longrightarrow> htriple H n K R) \<Longrightarrow> htriple H (if b then m else n) K R"
  by simp

text \<open>Continuing from a result of which a property is known when it is no early return.\<close>

lemma htriple_sum:
  assumes "\<And>a. htriple H (f a) L R" "\<And>i. V i \<Longrightarrow> htriple H (g i) L R"
  shows "htriple (\<lambda>h. H h \<and> (\<forall>i. r = Inr i \<longrightarrow> V i)) (case r of Inl a \<Rightarrow> f a | Inr i \<Rightarrow> g i) L R"
proof (cases r)
  case (Inl a)
  with assms(1) show ?thesis by simp
next
  case (Inr i)
  have "htriple (\<lambda>h. H h \<and> V i) (g i) L R"
    by (rule htriple_pure) (rule assms(2))
  with Inr show ?thesis by simp
qed

lemma appended_split:
  assumes "emits R m" "run_state m w' = (x, w'')" "appended w w'' i ev"
  shows "appended w w' i ev \<or> appended w' w'' i ev"
proof -
  obtain es where "trace w'' = trace w' @ es" using assms(1,2) by (rule emitsD)
  with assms(3) show ?thesis by (auto simp: appended_def nth_append split: if_splits)
qed

lemma run_bindE:
  assumes "run_state (State_Monad.bind m f) w = (y, w'')"
  obtains x w' where "run_state m w = (x, w')" "run_state (f x) w' = (y, w'')"
proof -
  obtain x w' where m: "run_state m w = (x, w')" by fastforce
  with assms have "run_state (f x) w' = (y, w'')" by simp
  with m show thesis by (rule that)
qed

section \<open>Programs that leave the pool alone\<close>

definition keeps_pool :: "'a prog \<Rightarrow> bool" where
  "keeps_pool m \<longleftrightarrow> (\<forall>w. pool (snd (run_state m w)) = pool w)"

lemma keeps_poolD: "keeps_pool m \<Longrightarrow> run_state m w = (x, w') \<Longrightarrow> pool w' = pool w"
  unfolding keeps_pool_def by (metis snd_conv)

lemma keeps_pool_basic [pool_intros]:
  "keeps_pool (ret x)" "keeps_pool (call ans ev)" "keeps_pool (ask f)" "keeps_pool get_pool" "keeps_pool (now e)"
  by (simp_all add: keeps_pool_def run_defs now_def)

lemma keeps_pool_bind [pool_intros]:
  assumes "keeps_pool m" "\<And>x. keeps_pool (f x)"
  shows "keeps_pool (State_Monad.bind m f)"
  unfolding keeps_pool_def
proof
  fix w
  obtain x w' where m: "run_state m w = (x, w')" by fastforce
  with assms(1) have "pool w' = pool w" by (rule keeps_poolD)
  with assms(2) m show "pool (snd (run_state (State_Monad.bind m f) w)) = pool w"
    by (simp add: keeps_pool_def)
qed

lemma keeps_pool_if [pool_intros]: "keeps_pool m \<Longrightarrow> keeps_pool n \<Longrightarrow> keeps_pool (if b then m else n)"
  by simp

lemma keeps_pool_let [pool_intros]: "(\<And>x. keeps_pool (f x)) \<Longrightarrow> keeps_pool (Let x f)"
  by (simp add: Let_def)

lemma keeps_pool_sum [pool_intros]:
  "(\<And>x. keeps_pool (f x)) \<Longrightarrow> (\<And>y. keeps_pool (g y)) \<Longrightarrow> keeps_pool (case s of Inl x \<Rightarrow> f x | Inr y \<Rightarrow> g y)"
  by (cases s) auto

lemma keeps_pool_option [pool_intros]:
  "keeps_pool m \<Longrightarrow> (\<And>y. keeps_pool (g y)) \<Longrightarrow> keeps_pool (case s of None \<Rightarrow> m | Some y \<Rightarrow> g y)"
  by (cases s) auto

lemma keeps_pool_prod [pool_intros]:
  "(\<And>x y. keeps_pool (f x y)) \<Longrightarrow> keeps_pool (case p of (x, y) \<Rightarrow> f x y)"
  by (cases p) auto

section \<open>API calls\<close>

definition Get_VR :: "env \<Rightarrow> nsname \<Rightarrow> (goerr + volume_replication) prog" where
  "Get_VR e nn = call (\<lambda>h. e_getVR e h nn) (ApiGet ''VolumeReplication'' nn)"
definition Get_VRClass :: "env \<Rightarrow> nsname \<Rightarrow> (goerr + replication_class) prog" where
  "Get_VRClass e nn = call (\<lambda>h. e_getVRClass e h nn) (ApiGet ''VolumeReplicationClass'' nn)"
definition Get_VGR :: "env \<Rightarrow> nsname \<Rightarrow> (goerr + volume_group_replication) prog" where
  "Get_VGR e nn = call (\<lambda>h. e_getVGR e h nn) (ApiGet ''VolumeGroupReplication'' nn)"
definition Get_VGRClass :: "env \<Rightarrow> nsname \<Rightarrow> (goerr + replication_class) prog" where
  "Get_VGRClass e nn = call (\<lambda>h. e_getVGRClass e h nn) (ApiGet ''VolumeGroupReplicationClass'' nn)"
definition Get_VGRContent :: "env \<Rightarrow> nsname \<Rightarrow> (goerr + vgr_content) prog" where
  "Get_VGRContent e nn = call (\<lambda>h. e_getVGRContent e h nn) (ApiGet ''VolumeGroupReplicationContent'' nn)"
definition Get_PVC :: "env \<Rightarrow> nsname \<Rightarrow> (goerr + pvc) prog" where
  "Get_PVC e nn = call (\<lambda>h. e_getPVC e h nn) (ApiGet ''PersistentVolumeClaim'' nn)"
definition Get_PV :: "env \<Rightarrow> nsname \<Rightarrow> (goerr + pv) prog" where
  "Get_PV e nn = call (\<lambda>h. e_getPV e h nn) (ApiGet ''PersistentVolume'' nn)"
definition Get_Lease :: "env \<Rightarrow> nsname \<Rightarrow> (goerr + lease) prog" where
  "Get_Lease e nn = call (\<lambda>h. e_getLease e h nn) (ApiGet ''Lease'' nn)"
definition Update_VR :: "env \<Rightarrow> volume_replication \<Rightarrow> (goerr + volume_replication) prog" where
  "Update_VR e vr = call (\<lambda>h. e_updateVR e h vr) (ApiUpdate (O_VR vr))"
definition StatusUpdate_VR :: "env \<Rightarrow> volume_replication \<Rightarrow> (goerr + volume_replication) prog" where
  "StatusUpdate_VR e vr = call (\<lambda>h. e_statusVR e h vr) (ApiStatusUpdate (O_VR vr))"
definition Update_VGR :: "env \<Rightarrow> volume_group_replication \<Rightarrow> (goerr + volume_group_replication) prog" where
  "Update_VGR e vgr = call (\<lambda>h. e_updateVGR e h vgr) (ApiUpdate (O_VGR vgr))"
definition Update_VGRContent :: "env \<Rightarrow> vgr_content \<Rightarrow> (goerr + vgr_content) prog" where
  "Update_VGRContent e c = call (\<lambda>h. e_updateVGRContent e h c) (ApiUpdate (O_VGRContent c))"
definition Update_PVC :: "env \<Rightarrow> pvc \<Rightarrow> (goerr + pvc) prog" where
  "Update_PVC e p = call (\<lambda>h. e_updatePVC e h p) (ApiUpdate (O_PVC p))"

lemmas api_defs =
  Get_VR_def Get_VRClass_def Get_VGR_def Get_VGRClass_def Get_VGRContent_def Get_PVC_def Get_PV_def
  Get_Lease_def Update_VR_def StatusUpdate_VR_def Update_VGR_def Update_VGRContent_def Update_PVC_def

end
