(* ===== verification/Conn_Pool.thy ===== *)
theory Conn_Pool
  imports Cluster
begin

text \<open>
  The connections to the sidecars and the pool that holds them:
  \<open>internal/connection/connection.go\<close>, \<open>internal/connection/connection_pool.go\<close> and
  \<open>internal/util/normalize.go\<close>. The pool maps a key to a pointer; a connection that is
  reconnected through the pool is written back under its key. Each method runs under the pool's
  lock and is one program here.
\<close>

section \<open>util/normalize.go\<close>

definition lease_char :: "char \<Rightarrow> bool" where
  "lease_char c \<longleftrightarrow>
     (let n = (of_char c :: nat)
      in 97 \<le> n \<and> n \<le> 122 \<or> 65 \<le> n \<and> n \<le> 90 \<or> 48 \<le> n \<and> n \<le> 57 \<or> c = CHR ''-'')"

text \<open>\<open>None\<close> is the panic of indexing the empty string at \<open>-1\<close>.\<close>

definition NormalizeLeaseName :: "string \<Rightarrow> string option" where
  "NormalizeLeaseName name =
     (let name = map (\<lambda>c. if lease_char c then c else CHR ''-'') name
      in if name = [] then None
         else if last name = CHR ''-'' then Some (name @ ''X'')
         else Some name)"

lemma lease_char_consts: "lease_char (CHR ''-'')" "lease_char (CHR ''X'')"
  by (simp_all add: lease_char_def)

lemma NormalizeLeaseName_None: "NormalizeLeaseName name = None \<longleftrightarrow> name = []"
  by (simp add: NormalizeLeaseName_def Let_def)

lemma NormalizeLeaseName_ok:
  assumes "NormalizeLeaseName name = Some n"
  shows "list_all lease_char n \<and> n \<noteq> [] \<and> last n \<noteq> CHR ''-''"
  using assms
  by (auto simp: NormalizeLeaseName_def Let_def list_all_iff lease_char_consts split: if_splits)

lemma NormalizeLeaseName_id:
  assumes "list_all lease_char n" "n \<noteq> []" "last n \<noteq> CHR ''-''"
  shows "NormalizeLeaseName n = Some n"
proof -
  have "map (\<lambda>c. if lease_char c then c else CHR ''-'') n = n"
    using assms(1) by (auto simp: list_all_iff intro: map_idI)
  with assms show ?thesis by (simp add: NormalizeLeaseName_def)
qed

section \<open>connection.go\<close>

definition fetchCapabilities :: "env \<Rightarrow> connection \<Rightarrow> (connection \<times> goerr option) prog" where
  "fetchCapabilities e c = do {
     res \<leftarrow> call (\<lambda>h. e_rpcGetCapabilities e h (cn_Client c) ()) (Rpc (cn_Client c) RpcGetCapabilities);
     (case res of
        Inl err \<Rightarrow> ret (c, Some err)
      | Inr caps \<Rightarrow> ret (c\<lparr>cn_Capabilities := caps\<rparr>, None))
   }"

definition closeClient :: "env \<Rightarrow> grpc_client \<Rightarrow> goerr option prog" where
  "closeClient e cl = call (\<lambda>h. e_closeClient e h cl) (CloseClient cl)"

text \<open>Whether the present client is kept, and the part of \<open>Connect\<close> that makes a new one.\<close>

definition reusable :: "env \<Rightarrow> connection \<Rightarrow> bool prog" where
  "reusable e c =
     (case cn_Client c of
        None \<Rightarrow> ret False
      | Some cl \<Rightarrow> do {
          shutdown \<leftarrow> call (\<lambda>h. e_isShutdown e h cl) (GetState cl);
          ret (\<not> shutdown)
        })"

definition reconnect :: "env \<Rightarrow> connection \<Rightarrow> (connection \<times> goerr option) prog" where
  "reconnect e c = do {
     cc \<leftarrow> call (\<lambda>h. e_newClient e h (cn_endpoint c, cn_enableAuth c)) (Dial (cn_endpoint c) (cn_enableAuth c));
     (case cc of
        Inl err \<Rightarrow> ret (c, Some err)
      | Inr cl \<Rightarrow> do {
          (c, err) \<leftarrow> fetchCapabilities e (c\<lparr>cn_Client := Some cl\<rparr>);
          (case err of
             Some er \<Rightarrow> do {
               _ \<leftarrow> closeClient e cl;
               ret (c\<lparr>cn_Client := None\<rparr>, Some er)
             }
           | None \<Rightarrow> ret (c, None))
        })
   }"

definition Connect :: "env \<Rightarrow> connection \<Rightarrow> (connection \<times> goerr option) prog" where
  "Connect e c = do {
     reuse \<leftarrow> reusable e c;
     if reuse then ret (c, None) else reconnect e (c\<lparr>cn_Client := None\<rparr>)
   }"

definition NewConnection ::
  "env \<Rightarrow> string \<Rightarrow> string \<Rightarrow> string \<Rightarrow> string \<Rightarrow> string \<Rightarrow> bool \<Rightarrow> (goerr + connection) prog" where
  "NewConnection e endpoint nodeID driverName namespace podName enableAuth = do {
     (conn, err) \<leftarrow> Connect e
       \<lparr>cn_Client = None, cn_Capabilities = [], cn_Namespace = namespace, cn_Name = podName,
        cn_NodeID = nodeID, cn_DriverName = driverName, cn_Timeout = minute,
        cn_enableAuth = enableAuth, cn_endpoint = endpoint, cn_podName = podName\<rparr>;
     (case err of Some er \<Rightarrow> ret (Inl er) | None \<Rightarrow> ret (Inr conn))
   }"

definition Close :: "env \<Rightarrow> connection \<Rightarrow> (connection \<times> goerr option) prog" where
  "Close e c =
     (case cn_Client c of
        None \<Rightarrow> ret (c, None)
      | Some cl \<Rightarrow> do {
          err \<leftarrow> closeClient e cl;
          ret (c\<lparr>cn_Client := None\<rparr>, err)
        })"

definition HasControllerService :: "connection \<Rightarrow> bool" where
  "HasControllerService c \<longleftrightarrow> (\<exists>cap \<in> set (cn_Capabilities c). cap = CapService CONTROLLER_SERVICE)"

section \<open>connection_pool.go\<close>

type_synonym conn_map = "(string \<times> connection) list"

definition NewConnectionPool :: conn_map where
  "NewConnectionPool = []"

definition Put :: "env \<Rightarrow> string \<Rightarrow> connection \<Rightarrow> unit prog" where
  "Put e key conn = do {
     p \<leftarrow> get_pool;
     (case map_of p key of
        Some oldConn \<Rightarrow> do { _ \<leftarrow> Close e oldConn; ret () }
      | None \<Rightarrow> ret ());
     put_pool (AList.update key conn p)
   }"

definition Delete :: "env \<Rightarrow> string \<Rightarrow> unit prog" where
  "Delete e key = do {
     p \<leftarrow> get_pool;
     (case map_of p key of
        Some conn \<Rightarrow> do { _ \<leftarrow> Close e conn; ret () }
      | None \<Rightarrow> ret ());
     put_pool (AList.delete key p)
   }"

definition reconnect_error :: "goerr \<Rightarrow> goerr" where
  "reconnect_error err = ErrWrap ''failed to reconnect an inactive connection due to error: '' err []"

text \<open>\<open>v.Connect()\<close> on an entry of the pool: the pointer is shared, so the pool sees the change.\<close>

definition Connect_entry :: "env \<Rightarrow> string \<Rightarrow> connection \<Rightarrow> (connection \<times> goerr option) prog" where
  "Connect_entry e k v = do {
     (v, err) \<leftarrow> Connect e v;
     p \<leftarrow> get_pool;
     put_pool (AList.map_entry k (\<lambda>_. v) p);
     ret (v, err)
   }"

fun getByDriverName_loop :: "env \<Rightarrow> string \<Rightarrow> conn_map \<Rightarrow> conn_map \<Rightarrow> (goerr + conn_map) prog" where
  "getByDriverName_loop e driverName [] newPool = ret (Inr newPool)"
| "getByDriverName_loop e driverName ((k, v) # ps) newPool =
     (if cn_DriverName v \<noteq> driverName then getByDriverName_loop e driverName ps newPool
      else do {
        (v, err) \<leftarrow> Connect_entry e k v;
        (case err of
           Some er \<Rightarrow> ret (Inl (reconnect_error er))
         | None \<Rightarrow> getByDriverName_loop e driverName ps (AList.update k v newPool))
      })"

definition getByDriverName :: "env \<Rightarrow> string \<Rightarrow> (goerr + conn_map) prog" where
  "getByDriverName e driverName = do {
     p \<leftarrow> get_pool;
     getByDriverName_loop e driverName p []
   }"

fun GetByNodeID_loop :: "env \<Rightarrow> string \<Rightarrow> conn_map \<Rightarrow> conn_map \<Rightarrow> (goerr + conn_map) prog" where
  "GetByNodeID_loop e nodeID [] result = ret (Inr result)"
| "GetByNodeID_loop e nodeID ((k, v) # ps) result =
     (if nodeID \<noteq> [] \<and> cn_NodeID v \<noteq> nodeID then GetByNodeID_loop e nodeID ps result
      else do {
        (v, err) \<leftarrow> Connect_entry e k v;
        (case err of
           Some er \<Rightarrow> ret (Inl (reconnect_error er))
         | None \<Rightarrow> GetByNodeID_loop e nodeID ps (AList.update k v result))
      })"

definition GetByNodeID :: "env \<Rightarrow> string \<Rightarrow> string \<Rightarrow> (goerr + conn_map) prog" where
  "GetByNodeID e driverName nodeID = do {
     pool \<leftarrow> getByDriverName e driverName;
     (case pool of
        Inl err \<Rightarrow> ret (Inl err)
      | Inr p \<Rightarrow> GetByNodeID_loop e nodeID p [])
   }"

fun findNamespace :: "conn_map \<Rightarrow> string \<Rightarrow> string option" where
  "findNamespace [] driverName = None"
| "findNamespace ((k, conn) # ps) driverName =
     (if cn_DriverName conn \<noteq> driverName then findNamespace ps driverName
      else Some (cn_Namespace conn))"

definition getNamespaceByDriverName :: "string \<Rightarrow> (goerr + string) prog" where
  "getNamespaceByDriverName driverName = do {
     p \<leftarrow> get_pool;
     (case findNamespace p driverName of
        Some ns \<Rightarrow> ret (Inr ns)
      | None \<Rightarrow> ret (Inl (ErrMsg (''failed to find the namespace where driver '' @ fmt_q driverName @
                  '' is running''))))
   }"

text \<open>Results of functions that may panic.\<close>

datatype 'a gores = GoOk 'a | GoErr goerr | GoPanic string

lemma emits_gores [emits_intros]:
  "(\<And>x. emits R (f x)) \<Longrightarrow> (\<And>x. emits R (g x)) \<Longrightarrow> (\<And>x. emits R (k x)) \<Longrightarrow>
     emits R (case c of GoOk x \<Rightarrow> f x | GoErr x \<Rightarrow> g x | GoPanic x \<Rightarrow> k x)"
  by (cases c) auto

text \<open>A format verb \<open>%w\<close> whose operand is a nil error prints \<open>%!w(<nil>)\<close>.\<close>

definition GetLeaderByDriver :: "env \<Rightarrow> string \<Rightarrow> connection gores prog" where
  "GetLeaderByDriver e driverName = do {
     nsr \<leftarrow> getNamespaceByDriverName driverName;
     (case nsr of
        Inl err \<Rightarrow> ret (GoErr err)
      | Inr ns \<Rightarrow>
          (case NormalizeLeaseName driverName of
             None \<Rightarrow> ret (GoPanic ''index out of range [-1]'')
           | Some n \<Rightarrow> do {
               let leaseName = n @ ''-csi-addons'';
               lr \<leftarrow> Get_Lease e \<lparr>nn_namespace = ns, nn_name = leaseName\<rparr>;
               (case lr of
                  Inl err \<Rightarrow> ret (GoErr (ErrWrap (''no leader found for driver '' @ fmt_q driverName @ '': '') err []))
                | Inr l \<Rightarrow>
                    if ls_holderIdentity l = None \<or> ls_holderIdentity l = Some []
                    then ret (GoErr (ErrMsg (''lease '' @ fmt_q leaseName @ '' for driver '' @ fmt_q driverName @
                                '' does not have a leader'')))
                    else do {
                      let key = ls_namespace l @ ''/'' @ the (ls_holderIdentity l);
                      p \<leftarrow> get_pool;
                      (case map_of p key of
                         None \<Rightarrow> ret (GoErr (ErrMsg (''no connection with key '' @ fmt_q key @ '' found for driver '' @
                                    fmt_q driverName @ '': %!w(<nil>)'')))
                       | Some conn \<Rightarrow> do {
                           (conn, err) \<leftarrow> Connect_entry e key conn;
                           (case err of
                              Some er \<Rightarrow> ret (GoErr (reconnect_error er))
                            | None \<Rightarrow> ret (GoOk conn))
                         })
                    })
             }))
   }"

section \<open>Connections keep their identity\<close>

text \<open>What \<open>Connect\<close> and \<open>Close\<close> never change.\<close>

definition conn_id :: "connection \<Rightarrow> connection" where
  "conn_id c = c\<lparr>cn_Client := None, cn_Capabilities := []\<rparr>"

lemma conn_id_eqD:
  "conn_id c = conn_id d \<Longrightarrow> cn_Namespace c = cn_Namespace d"
  "conn_id c = conn_id d \<Longrightarrow> cn_Name c = cn_Name d"
  "conn_id c = conn_id d \<Longrightarrow> cn_NodeID c = cn_NodeID d"
  "conn_id c = conn_id d \<Longrightarrow> cn_DriverName c = cn_DriverName d"
  "conn_id c = conn_id d \<Longrightarrow> cn_endpoint c = cn_endpoint d"
  by (cases c; cases d; simp add: conn_id_def)+

lemma conn_id_upd [simp]:
  "conn_id (c\<lparr>cn_Client := x\<rparr>) = conn_id c" "conn_id (c\<lparr>cn_Capabilities := y\<rparr>) = conn_id c"
  by (simp_all add: conn_id_def)

lemmas connect_defs = Connect_def reusable_def reconnect_def fetchCapabilities_def closeClient_def

lemma Connect_frame:
  assumes "run_state (Connect e c) w = ((c', err), w')"
  shows "pool w' = pool w \<and> conn_id c' = conn_id c \<and> (err = None \<longleftrightarrow> cn_Client c' \<noteq> None)"
  using assms
  by (cases "cn_Client c")
    (auto simp: connect_defs run_defs split: sum.splits option.splits if_splits prod.splits)

text \<open>A client that is not shut down is kept, capabilities included, and nothing is dialled.\<close>

lemma Connect_reuse:
  assumes "cn_Client c = Some cl" "\<not> e_isShutdown e (trace w) cl"
  shows "run_state (Connect e c) w = ((c, None), w\<lparr>trace := trace w @ [GetState cl]\<rparr>)"
  using assms by (simp add: connect_defs run_defs)

lemma Close_frame:
  assumes "run_state (Close e c) w = ((c', err), w')"
  shows "pool w' = pool w \<and> conn_id c' = conn_id c \<and> cn_Client c' = None"
  using assms by (auto simp: Close_def closeClient_def run_defs split: option.splits)

section \<open>The pool as a keyed store\<close>

text \<open>The contract of a store of values under keys, and what follows for sequences of operations.\<close>

datatype 'v store_op = OpPut string 'v | OpDelete string

fun op_key :: "'v store_op \<Rightarrow> string" where
  "op_key (OpPut k v) = k"
| "op_key (OpDelete k) = k"

fun op_val :: "'v store_op \<Rightarrow> 'v option" where
  "op_val (OpPut k v) = Some v"
| "op_val (OpDelete k) = None"

locale keyed_store =
  fixes ins :: "'s \<Rightarrow> string \<Rightarrow> 'v \<Rightarrow> 's"
    and del :: "'s \<Rightarrow> string \<Rightarrow> 's"
    and look :: "'s \<Rightarrow> string \<Rightarrow> 'v option"
    and ok :: "'s \<Rightarrow> bool"
  assumes look_ins: "look (ins s k v) k' = (if k' = k then Some v else look s k')"
    and look_del: "look (del s k) k' = (if k' = k then None else look s k')"
    and ok_ins: "ok s \<Longrightarrow> ok (ins s k v)"
    and ok_del: "ok s \<Longrightarrow> ok (del s k)"
begin

primrec apply_op :: "'s \<Rightarrow> 'v store_op \<Rightarrow> 's" where
  "apply_op s (OpPut k v) = ins s k v"
| "apply_op s (OpDelete k) = del s k"

lemma ok_ops: "ok s \<Longrightarrow> ok (foldl apply_op s ops)"
proof (induction ops rule: rev_induct)
  case Nil
  then show ?case by simp
next
  case (snoc x xs)
  then show ?case by (cases x) (simp_all add: ok_ins ok_del)
qed

text \<open>Only the last operation on a key counts.\<close>

lemma look_ops:
  "look (foldl apply_op s ops) k =
     (case filter (\<lambda>x. op_key x = k) ops of [] \<Rightarrow> look s k | _ \<Rightarrow> op_val (last (filter (\<lambda>x. op_key x = k) ops)))"
proof (induction ops rule: rev_induct)
  case Nil
  then show ?case by simp
next
  case (snoc x xs)
  then show ?case by (cases x) (auto simp: look_ins look_del split: list.splits)
qed

end

lemma pool_Put: "pool (snd (run_state (Put e k c) w)) = AList.update k c (pool w)"
  by (auto simp: Put_def Close_def closeClient_def run_defs split: option.splits)

lemma pool_Delete: "pool (snd (run_state (Delete e k) w)) = AList.delete k (pool w)"
  by (auto simp: Delete_def Close_def closeClient_def run_defs split: option.splits)

definition pool_lookup :: "world \<Rightarrow> string \<Rightarrow> connection option" where
  "pool_lookup w k = map_of (pool w) k"

definition pool_ok :: "world \<Rightarrow> bool" where
  "pool_ok w \<longleftrightarrow> distinct (map fst (pool w))"

definition pool_put :: "env \<Rightarrow> world \<Rightarrow> string \<Rightarrow> connection \<Rightarrow> world" where
  "pool_put e w k c = snd (run_state (Put e k c) w)"

definition pool_delete :: "env \<Rightarrow> world \<Rightarrow> string \<Rightarrow> world" where
  "pool_delete e w k = snd (run_state (Delete e k) w)"

interpretation conn_pool: keyed_store "pool_put e" "pool_delete e" pool_lookup pool_ok for e
  by unfold_locales
    (simp_all add: pool_put_def pool_delete_def pool_lookup_def pool_ok_def pool_Put pool_Delete
      update_conv' delete_conv' distinct_update distinct_delete)

section \<open>Selecting connections\<close>

definition ids :: "conn_map \<Rightarrow> conn_map" where
  "ids p = map (\<lambda>(k, c). (k, conn_id c)) p"

lemma ids_simps [simp]: "ids [] = []" "ids ((k, c) # p) = (k, conn_id c) # ids p" "ids (p @ q) = ids p @ ids q"
  by (simp_all add: ids_def)

lemma keys_ids: "map fst (ids p) = map fst p"
  by (induction p) auto

lemma map_of_ids: "map_of (ids p) k = map_option conn_id (map_of p k)"
  by (induction p) auto

lemma ids_filter:
  assumes "\<And>k c. P (k, conn_id c) = P (k, c)"
  shows "ids (filter P p) = filter P (ids p)"
  using assms by (induction p) auto

lemma update_fresh: "k \<notin> fst ` set p \<Longrightarrow> AList.update k v p = p @ [(k, v)]"
  by (induction p) auto

lemma ids_map_entry:
  assumes "distinct (map fst p)" "map_of (ids p) k = Some (conn_id v)"
  shows "ids (AList.map_entry k (\<lambda>_. v) p) = ids p"
  using assms
proof (induction p)
  case Nil
  then show ?case by simp
next
  case (Cons x p)
  obtain k' c where x: "x = (k', c)" by fastforce
  show ?case
  proof (cases "k' = k")
    case True
    with Cons.prems x have "conn_id c = conn_id v" "k \<notin> fst ` set p" by auto
    moreover have "k \<notin> fst ` set q \<Longrightarrow> AList.map_entry k f q = q" for q :: conn_map and f
      by (induction q) auto
    ultimately show ?thesis using True x by simp
  next
    case False
    with Cons x show ?thesis by simp
  qed
qed

lemma Connect_entry_frame:
  assumes "run_state (Connect_entry e k v) w = ((v', err), w')"
  shows "pool w' = AList.map_entry k (\<lambda>_. v') (pool w) \<and> conn_id v' = conn_id v \<and>
         (err = None \<longleftrightarrow> cn_Client v' \<noteq> None)"
  using assms Connect_frame [of e v w]
  by (auto simp: Connect_entry_def run_defs split: prod.splits)

lemma Connect_entry_ids:
  assumes "run_state (Connect_entry e k v) w = ((v', err), w')"
    and "pool_ok w" "map_of (ids (pool w)) k = Some (conn_id v)"
  shows "ids (pool w') = ids (pool w) \<and> pool_ok w'"
proof -
  from Connect_entry_frame [OF assms(1)]
  have pool: "pool w' = AList.map_entry k (\<lambda>_. v') (pool w)" and id: "conn_id v' = conn_id v"
    by simp_all
  have "ids (pool w') = ids (pool w)"
    unfolding pool by (rule ids_map_entry) (use assms id in \<open>simp_all add: pool_ok_def\<close>)
  then show ?thesis
    using assms(2) unfolding pool_ok_def by (metis keys_ids)
qed

text \<open>Both loops filter by a property of the identity and connect what passes.\<close>

fun select_loop :: "env \<Rightarrow> (string \<times> connection \<Rightarrow> bool) \<Rightarrow> conn_map \<Rightarrow> conn_map \<Rightarrow> (goerr + conn_map) prog" where
  "select_loop e P [] acc = ret (Inr acc)"
| "select_loop e P ((k, v) # ps) acc =
     (if \<not> P (k, v) then select_loop e P ps acc
      else do {
        (v, err) \<leftarrow> Connect_entry e k v;
        (case err of
           Some er \<Rightarrow> ret (Inl (reconnect_error er))
         | None \<Rightarrow> select_loop e P ps (AList.update k v acc))
      })"

lemma getByDriverName_loop_select:
  "getByDriverName_loop e d ps acc = select_loop e (\<lambda>(k, c). cn_DriverName c = d) ps acc"
  by (induction ps arbitrary: acc) (auto intro!: arg_cong [where f = "State_Monad.bind _"])

lemma GetByNodeID_loop_select:
  "GetByNodeID_loop e n ps acc = select_loop e (\<lambda>(k, c). n = [] \<or> cn_NodeID c = n) ps acc"
  by (induction ps arbitrary: acc) (auto intro!: arg_cong [where f = "State_Monad.bind _"])

lemma select_loop_ok:
  assumes "run_state (select_loop e P ps acc) w = (r, w')" "pool_ok w"
    and "\<And>k c. P (k, conn_id c) = P (k, c)"
    and "distinct (map fst (acc @ ps))"
    and "\<forall>(k, c) \<in> set ps. map_of (ids (pool w)) k = Some (conn_id c)"
    and "\<forall>(k, c) \<in> set acc. cn_Client c \<noteq> None"
  shows "ids (pool w') = ids (pool w) \<and> pool_ok w' \<and>
    (\<forall>res. r = Inr res \<longrightarrow> ids res = ids acc @ filter P (ids ps) \<and> (\<forall>(k, c) \<in> set res. cn_Client c \<noteq> None))"
  using assms
proof (induction ps arbitrary: acc w)
  case Nil
  then show ?case by auto
next
  case (Cons x ps)
  obtain k v where x: "x = (k, v)" by fastforce
  show ?case
  proof (cases "P (k, v)")
    case False
    with Cons.prems x have "run_state (select_loop e P ps acc) w = (r, w')" by simp
    from Cons.IH [OF this] Cons.prems False x show ?thesis by auto
  next
    case True
    obtain v' err w1 where c: "run_state (Connect_entry e k v) w = ((v', err), w1)"
      by (metis prod.exhaust)
    have frame: "conn_id v' = conn_id v" "err = None \<longleftrightarrow> cn_Client v' \<noteq> None"
      using Connect_entry_frame [OF c] by simp_all
    have ids1: "ids (pool w1) = ids (pool w)" "pool_ok w1"
      using Connect_entry_ids [OF c] Cons.prems(2,5) x by auto
    show ?thesis
    proof (cases err)
      case (Some er)
      with Cons.prems(1) True x c show ?thesis using ids1 by auto
    next
      case None
      have fresh: "AList.update k v' acc = acc @ [(k, v')]"
        using Cons.prems(4) x by (intro update_fresh) auto
      have "run_state (select_loop e P ps (acc @ [(k, v')])) w1 = (r, w')"
        using Cons.prems(1) True x c None fresh by simp
      from Cons.IH [OF this ids1(2) Cons.prems(3)] show ?thesis
        using Cons.prems x True frame None ids1 by auto
    qed
  qed
qed

lemma map_of_ids_self: "pool_ok w \<Longrightarrow> \<forall>(k, c) \<in> set (pool w). map_of (ids (pool w)) k = Some (conn_id c)"
  by (auto simp: pool_ok_def map_of_ids)

lemma getByDriverName_ok:
  assumes "run_state (getByDriverName e d) w = (r, w')" "pool_ok w"
  shows "ids (pool w') = ids (pool w) \<and> pool_ok w' \<and>
    (\<forall>res. r = Inr res \<longrightarrow> ids res = filter (\<lambda>(k, c). cn_DriverName c = d) (ids (pool w)) \<and>
       (\<forall>(k, c) \<in> set res. cn_Client c \<noteq> None))"
proof -
  have "run_state (select_loop e (\<lambda>(k, c). cn_DriverName c = d) (pool w) []) w = (r, w')"
    using assms(1) by (simp add: getByDriverName_def run_defs getByDriverName_loop_select)
  from select_loop_ok [OF this assms(2)] map_of_ids_self [OF assms(2)] assms(2) show ?thesis
    by (simp add: pool_ok_def conn_id_def)
qed

lemma GetByNodeID_ok:
  assumes "run_state (GetByNodeID e d n) w = (r, w')" "pool_ok w"
  shows "ids (pool w') = ids (pool w) \<and> pool_ok w' \<and>
    (\<forall>res. r = Inr res \<longrightarrow>
       ids res = ids (filter (\<lambda>(k, c). cn_DriverName c = d \<and> (n = [] \<or> cn_NodeID c = n)) (pool w)) \<and>
       (\<forall>(k, c) \<in> set res. cn_Client c \<noteq> None))"
proof -
  let ?D = "\<lambda>(k :: string, c). cn_DriverName c = d" and ?N = "\<lambda>(k :: string, c). n = [] \<or> cn_NodeID c = n"
  obtain r1 w1 where first: "run_state (getByDriverName e d) w = (r1, w1)" by fastforce
  from getByDriverName_ok [OF first assms(2)]
  have w1: "ids (pool w1) = ids (pool w)" "pool_ok w1"
    and r1: "\<And>p. r1 = Inr p \<Longrightarrow> ids p = filter ?D (ids (pool w)) \<and> (\<forall>(k, c) \<in> set p. cn_Client c \<noteq> None)"
    by auto
  show ?thesis
  proof (cases r1)
    case (Inl err)
    with assms(1) first w1 show ?thesis by (auto simp: GetByNodeID_def)
  next
    case (Inr p)
    then have run: "run_state (select_loop e ?N p []) w1 = (r, w')"
      using assms(1) first by (simp add: GetByNodeID_def GetByNodeID_loop_select)
    have idp: "ids p = filter ?D (ids (pool w1))"
      using r1 [OF Inr] w1(1) by simp
    have dist: "distinct (map fst p)"
      using w1(2) idp distinct_map_filter [of fst "ids (pool w1)"] by (metis keys_ids pool_ok_def)
    have sub: "\<forall>(k, c) \<in> set p. map_of (ids (pool w1)) k = Some (conn_id c)"
    proof safe
      fix k c assume "(k, c) \<in> set p"
      then have "(k, conn_id c) \<in> set (ids p)" by (force simp: ids_def)
      then have "(k, conn_id c) \<in> set (ids (pool w1))" by (simp add: idp)
      then show "map_of (ids (pool w1)) k = Some (conn_id c)"
        using w1(2) by (simp add: pool_ok_def keys_ids)
    qed
    let ?F = "\<lambda>(k, c). cn_DriverName c = d \<and> (n = [] \<or> cn_NodeID c = n)"
    have "ids (filter ?F (pool w)) = filter ?F (ids (pool w))"
      by (rule ids_filter) (simp add: conn_id_def)
    also have "\<dots> = filter ?N (ids p)"
      unfolding idp w1(1) filter_filter by (rule filter_cong) auto
    finally have F: "ids (filter ?F (pool w)) = filter ?N (ids p)" .
    have "\<And>k c. ?N (k, conn_id c) = ?N (k, c)"
      by (simp add: conn_id_def)
    from select_loop_ok [OF run w1(2) this] dist sub have "ids (pool w') = ids (pool w1) \<and> pool_ok w' \<and>
        (\<forall>res. r = Inr res \<longrightarrow> ids res = filter ?N (ids p) \<and> (\<forall>(k, c) \<in> set res. cn_Client c \<noteq> None))"
      by simp
    then show ?thesis
      unfolding F w1(1) .
  qed
qed

section \<open>The calls of a lookup\<close>

text \<open>Looking up connections only reads objects and opens, inspects and closes clients.\<close>

definition lookup_call :: "event \<Rightarrow> bool" where
  "lookup_call ev \<longleftrightarrow>
     (case ev of ApiGet _ _ \<Rightarrow> True | ApiList _ _ \<Rightarrow> True | Dial _ _ \<Rightarrow> True | GetState _ \<Rightarrow> True
      | CloseClient _ \<Rightarrow> True | Rpc _ RpcGetCapabilities \<Rightarrow> True | _ \<Rightarrow> False)"

lemma lookup_call_simps [simp]:
  "lookup_call (ApiGet k nn)" "lookup_call (ApiList k s)" "lookup_call (Dial ep b)" "lookup_call (GetState d)"
  "lookup_call (CloseClient d)" "lookup_call (Rpc c RpcGetCapabilities)" "\<not> lookup_call (ApiUpdate x)"
  "\<not> lookup_call (ApiStatusUpdate x)" "\<not> lookup_call (ApiCreate x)" "\<not> lookup_call (ApiDelete x)"
  "\<not> lookup_call (Rpc c (RpcFence q))" "\<not> lookup_call (Rpc c (RpcUnfence q))"
  "\<not> lookup_call (Rpc c (RpcControllerReclaimSpace v))" "\<not> lookup_call (Rpc c (RpcNodeReclaimSpace v))"
  "\<not> lookup_call (Rpc c (RpcEncryptionKeyRotate v))"
  by (simp_all add: lookup_call_def)

lemma emits_lookup_entry:
  assumes "\<And>h ev. lookup_call ev \<Longrightarrow> R h ev"
  shows "emits R (Connect_entry e k c)"
  unfolding Connect_entry_def connect_defs by (intro emits_intros) (simp_all add: assms)

lemma emits_leader:
  assumes "\<And>h ev. lookup_call ev \<Longrightarrow> R h ev"
  shows "emits R (GetLeaderByDriver e d)"
  unfolding GetLeaderByDriver_def getNamespaceByDriverName_def Get_Lease_def
  by (intro emits_intros emits_lookup_entry) (simp_all add: assms)

lemma emits_GetByNodeID:
  assumes "\<And>h ev. lookup_call ev \<Longrightarrow> R h ev"
  shows "emits R (GetByNodeID e d n)"
proof -
  note entry = emits_lookup_entry [OF assms]
  have "emits R (getByDriverName_loop e d ps acc)" for ps acc
    by (induction ps arbitrary: acc) (auto intro!: emits_intros entry split: prod.split)
  moreover have "emits R (GetByNodeID_loop e n ps acc)" for ps acc
    by (induction ps arbitrary: acc) (auto intro!: emits_intros entry split: prod.split)
  ultimately show ?thesis
    unfolding GetByNodeID_def getByDriverName_def by (intro emits_intros)
qed

end
