(* ===== verification/Finalizers.thy ===== *)
theory Finalizers
  imports Conn_Pool
begin

text \<open>
  Protection of the objects a replication resource works on: finalizers
  (\<open>replication.storage/finalizers.go\<close>), owner annotations on claims and their lookup
  (\<open>replication.storage/pvc.go\<close>), and the lookup of classes
  (\<open>volumereplicationclass.go\<close>, \<open>volumegroupreplicationclass.go\<close>). An object passed by pointer
  is returned as the call leaves it: the server's copy after a successful update, the locally
  changed one after a failed update.
\<close>

section \<open>Constants\<close>

definition volumeReplicationFinalizer :: string where
  "volumeReplicationFinalizer = ''replication.storage.openshift.io''"
definition pvcReplicationFinalizer :: string where
  "pvcReplicationFinalizer = ''replication.storage.openshift.io/pvc-protection''"
definition vgrReplicationFinalizer :: string where
  "vgrReplicationFinalizer = ''replication.storage.openshift.io/vgr-protection''"
definition VolumeReplicationNameAnnotation :: string where
  "VolumeReplicationNameAnnotation = ''replication.storage.openshift.io/volume-replication-name''"
definition VolumeGroupReplicationNameAnnotation :: string where
  "VolumeGroupReplicationNameAnnotation = ''replication.storage.openshift.io/volume-group-replication-name''"
definition VolumeGroupReplicationContentNameAnnotation :: string where
  "VolumeGroupReplicationContentNameAnnotation =
     ''replication.storage.openshift.io/volume-group-replication-content-name''"

lemma finalizers_distinct:
  "distinct [volumeReplicationFinalizer, pvcReplicationFinalizer, vgrReplicationFinalizer]"
  by (simp add: volumeReplicationFinalizer_def pvcReplicationFinalizer_def vgrReplicationFinalizer_def)

lemma owner_annotations_distinct:
  "distinct [VolumeReplicationNameAnnotation, VolumeGroupReplicationNameAnnotation,
     VolumeGroupReplicationContentNameAnnotation]"
  by (simp add: VolumeReplicationNameAnnotation_def VolumeGroupReplicationNameAnnotation_def
      VolumeGroupReplicationContentNameAnnotation_def)

section \<open>finalizers.go\<close>

text \<open>The object after an update, and the error as the caller wraps it, or with a text before it.\<close>

definition update_result :: "'o \<Rightarrow> (goerr \<Rightarrow> goerr) \<Rightarrow> goerr + 'o \<Rightarrow> 'o \<times> goerr option" where
  "update_result x wrap r = (case r of Inl err \<Rightarrow> (x, Some (wrap err)) | Inr y \<Rightarrow> (y, None))"

definition after_update :: "'o \<Rightarrow> string \<Rightarrow> goerr + 'o \<Rightarrow> 'o \<times> goerr option" where
  "after_update x msg r = (case r of Inl err \<Rightarrow> (x, Some (ErrWrap msg err [])) | Inr y \<Rightarrow> (y, None))"

lemma after_update_result: "after_update x msg = update_result x (\<lambda>err. ErrWrap msg err [])"
  by (rule ext) (simp add: after_update_def update_result_def)

definition vr_set_finalizers :: "string list \<Rightarrow> volume_replication \<Rightarrow> volume_replication" where
  "vr_set_finalizers fs vr = vr\<lparr>vr_meta := (vr_meta vr)\<lparr>om_finalizers := fs\<rparr>\<rparr>"

definition vgr_set_finalizers :: "string list \<Rightarrow> volume_group_replication \<Rightarrow> volume_group_replication" where
  "vgr_set_finalizers fs vgr = vgr\<lparr>vgr_meta := (vgr_meta vgr)\<lparr>om_finalizers := fs\<rparr>\<rparr>"

definition vgrc_set_finalizers :: "string list \<Rightarrow> vgr_content \<Rightarrow> vgr_content" where
  "vgrc_set_finalizers fs c = c\<lparr>vgrc_meta := (vgrc_meta c)\<lparr>om_finalizers := fs\<rparr>\<rparr>"

definition pvc_set_finalizers :: "string list \<Rightarrow> pvc \<Rightarrow> pvc" where
  "pvc_set_finalizers fs p = p\<lparr>pvc_meta := (pvc_meta p)\<lparr>om_finalizers := fs\<rparr>\<rparr>"

definition finalizer_msg :: "string \<Rightarrow> string \<Rightarrow> string \<Rightarrow> string \<Rightarrow> string \<Rightarrow> string" where
  "finalizer_msg verb fin kind name sep =
     ''failed to '' @ verb @ '' finalizer ('' @ fin @ '') '' @ kind @ '' resource ('' @ name @ '')'' @ sep"

definition slash_name :: "object_meta \<Rightarrow> string" where
  "slash_name m = om_namespace m @ ''/'' @ om_name m"

definition addFinalizerToVR :: "env \<Rightarrow> volume_replication \<Rightarrow> (volume_replication \<times> goerr option) prog" where
  "addFinalizerToVR e vr =
     (if volumeReplicationFinalizer \<notin> set (om_finalizers (vr_meta vr)) then do {
        let vr = vr_set_finalizers (om_finalizers (vr_meta vr) @ [volumeReplicationFinalizer]) vr;
        r \<leftarrow> Update_VR e vr;
        ret (after_update vr (finalizer_msg ''add'' volumeReplicationFinalizer ''to VolumeReplication''
          (slash_name (vr_meta vr)) '' '') r)
      } else ret (vr, None))"

definition removeFinalizerFromVR :: "env \<Rightarrow> volume_replication \<Rightarrow> (volume_replication \<times> goerr option) prog" where
  "removeFinalizerFromVR e vr =
     (if volumeReplicationFinalizer \<in> set (om_finalizers (vr_meta vr)) then do {
        let vr = vr_set_finalizers (RemoveFromSlice (om_finalizers (vr_meta vr)) volumeReplicationFinalizer) vr;
        r \<leftarrow> Update_VR e vr;
        ret (after_update vr (finalizer_msg ''remove'' volumeReplicationFinalizer ''from VolumeReplication''
          (slash_name (vr_meta vr)) '', '') r)
      } else ret (vr, None))"

definition addFinalizerToPVC :: "env \<Rightarrow> pvc \<Rightarrow> string \<Rightarrow> (pvc \<times> goerr option) prog" where
  "addFinalizerToPVC e p replicationFinalizer =
     (if replicationFinalizer \<notin> set (om_finalizers (pvc_meta p)) then do {
        let p = pvc_set_finalizers (om_finalizers (pvc_meta p) @ [replicationFinalizer]) p;
        r \<leftarrow> Update_PVC e p;
        ret (after_update p (finalizer_msg ''add'' replicationFinalizer ''to PersistentVolumeClaim''
          (slash_name (pvc_meta p)) '' '') r)
      } else ret (p, None))"

definition removeFinalizerFromPVC :: "env \<Rightarrow> pvc \<Rightarrow> string \<Rightarrow> (pvc \<times> goerr option) prog" where
  "removeFinalizerFromPVC e p replicationFinalizer =
     (if replicationFinalizer \<in> set (om_finalizers (pvc_meta p)) then do {
        let p = pvc_set_finalizers (RemoveFromSlice (om_finalizers (pvc_meta p)) replicationFinalizer) p;
        r \<leftarrow> Update_PVC e p;
        ret (after_update p (finalizer_msg ''remove'' replicationFinalizer ''from PersistentVolumeClaim''
          (slash_name (pvc_meta p)) '', '') r)
      } else ret (p, None))"

definition addFinalizerToVGR ::
  "env \<Rightarrow> volume_group_replication \<Rightarrow> (volume_group_replication \<times> goerr option) prog" where
  "addFinalizerToVGR e vgr =
     (if vgrReplicationFinalizer \<notin> set (om_finalizers (vgr_meta vgr)) then do {
        let vgr = vgr_set_finalizers (om_finalizers (vgr_meta vgr) @ [vgrReplicationFinalizer]) vgr;
        r \<leftarrow> Update_VGR e vgr;
        ret (after_update vgr (finalizer_msg ''add'' vgrReplicationFinalizer ''to VolumeGroupReplication''
          (slash_name (vgr_meta vgr)) '' '') r)
      } else ret (vgr, None))"

definition removeFinalizerFromVGR ::
  "env \<Rightarrow> volume_group_replication \<Rightarrow> (volume_group_replication \<times> goerr option) prog" where
  "removeFinalizerFromVGR e vgr =
     (if vgrReplicationFinalizer \<in> set (om_finalizers (vgr_meta vgr)) then do {
        let vgr = vgr_set_finalizers (RemoveFromSlice (om_finalizers (vgr_meta vgr)) vgrReplicationFinalizer) vgr;
        r \<leftarrow> Update_VGR e vgr;
        ret (after_update vgr (finalizer_msg ''remove'' vgrReplicationFinalizer ''from VolumeGroupReplication''
          (slash_name (vgr_meta vgr)) '', '') r)
      } else ret (vgr, None))"

definition addFinalizerToVGRContent :: "env \<Rightarrow> vgr_content \<Rightarrow> string \<Rightarrow> (vgr_content \<times> goerr option) prog" where
  "addFinalizerToVGRContent e c replicationFinalizer =
     (if replicationFinalizer \<notin> set (om_finalizers (vgrc_meta c)) then do {
        let c = vgrc_set_finalizers (om_finalizers (vgrc_meta c) @ [replicationFinalizer]) c;
        r \<leftarrow> Update_VGRContent e c;
        ret (after_update c (finalizer_msg ''add'' replicationFinalizer ''to VolumeGroupReplicationContent''
          (om_name (vgrc_meta c)) '' '') r)
      } else ret (c, None))"

definition removeFinalizerFromVGRContent :: "env \<Rightarrow> vgr_content \<Rightarrow> string \<Rightarrow> (vgr_content \<times> goerr option) prog" where
  "removeFinalizerFromVGRContent e c replicationFinalizer =
     (if replicationFinalizer \<in> set (om_finalizers (vgrc_meta c)) then do {
        let c = vgrc_set_finalizers (RemoveFromSlice (om_finalizers (vgrc_meta c)) replicationFinalizer) c;
        r \<leftarrow> Update_VGRContent e c;
        ret (after_update c (finalizer_msg ''remove'' replicationFinalizer ''from VolumeGroupReplicationContent''
          (om_name (vgrc_meta c)) '', '') r)
      } else ret (c, None))"

definition isSafeToDeleteVGR :: "volume_group_replication \<Rightarrow> bool" where
  "isSafeToDeleteVGR vgr =
     (let annotations = om_annotations (vgr_meta vgr) in
      if mget annotations VolumeGroupReplicationContentNameAnnotation \<noteq> [] \<or>
         mget annotations VolumeReplicationNameAnnotation \<noteq> []
      then False else True)"

section \<open>pvc.go and the classes\<close>

definition getPVCDataSource :: "env \<Rightarrow> nsname \<Rightarrow> (goerr + pvc \<times> pv) prog" where
  "getPVCDataSource e req = do {
     r \<leftarrow> Get_PVC e req;
     (case r of
        Inl err \<Rightarrow> ret (Inl err)
      | Inr p \<Rightarrow>
          if pvc_phase p \<noteq> ClaimBound
          then ret (Inl (ErrMsg (''PVC '' @ fmt_q (nn_name req) @ '' is not bound to any PV'')))
          else if om_deletionTimestamp (pvc_meta p) \<noteq> None \<and>
            pvcReplicationFinalizer \<notin> set (om_finalizers (pvc_meta p))
          then ret (Inl (ErrMsg (''PVC '' @ fmt_q (nn_name req) @
                 '' is marked for deletion, cannot be part of VolumeReplication'')))
          else do {
            r \<leftarrow> Get_PV e \<lparr>nn_namespace = [], nn_name = pvc_volumeName p\<rparr>;
            (case r of
               Inl err \<Rightarrow> ret (Inl err)
             | Inr v \<Rightarrow> ret (Inr (p, v)))
          })
   }"

definition pvc_set_annotations :: "strmap \<Rightarrow> pvc \<Rightarrow> pvc" where
  "pvc_set_annotations as p = p\<lparr>pvc_meta := (pvc_meta p)\<lparr>om_annotations := as\<rparr>\<rparr>"

definition annotatePVCWithOwner :: "env \<Rightarrow> string \<Rightarrow> pvc \<Rightarrow> string \<Rightarrow> (pvc \<times> goerr option) prog" where
  "annotatePVCWithOwner e reqOwnerName p pvcAnnotation =
     (let annotations = om_annotations (pvc_meta p) in
      if mget annotations VolumeReplicationNameAnnotation \<noteq> [] \<and>
         mget annotations VolumeGroupReplicationNameAnnotation \<noteq> []
      then ret (p, Some (ErrMsg (''PVC ('' @ slash_name (pvc_meta p) @
             '') can't be owned by both VolumeReplication and VolumeGroupReplication'')))
      else
        (let currentOwnerName = mget annotations pvcAnnotation in
         if currentOwnerName = [] then do {
           let p = pvc_set_annotations (AList.update pvcAnnotation reqOwnerName annotations) p;
           r \<leftarrow> Update_PVC e p;
           ret (after_update p (''failed to update PVC ('' @ slash_name (pvc_meta p) @
             '') annotation for replication: '') r)
         }
         else if currentOwnerName \<noteq> reqOwnerName
         then ret (p, Some (ErrMsg (''PVC ('' @ slash_name (pvc_meta p) @
                '') not owned by correct VolumeReplication/VolumeGroupReplication '' @ fmt_q reqOwnerName)))
         else ret (p, None)))"

definition removeOwnerFromPVCAnnotation :: "env \<Rightarrow> pvc \<Rightarrow> string \<Rightarrow> (pvc \<times> goerr option) prog" where
  "removeOwnerFromPVCAnnotation e p pvcAnnotation =
     (let annotations = om_annotations (pvc_meta p) in
      if map_of annotations pvcAnnotation \<noteq> None then do {
        let p = pvc_set_annotations (AList.delete pvcAnnotation annotations) p;
        r \<leftarrow> Update_PVC e p;
        ret (after_update p (''failed to remove annotation '' @ fmt_q pvcAnnotation @
          '' from PersistentVolumeClaim ('' @ slash_name (pvc_meta p) @ '') '') r)
      } else ret (p, None))"

definition getVolumeReplicationClass :: "env \<Rightarrow> string \<Rightarrow> (goerr + replication_class) prog" where
  "getVolumeReplicationClass e vrcName = Get_VRClass e \<lparr>nn_namespace = [], nn_name = vrcName\<rparr>"

definition getVolumeGroupReplicationClass :: "env \<Rightarrow> string \<Rightarrow> (goerr + replication_class) prog" where
  "getVolumeGroupReplicationClass e vgrClassName =
     Get_VGRClass e \<lparr>nn_namespace = [], nn_name = vgrClassName\<rparr>"

section \<open>The contract of finalizers\<close>

text \<open>
  One kind of object with a finalizer of its own: \<open>add\<close> and \<open>rem\<close> touch the server at most once,
  only when there is something to do, and send the object with exactly that finalizer changed.
\<close>

locale finalizer_kind =
  fixes fins :: "'o \<Rightarrow> string list"
    and set_fins :: "string list \<Rightarrow> 'o \<Rightarrow> 'o"
    and fin :: string
    and add :: "'e \<Rightarrow> 'o \<Rightarrow> ('o \<times> goerr option) prog"
    and rem :: "'e \<Rightarrow> 'o \<Rightarrow> ('o \<times> goerr option) prog"
    and ans :: "'e \<Rightarrow> event list \<Rightarrow> 'o \<Rightarrow> goerr + 'o"
    and upd :: "'o \<Rightarrow> event"
  assumes fins_set: "fins (set_fins fs x) = fs"
    and add_present: "fin \<in> set (fins x) \<Longrightarrow> run_state (add e x) w = ((x, None), w)"
    and add_absent: "fin \<notin> set (fins x) \<Longrightarrow> x' = set_fins (fins x @ [fin]) x \<Longrightarrow>
      \<exists>wrap. run_state (add e x) w =
        (update_result x' wrap (ans e (trace w) x'), w\<lparr>trace := trace w @ [upd x']\<rparr>)"
    and rem_absent: "fin \<notin> set (fins x) \<Longrightarrow> run_state (rem e x) w = ((x, None), w)"
    and rem_present: "fin \<in> set (fins x) \<Longrightarrow> x' = set_fins (RemoveFromSlice (fins x) fin) x \<Longrightarrow>
      \<exists>wrap. run_state (rem e x) w =
        (update_result x' wrap (ans e (trace w) x'), w\<lparr>trace := trace w @ [upd x']\<rparr>)"
begin

text \<open>The server stores the finalizers it is sent.\<close>

definition keeps :: "'e \<Rightarrow> bool" where
  "keeps e \<longleftrightarrow> (\<forall>h x y. ans e h x = Inr y \<longrightarrow> fins y = fins x)"

lemma add_ok:
  assumes "keeps e" "run_state (add e x) w = ((y, None), w')"
  shows "fin \<in> set (fins y) \<and> set (fins y) = insert fin (set (fins x))"
proof (cases "fin \<in> set (fins x)")
  case True
  with assms add_present [OF True, of e w] show ?thesis by auto
next
  case False
  obtain wrap where "run_state (add e x) w =
      (update_result (set_fins (fins x @ [fin]) x) wrap (ans e (trace w) (set_fins (fins x @ [fin]) x)),
       w\<lparr>trace := trace w @ [upd (set_fins (fins x @ [fin]) x)]\<rparr>)"
    using add_absent [OF False refl] by blast
  with assms have "fins y = fins x @ [fin]"
    by (auto simp: update_result_def keeps_def fins_set split: sum.splits)
  then show ?thesis by auto
qed

lemma rem_ok:
  assumes "keeps e" "run_state (rem e x) w = ((y, None), w')"
  shows "set (fins y) = set (fins x) - {fin}"
proof (cases "fin \<in> set (fins x)")
  case False
  with assms rem_absent [OF False, of e w] show ?thesis by auto
next
  case True
  let ?x = "set_fins (RemoveFromSlice (fins x) fin) x"
  obtain wrap where "run_state (rem e x) w =
      (update_result ?x wrap (ans e (trace w) ?x), w\<lparr>trace := trace w @ [upd ?x]\<rparr>)"
    using rem_present [OF True refl] by blast
  with assms have "fins y = RemoveFromSlice (fins x) fin"
    by (auto simp: update_result_def keeps_def fins_set split: sum.splits)
  then show ?thesis by simp
qed

text \<open>Adding again after a success sends nothing.\<close>

lemma add_again:
  assumes "keeps e" "run_state (add e x) w = ((y, None), w')"
  shows "run_state (add e y) w'' = ((y, None), w'')"
  using add_ok [OF assms] by (simp add: add_present)

lemma rem_again:
  assumes "keeps e" "run_state (rem e x) w = ((y, None), w')"
  shows "run_state (rem e y) w'' = ((y, None), w'')"
  using rem_ok [OF assms] by (simp add: rem_absent)

lemma emits_add:
  assumes "\<And>h x. R h (upd x)"
  shows "emits R (add e x)"
  unfolding emits_def htriple_def
proof (intro allI impI)
  fix w y w'
  assume run: "run_state (add e x) w = (y, w')"
  show "\<exists>es. trace w' = trace w @ es \<and> steps_ok R (trace w) es \<and> True"
  proof (cases "fin \<in> set (fins x)")
    case True
    with run add_present [of x e w] show ?thesis by auto
  next
    case False
    with run add_absent [OF False refl, of e w] assms show ?thesis by auto
  qed
qed

lemma emits_rem:
  assumes "\<And>h x. R h (upd x)"
  shows "emits R (rem e x)"
  unfolding emits_def htriple_def
proof (intro allI impI)
  fix w y w'
  assume run: "run_state (rem e x) w = (y, w')"
  show "\<exists>es. trace w' = trace w @ es \<and> steps_ok R (trace w) es \<and> True"
  proof (cases "fin \<in> set (fins x)")
    case False
    with run rem_absent [of x e w] show ?thesis by auto
  next
    case True
    with run rem_present [OF True refl, of e w] assms show ?thesis by auto
  qed
qed

end

interpretation vr_fin: finalizer_kind "\<lambda>vr. om_finalizers (vr_meta vr)" vr_set_finalizers
  volumeReplicationFinalizer addFinalizerToVR removeFinalizerFromVR e_updateVR "\<lambda>x. ApiUpdate (O_VR x)"
  by unfold_locales
    (auto simp: vr_set_finalizers_def addFinalizerToVR_def removeFinalizerFromVR_def Update_VR_def
      run_defs Let_def after_update_result)

interpretation pvc_fin: finalizer_kind "\<lambda>p. om_finalizers (pvc_meta p)" pvc_set_finalizers fin
  "\<lambda>e p. addFinalizerToPVC e p fin" "\<lambda>e p. removeFinalizerFromPVC e p fin" e_updatePVC
  "\<lambda>x. ApiUpdate (O_PVC x)" for fin
  by unfold_locales
    (auto simp: pvc_set_finalizers_def addFinalizerToPVC_def removeFinalizerFromPVC_def Update_PVC_def
      run_defs Let_def after_update_result)

interpretation vgr_fin: finalizer_kind "\<lambda>x. om_finalizers (vgr_meta x)" vgr_set_finalizers
  vgrReplicationFinalizer addFinalizerToVGR removeFinalizerFromVGR e_updateVGR "\<lambda>x. ApiUpdate (O_VGR x)"
  by unfold_locales
    (auto simp: vgr_set_finalizers_def addFinalizerToVGR_def removeFinalizerFromVGR_def Update_VGR_def
      run_defs Let_def after_update_result)

interpretation vgrc_fin: finalizer_kind "\<lambda>x. om_finalizers (vgrc_meta x)" vgrc_set_finalizers fin
  "\<lambda>e x. addFinalizerToVGRContent e x fin" "\<lambda>e x. removeFinalizerFromVGRContent e x fin"
  e_updateVGRContent "\<lambda>x. ApiUpdate (O_VGRContent x)" for fin
  by unfold_locales
    (auto simp: vgrc_set_finalizers_def addFinalizerToVGRContent_def removeFinalizerFromVGRContent_def
      Update_VGRContent_def run_defs Let_def after_update_result)

end
