(* ===== verification/Replication_Client.thy ===== *)
theory Replication_Client
  imports Finalizers
begin

text \<open>
  The replication RPCs: the Go interface \<open>VolumeReplication\<close> (\<open>internal/client/replication.go\<close>)
  with its two implementations, for a volume (\<open>volume-replication.go\<close>) and for a volume group
  (\<open>group-replication.go\<close>), and the operations on top of it
  (\<open>replication.storage/replication/replication.go\<close>). The deadline of a call is not modelled: a
  call that times out is a call answered with an error. The locale \<open>replication_client\<close> states
  what the operations rely on; both implementations are instances.
\<close>

definition mk_req :: "source \<Rightarrow> string \<Rightarrow> string \<Rightarrow> string \<Rightarrow> strmap \<Rightarrow> repl_req" where
  "mk_req src replicationID secretName secretNamespace parameters =
     \<lparr>rq_source = src, rq_replicationId = replicationID, rq_parameters = parameters,
      rq_secretName = secretName, rq_secretNamespace = secretNamespace\<rparr>"

section \<open>client/volume-replication.go\<close>

definition volume_EnableVolumeReplication ::
  "env \<Rightarrow> grpc_client option \<Rightarrow> string \<Rightarrow> string \<Rightarrow> string \<Rightarrow> string \<Rightarrow> strmap \<Rightarrow> (goerr + unit) prog" where
  "volume_EnableVolumeReplication e cl vid replicationID secretName secretNamespace parameters =
     (let req = mk_req (VolumeSource vid) replicationID secretName secretNamespace parameters
      in call (\<lambda>h. e_rpcEnable e h cl req) (Rpc cl (RpcEnable req)))"

definition volume_DisableVolumeReplication ::
  "env \<Rightarrow> grpc_client option \<Rightarrow> string \<Rightarrow> string \<Rightarrow> string \<Rightarrow> string \<Rightarrow> strmap \<Rightarrow> (goerr + unit) prog" where
  "volume_DisableVolumeReplication e cl vid replicationID secretName secretNamespace parameters =
     (let req = mk_req (VolumeSource vid) replicationID secretName secretNamespace parameters
      in call (\<lambda>h. e_rpcDisable e h cl req) (Rpc cl (RpcDisable req)))"

definition volume_PromoteVolume ::
  "env \<Rightarrow> grpc_client option \<Rightarrow> string \<Rightarrow> string \<Rightarrow> bool \<Rightarrow> string \<Rightarrow> string \<Rightarrow> strmap \<Rightarrow> (goerr + unit) prog" where
  "volume_PromoteVolume e cl vid replicationID force secretName secretNamespace parameters =
     (let req = mk_req (VolumeSource vid) replicationID secretName secretNamespace parameters
      in call (\<lambda>h. e_rpcPromote e h cl (req, force)) (Rpc cl (RpcPromote req force)))"

definition volume_DemoteVolume ::
  "env \<Rightarrow> grpc_client option \<Rightarrow> string \<Rightarrow> string \<Rightarrow> string \<Rightarrow> string \<Rightarrow> strmap \<Rightarrow> (goerr + unit) prog" where
  "volume_DemoteVolume e cl vid replicationID secretName secretNamespace parameters =
     (let req = mk_req (VolumeSource vid) replicationID secretName secretNamespace parameters
      in call (\<lambda>h. e_rpcDemote e h cl req) (Rpc cl (RpcDemote req)))"

definition volume_ResyncVolume ::
  "env \<Rightarrow> grpc_client option \<Rightarrow> string \<Rightarrow> string \<Rightarrow> bool \<Rightarrow> string \<Rightarrow> string \<Rightarrow> strmap \<Rightarrow> (goerr + bool) prog" where
  "volume_ResyncVolume e cl vid replicationID force secretName secretNamespace parameters =
     (let req = mk_req (VolumeSource vid) replicationID secretName secretNamespace parameters
      in call (\<lambda>h. e_rpcResync e h cl (req, force)) (Rpc cl (RpcResync req force)))"

definition volume_GetVolumeReplicationInfo ::
  "env \<Rightarrow> grpc_client option \<Rightarrow> string \<Rightarrow> string \<Rightarrow> string \<Rightarrow> string \<Rightarrow> (goerr + info_response) prog" where
  "volume_GetVolumeReplicationInfo e cl vid replicationID secretName secretNamespace =
     (let req = mk_req (VolumeSource vid) replicationID secretName secretNamespace []
      in call (\<lambda>h. e_rpcGetInfo e h cl req) (Rpc cl (RpcGetInfo req)))"

section \<open>client/group-replication.go\<close>

definition group_EnableVolumeReplication ::
  "env \<Rightarrow> grpc_client option \<Rightarrow> string \<Rightarrow> string \<Rightarrow> string \<Rightarrow> string \<Rightarrow> strmap \<Rightarrow> (goerr + unit) prog" where
  "group_EnableVolumeReplication e cl vid replicationID secretName secretNamespace parameters =
     (let req = mk_req (VolumeGroupSource vid) replicationID secretName secretNamespace parameters
      in call (\<lambda>h. e_rpcEnable e h cl req) (Rpc cl (RpcEnable req)))"

definition group_DisableVolumeReplication ::
  "env \<Rightarrow> grpc_client option \<Rightarrow> string \<Rightarrow> string \<Rightarrow> string \<Rightarrow> string \<Rightarrow> strmap \<Rightarrow> (goerr + unit) prog" where
  "group_DisableVolumeReplication e cl vid replicationID secretName secretNamespace parameters =
     (let req = mk_req (VolumeGroupSource vid) replicationID secretName secretNamespace parameters
      in call (\<lambda>h. e_rpcDisable e h cl req) (Rpc cl (RpcDisable req)))"

definition group_PromoteVolume ::
  "env \<Rightarrow> grpc_client option \<Rightarrow> string \<Rightarrow> string \<Rightarrow> bool \<Rightarrow> string \<Rightarrow> string \<Rightarrow> strmap \<Rightarrow> (goerr + unit) prog" where
  "group_PromoteVolume e cl vid replicationID force secretName secretNamespace parameters =
     (let req = mk_req (VolumeGroupSource vid) replicationID secretName secretNamespace parameters
      in call (\<lambda>h. e_rpcPromote e h cl (req, force)) (Rpc cl (RpcPromote req force)))"

definition group_DemoteVolume ::
  "env \<Rightarrow> grpc_client option \<Rightarrow> string \<Rightarrow> string \<Rightarrow> string \<Rightarrow> string \<Rightarrow> strmap \<Rightarrow> (goerr + unit) prog" where
  "group_DemoteVolume e cl vid replicationID secretName secretNamespace parameters =
     (let req = mk_req (VolumeGroupSource vid) replicationID secretName secretNamespace parameters
      in call (\<lambda>h. e_rpcDemote e h cl req) (Rpc cl (RpcDemote req)))"

definition group_ResyncVolume ::
  "env \<Rightarrow> grpc_client option \<Rightarrow> string \<Rightarrow> string \<Rightarrow> bool \<Rightarrow> string \<Rightarrow> string \<Rightarrow> strmap \<Rightarrow> (goerr + bool) prog" where
  "group_ResyncVolume e cl vid replicationID force secretName secretNamespace parameters =
     (let req = mk_req (VolumeGroupSource vid) replicationID secretName secretNamespace parameters
      in call (\<lambda>h. e_rpcResync e h cl (req, force)) (Rpc cl (RpcResync req force)))"

definition group_GetVolumeReplicationInfo ::
  "env \<Rightarrow> grpc_client option \<Rightarrow> string \<Rightarrow> string \<Rightarrow> string \<Rightarrow> string \<Rightarrow> (goerr + info_response) prog" where
  "group_GetVolumeReplicationInfo e cl vid replicationID secretName secretNamespace =
     (let req = mk_req (VolumeGroupSource vid) replicationID secretName secretNamespace []
      in call (\<lambda>h. e_rpcGetInfo e h cl req) (Rpc cl (RpcGetInfo req)))"

section \<open>The interface\<close>

datatype repl_client = VolumeReplicationClient "grpc_client option" | VolumeGroupReplicationClient "grpc_client option"

fun EnableVolumeReplication ::
  "env \<Rightarrow> repl_client \<Rightarrow> string \<Rightarrow> string \<Rightarrow> string \<Rightarrow> string \<Rightarrow> strmap \<Rightarrow> (goerr + unit) prog" where
  "EnableVolumeReplication e (VolumeReplicationClient cl) = volume_EnableVolumeReplication e cl"
| "EnableVolumeReplication e (VolumeGroupReplicationClient cl) = group_EnableVolumeReplication e cl"

fun DisableVolumeReplication ::
  "env \<Rightarrow> repl_client \<Rightarrow> string \<Rightarrow> string \<Rightarrow> string \<Rightarrow> string \<Rightarrow> strmap \<Rightarrow> (goerr + unit) prog" where
  "DisableVolumeReplication e (VolumeReplicationClient cl) = volume_DisableVolumeReplication e cl"
| "DisableVolumeReplication e (VolumeGroupReplicationClient cl) = group_DisableVolumeReplication e cl"

fun PromoteVolume ::
  "env \<Rightarrow> repl_client \<Rightarrow> string \<Rightarrow> string \<Rightarrow> bool \<Rightarrow> string \<Rightarrow> string \<Rightarrow> strmap \<Rightarrow> (goerr + unit) prog" where
  "PromoteVolume e (VolumeReplicationClient cl) = volume_PromoteVolume e cl"
| "PromoteVolume e (VolumeGroupReplicationClient cl) = group_PromoteVolume e cl"

fun DemoteVolume ::
  "env \<Rightarrow> repl_client \<Rightarrow> string \<Rightarrow> string \<Rightarrow> string \<Rightarrow> string \<Rightarrow> strmap \<Rightarrow> (goerr + unit) prog" where
  "DemoteVolume e (VolumeReplicationClient cl) = volume_DemoteVolume e cl"
| "DemoteVolume e (VolumeGroupReplicationClient cl) = group_DemoteVolume e cl"

fun ResyncVolume ::
  "env \<Rightarrow> repl_client \<Rightarrow> string \<Rightarrow> string \<Rightarrow> bool \<Rightarrow> string \<Rightarrow> string \<Rightarrow> strmap \<Rightarrow> (goerr + bool) prog" where
  "ResyncVolume e (VolumeReplicationClient cl) = volume_ResyncVolume e cl"
| "ResyncVolume e (VolumeGroupReplicationClient cl) = group_ResyncVolume e cl"

fun GetVolumeReplicationInfo ::
  "env \<Rightarrow> repl_client \<Rightarrow> string \<Rightarrow> string \<Rightarrow> string \<Rightarrow> string \<Rightarrow> (goerr + info_response) prog" where
  "GetVolumeReplicationInfo e (VolumeReplicationClient cl) = volume_GetVolumeReplicationInfo e cl"
| "GetVolumeReplicationInfo e (VolumeGroupReplicationClient cl) = group_GetVolumeReplicationInfo e cl"

section \<open>replication.go\<close>

record repl_params =
  rp_VolumeID :: string
  rp_GroupID :: string
  rp_ReplicationID :: string
  rp_Parameters :: strmap
  rp_SecretName :: string
  rp_SecretNamespace :: string
  rp_Replication :: repl_client

record replication =
  r_Params :: repl_params
  r_Force :: bool

definition getID :: "replication \<Rightarrow> goerr + string" where
  "getID r =
     (if rp_VolumeID (r_Params r) \<noteq> [] \<and> rp_GroupID (r_Params r) \<noteq> []
      then Inl (ErrMsg ''VolumeID and GroupID cannot be provided together'')
      else if rp_VolumeID (r_Params r) \<noteq> [] then Inr (rp_VolumeID (r_Params r))
      else if rp_GroupID (r_Params r) \<noteq> [] then Inr (rp_GroupID (r_Params r))
      else Inl (ErrMsg ''VolumeID or GroupID must be provided''))"

text \<open>A \<open>Response\<close> is its error or the typed response.\<close>

definition Replication_Enable :: "env \<Rightarrow> replication \<Rightarrow> (goerr + unit) prog" where
  "Replication_Enable e r =
     (case getID r of
        Inl err \<Rightarrow> ret (Inl err)
      | Inr vid \<Rightarrow> EnableVolumeReplication e (rp_Replication (r_Params r)) vid
          (rp_ReplicationID (r_Params r)) (rp_SecretName (r_Params r))
          (rp_SecretNamespace (r_Params r)) (rp_Parameters (r_Params r)))"

definition Replication_Disable :: "env \<Rightarrow> replication \<Rightarrow> (goerr + unit) prog" where
  "Replication_Disable e r =
     (case getID r of
        Inl err \<Rightarrow> ret (Inl err)
      | Inr vid \<Rightarrow> DisableVolumeReplication e (rp_Replication (r_Params r)) vid
          (rp_ReplicationID (r_Params r)) (rp_SecretName (r_Params r))
          (rp_SecretNamespace (r_Params r)) (rp_Parameters (r_Params r)))"

definition Replication_Promote :: "env \<Rightarrow> replication \<Rightarrow> (goerr + unit) prog" where
  "Replication_Promote e r =
     (case getID r of
        Inl err \<Rightarrow> ret (Inl err)
      | Inr vid \<Rightarrow> PromoteVolume e (rp_Replication (r_Params r)) vid
          (rp_ReplicationID (r_Params r)) (r_Force r) (rp_SecretName (r_Params r))
          (rp_SecretNamespace (r_Params r)) (rp_Parameters (r_Params r)))"

definition Replication_Demote :: "env \<Rightarrow> replication \<Rightarrow> (goerr + unit) prog" where
  "Replication_Demote e r =
     (case getID r of
        Inl err \<Rightarrow> ret (Inl err)
      | Inr vid \<Rightarrow> DemoteVolume e (rp_Replication (r_Params r)) vid
          (rp_ReplicationID (r_Params r)) (rp_SecretName (r_Params r))
          (rp_SecretNamespace (r_Params r)) (rp_Parameters (r_Params r)))"

definition Replication_Resync :: "env \<Rightarrow> replication \<Rightarrow> (goerr + bool) prog" where
  "Replication_Resync e r =
     (case getID r of
        Inl err \<Rightarrow> ret (Inl err)
      | Inr vid \<Rightarrow> ResyncVolume e (rp_Replication (r_Params r)) vid
          (rp_ReplicationID (r_Params r)) (r_Force r) (rp_SecretName (r_Params r))
          (rp_SecretNamespace (r_Params r)) (rp_Parameters (r_Params r)))"

definition Replication_GetInfo :: "env \<Rightarrow> replication \<Rightarrow> (goerr + info_response) prog" where
  "Replication_GetInfo e r =
     (case getID r of
        Inl err \<Rightarrow> ret (Inl err)
      | Inr vid \<Rightarrow> GetVolumeReplicationInfo e (rp_Replication (r_Params r)) vid
          (rp_ReplicationID (r_Params r)) (rp_SecretName (r_Params r))
          (rp_SecretNamespace (r_Params r)))"

section \<open>What a replication client promises\<close>

text \<open>
  Every operation is one call to the sidecar about the given identifier, seen as a source of the
  client's own kind, and returns its answer unchanged.
\<close>

locale replication_client =
  fixes src :: "string \<Rightarrow> source"
    and cl :: "grpc_client option"
    and client :: repl_client
  assumes run_Enable: "run_state (EnableVolumeReplication e client vid rid sn sns ps) w =
      (e_rpcEnable e (trace w) cl (mk_req (src vid) rid sn sns ps),
       w\<lparr>trace := trace w @ [Rpc cl (RpcEnable (mk_req (src vid) rid sn sns ps))]\<rparr>)"
    and run_Disable: "run_state (DisableVolumeReplication e client vid rid sn sns ps) w =
      (e_rpcDisable e (trace w) cl (mk_req (src vid) rid sn sns ps),
       w\<lparr>trace := trace w @ [Rpc cl (RpcDisable (mk_req (src vid) rid sn sns ps))]\<rparr>)"
    and run_Promote: "run_state (PromoteVolume e client vid rid force sn sns ps) w =
      (e_rpcPromote e (trace w) cl (mk_req (src vid) rid sn sns ps, force),
       w\<lparr>trace := trace w @ [Rpc cl (RpcPromote (mk_req (src vid) rid sn sns ps) force)]\<rparr>)"
    and run_Demote: "run_state (DemoteVolume e client vid rid sn sns ps) w =
      (e_rpcDemote e (trace w) cl (mk_req (src vid) rid sn sns ps),
       w\<lparr>trace := trace w @ [Rpc cl (RpcDemote (mk_req (src vid) rid sn sns ps))]\<rparr>)"
    and run_Resync: "run_state (ResyncVolume e client vid rid force sn sns ps) w =
      (e_rpcResync e (trace w) cl (mk_req (src vid) rid sn sns ps, force),
       w\<lparr>trace := trace w @ [Rpc cl (RpcResync (mk_req (src vid) rid sn sns ps) force)]\<rparr>)"
    and run_GetInfo: "run_state (GetVolumeReplicationInfo e client vid rid sn sns) w =
      (e_rpcGetInfo e (trace w) cl (mk_req (src vid) rid sn sns []),
       w\<lparr>trace := trace w @ [Rpc cl (RpcGetInfo (mk_req (src vid) rid sn sns []))]\<rparr>)"
begin

lemmas run_ops = run_Enable run_Disable run_Promote run_Demote run_Resync run_GetInfo

end

lemmas client_defs =
  volume_EnableVolumeReplication_def group_EnableVolumeReplication_def
  volume_DisableVolumeReplication_def group_DisableVolumeReplication_def
  volume_PromoteVolume_def group_PromoteVolume_def
  volume_DemoteVolume_def group_DemoteVolume_def
  volume_ResyncVolume_def group_ResyncVolume_def
  volume_GetVolumeReplicationInfo_def group_GetVolumeReplicationInfo_def

interpretation volume_client: replication_client VolumeSource cl "VolumeReplicationClient cl" for cl
  by unfold_locales (simp_all add: client_defs run_defs Let_def)

interpretation group_client: replication_client VolumeGroupSource cl "VolumeGroupReplicationClient cl" for cl
  by unfold_locales (simp_all add: client_defs run_defs Let_def)

text \<open>Client and kind of source of an interface value.\<close>

fun client_conn :: "repl_client \<Rightarrow> grpc_client option" where
  "client_conn (VolumeReplicationClient cl) = cl"
| "client_conn (VolumeGroupReplicationClient cl) = cl"

fun client_source :: "repl_client \<Rightarrow> string \<Rightarrow> source" where
  "client_source (VolumeReplicationClient cl) = VolumeSource"
| "client_source (VolumeGroupReplicationClient cl) = VolumeGroupSource"

interpretation any_client: replication_client "client_source client" "client_conn client" client for client
  by (cases client) (simp_all add: volume_client.replication_client_axioms group_client.replication_client_axioms)

definition req_of :: "repl_params \<Rightarrow> string \<Rightarrow> repl_req" where
  "req_of p vid = mk_req (client_source (rp_Replication p) vid) (rp_ReplicationID p) (rp_SecretName p)
     (rp_SecretNamespace p) (rp_Parameters p)"

lemma run_Replication_Enable:
  "run_state (Replication_Enable e r) w =
     (case getID r of
        Inl err \<Rightarrow> (Inl err, w)
      | Inr vid \<Rightarrow>
          let p = r_Params r; cl = client_conn (rp_Replication p);
              req = (req_of p vid)
          in (e_rpcEnable e (trace w) cl req, w\<lparr>trace := trace w @ [Rpc cl (RpcEnable req)]\<rparr>))"
  by (simp add: Replication_Enable_def any_client.run_ops req_of_def mk_req_def Let_def split: sum.splits)

lemma run_Replication_Disable:
  "run_state (Replication_Disable e r) w =
     (case getID r of
        Inl err \<Rightarrow> (Inl err, w)
      | Inr vid \<Rightarrow>
          let p = r_Params r; cl = client_conn (rp_Replication p);
              req = (req_of p vid)
          in (e_rpcDisable e (trace w) cl req, w\<lparr>trace := trace w @ [Rpc cl (RpcDisable req)]\<rparr>))"
  by (simp add: Replication_Disable_def any_client.run_ops req_of_def mk_req_def Let_def split: sum.splits)

lemma run_Replication_Promote:
  "run_state (Replication_Promote e r) w =
     (case getID r of
        Inl err \<Rightarrow> (Inl err, w)
      | Inr vid \<Rightarrow>
          let p = r_Params r; cl = client_conn (rp_Replication p);
              req = (req_of p vid)
          in (e_rpcPromote e (trace w) cl (req, r_Force r), w\<lparr>trace := trace w @ [Rpc cl (RpcPromote req (r_Force r))]\<rparr>))"
  by (simp add: Replication_Promote_def any_client.run_ops req_of_def mk_req_def Let_def split: sum.splits)

lemma run_Replication_Demote:
  "run_state (Replication_Demote e r) w =
     (case getID r of
        Inl err \<Rightarrow> (Inl err, w)
      | Inr vid \<Rightarrow>
          let p = r_Params r; cl = client_conn (rp_Replication p);
              req = (req_of p vid)
          in (e_rpcDemote e (trace w) cl req, w\<lparr>trace := trace w @ [Rpc cl (RpcDemote req)]\<rparr>))"
  by (simp add: Replication_Demote_def any_client.run_ops req_of_def mk_req_def Let_def split: sum.splits)

lemma run_Replication_Resync:
  "run_state (Replication_Resync e r) w =
     (case getID r of
        Inl err \<Rightarrow> (Inl err, w)
      | Inr vid \<Rightarrow>
          let p = r_Params r; cl = client_conn (rp_Replication p);
              req = (req_of p vid)
          in (e_rpcResync e (trace w) cl (req, r_Force r), w\<lparr>trace := trace w @ [Rpc cl (RpcResync req (r_Force r))]\<rparr>))"
  by (simp add: Replication_Resync_def any_client.run_ops req_of_def mk_req_def Let_def split: sum.splits)

lemma run_Replication_GetInfo:
  "run_state (Replication_GetInfo e r) w =
     (case getID r of
        Inl err \<Rightarrow> (Inl err, w)
      | Inr vid \<Rightarrow>
          let p = r_Params r; cl = client_conn (rp_Replication p);
              req = (req_of p vid)\<lparr>rq_parameters := []\<rparr>
          in (e_rpcGetInfo e (trace w) cl req, w\<lparr>trace := trace w @ [Rpc cl (RpcGetInfo req)]\<rparr>))"
  by (simp add: Replication_GetInfo_def any_client.run_ops req_of_def mk_req_def Let_def split: sum.splits)

lemmas run_Replication =
  run_Replication_Enable run_Replication_Disable run_Replication_Promote run_Replication_Demote run_Replication_Resync run_Replication_GetInfo

end
