(* ===== verification/Volume_Replication.thy ===== *)
theory Volume_Replication
  imports Conditions Replication_Client
begin

text \<open>
  The VolumeReplication controller,
  \<open>internal/controller/replication.storage/volumereplication_controller.go\<close>. \<open>Reconcile\<close> is
  split at its comments: the data source, the protection of the objects involved, the deletion
  path, the switch on the desired state and the report. The object passed by pointer is threaded
  through; a nil pointer that the code dereferences is the outcome \<open>Panicked\<close>. The clock is read
  once per condition setter. The type assertions on a response cannot fail, since the clients
  return the asserted types, and have no branch here; log calls are left out.
\<close>

section \<open>Helpers on the resource\<close>

definition volumePromotionKnownErrors :: "grpc_code list" where
  "volumePromotionKnownErrors = [C_FailedPrecondition]"
definition disableReplicationKnownErrors :: "grpc_code list" where
  "disableReplicationKnownErrors = [C_NotFound]"
definition enableReplicationKnownErrors :: "grpc_code list" where
  "enableReplicationKnownErrors = [C_FailedPrecondition]"
definition getReplicationInfoKnownErrors :: "grpc_code list" where
  "getReplicationInfoKnownErrors = [C_NotFound]"

abbreviation vr_kind :: "volume_replication \<Rightarrow> string" where
  "vr_kind inst \<equiv> ds_kind (vrs_dataSource (vr_spec inst))"
abbreviation vr_generation :: "volume_replication \<Rightarrow> int" where
  "vr_generation inst \<equiv> om_generation (vr_meta inst)"
abbreviation vr_state_of :: "volume_replication \<Rightarrow> vr_state" where
  "vr_state_of inst \<equiv> vst_state (vr_status inst)"
abbreviation vr_desired :: "volume_replication \<Rightarrow> replication_state" where
  "vr_desired inst \<equiv> vrs_replicationState (vr_spec inst)"

definition on_conditions :: "(condition list \<Rightarrow> condition list) \<Rightarrow> volume_replication \<Rightarrow> volume_replication" where
  "on_conditions f inst =
     inst\<lparr>vr_status := (vr_status inst)\<lparr>vst_conditions := f (vst_conditions (vr_status inst))\<rparr>\<rparr>"

definition setFailureCondition ::
  "env \<Rightarrow> volume_replication \<Rightarrow> string \<Rightarrow> string \<Rightarrow> string \<Rightarrow> volume_replication prog" where
  "setFailureCondition e inst errMessage errFromCephCSI dataSource = do {
     t \<leftarrow> now e;
     ret (case vr_desired inst of
        Primary \<Rightarrow> on_conditions (\<lambda>cs. setFailedPromotionCondition t cs (vr_generation inst) dataSource
                     errMessage errFromCephCSI) inst
      | Secondary \<Rightarrow> on_conditions (\<lambda>cs. setFailedDemotionCondition t cs (vr_generation inst) dataSource
                     errMessage errFromCephCSI) inst
      | Resync \<Rightarrow> on_conditions (\<lambda>cs. setFailedResyncCondition t cs (vr_generation inst) dataSource
                     errMessage errFromCephCSI) inst
      | OtherReplicationState s \<Rightarrow> inst)
   }"

definition setReplicationCondition ::
  "env \<Rightarrow> volume_replication \<Rightarrow> string \<Rightarrow> string \<Rightarrow> info_status \<Rightarrow> volume_replication prog" where
  "setReplicationCondition e inst dataSource statusMessage replicationStatus = do {
     t \<leftarrow> now e;
     ret (case replicationStatus of
        INFO_UNKNOWN \<Rightarrow> on_conditions (\<lambda>cs. setUnknownReplicationCondition t cs (vr_generation inst)
                          dataSource statusMessage) inst
      | INFO_HEALTHY \<Rightarrow> on_conditions (\<lambda>cs. setHealthyReplicationCondition t cs (vr_generation inst)
                          dataSource statusMessage) inst
      | INFO_DEGRADED \<Rightarrow> on_conditions (\<lambda>cs. setDegradedReplicationCondition t cs (vr_generation inst)
                          dataSource statusMessage) inst
      | INFO_ERROR \<Rightarrow> on_conditions (\<lambda>cs. setDegradedReplicationCondition t cs (vr_generation inst)
                          dataSource statusMessage) inst
      | INFO_OTHER n \<Rightarrow> inst)
   }"

definition updateReplicationStatus ::
  "env \<Rightarrow> volume_replication \<Rightarrow> vr_state \<Rightarrow> string \<Rightarrow> (volume_replication \<times> goerr option) prog" where
  "updateReplicationStatus e inst state message = do {
     let inst = inst\<lparr>vr_status := (vr_status inst)\<lparr>vst_state := state, vst_message := message,
                       vst_observedGeneration := vr_generation inst\<rparr>\<rparr>;
     r \<leftarrow> StatusUpdate_VR e inst;
     ret (case r of Inl err \<Rightarrow> (inst, Some err) | Inr inst' \<Rightarrow> (inst', None))
   }"

text \<open>A failure before any RPC: the failure condition, then a status update with the old state.\<close>

definition reportFailure ::
  "env \<Rightarrow> volume_replication \<Rightarrow> string \<Rightarrow> string \<Rightarrow> string \<Rightarrow> unit prog" where
  "reportFailure e inst errMessage err dataSource = do {
     inst \<leftarrow> setFailureCondition e inst errMessage err dataSource;
     _ \<leftarrow> updateReplicationStatus e inst (GetCurrentReplicationState (vr_state_of inst)) err;
     ret ()
   }"

definition getInfoReconcileInterval :: "env \<Rightarrow> strmap \<Rightarrow> duration" where
  "getInfoReconcileInterval e parameters =
     (let rawScheduleTime = mget parameters ''schedulingInterval'' in
      if rawScheduleTime = [] then hour
      else (case e_parseDuration e rawScheduleTime of
              Inl err \<Rightarrow> hour
            | Inr scheduleTime \<Rightarrow>
                if scheduleTime < 2 * minute then scheduleTime else scheduleTime div 2))"

section \<open>Replication operations\<close>

definition simple_replication :: "repl_params \<Rightarrow> bool \<Rightarrow> replication" where
  "simple_replication params force = \<lparr>r_Params = params, r_Force = force\<rparr>"

definition markVolumeAsPrimary ::
  "env \<Rightarrow> repl_params \<Rightarrow> volume_replication \<Rightarrow> (volume_replication \<times> goerr option) prog" where
  "markVolumeAsPrimary e params inst = do {
     resp \<leftarrow> Replication_Promote e (simple_replication params False);
     (case resp of
        Inr _ \<Rightarrow> ret (inst, None)
      | Inl err \<Rightarrow>
          if \<not> HasKnownGRPCError (Some err) volumePromotionKnownErrors then do {
            t \<leftarrow> now e;
            ret (on_conditions (\<lambda>cs. setFailedPromotionCondition t cs (vr_generation inst) (vr_kind inst)
                   ''failed to promote volume'' (Error err)) inst, Some err)
          } else do {
            resp \<leftarrow> Replication_Promote e (simple_replication params True);
            (case resp of
               Inr _ \<Rightarrow> ret (inst, None)
             | Inl err \<Rightarrow> do {
                 t \<leftarrow> now e;
                 ret (on_conditions (\<lambda>cs. setFailedPromotionCondition t cs (vr_generation inst) (vr_kind inst)
                        ''failed to force promote volume'' (Error err)) inst, Some err)
               })
          })
   }"

definition markVolumeAsSecondary ::
  "env \<Rightarrow> repl_params \<Rightarrow> volume_replication \<Rightarrow> (volume_replication \<times> goerr option) prog" where
  "markVolumeAsSecondary e params inst = do {
     resp \<leftarrow> Replication_Demote e (simple_replication params False);
     t \<leftarrow> now e;
     ret (case resp of
        Inl err \<Rightarrow> (on_conditions (\<lambda>cs. setFailedDemotionCondition t cs (vr_generation inst) (vr_kind inst)
                     ''failed to demote volume'' (Error err)) inst, Some err)
      | Inr _ \<Rightarrow> (on_conditions (\<lambda>cs. setDemotedCondition t cs (vr_generation inst) (vr_kind inst)) inst, None))
   }"

text \<open>The object, whether to requeue, and the error.\<close>

definition resyncVolume ::
  "env \<Rightarrow> repl_params \<Rightarrow> bool \<Rightarrow> volume_replication \<Rightarrow> (volume_replication \<times> bool \<times> goerr option) prog" where
  "resyncVolume e params force inst = do {
     resp \<leftarrow> Replication_Resync e (simple_replication params force);
     t \<leftarrow> now e;
     (case resp of
        Inl err \<Rightarrow> ret (on_conditions (\<lambda>cs. setFailedResyncCondition t cs (vr_generation inst) (vr_kind inst)
                     ''failed to resync volume'' (Error err)) inst, False, Some err)
      | Inr ready \<Rightarrow> do {
          let inst = on_conditions (\<lambda>cs. setResyncCondition t cs (vr_generation inst) (vr_kind inst)) inst;
          if \<not> ready then ret (inst, True, None)
          else do {
            t \<leftarrow> now e;
            ret (on_conditions (\<lambda>cs. setNotDegradedCondition t cs (vr_generation inst) (vr_kind inst)) inst,
                 False, None)
          }
        })
   }"

definition disableVolumeReplication :: "env \<Rightarrow> repl_params \<Rightarrow> goerr option prog" where
  "disableVolumeReplication e params = do {
     resp \<leftarrow> Replication_Disable e (simple_replication params False);
     ret (case resp of
        Inl err \<Rightarrow> if HasKnownGRPCError (Some err) disableReplicationKnownErrors then None else Some err
      | Inr _ \<Rightarrow> None)
   }"

definition enableReplication ::
  "env \<Rightarrow> repl_params \<Rightarrow> volume_replication \<Rightarrow> (volume_replication \<times> goerr option) prog" where
  "enableReplication e params inst = do {
     resp \<leftarrow> Replication_Enable e (simple_replication params False);
     (case resp of
        Inr _ \<Rightarrow> ret (inst, None)
      | Inl err \<Rightarrow> do {
          t \<leftarrow> now e;
          ret (if HasKnownGRPCError (Some err) enableReplicationKnownErrors
               then (on_conditions (\<lambda>cs. setFailedValidationCondition t cs (vr_generation inst) (vr_kind inst)
                       ''failed to enable volume replication'' (Error err)) inst, Some err)
               else (on_conditions (\<lambda>cs. setFailedPromotionCondition t cs (vr_generation inst) (vr_kind inst)
                       ''failed to enable volume replication'' (Error err)) inst, Some err))
        })
   }"

text \<open>The response is \<open>None\<close> when the sidecar knows no replication of the volume.\<close>

definition getVolumeReplicationInfo :: "env \<Rightarrow> repl_params \<Rightarrow> (goerr + info_response option) prog" where
  "getVolumeReplicationInfo e params = do {
     resp \<leftarrow> Replication_GetInfo e (simple_replication params False);
     ret (case resp of
        Inl err \<Rightarrow> if HasKnownGRPCError (Some err) getReplicationInfoKnownErrors then Inr None else Inl err
      | Inr info \<Rightarrow> Inr (Some info))
   }"

section \<open>Volume groups\<close>

definition vgr_set_annotations :: "strmap \<Rightarrow> volume_group_replication \<Rightarrow> volume_group_replication" where
  "vgr_set_annotations as vgr = vgr\<lparr>vgr_meta := (vgr_meta vgr)\<lparr>om_annotations := as\<rparr>\<rparr>"

definition annotateVolumeGroupReplicationWithOwner ::
  "env \<Rightarrow> string \<Rightarrow> volume_group_replication \<Rightarrow> (volume_group_replication \<times> goerr option) prog" where
  "annotateVolumeGroupReplicationWithOwner e reqOwnerName vgr =
     (let annotations = om_annotations (vgr_meta vgr);
          currentOwnerName = mget annotations VolumeReplicationNameAnnotation in
      if currentOwnerName = [] then do {
        let vgr = vgr_set_annotations
                    (AList.update VolumeReplicationNameAnnotation reqOwnerName annotations) vgr;
        r \<leftarrow> Update_VGR e vgr;
        ret (after_update vgr (''failed to update VGR '' @ fmt_q (om_name (vgr_meta vgr)) @
          '' annotation for VolumeReplication: '') r)
      }
      else if currentOwnerName \<noteq> reqOwnerName
      then ret (vgr, Some (ErrMsg (''VGR '' @ fmt_q (om_name (vgr_meta vgr)) @
             '' not owned by VolumeReplication '' @ fmt_q reqOwnerName)))
      else ret (vgr, None))"

definition removeOwnerFromVGRAnnotation ::
  "env \<Rightarrow> volume_group_replication \<Rightarrow> (volume_group_replication \<times> goerr option) prog" where
  "removeOwnerFromVGRAnnotation e vgr =
     (let annotations = om_annotations (vgr_meta vgr) in
      if map_of annotations VolumeReplicationNameAnnotation \<noteq> None then do {
        let vgr = vgr_set_annotations (AList.delete VolumeReplicationNameAnnotation annotations) vgr;
        r \<leftarrow> Update_VGR e vgr;
        ret (after_update vgr (''failed to remove annotation '' @ fmt_q VolumeReplicationNameAnnotation @
          '' from VolumeGroupReplication '' @ fmt_q (om_name (vgr_meta vgr)) @ '' '') r)
      } else ret (vgr, None))"

text \<open>Both pointers and the error, as the three results of the function.\<close>

definition getVolumeGroupReplicationDataSource ::
  "env \<Rightarrow> nsname \<Rightarrow> (volume_group_replication option \<times> vgr_content option \<times> goerr option) prog" where
  "getVolumeGroupReplicationDataSource e req = do {
     r \<leftarrow> Get_VGR e req;
     (case r of
        Inl err \<Rightarrow> ret (None, None, Some err)
      | Inr vgr \<Rightarrow> do {
          let vgrcName = vgs_volumeGroupReplicationContentName (vgr_spec vgr);
          if vgrcName = []
          then ret (Some vgr, None, Some (ErrMsg ''VolumeGroupReplicationContentName is empty''))
          else do {
            r \<leftarrow> Get_VGRContent e \<lparr>nn_namespace = [], nn_name = vgrcName\<rparr>;
            ret (case r of
               Inl err \<Rightarrow> (Some vgr, None, Some err)
             | Inr c \<Rightarrow> (Some vgr, Some c, None))
          }
        })
   }"

definition getReplicationClient :: "env \<Rightarrow> string \<Rightarrow> string \<Rightarrow> repl_client gores prog" where
  "getReplicationClient e driverName dataSource = do {
     c \<leftarrow> GetLeaderByDriver e driverName;
     ret (case c of
        GoPanic m \<Rightarrow> GoPanic m
      | GoErr err \<Rightarrow> GoErr (ErrWrap (''no leader for the ControllerService of driver '' @ fmt_q driverName @
                       '': '') err [])
      | GoOk conn \<Rightarrow>
          if CapVolumeReplication VOLUME_REPLICATION \<in> set (cn_Capabilities conn) \<and> dataSource = pvcDataSource
          then GoOk (VolumeReplicationClient (cn_Client conn))
          else if CapVolumeReplication VOLUME_REPLICATION \<in> set (cn_Capabilities conn) \<and>
            dataSource = volumeGroupReplicationDataSource
          then GoOk (VolumeGroupReplicationClient (cn_Client conn))
          else GoErr (ErrMsg (''leading CSIAddonsNode '' @ fmt_q (cn_Name conn) @ '' for driver '' @
                 fmt_q driverName @ '' does not support VolumeReplication'')))
   }"

section \<open>Reconcile\<close>

text \<open>The variables of \<open>Reconcile\<close> that describe the data source; pointers may be nil.\<close>

record data_info =
  di_volumeHandle :: string
  di_groupHandle :: string
  di_pvc :: "pvc option"
  di_vgr :: "volume_group_replication option"
  di_vgrc :: "vgr_content option"

definition no_data :: data_info where
  "no_data = \<lparr>di_volumeHandle = [], di_groupHandle = [], di_pvc = None, di_vgr = None, di_vgrc = None\<rparr>"

text \<open>The switch on the kind of the data source; \<open>Inl\<close> is an early return of \<open>Reconcile\<close>.\<close>

definition Reconcile_dataSource :: "env \<Rightarrow> nsname \<Rightarrow> volume_replication \<Rightarrow> (outcome + data_info) prog" where
  "Reconcile_dataSource e req inst =
     (let dsName = ds_name (vrs_dataSource (vr_spec inst));
          nameSpacedName = \<lparr>nn_namespace = nn_namespace req, nn_name = dsName\<rparr> in
      if vr_kind inst = pvcDataSource then do {
        r \<leftarrow> getPVCDataSource e nameSpacedName;
        (case r of
           Inl pvErr \<Rightarrow> do {
             reportFailure e inst ''failed to find PVC'' (Error pvErr) dsName;
             ret (Inl (done_err pvErr))
           }
         | Inr (p, v) \<Rightarrow>
             (case pv_csi v of
                None \<Rightarrow> ret (Inl (Panicked ''nil pointer dereference: pv.Spec.CSI''))
              | Some csi \<Rightarrow> ret (Inr (no_data\<lparr>di_volumeHandle := csi_volumeHandle csi, di_pvc := Some p\<rparr>))))
      }
      else if vr_kind inst = volumeGroupReplicationDataSource then do {
        (vgr, vgrc, vgrErr) \<leftarrow> getVolumeGroupReplicationDataSource e nameSpacedName;
        (case vgrErr of
           Some err \<Rightarrow>
             if IsNotFound err \<and> om_deletionTimestamp (vr_meta inst) \<noteq> None
             then ret (Inr (no_data\<lparr>di_vgr := vgr, di_vgrc := vgrc\<rparr>))
             else do {
               reportFailure e inst ''failed to get VolumeGroupReplication'' (Error err) dsName;
               ret (Inl (done_err err))
             }
         | None \<Rightarrow>
             (case vgrc of
                None \<Rightarrow> ret (Inl (Panicked ''nil pointer dereference: vgrc''))
              | Some c \<Rightarrow> ret (Inr (no_data\<lparr>di_groupHandle := vgcs_handle (vgrc_spec c),
                             di_vgr := vgr, di_vgrc := vgrc\<rparr>))))
      }
      else do {
        reportFailure e inst ''unsupported datasource'' ''unsupported datasource kind'' [];
        ret (Inl done_ok)
      })"

text \<open>The resource is not being deleted: take ownership of the data source.\<close>

definition Reconcile_protect ::
  "env \<Rightarrow> nsname \<Rightarrow> volume_replication \<Rightarrow> data_info \<Rightarrow> (outcome + volume_replication) prog" where
  "Reconcile_protect e req inst di = do {
     (inst, err) \<leftarrow> addFinalizerToVR e inst;
     (case err of
        Some er \<Rightarrow> ret (Inl (done_err er))
      | None \<Rightarrow>
          if vr_kind inst = pvcDataSource then
            (case di_pvc di of
               None \<Rightarrow> ret (Inl (Panicked ''nil pointer dereference: pvc''))
             | Some p \<Rightarrow> do {
                 (p, err) \<leftarrow> annotatePVCWithOwner e (om_name (vr_meta inst)) p VolumeReplicationNameAnnotation;
                 (case err of
                    Some er \<Rightarrow> ret (Inl (done_err er))
                  | None \<Rightarrow> do {
                      (p, err) \<leftarrow> addFinalizerToPVC e p pvcReplicationFinalizer;
                      ret (case err of Some er \<Rightarrow> Inl (done_err er) | None \<Rightarrow> Inr inst)
                    })
               })
          else if vr_kind inst = volumeGroupReplicationDataSource then
            (case di_vgr di of
               None \<Rightarrow> ret (Inl (Panicked ''nil pointer dereference: vgr''))
             | Some vgr \<Rightarrow> do {
                 (vgr, err) \<leftarrow> annotateVolumeGroupReplicationWithOwner e (nn_name req) vgr;
                 (case err of
                    Some er \<Rightarrow> ret (Inl (done_err er))
                  | None \<Rightarrow>
                      (case di_vgrc di of
                         None \<Rightarrow> ret (Inl (Panicked ''nil pointer dereference: vgrc''))
                       | Some c \<Rightarrow> do {
                           (c, err) \<leftarrow> addFinalizerToVGRContent e c volumeReplicationFinalizer;
                           ret (case err of Some er \<Rightarrow> Inl (done_err er) | None \<Rightarrow> Inr inst)
                         }))
               })
          else ret (Inr inst))
   }"

text \<open>The release of the data source on deletion; \<open>Inl\<close> is an early return.\<close>

definition Reconcile_release :: "env \<Rightarrow> string \<Rightarrow> data_info \<Rightarrow> (outcome + unit) prog" where
  "Reconcile_release e kind di =
     (if kind = pvcDataSource then
        (case di_pvc di of
           None \<Rightarrow> ret (Inl (Panicked ''nil pointer dereference: pvc''))
         | Some p \<Rightarrow> do {
             (p, err) \<leftarrow> removeOwnerFromPVCAnnotation e p VolumeReplicationNameAnnotation;
             (case err of
                Some er \<Rightarrow> ret (Inl (done_err er))
              | None \<Rightarrow> do {
                  (p, err) \<leftarrow> removeFinalizerFromPVC e p pvcReplicationFinalizer;
                  ret (case err of Some er \<Rightarrow> Inl (done_err er) | None \<Rightarrow> Inr ())
                })
           })
      else if kind = volumeGroupReplicationDataSource then do {
        err \<leftarrow> (case di_vgrc di of
                   None \<Rightarrow> ret None
                 | Some c \<Rightarrow> do {
                     (c, err) \<leftarrow> removeFinalizerFromVGRContent e c volumeReplicationFinalizer;
                     ret err
                   });
        (case err of
           Some er \<Rightarrow> ret (Inl (done_err er))
         | None \<Rightarrow>
             (case di_vgr di of
                None \<Rightarrow> ret (Inl (Panicked ''nil pointer dereference: vgr.Annotations''))
              | Some vgr \<Rightarrow> do {
                  (vgr, err) \<leftarrow> removeOwnerFromVGRAnnotation e vgr;
                  ret (case err of Some er \<Rightarrow> Inl (done_err er) | None \<Rightarrow> Inr ())
                }))
      }
      else ret (Inr ()))"

definition Reconcile_delete ::
  "env \<Rightarrow> volume_replication \<Rightarrow> repl_params \<Rightarrow> data_info \<Rightarrow> outcome prog" where
  "Reconcile_delete e inst params di =
     (if volumeReplicationFinalizer \<in> set (om_finalizers (vr_meta inst)) then do {
        err \<leftarrow> (if rp_VolumeID params \<noteq> [] \<or> rp_GroupID params \<noteq> []
               then disableVolumeReplication e params else ret None);
        (case err of
           Some er \<Rightarrow> ret (done_err er)
         | None \<Rightarrow> do {
             r \<leftarrow> Reconcile_release e (vr_kind inst) di;
             (case r of
                Inl out \<Rightarrow> ret out
              | Inr _ \<Rightarrow> do {
                  (inst, err) \<leftarrow> removeFinalizerFromVR e inst;
                  ret (case err of Some er \<Rightarrow> done_err er | None \<Rightarrow> done_ok)
                })
           })
      } else ret done_ok)"

text \<open>
  The switch on the desired state: an early return, or the object with \<open>replicationErr\<close> and
  \<open>requeueForResync\<close>.
\<close>

type_synonym replicated = "volume_replication \<times> goerr option \<times> bool"

definition set_promoted :: "env \<Rightarrow> volume_replication \<Rightarrow> volume_replication prog" where
  "set_promoted e inst = do {
     t \<leftarrow> now e;
     ret (on_conditions (\<lambda>cs. setPromotedCondition t cs (vr_generation inst) (vr_kind inst)) inst)
   }"

definition Reconcile_primary :: "env \<Rightarrow> repl_params \<Rightarrow> volume_replication \<Rightarrow> (outcome + replicated) prog" where
  "Reconcile_primary e params inst =
     (if vr_state_of inst \<noteq> PrimaryState then do {
        (inst, err) \<leftarrow> enableReplication e params inst;
        (case err of
           Some er \<Rightarrow> do {
             _ \<leftarrow> updateReplicationStatus e inst (GetCurrentReplicationState (vr_state_of inst))
                    (GetMessageFromError er);
             ret (Inl (done_err er))
           }
         | None \<Rightarrow> do {
             (inst, replicationErr) \<leftarrow> markVolumeAsPrimary e params inst;
             (case replicationErr of
                Some er \<Rightarrow> ret (Inr (inst, replicationErr, False))
              | None \<Rightarrow> do {
                  inst \<leftarrow> set_promoted e inst;
                  ret (Inr (inst, None, False))
                })
           })
      } else do {
        inst \<leftarrow> set_promoted e inst;
        ret (Inr (inst, None, False))
      })"

definition requeue_after :: "duration \<Rightarrow> outcome" where
  "requeue_after d = Returned \<lparr>rr_requeue = True, rr_requeueAfter = d\<rparr> None"

definition Reconcile_secondary :: "env \<Rightarrow> repl_params \<Rightarrow> volume_replication \<Rightarrow> (outcome + replicated) prog" where
  "Reconcile_secondary e params inst =
     (if vr_state_of inst \<noteq> SecondaryState then do {
        (inst, replicationErr) \<leftarrow> markVolumeAsSecondary e params inst;
        (case replicationErr of
           Some er \<Rightarrow> ret (Inr (inst, replicationErr, False))
         | None \<Rightarrow> do {
             (inst, err) \<leftarrow> updateReplicationStatus e inst (GetReplicationState (vr_desired inst))
                              ''volume is marked secondary and is degraded'';
             ret (Inl (case err of Some er \<Rightarrow> done_err er | None \<Rightarrow> requeue_after (15 * second)))
           })
      } else do {
        (inst, replicationErr) \<leftarrow> markVolumeAsSecondary e params inst;
        (case replicationErr of
           Some er \<Rightarrow> ret (Inr (inst, replicationErr, False))
         | None \<Rightarrow> do {
             (inst, requeueForResync, replicationErr) \<leftarrow>
               resyncVolume e params (vrs_autoResync (vr_spec inst)) inst;
             ret (Inr (inst, replicationErr, requeueForResync))
           })
      })"

definition Reconcile_switch :: "env \<Rightarrow> repl_params \<Rightarrow> volume_replication \<Rightarrow> (outcome + replicated) prog" where
  "Reconcile_switch e params inst =
     (case vr_desired inst of
        Primary \<Rightarrow> Reconcile_primary e params inst
      | Secondary \<Rightarrow> Reconcile_secondary e params inst
      | Resync \<Rightarrow> do {
          (inst, requeueForResync, replicationErr) \<leftarrow> resyncVolume e params True inst;
          ret (Inr (inst, replicationErr, requeueForResync))
        }
      | OtherReplicationState st \<Rightarrow> do {
          reportFailure e inst ''unsupported volume state'' ''unsupported volume state'' (vr_kind inst);
          ret (Inl done_ok)
        })"

text \<open>
  The sync times of the answer, and the report of a replicated volume. The answer is \<open>None\<close>
  for a nil pointer, whose getters return zero values.
\<close>

definition apply_info :: "info_response \<Rightarrow> volume_replication \<Rightarrow> volume_replication" where
  "apply_info info inst =
     (case ir_lastSyncTime info of
        None \<Rightarrow> inst
      | Some ts \<Rightarrow> inst\<lparr>vr_status := (vr_status inst)\<lparr>vst_lastSyncTime := Some ts,
           vst_lastSyncDuration := ir_lastSyncDuration info,
           vst_lastSyncBytes := (if ir_lastSyncBytes info \<noteq> 0 then Some (ir_lastSyncBytes info) else None)\<rparr>\<rparr>)"

definition marked_message :: "replication_state \<Rightarrow> string" where
  "marked_message st =
     (if st = Resync then ''volume is marked for resyncing''
      else ''volume is marked '' @ string_of_replication_state st)"

definition Reconcile_info ::
  "env \<Rightarrow> repl_params \<Rightarrow> volume_replication \<Rightarrow> (outcome + volume_replication \<times> bool) prog" where
  "Reconcile_info e params inst =
     (if vr_desired inst = Primary then do {
        r \<leftarrow> getVolumeReplicationInfo e params;
        (case r of
           Inr None \<Rightarrow> ret (Inr (inst, True))
         | Inr (Some info) \<Rightarrow> do {
             inst \<leftarrow> setReplicationCondition e (apply_info info inst) (vr_kind inst) (ir_statusMessage info)
                      (ir_status info);
             ret (Inr (inst, True))
           }
         | Inl err \<Rightarrow>
             if \<not> IsUnimplementedError err then do {
               inst \<leftarrow> setReplicationCondition e inst (vr_kind inst) (Error err) INFO_UNKNOWN;
               (inst, statusErr) \<leftarrow> updateReplicationStatus e inst (GetReplicationState (vr_desired inst))
                                     (marked_message (vr_desired inst));
               ret (Inl (case statusErr of Some er \<Rightarrow> done_err er | None \<Rightarrow> done_err err))
             }
             else ret (Inr (inst, False)))
      } else ret (Inr (inst, False)))"

definition clear_secondary :: "volume_replication \<Rightarrow> volume_replication" where
  "clear_secondary inst =
     (if vr_desired inst = Secondary
      then on_conditions (\<lambda>cs. removeCondition cs ConditionReplicating)
             (inst\<lparr>vr_status := (vr_status inst)\<lparr>vst_lastSyncTime := None\<rparr>\<rparr>)
      else inst)"

definition Reconcile_report ::
  "env \<Rightarrow> repl_params \<Rightarrow> replicated \<Rightarrow> outcome prog" where
  "Reconcile_report e params rep =
     (case rep of (inst, replicationErr, requeueForResync) \<Rightarrow>
       (case replicationErr of
          Some err \<Rightarrow> do {
            (inst, _) \<leftarrow> updateReplicationStatus e inst (GetCurrentReplicationState (vr_state_of inst))
                            (GetMessageFromError err);
            ret (if vr_state_of inst = SecondaryState then requeue_after (15 * second) else done_err err)
          }
        | None \<Rightarrow>
            if requeueForResync then do {
              let inst = on_conditions (\<lambda>cs. removeCondition cs ConditionReplicating) inst;
              _ \<leftarrow> updateReplicationStatus e inst (GetCurrentReplicationState (vr_state_of inst))
                     ''volume is degraded'';
              ret (requeue_after (30 * second))
            } else do {
              let msg = marked_message (vr_desired inst);
              t \<leftarrow> now e;
              let inst = inst\<lparr>vr_status := (vr_status inst)\<lparr>vst_lastCompletionTime := Some t\<rparr>\<rparr>;
              r \<leftarrow> Reconcile_info e params inst;
              (case r of
                 Inl out \<Rightarrow> ret out
               | Inr (inst, requeueForInfo) \<Rightarrow> do {
                   (inst, err) \<leftarrow> updateReplicationStatus e (clear_secondary inst)
                                    (GetReplicationState (vr_desired inst)) msg;
                   ret (case err of
                      Some er \<Rightarrow> done_err er
                    | None \<Rightarrow> if requeueForInfo
                        then requeue_after (getInfoReconcileInterval e (rp_Parameters params))
                        else done_ok)
                 })
            }))"

text \<open>The part after the deletion check, from the start time on.\<close>

definition Reconcile_replicate :: "env \<Rightarrow> repl_params \<Rightarrow> volume_replication \<Rightarrow> outcome prog" where
  "Reconcile_replicate e params inst = do {
     t \<leftarrow> now e;
     u \<leftarrow> Update_VR e (inst\<lparr>vr_status := (vr_status inst)\<lparr>vst_lastStartTime := Some t\<rparr>\<rparr>);
     (case u of
        Inl err \<Rightarrow> ret (done_err err)
      | Inr inst \<Rightarrow> do {
          r \<leftarrow> Reconcile_switch e params inst;
          (case r of
             Inl out \<Rightarrow> ret out
           | Inr rep \<Rightarrow> Reconcile_report e params rep)
        })
   }"

definition mk_params :: "replication_class \<Rightarrow> volume_replication \<Rightarrow> data_info \<Rightarrow> repl_client \<Rightarrow> repl_params" where
  "mk_params vrc inst di client =
     \<lparr>rp_VolumeID = di_volumeHandle di, rp_GroupID = di_groupHandle di,
      rp_ReplicationID = vrs_replicationHandle (vr_spec inst),
      rp_Parameters = filterPrefixedParameters replicationParameterPrefix (rc_parameters vrc),
      rp_SecretName = mget (rc_parameters vrc) prefixedReplicationSecretNameKey,
      rp_SecretNamespace = mget (rc_parameters vrc) prefixedReplicationSecretNamespaceKey,
      rp_Replication = client\<rparr>"

definition Reconcile_dispatch ::
  "env \<Rightarrow> nsname \<Rightarrow> volume_replication \<Rightarrow> replication_class \<Rightarrow> data_info \<Rightarrow> outcome prog" where
  "Reconcile_dispatch e req inst vrc di = do {
     c \<leftarrow> getReplicationClient e (rc_provisioner vrc) (vr_kind inst);
     (case c of
        GoPanic m \<Rightarrow> ret (Panicked m)
      | GoErr err \<Rightarrow> ret (done_err err)
      | GoOk client \<Rightarrow> do {
          let params = mk_params vrc inst di client;
          if om_deletionTimestamp (vr_meta inst) = None then do {
            r \<leftarrow> Reconcile_protect e req inst di;
            (case r of
               Inl out \<Rightarrow> ret out
             | Inr inst \<Rightarrow> Reconcile_replicate e params inst)
          } else Reconcile_delete e inst params di
        })
   }"

definition VR_Reconcile :: "env \<Rightarrow> nsname \<Rightarrow> outcome prog" where
  "VR_Reconcile e req = do {
     r \<leftarrow> Get_VR e req;
     (case r of
        Inl err \<Rightarrow> ret (if IsNotFound err then done_ok else done_err err)
      | Inr inst \<Rightarrow> do {
          r \<leftarrow> getVolumeReplicationClass e (vrs_volumeReplicationClass (vr_spec inst));
          (case r of
             Inl err \<Rightarrow> do {
               reportFailure e inst ''failed to get volumeReplication class'' (Error err) (vr_kind inst);
               ret (done_err err)
             }
           | Inr vrc \<Rightarrow>
               (case validatePrefixedParameters (rc_parameters vrc) of
                  Some err \<Rightarrow> do {
                    reportFailure e inst ''failed to validate parameters of volumeReplicationClass''
                      (Error err) (vr_kind inst);
                    ret (done_err err)
                  }
                | None \<Rightarrow> do {
                    r \<leftarrow> Reconcile_dataSource e req inst;
                    (case r of
                       Inl out \<Rightarrow> ret out
                     | Inr di \<Rightarrow> Reconcile_dispatch e req inst vrc di)
                  }))
        })
   }"

end
