(* ===== verification/VR_Facts.thy ===== *)
theory VR_Facts
  imports Volume_Replication
begin

text \<open>
  Lemmas on the VolumeReplication controller: which calls each part may issue, what the parts
  know of the calls made before them, and what they keep of the object. The properties of the
  controller in \<^verbatim>\<open>Props_Replication\<close> rest on them.
\<close>

section \<open>Which calls a part may issue\<close>

text \<open>Calls that neither write to the API server nor touch replication.\<close>

fun quiet :: "event \<Rightarrow> bool" where
  "quiet (ApiGet k nn) = True"
| "quiet (Rpc cl r) \<longleftrightarrow> r = RpcGetCapabilities"
| "quiet (Dial a b) = True"
| "quiet (GetState cl) = True"
| "quiet (CloseClient cl) = True"
| "quiet ev = False"

fun repl_rpc :: "event \<Rightarrow> bool" where
  "repl_rpc (Rpc cl r) \<longleftrightarrow> r \<noteq> RpcGetCapabilities"
| "repl_rpc ev = False"

lemma quiet_not_repl: "quiet ev \<Longrightarrow> \<not> repl_rpc ev"
  by (cases ev) auto

lemma emits_replication_state [emits_intros]:
  "emits R m1 \<Longrightarrow> emits R m2 \<Longrightarrow> emits R m3 \<Longrightarrow> (\<And>x. emits R (f x)) \<Longrightarrow>
     emits R (case st of Primary \<Rightarrow> m1 | Secondary \<Rightarrow> m2 | Resync \<Rightarrow> m3 | OtherReplicationState x \<Rightarrow> f x)"
  by (cases st) auto

lemma emits_Connect [emits_intros]:
  "(\<And>h ev. quiet ev \<Longrightarrow> R h ev) \<Longrightarrow> emits R (Connect e c)"
  unfolding connect_defs by (intro emits_intros) auto

lemma emits_Connect_entry [emits_intros]:
  "(\<And>h ev. quiet ev \<Longrightarrow> R h ev) \<Longrightarrow> emits R (Connect_entry e k c)"
  unfolding Connect_entry_def by (intro emits_intros) auto

lemma emits_GetLeaderByDriver:
  "(\<And>h ev. quiet ev \<Longrightarrow> R h ev) \<Longrightarrow> emits R (GetLeaderByDriver e d)"
  unfolding GetLeaderByDriver_def getNamespaceByDriverName_def api_defs
  by (intro emits_intros) auto

lemma emits_getReplicationClient:
  "(\<And>h ev. quiet ev \<Longrightarrow> R h ev) \<Longrightarrow> emits R (getReplicationClient e d k)"
  unfolding getReplicationClient_def by (intro emits_intros emits_GetLeaderByDriver) auto

lemmas quiet_defs = getPVCDataSource_def getVolumeGroupReplicationDataSource_def
  getVolumeReplicationClass_def api_defs

lemma emits_quiet_gets:
  assumes "\<And>h ev. quiet ev \<Longrightarrow> R h ev"
  shows "emits R (getPVCDataSource e nn)" "emits R (getVolumeGroupReplicationDataSource e nn)"
    "emits R (getVolumeReplicationClass e n)"
  unfolding quiet_defs by (intro emits_intros; simp add: assms)+

lemma emits_writes:
  assumes "\<And>h ev. \<not> repl_rpc ev \<Longrightarrow> R h ev"
  shows "emits R (addFinalizerToVR e vr)" "emits R (removeFinalizerFromVR e vr)"
    "emits R (addFinalizerToPVC e p f)" "emits R (removeFinalizerFromPVC e p f)"
    "emits R (addFinalizerToVGRContent e c f)" "emits R (removeFinalizerFromVGRContent e c f)"
    "emits R (annotatePVCWithOwner e o1 p a)" "emits R (removeOwnerFromPVCAnnotation e p a)"
    "emits R (annotateVolumeGroupReplicationWithOwner e o1 vgr)" "emits R (removeOwnerFromVGRAnnotation e vgr)"
    "emits R (updateReplicationStatus e vr st msg)" "emits R (reportFailure e vr m1 m2 m3)"
  using assms
  by (auto simp: annotatePVCWithOwner_def removeOwnerFromPVCAnnotation_def
      annotateVolumeGroupReplicationWithOwner_def removeOwnerFromVGRAnnotation_def
      updateReplicationStatus_def reportFailure_def setFailureCondition_def api_defs
      intro!: emits_intros vr_fin.emits_add vr_fin.emits_rem pvc_fin.emits_add pvc_fin.emits_rem
        vgrc_fin.emits_add vgrc_fin.emits_rem)

lemma emits_reports:
  assumes "\<And>h v. R h (ApiStatusUpdate (O_VR v))"
  shows "emits R (updateReplicationStatus e vr st msg)" "emits R (reportFailure e vr m1 m2 m3)"
  using assms
  by (auto simp: updateReplicationStatus_def reportFailure_def setFailureCondition_def api_defs
      intro!: emits_intros)

lemma emits_Reconcile_dataSource:
  assumes "\<And>h ev. quiet ev \<Longrightarrow> R h ev" "\<And>m1 m2 m3. emits R (reportFailure e inst m1 m2 m3)"
  shows "emits R (Reconcile_dataSource e req inst)"
  unfolding Reconcile_dataSource_def
  by (intro emits_intros emits_quiet_gets assms)

lemma emits_Reconcile_protect:
  assumes "\<And>h ev. \<not> repl_rpc ev \<Longrightarrow> R h ev"
  shows "emits R (Reconcile_protect e req inst di)"
  unfolding Reconcile_protect_def by (intro emits_intros emits_writes) (auto simp: assms)

lemma emits_Reconcile_release:
  assumes "\<And>h ev. \<not> repl_rpc ev \<Longrightarrow> R h ev"
  shows "emits R (Reconcile_release e kind di)"
  unfolding Reconcile_release_def by (intro emits_intros emits_writes) (auto simp: assms)

lemma emits_Reconcile_delete:
  assumes "\<And>h ev. \<not> repl_rpc ev \<Longrightarrow> R h ev" "emits R (disableVolumeReplication e params)"
  shows "emits R (Reconcile_delete e inst params di)"
  unfolding Reconcile_delete_def
  by (intro emits_intros emits_writes emits_Reconcile_release assms) auto

lemma emits_setReplicationCondition [emits_intros]: "emits R (setReplicationCondition e inst d m s)"
  unfolding setReplicationCondition_def by (intro emits_intros)

text \<open>The part that runs when the resource is not being deleted, given its six operations.\<close>

locale replicate_ops =
  fixes R :: "event list \<Rightarrow> event \<Rightarrow> bool" and e :: env
  assumes other: "\<And>h ev. \<not> repl_rpc ev \<Longrightarrow> R h ev"
    and enable: "\<And>params inst. emits R (enableReplication e params inst)"
    and primary: "\<And>params inst. emits R (markVolumeAsPrimary e params inst)"
    and secondary: "\<And>params inst. emits R (markVolumeAsSecondary e params inst)"
    and resync: "\<And>params force inst. emits R (resyncVolume e params force inst)"
    and info: "\<And>params. emits R (getVolumeReplicationInfo e params)"
    and disable: "\<And>params. emits R (disableVolumeReplication e params)"
begin

lemma emits_switch: "emits R (Reconcile_switch e params inst)"
  unfolding Reconcile_switch_def Reconcile_primary_def Reconcile_secondary_def set_promoted_def
  by (intro emits_intros emits_writes enable primary secondary resync other)

lemma emits_info: "emits R (Reconcile_info e params inst)"
  unfolding Reconcile_info_def by (intro emits_intros emits_writes info other)

lemma emits_report: "emits R (Reconcile_report e params rep)"
  unfolding Reconcile_report_def by (intro emits_intros emits_writes emits_info other)

lemma emits_replicate: "emits R (Reconcile_replicate e params inst)"
  unfolding Reconcile_replicate_def api_defs
  by (intro emits_intros emits_switch emits_report other) simp

lemma emits_VR_Reconcile: "emits R (VR_Reconcile e req)"
proof -
  have quiet: "\<And>h ev. quiet ev \<Longrightarrow> R h ev"
    by (simp add: other quiet_not_repl)
  have dispatch: "emits R (Reconcile_dispatch e req inst vrc di)" for inst vrc di
    unfolding Reconcile_dispatch_def
    by (intro emits_intros emits_getReplicationClient emits_Reconcile_protect emits_Reconcile_delete
        emits_replicate disable other quiet)
  show ?thesis
    unfolding VR_Reconcile_def
    by (intro emits_intros emits_quiet_gets emits_writes emits_Reconcile_dataSource dispatch other quiet)
      (auto simp: api_defs intro!: emits_intros emits_reports other quiet)
qed

end

section \<open>The operations, one call each\<close>

lemma emits_Replication:
  "(\<And>h cl q. R h (Rpc cl (RpcEnable q))) \<Longrightarrow> emits R (Replication_Enable e r)"
  "(\<And>h cl q. R h (Rpc cl (RpcDisable q))) \<Longrightarrow> emits R (Replication_Disable e r)"
  "(\<And>h cl q. R h (Rpc cl (RpcPromote q (r_Force r)))) \<Longrightarrow> emits R (Replication_Promote e r)"
  "(\<And>h cl q. R h (Rpc cl (RpcDemote q))) \<Longrightarrow> emits R (Replication_Demote e r)"
  "(\<And>h cl q. R h (Rpc cl (RpcResync q (r_Force r)))) \<Longrightarrow> emits R (Replication_Resync e r)"
  "(\<And>h cl q. R h (Rpc cl (RpcGetInfo q))) \<Longrightarrow> emits R (Replication_GetInfo e r)"
  unfolding emits_def htriple_def by (auto simp: run_Replication Let_def split: sum.splits)

lemmas op_defs = enableReplication_def markVolumeAsSecondary_def resyncVolume_def
  getVolumeReplicationInfo_def disableVolumeReplication_def

lemma emits_ops:
  "(\<And>h cl q. R h (Rpc cl (RpcEnable q))) \<Longrightarrow> emits R (enableReplication e params inst)"
  "(\<And>h cl q. R h (Rpc cl (RpcDemote q))) \<Longrightarrow> emits R (markVolumeAsSecondary e params inst)"
  "(\<And>h cl q. R h (Rpc cl (RpcResync q force))) \<Longrightarrow> emits R (resyncVolume e params force inst)"
  "(\<And>h cl q. R h (Rpc cl (RpcGetInfo q))) \<Longrightarrow> emits R (getVolumeReplicationInfo e params)"
  "(\<And>h cl q. R h (Rpc cl (RpcDisable q))) \<Longrightarrow> emits R (disableVolumeReplication e params)"
  unfolding op_defs by (intro emits_intros emits_Replication; simp add: simple_replication_def)+

section \<open>Forced promotion\<close>

text \<open>
  A forced promotion comes right after the same promotion without force, refused with
  FailedPrecondition.
\<close>

definition refused_before :: "env \<Rightarrow> event list \<Rightarrow> event \<Rightarrow> bool" where
  "refused_before e h ev \<longleftrightarrow> (\<forall>cl q. ev = Rpc cl (RpcPromote q True) \<longrightarrow>
     (\<exists>h' err. h = h' @ [Rpc cl (RpcPromote q False)] \<and>
        e_rpcPromote e h' cl (q, False) = Inl err \<and> grpc_code_of err = Some C_FailedPrecondition))"

lemma refused_before_other: "(\<And>cl q. ev \<noteq> Rpc cl (RpcPromote q True)) \<Longrightarrow> refused_before e h ev"
  by (simp add: refused_before_def)

lemma emits_markVolumeAsPrimary_refused: "emits (refused_before e) (markVolumeAsPrimary e params inst)"
  unfolding emits_def htriple_def
proof (intro allI impI)
  fix w x w'
  let ?r = "simple_replication params False"
  assume run: "run_state (markVolumeAsPrimary e params inst) w = (x, w')"
  have params: "getID (simple_replication params True) = getID ?r" "r_Params (simple_replication params f) = params"
    "r_Force (simple_replication params f) = f" for f
    by (simp_all add: simple_replication_def getID_def)
  show "\<exists>es. trace w' = trace w @ es \<and> steps_ok (refused_before e) (trace w) es \<and> True"
  proof (cases "getID ?r")
    case (Inl err)
    with run have "trace w' = trace w"
      by (cases "HasKnownGRPCError (Some err) volumePromotionKnownErrors")
        (auto simp: markVolumeAsPrimary_def run_Replication params now_def run_defs)
    then show ?thesis by simp
  next
    case (Inr vid)
    let ?cl = "client_conn (rp_Replication params)" and ?q = "req_of params vid"
    let ?e1 = "Rpc ?cl (RpcPromote ?q False)" and ?e2 = "Rpc ?cl (RpcPromote ?q True)"
    have e1: "refused_before e h ?e1" for h by (simp add: refused_before_def)
    show ?thesis
    proof (cases "\<exists>err. e_rpcPromote e (trace w) ?cl (?q, False) = Inl err \<and>
        HasKnownGRPCError (Some err) volumePromotionKnownErrors")
      case True
      then obtain err where err: "e_rpcPromote e (trace w) ?cl (?q, False) = Inl err"
          "grpc_code_of err = Some C_FailedPrecondition"
        by (auto simp: HasKnownGRPCError_iff volumePromotionKnownErrors_def)
      then have "trace w' = trace w @ [?e1, ?e2]"
        using run True
        by (auto simp: markVolumeAsPrimary_def run_Replication params Inr now_def run_defs Let_def
            split: sum.splits)
      moreover have "refused_before e (trace w @ [?e1]) ?e2"
        using err by (auto simp: refused_before_def)
      ultimately show ?thesis
        using steps_ok_append [of "refused_before e" "trace w" "[?e1]" "[?e2]"] e1 by auto
    next
      case False
      then have "trace w' = trace w @ [?e1]"
        using run
        by (auto simp: markVolumeAsPrimary_def run_Replication params Inr now_def run_defs Let_def
            split: sum.splits)
      with e1 show ?thesis by auto
    qed
  qed
qed

interpretation forced: replicate_ops "refused_before e" e for e
  by unfold_locales
    (auto intro!: emits_ops refused_before_other emits_markVolumeAsPrimary_refused)

section \<open>Deletion\<close>

text \<open>Continuing after a call whose answer is known.\<close>

lemma emits_after_call:
  assumes "run_state (State_Monad.bind (call ans ev) f) w = (x, w')" "R (trace w) ev" "emits R (f (ans (trace w)))"
  obtains es where "trace w' = trace w @ es" "steps_ok R (trace w) es"
proof -
  have "run_state (f (ans (trace w))) (w\<lparr>trace := trace w @ [ev]\<rparr>) = (x, w')"
    using assms(1) by (simp add: run_defs)
  with assms(3) obtain es where "trace w' = (trace w @ [ev]) @ es" "steps_ok R (trace w @ [ev]) es"
    by (rule emitsD) simp
  with assms(2) that [of "[ev] @ es"] show ?thesis
    by (simp add: steps_ok_append [where es = "[ev]", simplified])
qed

text \<open>The calls a deletion may issue: reads, writes to the API server and the disabling of replication.\<close>

fun deletion_call :: "event \<Rightarrow> bool" where
  "deletion_call (Rpc cl r) \<longleftrightarrow> r = RpcGetCapabilities \<or> (\<exists>q. r = RpcDisable q)"
| "deletion_call ev = True"

lemma deletion_call_other: "\<not> repl_rpc ev \<Longrightarrow> deletion_call ev"
  by (cases ev) auto

lemma emits_dispatch_deleting:
  assumes "om_deletionTimestamp (vr_meta inst) \<noteq> None"
    and other: "\<And>h ev. \<not> repl_rpc ev \<Longrightarrow> R h ev"
    and disable: "\<And>params. emits R (disableVolumeReplication e params)"
  shows "emits R (Reconcile_dispatch e req inst vrc di)"
proof -
  have quiet: "\<And>h ev. quiet ev \<Longrightarrow> R h ev"
    by (simp add: other quiet_not_repl)
  show ?thesis
    unfolding Reconcile_dispatch_def
    by (intro emits_intros emits_getReplicationClient emits_Reconcile_delete disable other)
      (use assms(1) quiet_not_repl in auto)
qed

lemma VR_Reconcile_deleting:
  assumes "run_state (VR_Reconcile e req) w = (out, w')"
    and "e_getVR e (trace w) req = Inr inst" "om_deletionTimestamp (vr_meta inst) \<noteq> None"
    and other: "\<And>h ev. \<not> repl_rpc ev \<Longrightarrow> R h ev"
    and disable: "\<And>params. emits R (disableVolumeReplication e params)"
  obtains es where "trace w' = trace w @ es" "steps_ok R (trace w) es"
proof -
  have quiet: "\<And>h ev. quiet ev \<Longrightarrow> R h ev"
    by (simp add: other quiet_not_repl)
  note dispatch = emits_dispatch_deleting [OF assms(3) other disable]
  show thesis
    by (rule emits_after_call [OF assms(1) [unfolded VR_Reconcile_def Get_VR_def], of R])
      (auto simp: assms(2) quiet_not_repl intro!: other that emits_intros emits_quiet_gets emits_writes
        emits_Reconcile_dataSource dispatch)
qed

text \<open>Disabling that the controller takes for success.\<close>

definition disabled :: "env \<Rightarrow> event list \<Rightarrow> event \<Rightarrow> bool" where
  "disabled e h ev \<longleftrightarrow> (\<exists>cl q. ev = Rpc cl (RpcDisable q) \<and>
     (case e_rpcDisable e h cl q of Inl err \<Rightarrow> grpc_code_of err = Some C_NotFound | Inr _ \<Rightarrow> True))"

lemma getID_error: "getID r = Inl err \<Longrightarrow> grpc_code_of err = None"
  by (auto simp: getID_def split: if_splits)

lemma htriple_disable:
  assumes "\<And>h cl q. R h (Rpc cl (RpcDisable q))"
  shows "htriple (extends h0) (disableVolumeReplication e params)
    (\<lambda>err h. err = None \<longrightarrow> since h0 (disabled e) h) R"
  unfolding htriple_def
proof (intro allI impI)
  fix w err w'
  assume run: "run_state (disableVolumeReplication e params) w = (err, w')" and ext: "extends h0 (trace w)"
  show "\<exists>es. trace w' = trace w @ es \<and> steps_ok R (trace w) es \<and>
      (err = None \<longrightarrow> since h0 (disabled e) (trace w'))"
  proof (cases "getID (simple_replication params False)")
    case (Inl x)
    then have "grpc_code_of x = None" by (rule getID_error)
    with run Inl show ?thesis
      by (auto simp: disableVolumeReplication_def run_Replication HasKnownGRPCError_iff)
  next
    case (Inr vid)
    let ?cl = "client_conn (rp_Replication params)" and ?q = "req_of params vid"
    have run': "err = (case e_rpcDisable e (trace w) ?cl ?q of
          Inl er \<Rightarrow> if grpc_code_of er = Some C_NotFound then None else Some er | Inr _ \<Rightarrow> None)"
      "trace w' = trace w @ [Rpc ?cl (RpcDisable ?q)]"
      using run Inr
      by (auto simp: disableVolumeReplication_def run_Replication Let_def HasKnownGRPCError_iff
          disableReplicationKnownErrors_def simple_replication_def split: sum.splits)
    then have "err = None \<longrightarrow> disabled e (trace w) (Rpc ?cl (RpcDisable ?q))"
      by (auto simp: disabled_def split: sum.splits if_splits)
    with run'(2) ext assms show ?thesis by (auto intro: since_snoc)
  qed
qed

text \<open>On deletion nothing is released, and no finalizer removed, before replication is disabled.\<close>

definition released_ok :: "env \<Rightarrow> event list \<Rightarrow> event list \<Rightarrow> event \<Rightarrow> bool" where
  "released_ok e h0 h ev \<longleftrightarrow> (\<forall>x. ev = ApiUpdate x \<longrightarrow> since h0 (disabled e) h)"

lemma released_ok_other: "(\<And>x. ev \<noteq> ApiUpdate x) \<Longrightarrow> released_ok e h0 h ev"
  by (simp add: released_ok_def)

lemma htriple_Reconcile_delete:
  assumes "rp_VolumeID params \<noteq> [] \<or> rp_GroupID params \<noteq> []"
  shows "htriple (extends h0) (Reconcile_delete e inst params di) (\<lambda>_ _. True) (released_ok e h0)"
proof -
  have rest: "htriple (since h0 (disabled e)) (do {
             r \<leftarrow> Reconcile_release e (vr_kind inst) di;
             (case r of
                Inl out \<Rightarrow> ret out
              | Inr _ \<Rightarrow> do {
                  (inst, err) \<leftarrow> removeFinalizerFromVR e inst;
                  ret (case err of Some er \<Rightarrow> done_err er | None \<Rightarrow> done_ok)
                })
           }) (\<lambda>_ _. True) (released_ok e h0)" for inst
    by (rule htriple_weaken, rule htriple_ignore [where H = "since h0 (disabled e)"])
      (auto simp: released_ok_def intro!: emits_intros emits_Reconcile_release emits_writes)
  show ?thesis
    unfolding Reconcile_delete_def using assms
    by (auto intro!: htriple_bind [OF htriple_disable] released_ok_other split: option.splits
        intro: htriple_weaken [OF rest])
qed

lemma returns_dataSource_handle:
  assumes "vr_kind inst = pvcDataSource"
    and "\<And>h nn v csi. e_getPV e h nn = Inr v \<Longrightarrow> pv_csi v = Some csi \<Longrightarrow> csi_volumeHandle csi \<noteq> []"
  shows "returns (Reconcile_dataSource e req inst) (\<lambda>r. \<forall>di. r = Inr di \<longrightarrow> di_volumeHandle di \<noteq> [])"
  using assms
  by (intro returnsI)
    (auto simp: Reconcile_dataSource_def getPVCDataSource_def api_defs run_defs no_data_def Let_def
      split: sum.splits option.splits if_splits prod.splits)

lemma htriple_dispatch_deleting:
  assumes "om_deletionTimestamp (vr_meta inst) \<noteq> None" "di_volumeHandle di \<noteq> []"
  shows "htriple (extends h0) (Reconcile_dispatch e req inst vrc di) (\<lambda>_ _. True) (released_ok e h0)"
proof -
  have "rp_VolumeID (mk_params vrc inst di client) \<noteq> []" for client
    using assms(2) by (simp add: mk_params_def)
  then have delete: "htriple (extends h0) (Reconcile_delete e inst (mk_params vrc inst di client) di)
      (\<lambda>_ _. True) (released_ok e h0)" for client
    by (simp add: htriple_Reconcile_delete)
  show ?thesis
    unfolding Reconcile_dispatch_def
  proof (rule htriple_bind)
    show "htriple (extends h0) (getReplicationClient e (rc_provisioner vrc) (vr_kind inst))
        (\<lambda>_. extends h0) (released_ok e h0)"
      by (rule htriple_ignore) (auto intro!: emits_getReplicationClient released_ok_other)
  qed (auto simp: assms(1) Let_def delete split: gores.splits)
qed

lemma htriple_VR_Reconcile_deleting:
  assumes "e_getVR e h0 req = Inr inst" "om_deletionTimestamp (vr_meta inst) \<noteq> None"
    and "vr_kind inst = pvcDataSource"
    and "\<And>h nn v csi. e_getPV e h nn = Inr v \<Longrightarrow> pv_csi v = Some csi \<Longrightarrow> csi_volumeHandle csi \<noteq> []"
  shows "htriple (\<lambda>h. h = h0) (VR_Reconcile e req) (\<lambda>_ _. True) (released_ok e h0)"
proof -
  have gets: "htriple (extends h0) (getVolumeReplicationClass e n) (\<lambda>_. extends h0) (released_ok e h0)"
    "htriple (extends h0) (reportFailure e inst m1 m2 m3) (\<lambda>_. extends h0) (released_ok e h0)" for n m1 m2 m3
    by (rule htriple_ignore; auto intro!: emits_quiet_gets emits_reports released_ok_other)+
  have source: "htriple (extends h0) (Reconcile_dataSource e req inst)
      (\<lambda>r h. extends h0 h \<and> (\<forall>di. r = Inr di \<longrightarrow> di_volumeHandle di \<noteq> [])) (released_ok e h0)"
    by (rule htriple_stable)
      (auto intro!: emits_Reconcile_dataSource emits_reports released_ok_other
        returns_dataSource_handle [OF assms(3)] dest: assms(4))
  have continue: "htriple (\<lambda>h. extends h0 h \<and> (\<forall>di. r = Inr di \<longrightarrow> di_volumeHandle di \<noteq> []))
      (case r of Inl out \<Rightarrow> ret out | Inr di \<Rightarrow> Reconcile_dispatch e req inst vrc di)
      (\<lambda>_ _. True) (released_ok e h0)" for r vrc
    by (rule htriple_sum) (simp_all add: htriple_dispatch_deleting [OF assms(2)])
  show ?thesis
    unfolding VR_Reconcile_def Get_VR_def
    by (rule htriple_first_call [where R = "released_ok e h0"])
      (auto simp: assms(1) released_ok_def split: sum.splits option.splits
        intro!: htriple_bind [OF gets(1)] htriple_bind [OF gets(2)] htriple_bind [OF source] continue)
qed

section \<open>The reported state\<close>

definition promoted :: "env \<Rightarrow> event list \<Rightarrow> event \<Rightarrow> bool" where
  "promoted e h ev \<longleftrightarrow> (\<exists>cl q f u. ev = Rpc cl (RpcPromote q f) \<and> e_rpcPromote e h cl (q, f) = Inr u)"

definition demoted :: "env \<Rightarrow> event list \<Rightarrow> event \<Rightarrow> bool" where
  "demoted e h ev \<longleftrightarrow> (\<exists>cl q u. ev = Rpc cl (RpcDemote q) \<and> e_rpcDemote e h cl q = Inr u) \<or>
     (\<exists>cl q f u. ev = Rpc cl (RpcResync q f) \<and> e_rpcResync e h cl (q, f) = Inr u)"

text \<open>What must hold for a state to be reported, from the state \<open>s0\<close> found at the start.\<close>

fun earned :: "env \<Rightarrow> event list \<Rightarrow> vr_state \<Rightarrow> vr_state \<Rightarrow> event list \<Rightarrow> bool" where
  "earned e h0 s0 PrimaryState h \<longleftrightarrow> s0 = PrimaryState \<or> since h0 (promoted e) h"
| "earned e h0 s0 SecondaryState h \<longleftrightarrow> s0 = SecondaryState \<or> since h0 (demoted e) h"
| "earned e h0 s0 st h \<longleftrightarrow> True"

definition reports_earned :: "env \<Rightarrow> event list \<Rightarrow> vr_state \<Rightarrow> event list \<Rightarrow> event \<Rightarrow> bool" where
  "reports_earned e h0 s0 h ev \<longleftrightarrow> (\<forall>v. ev = ApiStatusUpdate (O_VR v) \<longrightarrow> earned e h0 s0 (vr_state_of v) h)"

text \<open>An update of the resource does not change the state in its status.\<close>

definition keeps_state :: "env \<Rightarrow> bool" where
  "keeps_state e \<longleftrightarrow> (\<forall>h x y. e_updateVR e h x = Inr y \<longrightarrow> vr_state_of y = vr_state_of x)"

lemma earned_mono: "earned e h0 s0 st h \<Longrightarrow> earned e h0 s0 st (h @ es)"
  by (cases st) (auto simp: since_append)

lemma stable_earned [intro]: "stable (earned e h0 s0 st)"
  by (simp add: stable_def earned_mono)

lemma earned_current: "earned e h0 s0 (GetCurrentReplicationState s0) h"
  by (cases s0) (auto simp: GetCurrentReplicationState_def)

lemma reports_earned_other: "(\<And>v. ev \<noteq> ApiStatusUpdate (O_VR v)) \<Longrightarrow> reports_earned e h0 s0 h ev"
  by (simp add: reports_earned_def)

lemma on_conditions_simps [simp]:
  "vr_meta (on_conditions f i) = vr_meta i" "vr_spec (on_conditions f i) = vr_spec i"
  "vr_state_of (on_conditions f i) = vr_state_of i"
  by (simp_all add: on_conditions_def)

lemma emits_status_earned:
  "emits (\<lambda>h ev. earned e h0 s0 st h \<longrightarrow> reports_earned e h0 s0 h ev) (updateReplicationStatus e i st msg)"
  unfolding updateReplicationStatus_def api_defs Let_def
  by (intro emits_intros) (simp add: reports_earned_def)

lemma emits_status_current:
  "vr_state_of i = s0 \<Longrightarrow>
     emits (reports_earned e h0 s0) (updateReplicationStatus e i (GetCurrentReplicationState s0) msg)"
  using emits_status_earned [of e h0 s0 "GetCurrentReplicationState s0" i msg] by (simp add: earned_current)

lemma emits_reportFailure_current:
  assumes "vr_state_of i = s0"
  shows "emits (reports_earned e h0 s0) (reportFailure e i m1 m2 m3)"
  unfolding reportFailure_def setFailureCondition_def
  by (cases "vr_desired i") (auto intro!: emits_intros emits_status_current simp: assms)

lemma protect_keeps_state:
  assumes "keeps_state e"
  shows "returns (Reconcile_protect e req inst di) (\<lambda>r. \<forall>i. r = Inr i \<longrightarrow> vr_state_of i = vr_state_of inst)"
proof -
  have add: "vr_state_of i = vr_state_of inst"
    if "run_state (addFinalizerToVR e inst) w = ((i, err), w')" for i err w w'
    using that assms
    by (auto simp: addFinalizerToVR_def Update_VR_def run_defs after_update_def keeps_state_def
        vr_set_finalizers_def Let_def split: sum.splits if_splits)
  show ?thesis
    by (rule returnsI)
      (auto simp: Reconcile_protect_def dest!: add split: prod.splits option.splits if_splits)
qed

text \<open>What an operation that succeeds leaves in the trace.\<close>

lemma htriple_Promote:
  assumes "\<And>h cl q. R h (Rpc cl (RpcPromote q (r_Force r)))" "stable H" "\<And>h. H h \<Longrightarrow> extends h0 h"
  shows "htriple H (Replication_Promote e r)
    (\<lambda>res h. H h \<and> (\<forall>u. res = Inr u \<longrightarrow> since h0 (promoted e) h)) R"
  unfolding htriple_def using assms
  by (auto simp: run_Replication Let_def stable_def promoted_def split: sum.splits intro!: since_snoc)

lemma htriple_Demote:
  assumes "\<And>h cl q. R h (Rpc cl (RpcDemote q))" "stable H" "\<And>h. H h \<Longrightarrow> extends h0 h"
  shows "htriple H (Replication_Demote e r)
    (\<lambda>res h. H h \<and> (\<forall>u. res = Inr u \<longrightarrow> since h0 (demoted e) h)) R"
  unfolding htriple_def using assms
  by (auto simp: run_Replication Let_def stable_def demoted_def split: sum.splits intro!: since_snoc)

lemma htriple_Resync:
  assumes "\<And>h cl q. R h (Rpc cl (RpcResync q (r_Force r)))" "stable H" "\<And>h. H h \<Longrightarrow> extends h0 h"
  shows "htriple H (Replication_Resync e r)
    (\<lambda>res h. H h \<and> (\<forall>u. res = Inr u \<longrightarrow> since h0 (demoted e) h)) R"
  unfolding htriple_def using assms
  by (auto simp: run_Replication Let_def stable_def demoted_def split: sum.splits intro!: since_snoc)

definition same_vr :: "volume_replication \<Rightarrow> volume_replication \<Rightarrow> bool" where
  "same_vr i inst \<longleftrightarrow> vr_spec i = vr_spec inst \<and> vr_state_of i = vr_state_of inst"

lemma same_vr_simps [simp]: "same_vr i i" "same_vr (on_conditions f i) inst \<longleftrightarrow> same_vr i inst"
  by (simp_all add: same_vr_def)

lemma htriple_markVolumeAsPrimary:
  assumes "\<And>h cl q f. R h (Rpc cl (RpcPromote q f))"
  shows "htriple (extends h0) (markVolumeAsPrimary e params inst)
    (\<lambda>(i, err) h. extends h0 h \<and> same_vr i inst \<and> (err = None \<longrightarrow> since h0 (promoted e) h)) R"
proof -
  have promote: "htriple (extends h0) (Replication_Promote e r)
      (\<lambda>res h. extends h0 h \<and> (\<forall>u. res = Inr u \<longrightarrow> since h0 (promoted e) h)) R" for r
    by (rule htriple_Promote) (auto simp: assms)
  have forced: "htriple (extends h0) (do {
      resp \<leftarrow> Replication_Promote e (simple_replication params True);
      (case resp of
         Inr _ \<Rightarrow> ret (inst, None)
       | Inl err \<Rightarrow> do {
           t \<leftarrow> now e;
           ret (on_conditions (\<lambda>cs. setFailedPromotionCondition t cs (vr_generation inst) (vr_kind inst)
                  ''failed to force promote volume'' (Error err)) inst, Some err)
         })})
    (\<lambda>(i, err) h. extends h0 h \<and> same_vr i inst \<and> (err = None \<longrightarrow> since h0 (promoted e) h)) R"
    by (rule htriple_bind [OF promote]) (auto split: sum.split intro!: htriple_now_bind)
  show ?thesis
    unfolding markVolumeAsPrimary_def
    by (rule htriple_bind [OF promote])
      (auto split: sum.split intro!: htriple_now_bind htriple_weaken [OF forced])
qed

lemma htriple_markVolumeAsSecondary:
  assumes "\<And>h cl q. R h (Rpc cl (RpcDemote q))"
  shows "htriple (extends h0) (markVolumeAsSecondary e params inst)
    (\<lambda>(i, err) h. extends h0 h \<and> same_vr i inst \<and> (err = None \<longrightarrow> since h0 (demoted e) h)) R"
proof -
  have demote: "htriple (extends h0) (Replication_Demote e r)
      (\<lambda>res h. extends h0 h \<and> (\<forall>u. res = Inr u \<longrightarrow> since h0 (demoted e) h)) R" for r
    by (rule htriple_Demote) (auto simp: assms)
  show ?thesis
    unfolding markVolumeAsSecondary_def
    by (rule htriple_bind [OF demote], rule htriple_now_bind) (auto split: sum.split)
qed

lemma htriple_resyncVolume:
  assumes "\<And>h cl q f. R h (Rpc cl (RpcResync q f))"
  shows "htriple (extends h0) (resyncVolume e params force inst)
    (\<lambda>(i, rq, err) h. extends h0 h \<and> same_vr i inst \<and> (err = None \<longrightarrow> since h0 (demoted e) h)) R"
proof -
  have resync: "htriple (extends h0) (Replication_Resync e r)
      (\<lambda>res h. extends h0 h \<and> (\<forall>u. res = Inr u \<longrightarrow> since h0 (demoted e) h)) R" for r
    by (rule htriple_Resync) (auto simp: assms)
  show ?thesis
    unfolding resyncVolume_def Let_def
    by (rule htriple_bind [OF resync], rule htriple_now_bind)
      (auto split: sum.split intro!: htriple_now_bind)
qed

lemma enableReplication_same: "returns (enableReplication e params inst) (\<lambda>(i, err). same_vr i inst)"
  by (rule returnsI)
    (auto simp: enableReplication_def run_Replication now_def run_defs Let_def split: sum.splits if_splits)

lemma htriple_enableReplication:
  assumes "\<And>h cl q. R h (Rpc cl (RpcEnable q))"
  shows "htriple (extends h0) (enableReplication e params inst)
    (\<lambda>x h. extends h0 h \<and> (case x of (i, err) \<Rightarrow> same_vr i inst)) R"
  by (rule htriple_stable [OF _ _ enableReplication_same]) (auto intro!: emits_ops assms)

definition switched :: "env \<Rightarrow> event list \<Rightarrow> vr_state \<Rightarrow> outcome + replicated \<Rightarrow> event list \<Rightarrow> bool" where
  "switched e h0 s0 r h \<longleftrightarrow> extends h0 h \<and>
     (case r of Inl _ \<Rightarrow> True
      | Inr (i, err, rq) \<Rightarrow> vr_state_of i = s0 \<and>
          (err = None \<longrightarrow> earned e h0 s0 (GetReplicationState (vr_desired i)) h))"

lemma same_vr_earned:
  "same_vr i inst \<Longrightarrow> earned e h0 s0 (GetReplicationState (vr_desired i)) h =
     earned e h0 s0 (GetReplicationState (vr_desired inst)) h"
  by (simp add: same_vr_def)

lemma htriple_status_current:
  assumes "vr_state_of i = s0" "\<And>x h. extends h0 h \<Longrightarrow> K x h"
  shows "htriple (extends h0) (updateReplicationStatus e i (GetCurrentReplicationState s0) msg) K
    (reports_earned e h0 s0)"
  using htriple_ignore [OF emits_mono [OF emits_status_current [OF assms(1)]] stable_intros(2)]
  by (rule htriple_weaken) (auto intro: assms(2))

lemma htriple_promoted:
  assumes "vr_state_of inst = s0" "vr_desired inst = Primary"
  shows "htriple (\<lambda>h. extends h0 h \<and> earned e h0 s0 PrimaryState h)
    (State_Monad.bind (set_promoted e inst) (\<lambda>i. ret (Inr (i, None, False))))
    (switched e h0 s0) R"
  unfolding set_promoted_def using assms
  by (auto intro!: htriple_now_bind simp: switched_def)

lemma htriple_primary:
  assumes "vr_state_of inst = s0" "vr_desired inst = Primary"
  shows "htriple (extends h0) (Reconcile_primary e params inst) (switched e h0 s0) (reports_earned e h0 s0)"
proof (cases "s0 = PrimaryState")
  case True
  then show ?thesis
    unfolding Reconcile_primary_def using assms
    by (auto intro: htriple_weaken [OF htriple_promoted])
next
  case False
  have rpc: "reports_earned e h0 s0 h (Rpc cl r)" for h cl r
    by (simp add: reports_earned_other)
  have failed: "htriple (extends h0)
      (do { _ \<leftarrow> updateReplicationStatus e i (GetCurrentReplicationState (vr_state_of i)) m; ret (Inl out) })
      (switched e h0 s0) (reports_earned e h0 s0)" if "same_vr i inst" for i m out
    using that assms(1)
    by (intro htriple_bind [where K = "\<lambda>_. extends h0"])
      (auto simp: same_vr_def switched_def intro!: htriple_status_current)
  have marked: "htriple (extends h0) (do {
      (i, replicationErr) \<leftarrow> markVolumeAsPrimary e params i;
      (case replicationErr of
         Some er \<Rightarrow> ret (Inr (i, replicationErr, False))
       | None \<Rightarrow> do { i \<leftarrow> set_promoted e i; ret (Inr (i, None, False)) })})
      (switched e h0 s0) (reports_earned e h0 s0)" if i: "same_vr i inst" for i
  proof (rule htriple_bind, rule htriple_markVolumeAsPrimary [where R = "reports_earned e h0 s0", OF rpc])
    fix x :: "volume_replication \<times> goerr option"
    obtain j err where x: "x = (j, err)" by fastforce
    show "htriple ((\<lambda>(j, err) h. extends h0 h \<and> same_vr j i \<and> (err = None \<longrightarrow> since h0 (promoted e) h)) x)
        (case x of (i, replicationErr) \<Rightarrow> (case replicationErr of
           Some er \<Rightarrow> ret (Inr (i, replicationErr, False))
         | None \<Rightarrow> do { i \<leftarrow> set_promoted e i; ret (Inr (i, None, False)) }))
        (switched e h0 s0) (reports_earned e h0 s0)"
    proof (rule htriple_pre [where b = "vr_state_of j = s0 \<and> vr_desired j = Primary"])
      assume "vr_state_of j = s0 \<and> vr_desired j = Primary"
      then show ?thesis
        using htriple_promoted [of j s0 h0 e]
        by (auto simp: x switched_def split: option.split intro: htriple_weaken)
    qed (use i x assms in \<open>auto simp: same_vr_def\<close>)
  qed
  have "vr_state_of inst \<noteq> PrimaryState"
    using False assms(1) by simp
  then show ?thesis
    unfolding Reconcile_primary_def
    by (auto split: option.split prod.split intro!: htriple_pure failed marked rpc
        htriple_bind [OF htriple_enableReplication])
qed

lemma rpc_earned: "reports_earned e h0 s0 h (Rpc cl r)"
  by (simp add: reports_earned_other)

lemmas htriple_earned =
  htriple_markVolumeAsSecondary [where R = "reports_earned e h0 s0" for e h0 s0, OF rpc_earned]
  htriple_resyncVolume [where R = "reports_earned e h0 s0" for e h0 s0, OF rpc_earned]

lemma htriple_resync_switched:
  assumes "vr_state_of inst = s0" "vr_desired inst = Secondary \<or> vr_desired inst = Resync"
  shows "htriple (extends h0) (do {
      (i, rq, err) \<leftarrow> resyncVolume e params force inst;
      ret (Inr (i, err, rq)) }) (switched e h0 s0) (reports_earned e h0 s0)"
  by (rule htriple_bind [OF htriple_earned(2)])
    (use assms in \<open>auto simp: switched_def same_vr_def split: prod.split\<close>)

lemma htriple_secondary:
  assumes "vr_state_of inst = s0" "vr_desired inst = Secondary"
  shows "htriple (extends h0) (Reconcile_secondary e params inst) (switched e h0 s0) (reports_earned e h0 s0)"
proof -
  have first: "htriple (\<lambda>h. extends h0 h \<and> same_vr i inst \<and> since h0 (demoted e) h) (do {
      (i, err) \<leftarrow> updateReplicationStatus e i (GetReplicationState (vr_desired i)) m;
      ret (Inl (f err)) }) (switched e h0 s0) (reports_earned e h0 s0)" for i m and f :: "goerr option \<Rightarrow> outcome"
  proof (rule htriple_pre [where b = "vr_desired i = Secondary"])
    assume "vr_desired i = Secondary"
    moreover have "emits (\<lambda>h ev. (extends h0 h \<and> same_vr i inst \<and> since h0 (demoted e) h) \<longrightarrow>
        reports_earned e h0 s0 h ev) (updateReplicationStatus e i SecondaryState m)"
      by (rule emits_mono [OF emits_status_earned]) auto
    ultimately show ?thesis
      by (auto simp: switched_def stable_def extends_append since_append split: prod.split
          intro!: htriple_bind [OF htriple_ignore])
  qed (use assms in \<open>auto simp: same_vr_def\<close>)
  have again: "htriple (\<lambda>h. extends h0 h \<and> same_vr i inst \<and> since h0 (demoted e) h) (do {
      (i, rq, err) \<leftarrow> resyncVolume e params (vrs_autoResync (vr_spec i)) i;
      ret (Inr (i, err, rq)) }) (switched e h0 s0) (reports_earned e h0 s0)" for i
    by (rule htriple_pre [where b = "same_vr i inst"])
      (use assms in \<open>auto simp: same_vr_def intro!: htriple_weaken [OF htriple_resync_switched]\<close>)
  have same: "\<And>i. same_vr i inst \<Longrightarrow> vr_state_of i = s0"
    using assms(1) by (simp add: same_vr_def)
  show ?thesis
    unfolding Reconcile_secondary_def
    by (auto intro!: htriple_bind [OF htriple_earned(1)] first again
        simp: switched_def dest: same split: prod.split option.split)
qed

lemma htriple_switch:
  assumes "vr_state_of inst = s0"
  shows "htriple (extends h0) (Reconcile_switch e params inst) (switched e h0 s0) (reports_earned e h0 s0)"
proof (cases "vr_desired inst")
  case (OtherReplicationState x)
  have "htriple (extends h0) (reportFailure e inst m1 m2 m3) (\<lambda>_. extends h0) (reports_earned e h0 s0)"
    for m1 m2 m3
    by (rule htriple_ignore)
      (auto intro: emits_mono [OF emits_reportFailure_current [OF assms]])
  then show ?thesis
    using OtherReplicationState
    by (auto simp: Reconcile_switch_def switched_def intro!: htriple_bind [where K = "\<lambda>_. extends h0"])
qed (use assms in \<open>auto simp: Reconcile_switch_def htriple_primary htriple_secondary htriple_resync_switched\<close>)

lemma vr_status_simps [simp]:
  "vr_spec (apply_info info i) = vr_spec i" "vr_state_of (apply_info info i) = vr_state_of i"
  "vr_spec (clear_secondary i) = vr_spec i"
  by (auto simp: apply_info_def clear_secondary_def split: option.split)

lemma info_same:
  "returns (Reconcile_info e params inst) (\<lambda>r. \<forall>i rq. r = Inr (i, rq) \<longrightarrow> vr_spec i = vr_spec inst)"
  by (rule returnsI)
    (auto simp: Reconcile_info_def setReplicationCondition_def getVolumeReplicationInfo_def run_Replication
      now_def run_defs Let_def split: sum.splits option.splits if_splits prod.splits info_status.splits)

lemma emits_set_bind:
  assumes "\<And>i. vr_spec i = vr_spec inst \<Longrightarrow> emits R (f i)"
  shows "emits R (State_Monad.bind (setReplicationCondition e inst d m st) f)"
  unfolding setReplicationCondition_def using assms
  by (cases st) (auto intro!: emits_bind [OF emits_now])

lemma emits_Reconcile_info:
  assumes "\<And>i m. vr_spec i = vr_spec inst \<Longrightarrow>
      emits R (updateReplicationStatus e i (GetReplicationState (vr_desired i)) m)"
    and "\<And>h cl q. R h (Rpc cl (RpcGetInfo q))"
  shows "emits R (Reconcile_info e params inst)"
proof -
  have "emits R (getVolumeReplicationInfo e params)"
    by (intro emits_ops assms(2))
  then have getinfo: "emits R (State_Monad.bind (getVolumeReplicationInfo e params) f)" if "\<And>x. emits R (f x)"
    for f :: "goerr + info_response option \<Rightarrow> (outcome + volume_replication \<times> bool) prog"
    using that by (rule emits_bind)
  show ?thesis
    unfolding Reconcile_info_def
    by (auto split: sum.split option.split prod.split
        intro!: getinfo emits_set_bind emits_bind [OF assms(1)] emits_ret)
qed

lemma emits_info_earned:
  "emits (\<lambda>h ev. earned e h0 s0 (GetReplicationState (vr_desired inst)) h \<longrightarrow> reports_earned e h0 s0 h ev)
     (Reconcile_info e params inst)"
  by (rule emits_Reconcile_info) (auto simp: rpc_earned intro: emits_mono [OF emits_status_earned])

lemma htriple_report:
  assumes "vr_state_of i = s0"
  shows "htriple (\<lambda>h. extends h0 h \<and> (err = None \<longrightarrow> earned e h0 s0 (GetReplicationState (vr_desired i)) h))
    (Reconcile_report e params (i, err, rq)) (\<lambda>_ _. True) (reports_earned e h0 s0)"
proof (cases err)
  case (Some er)
  have "emits (reports_earned e h0 s0) (Reconcile_report e params (i, Some er, rq))"
    unfolding Reconcile_report_def prod.case option.case
    by (intro emits_intros) (simp add: assms emits_status_current)
  with Some show ?thesis by (simp add: htriple_true)
next
  case None
  let ?K = "earned e h0 s0 (GetReplicationState (vr_desired i))"
  have final: "htriple (\<lambda>h. ?K h \<and> vr_spec j = vr_spec i) (do {
      (k, er) \<leftarrow> updateReplicationStatus e (clear_secondary j) (GetReplicationState (vr_desired j)) m;
      ret (f er) }) (\<lambda>_ _. True) (reports_earned e h0 s0)" for j m and f :: "goerr option \<Rightarrow> outcome"
  proof (rule htriple_pure)
    assume "vr_spec j = vr_spec i"
    then have "emits (\<lambda>h ev. ?K h \<longrightarrow> reports_earned e h0 s0 h ev)
        (updateReplicationStatus e (clear_secondary j) (GetReplicationState (vr_desired j)) m)"
      using emits_status_earned by simp
    then show "htriple ?K (do {
        (k, er) \<leftarrow> updateReplicationStatus e (clear_secondary j) (GetReplicationState (vr_desired j)) m;
        ret (f er) }) (\<lambda>_ _. True) (reports_earned e h0 s0)"
      by (auto intro!: htriple_bind [OF htriple_ignore] split: prod.split)
  qed
  have info: "htriple ?K (Reconcile_info e params j)
      (\<lambda>r h. ?K h \<and> (\<forall>x rq. r = Inr (x, rq) \<longrightarrow> vr_spec x = vr_spec i)) (reports_earned e h0 s0)"
    if "vr_spec j = vr_spec i" for j
    using that emits_info_earned [of e h0 s0 j params] info_same [of e params j]
    by (intro htriple_stable) auto
  have resync: "htriple ?K (do { _ \<leftarrow> updateReplicationStatus e j (GetCurrentReplicationState s0) m;
      ret out }) (\<lambda>_ _. True) (reports_earned e h0 s0)" if "vr_state_of j = s0" for j m and out :: outcome
    using that by (intro htriple_true emits_intros) (simp add: emits_status_current)
  have "htriple ?K (Reconcile_report e params (i, None, rq)) (\<lambda>_ _. True) (reports_earned e h0 s0)"
    unfolding Reconcile_report_def Let_def prod.case option.case
    by (auto simp: assms intro!: resync htriple_now_bind htriple_bind [OF info] htriple_weaken [OF final]
        split: sum.split prod.split)
  with None show ?thesis by (auto intro: htriple_weaken)
qed

lemma htriple_replicate:
  assumes "keeps_state e" "vr_state_of inst = s0"
  shows "htriple (extends h0) (Reconcile_replicate e params inst) (\<lambda>_ _. True) (reports_earned e h0 s0)"
proof -
  have update: "htriple (extends h0) (Update_VR e x)
      (\<lambda>u h. extends h0 h \<and> (\<forall>i. u = Inr i \<longrightarrow> vr_state_of i = s0)) (reports_earned e h0 s0)"
    if "vr_state_of x = s0" for x
    unfolding Update_VR_def using that assms(1)
    by (auto intro!: htriple_call simp: reports_earned_other extends_append keeps_state_def)
  have report: "htriple (switched e h0 s0 r) (case r of Inl out \<Rightarrow> ret out | Inr rep \<Rightarrow> Reconcile_report e params rep)
      (\<lambda>_ _. True) (reports_earned e h0 s0)" for r
  proof (cases r)
    case (Inr rep)
    obtain i err rq where rep: "rep = (i, err, rq)" by (cases rep) auto
    show ?thesis
      by (rule htriple_pre [where b = "vr_state_of i = s0"])
        (auto simp: Inr rep switched_def intro: htriple_weaken [OF htriple_report])
  qed simp
  have continue: "htriple (\<lambda>h. extends h0 h \<and> (\<forall>i. u = Inr i \<longrightarrow> vr_state_of i = s0))
      (case u of Inl err \<Rightarrow> ret (done_err err)
       | Inr inst \<Rightarrow> do { r \<leftarrow> Reconcile_switch e params inst;
           (case r of Inl out \<Rightarrow> ret out | Inr rep \<Rightarrow> Reconcile_report e params rep) })
      (\<lambda>_ _. True) (reports_earned e h0 s0)" for u
    by (rule htriple_sum) (simp, erule htriple_bind [OF htriple_switch report])
  show ?thesis
    unfolding Reconcile_replicate_def
    by (rule htriple_now_bind, rule htriple_bind [OF update continue]) (simp add: assms(2))
qed

lemma htriple_dispatch:
  assumes "keeps_state e" "vr_state_of inst = s0"
  shows "htriple (extends h0) (Reconcile_dispatch e req inst vrc di) (\<lambda>_ _. True) (reports_earned e h0 s0)"
proof -
  have client: "htriple (extends h0) (getReplicationClient e d k) (\<lambda>_. extends h0) (reports_earned e h0 s0)" for d k
    by (rule htriple_ignore) (auto intro!: emits_getReplicationClient reports_earned_other)
  have "returns (Reconcile_protect e req inst di) (\<lambda>r. \<forall>i. r = Inr i \<longrightarrow> vr_state_of i = s0)"
    using protect_keeps_state [OF assms(1), of req inst di] assms(2) by simp
  moreover have "emits (reports_earned e h0 s0) (Reconcile_protect e req inst di)"
    unfolding Reconcile_protect_def annotatePVCWithOwner_def annotateVolumeGroupReplicationWithOwner_def api_defs
    by (intro emits_intros vr_fin.emits_add pvc_fin.emits_add vgrc_fin.emits_add)
      (auto intro: reports_earned_other)
  ultimately have protect: "htriple (extends h0) (Reconcile_protect e req inst di)
      (\<lambda>r h. extends h0 h \<and> (\<forall>i. r = Inr i \<longrightarrow> vr_state_of i = s0)) (reports_earned e h0 s0)"
    by (intro htriple_stable) (auto intro: emits_mono)
  have replicate: "htriple (\<lambda>h. extends h0 h \<and> (\<forall>i. r = Inr i \<longrightarrow> vr_state_of i = s0))
      (case r of Inl out \<Rightarrow> ret out | Inr inst \<Rightarrow> Reconcile_replicate e params inst)
      (\<lambda>_ _. True) (reports_earned e h0 s0)" for r params
    by (rule htriple_sum) (auto intro: htriple_replicate [OF assms(1)])
  have "emits (reports_earned e h0 s0) (Reconcile_delete e inst params di)" for params
    unfolding Reconcile_delete_def Reconcile_release_def removeOwnerFromPVCAnnotation_def
      removeOwnerFromVGRAnnotation_def api_defs
    by (intro emits_intros emits_ops vr_fin.emits_rem pvc_fin.emits_rem vgrc_fin.emits_rem)
      (auto intro: reports_earned_other)
  then show ?thesis
    unfolding Reconcile_dispatch_def
    by (intro htriple_bind [OF client])
      (auto simp: Let_def split: gores.split intro!: htriple_bind [OF protect replicate] htriple_true)
qed

lemma htriple_VR_Reconcile_earned:
  assumes "keeps_state e" "e_getVR e h0 req = Inr inst" "vr_state_of inst = s0"
  shows "htriple (\<lambda>h. h = h0) (VR_Reconcile e req) (\<lambda>_ _. True) (reports_earned e h0 s0)"
proof -
  have cls: "htriple (extends h0) (getVolumeReplicationClass e n) (\<lambda>_. extends h0) (reports_earned e h0 s0)" for n
    by (rule htriple_ignore) (auto intro!: emits_quiet_gets reports_earned_other)
  have fail: "htriple (extends h0) (do { reportFailure e inst m1 m2 m3; ret out }) (\<lambda>_ _. True)
      (reports_earned e h0 s0)" for m1 m2 m3 out
    by (intro htriple_true emits_intros emits_reportFailure_current assms(3))
  have source: "htriple (extends h0) (Reconcile_dataSource e req inst) (\<lambda>_. extends h0) (reports_earned e h0 s0)"
    by (rule htriple_ignore)
      (auto intro!: emits_Reconcile_dataSource reports_earned_other
        intro: emits_mono [OF emits_reportFailure_current [OF assms(3)]])
  show ?thesis
    unfolding VR_Reconcile_def Get_VR_def
    by (rule htriple_first_call [where R = "reports_earned e h0 s0"])
      (auto simp: assms(2) reports_earned_other split: sum.split option.split
        intro!: htriple_bind [OF cls] fail htriple_bind [OF source] htriple_dispatch [OF assms(1,3)])
qed

section \<open>A volume that is primary already\<close>

text \<open>An update of the resource returns the specification and the state it was sent.\<close>

definition keeps_vr :: "env \<Rightarrow> bool" where
  "keeps_vr e \<longleftrightarrow> (\<forall>h x y. e_updateVR e h x = Inr y \<longrightarrow> same_vr y x)"

lemma protect_same:
  assumes "keeps_vr e"
  shows "returns (Reconcile_protect e req inst di) (\<lambda>r. \<forall>i. r = Inr i \<longrightarrow> same_vr i inst)"
proof -
  have add: "same_vr i inst" if "run_state (addFinalizerToVR e inst) w = ((i, err), w')" for i err w w'
    using that assms
    by (auto simp: addFinalizerToVR_def Update_VR_def run_defs after_update_def keeps_vr_def same_vr_def
        vr_set_finalizers_def Let_def split: sum.splits if_splits)
  show ?thesis
    by (rule returnsI)
      (auto simp: Reconcile_protect_def dest!: add split: prod.splits option.splits if_splits)
qed

fun steady_call :: "event \<Rightarrow> bool" where
  "steady_call (Rpc cl r) \<longleftrightarrow> r = RpcGetCapabilities \<or> (\<exists>q. r = RpcGetInfo q)"
| "steady_call ev = True"

lemma steady_other: "\<not> repl_rpc ev \<Longrightarrow> steady_call ev"
  by (cases ev) auto

lemma emits_steady_primary:
  assumes "vr_state_of inst = PrimaryState" "vr_desired inst = Primary"
  shows "emits (\<lambda>_. steady_call) (Reconcile_switch e params inst)"
  using assms unfolding Reconcile_switch_def Reconcile_primary_def set_promoted_def
  by (auto intro!: emits_intros)

lemma emits_steady_report: "emits (\<lambda>_. steady_call) (Reconcile_report e params rep)"
  unfolding Reconcile_report_def
  by (intro emits_intros emits_writes emits_Reconcile_info) (auto simp: steady_other)

lemma htriple_steady_replicate:
  assumes "keeps_vr e" "vr_state_of inst = PrimaryState" "vr_desired inst = Primary"
  shows "htriple (\<lambda>_. True) (Reconcile_replicate e params inst) (\<lambda>_ _. True) (\<lambda>_. steady_call)"
proof -
  let ?V = "\<lambda>i. vr_state_of i = PrimaryState \<and> vr_desired i = Primary"
  have update: "htriple (\<lambda>_. True) (Update_VR e x)
      (\<lambda>u h. True \<and> (\<forall>i. u = Inr i \<longrightarrow> ?V i)) (\<lambda>_. steady_call)" if "?V x" for x
    unfolding Update_VR_def using that assms(1)
    by (auto intro!: htriple_call simp: keeps_vr_def same_vr_def)
  have switch: "htriple (\<lambda>_. True) (do { r \<leftarrow> Reconcile_switch e params i;
      (case r of Inl out \<Rightarrow> ret out | Inr rep \<Rightarrow> Reconcile_report e params rep) })
      (\<lambda>_ _. True) (\<lambda>_. steady_call)" if "?V i" for i
    using that by (intro htriple_true emits_intros emits_steady_primary emits_steady_report) auto
  show ?thesis
    unfolding Reconcile_replicate_def
    by (rule htriple_now_bind, rule htriple_bind [OF update htriple_sum])
      (simp_all add: assms(2,3) switch)
qed

lemma htriple_steady:
  assumes "keeps_vr e" "e_getVR e h0 req = Inr inst" "om_deletionTimestamp (vr_meta inst) = None"
    and "vr_state_of inst = PrimaryState" "vr_desired inst = Primary"
  shows "htriple (\<lambda>h. h = h0) (VR_Reconcile e req) (\<lambda>_ _. True) (\<lambda>_. steady_call)"
proof -
  let ?S = "\<lambda>_. steady_call" and ?T = "\<lambda>_ :: event list. True"
  have quiet: "emits ?S m \<Longrightarrow> htriple H m (\<lambda>_. ?T) ?S" for H and m :: "'b prog"
    by (rule htriple_true)
  have protect: "htriple ?T (Reconcile_protect e req inst di)
      (\<lambda>r h. True \<and> (\<forall>i. r = Inr i \<longrightarrow> same_vr i inst)) ?S" for di
    by (rule htriple_stable [OF _ _ protect_same [OF assms(1)]])
      (auto intro!: emits_Reconcile_protect steady_other)
  have "htriple ?T (do { r \<leftarrow> Reconcile_protect e req inst di;
      (case r of Inl out \<Rightarrow> ret out | Inr i \<Rightarrow> Reconcile_replicate e params i) }) (\<lambda>_. ?T) ?S" for di params
    by (rule htriple_bind [OF protect htriple_sum])
      (use assms(4,5) in \<open>auto simp: same_vr_def intro: htriple_steady_replicate [OF assms(1)]\<close>)
  then have dispatch: "htriple ?T (Reconcile_dispatch e req inst vrc di) (\<lambda>_. ?T) ?S" for vrc di
    unfolding Reconcile_dispatch_def
    by (intro htriple_bind [OF quiet [OF emits_getReplicationClient]])
      (auto simp: Let_def assms(3) quiet_not_repl steady_other split: gores.split)
  have fail: "htriple ?T (do { reportFailure e inst m1 m2 m3; ret out }) (\<lambda>_. ?T) ?S" for m1 m2 m3 out
    by (intro quiet emits_intros emits_writes steady_other)
  show ?thesis
    unfolding VR_Reconcile_def Get_VR_def
    by (rule htriple_first_call [where R = ?S], simp)
      (auto simp: assms(2) quiet_not_repl steady_other split: sum.split option.split
        intro!: htriple_bind [OF quiet [OF emits_quiet_gets(3)]] fail dispatch emits_writes
          htriple_bind [OF quiet [OF emits_Reconcile_dataSource]] intro: htriple_weaken)
qed

section \<open>Panics\<close>

definition no_panic :: "outcome \<Rightarrow> bool" where
  "no_panic out \<longleftrightarrow> (\<exists>r err. out = Returned r err)"

lemma no_panic_simps [simp]: "no_panic (Returned r err)" "\<not> no_panic (Panicked m)"
  by (simp_all add: no_panic_def)

lemma requeue_no_panic [simp]: "no_panic (requeue_after d)"
  by (simp add: requeue_after_def)

definition calm :: "(outcome + 'a) \<Rightarrow> bool" where
  "calm r \<longleftrightarrow> (\<forall>out. r = Inl out \<longrightarrow> no_panic out)"

lemma calm_simps [simp]: "calm (Inl out) \<longleftrightarrow> no_panic out" "calm (Inr x)"
  by (simp_all add: calm_def)

lemma returns_if: "(b \<Longrightarrow> returns m V) \<Longrightarrow> (\<not> b \<Longrightarrow> returns n V) \<Longrightarrow> returns (if b then m else n) V"
  by simp

lemma returns_sum:
  "(\<And>x. s = Inl x \<Longrightarrow> returns (f x) V) \<Longrightarrow> (\<And>y. s = Inr y \<Longrightarrow> returns (g y) V) \<Longrightarrow>
     returns (case s of Inl x \<Rightarrow> f x | Inr y \<Rightarrow> g y) V"
  by (cases s) auto

lemma returns_option:
  "(s = None \<Longrightarrow> returns m V) \<Longrightarrow> (\<And>y. s = Some y \<Longrightarrow> returns (g y) V) \<Longrightarrow>
     returns (case s of None \<Rightarrow> m | Some y \<Rightarrow> g y) V"
  by (cases s) auto

lemma returns_prod: "(\<And>x y. p = (x, y) \<Longrightarrow> returns (f x y) V) \<Longrightarrow> returns (case p of (x, y) \<Rightarrow> f x y) V"
  by (cases p) auto

lemmas returns_rules = returns_any returns_if returns_sum returns_option returns_prod

lemma switch_calm: "returns (Reconcile_switch e params inst) calm"
  unfolding Reconcile_switch_def Reconcile_primary_def Reconcile_secondary_def set_promoted_def
  by (cases "vr_desired inst") (auto intro!: returns_rules returns_ret split: option.split)

lemma info_calm: "returns (Reconcile_info e params inst) calm"
  unfolding Reconcile_info_def by (auto intro!: returns_rules returns_ret split: option.split)

lemma report_calm: "returns (Reconcile_report e params rep) no_panic"
  unfolding Reconcile_report_def Let_def
  by (auto intro!: returns_rules returns_ret returns_bind [OF info_calm] split: option.split prod.split sum.split)

lemma replicate_no_panic: "returns (Reconcile_replicate e params inst) no_panic"
  unfolding Reconcile_replicate_def
  by (auto intro!: returns_any report_calm returns_ret returns_bind [OF switch_calm] split: sum.split)

lemma dataSource_calm:
  assumes "\<And>h nn v. e_getPV e h nn = Inr v \<Longrightarrow> pv_csi v \<noteq> None"
  shows "returns (Reconcile_dataSource e req inst) (\<lambda>r. calm r \<and> (\<forall>di. r = Inr di \<longrightarrow>
     (vr_kind inst = pvcDataSource \<longrightarrow> di_pvc di \<noteq> None) \<and>
     (vr_kind inst = volumeGroupReplicationDataSource \<longrightarrow> om_deletionTimestamp (vr_meta inst) = None \<longrightarrow>
        di_vgr di \<noteq> None \<and> di_vgrc di \<noteq> None)))"
  using assms
  by (intro returnsI)
    (fastforce simp: Reconcile_dataSource_def getPVCDataSource_def getVolumeGroupReplicationDataSource_def
      api_defs run_defs no_data_def Let_def split: sum.splits option.splits if_splits prod.splits)

lemma protect_calm:
  assumes "keeps_vr e" "vr_kind inst = pvcDataSource \<Longrightarrow> di_pvc di \<noteq> None"
    and "vr_kind inst = volumeGroupReplicationDataSource \<Longrightarrow> di_vgr di \<noteq> None \<and> di_vgrc di \<noteq> None"
  shows "returns (Reconcile_protect e req inst di) calm"
proof -
  have add: "returns (addFinalizerToVR e inst) (\<lambda>(i, err). vr_kind i = vr_kind inst)"
    using assms(1)
    by (intro returnsI)
      (auto simp: addFinalizerToVR_def Update_VR_def run_defs after_update_def keeps_vr_def same_vr_def
        vr_set_finalizers_def Let_def split: sum.splits if_splits)
  show ?thesis
    unfolding Reconcile_protect_def
    by (rule returns_bind [OF add])
      (use assms(2,3) in \<open>auto intro!: returns_rules returns_ret split: option.split\<close>)
qed

lemma delete_no_panic:
  assumes "vr_kind inst = pvcDataSource \<Longrightarrow> di_pvc di \<noteq> None"
    and "vr_kind inst = volumeGroupReplicationDataSource \<Longrightarrow> di_vgr di \<noteq> None"
  shows "returns (Reconcile_delete e inst params di) no_panic"
proof -
  have rel: "returns (Reconcile_release e (vr_kind inst) di) calm"
    unfolding Reconcile_release_def using assms
    by (auto intro!: returns_rules returns_ret split: option.split)
  have release: "returns (do { r \<leftarrow> Reconcile_release e (vr_kind inst) di;
      (case r of Inl out \<Rightarrow> ret out | Inr x \<Rightarrow> f x) }) no_panic"
    if "\<And>x. returns (f x) no_panic" for f
    by (rule returns_bind [OF rel]) (auto intro!: returns_ret that split: sum.split)
  show ?thesis
    unfolding Reconcile_delete_def
    by (intro returns_if returns_ret returns_any returns_option release)
      (auto intro!: returns_any returns_ret split: option.split)
qed

lemma client_no_panic:
  assumes "d \<noteq> []"
  shows "returns (getReplicationClient e d k) (\<lambda>c. \<forall>m. c \<noteq> GoPanic m)"
proof -
  have "NormalizeLeaseName d \<noteq> None"
    using assms by (simp add: NormalizeLeaseName_None)
  then have "returns (GetLeaderByDriver e d) (\<lambda>c. \<forall>m. c \<noteq> GoPanic m)"
    unfolding GetLeaderByDriver_def Let_def
    by (auto intro!: returns_any returns_sum returns_if returns_option returns_prod returns_ret
        split: option.split)
  then show ?thesis
    unfolding getReplicationClient_def
    by (rule returns_bind) (auto intro!: returns_ret split: gores.split)
qed

lemma dispatch_no_panic:
  assumes "keeps_vr e" "rc_provisioner vrc \<noteq> []"
    and "vr_kind inst = pvcDataSource \<Longrightarrow> di_pvc di \<noteq> None"
    and "vr_kind inst = volumeGroupReplicationDataSource \<Longrightarrow>
      om_deletionTimestamp (vr_meta inst) = None \<and> di_vgr di \<noteq> None \<and> di_vgrc di \<noteq> None"
  shows "returns (Reconcile_dispatch e req inst vrc di) no_panic"
proof -
  have protect: "returns (Reconcile_protect e req inst di) calm"
    using assms by (intro protect_calm) auto
  have delete: "returns (Reconcile_delete e inst params di) no_panic" for params
    using assms by (intro delete_no_panic) auto
  show ?thesis
    unfolding Reconcile_dispatch_def
    by (rule returns_bind [OF client_no_panic [OF assms(2)]])
      (auto simp: Let_def intro!: returns_bind [OF protect] replicate_no_panic delete returns_ret
        split: gores.split sum.split)
qed

lemma VR_no_panic:
  assumes "keeps_vr e" "\<And>h nn v. e_getPV e h nn = Inr v \<Longrightarrow> pv_csi v \<noteq> None"
    and "\<And>h nn c. e_getVRClass e h nn = Inr c \<Longrightarrow> rc_provisioner c \<noteq> []"
    and "\<And>h nn i. e_getVR e h nn = Inr i \<Longrightarrow>
      om_deletionTimestamp (vr_meta i) = None \<or> vr_kind i \<noteq> volumeGroupReplicationDataSource"
  shows "returns (VR_Reconcile e req) no_panic"
proof -
  have get: "returns (Get_VR e req) (\<lambda>r. \<forall>i. r = Inr i \<longrightarrow>
      om_deletionTimestamp (vr_meta i) = None \<or> vr_kind i \<noteq> volumeGroupReplicationDataSource)"
    using assms(4) by (intro returnsI) (fastforce simp: Get_VR_def run_defs)
  have cls: "returns (getVolumeReplicationClass e n) (\<lambda>r. \<forall>c. r = Inr c \<longrightarrow> rc_provisioner c \<noteq> [])" for n
    using assms(3) by (intro returnsI) (auto simp: getVolumeReplicationClass_def Get_VRClass_def run_defs)
  have fail: "returns (do { reportFailure e i m1 m2 m3; ret (done_err err) }) no_panic" for i m1 m2 m3 err
    by (intro returns_any returns_ret) simp
  have source: "returns (do { r \<leftarrow> Reconcile_dataSource e req i;
      (case r of Inl out \<Rightarrow> ret out | Inr di \<Rightarrow> Reconcile_dispatch e req i vrc di) }) no_panic"
    if "om_deletionTimestamp (vr_meta i) = None \<or> vr_kind i \<noteq> volumeGroupReplicationDataSource"
      "rc_provisioner vrc \<noteq> []" for i vrc
    by (rule returns_bind [OF dataSource_calm [OF assms(2)]])
      (use that in \<open>auto intro!: returns_ret dispatch_no_panic [OF assms(1)] split: sum.split\<close>)
  have rest: "returns (do { r \<leftarrow> getVolumeReplicationClass e (vrs_volumeReplicationClass (vr_spec i));
      (case r of
         Inl err \<Rightarrow> do { reportFailure e i m1 (Error err) m2; ret (done_err err) }
       | Inr vrc \<Rightarrow>
           (case validatePrefixedParameters (rc_parameters vrc) of
              Some err \<Rightarrow> do { reportFailure e i m3 (Error err) m4; ret (done_err err) }
            | None \<Rightarrow> do { r \<leftarrow> Reconcile_dataSource e req i;
                (case r of Inl out \<Rightarrow> ret out | Inr di \<Rightarrow> Reconcile_dispatch e req i vrc di) })) }) no_panic"
    if "om_deletionTimestamp (vr_meta i) = None \<or> vr_kind i \<noteq> volumeGroupReplicationDataSource"
    for i m1 m2 m3 m4
    by (rule returns_bind [OF cls]) (auto intro!: fail source [OF that] split: sum.split option.split)
  show ?thesis
    unfolding VR_Reconcile_def
    by (rule returns_bind [OF get]) (auto intro!: rest returns_ret split: sum.split)
qed

end
