(* ===== verification/Examples.thy ===== *)
theory Examples
  imports VR_Facts
begin

text \<open>
  A small cluster on which the properties are applied: one volume that is to become primary, its
  claim, volume, class and lease, and one sidecar connection in the pool. The sidecar refuses a
  promotion without force and accepts it with force; the API server stores what it is sent.
\<close>

definition ex_meta :: "string \<Rightarrow> object_meta" where
  "ex_meta n = (empty_meta n ''ns'')\<lparr>om_generation := 1\<rparr>"

definition ex_vr :: volume_replication where
  "ex_vr = \<lparr>vr_meta = (ex_meta ''vr'')\<lparr>om_finalizers := [volumeReplicationFinalizer]\<rparr>,
     vr_spec = \<lparr>vrs_volumeReplicationClass = ''class'', vrs_replicationState = Primary,
       vrs_dataSource = \<lparr>ds_kind = pvcDataSource, ds_name = ''claim''\<rparr>, vrs_autoResync = False,
       vrs_replicationHandle = []\<rparr>,
     vr_status = \<lparr>vst_state = NoState, vst_message = [], vst_conditions = [], vst_observedGeneration = 0,
       vst_lastStartTime = None, vst_lastCompletionTime = None, vst_lastSyncTime = None,
       vst_lastSyncBytes = None, vst_lastSyncDuration = None\<rparr>\<rparr>"

definition ex_conn :: connection where
  "ex_conn = \<lparr>cn_Client = Some 1, cn_Capabilities = [CapVolumeReplication VOLUME_REPLICATION],
     cn_Namespace = ''dns'', cn_Name = ''node'', cn_NodeID = ''n1'', cn_DriverName = ''drv'',
     cn_Timeout = minute, cn_enableAuth = False, cn_endpoint = ''ep'', cn_podName = ''node''\<rparr>"

definition ex_world :: world where
  "ex_world = \<lparr>trace = [], pool = [(''dns/pod'', ex_conn)]\<rparr>"

definition ex_env :: env where
  "ex_env = env0\<lparr>
     e_getVR := (\<lambda>_ _. Inr ex_vr),
     e_getVRClass := (\<lambda>_ _. Inr \<lparr>rc_name = ''class'', rc_provisioner = ''drv'', rc_parameters = []\<rparr>),
     e_getPVC := (\<lambda>_ _. Inr \<lparr>pvc_meta = (ex_meta ''claim'')\<lparr>om_finalizers := [pvcReplicationFinalizer],
         om_annotations := [(VolumeReplicationNameAnnotation, ''vr'')]\<rparr>,
       pvc_volumeName = ''pv'', pvc_storageClassName = None, pvc_phase = ClaimBound\<rparr>),
     e_getPV := (\<lambda>_ _. Inr \<lparr>pv_name = ''pv'', pv_csi = Some \<lparr>csi_driver = ''drv'', csi_volumeHandle = ''vol''\<rparr>\<rparr>),
     e_getLease := (\<lambda>_ _. Inr \<lparr>ls_namespace = ''dns'', ls_holderIdentity = Some ''pod''\<rparr>),
     e_updateVR := (\<lambda>_ x. Inr x), e_statusVR := (\<lambda>_ x. Inr x), e_updatePVC := (\<lambda>_ x. Inr x),
     e_isShutdown := (\<lambda>_ _. False),
     e_rpcEnable := (\<lambda>_ _ _. Inr ()),
     e_rpcDisable := (\<lambda>_ _ _. Inr ()),
     e_rpcPromote := (\<lambda>_ _ (q, force). if force then Inr () else Inl (GrpcStatus C_FailedPrecondition ''x'')),
     e_rpcGetInfo := (\<lambda>_ _ _. Inl (GrpcStatus C_Unimplemented ''x''))\<rparr>"

definition ex_req :: nsname where
  "ex_req = \<lparr>nn_namespace = ''ns'', nn_name = ''vr''\<rparr>"
definition ex_deleting :: volume_replication where
  "ex_deleting = ex_vr\<lparr>vr_meta := (vr_meta ex_vr)\<lparr>om_deletionTimestamp := Some 1\<rparr>\<rparr>"

definition ex_env_deleting :: env where
  "ex_env_deleting = ex_env\<lparr>e_getVR := (\<lambda>_ _. Inr ex_deleting)\<rparr>"

definition ex_primary :: volume_replication where
  "ex_primary = ex_vr\<lparr>vr_status := (vr_status ex_vr)\<lparr>vst_state := PrimaryState\<rparr>\<rparr>"

definition ex_env_primary :: env where
  "ex_env_primary = ex_env\<lparr>e_getVR := (\<lambda>_ _. Inr ex_primary)\<rparr>"

lemma ex_keeps: "keeps_state ex_env" "keeps_vr ex_env" "keeps_vr ex_env_primary" "keeps_vr ex_env_deleting"
  by (simp_all add: keeps_state_def keeps_vr_def ex_env_def ex_env_primary_def ex_env_deleting_def)

end
