(* ===== verification/Props_Replication.thy ===== *)
theory Props_Replication
  imports Examples
begin

text \<open>
  What the VolumeReplication controller guarantees of a run of \<open>Reconcile\<close>, whatever the API
  server and the sidecar answer: when a promotion is forced, what a reported state stands for,
  what a deletion does and in which order, that a primary volume is left alone, and when the
  handler can panic.
\<close>

section \<open>Promotion and the reported state\<close>

text \<open>C1: a promotion with force is only ever sent right after the same promotion without force,
  which the sidecar refused with FailedPrecondition.\<close>

theorem VR_force_promote:
  assumes "run_state (VR_Reconcile e req) w = (out, w')"
    and "appended w w' i (Rpc cl (RpcPromote q True))"
  shows "0 < i \<and> trace w' ! (i - 1) = Rpc cl (RpcPromote q False) \<and>
    (\<exists>err. e_rpcPromote e (take (i - 1) (trace w')) cl (q, False) = Inl err \<and>
       grpc_code_of err = Some C_FailedPrecondition)"
proof -
  have i: "i < length (trace w')"
    using assms(2) by (simp add: appended_def)
  have "refused_before e (take i (trace w')) (Rpc cl (RpcPromote q True))"
    using emits_appended [OF forced.emits_VR_Reconcile assms] .
  then obtain h err where h: "take i (trace w') = h @ [Rpc cl (RpcPromote q False)]"
      "e_rpcPromote e h cl (q, False) = Inl err" "grpc_code_of err = Some C_FailedPrecondition"
    by (auto simp: refused_before_def)
  then have len: "i = Suc (length h)"
    using i by (metis length_append_singleton length_take min.absorb4)
  with h(1) have "trace w' ! (i - 1) = Rpc cl (RpcPromote q False)" "take (i - 1) (trace w') = h"
    by (metis diff_Suc_1 lessI nth_append_length nth_take)
      (metis append_eq_conv_conj diff_Suc_1 h(1) len lessI less_or_eq_imp_le min.absorb1 take_take)
  with h len show ?thesis by simp
qed

definition ex_q :: repl_req where
  "ex_q = mk_req (VolumeSource ''vol'') [] [] [] []"

definition ex_end :: world where
  "ex_end = snd (run_state (VR_Reconcile ex_env ex_req) ex_world)"

theorem VR_force_promote_witness:
  "appended ex_world ex_end 9 (Rpc (Some 1) (RpcPromote ex_q True)) \<and>
   trace ex_end ! 8 = Rpc (Some 1) (RpcPromote ex_q False)"
proof -
  have "appended ex_world ex_end 9 (Rpc (Some 1) (RpcPromote ex_q True))"
    by code_simp
  moreover from this have "trace ex_end ! (9 - 1) = Rpc (Some 1) (RpcPromote ex_q False)"
    using VR_force_promote [of ex_env ex_req ex_world _ ex_end] by (metis ex_end_def prod.collapse)
  ultimately show ?thesis by simp
qed

text \<open>C2: a status update reports the state Primary only when the resource was primary before or a
  promotion of this run succeeded, and the state Secondary only when it was secondary before or a
  demotion or resync of this run succeeded. Updates are assumed to keep the state stored in the
  status.\<close>

theorem VR_state_earned:
  assumes "run_state (VR_Reconcile e req) w = (out, w')" "keeps_state e"
    and "e_getVR e (trace w) req = Inr inst"
    and "appended w w' i (ApiStatusUpdate (O_VR v))"
  shows "(vr_state_of v = PrimaryState \<longrightarrow>
      vr_state_of inst = PrimaryState \<or> since (trace w) (promoted e) (take i (trace w'))) \<and>
    (vr_state_of v = SecondaryState \<longrightarrow>
      vr_state_of inst = SecondaryState \<or> since (trace w) (demoted e) (take i (trace w')))"
proof -
  have "reports_earned e (trace w) (vr_state_of inst) (take i (trace w')) (ApiStatusUpdate (O_VR v))"
    by (rule htriple_appended [OF htriple_VR_Reconcile_earned [OF assms(2,3) refl] assms(1,4)])
  then show ?thesis
    by (cases "vr_state_of v") (auto simp: reports_earned_def)
qed

theorem VR_state_earned_witness:
  "\<exists>v. appended ex_world ex_end 11 (ApiStatusUpdate (O_VR v)) \<and> vr_state_of v = PrimaryState \<and>
     since (trace ex_world) (promoted ex_env) (take 11 (trace ex_end))"
proof -
  define v where "v = (case trace ex_end ! 11 of ApiStatusUpdate (O_VR v) \<Rightarrow> v | _ \<Rightarrow> ex_vr)"
  have "appended ex_world ex_end 11 (ApiStatusUpdate (O_VR v))" "vr_state_of v = PrimaryState"
    unfolding v_def by code_simp+
  moreover have "run_state (VR_Reconcile ex_env ex_req) ex_world = (fst (run_state (VR_Reconcile ex_env ex_req) ex_world), ex_end)"
    by (simp add: ex_end_def)
  moreover have "e_getVR ex_env (trace ex_world) ex_req = Inr ex_vr" "vr_state_of ex_vr \<noteq> PrimaryState"
    by (simp_all add: ex_env_def ex_vr_def)
  ultimately show ?thesis
    using VR_state_earned [of ex_env ex_req ex_world _ ex_end ex_vr 11 v] ex_keeps(1) by blast
qed

section \<open>Deletion\<close>

definition ex_end_deleting :: world where
  "ex_end_deleting = snd (run_state (VR_Reconcile ex_env_deleting ex_req) ex_world)"

lemma ex_deleting_facts:
  "run_state (VR_Reconcile ex_env_deleting ex_req) ex_world =
     (fst (run_state (VR_Reconcile ex_env_deleting ex_req) ex_world), ex_end_deleting)"
  "e_getVR ex_env_deleting (trace ex_world) ex_req = Inr ex_deleting"
  "om_deletionTimestamp (vr_meta ex_deleting) \<noteq> None"
  by (simp_all add: ex_end_deleting_def ex_env_deleting_def ex_deleting_def)

text \<open>C3: when a resource on a claim is deleted, the claim is not released and no finalizer is removed
  before the sidecar has disabled replication or said that it knows no such volume. CSI volumes
  are assumed to have a volume handle.\<close>

theorem VR_delete_order:
  assumes "run_state (VR_Reconcile e req) w = (out, w')"
    and "e_getVR e (trace w) req = Inr inst" "om_deletionTimestamp (vr_meta inst) \<noteq> None"
    and "vr_kind inst = pvcDataSource"
    and "\<And>h nn v csi. e_getPV e h nn = Inr v \<Longrightarrow> pv_csi v = Some csi \<Longrightarrow> csi_volumeHandle csi \<noteq> []"
    and "appended w w' i (ApiUpdate x)"
  shows "since (trace w) (disabled e) (take i (trace w'))"
proof -
  have "released_ok e (trace w) (take i (trace w')) (ApiUpdate x)"
    by (rule htriple_appended [OF htriple_VR_Reconcile_deleting [OF assms(2-5)] assms(1,6)])
  then show ?thesis by (simp add: released_ok_def)
qed

theorem VR_delete_order_witness:
  "\<exists>x. appended ex_world ex_end_deleting 7 (ApiUpdate x) \<and>
     since (trace ex_world) (disabled ex_env_deleting) (take 7 (trace ex_end_deleting))"
proof -
  define x where "x = (case trace ex_end_deleting ! 7 of ApiUpdate x \<Rightarrow> x | _ \<Rightarrow> O_VR ex_vr)"
  have ev: "appended ex_world ex_end_deleting 7 (ApiUpdate x)"
    unfolding x_def by code_simp
  have "vr_kind ex_deleting = pvcDataSource"
    by (simp add: ex_deleting_def ex_vr_def)
  moreover have "csi_volumeHandle csi \<noteq> []"
    if "e_getPV ex_env_deleting h nn = Inr v" "pv_csi v = Some csi" for h nn v csi
    using that by (auto simp: ex_env_deleting_def ex_env_def)
  ultimately show ?thesis
    using VR_delete_order [OF ex_deleting_facts _ _ ev] ev by blast
qed

section \<open>A primary volume\<close>

text \<open>C4: once a volume is primary and stays wanted primary, reconciling it again enables, promotes,
  demotes and disables nothing; it only asks for replication information. Updates are assumed to
  return the specification and state they were sent.\<close>

theorem VR_primary_steady:
  assumes "run_state (VR_Reconcile e req) w = (out, w')" "keeps_vr e"
    and "e_getVR e (trace w) req = Inr inst" "om_deletionTimestamp (vr_meta inst) = None"
    and "vr_state_of inst = PrimaryState" "vr_desired inst = Primary"
    and "appended w w' i (Rpc cl r)"
  shows "r = RpcGetCapabilities \<or> (\<exists>q. r = RpcGetInfo q)"
  using htriple_appended [OF htriple_steady [OF assms(2-6)] assms(1,7)] by simp

definition ex_end_primary :: world where
  "ex_end_primary = snd (run_state (VR_Reconcile ex_env_primary ex_req) ex_world)"

theorem VR_primary_steady_witness:
  "appended ex_world ex_end_primary 7 (Rpc (Some 1) (RpcGetInfo ex_q)) \<and>
   (RpcGetInfo ex_q = RpcGetCapabilities \<or> (\<exists>q. RpcGetInfo ex_q = RpcGetInfo q))"
proof -
  have ev: "appended ex_world ex_end_primary 7 (Rpc (Some 1) (RpcGetInfo ex_q))"
    by code_simp
  have run: "run_state (VR_Reconcile ex_env_primary ex_req) ex_world =
      (fst (run_state (VR_Reconcile ex_env_primary ex_req) ex_world), ex_end_primary)"
    by (simp add: ex_end_primary_def)
  have inst: "e_getVR ex_env_primary (trace ex_world) ex_req = Inr ex_primary"
    "om_deletionTimestamp (vr_meta ex_primary) = None" "vr_state_of ex_primary = PrimaryState"
    "vr_desired ex_primary = Primary"
    by (simp_all add: ex_env_primary_def ex_primary_def ex_vr_def ex_meta_def empty_meta_def)
  from ev VR_primary_steady [OF run ex_keeps(3) inst ev] show ?thesis by (rule conjI)
qed

section \<open>Panics\<close>

text \<open>C5: the handler does not panic, provided that every volume is a CSI volume, every class names a
  provisioner, updates return the specification they were sent, and no resource on a volume
  group is being deleted.\<close>

theorem VR_never_panics:
  assumes "keeps_vr e" "\<And>h nn v. e_getPV e h nn = Inr v \<Longrightarrow> pv_csi v \<noteq> None"
    and "\<And>h nn c. e_getVRClass e h nn = Inr c \<Longrightarrow> rc_provisioner c \<noteq> []"
    and "\<And>h nn i. e_getVR e h nn = Inr i \<Longrightarrow>
      om_deletionTimestamp (vr_meta i) = None \<or> vr_kind i \<noteq> volumeGroupReplicationDataSource"
  shows "\<exists>r err. fst (run_state (VR_Reconcile e req) w) = Returned r err"
  using VR_no_panic [where req = req, OF assms] by (simp add: returns_def no_panic_def)

theorem VR_never_panics_witness:
  "\<exists>r err. fst (run_state (VR_Reconcile ex_env ex_req) ex_world) = Returned r err"
proof (rule VR_never_panics)
  show "keeps_vr ex_env" by (rule ex_keeps)
  show "pv_csi v \<noteq> None" if "e_getPV ex_env h nn = Inr v" for h nn v
    using that by (auto simp: ex_env_def)
  show "rc_provisioner c \<noteq> []" if "e_getVRClass ex_env h nn = Inr c" for h nn c
    using that by (auto simp: ex_env_def)
  show "om_deletionTimestamp (vr_meta i) = None \<or> vr_kind i \<noteq> volumeGroupReplicationDataSource"
    if "e_getVR ex_env h nn = Inr i" for h nn i
    using that by (auto simp: ex_env_def ex_vr_def)
qed

text \<open>The last proviso is needed. When a resource on a volume group is being deleted and the group
  is gone already, the handler dereferences the nil group and panics, so its finalizer is never
  removed.\<close>

theorem VR_delete_group_gone_panics:
  assumes "e_getVR e (trace w) req = Inr inst" "om_deletionTimestamp (vr_meta inst) \<noteq> None"
    and "vr_kind inst = volumeGroupReplicationDataSource"
    and "volumeReplicationFinalizer \<in> set (om_finalizers (vr_meta inst))"
    and "\<And>h nn. e_getVRClass e h nn = Inr vrc" "validatePrefixedParameters (rc_parameters vrc) = None"
    and "\<And>h nn. e_getVGR e h nn = Inl err" "IsNotFound err"
    and "\<And>w'. pool w' = pool w \<Longrightarrow>
      fst (run_state (getReplicationClient e (rc_provisioner vrc) (vr_kind inst)) w') = GoOk client"
  shows "\<exists>m. fst (run_state (VR_Reconcile e req) w) = Panicked m"
proof -
  have client: "\<exists>w''. run_state (getReplicationClient e (rc_provisioner vrc) (vr_kind inst)) w' = (GoOk client, w'')"
    if "pool w' = pool w" for w'
    using assms(9) [OF that] by (metis prod.collapse)
  have kinds: "volumeGroupReplicationDataSource \<noteq> pvcDataSource" by simp
  have source: "run_state (Reconcile_dataSource e req inst) w =
      (Inr no_data, w\<lparr>trace := trace w @ [ApiGet ''VolumeGroupReplication''
        \<lparr>nn_namespace = nn_namespace req, nn_name = ds_name (vrs_dataSource (vr_spec inst))\<rparr>]\<rparr>)" for w
    using assms(2,3,7,8) kinds
    by (simp add: Reconcile_dataSource_def getVolumeGroupReplicationDataSource_def api_defs run_defs
        no_data_def Let_def)
  have "fst (run_state (Reconcile_delete e inst (mk_params vrc inst no_data client) no_data) w) =
      Panicked ''nil pointer dereference: vgr.Annotations''" for w
    using assms(3,4) kinds
    by (simp add: Reconcile_delete_def Reconcile_release_def mk_params_def no_data_def)
  then have dispatch: "fst (run_state (Reconcile_dispatch e req inst vrc no_data) w') =
      Panicked ''nil pointer dereference: vgr.Annotations''" if "pool w' = pool w" for w'
    using assms(2) client [OF that] by (auto simp: Reconcile_dispatch_def Let_def)
  show ?thesis
    using assms(1,5,6)
    by (simp add: VR_Reconcile_def getVolumeReplicationClass_def api_defs run_defs source dispatch)
qed

definition ex_group_vr :: volume_replication where
  "ex_group_vr = ex_deleting\<lparr>vr_spec := (vr_spec ex_deleting)\<lparr>
     vrs_dataSource := \<lparr>ds_kind = volumeGroupReplicationDataSource, ds_name = ''group''\<rparr>\<rparr>\<rparr>"

definition ex_env_group :: env where
  "ex_env_group = ex_env\<lparr>e_getVR := (\<lambda>_ _. Inr ex_group_vr)\<rparr>"

definition ex_class :: replication_class where
  "ex_class = \<lparr>rc_name = ''class'', rc_provisioner = ''drv'', rc_parameters = []\<rparr>"

lemma ex_client:
  assumes "pool w = pool ex_world"
  shows "fst (run_state (getReplicationClient ex_env_group ''drv'' volumeGroupReplicationDataSource) w) =
    GoOk (VolumeGroupReplicationClient (Some 1))"
proof -
  have "NormalizeLeaseName ''drv'' = Some ''drv''" by code_simp
  with assms show ?thesis
    by (simp add: getReplicationClient_def GetLeaderByDriver_def getNamespaceByDriverName_def ex_world_def
        ex_env_group_def ex_env_def ex_conn_def api_defs run_defs Connect_entry_def Connect_def reusable_def Let_def)
qed

theorem VR_delete_group_gone_panics_witness:
  "\<exists>m. fst (run_state (VR_Reconcile ex_env_group ex_req) ex_world) = Panicked m"
proof (rule VR_delete_group_gone_panics)
  show "e_getVR ex_env_group (trace ex_world) ex_req = Inr ex_group_vr"
    by (simp add: ex_env_group_def)
  show "om_deletionTimestamp (vr_meta ex_group_vr) \<noteq> None"
    "volumeReplicationFinalizer \<in> set (om_finalizers (vr_meta ex_group_vr))"
    by (simp_all add: ex_group_vr_def ex_deleting_def ex_vr_def)
  show kind: "vr_kind ex_group_vr = volumeGroupReplicationDataSource"
    by (simp add: ex_group_vr_def)
  show "e_getVRClass ex_env_group h nn = Inr ex_class" for h nn
    by (simp add: ex_env_group_def ex_env_def ex_class_def)
  show "validatePrefixedParameters (rc_parameters ex_class) = None"
    by (simp add: ex_class_def)
  show "e_getVGR ex_env_group h nn = Inl notfound" "IsNotFound notfound" for h nn
    by (simp_all add: ex_env_group_def ex_env_def env0_def notfound_def IsNotFound_def)
  show "fst (run_state (getReplicationClient ex_env_group (rc_provisioner ex_class) (vr_kind ex_group_vr)) w) =
      GoOk (VolumeGroupReplicationClient (Some 1))" if "pool w = pool ex_world" for w
    using ex_client [OF that] by (simp only: kind ex_class_def replication_class.simps)
qed

end
