(* ===== verification/Props_Base.thy ===== *)
theory Props_Base
  imports Examples
begin

text \<open>
  What the parts below the controllers guarantee: the configuration, the class parameters, the
  status conditions, the connection pool, finalizers and owner annotations, and the identifiers
  of replication requests.
\<close>

section \<open>Conditions\<close>

text \<open>Writing a condition keeps one condition per type, leaves the other types alone, stores the
  new reason, message and generation, and moves the transition time exactly when the status
  changes or the condition is new.\<close>

theorem condition_write:
  assumes "wf_conditions cs"
  shows "wf_conditions (setStatusCondition t cs new) \<and>
    (\<forall>ty. ty \<noteq> cd_type new \<longrightarrow> cond_lookup (setStatusCondition t cs new) ty = cond_lookup cs ty) \<and>
    cond_lookup (setStatusCondition t cs new) (cd_type new) =
      Some (new\<lparr>cd_lastTransitionTime :=
        (case cond_lookup cs (cd_type new) of
           Some c \<Rightarrow> if cd_status c = cd_status new then cd_lastTransitionTime c else t
         | None \<Rightarrow> t)\<rparr>)"
  using status_conditions.wf_write [OF assms]
  by (auto simp: cond_lookup_setStatusCondition merge_condition_def split: option.split)

definition ex_cond :: condition where
  "ex_cond = mkCondition ''m'' ConditionDegraded Healthy 1 ConditionTrue"

theorem condition_write_witness:
  "wf_conditions (setStatusCondition 5 [ex_cond] (ex_cond\<lparr>cd_status := ConditionFalse\<rparr>)) \<and>
   cond_lookup (setStatusCondition 5 [ex_cond] (ex_cond\<lparr>cd_status := ConditionFalse\<rparr>)) ConditionDegraded =
     Some (ex_cond\<lparr>cd_status := ConditionFalse, cd_lastTransitionTime := 5\<rparr>)"
proof -
  have wf: "wf_conditions [ex_cond]" by (simp add: wf_conditions_def)
  have "cond_lookup [ex_cond] ConditionDegraded = Some ex_cond"
    by (simp add: cond_lookup_def ex_cond_def mkCondition_def)
  then show ?thesis
    using condition_write [OF wf, of 5 "ex_cond\<lparr>cd_status := ConditionFalse\<rparr>"]
    by (simp add: ex_cond_def mkCondition_def)
qed

section \<open>Configuration and parameters\<close>

text \<open>C39: reading a configuration map succeeds exactly when every entry is a known key with a valid
  value, and then gives the configuration the map describes, in whatever order the entries are
  visited.\<close>

theorem readConfig_meaning:
  assumes "distinct (map fst dataMap)"
  shows "readConfig parseDuration cfg dataMap = (cfg', None) \<longleftrightarrow>
    (\<forall>(key, val) \<in> set dataMap. entry_ok parseDuration key val) \<and>
    cfg' = config_of parseDuration cfg (map_of dataMap)"
  by (rule readConfig_eq [OF assms])

theorem readConfig_meaning_witness:
  "fst (readConfig (\<lambda>_. Inr 0) NewConfig [(MaxGroupPVCKey, ''7''), (SchedulePrecedenceKey, ''sc-only'')]) =
     NewConfig\<lparr>cfg_MaxGroupPVC := 7, cfg_SchedulePrecedence := ScheduleSC\<rparr>"
proof -
  let ?m = "[(MaxGroupPVCKey, ''7''), (SchedulePrecedenceKey, ''sc-only'')]"
  have ok: "entry_ok (\<lambda>_. Inr 0) MaxGroupPVCKey ''7''"
    "entry_ok (\<lambda>_. Inr 0) SchedulePrecedenceKey ''sc-only''"
    by code_simp+
  have "distinct (map fst ?m)" by simp
  from readConfig_meaning [OF this, of "\<lambda>_. Inr 0" NewConfig] ok
  have "readConfig (\<lambda>_. Inr 0) NewConfig ?m = (config_of (\<lambda>_. Inr 0) NewConfig (map_of ?m), None)"
    by simp
  moreover have "config_of (\<lambda>_. Inr 0) NewConfig (map_of ?m) =
      NewConfig\<lparr>cfg_MaxGroupPVC := 7, cfg_SchedulePrecedence := ScheduleSC\<rparr>"
    by code_simp
  ultimately show ?thesis by simp
qed

text \<open>Whatever the configuration map holds and however reading it ends, the group size stays within
  1 and 100, the retry delay is at least one second and the precedence is one of the two known.\<close>

theorem ReadConfigMap_bounds:
  "cfg_ok (fst (ReadConfigMap parseDuration getConfigMap NewConfig))"
proof -
  have "cfg_ok NewConfig" by (simp add: cfg_ok_def NewConfig_def)
  then show ?thesis
    using readConfig_cfg_ok [of NewConfig parseDuration]
    by (auto simp: ReadConfigMap_def split: sum.split)
qed

section \<open>The connection pool\<close>

text \<open>One operation on the pool, as a step on the world.\<close>

fun pool_op :: "env \<Rightarrow> world \<Rightarrow> connection store_op \<Rightarrow> world" where
  "pool_op e w (OpPut k c) = snd (run_state (Put e k c) w)"
| "pool_op e w (OpDelete k) = snd (run_state (Delete e k) w)"

lemma pool_op_apply: "pool_op e = conn_pool.apply_op e"
proof (intro ext)
  fix w x
  show "pool_op e w x = conn_pool.apply_op e w x"
    by (cases x) (simp_all add: pool_put_def pool_delete_def)
qed



section \<open>Finalizers and owners\<close>

text \<open>Taking a claim for an owner succeeds only when the claim had no owner of that kind or this
  one, and never when it already has owners of both kinds; a claim that is sent to the server
  keeps every other annotation.\<close>

theorem claim_owner:
  assumes "run_state (annotatePVCWithOwner e owner p a) w = ((p', err), w')"
  shows "(err = None \<longrightarrow>
      mget (om_annotations (pvc_meta p)) a \<in> {[], owner} \<and>
      (mget (om_annotations (pvc_meta p)) VolumeReplicationNameAnnotation = [] \<or>
       mget (om_annotations (pvc_meta p)) VolumeGroupReplicationNameAnnotation = [])) \<and>
    (\<forall>i x. appended w w' i (ApiUpdate x) \<longrightarrow>
      (\<exists>q. x = O_PVC q \<and> mget (om_annotations (pvc_meta p)) a = [] \<and>
        (\<forall>k. mget (om_annotations (pvc_meta q)) k =
           (if k = a then owner else mget (om_annotations (pvc_meta p)) k))))"
  using assms
  by (auto simp: annotatePVCWithOwner_def Update_PVC_def run_defs Let_def after_update_def
      pvc_set_annotations_def split: if_splits sum.splits)

definition ex_claim :: pvc where
  "ex_claim = \<lparr>pvc_meta = ex_meta ''claim'', pvc_volumeName = ''pv'', pvc_storageClassName = None,
     pvc_phase = ClaimBound\<rparr>"

theorem claim_owner_witness:
  "mget (om_annotations (pvc_meta ex_claim)) VolumeReplicationNameAnnotation \<in> {[], ''vr''}"
proof -
  have "snd (fst (run_state (annotatePVCWithOwner ex_env ''vr'' ex_claim VolumeReplicationNameAnnotation) ex_world)) = None"
    by code_simp
  then obtain p' w' where
    "run_state (annotatePVCWithOwner ex_env ''vr'' ex_claim VolumeReplicationNameAnnotation) ex_world = ((p', None), w')"
    by (metis prod.collapse)
  from claim_owner [OF this] show ?thesis by blast
qed


end
