(* ===== verification/Go_Url.thy ===== *)
theory Go_Url
  imports Go_Errors
begin

text \<open>
  The part of Go's package \<open>net/url\<close> the controllers rely on: \<open>url.Parse\<close> with the scheme and the
  host of its result, and the methods \<open>Hostname\<close> and \<open>Port\<close>. User information, path and fragment
  are checked the way \<open>Parse\<close> checks them, since a malformed one makes it fail, and dropped.
\<close>

section \<open>Characters\<close>

definition is_alpha :: "char \<Rightarrow> bool" where
  "is_alpha c \<longleftrightarrow> (let n = (of_char c :: nat) in 97 \<le> n \<and> n \<le> 122 \<or> 65 \<le> n \<and> n \<le> 90)"

definition is_hex :: "char \<Rightarrow> bool" where
  "is_hex c \<longleftrightarrow> is_digit c \<or> (let n = (of_char c :: nat) in 97 \<le> n \<and> n \<le> 102 \<or> 65 \<le> n \<and> n \<le> 70)"

definition unhex :: "char \<Rightarrow> nat" where
  "unhex c = (let n = of_char c in if n \<le> 57 then n - 48 else if n \<le> 70 then n - 55 else n - 87)"

definition is_ctl :: "char \<Rightarrow> bool" where
  "is_ctl c \<longleftrightarrow> (of_char c :: nat) < 32 \<or> (of_char c :: nat) = 127"

definition to_lower :: "char \<Rightarrow> char" where
  "to_lower c = (let n = (of_char c :: nat) in if 65 \<le> n \<and> n \<le> 90 then char_of (n + 32) else c)"

text \<open>\<open>!shouldEscape(c, encodeHost)\<close>: letters, digits, sub-delimiters and unreserved characters.\<close>

definition host_char :: "char \<Rightarrow> bool" where
  "host_char c \<longleftrightarrow> is_alpha c \<or> is_digit c \<or>
     c \<in> set (''!$&()*+,;=:[]<>-_.~'' @ [CHR 0x22, CHR 0x27])"

definition userinfo_char :: "char \<Rightarrow> bool" where
  "userinfo_char c \<longleftrightarrow> is_alpha c \<or> is_digit c \<or> c \<in> set (''-._:~!$&()*+,;=%@'' @ [CHR 0x27])"

section \<open>Parsing\<close>

definition strings_Cut :: "string \<Rightarrow> char \<Rightarrow> string \<times> string" where
  "strings_Cut s c = (takeWhile (\<lambda>x. x \<noteq> c) s, tl (dropWhile (\<lambda>x. x \<noteq> c) s))"

fun getScheme_loop :: "string \<Rightarrow> string \<Rightarrow> string \<Rightarrow> goerr + string \<times> string" where
  "getScheme_loop raw acc [] = Inr ([], raw)"
| "getScheme_loop raw acc (c # r) =
     (if is_alpha c then getScheme_loop raw (acc @ [c]) r
      else if is_digit c \<or> c \<in> set ''+-.'' then
        (if acc = [] then Inr ([], raw) else getScheme_loop raw (acc @ [c]) r)
      else if c = CHR '':'' then
        (if acc = [] then Inl (ErrMsg ''missing protocol scheme'') else Inr (acc, r))
      else Inr ([], raw))"

datatype url_part = HostPart | ZonePart | OtherPart

definition escape_error :: "string \<Rightarrow> goerr" where
  "escape_error s = ErrMsg (''invalid URL escape '' @ fmt_q s)"

fun unescape :: "url_part \<Rightarrow> string \<Rightarrow> goerr + string" where
  "unescape m [] = Inr []"
| "unescape m (c # s) =
     (if c = CHR ''%'' then
        (case s of
           a # b # r \<Rightarrow>
             if \<not> (is_hex a \<and> is_hex b) then Inl (escape_error [c, a, b])
             else
               (let v = char_of (16 * unhex a + unhex b) in
                if m = HostPart \<and> unhex a < 8 \<and> [a, b] \<noteq> ''25'' then Inl (escape_error [c, a, b])
                else if m = ZonePart \<and> [a, b] \<noteq> ''25'' \<and> v \<noteq> CHR '' '' \<and> \<not> host_char v
                then Inl (escape_error [c, a, b])
                else (case unescape m r of Inl e \<Rightarrow> Inl e | Inr t \<Rightarrow> Inr (v # t)))
         | _ \<Rightarrow> Inl (escape_error (c # s)))
      else if m \<noteq> OtherPart \<and> (of_char c :: nat) < 128 \<and> \<not> host_char c
      then Inl (ErrMsg (''invalid character '' @ fmt_q [c] @ '' in host name''))
      else (case unescape m s of Inl e \<Rightarrow> Inl e | Inr t \<Rightarrow> Inr (c # t)))"

definition validOptionalPort :: "string \<Rightarrow> bool" where
  "validOptionalPort p \<longleftrightarrow> (case p of [] \<Rightarrow> True | c # r \<Rightarrow> c = CHR '':'' \<and> list_all is_digit r)"

fun strings_Index :: "string \<Rightarrow> string \<Rightarrow> nat option" where
  "strings_Index [] sub = (if sub = [] then Some 0 else None)"
| "strings_Index (c # s) sub =
     (if strings_HasPrefix (c # s) sub then Some 0 else map_option Suc (strings_Index s sub))"

definition parseHost :: "string \<Rightarrow> goerr + string" where
  "parseHost host =
     (if strings_HasPrefix host ''['' then
        (case strings_LastIndex host (CHR '']'') of
           None \<Rightarrow> Inl (ErrMsg ''missing ']' in host'')
         | Some i \<Rightarrow>
             if \<not> validOptionalPort (drop (i + 1) host)
             then Inl (ErrMsg (''invalid port '' @ fmt_q (drop (i + 1) host) @ '' after host''))
             else
               (case strings_Index (take i host) ''%25'' of
                  None \<Rightarrow> unescape HostPart host
                | Some z \<Rightarrow>
                    (case (unescape HostPart (take z host), unescape ZonePart (drop z (take i host)),
                           unescape HostPart (drop i host)) of
                       (Inr h1, Inr h2, Inr h3) \<Rightarrow> Inr (h1 @ h2 @ h3)
                     | (Inl e, _, _) \<Rightarrow> Inl e
                     | (Inr _, Inl e, _) \<Rightarrow> Inl e
                     | (Inr _, Inr _, Inl e) \<Rightarrow> Inl e)))
      else
        (case strings_LastIndex host (CHR '':'') of
           None \<Rightarrow> unescape HostPart host
         | Some i \<Rightarrow>
             if \<not> validOptionalPort (drop i host)
             then Inl (ErrMsg (''invalid port '' @ fmt_q (drop i host) @ '' after host''))
             else unescape HostPart host))"

definition parseAuthority :: "string \<Rightarrow> goerr + string" where
  "parseAuthority authority =
     (case strings_LastIndex authority (CHR ''@'') of
        None \<Rightarrow> parseHost authority
      | Some i \<Rightarrow>
          (case parseHost (drop (i + 1) authority) of
             Inl e \<Rightarrow> Inl e
           | Inr host \<Rightarrow>
               (let userinfo = take i authority; (user, pass) = strings_Cut userinfo (CHR '':'') in
                if \<not> list_all userinfo_char userinfo then Inl (ErrMsg ''net/url: invalid userinfo'')
                else
                  (case (unescape OtherPart user, unescape OtherPart pass) of
                     (Inl e, _) \<Rightarrow> Inl e
                   | (Inr _, Inl e) \<Rightarrow> Inl e
                   | (Inr _, Inr _) \<Rightarrow> Inr host))))"

text \<open>The fields of \<open>url.URL\<close> that are read.\<close>

record url =
  u_Scheme :: string
  u_Host :: string

definition url_parse_rest :: "string \<Rightarrow> string \<Rightarrow> goerr + url" where
  "url_parse_rest scheme rest =
     (if \<not> strings_HasPrefix rest ''/'' \<and> scheme \<noteq> [] then Inr \<lparr>u_Scheme = scheme, u_Host = []\<rparr>
      else if \<not> strings_HasPrefix rest ''/'' \<and> CHR '':'' \<in> set (fst (strings_Cut rest (CHR ''/'')))
      then Inl (ErrMsg ''first path segment in URL cannot contain colon'')
      else
        (let authority = takeWhile (\<lambda>c. c \<noteq> CHR ''/'') (drop 2 rest);
             path = dropWhile (\<lambda>c. c \<noteq> CHR ''/'') (drop 2 rest);
             has_host = (scheme \<noteq> [] \<or> \<not> strings_HasPrefix rest ''///'') \<and> strings_HasPrefix rest ''//''
         in
         (case (if has_host then parseAuthority authority else Inr []) of
            Inl e \<Rightarrow> Inl e
          | Inr host \<Rightarrow>
              (case unescape OtherPart (if has_host then path else rest) of
                 Inl e \<Rightarrow> Inl e
               | Inr _ \<Rightarrow> Inr \<lparr>u_Scheme = scheme, u_Host = host\<rparr>))))"

definition url_parse :: "string \<Rightarrow> goerr + url" where
  "url_parse u =
     (if list_ex is_ctl u then Inl (ErrMsg ''net/url: invalid control character in URL'')
      else if u = ''*'' then Inr \<lparr>u_Scheme = [], u_Host = []\<rparr>
      else
        (case getScheme_loop u [] u of
           Inl e \<Rightarrow> Inl e
         | Inr (scheme, rest) \<Rightarrow>
             url_parse_rest (map to_lower scheme) (fst (strings_Cut rest (CHR ''?'')))))"

definition url_Parse :: "string \<Rightarrow> goerr + url" where
  "url_Parse rawURL =
     (let (u, frag) = strings_Cut rawURL (CHR ''#'') in
      case url_parse u of
        Inl e \<Rightarrow> Inl (ErrWrap (''parse '' @ fmt_q u @ '': '') e [])
      | Inr url \<Rightarrow>
          (case unescape OtherPart frag of
             Inl e \<Rightarrow> Inl (ErrWrap (''parse '' @ fmt_q rawURL @ '': '') e [])
           | Inr _ \<Rightarrow> Inr url))"

definition splitHostPort :: "string \<Rightarrow> string \<times> string" where
  "splitHostPort hostPort =
     (let (host, port) =
        (case strings_LastIndex hostPort (CHR '':'') of
           Some i \<Rightarrow> if validOptionalPort (drop i hostPort) then (take i hostPort, drop (i + 1) hostPort)
                     else (hostPort, [])
         | None \<Rightarrow> (hostPort, []))
      in (if strings_HasPrefix host ''['' \<and> last host = CHR '']'' then butlast (tl host) else host, port))"

definition Hostname :: "url \<Rightarrow> string" where
  "Hostname u = fst (splitHostPort (u_Host u))"

definition Port :: "url \<Rightarrow> string" where
  "Port u = snd (splitHostPort (u_Host u))"

section \<open>Addresses of pods\<close>

text \<open>
  The characters of a DNS name. A URL made of the scheme \<open>pod\<close>, a name of such characters and a
  numeric port is parsed back into them.
\<close>

definition dns_char :: "char \<Rightarrow> bool" where
  "dns_char c \<longleftrightarrow> is_alpha c \<or> is_digit c \<or> c = CHR ''-'' \<or> c = CHR ''.''"

lemma dns_char_neqs:
  "dns_char c \<Longrightarrow> c \<noteq> CHR '':'' \<and> c \<noteq> CHR ''/'' \<and> c \<noteq> CHR ''?'' \<and> c \<noteq> CHR ''#'' \<and> c \<noteq> CHR ''@'' \<and>
     c \<noteq> CHR ''['' \<and> c \<noteq> CHR ''%'' \<and> \<not> is_ctl c \<and> host_char c"
  by (auto simp: dns_char_def is_alpha_def is_digit_def is_ctl_def host_char_def Let_def)

lemma digit_dns: "is_digit c \<Longrightarrow> dns_char c"
  by (simp add: dns_char_def)

lemma dns_memD: "list_all dns_char s \<Longrightarrow> c \<in> set s \<Longrightarrow> dns_char c"
  by (auto simp: list_all_iff)

lemma LastIndex_sep:
  assumes "c \<notin> set r"
  shows "strings_LastIndex (l @ c # r) c = Some (length l)"
proof -
  have "strings_LastIndex r c = None" using assms by (simp add: strings_LastIndex_None)
  then show ?thesis by (induction l) auto
qed

lemma unescape_host: "(\<And>c. c \<in> set s \<Longrightarrow> host_char c \<and> c \<noteq> CHR ''%'') \<Longrightarrow> unescape HostPart s = Inr s"
  by (induction s) auto

lemma takeWhile_all: "(\<And>c. c \<in> set s \<Longrightarrow> P c) \<Longrightarrow> takeWhile P s = s \<and> dropWhile P s = []"
  by (simp add: takeWhile_eq_all_conv dropWhile_eq_Nil_conv)

lemma strings_Cut_absent: "c \<notin> set s \<Longrightarrow> strings_Cut s c = (s, [])"
  unfolding strings_Cut_def by (metis (mono_tags, lifting) takeWhile_all list.sel(2))

lemma parseHost_dns:
  assumes "list_all dns_char h" "list_all is_digit p"
  shows "parseHost (h @ '':'' @ p) = Inr (h @ '':'' @ p)"
proof -
  have chars: "host_char c \<and> c \<noteq> CHR ''%''" if "c \<in> set (h @ '':'' @ p)" for c
  proof -
    have "host_char (CHR '':'')" by (simp add: host_char_def)
    moreover have "c = CHR '':'' \<or> dns_char c"
      using that assms digit_dns by (auto simp: list_all_iff)
    ultimately show ?thesis using dns_char_neqs [of c] by auto
  qed
  have "CHR '':'' \<notin> set p"
    using assms(2) digit_dns dns_char_neqs by (auto simp: list_all_iff)
  then have last: "strings_LastIndex (h @ '':'' @ p) (CHR '':'') = Some (length h)"
    using LastIndex_sep by simp
  have bracket: "\<not> strings_HasPrefix (h @ '':'' @ p) ''[''"
  proof (cases h)
    case Nil
    then show ?thesis by (simp add: strings_HasPrefix_def)
  next
    case (Cons c h')
    with assms(1) dns_char_neqs [of c] show ?thesis by (simp add: strings_HasPrefix_def)
  qed
  show ?thesis
    using assms(2) unescape_host [of "h @ '':'' @ p", OF chars] bracket
    unfolding parseHost_def last by (simp add: validOptionalPort_def)
qed

lemma url_Parse_pod:
  assumes h: "list_all dns_char h" and p: "list_all is_digit p"
  shows "url_Parse (''pod://'' @ h @ '':'' @ p) = Inr \<lparr>u_Scheme = ''pod'', u_Host = h @ '':'' @ p\<rparr>"
proof -
  let ?hp = "h @ '':'' @ p"
  have hp: "c \<in> set ?hp \<Longrightarrow> c = CHR '':'' \<or> dns_char c" for c
    using h p digit_dns by (auto simp: list_all_iff)
  then have absent: "CHR ''#'' \<notin> set ?hp" "CHR ''?'' \<notin> set ?hp" "CHR ''/'' \<notin> set ?hp" "CHR ''@'' \<notin> set ?hp"
    using dns_char_neqs by blast+
  then have cuts: "strings_Cut (''pod://'' @ ?hp) (CHR ''#'') = (''pod://'' @ ?hp, [])"
      "strings_Cut (''//'' @ ?hp) (CHR ''?'') = (''//'' @ ?hp, [])"
    by (simp_all add: strings_Cut_absent)
  have "\<not> is_ctl c" if "c \<in> set ?hp" for c
    using hp [OF that] dns_char_neqs [of c] by (auto simp: is_ctl_def)
  then have ctl: "\<not> list_ex is_ctl (''pod://'' @ ?hp)"
    by (auto simp: list_ex_iff is_ctl_def)
  have scheme: "getScheme_loop (''pod://'' @ ?hp) [] (''pod://'' @ ?hp) = Inr (''pod'', ''//'' @ ?hp)"
    by (simp add: is_alpha_def is_digit_def)
  have split: "takeWhile (\<lambda>c. c \<noteq> CHR ''/'') ?hp = ?hp" "dropWhile (\<lambda>c. c \<noteq> CHR ''/'') ?hp = []"
    using takeWhile_all [of ?hp "\<lambda>c. c \<noteq> CHR ''/''"] absent(3) by blast+
  have "strings_LastIndex ?hp (CHR ''@'') = None"
    using absent(4) by (simp only: strings_LastIndex_None not_False_eq_True)
  then have auth: "parseAuthority ?hp = Inr ?hp"
    using parseHost_dns [OF h p] by (simp add: parseAuthority_def)
  have pre: "strings_HasPrefix (''//'' @ ?hp) ''/''" "strings_HasPrefix (''//'' @ ?hp) ''//''"
      "drop 2 (''//'' @ ?hp) = ?hp"
    by (simp_all add: strings_HasPrefix_def)
  have rest: "url_parse_rest ''pod'' (''//'' @ ?hp) = Inr \<lparr>u_Scheme = ''pod'', u_Host = ?hp\<rparr>"
    unfolding url_parse_rest_def Let_def pre(3) split auth by (simp only: pre) simp
  have low: "map to_lower ''pod'' = ''pod''" by (simp add: to_lower_def)
  have parse: "url_parse (''pod://'' @ ?hp) = Inr \<lparr>u_Scheme = ''pod'', u_Host = ?hp\<rparr>"
    unfolding url_parse_def scheme using ctl rest low cuts(2) by simp
  show ?thesis
    unfolding url_Parse_def Let_def cuts(1) using parse by simp
qed

lemma splitHostPort_dns:
  assumes h: "list_all dns_char h" and p: "list_all is_digit p"
  shows "splitHostPort (h @ '':'' @ p) = (h, p)"
proof -
  have "CHR '':'' \<notin> set p"
    using p digit_dns dns_char_neqs by (auto simp: list_all_iff)
  then have last: "strings_LastIndex (h @ '':'' @ p) (CHR '':'') = Some (length h)"
    using LastIndex_sep by simp
  have "\<not> strings_HasPrefix h ''[''"
    using h dns_char_neqs by (cases h) (auto simp: strings_HasPrefix_def)
  with p show ?thesis
    unfolding splitHostPort_def last by (simp add: validOptionalPort_def)
qed

end
