(* ===== verification/Go_Json.thy ===== *)
theory Go_Json
  imports Go_Url
begin

text \<open>
  Go's \<open>encoding/json\<close> on lists of strings: \<open>json.Marshal\<close> of a \<open>[]string\<close> and \<open>json.Unmarshal\<close>
  into one. Bytes from 128 on are the bytes of well-formed UTF-8 text and are kept; which error
  text \<open>Unmarshal\<close> chooses is left open by one fixed error.
\<close>

section \<open>Encoding\<close>

definition json_escape :: "char \<Rightarrow> string" where
  "json_escape c =
     (if c = CHR 0x22 \<or> c = CHR 0x5C then [CHR 0x5C, c]
      else if c = CHR 0x08 then [CHR 0x5C, CHR ''b'']
      else if c = CHR 0x0C then [CHR 0x5C, CHR ''f'']
      else if c = CHR 0x0A then [CHR 0x5C, CHR ''n'']
      else if c = CHR 0x0D then [CHR 0x5C, CHR ''r'']
      else if c = CHR 0x09 then [CHR 0x5C, CHR ''t'']
      else if (of_char c :: nat) < 32 \<or> c \<in> set ''<>&''
        then [CHR 0x5C, CHR ''u'', CHR ''0'', CHR ''0'', hexdigit (of_char c div 16), hexdigit (of_char c mod 16)]
      else [c])"

definition json_string :: "string \<Rightarrow> string" where
  "json_string s = [CHR 0x22] @ concat (map json_escape s) @ [CHR 0x22]"

fun json_elems :: "string list \<Rightarrow> string" where
  "json_elems [] = [CHR '']'']"
| "json_elems [s] = json_string s @ [CHR '']'']"
| "json_elems (s # t # r) = json_string s @ [CHR '',''] @ json_elems (t # r)"

definition json_Marshal :: "string list \<Rightarrow> string" where
  "json_Marshal xs = CHR ''['' # json_elems xs"

section \<open>Decoding\<close>

definition utf8_encode :: "nat \<Rightarrow> string" where
  "utf8_encode n =
     (if n < 128 then [char_of n]
      else if n < 2048 then [char_of (192 + n div 64), char_of (128 + n mod 64)]
      else if n < 65536 then
        [char_of (224 + n div 4096), char_of (128 + n div 64 mod 64), char_of (128 + n mod 64)]
      else [char_of (240 + n div 262144), char_of (128 + n div 4096 mod 64),
            char_of (128 + n div 64 mod 64), char_of (128 + n mod 64)])"

text \<open>The four digits that follow a backslash and a \<open>u\<close>.\<close>

definition getu4 :: "string \<Rightarrow> nat option" where
  "getu4 s =
     (case s of
        a # b # c # d # r \<Rightarrow>
          if is_hex a \<and> is_hex b \<and> is_hex c \<and> is_hex d
          then Some (((unhex a * 16 + unhex b) * 16 + unhex c) * 16 + unhex d) else None
      | _ \<Rightarrow> None)"

definition low_surrogate :: "string \<Rightarrow> nat option" where
  "low_surrogate r =
     (if take 2 r = [CHR 0x5C, CHR ''u''] then
        (case getu4 (drop 2 r) of
           Some n \<Rightarrow> if 56320 \<le> n \<and> n < 57344 then Some n else None
         | None \<Rightarrow> None)
      else None)"

text \<open>The characters a unicode escape stands for, and how much text it takes after its own digits.\<close>

definition unicode_escape :: "nat \<Rightarrow> string \<Rightarrow> string \<times> nat" where
  "unicode_escape n r =
     (if 55296 \<le> n \<and> n < 57344 then
        (case (if n < 56320 then low_surrogate r else None) of
           Some m \<Rightarrow> (utf8_encode (65536 + (n - 55296) * 1024 + (m - 56320)), 6)
         | None \<Rightarrow> (utf8_encode 65533, 0))
      else (utf8_encode n, 0))"

definition simple_escape :: "char \<Rightarrow> char option" where
  "simple_escape c =
     (if c = CHR 0x22 \<or> c = CHR 0x5C \<or> c = CHR ''/'' then Some c
      else if c = CHR ''b'' then Some (CHR 0x08)
      else if c = CHR ''f'' then Some (CHR 0x0C)
      else if c = CHR ''n'' then Some (CHR 0x0A)
      else if c = CHR ''r'' then Some (CHR 0x0D)
      else if c = CHR ''t'' then Some (CHR 0x09)
      else None)"

text \<open>The rest of a string literal, up to and without the closing quote.\<close>

function scan_string :: "string \<Rightarrow> (string \<times> string) option" where
  "scan_string [] = None"
| "scan_string (c # s) =
     (if c = CHR 0x22 then Some ([], s)
      else if (of_char c :: nat) < 32 then None
      else if c \<noteq> CHR 0x5C then map_option (apfst (\<lambda>t. c # t)) (scan_string s)
      else if s = [] then None
      else if hd s = CHR ''u'' then
        (case getu4 (tl s) of
           None \<Rightarrow> None
         | Some n \<Rightarrow>
             (let (t, k) = unicode_escape n (drop 5 s)
              in map_option (apfst (\<lambda>u. t @ u)) (scan_string (drop (5 + k) s))))
      else
        (case simple_escape (hd s) of
           None \<Rightarrow> None
         | Some d \<Rightarrow> map_option (apfst (\<lambda>t. d # t)) (scan_string (tl s))))"
  by pat_completeness auto
termination
  by (relation "measure length") auto

declare scan_string.simps [simp del]

definition json_space :: "char \<Rightarrow> bool" where
  "json_space c \<longleftrightarrow> c = CHR '' '' \<or> c = CHR 0x09 \<or> c = CHR 0x0A \<or> c = CHR 0x0D"

text \<open>An element of type string: a literal, or \<open>null\<close>, which leaves the empty string.\<close>

definition scan_elem :: "string \<Rightarrow> (string \<times> string) option" where
  "scan_elem s =
     (case s of
        [] \<Rightarrow> None
      | c # r \<Rightarrow>
          if c = CHR 0x22 then scan_string r
          else if strings_HasPrefix s ''null'' then Some ([], drop 4 s)
          else None)"

fun scan_elems :: "nat \<Rightarrow> string \<Rightarrow> (string list \<times> string) option" where
  "scan_elems 0 s = None"
| "scan_elems (Suc n) s =
     (case scan_elem (dropWhile json_space s) of
        None \<Rightarrow> None
      | Some (x, r) \<Rightarrow>
          (case dropWhile json_space r of
             [] \<Rightarrow> None
           | c # r' \<Rightarrow>
               if c = CHR '']'' then Some ([x], r')
               else if c = CHR '','' then map_option (apfst (\<lambda>xs. x # xs)) (scan_elems n r')
               else None))"

definition scan_array :: "string \<Rightarrow> (string list \<times> string) option" where
  "scan_array s =
     (case dropWhile json_space s of
        [] \<Rightarrow> None
      | c # r \<Rightarrow>
          if c = CHR ''['' then
            (case dropWhile json_space r of
               [] \<Rightarrow> None
             | d # r' \<Rightarrow> if d = CHR '']'' then Some ([], r') else scan_elems (length (d # r')) (d # r'))
          else if strings_HasPrefix (c # r) ''null'' then Some ([], drop 4 (c # r))
          else None)"

definition json_Unmarshal :: "string \<Rightarrow> goerr + string list" where
  "json_Unmarshal s =
     (case scan_array s of
        Some (xs, r) \<Rightarrow>
          if list_all json_space r then Inr xs else Inl (ErrMsg ''json: cannot unmarshal into []string'')
      | None \<Rightarrow> Inl (ErrMsg ''json: cannot unmarshal into []string''))"

section \<open>Decoding what was encoded\<close>

lemma is_hex_hexdigit:
  assumes "n < 16"
  shows "is_hex (hexdigit n) \<and> unhex (hexdigit n) = n"
proof -
  have "n \<in> set [0..<16]" using assms by simp
  moreover have "list_all (\<lambda>n. is_hex (hexdigit n) \<and> unhex (hexdigit n) = n) [0..<16]" by code_simp
  ultimately show ?thesis by (simp add: list_all_iff)
qed

lemma scan_escape:
  "scan_string (json_escape c @ s) = map_option (apfst (\<lambda>t. c # t)) (scan_string s)"
proof (cases "(of_char c :: nat) < 32 \<or> c \<in> set ''<>&''")
  case True
  then have less: "(of_char c :: nat) < 64"
    by (auto simp: of_char_def)
  show ?thesis
  proof (cases "c \<in> {CHR 0x08, CHR 0x0C, CHR 0x0A, CHR 0x0D, CHR 0x09}")
    case True
    then show ?thesis
      by (auto simp: json_escape_def scan_string.simps(2) simple_escape_def)
  next
    case False
    have quote: "c \<noteq> CHR 0x22" "c \<noteq> CHR 0x5C"
      using True by (auto simp: of_char_def)
    let ?a = "hexdigit (of_char c div 16)" and ?b = "hexdigit (of_char c mod 16)"
    have hex: "is_hex ?a" "is_hex ?b" "unhex ?a = of_char c div 16" "unhex ?b = of_char c mod 16"
      using less is_hex_hexdigit by simp_all
    have zero: "is_hex (CHR ''0'')" "unhex (CHR ''0'') = 0"
      by (simp_all add: is_hex_def is_digit_def unhex_def)
    have "getu4 ([CHR ''0'', CHR ''0'', ?a, ?b] @ s) = Some (of_char c)"
      by (simp add: getu4_def hex zero)
    moreover have "unicode_escape (of_char c) s = ([c], 0)"
      using less by (simp add: unicode_escape_def utf8_encode_def)
    moreover have "json_escape c = [CHR 0x5C, CHR ''u'', CHR ''0'', CHR ''0'', ?a, ?b]"
      using True False quote by (simp add: json_escape_def)
    moreover have "(@) [c] = (\<lambda>t. c # t)" by (rule ext) simp
    ultimately show ?thesis
      by (simp add: scan_string.simps(2) [of "CHR 0x5C"])
  qed
next
  case False
  show ?thesis
  proof (cases "c = CHR 0x22 \<or> c = CHR 0x5C")
    case True
    then show ?thesis
      by (auto simp: json_escape_def scan_string.simps(2) [of "CHR 0x5C"] simple_escape_def)
  next
    case no_quote: False
    from False have "c \<notin> {CHR 0x08, CHR 0x0C, CHR 0x0A, CHR 0x0D, CHR 0x09}" by auto
    with False no_quote have "json_escape c = [c]" by (simp add: json_escape_def)
    with False no_quote show ?thesis by (simp add: scan_string.simps(2) [of c])
  qed
qed

lemma scan_json_string: "scan_string (concat (map json_escape s) @ CHR 0x22 # r) = Some (s, r)"
proof (induction s)
  case Nil
  then show ?case by (simp add: scan_string.simps)
next
  case (Cons c s)
  then show ?case by (simp add: scan_escape)
qed

lemma scan_elem_json_string: "scan_elem (dropWhile json_space (json_string s @ r)) = Some (s, r)"
  by (simp add: json_string_def scan_elem_def json_space_def scan_json_string)

lemma scan_json_elems:
  "length xs \<le> n \<Longrightarrow> xs \<noteq> [] \<Longrightarrow> scan_elems n (json_elems xs) = Some (xs, [])"
proof (induction xs arbitrary: n rule: json_elems.induct)
  case 1
  then show ?case by simp
next
  case (2 s)
  then obtain m where "n = Suc m" by (cases n) auto
  then show ?case by (simp add: scan_elem_json_string json_space_def)
next
  case (3 s t r)
  then obtain m where "n = Suc m" by (cases n) auto
  with 3 show ?case by (simp add: scan_elem_json_string json_space_def)
qed

lemma json_elems_Cons: "\<exists>u. json_elems (x # xs) = CHR 0x22 # u"
  by (cases xs) (simp_all add: json_string_def)

lemma length_json_elems: "length xs \<le> length (json_elems xs)"
  by (induction xs rule: json_elems.induct) (auto simp: json_string_def)

lemma json_roundtrip: "json_Unmarshal (json_Marshal xs) = Inr xs"
proof (cases xs)
  case Nil
  then show ?thesis by (simp add: json_Marshal_def json_Unmarshal_def scan_array_def json_space_def)
next
  case (Cons y ys)
  obtain u where u: "json_elems xs = CHR 0x22 # u"
    using json_elems_Cons Cons by blast
  have "scan_elems (length (CHR 0x22 # u)) (CHR 0x22 # u) = Some (xs, [])"
    using scan_json_elems [OF length_json_elems, of xs] Cons unfolding u by blast
  then show ?thesis
    by (simp del: scan_elems.simps
        add: json_Marshal_def json_Unmarshal_def scan_array_def json_space_def u)
qed

lemma json_Marshal_not_Nil [simp]: "json_Marshal xs \<noteq> []"
  by (simp add: json_Marshal_def)

end
