(* ===== verification/CSIAddons_Node.thy ===== *)
theory CSIAddons_Node
  imports Finalizers Go_Json
begin

text \<open>
  The controller of CSIAddonsNode objects, \<open>internal/controller/csiaddons/csiaddonsnode_controller.go\<close>:
  for every sidecar that announces itself it opens a connection and stores it in the pool, retries
  a failing sidecar with growing delays and removes it in the end, and takes the connection out of
  the pool when the object is deleted.
\<close>

section \<open>The environment of the fencing and node controllers\<close>

text \<open>
  Answers of the API server and of the sidecars to the calls of these controllers, in the way of
  \<open>env\<close>. \<open>a_capString\<close> is the \<open>String\<close> method that the protobuf runtime generates for capabilities.
\<close>

record aenv =
  a_getNode :: "(nsname, csiaddons_node) answer"
  a_listNodes :: "(string, csiaddons_node list) answer"
  a_updateNode :: "(csiaddons_node, csiaddons_node) answer"
  a_statusNode :: "(csiaddons_node, csiaddons_node) answer"
  a_deleteNode :: "event list \<Rightarrow> csiaddons_node \<Rightarrow> goerr option"
  a_getPod :: "(nsname, pod) answer"
  a_getNFC :: "(nsname, network_fence_class) answer"
  a_updateNFC :: "(network_fence_class, network_fence_class) answer"
  a_getFence :: "(nsname, network_fence) answer"
  a_updateFence :: "(network_fence, network_fence) answer"
  a_statusFence :: "(network_fence, network_fence) answer"
  a_rpcGetFenceClients :: "(fence_req, client_detail list) rpc_answer"
  a_rpcFence :: "(fence_req, unit) rpc_answer"
  a_rpcUnfence :: "(fence_req, unit) rpc_answer"
  a_capString :: "capability \<Rightarrow> string"

definition aenv0 :: aenv where
  "aenv0 = \<lparr>a_getNode = (\<lambda>_ _. Inl notfound), a_listNodes = (\<lambda>_ _. Inr []),
     a_updateNode = (\<lambda>_ _. Inl notfound), a_statusNode = (\<lambda>_ _. Inl notfound),
     a_deleteNode = (\<lambda>_ _. Some notfound), a_getPod = (\<lambda>_ _. Inl notfound),
     a_getNFC = (\<lambda>_ _. Inl notfound), a_updateNFC = (\<lambda>_ _. Inl notfound),
     a_getFence = (\<lambda>_ _. Inl notfound), a_updateFence = (\<lambda>_ _. Inl notfound),
     a_statusFence = (\<lambda>_ _. Inl notfound), a_rpcGetFenceClients = (\<lambda>_ _ _. Inl unavailable),
     a_rpcFence = (\<lambda>_ _ _. Inl unavailable), a_rpcUnfence = (\<lambda>_ _ _. Inl unavailable),
     a_capString = (\<lambda>_. [])\<rparr>"

definition Get_Node :: "aenv \<Rightarrow> nsname \<Rightarrow> (goerr + csiaddons_node) prog" where
  "Get_Node a nn = call (\<lambda>h. a_getNode a h nn) (ApiGet ''CSIAddonsNode'' nn)"
definition Update_Node :: "aenv \<Rightarrow> csiaddons_node \<Rightarrow> (goerr + csiaddons_node) prog" where
  "Update_Node a n = call (\<lambda>h. a_updateNode a h n) (ApiUpdate (O_Node n))"
definition StatusUpdate_Node :: "aenv \<Rightarrow> csiaddons_node \<Rightarrow> (goerr + csiaddons_node) prog" where
  "StatusUpdate_Node a n = call (\<lambda>h. a_statusNode a h n) (ApiStatusUpdate (O_Node n))"
definition Delete_Node :: "aenv \<Rightarrow> csiaddons_node \<Rightarrow> goerr option prog" where
  "Delete_Node a n = call (\<lambda>h. a_deleteNode a h n) (ApiDelete (O_Node n))"
definition Get_Pod :: "aenv \<Rightarrow> nsname \<Rightarrow> (goerr + pod) prog" where
  "Get_Pod a nn = call (\<lambda>h. a_getPod a h nn) (ApiGet ''Pod'' nn)"
definition Get_NFC :: "aenv \<Rightarrow> nsname \<Rightarrow> (goerr + network_fence_class) prog" where
  "Get_NFC a nn = call (\<lambda>h. a_getNFC a h nn) (ApiGet ''NetworkFenceClass'' nn)"

lemmas node_api_defs =
  Get_Node_def Update_Node_def StatusUpdate_Node_def Delete_Node_def Get_Pod_def Get_NFC_def

section \<open>Constants and the reconciler\<close>

abbreviation (input) maxRetries :: int where "maxRetries \<equiv> 3"
abbreviation (input) baseRequeueAfter :: duration where "baseRequeueAfter \<equiv> hour"
definition csiAddonsNodeFinalizer :: string where
  "csiAddonsNodeFinalizer = ''csiaddons.openshift.io/csiaddonsnode''"
definition networkFenceClassAnnotationKey :: string where
  "networkFenceClassAnnotationKey = ''csiaddons.openshift.io/networkfenceclass-names''"
definition networkFenceParameterPrefix :: string where
  "networkFenceParameterPrefix = ''csiaddons.openshift.io/''"
definition prefixedNetworkFenceSecretNameKey :: string where
  "prefixedNetworkFenceSecretNameKey = networkFenceParameterPrefix @ ''networkfence-secret-name''"
definition prefixedNetworkFenceSecretNamespaceKey :: string where
  "prefixedNetworkFenceSecretNamespaceKey = networkFenceParameterPrefix @ ''networkfence-secret-namespace''"

lemma secret_keys_distinct [simp]:
  "prefixedNetworkFenceSecretNameKey \<noteq> prefixedNetworkFenceSecretNamespaceKey"
  "prefixedNetworkFenceSecretNamespaceKey \<noteq> prefixedNetworkFenceSecretNameKey"
  by (simp_all add: prefixedNetworkFenceSecretNameKey_def prefixedNetworkFenceSecretNamespaceKey_def)

record node_reconciler =
  nr_EnableAuth :: bool
  nr_BaseRetryDelay :: duration

section \<open>Pure helpers\<close>

definition validateCSIAddonsNodeSpec :: "csiaddons_node \<Rightarrow> goerr option" where
  "validateCSIAddonsNodeSpec n =
     (if can_driverName n = []
      then Some (ErrMsg ''required parameter 'Name' in CSIAddonsNode.Spec.Driver is empty'')
      else if can_endPoint n = []
      then Some (ErrMsg ''required parameter 'EndPoint' in CSIAddonsNode.Spec.Driver is empty'')
      else None)"

text \<open>Namespace, pod name and port of an endpoint.\<close>

definition parseEndpoint :: "string \<Rightarrow> goerr + string \<times> string \<times> string" where
  "parseEndpoint rawURL =
     (case url_Parse rawURL of
        Inl err \<Rightarrow> Inl (ErrWrap (''failed to parse endpoint '' @ fmt_q rawURL @ '': '') err [])
      | Inr endpoint \<Rightarrow>
          if u_Scheme endpoint \<noteq> ''pod''
          then Inl (ErrMsg (''endpoint scheme '' @ fmt_q (u_Scheme endpoint) @ '' not supported''))
          else
            (let hostName = Hostname endpoint;
                 malformed = Inl (ErrMsg (''hostname '' @ fmt_q hostName @ '' is not in <pod>.<namespace> format''))
             in
             (case strings_LastIndex hostName (CHR ''.'') of
                None \<Rightarrow> malformed
              | Some lastIndex \<Rightarrow>
                  if lastIndex = 0 \<or> lastIndex = length hostName - 1 then malformed
                  else Inr (drop (lastIndex + 1) hostName, take lastIndex hostName, Port endpoint))))"

definition parseCapabilities :: "aenv \<Rightarrow> capability list \<Rightarrow> string list" where
  "parseCapabilities a caps =
     map (\<lambda>cap. strings_ReplaceAll (strings_ReplaceAll (a_capString a cap) '':{type:'' ''.'') ''}'' []) caps"

definition getRetryCountFromReason :: "string \<Rightarrow> goerr + int" where
  "getRetryCountFromReason reason =
     (if reason = [] then Inr 0
      else
        (case strings_SplitN2 reason (CHR '':'') of
           [_, part] \<Rightarrow>
             (case strconv_Atoi (strings_TrimSpace part) of
                Some c \<Rightarrow> Inr c
              | None \<Rightarrow> Inl (ErrMsg ''failed to parse the reason string to an integer''))
         | _ \<Rightarrow> Inl (ErrMsg ''got an unexpected length after splitting the reason string'')))"

definition retryingReason :: "int \<Rightarrow> string" where
  "retryingReason attempt = ''currentAttempt: '' @ fmt_d attempt"

text \<open>\<open>time.Duration(math.Pow(2, float64(n)))\<close> truncates the fractions of negative exponents.\<close>

definition backoff_delay :: "duration \<Rightarrow> int \<Rightarrow> duration" where
  "backoff_delay base currentRetries = wrap64 (base * (if currentRetries < 0 then 0 else 2 ^ nat currentRetries))"

definition node_set_finalizers :: "string list \<Rightarrow> csiaddons_node \<Rightarrow> csiaddons_node" where
  "node_set_finalizers fs n = n\<lparr>can_meta := (can_meta n)\<lparr>om_finalizers := fs\<rparr>\<rparr>"

section \<open>Operations\<close>

definition Node_addFinalizer :: "aenv \<Rightarrow> csiaddons_node \<Rightarrow> (csiaddons_node \<times> goerr option) prog" where
  "Node_addFinalizer a n =
     (if csiAddonsNodeFinalizer \<notin> set (om_finalizers (can_meta n)) then do {
        let n = node_set_finalizers (om_finalizers (can_meta n) @ [csiAddonsNodeFinalizer]) n;
        r \<leftarrow> Update_Node a n;
        ret (update_result n (\<lambda>err. err) r)
      } else ret (n, None))"

definition Node_removeFinalizer :: "aenv \<Rightarrow> csiaddons_node \<Rightarrow> (csiaddons_node \<times> goerr option) prog" where
  "Node_removeFinalizer a n =
     (if csiAddonsNodeFinalizer \<in> set (om_finalizers (can_meta n)) then do {
        let n = node_set_finalizers (RemoveFromSlice (om_finalizers (can_meta n)) csiAddonsNodeFinalizer) n;
        r \<leftarrow> Update_Node a n;
        ret (update_result n (\<lambda>err. err) r)
      } else ret (n, None))"

text \<open>The pod name is returned with an error too: the caller derives the key of the connection from it.\<close>

definition resolveEndpoint :: "aenv \<Rightarrow> string \<Rightarrow> (string \<times> string \<times> goerr option) prog" where
  "resolveEndpoint a rawURL =
     (case parseEndpoint rawURL of
        Inl err \<Rightarrow> ret ([], [], Some err)
      | Inr (namespace, podname, port) \<Rightarrow> do {
          r \<leftarrow> Get_Pod a \<lparr>nn_namespace = namespace, nn_name = podname\<rparr>;
          (case r of
             Inl err \<Rightarrow>
               ret (podname, [], Some (ErrWrap (''failed to get pod '' @ namespace @ ''/'' @ podname @ '': '') err []))
           | Inr pd \<Rightarrow>
               if pod_ip pd = []
               then ret (podname, [], Some (ErrMsg (''pod '' @ namespace @ ''/'' @ podname @
                      '' does not have an IP-address'')))
               else
                 (let ip = (if 2 \<le> strings_Count (pod_ip pd) (CHR '':'') then ''['' @ pod_ip pd @ '']'' else pod_ip pd)
                  in ret (podname, ip @ '':'' @ port, None)))
        })"

definition backoffAndRetry :: "aenv \<Rightarrow> node_reconciler \<Rightarrow> csiaddons_node \<Rightarrow> goerr \<Rightarrow> outcome prog" where
  "backoffAndRetry a r n err =
     (case getRetryCountFromReason (can_reason n) of
        Inl e \<Rightarrow> ret (done_err e)
      | Inr currentRetries \<Rightarrow>
          if maxRetries \<le> currentRetries then do {
            delErr \<leftarrow> Delete_Node a n;
            (case delErr of
               None \<Rightarrow> ret done_ok
             | Some de \<Rightarrow> if IsNotFound de then ret done_ok else ret (done_err de))
          }
          else do {
            let n = n\<lparr>can_state := NodeRetrying,
                can_message := ''Connection failed: '' @ GetErrorMessage err @ ''. Retrying attempt '' @
                  fmt_d (currentRetries + 1) @ ''/'' @ fmt_d maxRetries @ ''.'',
                can_reason := retryingReason (currentRetries + 1)\<rparr>;
            st \<leftarrow> StatusUpdate_Node a n;
            (case st of
               Inl statusErr \<Rightarrow> ret (done_err statusErr)
             | Inr _ \<Rightarrow>
                 ret (Returned \<lparr>rr_requeue = False,
                        rr_requeueAfter = backoff_delay (nr_BaseRetryDelay r) currentRetries\<rparr> None))
          })"

fun getNetworkFenceClasses_loop :: "aenv \<Rightarrow> string list \<Rightarrow> (goerr + network_fence_class list) prog" where
  "getNetworkFenceClasses_loop a [] = ret (Inr [])"
| "getNetworkFenceClasses_loop a (c # cs) = do {
     r \<leftarrow> Get_NFC a \<lparr>nn_namespace = [], nn_name = c\<rparr>;
     (case r of
        Inl err \<Rightarrow> ret (Inl err)
      | Inr nfc \<Rightarrow> do {
          rs \<leftarrow> getNetworkFenceClasses_loop a cs;
          (case rs of Inl err \<Rightarrow> ret (Inl err) | Inr nfcs \<Rightarrow> ret (Inr (nfc # nfcs)))
        })
   }"

definition getNetworkFenceClassesForDriver ::
  "aenv \<Rightarrow> csiaddons_node \<Rightarrow> (goerr + network_fence_class list) prog" where
  "getNetworkFenceClassesForDriver a n =
     (case map_of (om_annotations (can_meta n)) networkFenceClassAnnotationKey of
        None \<Rightarrow> ret (Inr [])
      | Some classesJSON \<Rightarrow>
          (case json_Unmarshal classesJSON of
             Inl err \<Rightarrow> ret (Inl err)
           | Inr classes \<Rightarrow> getNetworkFenceClasses_loop a classes))"

text \<open>\<open>None\<close> is the nil answer for a driver without the capability.\<close>

definition getFenceClientDetails ::
  "aenv \<Rightarrow> connection \<Rightarrow> network_fence_class \<Rightarrow> (goerr + client_detail list option) prog" where
  "getFenceClientDetails a conn nfc =
     (let param = nfc_parameters nfc;
          secretName = mget param prefixedNetworkFenceSecretNameKey;
          secretNamespace = mget param prefixedNetworkFenceSecretNamespaceKey;
          param = AList.delete prefixedNetworkFenceSecretNamespaceKey
                    (AList.delete prefixedNetworkFenceSecretNameKey param)
      in
      if \<exists>cap \<in> set (cn_Capabilities conn). cap = CapNetworkFence GET_CLIENTS_TO_FENCE then do {
        let req = \<lparr>fq_parameters = param, fq_secretName = secretName, fq_secretNamespace = secretNamespace,
                   fq_cidrs = []\<rparr>;
        res \<leftarrow> call (\<lambda>h. a_rpcGetFenceClients a h (cn_Client conn) req) (Rpc (cn_Client conn) (RpcGetFenceClients req));
        (case res of
           Inl err \<Rightarrow> ret (Inl err)
         | Inr clients \<Rightarrow> ret (Inr (Some clients)))
      }
      else ret (Inr None))"

definition getClientDetails :: "client_detail list \<Rightarrow> client_detail list" where
  "getClientDetails clients = map (\<lambda>c. \<lparr>cl_id = cl_id c, cl_cidrs = cl_cidrs c\<rparr>) clients"

fun getNetworkFenceClientStatus_loop ::
  "aenv \<Rightarrow> connection \<Rightarrow> network_fence_class list \<Rightarrow> fence_client_status list \<Rightarrow>
   (goerr + fence_client_status list) prog" where
  "getNetworkFenceClientStatus_loop a conn [] nfsc = ret (Inr nfsc)"
| "getNetworkFenceClientStatus_loop a conn (nfc # nfcs) nfsc = do {
     r \<leftarrow> getFenceClientDetails a conn nfc;
     (case r of
        Inl err \<Rightarrow> ret (Inl err)
      | Inr None \<Rightarrow> getNetworkFenceClientStatus_loop a conn nfcs nfsc
      | Inr (Some clients) \<Rightarrow>
          getNetworkFenceClientStatus_loop a conn nfcs
            (nfsc @ [\<lparr>fcs_className = om_name (nfc_meta nfc), fcs_clients = getClientDetails clients\<rparr>]))
   }"

definition getNetworkFenceClientStatus ::
  "aenv \<Rightarrow> connection \<Rightarrow> csiaddons_node \<Rightarrow> (goerr + fence_client_status list) prog" where
  "getNetworkFenceClientStatus a conn n = do {
     r \<leftarrow> getNetworkFenceClassesForDriver a n;
     (case r of
        Inl err \<Rightarrow> ret (Inl err)
      | Inr nfclasses \<Rightarrow> getNetworkFenceClientStatus_loop a conn nfclasses [])
   }"

section \<open>Reconcile\<close>

definition node_connected :: "aenv \<Rightarrow> connection \<Rightarrow> fence_client_status list \<Rightarrow> csiaddons_node \<Rightarrow> csiaddons_node" where
  "node_connected a conn nfsc n =
     n\<lparr>can_fenceClients := nfsc, can_state := NodeConnected,
       can_message := ''Successfully established connection with sidecar'', can_reason := [],
       can_capabilities := parseCapabilities a (cn_Capabilities conn)\<rparr>"

text \<open>
  The parts of \<open>Reconcile\<close> for an object that is kept: with a connection, ask for the clients to
  fence, store the connection and report; before that, protect the object and connect.
\<close>

definition Node_store :: "env \<Rightarrow> aenv \<Rightarrow> string \<Rightarrow> csiaddons_node \<Rightarrow> connection \<Rightarrow> outcome prog" where
  "Node_store e a key n newConn = do {
     nr \<leftarrow> getNetworkFenceClientStatus a newConn n;
     (case nr of
        Inl er \<Rightarrow> ret (done_err er)
      | Inr nfsc \<Rightarrow> do {
          Put e key newConn;
          st \<leftarrow> StatusUpdate_Node a (node_connected a newConn nfsc n);
          (case st of
             Inl er \<Rightarrow> ret (done_err er)
           | Inr _ \<Rightarrow> ret (Returned \<lparr>rr_requeue = False, rr_requeueAfter = baseRequeueAfter\<rparr> None))
        })
   }"

definition Node_connect ::
  "env \<Rightarrow> aenv \<Rightarrow> node_reconciler \<Rightarrow> string \<Rightarrow> string \<Rightarrow> string \<Rightarrow> string \<Rightarrow> csiaddons_node \<Rightarrow> outcome prog" where
  "Node_connect e a r key endPoint nodeID driverName n = do {
     (n, err) \<leftarrow> Node_addFinalizer a n;
     (case err of
        Some er \<Rightarrow> ret (done_err er)
      | None \<Rightarrow> do {
          cr \<leftarrow> NewConnection e endPoint nodeID driverName (om_namespace (can_meta n)) (om_name (can_meta n))
                  (nr_EnableAuth r);
          (case cr of
             Inl er \<Rightarrow> backoffAndRetry a r n er
           | Inr newConn \<Rightarrow> Node_store e a key n newConn)
        })
   }"

definition Node_delete :: "env \<Rightarrow> aenv \<Rightarrow> string \<Rightarrow> csiaddons_node \<Rightarrow> outcome prog" where
  "Node_delete e a key n = do {
     Delete e key;
     (_, err) \<leftarrow> Node_removeFinalizer a n;
     ret (Returned rr_empty err)
   }"

definition Node_invalid :: "aenv \<Rightarrow> csiaddons_node \<Rightarrow> goerr \<Rightarrow> outcome prog" where
  "Node_invalid a n err = do {
     st \<leftarrow> StatusUpdate_Node a (n\<lparr>can_state := NodeFailed,
       can_message := ''Failed to validate CSIAddonsNode parameters: '' @ Error err\<rparr>);
     (case st of Inl statusErr \<Rightarrow> ret (done_err statusErr) | Inr _ \<Rightarrow> ret done_ok)
   }"

definition Node_Reconcile :: "env \<Rightarrow> aenv \<Rightarrow> node_reconciler \<Rightarrow> nsname \<Rightarrow> outcome prog" where
  "Node_Reconcile e a r req = do {
     nr \<leftarrow> Get_Node a req;
     (case nr of
        Inl err \<Rightarrow> if IsNotFound err then ret done_ok else ret (done_err err)
      | Inr n \<Rightarrow>
          (case validateCSIAddonsNodeSpec n of
             Some err \<Rightarrow> Node_invalid a n err
           | None \<Rightarrow> do {
               (podName, endPoint, err) \<leftarrow> resolveEndpoint a (can_endPoint n);
               if err \<noteq> None \<and> om_deletionTimestamp (can_meta n) = None
               then backoffAndRetry a r n
                 (ErrWrap (''failed to resolve endpoint '' @ fmt_q (can_endPoint n) @ '': '') (the err) [])
               else
                 (case NormalizeLeaseName podName of
                    None \<Rightarrow> ret (Panicked ''index out of range [-1]'')
                  | Some pn \<Rightarrow>
                      (let key = om_namespace (can_meta n) @ ''/'' @ pn in
                       if om_deletionTimestamp (can_meta n) \<noteq> None then Node_delete e a key n
                       else Node_connect e a r key endPoint (can_nodeID n) (can_driverName n) n))
             }))
   }"

section \<open>Finalizers\<close>

interpretation node_fin: finalizer_kind "\<lambda>n. om_finalizers (can_meta n)" node_set_finalizers
  csiAddonsNodeFinalizer Node_addFinalizer Node_removeFinalizer a_updateNode "\<lambda>x. ApiUpdate (O_Node x)"
  by unfold_locales
    (auto simp: node_set_finalizers_def Node_addFinalizer_def Node_removeFinalizer_def Update_Node_def
      run_defs Let_def)

section \<open>Retries\<close>

lemma SplitN2_retryingReason: "strings_SplitN2 (retryingReason i) (CHR '':'') = [''currentAttempt'', '' '' @ fmt_d i]"
  by (simp add: strings_SplitN2_def retryingReason_def)

lemma retry_roundtrip:
  assumes "- (2 ^ 63) \<le> i" "i < 2 ^ 63"
  shows "getRetryCountFromReason (retryingReason i) = Inr i"
proof -
  have "strings_TrimSpace ('' '' @ fmt_d i) = fmt_d i"
    using fmt_d_no_space by (simp add: strings_TrimSpace_lead strings_TrimSpace_id)
  moreover have "retryingReason i \<noteq> []" by (simp add: retryingReason_def)
  ultimately show ?thesis
    using Atoi_fmt_d [OF assms]
    by (simp add: getRetryCountFromReason_def SplitN2_retryingReason del: append.simps)
qed

end
