(* ===== verification/Node_Facts.thy ===== *)
theory Node_Facts
  imports CSIAddons_Node
begin

text \<open>
  What the node controller does on every path: the calls each part may make, the pool it leaves,
  the retries of a failing sidecar as a transition system, and the addresses of pods.
\<close>

section \<open>Calls\<close>

text \<open>The node controller reports in status updates only; everything before makes none.\<close>

definition no_report :: "event list \<Rightarrow> event \<Rightarrow> bool" where
  "no_report h ev \<longleftrightarrow> (\<forall>m. ev \<noteq> ApiStatusUpdate (O_Node m))"

lemma no_report_simps [simp]:
  "no_report h (ApiGet k nn)" "no_report h (ApiUpdate x)" "no_report h (Rpc c q)" "no_report h (Dial ep b)"
  "no_report h (GetState d)" "no_report h (CloseClient d)" "no_report h (ApiDelete x)"
  "\<not> no_report h (ApiStatusUpdate (O_Node m))"
  by (simp_all add: no_report_def)

lemma emits_NewConnection:
  assumes "\<And>h ep b. R h (Dial ep b)" "\<And>h c. R h (Rpc (Some c) RpcGetCapabilities)"
    "\<And>h c. R h (CloseClient c)"
  shows "emits R (NewConnection e ep nid drv ns nm auth)"
  unfolding NewConnection_def Connect_def reusable_def reconnect_def fetchCapabilities_def closeClient_def
  by (auto intro!: emits_intros assms simp del: split_paired_All split: option.splits)

lemma emits_Put: "(\<And>h c. R h (CloseClient c)) \<Longrightarrow> emits R (Put e k c)"
  unfolding Put_def Close_def closeClient_def by (auto intro!: emits_intros)

lemma emits_Delete: "(\<And>h c. R h (CloseClient c)) \<Longrightarrow> emits R (Delete e k)"
  unfolding Delete_def Close_def closeClient_def by (auto intro!: emits_intros)

lemma emits_getNetworkFenceClasses_loop:
  "(\<And>h nn. R h (ApiGet ''NetworkFenceClass'' nn)) \<Longrightarrow> emits R (getNetworkFenceClasses_loop a cs)"
  by (induction cs) (auto simp: Get_NFC_def intro!: emits_intros)

lemma emits_getFenceClientDetails:
  assumes "\<And>h c q. mget (fq_parameters q) prefixedNetworkFenceSecretNameKey = [] \<Longrightarrow>
      mget (fq_parameters q) prefixedNetworkFenceSecretNamespaceKey = [] \<Longrightarrow> R h (Rpc c (RpcGetFenceClients q))"
  shows "emits R (getFenceClientDetails a conn nfc)"
  unfolding getFenceClientDetails_def Let_def by (auto intro!: emits_intros assms)

lemma emits_getNetworkFenceClientStatus_loop:
  assumes "\<And>nfc. emits R (getFenceClientDetails a conn nfc)"
  shows "emits R (getNetworkFenceClientStatus_loop a conn nfcs acc)"
  using assms by (induction nfcs arbitrary: acc) (auto intro!: emits_intros)

lemma emits_getNetworkFenceClientStatus:
  assumes "\<And>h nn. R h (ApiGet ''NetworkFenceClass'' nn)" "\<And>nfc. emits R (getFenceClientDetails a conn nfc)"
  shows "emits R (getNetworkFenceClientStatus a conn n)"
  unfolding getNetworkFenceClientStatus_def getNetworkFenceClassesForDriver_def
  by (intro emits_intros emits_getNetworkFenceClasses_loop emits_getNetworkFenceClientStatus_loop assms)

lemma no_report_early:
  "emits no_report (Node_addFinalizer a n)" "emits no_report (NewConnection e ep nid drv ns nm auth)"
  "emits no_report (getNetworkFenceClientStatus a conn n)" "emits no_report (Put e k c)"
  "emits no_report (resolveEndpoint a url)"
  subgoal by (rule node_fin.emits_add) simp
  subgoal by (rule emits_NewConnection) simp_all
  subgoal by (intro emits_getNetworkFenceClientStatus emits_getFenceClientDetails) simp_all
  subgoal by (rule emits_Put) simp
  subgoal unfolding resolveEndpoint_def Get_Pod_def Let_def by (intro emits_intros) simp
  done

section \<open>The pool\<close>

lemma keeps_pool_node_fin [pool_intros]:
  "keeps_pool (Node_addFinalizer a n)" "keeps_pool (Node_removeFinalizer a n)"
  unfolding Node_addFinalizer_def Node_removeFinalizer_def Update_Node_def by (intro pool_intros)+

lemma keeps_pool_NewConnection [pool_intros]: "keeps_pool (NewConnection e ep nid drv ns nm auth)"
  unfolding NewConnection_def Connect_def reusable_def reconnect_def fetchCapabilities_def closeClient_def
  by (intro pool_intros)

lemma keeps_pool_loops [pool_intros]:
  "keeps_pool (getNetworkFenceClasses_loop a cs)"
  "keeps_pool (getFenceClientDetails a conn nfc)"
  "keeps_pool (getNetworkFenceClientStatus_loop a conn nfcs acc)"
proof -
  show "keeps_pool (getNetworkFenceClasses_loop a cs)"
    by (induction cs) (auto simp: Get_NFC_def intro!: pool_intros)
  show details: "keeps_pool (getFenceClientDetails a conn nfc)" for nfc
    unfolding getFenceClientDetails_def Let_def by (intro pool_intros)
  show "keeps_pool (getNetworkFenceClientStatus_loop a conn nfcs acc)"
    using details by (induction nfcs arbitrary: acc) (auto intro!: pool_intros)
qed

lemma keeps_pool_status [pool_intros]:
  "keeps_pool (getNetworkFenceClientStatus a conn n)" "keeps_pool (backoffAndRetry a r n err)"
  "keeps_pool (resolveEndpoint a url)" "keeps_pool (Node_invalid a n err)"
  unfolding getNetworkFenceClientStatus_def getNetworkFenceClassesForDriver_def backoffAndRetry_def
    resolveEndpoint_def Node_invalid_def node_api_defs
  by (intro pool_intros)+

lemma NewConnection_ok:
  assumes "run_state (NewConnection e ep nid drv ns nm auth) w = (Inr c, w')"
  shows "cn_Client c \<noteq> None \<and> cn_NodeID c = nid \<and> cn_DriverName c = drv \<and> cn_endpoint c = ep \<and> cn_Namespace c = ns"
proof -
  let ?c0 = "\<lparr>cn_Client = None, cn_Capabilities = [], cn_Namespace = ns, cn_Name = nm,
    cn_NodeID = nid, cn_DriverName = drv, cn_Timeout = minute,
    cn_enableAuth = auth, cn_endpoint = ep, cn_podName = nm\<rparr>"
  obtain c' err w1 where con: "run_state (Connect e ?c0) w = ((c', err), w1)"
    and rest: "run_state (case err of Some er \<Rightarrow> ret (Inl er) | None \<Rightarrow> ret (Inr c')) w1 = (Inr c, w')"
    using assms unfolding NewConnection_def by (elim run_bindE) (auto split: prod.splits)
  from rest have "err = None" "c' = c" by (auto split: option.splits)
  with Connect_frame [OF con] conn_id_eqD [of c ?c0] show ?thesis by simp
qed

section \<open>Connected nodes\<close>

lemma backoff_report:
  assumes "run_state (backoffAndRetry a r n err) w = (out, w')" "appended w w' i (ApiStatusUpdate (O_Node m))"
  shows "can_state m = NodeRetrying"
proof -
  have "emits (\<lambda>h ev. \<forall>m. ev = ApiStatusUpdate (O_Node m) \<longrightarrow> can_state m = NodeRetrying) (backoffAndRetry a r n err)"
    unfolding backoffAndRetry_def Delete_Node_def StatusUpdate_Node_def Let_def
    by (auto intro!: emits_intros)
  from emits_appended [OF this assms] show ?thesis by simp
qed

text \<open>From \<open>w\<close> to \<open>w'\<close> nothing was reported and the pool stayed as it was.\<close>

definition quiet_run :: "world \<Rightarrow> world \<Rightarrow> bool" where
  "quiet_run w w' \<longleftrightarrow> (\<exists>es. trace w' = trace w @ es \<and> (\<forall>m. ApiStatusUpdate (O_Node m) \<notin> set es))"

lemma quiet_runI: "emits no_report p \<Longrightarrow> run_state p w = (x, w') \<Longrightarrow> quiet_run w w'"
  unfolding quiet_run_def
  by (metis (mono_tags, lifting) emitsD in_set_conv_nth no_report_simps(8) steps_ok_def)

lemma quiet_run_trans: "quiet_run w w' \<Longrightarrow> quiet_run w' w'' \<Longrightarrow> quiet_run w w''"
  by (auto simp: quiet_run_def)

lemma quiet_run_appended:
  "quiet_run w w' \<Longrightarrow> appended w w'' i (ApiStatusUpdate (O_Node m)) \<Longrightarrow> extends (trace w') (trace w'') \<Longrightarrow>
     appended w' w'' i (ApiStatusUpdate (O_Node m))"
proof (unfold quiet_run_def appended_def extends_def, elim exE conjE)
  fix es es'
  assume w: "trace w' = trace w @ es" "\<forall>m. ApiStatusUpdate (O_Node m) \<notin> set es"
    and i: "length (trace w) \<le> i" "i < length (trace w'')" "trace w'' ! i = ApiStatusUpdate (O_Node m)"
    and w'': "trace w'' = trace w' @ es'"
  have "\<not> i < length (trace w')"
  proof
    assume less: "i < length (trace w')"
    with i(1) w(1) have "trace w' ! i \<in> set es" by (auto simp: nth_append)
    with less w(2) i(3) w'' show False by (simp add: nth_append)
  qed
  with i show "length (trace w') \<le> i \<and> i < length (trace w'') \<and> trace w'' ! i = ApiStatusUpdate (O_Node m)"
    by simp
qed

lemma emits_extends: "emits R m \<Longrightarrow> run_state m w = (x, w') \<Longrightarrow> extends (trace w) (trace w')"
  by (auto simp: extends_def elim: emitsD)

lemma quiet_early:
  "run_state (Node_addFinalizer a n) w = (x1, w') \<Longrightarrow> quiet_run w w'"
  "run_state (NewConnection e ep nid drv ns nm auth) w = (x2, w') \<Longrightarrow> quiet_run w w'"
  "run_state (getNetworkFenceClientStatus a conn n) w = (x3, w') \<Longrightarrow> quiet_run w w'"
  "run_state (Put e k c) w = (x4, w') \<Longrightarrow> quiet_run w w'"
  "run_state (resolveEndpoint a url) w = (x5, w') \<Longrightarrow> quiet_run w w'"
  by (erule quiet_runI [OF no_report_early(1)] quiet_runI [OF no_report_early(2)]
      quiet_runI [OF no_report_early(3)] quiet_runI [OF no_report_early(4)] quiet_runI [OF no_report_early(5)])+

lemma emits_true_backoff: "emits (\<lambda>_ _. True) (backoffAndRetry a r n err)"
  unfolding backoffAndRetry_def Delete_Node_def StatusUpdate_Node_def Let_def by (intro emits_intros) simp_all

lemma Node_store_paths:
  assumes "run_state (Node_store e a key n c) w = (out, w')"
  shows "quiet_run w w' \<or>
    (\<exists>w2 nfsc. quiet_run w w2 \<and> map_of (pool w2) key = Some c \<and>
       w' = w2\<lparr>trace := trace w2 @ [ApiStatusUpdate (O_Node (node_connected a c nfsc n))]\<rparr>)"
proof -
  obtain nr w1 where s1: "run_state (getNetworkFenceClientStatus a c n) w = (nr, w1)"
    and rest: "run_state (case nr of Inl er \<Rightarrow> ret (done_err er) | Inr nfsc \<Rightarrow> do {
        Put e key c;
        st \<leftarrow> StatusUpdate_Node a (node_connected a c nfsc n);
        (case st of Inl er \<Rightarrow> ret (done_err er)
         | Inr _ \<Rightarrow> ret (Returned \<lparr>rr_requeue = False, rr_requeueAfter = baseRequeueAfter\<rparr> None)) }) w1 = (out, w')"
    using assms unfolding Node_store_def by (rule run_bindE)
  note q1 = quiet_early(3) [OF s1]
  show ?thesis
  proof (cases nr)
    case (Inl er)
    with rest q1 show ?thesis by simp
  next
    case (Inr nfsc)
    obtain w2 where s2: "run_state (Put e key c) w1 = ((), w2)"
      by (metis (full_types) old.unit.exhaust surj_pair)
    then have "map_of (pool w2) key = Some c" "quiet_run w w2"
      using pool_Put [of e key c w1] quiet_run_trans [OF q1 quiet_early(4)] by (simp_all add: update_conv')
    moreover have "w' = w2\<lparr>trace := trace w2 @ [ApiStatusUpdate (O_Node (node_connected a c nfsc n))]\<rparr>"
      using rest s2 Inr by (auto simp: StatusUpdate_Node_def run_call split: sum.splits)
    ultimately show ?thesis by blast
  qed
qed

text \<open>The paths through \<open>Node_connect\<close>: an end without a report, a retry, or the stored connection.\<close>

lemma Node_connect_paths:
  assumes "run_state (Node_connect e a r key ep nid drv n) w = (out, w')"
  shows "quiet_run w w' \<or>
    (\<exists>n1 w1 er. quiet_run w w1 \<and> run_state (backoffAndRetry a r n1 er) w1 = (out, w')) \<or>
    (\<exists>n1 w1 w2 w3 c nfsc ns nm. quiet_run w w3 \<and>
       run_state (NewConnection e ep nid drv ns nm (nr_EnableAuth r)) w1 = (Inr c, w2) \<and>
       map_of (pool w3) key = Some c \<and>
       w' = w3\<lparr>trace := trace w3 @ [ApiStatusUpdate (O_Node (node_connected a c nfsc n1))]\<rparr>)"
proof -
  obtain n1 err w1 where s1: "run_state (Node_addFinalizer a n) w = ((n1, err), w1)" by (metis prod.collapse)
  note q1 = quiet_early(1) [OF s1]
  show ?thesis
  proof (cases err)
    case (Some er)
    with assms s1 q1 show ?thesis by (simp add: Node_connect_def)
  next
    case None
    let ?new = "NewConnection e ep nid drv (om_namespace (can_meta n1)) (om_name (can_meta n1)) (nr_EnableAuth r)"
    obtain cr w2 where s2: "run_state ?new w1 = (cr, w2)" by fastforce
    note q2 = quiet_run_trans [OF q1 quiet_early(2) [OF s2]]
    have rest: "run_state (case cr of Inl er \<Rightarrow> backoffAndRetry a r n1 er | Inr c \<Rightarrow> Node_store e a key n1 c) w2 = (out, w')"
      using assms s1 s2 None by (simp add: Node_connect_def)
    show ?thesis
    proof (cases cr)
      case (Inl er)
      with rest q2 show ?thesis by auto
    next
      case (Inr c)
      with rest have "run_state (Node_store e a key n1 c) w2 = (out, w')" by simp
      from Node_store_paths [OF this] s2 [unfolded Inr] q2 show ?thesis by (blast intro: quiet_run_trans)
    qed
  qed
qed

lemma Node_connect_report:
  assumes run: "run_state (Node_connect e a r key ep nid drv n) w = (out, w')"
    and rep: "appended w w' i (ApiStatusUpdate (O_Node m))" "can_state m = NodeConnected"
  shows "\<exists>c. map_of (pool w') key = Some c \<and> cn_Client c \<noteq> None \<and> cn_NodeID c = nid \<and> cn_DriverName c = drv \<and>
    cn_endpoint c = ep \<and> can_capabilities m = parseCapabilities a (cn_Capabilities c) \<and> can_reason m = []"
  using Node_connect_paths [OF run]
proof (elim disjE exE conjE)
  assume "quiet_run w w'"
  from quiet_run_appended [OF this rep(1)] show ?thesis by simp
next
  fix n1 w1 er
  assume q: "quiet_run w w1" and retry: "run_state (backoffAndRetry a r n1 er) w1 = (out, w')"
  from quiet_run_appended [OF q rep(1) emits_extends [OF emits_true_backoff retry]] backoff_report [OF retry] rep(2)
  show ?thesis by auto
next
  fix n1 w1 w2 w3 c nfsc ns nm
  assume q: "quiet_run w w3" and nw: "run_state (NewConnection e ep nid drv ns nm (nr_EnableAuth r)) w1 = (Inr c, w2)"
    and c: "map_of (pool w3) key = Some c"
    and w': "w' = w3\<lparr>trace := trace w3 @ [ApiStatusUpdate (O_Node (node_connected a c nfsc n1))]\<rparr>"
  have "m = node_connected a c nfsc n1"
    using quiet_run_appended [OF q rep(1)] unfolding w' by (simp add: extends_def)
  with NewConnection_ok [OF nw] c w' show ?thesis by (simp add: node_connected_def)
qed

section \<open>Retries as a transition system\<close>

text \<open>
  What becomes of a node whose connection keeps failing: the delays that were asked for, and the
  object as the server has it, \<open>None\<close> once it is deleted. Each step is one run of \<open>backoffAndRetry\<close>,
  with any error, in any world.
\<close>

inductive failing :: "aenv \<Rightarrow> node_reconciler \<Rightarrow> csiaddons_node \<Rightarrow> duration list \<Rightarrow> csiaddons_node option \<Rightarrow> bool"
  for a r n0 where
  start: "failing a r n0 [] (Some n0)"
| again: "failing a r n0 ds (Some n) \<Longrightarrow> run_state (backoffAndRetry a r n err) w = (Returned rr None, w') \<Longrightarrow>
    trace w' = trace w @ [ApiStatusUpdate (O_Node m)] \<Longrightarrow> a_statusNode a (trace w) m = Inr m' \<Longrightarrow>
    failing a r n0 (ds @ [rr_requeueAfter rr]) (Some m')"
| gone: "failing a r n0 ds (Some n) \<Longrightarrow> run_state (backoffAndRetry a r n err) w = (Returned rr None, w') \<Longrightarrow>
    trace w' = trace w @ [ApiDelete (O_Node m)] \<Longrightarrow> failing a r n0 ds None"

lemma run_backoffAndRetry:
  assumes "getRetryCountFromReason (can_reason n) = Inr k"
  shows "run_state (backoffAndRetry a r n err) w =
    (if 3 \<le> k
     then (case a_deleteNode a (trace w) n of
             None \<Rightarrow> done_ok | Some de \<Rightarrow> if IsNotFound de then done_ok else done_err de,
           w\<lparr>trace := trace w @ [ApiDelete (O_Node n)]\<rparr>)
     else (let m = n\<lparr>can_state := NodeRetrying,
             can_message := ''Connection failed: '' @ GetErrorMessage err @ ''. Retrying attempt '' @
               fmt_d (k + 1) @ ''/'' @ fmt_d 3 @ ''.'', can_reason := retryingReason (k + 1)\<rparr>
           in (case a_statusNode a (trace w) m of
                 Inl e \<Rightarrow> done_err e
               | Inr _ \<Rightarrow> Returned \<lparr>rr_requeue = False, rr_requeueAfter = backoff_delay (nr_BaseRetryDelay r) k\<rparr> None,
               w\<lparr>trace := trace w @ [ApiStatusUpdate (O_Node m)]\<rparr>)))"
  using assms
  by (auto simp: backoffAndRetry_def Delete_Node_def StatusUpdate_Node_def run_defs Let_def
      split: option.splits sum.splits)

definition reason_of :: "nat \<Rightarrow> string" where
  "reason_of k = (if k = 0 then [] else retryingReason (int k))"

lemma retries_of_reason: "k < 2 ^ 62 \<Longrightarrow> getRetryCountFromReason (reason_of k) = Inr (int k)"
  using retry_roundtrip [of "int k"]
  by (auto simp: reason_of_def getRetryCountFromReason_def)

definition delays :: "duration \<Rightarrow> nat \<Rightarrow> duration list" where
  "delays base k = map (\<lambda>i. base * 2 ^ i) [0..<k]"

lemma failing_invariant:
  assumes "failing a r n0 ds s" "can_reason n0 = []"
    and keeps: "\<And>h m m'. a_statusNode a h m = Inr m' \<Longrightarrow> can_reason m' = can_reason m"
    and base: "0 \<le> nr_BaseRetryDelay r" "4 * nr_BaseRetryDelay r < 2 ^ 63"
  shows "ds = delays (nr_BaseRetryDelay r) (length ds) \<and>
    (case s of Some n \<Rightarrow> length ds \<le> 3 \<and> can_reason n = reason_of (length ds) | None \<Rightarrow> length ds = 3)"
  using assms(1)
proof (induction rule: failing.induct)
  case start
  then show ?case using assms(2) by (simp add: delays_def reason_of_def)
next
  case (again ds n err w rr w' m m')
  then have count: "getRetryCountFromReason (can_reason n) = Inr (int (length ds))"
    using retries_of_reason [of "length ds"] by simp
  have less: "length ds < 3"
    using again.hyps(2,3) again.IH unfolding run_backoffAndRetry [OF count] by (auto split: if_splits)
  then have "backoff_delay (nr_BaseRetryDelay r) (int (length ds)) = nr_BaseRetryDelay r * 2 ^ length ds"
  proof -
    have "length ds = 0 \<or> length ds = 1 \<or> length ds = 2" using less by linarith
    with base show ?thesis by (auto simp: backoff_delay_def intro!: wrap64_id)
  qed
  moreover have "can_reason m = retryingReason (int (length ds) + 1)"
      "rr_requeueAfter rr = backoff_delay (nr_BaseRetryDelay r) (int (length ds))"
    using again.hyps(2,3) less unfolding run_backoffAndRetry [OF count]
    by (auto simp: Let_def split: sum.splits)
  ultimately show ?case
    using again.IH again.hyps(4) keeps less by (auto simp: delays_def reason_of_def add.commute)
next
  case (gone ds n err w rr w' m)
  then have count: "getRetryCountFromReason (can_reason n) = Inr (int (length ds))"
    using retries_of_reason [of "length ds"] by simp
  show ?case
    using gone.hyps(2,3) gone.IH unfolding run_backoffAndRetry [OF count]
    by (auto simp: Let_def split: if_splits)
qed

section \<open>Panics\<close>

lemma backoff_no_panic: "returns (backoffAndRetry a r n err) (\<lambda>out. \<forall>msg. out \<noteq> Panicked msg)"
  unfolding returns_def backoffAndRetry_def Delete_Node_def StatusUpdate_Node_def
  by (auto simp: run_defs Let_def split: sum.splits option.splits)

lemma Node_store_no_panic: "returns (Node_store e a key n c) (\<lambda>out. \<forall>msg. out \<noteq> Panicked msg)"
  unfolding Node_store_def StatusUpdate_Node_def
  by (rule returns_any) (auto simp: returns_def run_call split: sum.splits prod.splits)

lemma Node_connect_no_panic: "returns (Node_connect e a r key ep nid drv n) (\<lambda>out. \<forall>msg. out \<noteq> Panicked msg)"
  unfolding Node_connect_def
  by (intro returns_any)
    (auto intro!: returns_any backoff_no_panic Node_store_no_panic returns_ret split: prod.split option.split sum.split)

lemma Node_delete_no_panic: "returns (Node_delete e a key n) (\<lambda>out. \<forall>msg. out \<noteq> Panicked msg)"
  unfolding Node_delete_def by (intro returns_any) (auto intro!: returns_ret split: prod.split)

lemma Node_invalid_no_panic: "returns (Node_invalid a n err) (\<lambda>out. \<forall>msg. out \<noteq> Panicked msg)"
  unfolding Node_invalid_def by (intro returns_any) (auto intro!: returns_ret split: sum.split)

text \<open>The pod name of a resolved endpoint is the one of the parsed endpoint, found or not.\<close>

lemma resolveEndpoint_pod:
  assumes "run_state (resolveEndpoint a url) w = ((podName, ep, err), w')"
  shows "case parseEndpoint url of
      Inl perr \<Rightarrow> podName = [] \<and> err = Some perr \<and> w' = w
    | Inr (ns, pd, port) \<Rightarrow> podName = pd \<and> w' = w\<lparr>trace := trace w @ [ApiGet ''Pod'' \<lparr>nn_namespace = ns, nn_name = pd\<rparr>]\<rparr>"
  using assms
  by (auto simp: resolveEndpoint_def Get_Pod_def run_defs Let_def split: sum.splits prod.splits if_splits)

lemma parseEndpoint_empty: "parseEndpoint [] \<noteq> Inr x"
proof -
  have "url_Parse [] = Inr \<lparr>u_Scheme = [], u_Host = []\<rparr>" by code_simp
  then show ?thesis by (simp add: parseEndpoint_def)
qed

lemma parseEndpoint_pod_not_Nil: "parseEndpoint url = Inr (ns, pd, port) \<Longrightarrow> pd \<noteq> [] \<and> ns \<noteq> []"
proof -
  assume p: "parseEndpoint url = Inr (ns, pd, port)"
  then obtain u i where "strings_LastIndex (Hostname u) (CHR ''.'') = Some i" "0 < i" "i \<noteq> length (Hostname u) - 1"
    and "ns = drop (i + 1) (Hostname u)" "pd = take i (Hostname u)"
    by (auto simp: parseEndpoint_def Let_def split: sum.splits if_splits option.splits)
  with strings_LastIndex_Some [of "Hostname u" "CHR ''.''" i] show ?thesis by auto
qed

section \<open>Reconcile\<close>

abbreviation got :: "nsname \<Rightarrow> world \<Rightarrow> world" where
  "got req w \<equiv> w\<lparr>trace := trace w @ [ApiGet ''CSIAddonsNode'' req]\<rparr>"

abbreviation resolve_error :: "csiaddons_node \<Rightarrow> goerr \<Rightarrow> goerr" where
  "resolve_error n err \<equiv> ErrWrap (''failed to resolve endpoint '' @ fmt_q (can_endPoint n) @ '': '') err []"

lemma run_Node_Reconcile:
  "run_state (Node_Reconcile e a r req) w =
     (case a_getNode a (trace w) req of
        Inl err \<Rightarrow> (if IsNotFound err then done_ok else done_err err, got req w)
      | Inr n \<Rightarrow>
          (case validateCSIAddonsNodeSpec n of
             Some err \<Rightarrow> run_state (Node_invalid a n err) (got req w)
           | None \<Rightarrow>
               (case run_state (resolveEndpoint a (can_endPoint n)) (got req w) of ((podName, endPoint, err), w1) \<Rightarrow>
                  if err \<noteq> None \<and> om_deletionTimestamp (can_meta n) = None
                  then run_state (backoffAndRetry a r n (resolve_error n (the err))) w1
                  else
                    (case NormalizeLeaseName podName of
                       None \<Rightarrow> (Panicked ''index out of range [-1]'', w1)
                     | Some pn \<Rightarrow>
                         if om_deletionTimestamp (can_meta n) \<noteq> None
                         then run_state (Node_delete e a (om_namespace (can_meta n) @ ''/'' @ pn) n) w1
                         else run_state (Node_connect e a r (om_namespace (can_meta n) @ ''/'' @ pn) endPoint
                                (can_nodeID n) (can_driverName n) n) w1))))"
  by (auto simp: Node_Reconcile_def Get_Node_def run_defs Let_def split: sum.split option.split prod.split)

lemma emits_node_reports:
  "emits (\<lambda>h ev. \<forall>m. ev = ApiStatusUpdate (O_Node m) \<longrightarrow> can_state m = NodeFailed) (Node_invalid a n err)"
  "emits no_report (Node_delete e a key n)"
  "emits (\<lambda>h ev. \<forall>m. ev = ApiStatusUpdate (O_Node m) \<longrightarrow> can_state m = NodeRetrying) (backoffAndRetry a r n err)"
  subgoal unfolding Node_invalid_def StatusUpdate_Node_def by (intro emits_intros) simp
  subgoal unfolding Node_delete_def by (intro emits_intros emits_Delete node_fin.emits_rem) simp_all
  subgoal unfolding backoffAndRetry_def Delete_Node_def StatusUpdate_Node_def Let_def by (auto intro!: emits_intros)
  done

lemma quiet_got: "quiet_run w (got req w)"
  by (simp add: quiet_run_def)

text \<open>A report of success comes from \<open>Node_connect\<close>.\<close>

lemma Node_Reconcile_report:
  assumes run: "run_state (Node_Reconcile e a r req) w = (out, w')"
    and rep: "appended w w' i (ApiStatusUpdate (O_Node m))" "can_state m = NodeConnected"
  obtains n podName ep pn w1 where "a_getNode a (trace w) req = Inr n"
    "run_state (resolveEndpoint a (can_endPoint n)) (got req w) = ((podName, ep, None), w1)"
    "om_deletionTimestamp (can_meta n) = None"
    "NormalizeLeaseName podName = Some pn"
    "run_state (Node_connect e a r (om_namespace (can_meta n) @ ''/'' @ pn) ep (can_nodeID n) (can_driverName n) n) w1 = (out, w')"
    "appended w1 w' i (ApiStatusUpdate (O_Node m))"
proof -
  have after: "appended v w' i (ApiStatusUpdate (O_Node m))" if "quiet_run w v" "emits R p" "run_state p v = (out, w')" for v R p
    using quiet_run_appended [OF that(1) rep(1)] emits_extends [OF that(2,3)] by simp
  have no: False if "quiet_run w v" "emits R p" "run_state p v = (out, w')" "\<And>h. \<not> R h (ApiStatusUpdate (O_Node m))" for v R p
    using emits_appended [OF that(2,3) after [OF that(1-3)]] that(4) by blast
  have stop: False if "quiet_run w w'"
    using quiet_run_appended [OF that rep(1)] by simp
  obtain n where n: "a_getNode a (trace w) req = Inr n"
    using run stop quiet_got [of w req] unfolding run_Node_Reconcile by (auto split: sum.splits)
  have valid: "validateCSIAddonsNodeSpec n = None"
    using run n no [OF quiet_got emits_node_reports(1)] rep(2) unfolding run_Node_Reconcile by (fastforce split: option.splits)
  obtain podName ep err w1 where res: "run_state (resolveEndpoint a (can_endPoint n)) (got req w) = ((podName, ep, err), w1)"
    by (metis prod.collapse)
  note quiet = quiet_run_trans [OF quiet_got quiet_early(5) [OF res]]
  have rest: "(if err \<noteq> None \<and> om_deletionTimestamp (can_meta n) = None
      then run_state (backoffAndRetry a r n (resolve_error n (the err))) w1
      else (case NormalizeLeaseName podName of
          None \<Rightarrow> (Panicked ''index out of range [-1]'', w1)
        | Some pn \<Rightarrow> if om_deletionTimestamp (can_meta n) \<noteq> None
            then run_state (Node_delete e a (om_namespace (can_meta n) @ ''/'' @ pn) n) w1
            else run_state (Node_connect e a r (om_namespace (can_meta n) @ ''/'' @ pn) ep
              (can_nodeID n) (can_driverName n) n) w1)) = (out, w')"
    using run n valid res unfolding run_Node_Reconcile by simp
  have err: "\<not> (err \<noteq> None \<and> om_deletionTimestamp (can_meta n) = None)"
    using rest no [OF quiet emits_node_reports(3)] rep(2) by fastforce
  obtain pn where pn: "NormalizeLeaseName podName = Some pn"
    using rest err stop quiet by (auto split: option.splits)
  have del: "om_deletionTimestamp (can_meta n) = None"
    using rest err pn no [OF quiet emits_node_reports(2)] by fastforce
  with err have "err = None" by simp
  moreover have con: "run_state (Node_connect e a r (om_namespace (can_meta n) @ ''/'' @ pn) ep (can_nodeID n) (can_driverName n) n) w1 = (out, w')"
    using rest err pn del by simp
  moreover have "emits (\<lambda>_ _. True) (Node_connect e a r k ep nid drv n)" for k ep nid drv
    unfolding Node_connect_def Node_store_def StatusUpdate_Node_def
    by (intro emits_intros node_fin.emits_add emits_NewConnection emits_true_backoff
        emits_getNetworkFenceClientStatus emits_getFenceClientDetails emits_Put) simp_all
  ultimately show thesis
    using that n res del pn after [OF quiet _ con] by metis
qed

text \<open>What a report of success says about the pool.\<close>

lemma connected_pool:
  assumes "run_state (Node_Reconcile e a r req) w = (out, w')"
    and "appended w w' i (ApiStatusUpdate (O_Node m))" "can_state m = NodeConnected"
  obtains n ns pd port pn c where "a_getNode a (trace w) req = Inr n"
    "parseEndpoint (can_endPoint n) = Inr (ns, pd, port)" "NormalizeLeaseName pd = Some pn"
    "map_of (pool w') (om_namespace (can_meta n) @ ''/'' @ pn) = Some c" "cn_Client c \<noteq> None"
    "cn_DriverName c = can_driverName n" "cn_NodeID c = can_nodeID n"
    "can_capabilities m = parseCapabilities a (cn_Capabilities c)"
proof -
  obtain n podName ep pn w1 where n: "a_getNode a (trace w) req = Inr n"
    and res: "run_state (resolveEndpoint a (can_endPoint n)) (got req w) = ((podName, ep, None), w1)"
    and pn: "NormalizeLeaseName podName = Some pn"
    and con: "run_state (Node_connect e a r (om_namespace (can_meta n) @ ''/'' @ pn) ep (can_nodeID n) (can_driverName n) n) w1 = (out, w')"
      "appended w1 w' i (ApiStatusUpdate (O_Node m))"
    using Node_Reconcile_report [OF assms] by metis
  obtain ns port where "parseEndpoint (can_endPoint n) = Inr (ns, podName, port)"
    using resolveEndpoint_pod [OF res] pn by (auto simp: NormalizeLeaseName_def split: sum.splits)
  with n pn Node_connect_report [OF con assms(3)] that show thesis by blast
qed

lemma findNamespace_None: "findNamespace p d = None \<longleftrightarrow> (\<forall>c \<in> snd ` set p. cn_DriverName c \<noteq> d)"
  by (induction p d rule: findNamespace.induct) auto

text \<open>The leader is found when the lease names the key of a live connection of the driver.\<close>

lemma leader_found:
  assumes "map_of (pool w) (ns @ ''/'' @ holder) = Some c" "cn_DriverName c = d" "d \<noteq> []" "holder \<noteq> []"
    and "\<And>h nn. e_getLease e h nn = Inr \<lparr>ls_namespace = ns, ls_holderIdentity = Some holder\<rparr>"
    and "cn_Client c = Some cl" "\<And>h. \<not> e_isShutdown e h cl"
  shows "fst (run_state (GetLeaderByDriver e d) w) = GoOk c"
proof -
  from assms(3) obtain n where n: "NormalizeLeaseName d = Some n"
    using NormalizeLeaseName_None [of d] by auto
  obtain ns' where "findNamespace (pool w) d = Some ns'"
    using map_of_SomeD [OF assms(1)] assms(2) findNamespace_None [of "pool w" d]
    by (metis not_Some_eq snd_conv image_eqI)
  with assms n show ?thesis
    by (auto simp: GetLeaderByDriver_def getNamespaceByDriverName_def Get_Lease_def Connect_entry_def Connect_reuse
        run_defs Let_def split: prod.splits)
qed

section \<open>Deletion\<close>

lemma Node_delete_effect:
  assumes "run_state (Node_delete e a key n) w = (out, w')"
  shows "pool w' = AList.delete key (pool w) \<and>
    (csiAddonsNodeFinalizer \<in> set (om_finalizers (can_meta n)) \<longrightarrow>
       (\<exists>i. appended w w' i (ApiUpdate (O_Node (node_set_finalizers
          (RemoveFromSlice (om_finalizers (can_meta n)) csiAddonsNodeFinalizer) n)))))"
proof -
  obtain w1 where del: "run_state (Delete e key) w = ((), w1)"
    by (metis (full_types) old.unit.exhaust surj_pair)
  obtain x w2 where rem: "run_state (Node_removeFinalizer a n) w1 = (x, w2)" by fastforce
  from assms del rem have w': "w' = w2" by (auto simp: Node_delete_def split: prod.splits)
  have ext: "extends (trace w) (trace w1)"
    using emits_extends [OF emits_Delete del] by blast
  have "pool w2 = pool w1" using keeps_pool_node_fin(2) rem by (rule keeps_poolD)
  moreover have "pool w1 = AList.delete key (pool w)" using pool_Delete [of e key w] del by simp
  moreover have "appended w w2 (length (trace w1)) (ApiUpdate (O_Node (node_set_finalizers
      (RemoveFromSlice (om_finalizers (can_meta n)) csiAddonsNodeFinalizer) n)))"
    if "csiAddonsNodeFinalizer \<in> set (om_finalizers (can_meta n))"
    using rem that ext by (auto simp: Node_removeFinalizer_def Update_Node_def run_defs Let_def appended_def extends_def)
  ultimately show ?thesis using w' by auto
qed

section \<open>Secrets\<close>

definition secret_free :: "event list \<Rightarrow> event \<Rightarrow> bool" where
  "secret_free h ev \<longleftrightarrow> (\<forall>c q. ev = Rpc c (RpcGetFenceClients q) \<longrightarrow>
     mget (fq_parameters q) prefixedNetworkFenceSecretNameKey = [] \<and>
     mget (fq_parameters q) prefixedNetworkFenceSecretNamespaceKey = [])"

lemma secret_free_simps [simp]:
  "secret_free h (ApiGet k nn)" "secret_free h (ApiUpdate x)" "secret_free h (ApiStatusUpdate x)"
  "secret_free h (ApiDelete x)" "secret_free h (Dial ep b)" "secret_free h (CloseClient d)"
  "secret_free h (Rpc c RpcGetCapabilities)"
  by (simp_all add: secret_free_def)

lemma emits_secret_free: "emits secret_free (Node_Reconcile e a r req)"
  unfolding Node_Reconcile_def Node_connect_def Node_store_def Node_delete_def Node_invalid_def backoffAndRetry_def
    resolveEndpoint_def node_api_defs
  by (intro emits_intros node_fin.emits_add node_fin.emits_rem emits_NewConnection emits_Put emits_Delete
      emits_getNetworkFenceClientStatus emits_getFenceClientDetails [where R = secret_free])
    (simp_all add: secret_free_def)

end
