(* ===== verification/Sidecar_Util.thy ===== *)
theory Sidecar_Util
  imports CSIAddons_Node
begin

text \<open>
  How a sidecar writes the address it announces, \<open>sidecar/internal/util/util.go\<close>, and that the node
  controller reads the same pod, namespace and port back. \<open>net.ParseIP\<close> is the parameter \<open>parseIP\<close>,
  which gives the canonical text of an address and whether it is an IPv4 address.
\<close>

abbreviation (input) ErrInvalidEndpoint :: goerr where
  "ErrInvalidEndpoint \<equiv> Sentinel ''invalid endpoint''"

text \<open>\<open>strconv.ParseUint(s, 10, 16)\<close>, with the two reasons for which it fails.\<close>

fun parseUint_loop :: "nat \<Rightarrow> nat \<Rightarrow> string \<Rightarrow> string + nat" where
  "parseUint_loop maxVal n [] = Inr n"
| "parseUint_loop maxVal n (c # s) =
     (if \<not> is_digit c then Inl ''invalid syntax''
      else if maxVal < 10 * n + (of_char c - 48) then Inl ''value out of range''
      else parseUint_loop maxVal (10 * n + (of_char c - 48)) s)"

definition parsePort :: "string \<Rightarrow> goerr + nat" where
  "parsePort rawPort =
     (case (if rawPort = [] then Inl ''invalid syntax'' else parseUint_loop 65535 0 rawPort) of
        Inl why \<Rightarrow> Inl (ErrWrap [] ErrInvalidEndpoint ('': invalid controller port '' @ fmt_q rawPort @
          '': strconv.ParseUint: parsing '' @ fmt_q rawPort @ '': '' @ why))
      | Inr port \<Rightarrow> Inr port)"

definition ValidateControllerEndpoint ::
  "(string \<Rightarrow> (bool \<times> string) option) \<Rightarrow> string \<Rightarrow> string \<Rightarrow> goerr + string" where
  "ValidateControllerEndpoint parseIP rawIP rawPort =
     (case parseIP rawIP of
        None \<Rightarrow> Inl (ErrWrap [] ErrInvalidEndpoint ('': invalid controller ip address '' @ fmt_q rawIP))
      | Some (is4, ip) \<Rightarrow>
          (case parsePort rawPort of
             Inl err \<Rightarrow> Inl err
           | Inr port \<Rightarrow>
               if is4 then Inr (ip @ '':'' @ nat_digits port) else Inr (''['' @ ip @ '']:'' @ nat_digits port)))"

definition BuildEndpointURL ::
  "(string \<Rightarrow> (bool \<times> string) option) \<Rightarrow> string \<Rightarrow> string \<Rightarrow> string \<Rightarrow> string \<Rightarrow> goerr + string" where
  "BuildEndpointURL parseIP rawIP rawPort pd namespace =
     (if rawIP \<noteq> [] then ValidateControllerEndpoint parseIP rawIP rawPort
      else if pd = [] \<and> namespace = []
      then Inl (ErrWrap [] ErrInvalidEndpoint '': missing IP-address or Pod and Namespace'')
      else
        (case parsePort rawPort of
           Inl err \<Rightarrow> Inl err
         | Inr port \<Rightarrow>
             (let endpoint = ''pod://'' @ pd;
                  endpoint = (if namespace \<noteq> [] then endpoint @ ''.'' @ namespace else endpoint)
              in Inr (endpoint @ '':'' @ nat_digits port))))"

lemma parseUint_loop_bound: "n \<le> maxVal \<Longrightarrow> parseUint_loop maxVal n s = Inr v \<Longrightarrow> v \<le> maxVal"
  by (induction s arbitrary: n) (force simp: not_less split: if_splits)+

lemma parsePort_bound: "parsePort s = Inr port \<Longrightarrow> port < 2 ^ 16"
  using parseUint_loop_bound [of 0 65535 s port] by (auto simp: parsePort_def split: sum.splits if_splits)

text \<open>The canonical text of a number below 65536 is accepted and means that number.\<close>

lemma parseUint_loop_foldl:
  "list_all is_digit s \<Longrightarrow> foldl (\<lambda>n c. 10 * n + (of_char c - 48)) n s \<le> maxVal \<Longrightarrow>
     parseUint_loop maxVal n s = Inr (foldl (\<lambda>n c. 10 * n + (of_char c - 48)) n s)"
proof (induction s arbitrary: n)
  case Nil
  then show ?case by simp
next
  case (Cons c s)
  let ?f = "\<lambda>n c. 10 * n + (of_char c - 48) :: nat"
  have grow: "m \<le> foldl ?f m s" for m
  proof (induction s arbitrary: m)
    case (Cons d s)
    have "m \<le> ?f m d" by simp
    also have "\<dots> \<le> foldl ?f (?f m d) s" by (rule Cons.IH)
    finally show ?case by simp
  qed simp
  have bound: "foldl ?f (?f n c) s \<le> maxVal" using Cons.prems(2) by simp
  have "?f n c \<le> maxVal" using grow bound by (rule le_trans)
  with Cons.prems(1) Cons.IH [OF _ bound] show ?case by simp
qed

lemma parsePort_digits: "port < 2 ^ 16 \<Longrightarrow> parsePort (nat_digits port) = Inr port"
  using parseUint_loop_foldl [OF list_all_is_digit_nat_digits [of port], of 0 65535] digits_val_nat_digits [of port]
  by (simp add: parsePort_def digits_val_def)

lemma parseEndpoint_pod:
  assumes pd: "list_all dns_char pd" "pd \<noteq> []" and ns: "list_all dns_char ns" "ns \<noteq> []" "CHR ''.'' \<notin> set ns"
    and port: "list_all is_digit port"
  shows "parseEndpoint (''pod://'' @ pd @ ''.'' @ ns @ '':'' @ port) = Inr (ns, pd, port)"
proof -
  let ?h = "pd @ ''.'' @ ns"
  have h: "list_all dns_char ?h" using pd ns by (simp add: dns_char_def)
  have url: "url_Parse (''pod://'' @ pd @ ''.'' @ ns @ '':'' @ port) =
      Inr \<lparr>u_Scheme = ''pod'', u_Host = ?h @ '':'' @ port\<rparr>"
    using url_Parse_pod [OF h port] by simp
  have host: "Hostname \<lparr>u_Scheme = ''pod'', u_Host = ?h @ '':'' @ port\<rparr> = ?h"
      "Port \<lparr>u_Scheme = ''pod'', u_Host = ?h @ '':'' @ port\<rparr> = port"
    using splitHostPort_dns [OF h port] unfolding Hostname_def Port_def by simp_all
  have "strings_LastIndex ?h (CHR ''.'') = Some (length pd)"
    using LastIndex_sep [OF ns(3)] by simp
  with pd(2) ns(2) show ?thesis
    unfolding parseEndpoint_def url Let_def sum.case host url.simps by simp
qed

end
