(* ===== verification/Props_Node.thy ===== *)
theory Props_Node
  imports Node_Facts Sidecar_Util
begin

text \<open>
  The properties of the node controller: addresses, retries, what a report of success means, how a
  deleted node is released, and when the controller panics.
\<close>

section \<open>A node to apply the properties to\<close>

definition nx_node :: csiaddons_node where
  "nx_node = \<lparr>can_meta = (empty_meta ''node'' ''dns'')\<lparr>om_finalizers := [csiAddonsNodeFinalizer]\<rparr>,
     can_driverName = ''drv'', can_endPoint = ''pod://pod.dns:99'', can_nodeID = ''n1'', can_state = NodeNoState,
     can_message = [], can_reason = [], can_capabilities = [], can_fenceClients = []\<rparr>"

definition nx_env :: env where
  "nx_env = env0\<lparr>e_newClient := (\<lambda>_ _. Inr 7), e_isShutdown := (\<lambda>_ _. False),
     e_rpcGetCapabilities := (\<lambda>_ _ _. Inr [CapNetworkFence GET_CLIENTS_TO_FENCE]),
     e_getLease := (\<lambda>_ _. Inr \<lparr>ls_namespace = ''dns'', ls_holderIdentity = Some ''pod''\<rparr>)\<rparr>"

definition nx_aenv :: aenv where
  "nx_aenv = aenv0\<lparr>a_getNode := (\<lambda>_ _. Inr nx_node), a_updateNode := (\<lambda>_ n. Inr n),
     a_statusNode := (\<lambda>_ n. Inr n), a_deleteNode := (\<lambda>_ _. None),
     a_getPod := (\<lambda>_ _. Inr \<lparr>pod_ip = ''fd00::1''\<rparr>),
     a_rpcGetFenceClients := (\<lambda>_ _ _. Inr [])\<rparr>"

definition nx_world :: world where
  "nx_world = \<lparr>trace = [], pool = []\<rparr>"

definition nx_req :: nsname where
  "nx_req = \<lparr>nn_namespace = ''dns'', nn_name = ''node''\<rparr>"

definition nx_rec :: node_reconciler where
  "nx_rec = \<lparr>nr_EnableAuth = False, nr_BaseRetryDelay = 5 * second\<rparr>"

section \<open>Addresses\<close>

text \<open>The address a sidecar builds from its pod name, namespace and port is read back by the node
  controller as the same namespace, pod name and port, and the port is below 65536.\<close>

theorem endpoint_roundtrip:
  assumes "BuildEndpointURL parseIP [] rawPort pd ns = Inr ep"
    and "list_all dns_char pd" "pd \<noteq> []" "list_all dns_char ns" "ns \<noteq> []" "CHR ''.'' \<notin> set ns"
  shows "\<exists>port < 2 ^ 16. parsePort rawPort = Inr port \<and> parseEndpoint ep = Inr (ns, pd, nat_digits port)"
proof -
  obtain port where port: "parsePort rawPort = Inr port" and ep: "ep = ''pod://'' @ pd @ ''.'' @ ns @ '':'' @ nat_digits port"
    using assms(1,5) by (auto simp: BuildEndpointURL_def Let_def split: if_splits sum.splits)
  with parsePort_bound [OF port] parseEndpoint_pod [OF assms(2-6) list_all_is_digit_nat_digits]
  show ?thesis by blast
qed

theorem endpoint_roundtrip_witness:
  "BuildEndpointURL (\<lambda>_. None) [] ''9070'' ''my.pod'' ''ns'' = Inr ''pod://my.pod.ns:9070'' \<and>
   (\<exists>port < 2 ^ 16. parsePort ''9070'' = Inr port \<and>
      parseEndpoint ''pod://my.pod.ns:9070'' = Inr (''ns'', ''my.pod'', nat_digits port))"
proof
  show built: "BuildEndpointURL (\<lambda>_. None) [] ''9070'' ''my.pod'' ''ns'' = Inr ''pod://my.pod.ns:9070''"
    by (simp add: BuildEndpointURL_def parsePort_def is_digit_def nat_digits.simps, code_simp)
  have names: "list_all dns_char ''my.pod''" "list_all dns_char ''ns''" by code_simp+
  from endpoint_roundtrip [OF built names(1) _ names(2)]
  show "\<exists>port < 2 ^ 16. parsePort ''9070'' = Inr port \<and>
      parseEndpoint ''pod://my.pod.ns:9070'' = Inr (''ns'', ''my.pod'', nat_digits port)"
    by simp
qed

text \<open>The address that is dialled for a pod, IPv4 or IPv6, splits again into exactly the IP of the
  pod and the port of the endpoint; an IPv6 address is put in brackets, an IPv4 address is not.\<close>

theorem dial_address:
  assumes "parseEndpoint url = Inr (ns, pd, port)" "list_all is_digit port"
    and "a_getPod a (trace w) \<lparr>nn_namespace = ns, nn_name = pd\<rparr> = Inr \<lparr>pod_ip = ip\<rparr>" "ip \<noteq> []" "hd ip \<noteq> CHR ''[''"
    and "strings_Count ip (CHR '':'') \<noteq> 1"
  shows "\<exists>addr w'. run_state (resolveEndpoint a url) w = ((pd, addr, None), w') \<and> splitHostPort addr = (ip, port) \<and>
    (strings_HasPrefix addr ''['' \<longleftrightarrow> CHR '':'' \<in> set ip)"
proof -
  have np: "CHR '':'' \<notin> set port"
    using assms(2) by (auto simp: list_all_iff is_digit_def)
  have colon: "CHR '':'' \<in> set ip \<longleftrightarrow> 2 \<le> strings_Count ip (CHR '':'')"
    using assms(6) count_list_0_iff [of ip "CHR '':''"] by (auto simp: strings_Count_def)
  let ?host = "if 2 \<le> strings_Count ip (CHR '':'') then ''['' @ ip @ '']'' else ip"
  have split: "splitHostPort (?host @ '':'' @ port) = (ip, port)"
  proof -
    have "strings_LastIndex (?host @ '':'' @ port) (CHR '':'') = Some (length ?host)"
      using LastIndex_sep [OF np] by simp
    moreover have "\<not> strings_HasPrefix ip ''[''"
      using assms(4,5) by (cases ip) (auto simp: strings_HasPrefix_def)
    ultimately show ?thesis
      using assms(2) unfolding splitHostPort_def by (auto simp: validOptionalPort_def strings_HasPrefix_def)
  qed
  have "run_state (resolveEndpoint a url) w =
      ((pd, ?host @ '':'' @ port, None), w\<lparr>trace := trace w @ [ApiGet ''Pod'' \<lparr>nn_namespace = ns, nn_name = pd\<rparr>]\<rparr>)"
    using assms(1,3,4) by (simp add: resolveEndpoint_def Get_Pod_def run_defs Let_def)
  moreover have "strings_HasPrefix (?host @ '':'' @ port) ''['' \<longleftrightarrow> CHR '':'' \<in> set ip"
    using assms(4,5) colon by (cases ip) (auto simp: strings_HasPrefix_def)
  ultimately show ?thesis using split by blast
qed

theorem dial_address_witness:
  "\<exists>addr w'. run_state (resolveEndpoint nx_aenv ''pod://pod.dns:99'') nx_world = ((''pod'', addr, None), w') \<and>
     splitHostPort addr = (''fd00::1'', ''99'')"
proof -
  have "parseEndpoint ''pod://pod.dns:99'' = Inr (''dns'', ''pod'', ''99'')" by code_simp
  moreover have "list_all is_digit ''99''" by code_simp
  moreover have "strings_Count ''fd00::1'' (CHR '':'') \<noteq> 1" by code_simp
  moreover have "a_getPod nx_aenv (trace nx_world) \<lparr>nn_namespace = ''dns'', nn_name = ''pod''\<rparr> = Inr \<lparr>pod_ip = ''fd00::1''\<rparr>"
    by (simp add: nx_aenv_def)
  ultimately show ?thesis
    using dial_address [of "''pod://pod.dns:99''" "''dns''" "''pod''" "''99''" nx_aenv nx_world "''fd00::1''"] by auto
qed

section \<open>Retries\<close>

text \<open>C9: a sidecar that keeps failing is retried with delays of one, two and four times the base delay
  and no more than three times; the object is deleted only after the third retry, and never
  earlier.\<close>

theorem node_retry_schedule:
  assumes "failing a r n0 ds s" "can_reason n0 = []"
    and "\<forall>h m m'. a_statusNode a h m = Inr m' \<longrightarrow> can_reason m' = can_reason m"
    and "0 \<le> nr_BaseRetryDelay r" "4 * nr_BaseRetryDelay r < 2 ^ 63"
  shows "ds = take (length ds) [nr_BaseRetryDelay r, 2 * nr_BaseRetryDelay r, 4 * nr_BaseRetryDelay r] \<and>
    length ds \<le> 3 \<and> (s = None \<longrightarrow> length ds = 3)"
proof -
  have inv: "ds = delays (nr_BaseRetryDelay r) (length ds)" "length ds \<le> 3" "s = None \<longrightarrow> length ds = 3"
    using failing_invariant [OF assms(1,2) _ assms(4,5)] assms(3) by (auto split: option.splits)
  have "delays b k = take k [b, 2 * b, 4 * b]" if "k \<le> 3" for b k
  proof -
    have "k = 0 \<or> k = 1 \<or> k = 2 \<or> k = 3" using that by linarith
    then show ?thesis by (auto simp: delays_def upt_rec numeral_eq_Suc)
  qed
  with inv show ?thesis by metis
qed

theorem node_retry_schedule_witness:
  "\<exists>n. failing nx_aenv nx_rec nx_node [5 * second] (Some n) \<and>
     [5 * second] = take (length [5 * second]) [nr_BaseRetryDelay nx_rec, 2 * nr_BaseRetryDelay nx_rec, 4 * nr_BaseRetryDelay nx_rec]"
proof -
  have count: "getRetryCountFromReason (can_reason nx_node) = Inr 0"
    by (simp add: nx_node_def getRetryCountFromReason_def)
  define m where "m = nx_node\<lparr>can_state := NodeRetrying,
    can_message := ''Connection failed: '' @ GetErrorMessage unavailable @ ''. Retrying attempt '' @
      fmt_d (0 + 1) @ ''/'' @ fmt_d 3 @ ''.'', can_reason := retryingReason (0 + 1)\<rparr>"
  have delay: "backoff_delay (nr_BaseRetryDelay nx_rec) 0 = 5 * second"
    by (simp add: backoff_delay_def nx_rec_def wrap64_def)
  have run: "run_state (backoffAndRetry nx_aenv nx_rec nx_node unavailable) nx_world =
      (Returned \<lparr>rr_requeue = False, rr_requeueAfter = 5 * second\<rparr> None,
       nx_world\<lparr>trace := trace nx_world @ [ApiStatusUpdate (O_Node m)]\<rparr>)"
    unfolding run_backoffAndRetry [OF count] delay m_def by (simp add: nx_aenv_def)
  have "failing nx_aenv nx_rec nx_node ([] @ [rr_requeueAfter \<lparr>rr_requeue = False, rr_requeueAfter = 5 * second\<rparr>]) (Some m)"
    by (rule failing.again [OF failing.start run]) (simp_all add: nx_aenv_def)
  then have steps: "failing nx_aenv nx_rec nx_node [5 * second] (Some m)" by simp
  from node_retry_schedule [OF this] steps show ?thesis by (auto simp: nx_node_def nx_aenv_def nx_rec_def)
qed

section \<open>Connections\<close>

text \<open>C6: a node is reported as connected only when the pool holds, under the namespace of the node and
  the normalised name of its pod, a live connection of that driver and node, and the capabilities
  that are reported are the ones of that connection.\<close>

theorem connected_is_earned:
  assumes "run_state (Node_Reconcile e a r req) w = (out, w')"
    and "appended w w' i (ApiStatusUpdate (O_Node m))" "can_state m = NodeConnected"
  shows "\<exists>n ns pd port pn c. a_getNode a (trace w) req = Inr n \<and> parseEndpoint (can_endPoint n) = Inr (ns, pd, port) \<and>
    NormalizeLeaseName pd = Some pn \<and> map_of (pool w') (om_namespace (can_meta n) @ ''/'' @ pn) = Some c \<and>
    cn_Client c \<noteq> None \<and> cn_DriverName c = can_driverName n \<and> cn_NodeID c = can_nodeID n \<and>
    can_capabilities m = parseCapabilities a (cn_Capabilities c)"
  by (rule connected_pool [OF assms]) blast

definition nx_connected :: csiaddons_node where
  "nx_connected = node_connected nx_aenv
     \<lparr>cn_Client = Some 7, cn_Capabilities = [CapNetworkFence GET_CLIENTS_TO_FENCE], cn_Namespace = ''dns'',
      cn_Name = ''node'', cn_NodeID = ''n1'', cn_DriverName = ''drv'', cn_Timeout = minute, cn_enableAuth = False,
      cn_endpoint = ''[fd00::1]:99'', cn_podName = ''node''\<rparr> [] nx_node"

lemma nx_run: "trace (snd (run_state (Node_Reconcile nx_env nx_aenv nx_rec nx_req) nx_world)) =
  [ApiGet ''CSIAddonsNode'' nx_req, ApiGet ''Pod'' \<lparr>nn_namespace = ''dns'', nn_name = ''pod''\<rparr>,
   Dial ''[fd00::1]:99'' False, Rpc (Some 7) RpcGetCapabilities, ApiStatusUpdate (O_Node nx_connected)]"
  by code_simp

theorem connected_is_earned_witness:
  "\<exists>c. map_of (pool (snd (run_state (Node_Reconcile nx_env nx_aenv nx_rec nx_req) nx_world))) ''dns/pod'' = Some c \<and>
     cn_Client c \<noteq> None \<and> cn_NodeID c = ''n1''"
proof -
  let ?w = "snd (run_state (Node_Reconcile nx_env nx_aenv nx_rec nx_req) nx_world)"
  have rep: "appended nx_world ?w 4 (ApiStatusUpdate (O_Node nx_connected))"
    unfolding appended_def nx_run by (simp add: nx_world_def)
  have state: "can_state nx_connected = NodeConnected"
    by (simp add: nx_connected_def node_connected_def)
  have ep: "parseEndpoint (can_endPoint nx_node) = Inr (''dns'', ''pod'', ''99'')" "NormalizeLeaseName ''pod'' = Some ''pod''"
    by code_simp+
  have node: "a_getNode nx_aenv h nn = Inr nx_node" "om_namespace (can_meta nx_node) = ''dns''" "can_nodeID nx_node = ''n1''" for h nn
    by (simp_all add: nx_aenv_def nx_node_def empty_meta_def)
  from connected_is_earned [OF surjective_pairing rep state] show ?thesis
    by (auto simp: node ep)
qed

text \<open>Once a node is reported as connected, a lookup of the driver's leader whose lease names that
  pod returns a live connection to that node, without dialling again.\<close>

theorem leader_after_connect:
  assumes "run_state (Node_Reconcile e a r req) w = (out, w')"
    and "appended w w' i (ApiStatusUpdate (O_Node m))" "can_state m = NodeConnected"
    and "a_getNode a (trace w) req = Inr n" "can_driverName n \<noteq> []"
    and "parseEndpoint (can_endPoint n) = Inr (ns, pd, port)" "NormalizeLeaseName pd = Some pn"
    and "\<forall>h nn. e_getLease e h nn = Inr \<lparr>ls_namespace = om_namespace (can_meta n), ls_holderIdentity = Some pn\<rparr>"
    and "\<forall>h cl. \<not> e_isShutdown e h cl"
  shows "\<exists>c. fst (run_state (GetLeaderByDriver e (can_driverName n)) w') = GoOk c \<and>
    cn_Client c \<noteq> None \<and> cn_DriverName c = can_driverName n \<and> cn_NodeID c = can_nodeID n"
proof -
  obtain c where c: "map_of (pool w') (om_namespace (can_meta n) @ ''/'' @ pn) = Some c" "cn_Client c \<noteq> None"
    "cn_DriverName c = can_driverName n" "cn_NodeID c = can_nodeID n"
    by (rule connected_pool [OF assms(1-3)]) (use assms(4,6,7) in auto)
  obtain cl where "cn_Client c = Some cl" using c(2) by auto
  moreover have "pn \<noteq> []" using NormalizeLeaseName_ok [OF assms(7)] by simp
  ultimately have "fst (run_state (GetLeaderByDriver e (can_driverName n)) w') = GoOk c"
    using leader_found [OF c(1,3) assms(5)] assms(8,9) by blast
  with c show ?thesis by blast
qed

theorem leader_after_connect_witness:
  "\<exists>c. fst (run_state (GetLeaderByDriver nx_env ''drv'')
      (snd (run_state (Node_Reconcile nx_env nx_aenv nx_rec nx_req) nx_world))) = GoOk c \<and> cn_NodeID c = ''n1''"
proof -
  let ?w = "snd (run_state (Node_Reconcile nx_env nx_aenv nx_rec nx_req) nx_world)"
  have rep: "appended nx_world ?w 4 (ApiStatusUpdate (O_Node nx_connected))"
    unfolding appended_def nx_run by (simp add: nx_world_def)
  have state: "can_state nx_connected = NodeConnected"
    by (simp add: nx_connected_def node_connected_def)
  have node: "a_getNode nx_aenv (trace nx_world) nx_req = Inr nx_node" "can_driverName nx_node \<noteq> []"
    by (simp_all add: nx_aenv_def nx_node_def)
  have ep: "parseEndpoint (can_endPoint nx_node) = Inr (''dns'', ''pod'', ''99'')" "NormalizeLeaseName ''pod'' = Some ''pod''"
    by code_simp+
  have env: "\<forall>h nn. e_getLease nx_env h nn = Inr \<lparr>ls_namespace = om_namespace (can_meta nx_node), ls_holderIdentity = Some ''pod''\<rparr>"
    "\<forall>h cl. \<not> e_isShutdown nx_env h cl"
    by (simp_all add: nx_env_def nx_node_def empty_meta_def)
  from leader_after_connect [OF surjective_pairing rep state node ep env] show ?thesis
    by (auto simp: nx_node_def)
qed

section \<open>Deletion and panics\<close>

text \<open>For a node under deletion whose endpoint names a pod, found or not, the connection of that pod
  leaves the pool, every other connection stays, and the node's finalizer is taken away.\<close>

theorem node_deletion_releases:
  assumes "run_state (Node_Reconcile e a r req) w = (out, w')"
    and "a_getNode a (trace w) req = Inr n" "om_deletionTimestamp (can_meta n) \<noteq> None"
    and "can_driverName n \<noteq> []" "parseEndpoint (can_endPoint n) = Inr (ns, pd, port)"
  shows "\<exists>pn. NormalizeLeaseName pd = Some pn \<and>
    pool w' = AList.delete (om_namespace (can_meta n) @ ''/'' @ pn) (pool w) \<and>
    (csiAddonsNodeFinalizer \<in> set (om_finalizers (can_meta n)) \<longrightarrow>
      (\<exists>i m. appended w w' i (ApiUpdate (O_Node m)) \<and>
         set (om_finalizers (can_meta m)) = set (om_finalizers (can_meta n)) - {csiAddonsNodeFinalizer}))"
proof -
  have valid: "validateCSIAddonsNodeSpec n = None"
    using assms(4,5) by (auto simp: validateCSIAddonsNodeSpec_def parseEndpoint_empty)
  obtain podName ep err w1 where res: "run_state (resolveEndpoint a (can_endPoint n)) (got req w) = ((podName, ep, err), w1)"
    by (metis prod.collapse)
  have pd: "podName = pd" and w1: "extends (trace w) (trace w1)"
    using resolveEndpoint_pod [OF res] assms(5) by (simp_all add: extends_def)
  obtain pn where pn: "NormalizeLeaseName pd = Some pn"
    using parseEndpoint_pod_not_Nil [OF assms(5)] NormalizeLeaseName_None [of pd] by auto
  have del: "run_state (Node_delete e a (om_namespace (can_meta n) @ ''/'' @ pn) n) w1 = (out, w')"
    using assms(1,2,3) valid res pd pn unfolding run_Node_Reconcile by simp
  have "pool w1 = pool w"
    using keeps_poolD [OF keeps_pool_status(3) res] by simp
  moreover have "appended w w' i ev" if "appended w1 w' i ev" for i ev
    using that w1 by (auto simp: appended_def extends_def)
  ultimately show ?thesis
    using Node_delete_effect [OF del] pn by (fastforce simp: node_set_finalizers_def)
qed

definition nx_deleting :: csiaddons_node where
  "nx_deleting = nx_node\<lparr>can_meta := (can_meta nx_node)\<lparr>om_deletionTimestamp := Some 1\<rparr>\<rparr>"

definition nx_conn :: connection where
  "nx_conn = \<lparr>cn_Client = Some 7, cn_Capabilities = [], cn_Namespace = ''dns'', cn_Name = ''node'', cn_NodeID = ''n1'',
     cn_DriverName = ''drv'', cn_Timeout = minute, cn_enableAuth = False, cn_endpoint = ''ep'', cn_podName = ''node''\<rparr>"

theorem node_deletion_releases_witness:
  "pool (snd (run_state (Node_Reconcile nx_env (nx_aenv\<lparr>a_getNode := (\<lambda>_ _. Inr nx_deleting)\<rparr>) nx_rec nx_req)
     (nx_world\<lparr>pool := [(''dns/pod'', nx_conn), (''dns/other'', nx_conn)]\<rparr>))) = [(''dns/other'', nx_conn)]"
proof -
  let ?a = "nx_aenv\<lparr>a_getNode := (\<lambda>_ _. Inr nx_deleting)\<rparr>"
  let ?w = "nx_world\<lparr>pool := [(''dns/pod'', nx_conn), (''dns/other'', nx_conn)]\<rparr>"
  have node: "a_getNode ?a (trace ?w) nx_req = Inr nx_deleting" "om_deletionTimestamp (can_meta nx_deleting) \<noteq> None"
      "can_driverName nx_deleting \<noteq> []"
    by (simp_all add: nx_deleting_def nx_node_def)
  have ep: "parseEndpoint (can_endPoint nx_deleting) = Inr (''dns'', ''pod'', ''99'')" "NormalizeLeaseName ''pod'' = Some ''pod''"
    by code_simp+
  have ns: "om_namespace (can_meta nx_deleting) = ''dns''"
    by (simp add: nx_deleting_def nx_node_def empty_meta_def)
  from node_deletion_releases [OF surjective_pairing node ep(1), of nx_env nx_rec] show ?thesis
    by (auto simp: ep(2) ns)
qed

text \<open>C18: the node controller panics exactly when a node under deletion, with a driver name and an
  endpoint, has an endpoint that names no pod: the empty pod name reaches the normalisation of
  lease names. Such a node keeps its finalizer and can never be removed.\<close>

theorem node_panics_iff:
  assumes "run_state (Node_Reconcile e a r req) w = (out, w')"
  shows "(\<exists>msg. out = Panicked msg) \<longleftrightarrow>
    (\<exists>n err. a_getNode a (trace w) req = Inr n \<and> validateCSIAddonsNodeSpec n = None \<and>
       om_deletionTimestamp (can_meta n) \<noteq> None \<and> parseEndpoint (can_endPoint n) = Inl err)"
proof -
  note calm = returnsD [OF backoff_no_panic] returnsD [OF Node_connect_no_panic] returnsD [OF Node_delete_no_panic]
    returnsD [OF Node_invalid_no_panic]
  show ?thesis
  proof (cases "a_getNode a (trace w) req")
    case (Inl err)
    with assms show ?thesis unfolding run_Node_Reconcile by (auto split: if_splits)
  next
    case node: (Inr n)
    show ?thesis
    proof (cases "validateCSIAddonsNodeSpec n")
      case (Some err)
      with assms node calm(4) [of a n err "got req w" out w'] show ?thesis
        unfolding run_Node_Reconcile by auto
    next
      case valid: None
      obtain podName ep err w1 where res: "run_state (resolveEndpoint a (can_endPoint n)) (got req w) = ((podName, ep, err), w1)"
        by (metis prod.collapse)
      note pd = resolveEndpoint_pod [OF res]
      have bad: "NormalizeLeaseName podName = None \<longleftrightarrow> (\<exists>perr. parseEndpoint (can_endPoint n) = Inl perr)"
        using pd parseEndpoint_pod_not_Nil [of "can_endPoint n"]
        by (cases "parseEndpoint (can_endPoint n)") (auto simp: NormalizeLeaseName_None)
      have live: "parseEndpoint (can_endPoint n) = Inl perr \<Longrightarrow> err \<noteq> None" for perr
        using pd by simp
      show ?thesis
        using assms node valid res bad live calm unfolding run_Node_Reconcile
        by (auto split: if_splits option.splits)
    qed
  qed
qed

theorem node_panics_iff_witness:
  "\<exists>msg. fst (run_state (Node_Reconcile nx_env
     (nx_aenv\<lparr>a_getNode := (\<lambda>_ _. Inr (nx_deleting\<lparr>can_endPoint := ''10.0.0.1:99''\<rparr>))\<rparr>) nx_rec nx_req) nx_world) = Panicked msg"
proof -
  let ?a = "nx_aenv\<lparr>a_getNode := (\<lambda>_ _. Inr (nx_deleting\<lparr>can_endPoint := ''10.0.0.1:99''\<rparr>))\<rparr>"
  have "\<exists>err. parseEndpoint ''10.0.0.1:99'' = Inl err"
  proof -
    have "isl (parseEndpoint ''10.0.0.1:99'')" by code_simp
    then show ?thesis by (auto simp: isl_def)
  qed
  then show ?thesis
    using node_panics_iff [OF surjective_pairing, of nx_env ?a nx_rec nx_req nx_world]
    by (auto simp: nx_deleting_def nx_node_def validateCSIAddonsNodeSpec_def)
qed

text \<open>The names of the secrets are reserved parameters of a network fence class: the node controller
  never passes them on among the parameters of a request for the clients to fence.\<close>

theorem fence_secrets_withheld:
  assumes "run_state (Node_Reconcile e a r req) w = (out, w')" "appended w w' i (Rpc c (RpcGetFenceClients q))"
  shows "mget (fq_parameters q) prefixedNetworkFenceSecretNameKey = [] \<and>
    mget (fq_parameters q) prefixedNetworkFenceSecretNamespaceKey = []"
  using emits_appended [OF emits_secret_free assms] by (simp add: secret_free_def)

definition nx_annotated :: csiaddons_node where
  "nx_annotated = nx_node\<lparr>can_meta := (can_meta nx_node)\<lparr>om_annotations :=
     [(networkFenceClassAnnotationKey, json_Marshal [''fc''])]\<rparr>\<rparr>"

definition nx_fence_aenv :: aenv where
  "nx_fence_aenv = nx_aenv\<lparr>a_getNode := (\<lambda>_ _. Inr nx_annotated),
     a_getNFC := (\<lambda>_ _. Inr \<lparr>nfc_meta = empty_meta ''fc'' [], nfc_provisioner = ''drv'',
       nfc_parameters = [(prefixedNetworkFenceSecretNameKey, ''s''), (''x'', ''y'')]\<rparr>)\<rparr>"

theorem fence_secrets_withheld_witness:
  "trace (snd (run_state (Node_Reconcile nx_env nx_fence_aenv nx_rec nx_req) nx_world)) ! 5 =
     Rpc (Some 7) (RpcGetFenceClients \<lparr>fq_parameters = [(''x'', ''y'')], fq_secretName = ''s'', fq_secretNamespace = [], fq_cidrs = []\<rparr>) \<and>
   mget (fq_parameters \<lparr>fq_parameters = [(''x'', ''y'')], fq_secretName = ''s'', fq_secretNamespace = [], fq_cidrs = []\<rparr>)
     prefixedNetworkFenceSecretNameKey = []"
proof
  let ?w = "snd (run_state (Node_Reconcile nx_env nx_fence_aenv nx_rec nx_req) nx_world)"
  let ?q = "\<lparr>fq_parameters = [(''x'', ''y'')], fq_secretName = ''s'', fq_secretNamespace = [], fq_cidrs = []\<rparr>"
  show ev: "trace ?w ! 5 = Rpc (Some 7) (RpcGetFenceClients ?q)"
    by code_simp
  have "length (trace ?w) = 7" by code_simp
  with ev have "appended nx_world ?w 5 (Rpc (Some 7) (RpcGetFenceClients ?q))"
    by (simp add: appended_def nx_world_def)
  from fence_secrets_withheld [OF surjective_pairing this] show "mget (fq_parameters ?q) prefixedNetworkFenceSecretNameKey = []" ..
qed

end
