(* ===== verification/Network_Fence_Class.thy ===== *)
theory Network_Fence_Class
  imports CSIAddons_Node
begin

text \<open>
  The controller of NetworkFenceClass objects,
  \<open>internal/controller/csiaddons/networkfenceclass_controller.go\<close>: it records the name of the class
  in an annotation of every CSIAddonsNode of the class's driver, and takes it out again before the
  class is released.
\<close>

definition nfc_set_finalizers :: "string list \<Rightarrow> network_fence_class \<Rightarrow> network_fence_class" where
  "nfc_set_finalizers fs c = c\<lparr>nfc_meta := (nfc_meta c)\<lparr>om_finalizers := fs\<rparr>\<rparr>"

definition Update_NFC :: "aenv \<Rightarrow> network_fence_class \<Rightarrow> (goerr + network_fence_class) prog" where
  "Update_NFC a c = call (\<lambda>h. a_updateNFC a h c) (ApiUpdate (O_FenceClass c))"

definition NFC_addFinalizer :: "aenv \<Rightarrow> network_fence_class \<Rightarrow> (network_fence_class \<times> goerr option) prog" where
  "NFC_addFinalizer a c =
     (if csiAddonsNodeFinalizer \<notin> set (om_finalizers (nfc_meta c)) then do {
        let c = nfc_set_finalizers (om_finalizers (nfc_meta c) @ [csiAddonsNodeFinalizer]) c;
        r \<leftarrow> Update_NFC a c;
        ret (update_result c (\<lambda>err. err) r)
      } else ret (c, None))"

definition NFC_removeFinalizer :: "aenv \<Rightarrow> network_fence_class \<Rightarrow> (network_fence_class \<times> goerr option) prog" where
  "NFC_removeFinalizer a c =
     (if csiAddonsNodeFinalizer \<in> set (om_finalizers (nfc_meta c)) then do {
        let c = nfc_set_finalizers (RemoveFromSlice (om_finalizers (nfc_meta c)) csiAddonsNodeFinalizer) c;
        r \<leftarrow> Update_NFC a c;
        ret (update_result c (\<lambda>err. err) r)
      } else ret (c, None))"

interpretation nfc_fin: finalizer_kind "\<lambda>c. om_finalizers (nfc_meta c)" nfc_set_finalizers
  csiAddonsNodeFinalizer NFC_addFinalizer NFC_removeFinalizer a_updateNFC "\<lambda>x. ApiUpdate (O_FenceClass x)"
  by unfold_locales
    (auto simp: nfc_set_finalizers_def NFC_addFinalizer_def NFC_removeFinalizer_def Update_NFC_def
      run_defs Let_def)

text \<open>\<open>None\<close> stands for the nil object of a class that is gone.\<close>

definition getNetworkFenceClass :: "aenv \<Rightarrow> nsname \<Rightarrow> (goerr + network_fence_class option) prog" where
  "getNetworkFenceClass a req = do {
     r \<leftarrow> Get_NFC a req;
     (case r of
        Inl err \<Rightarrow> if IsNotFound err then ret (Inr None) else ret (Inl err)
      | Inr c \<Rightarrow> ret (Inr (Some c)))
   }"

definition listCSIAddonsNodes :: "aenv \<Rightarrow> string \<Rightarrow> (goerr + csiaddons_node list) prog" where
  "listCSIAddonsNodes a provisioner =
     call (\<lambda>h. a_listNodes a h provisioner) (ApiList ''CSIAddonsNode'' provisioner)"

fun removeClassFromList :: "string list \<Rightarrow> string \<Rightarrow> string list" where
  "removeClassFromList [] className = []"
| "removeClassFromList (c # cs) className = (if c = className then cs else c # removeClassFromList cs className)"

fun NFC_validatePrefixedParameters :: "strmap \<Rightarrow> goerr option" where
  "NFC_validatePrefixedParameters [] = None"
| "NFC_validatePrefixedParameters ((k, v) # ps) =
     (if strings_HasPrefix k networkFenceParameterPrefix then
        (if k = prefixedNetworkFenceSecretNameKey then
           (if v = [] then Some (ErrMsg ''secret name cannot be empty'') else NFC_validatePrefixedParameters ps)
         else if k = prefixedNetworkFenceSecretNamespaceKey then
           (if v = [] then Some (ErrMsg ''secret namespace cannot be empty'') else NFC_validatePrefixedParameters ps)
         else Some (ErrMsg (''found unknown parameter key '' @ fmt_q k @ '' with reserved prefix '' @
                networkFenceParameterPrefix)))
      else NFC_validatePrefixedParameters ps)"

definition set_classes :: "string list \<Rightarrow> csiaddons_node \<Rightarrow> csiaddons_node" where
  "set_classes classes n = n\<lparr>can_meta := (can_meta n)\<lparr>om_annotations :=
     AList.update networkFenceClassAnnotationKey (json_Marshal classes) (om_annotations (can_meta n))\<rparr>\<rparr>"

definition drop_classes :: "csiaddons_node \<Rightarrow> csiaddons_node" where
  "drop_classes n = n\<lparr>can_meta := (can_meta n)\<lparr>om_annotations :=
     AList.delete networkFenceClassAnnotationKey (om_annotations (can_meta n))\<rparr>\<rparr>"

definition update_error :: "goerr + csiaddons_node \<Rightarrow> goerr option" where
  "update_error r = (case r of Inl err \<Rightarrow> Some err | Inr _ \<Rightarrow> None)"

text \<open>The loop over the capabilities: the first one that asks for an update ends it.\<close>

fun processCapabilities ::
  "aenv \<Rightarrow> csiaddons_node \<Rightarrow> network_fence_class \<Rightarrow> bool \<Rightarrow> string list \<Rightarrow> string list \<Rightarrow> goerr option prog" where
  "processCapabilities a n c del classes [] = ret None"
| "processCapabilities a n c del classes (cap # caps) =
     (if strings_Contains cap ''GET_CLIENTS_TO_FENCE'' then
        (let ok = om_name (nfc_meta c) \<in> set classes in
         if \<not> ok \<and> \<not> del then do {
           r \<leftarrow> Update_Node a (set_classes (classes @ [om_name (nfc_meta c)]) n);
           ret (update_error r)
         }
         else if ok \<and> del then do {
           let classes = removeClassFromList classes (om_name (nfc_meta c));
           r \<leftarrow> Update_Node a (if classes = [] then drop_classes n else set_classes classes n);
           ret (update_error r)
         }
         else processCapabilities a n c del classes caps)
      else processCapabilities a n c del classes caps)"

definition processCSIAddonsNode ::
  "aenv \<Rightarrow> csiaddons_node \<Rightarrow> network_fence_class \<Rightarrow> bool \<Rightarrow> goerr option prog" where
  "processCSIAddonsNode a n c nfUnderDeletion =
     (if can_capabilities n = [] then ret (Some (ErrMsg ''CSIAddonsNode status capabilities not found''))
      else
        (let classesJSON = mget (om_annotations (can_meta n)) networkFenceClassAnnotationKey in
         case (if classesJSON = [] then Inr [] else json_Unmarshal classesJSON) of
           Inl err \<Rightarrow> ret (Some err)
         | Inr classes \<Rightarrow> processCapabilities a n c nfUnderDeletion classes (can_capabilities n)))"

fun NFC_processNodes ::
  "aenv \<Rightarrow> network_fence_class \<Rightarrow> bool \<Rightarrow> csiaddons_node list \<Rightarrow> string list \<Rightarrow> string list prog" where
  "NFC_processNodes a c del [] errs = ret errs"
| "NFC_processNodes a c del (n # ns) errs =
     (if om_deletionTimestamp (can_meta n) = None then do {
        r \<leftarrow> processCSIAddonsNode a n c del;
        (case r of
           None \<Rightarrow> NFC_processNodes a c del ns errs
         | Some err \<Rightarrow> NFC_processNodes a c del ns
             (errs @ [''error processing node '' @ om_name (can_meta n) @ '': for NetworkFenceClass '' @
                om_name (nfc_meta c) @ '': '' @ Error err]))
      }
      else NFC_processNodes a c del ns errs)"

fun strings_Join :: "string list \<Rightarrow> string \<Rightarrow> string" where
  "strings_Join [] sep = []"
| "strings_Join [s] sep = s"
| "strings_Join (s # t # r) sep = s @ sep @ strings_Join (t # r) sep"

text \<open>The nodes of the driver, and the release of a class under deletion.\<close>

definition NFC_nodes :: "aenv \<Rightarrow> network_fence_class \<Rightarrow> bool \<Rightarrow> outcome prog" where
  "NFC_nodes a c nfUnderDeletion = do {
     lr \<leftarrow> listCSIAddonsNodes a (nfc_provisioner c);
     (case lr of
        Inl err \<Rightarrow> ret (done_err err)
      | Inr items \<Rightarrow> do {
          errs \<leftarrow> NFC_processNodes a c nfUnderDeletion items [];
          if errs \<noteq> [] then ret (done_err (ErrMsg (''multiple errors occurred: '' @ strings_Join errs '', '')))
          else if nfUnderDeletion then do {
            (_, err) \<leftarrow> NFC_removeFinalizer a c;
            ret (Returned rr_empty err)
          }
          else ret done_ok
        })
   }"

definition NFC_Reconcile :: "aenv \<Rightarrow> nsname \<Rightarrow> outcome prog" where
  "NFC_Reconcile a req = do {
     r \<leftarrow> getNetworkFenceClass a req;
     (case r of
        Inl err \<Rightarrow> ret (done_err err)
      | Inr None \<Rightarrow> ret done_ok
      | Inr (Some c) \<Rightarrow>
          (case NFC_validatePrefixedParameters (nfc_parameters c) of
             Some err \<Rightarrow> ret (done_err err)
           | None \<Rightarrow>
               if om_deletionTimestamp (nfc_meta c) = None then do {
                 (c, err) \<leftarrow> NFC_addFinalizer a c;
                 (case err of
                    Some er \<Rightarrow> ret (done_err er)
                  | None \<Rightarrow> NFC_nodes a c False)
               }
               else NFC_nodes a c True))
   }"

text \<open>The handler that maps a new node to the classes of its driver (\<open>enqueueNFC\<close>).\<close>

definition enqueueNFC :: "(event list \<Rightarrow> string \<Rightarrow> goerr + network_fence_class list) \<Rightarrow> csiaddons_node \<Rightarrow> nsname list prog" where
  "enqueueNFC listNFC n = do {
     r \<leftarrow> call (\<lambda>h. listNFC h (can_driverName n)) (ApiList ''NetworkFenceClass'' (can_driverName n));
     (case r of
        Inl _ \<Rightarrow> ret []
      | Inr items \<Rightarrow> ret (map (\<lambda>c. \<lparr>nn_namespace = [], nn_name = om_name (nfc_meta c)\<rparr>) items))
   }"

section \<open>The list of classes on a node\<close>

text \<open>The classes an annotation stands for; what \<open>processCSIAddonsNode\<close> and the node controller read.\<close>

definition node_classes :: "csiaddons_node \<Rightarrow> goerr + string list" where
  "node_classes n =
     (case map_of (om_annotations (can_meta n)) networkFenceClassAnnotationKey of
        None \<Rightarrow> Inr [] | Some s \<Rightarrow> json_Unmarshal s)"

definition fence_capable :: "csiaddons_node \<Rightarrow> bool" where
  "fence_capable n \<longleftrightarrow> (\<exists>cap \<in> set (can_capabilities n). strings_Contains cap ''GET_CLIENTS_TO_FENCE'')"

lemma node_classes_set [simp]: "node_classes (set_classes cs n) = Inr cs"
  by (simp add: node_classes_def set_classes_def update_conv' json_roundtrip)

lemma node_classes_drop [simp]: "node_classes (drop_classes n) = Inr []"
  by (simp add: node_classes_def drop_classes_def delete_conv')

lemma removeClassFromList_distinct:
  "distinct cs \<Longrightarrow> distinct (removeClassFromList cs x) \<and> set (removeClassFromList cs x) = set cs - {x}"
  by (induction cs) auto

lemma removeClassFromList_remove1: "removeClassFromList cs x = remove1 x cs"
  by (induction cs) auto

text \<open>The list after a step, and the node that is sent when it changes.\<close>

definition step_classes :: "bool \<Rightarrow> string \<Rightarrow> string list \<Rightarrow> string list" where
  "step_classes del x cs = (if del then remove1 x cs else if x \<in> set cs then cs else cs @ [x])"

definition step_node :: "bool \<Rightarrow> string \<Rightarrow> string list \<Rightarrow> csiaddons_node \<Rightarrow> csiaddons_node" where
  "step_node del x cs n = (if step_classes del x cs = [] then drop_classes n else set_classes (step_classes del x cs) n)"

lemma run_processCapabilities:
  "run_state (processCapabilities a n c del cs caps) w =
     (if (\<exists>cap \<in> set caps. strings_Contains cap ''GET_CLIENTS_TO_FENCE'') \<and>
         (om_name (nfc_meta c) \<in> set cs) = del
      then (update_error (a_updateNode a (trace w) (step_node del (om_name (nfc_meta c)) cs n)),
            w\<lparr>trace := trace w @ [ApiUpdate (O_Node (step_node del (om_name (nfc_meta c)) cs n))]\<rparr>)
      else (None, w))"
  by (induction caps)
    (auto simp: Update_Node_def run_defs Let_def step_node_def step_classes_def removeClassFromList_remove1)

lemma node_classes_step: "node_classes (step_node del x cs n) = Inr (step_classes del x cs)"
  by (simp add: step_node_def)

lemma step_node_other:
  "k \<noteq> networkFenceClassAnnotationKey \<Longrightarrow>
     map_of (om_annotations (can_meta (step_node del x cs n))) k = map_of (om_annotations (can_meta n)) k"
  by (simp add: step_node_def set_classes_def drop_classes_def update_conv' delete_conv')

end
