(* ===== verification/Network_Fence.thy ===== *)
theory Network_Fence
  imports Network_Fence_Class
begin

text \<open>
  The controller of NetworkFence objects, \<open>internal/controller/csiaddons/networkfence_controller.go\<close>:
  it sends one request to fence or unfence the listed addresses to the leading sidecar of the
  driver and reports the result. A \<open>NetworkFenceInstance\<close> is the record \<open>nf_instance\<close>; the logger
  and the deadline of the request are left out.
\<close>

abbreviation (input) FenceOperationSuccessfulMessage :: string where
  "FenceOperationSuccessfulMessage \<equiv> ''fencing operation successful''"
abbreviation (input) UnFenceOperationSuccessfulMessage :: string where
  "UnFenceOperationSuccessfulMessage \<equiv> ''unfencing operation successful''"
definition networkFenceFinalizer :: string where
  "networkFenceFinalizer = ''csiaddons.openshift.io/network-fence''"

definition Get_Fence :: "aenv \<Rightarrow> nsname \<Rightarrow> (goerr + network_fence) prog" where
  "Get_Fence a nn = call (\<lambda>h. a_getFence a h nn) (ApiGet ''NetworkFence'' nn)"
definition Update_Fence :: "aenv \<Rightarrow> network_fence \<Rightarrow> (goerr + network_fence) prog" where
  "Update_Fence a f = call (\<lambda>h. a_updateFence a h f) (ApiUpdate (O_Fence f))"
definition StatusUpdate_Fence :: "aenv \<Rightarrow> network_fence \<Rightarrow> (goerr + network_fence) prog" where
  "StatusUpdate_Fence a f = call (\<lambda>h. a_statusFence a h f) (ApiStatusUpdate (O_Fence f))"

lemmas fence_api_defs = Get_Fence_def Update_Fence_def StatusUpdate_Fence_def

record nf_instance =
  nfi_controllerClient :: "grpc_client option"
  nfi_instance :: network_fence
  nfi_nfClass :: "network_fence_class option"

definition validateNetworkFenceSpec :: "network_fence \<Rightarrow> goerr option" where
  "validateNetworkFenceSpec f =
     (if nf_className f \<noteq> [] then
        (if nf_cidrs f = None then Some (ErrMsg ''required parameter spec.cidrs is not specified'') else None)
      else if nf_driver f = [] then Some (ErrMsg ''required parameter driver is not specified'')
      else if nf_cidrs f = None then Some (ErrMsg ''required parameter cidrs is not specified'')
      else None)"

definition nf_set_finalizers :: "string list \<Rightarrow> network_fence \<Rightarrow> network_fence" where
  "nf_set_finalizers fs f = f\<lparr>nf_meta := (nf_meta f)\<lparr>om_finalizers := fs\<rparr>\<rparr>"

section \<open>Operations\<close>

definition addFinalizerToNetworkFence :: "aenv \<Rightarrow> network_fence \<Rightarrow> (network_fence \<times> goerr option) prog" where
  "addFinalizerToNetworkFence a f =
     (if networkFenceFinalizer \<notin> set (om_finalizers (nf_meta f)) then do {
        let f = nf_set_finalizers (om_finalizers (nf_meta f) @ [networkFenceFinalizer]) f;
        r \<leftarrow> Update_Fence a f;
        ret (update_result f (\<lambda>err. ErrWrap (''failed to add finalizer ('' @ networkFenceFinalizer @
          '') to NetworkFence resource ('' @ om_name (nf_meta f) @ ''): '') err []) r)
      } else ret (f, None))"

definition removeFinalizerFromNetworkFence :: "aenv \<Rightarrow> network_fence \<Rightarrow> (network_fence \<times> goerr option) prog" where
  "removeFinalizerFromNetworkFence a f =
     (if networkFenceFinalizer \<in> set (om_finalizers (nf_meta f)) then do {
        let f = nf_set_finalizers (RemoveFromSlice (om_finalizers (nf_meta f)) networkFenceFinalizer) f;
        r \<leftarrow> Update_Fence a f;
        ret (update_result f (\<lambda>err. ErrWrap (''failed to remove finalizer ('' @ networkFenceFinalizer @
          '') from NetworkFence resource '' @ om_name (nf_meta f) @ '': '') err []) r)
      } else ret (f, None))"

interpretation nf_fin: finalizer_kind "\<lambda>f. om_finalizers (nf_meta f)" nf_set_finalizers
  networkFenceFinalizer addFinalizerToNetworkFence removeFinalizerFromNetworkFence a_updateFence
  "\<lambda>x. ApiUpdate (O_Fence x)"
  by unfold_locales
    (auto simp: nf_set_finalizers_def addFinalizerToNetworkFence_def removeFinalizerFromNetworkFence_def
      Update_Fence_def run_defs Let_def)

definition updateStatus :: "aenv \<Rightarrow> network_fence \<Rightarrow> fence_result \<Rightarrow> string \<Rightarrow> goerr option prog" where
  "updateStatus a f result message = do {
     r \<leftarrow> StatusUpdate_Fence a (f\<lparr>nf_result := result, nf_message := message\<rparr>);
     (case r of Inl err \<Rightarrow> ret (Some err) | Inr _ \<Rightarrow> ret None)
   }"

definition getNetworkFenceClient :: "env \<Rightarrow> string \<Rightarrow> grpc_client option gores prog" where
  "getNetworkFenceClient e drivername = do {
     r \<leftarrow> GetLeaderByDriver e drivername;
     (case r of
        GoErr err \<Rightarrow> ret (GoErr err)
      | GoPanic m \<Rightarrow> ret (GoPanic m)
      | GoOk conn \<Rightarrow>
          if \<exists>cap \<in> set (cn_Capabilities conn). cap = CapNetworkFence NETWORK_FENCE
          then ret (GoOk (cn_Client conn))
          else ret (GoErr (ErrMsg (''leading CSIAddonsNode '' @ fmt_q (cn_Name conn) @ '' for driver '' @
                 fmt_q drivername @ '' does not support NetworkFence''))))
   }"

definition instance_client ::
  "env \<Rightarrow> network_fence \<Rightarrow> network_fence_class option \<Rightarrow> string \<Rightarrow> nf_instance gores prog" where
  "instance_client e f nfc driverName = do {
     r \<leftarrow> getNetworkFenceClient e driverName;
     (case r of
        GoErr err \<Rightarrow> ret (GoErr (ErrWrap (''failed to get networkfenceclient using driver '' @ fmt_q driverName @
          '' due to error: '') err []))
      | GoPanic m \<Rightarrow> ret (GoPanic m)
      | GoOk cl \<Rightarrow> ret (GoOk \<lparr>nfi_controllerClient = cl, nfi_instance = f, nfi_nfClass = nfc\<rparr>))
   }"

definition getNetworkFenceInstance :: "env \<Rightarrow> aenv \<Rightarrow> network_fence \<Rightarrow> nf_instance gores prog" where
  "getNetworkFenceInstance e a f =
     (if nf_className f = [] then instance_client e f None (nf_driver f)
      else do {
        r \<leftarrow> Get_NFC a \<lparr>nn_namespace = [], nn_name = nf_className f\<rparr>;
        (case r of
           Inl err \<Rightarrow> ret (GoErr (ErrWrap (''failed to get networkfenceclass with name '' @ fmt_q (nf_className f) @
             '' due to error: '') err []))
         | Inr nfc \<Rightarrow> instance_client e f (Some nfc) (nfc_provisioner nfc))
      })"

text \<open>
  The loop that copies the parameters of the class into the request; a nil map is made first. The
  map of the request is the map of the object, so that a map which is not nil changes in both.
\<close>

fun copy_params :: "strmap \<Rightarrow> strmap \<Rightarrow> strmap" where
  "copy_params params [] = params"
| "copy_params params ((k, v) # ps) =
     (if k = prefixedNetworkFenceSecretNameKey \<or> k = prefixedNetworkFenceSecretNamespaceKey
      then copy_params params ps else copy_params (AList.update k v params) ps)"

definition fence_request :: "nf_instance \<Rightarrow> fence_req \<times> nf_instance" where
  "fence_request nf =
     (let f = nfi_instance nf;
          request = \<lparr>fq_parameters = (case nf_parameters f of None \<Rightarrow> [] | Some p \<Rightarrow> p),
            fq_secretName = nf_secretName f, fq_secretNamespace = nf_secretNamespace f,
            fq_cidrs = (case nf_cidrs f of None \<Rightarrow> [] | Some cs \<Rightarrow> cs)\<rparr>
      in
      (case nfi_nfClass nf of
         None \<Rightarrow> (request, nf)
       | Some nfc \<Rightarrow>
           (let nfParams = nfc_parameters nfc; params = copy_params (fq_parameters request) nfParams
            in (request\<lparr>fq_secretName := mget nfParams prefixedNetworkFenceSecretNameKey,
                  fq_secretNamespace := mget nfParams prefixedNetworkFenceSecretNamespaceKey,
                  fq_parameters := params\<rparr>,
                nf\<lparr>nfi_instance := f\<lparr>nf_parameters := map_option (\<lambda>_. params) (nf_parameters f)\<rparr>\<rparr>))))"

definition fenceClusterNetwork :: "aenv \<Rightarrow> nf_instance \<Rightarrow> fence_req \<Rightarrow> goerr option prog" where
  "fenceClusterNetwork a nf request = do {
     r \<leftarrow> call (\<lambda>h. a_rpcFence a h (nfi_controllerClient nf) request)
            (Rpc (nfi_controllerClient nf) (RpcFence request));
     (case r of Inl err \<Rightarrow> ret (Some err) | Inr _ \<Rightarrow> ret None)
   }"

definition unfenceClusterNetwork :: "aenv \<Rightarrow> nf_instance \<Rightarrow> fence_req \<Rightarrow> goerr option prog" where
  "unfenceClusterNetwork a nf request = do {
     r \<leftarrow> call (\<lambda>h. a_rpcUnfence a h (nfi_controllerClient nf) request)
            (Rpc (nfi_controllerClient nf) (RpcUnfence request));
     (case r of Inl err \<Rightarrow> ret (Some err) | Inr _ \<Rightarrow> ret None)
   }"

definition processFencingRequest :: "aenv \<Rightarrow> nf_instance \<Rightarrow> (nf_instance \<times> goerr option) prog" where
  "processFencingRequest a nf =
     (let (request, nf) = fence_request nf in
      if nf_fenceState (nfi_instance nf) = Fenced then do {
        err \<leftarrow> fenceClusterNetwork a nf request;
        ret (nf, err)
      }
      else do {
        err \<leftarrow> unfenceClusterNetwork a nf request;
        ret (nf, err)
      })"

definition processFencing :: "aenv \<Rightarrow> nf_instance \<Rightarrow> (nf_instance \<times> goerr option) prog" where
  "processFencing a nf = do {
     (f, err) \<leftarrow> addFinalizerToNetworkFence a (nfi_instance nf);
     (case err of
        Some er \<Rightarrow> ret (nf\<lparr>nfi_instance := f\<rparr>, Some er)
      | None \<Rightarrow> processFencingRequest a (nf\<lparr>nfi_instance := f\<rparr>))
   }"

section \<open>Reconcile\<close>

definition fence_success_message :: "fence_state \<Rightarrow> string" where
  "fence_success_message s =
     (case s of
        Fenced \<Rightarrow> FenceOperationSuccessfulMessage
      | Unfenced \<Rightarrow> UnFenceOperationSuccessfulMessage
      | OtherFenceState _ \<Rightarrow> [])"

definition Fence_process :: "aenv \<Rightarrow> nf_instance \<Rightarrow> outcome prog" where
  "Fence_process a nf = do {
     (nf, err) \<leftarrow> processFencing a nf;
     (case err of
        Some er \<Rightarrow> do {
          _ \<leftarrow> updateStatus a (nfi_instance nf) FencingOperationResultFailed (Error er);
          ret (done_err er)
        }
      | None \<Rightarrow> do {
          st \<leftarrow> updateStatus a (nfi_instance nf) FencingOperationResultSucceeded
            (fence_success_message (nf_fenceState (nfi_instance nf)));
          ret (Returned rr_empty st)
        })
   }"

definition Fence_deleted :: "aenv \<Rightarrow> nf_instance \<Rightarrow> outcome prog" where
  "Fence_deleted a nf =
     (if networkFenceFinalizer \<in> set (om_finalizers (nf_meta (nfi_instance nf))) then do {
        (_, err) \<leftarrow> removeFinalizerFromNetworkFence a (nfi_instance nf);
        ret (Returned rr_empty err)
      }
      else ret done_ok)"

definition Fence_invalid :: "aenv \<Rightarrow> network_fence \<Rightarrow> goerr \<Rightarrow> outcome prog" where
  "Fence_invalid a f err = do {
     r \<leftarrow> StatusUpdate_Fence a (f\<lparr>nf_result := FencingOperationResultFailed,
       nf_message := ''Failed to validate Networkfence parameters: '' @ GetErrorMessage err\<rparr>);
     (case r of Inl statusErr \<Rightarrow> ret (done_err statusErr) | Inr _ \<Rightarrow> ret done_ok)
   }"

definition Fence_Reconcile :: "env \<Rightarrow> aenv \<Rightarrow> nsname \<Rightarrow> outcome prog" where
  "Fence_Reconcile e a req = do {
     r \<leftarrow> Get_Fence a req;
     (case r of
        Inl err \<Rightarrow> if IsNotFound err then ret done_ok else ret (done_err err)
      | Inr f \<Rightarrow>
          (case validateNetworkFenceSpec f of
             Some err \<Rightarrow> Fence_invalid a f err
           | None \<Rightarrow> do {
               nfr \<leftarrow> getNetworkFenceInstance e a f;
               (case nfr of
                  GoErr err \<Rightarrow> ret (done_err err)
                | GoPanic m \<Rightarrow> ret (Panicked m)
                | GoOk nf \<Rightarrow>
                    if om_deletionTimestamp (nf_meta (nfi_instance nf)) \<noteq> None then Fence_deleted a nf
                    else Fence_process a nf)
             }))
   }"

section \<open>Requests\<close>

text \<open>A parameter of the request comes from the class when it is there, from the object otherwise.\<close>

definition reserved_key :: "string \<Rightarrow> bool" where
  "reserved_key k \<longleftrightarrow> k = prefixedNetworkFenceSecretNameKey \<or> k = prefixedNetworkFenceSecretNamespaceKey"

lemma map_of_copy_params:
  "distinct (map fst ps) \<Longrightarrow>
     map_of (copy_params params ps) k =
       (if reserved_key k then map_of params k
        else case map_of ps k of Some v \<Rightarrow> Some v | None \<Rightarrow> map_of params k)"
proof (induction ps arbitrary: params)
  case Nil
  then show ?case by simp
next
  case (Cons p ps)
  obtain k' v where p: "p = (k', v)" by fastforce
  show ?case
  proof (cases "reserved_key k'")
    case True
    with Cons p have "map_of ps k' = None" by (simp add: map_of_eq_None_iff)
    with True Cons p show ?thesis by (auto simp: reserved_key_def)
  next
    case False
    with Cons p have "k' \<notin> fst ` set ps" by simp
    then have "map_of ps k' = None" by (simp add: map_of_eq_None_iff)
    with False Cons p show ?thesis
      by (auto simp: reserved_key_def update_conv' split: option.splits)
  qed
qed

lemma fence_request_state [simp]:
  "nf_fenceState (nfi_instance (snd (fence_request nf))) = nf_fenceState (nfi_instance nf)"
  "nfi_controllerClient (snd (fence_request nf)) = nfi_controllerClient nf"
  by (auto simp: fence_request_def Let_def split: option.splits)

end
