(* ===== verification/Fence_Facts.thy ===== *)
theory Fence_Facts
  imports Network_Fence Node_Facts
begin

text \<open>
  What the two fencing controllers do on every path: the annotation of the nodes and its order
  with the release of a class, and the single request of a fence with what is reported after it.
\<close>

section \<open>Classes on nodes\<close>

text \<open>The classes \<open>processCSIAddonsNode\<close> works on; it takes an empty annotation for an absent one.\<close>

definition listed_classes :: "csiaddons_node \<Rightarrow> goerr + string list" where
  "listed_classes n =
     (if mget (om_annotations (can_meta n)) networkFenceClassAnnotationKey = [] then Inr []
      else json_Unmarshal (mget (om_annotations (can_meta n)) networkFenceClassAnnotationKey))"

lemma listed_step: "listed_classes (step_node del x cs n) = Inr (step_classes del x cs)"
  by (simp add: listed_classes_def step_node_def set_classes_def drop_classes_def json_roundtrip)

lemma step_classes_change: "step_classes del x cs \<noteq> cs \<longleftrightarrow> (x \<in> set cs) = del"
proof -
  have "x \<in> set cs \<Longrightarrow> length (remove1 x cs) < length cs"
    by (auto simp: length_remove1 dest: length_pos_if_in_set)
  then have "x \<in> set cs \<Longrightarrow> remove1 x cs \<noteq> cs" by (metis less_irrefl)
  then show ?thesis by (auto simp: step_classes_def remove1_idem)
qed

lemma step_classes_distinct:
  "distinct cs \<Longrightarrow> distinct (step_classes del x cs) \<and>
     set (step_classes del x cs) = (if del then set cs - {x} else insert x (set cs))"
  by (auto simp: step_classes_def)

lemma run_processCSIAddonsNode:
  assumes "can_capabilities n \<noteq> []" "listed_classes n = Inr cs"
  shows "run_state (processCSIAddonsNode a n c del) w =
    (if fence_capable n \<and> (om_name (nfc_meta c) \<in> set cs) = del
     then (update_error (a_updateNode a (trace w) (step_node del (om_name (nfc_meta c)) cs n)),
           w\<lparr>trace := trace w @ [ApiUpdate (O_Node (step_node del (om_name (nfc_meta c)) cs n))]\<rparr>)
     else (None, w))"
  using assms
  by (auto simp: processCSIAddonsNode_def run_processCapabilities listed_classes_def fence_capable_def Let_def
      split: if_splits)

lemma processCSIAddonsNode_error:
  assumes "can_capabilities n = [] \<or> isl (listed_classes n)"
  shows "\<exists>err. run_state (processCSIAddonsNode a n c del) w = (Some err, w)"
  using assms
  by (auto simp: processCSIAddonsNode_def listed_classes_def Let_def isl_def split: if_splits sum.splits)

text \<open>
  A node from which a class under deletion is gone: its list never had it, or the server accepted
  the shorter list since \<open>h0\<close>.
\<close>

definition cleared :: "aenv \<Rightarrow> event list \<Rightarrow> string \<Rightarrow> csiaddons_node \<Rightarrow> event list \<Rightarrow> bool" where
  "cleared a h0 x n h \<longleftrightarrow>
     (\<exists>cs. listed_classes n = Inr cs \<and>
       (fence_capable n \<and> x \<in> set cs \<longrightarrow>
          since h0 (\<lambda>h ev. ev = ApiUpdate (O_Node (step_node True x cs n)) \<and>
             (\<exists>n'. a_updateNode a h (step_node True x cs n) = Inr n')) h))"

lemma stable_cleared: "stable (cleared a h0 x n)"
  by (auto simp: stable_def cleared_def since_append)

lemma htriple_processCSIAddonsNode:
  assumes "\<And>h m. R h (ApiUpdate (O_Node m))"
  shows "htriple (extends h0) (processCSIAddonsNode a n c True)
    (\<lambda>r h. extends h0 h \<and> (r = None \<longrightarrow> cleared a h0 (om_name (nfc_meta c)) n h)) R"
proof (cases "can_capabilities n = [] \<or> isl (listed_classes n)")
  case True
  show ?thesis
    unfolding htriple_def
  proof (intro allI impI)
    fix w r w'
    assume "run_state (processCSIAddonsNode a n c True) w = (r, w')" "extends h0 (trace w)"
    moreover obtain err where "run_state (processCSIAddonsNode a n c True) w = (Some err, w)"
      using processCSIAddonsNode_error [OF True] by blast
    ultimately show "\<exists>es. trace w' = trace w @ es \<and> steps_ok R (trace w) es \<and>
        extends h0 (trace w') \<and> (r = None \<longrightarrow> cleared a h0 (om_name (nfc_meta c)) n (trace w'))"
      by auto
  qed
next
  case False
  then obtain cs where cs: "listed_classes n = Inr cs" "can_capabilities n \<noteq> []"
    by (cases "listed_classes n") auto
  show ?thesis
    unfolding htriple_def run_processCSIAddonsNode [OF cs(2,1)]
    using assms cs(1)
    by (auto simp: cleared_def update_error_def extends_append intro!: since_snoc split: sum.splits if_splits)
qed

lemma htriple_NFC_processNodes:
  assumes "\<And>h m. R h (ApiUpdate (O_Node m))" "stable F"
  shows "htriple (\<lambda>h. extends h0 h \<and> F h) (NFC_processNodes a c True ns errs)
    (\<lambda>errs' h. extends h0 h \<and> F h \<and> (errs' = [] \<longrightarrow> errs = [] \<and>
       (\<forall>n \<in> set ns. om_deletionTimestamp (can_meta n) = None \<longrightarrow> cleared a h0 (om_name (nfc_meta c)) n h))) R"
  using assms(2)
proof (induction ns arbitrary: errs F)
  case Nil
  then show ?case by simp
next
  case (Cons n ns)
  let ?x = "om_name (nfc_meta c)"
  note IH = Cons.IH
  show ?case
  proof (cases "om_deletionTimestamp (can_meta n) = None")
    case False
    show ?thesis
      unfolding NFC_processNodes.simps if_not_P [OF False]
      by (rule htriple_weaken [OF IH [OF Cons.prems]]) (use False in auto)
  next
    case True
    let ?F = "\<lambda>r h. F h \<and> (r = None \<longrightarrow> cleared a h0 ?x n h)"
    have stable: "stable (?F r)" for r
      using Cons.prems stable_cleared by (auto simp: stable_def)
    have first: "htriple (\<lambda>h. extends h0 h \<and> F h) (processCSIAddonsNode a n c True) (\<lambda>r h. extends h0 h \<and> ?F r h) R"
      by (rule htriple_weaken [OF htriple_frame [OF Cons.prems htriple_processCSIAddonsNode [of R, OF assms(1)]]]) auto
    show ?thesis
      unfolding NFC_processNodes.simps if_P [OF True]
    proof (rule htriple_bind [OF first], goal_cases)
      case (1 r)
      show ?case
      proof (cases r)
        case None
        show ?thesis
          unfolding None option.case by (rule htriple_weaken [OF IH [OF stable [of None]]]) auto
      next
        case (Some err)
        show ?thesis
          unfolding Some option.case by (rule htriple_weaken [OF IH [OF Cons.prems]]) auto
      qed
    qed
  qed
qed

text \<open>
  A class is released only when every node of its driver, but for those under deletion, has been
  cleared of it.
\<close>

definition release_ok :: "aenv \<Rightarrow> event list \<Rightarrow> string \<Rightarrow> csiaddons_node list \<Rightarrow> event list \<Rightarrow> event \<Rightarrow> bool" where
  "release_ok a h0 x items h ev \<longleftrightarrow>
     (\<forall>c'. ev = ApiUpdate (O_FenceClass c') \<longrightarrow>
        (\<forall>n \<in> set items. om_deletionTimestamp (can_meta n) = None \<longrightarrow> cleared a h0 x n h))"

lemma release_ok_simps [simp]:
  "release_ok a h0 x items h (ApiGet k nn)" "release_ok a h0 x items h (ApiList k s)"
  "release_ok a h0 x items h (ApiUpdate (O_Node m))"
  by (simp_all add: release_ok_def)

lemma htriple_NFC_nodes:
  assumes items: "\<And>h. a_listNodes a h (nfc_provisioner c) = Inr items"
  shows "htriple (extends h0) (NFC_nodes a c True) (\<lambda>_ _. True) (release_ok a h0 (om_name (nfc_meta c)) items)"
proof -
  let ?x = "om_name (nfc_meta c)" and ?R = "release_ok a h0 (om_name (nfc_meta c)) items"
  let ?done = "\<lambda>h. \<forall>n \<in> set items. om_deletionTimestamp (can_meta n) = None \<longrightarrow> cleared a h0 ?x n h"
  have stable: "stable ?done" using stable_cleared by (auto simp: stable_def)
  have list: "htriple (extends h0) (listCSIAddonsNodes a (nfc_provisioner c)) (\<lambda>r h. extends h0 h \<and> r = Inr items) ?R"
    unfolding listCSIAddonsNodes_def by (rule htriple_call) (simp_all add: items extends_append)
  have nodes: "htriple (extends h0) (NFC_processNodes a c True items []) (\<lambda>errs h. errs = [] \<longrightarrow> ?done h) ?R"
    by (rule htriple_weaken [OF htriple_NFC_processNodes [where F = "\<lambda>_. True"]]) (auto simp: stable_def)
  have remove: "htriple ?done (NFC_removeFinalizer a c) (\<lambda>_ _. True) ?R"
    by (rule htriple_weaken [OF htriple_ignore [OF nfc_fin.emits_rem stable]]) (auto simp: release_ok_def)
  have tail: "htriple (\<lambda>h. errs = [] \<longrightarrow> ?done h)
      (if errs \<noteq> [] then ret (done_err (ErrMsg (''multiple errors occurred: '' @ strings_Join errs '', '')))
       else do { (_, err) \<leftarrow> NFC_removeFinalizer a c; ret (Returned rr_empty err) }) (\<lambda>_ _. True) ?R" for errs
    using htriple_bind [OF remove, of "\<lambda>(_, err). ret (Returned rr_empty err)" "\<lambda>_ _. True"]
    by (auto split: prod.splits)
  show ?thesis
    unfolding NFC_nodes_def
    by (rule htriple_bind [OF list], rule htriple_pure)
      (simp add: htriple_bind [OF nodes] tail [simplified])
qed

lemma htriple_NFC_Reconcile:
  assumes get: "a_getNFC a h0 req = Inr c" and del: "om_deletionTimestamp (nfc_meta c) \<noteq> None"
    and items: "\<And>h. a_listNodes a h (nfc_provisioner c) = Inr items"
  shows "htriple (\<lambda>h. h = h0) (NFC_Reconcile a req) (\<lambda>_ _. True) (release_ok a h0 (om_name (nfc_meta c)) items)"
proof -
  let ?R = "release_ok a h0 (om_name (nfc_meta c)) items"
  have first: "htriple (\<lambda>h. h = h0) (getNetworkFenceClass a req) (\<lambda>r h. extends h0 h \<and> r = Inr (Some c)) ?R"
    unfolding getNetworkFenceClass_def Get_NFC_def
    by (rule htriple_first_call) (simp_all add: get)
  show ?thesis
    unfolding NFC_Reconcile_def
    by (rule htriple_bind [OF first], rule htriple_pure)
      (use del htriple_NFC_nodes [OF items, of h0] in \<open>auto split: option.split\<close>)
qed

section \<open>Fencing requests\<close>

lemma emits_instance:
  assumes "\<And>h ev. lookup_call ev \<Longrightarrow> R h ev"
  shows "emits R (getNetworkFenceInstance e a f)"
  unfolding getNetworkFenceInstance_def instance_client_def getNetworkFenceClient_def Get_NFC_def
  by (intro emits_intros emits_gores emits_leader) (simp_all add: assms)

lemma getNetworkFenceInstance_same:
  "returns (getNetworkFenceInstance e a f) (\<lambda>r. \<forall>nf. r = GoOk nf \<longrightarrow> nfi_instance nf = f)"
proof -
  have client: "returns (instance_client e f nfc d) (\<lambda>r. \<forall>nf. r = GoOk nf \<longrightarrow> nfi_instance nf = f)" for nfc d
    unfolding instance_client_def by (rule returns_any) (auto intro!: returns_ret split: gores.split)
  show ?thesis
    unfolding getNetworkFenceInstance_def
    by (auto intro!: returns_any returns_ret client split: sum.split)
qed

text \<open>
  The request that carries out the state of \<open>f\<close>, and its success: the sidecar accepted it since \<open>h0\<close>,
  for exactly the addresses of \<open>f\<close>.
\<close>

definition carries_out :: "aenv \<Rightarrow> network_fence \<Rightarrow> event list \<Rightarrow> event \<Rightarrow> bool" where
  "carries_out a f h ev \<longleftrightarrow>
     (\<exists>c q. fq_cidrs q = (case nf_cidrs f of None \<Rightarrow> [] | Some cs \<Rightarrow> cs) \<and>
        (if nf_fenceState f = Fenced then ev = Rpc c (RpcFence q) \<and> a_rpcFence a h c q = Inr ()
         else ev = Rpc c (RpcUnfence q) \<and> a_rpcUnfence a h c q = Inr ()))"

lemma fence_request_instance:
  "nf_cidrs (nfi_instance (snd (fence_request nf))) = nf_cidrs (nfi_instance nf)"
  "fq_cidrs (fst (fence_request nf)) = (case nf_cidrs (nfi_instance nf) of None \<Rightarrow> [] | Some cs \<Rightarrow> cs)"
  "nf_meta (nfi_instance (snd (fence_request nf))) = nf_meta (nfi_instance nf)"
  by (auto simp: fence_request_def Let_def split: option.splits)

lemma carries_out_cong:
  "nf_cidrs f = nf_cidrs g \<Longrightarrow> nf_fenceState f = nf_fenceState g \<Longrightarrow> carries_out a f = carries_out a g"
  by (simp add: carries_out_def fun_eq_iff)

lemma htriple_processFencingRequest:
  assumes "\<And>h c q. H h \<Longrightarrow> R h (Rpc c (RpcFence q))" "\<And>h c q. H h \<Longrightarrow> R h (Rpc c (RpcUnfence q))"
    and "\<And>h. H h \<Longrightarrow> extends h0 h"
  shows "htriple H (processFencingRequest a nf)
    (\<lambda>(nf', err) h. err = None \<longrightarrow> since h0 (carries_out a (nfi_instance nf')) h) R"
proof -
  obtain q nf' where req: "fence_request nf = (q, nf')" by fastforce
  have nf': "nf_fenceState (nfi_instance nf') = nf_fenceState (nfi_instance nf)"
      "fq_cidrs q = (case nf_cidrs (nfi_instance nf') of None \<Rightarrow> [] | Some cs \<Rightarrow> cs)"
    using fence_request_state(1) [of nf] fence_request_instance(1,2) [of nf] req by simp_all
  show ?thesis
  proof (cases "nf_fenceState (nfi_instance nf) = Fenced")
    case True
    have "htriple H (call (\<lambda>h. a_rpcFence a h (nfi_controllerClient nf') q) (Rpc (nfi_controllerClient nf') (RpcFence q)))
        (\<lambda>r h. r = Inr () \<longrightarrow> since h0 (carries_out a (nfi_instance nf')) h) R"
      using True nf' assms by (intro htriple_call) (auto intro!: since_snoc simp: carries_out_def)
    then have "htriple H (fenceClusterNetwork a nf' q) (\<lambda>err h. err = None \<longrightarrow> since h0 (carries_out a (nfi_instance nf')) h) R"
      unfolding fenceClusterNetwork_def by (rule htriple_bind) (auto split: sum.split)
    from htriple_bind [OF this, of "\<lambda>err. ret (nf', err)"] show ?thesis
      unfolding processFencingRequest_def using True nf' req by simp
  next
    case False
    have "htriple H (call (\<lambda>h. a_rpcUnfence a h (nfi_controllerClient nf') q) (Rpc (nfi_controllerClient nf') (RpcUnfence q)))
        (\<lambda>r h. r = Inr () \<longrightarrow> since h0 (carries_out a (nfi_instance nf')) h) R"
      using False nf' assms by (intro htriple_call) (auto intro!: since_snoc simp: carries_out_def)
    then have "htriple H (unfenceClusterNetwork a nf' q) (\<lambda>err h. err = None \<longrightarrow> since h0 (carries_out a (nfi_instance nf')) h) R"
      unfolding unfenceClusterNetwork_def by (rule htriple_bind) (auto split: sum.split)
    from htriple_bind [OF this, of "\<lambda>err. ret (nf', err)"] show ?thesis
      unfolding processFencingRequest_def using False nf' req by simp
  qed
qed

text \<open>Success is reported only after the request succeeded.\<close>

definition result_earned :: "aenv \<Rightarrow> event list \<Rightarrow> event list \<Rightarrow> event \<Rightarrow> bool" where
  "result_earned a h0 h ev \<longleftrightarrow>
     (\<forall>f. ev = ApiStatusUpdate (O_Fence f) \<longrightarrow> nf_result f = FencingOperationResultSucceeded \<longrightarrow>
        since h0 (carries_out a f) h)"

lemma result_earned_other [simp]:
  "result_earned a h0 h (ApiUpdate x)" "result_earned a h0 h (Rpc c q)" "lookup_call ev \<Longrightarrow> result_earned a h0 h ev"
  by (auto simp: result_earned_def)

lemma htriple_Fence_process: "htriple (extends h0) (Fence_process a nf) (\<lambda>_ _. True) (result_earned a h0)"
proof -
  have add: "htriple (extends h0) (addFinalizerToNetworkFence a f) (\<lambda>_. extends h0) (result_earned a h0)" for f
    by (rule htriple_ignore) (auto intro!: nf_fin.emits_add)
  have req: "htriple (extends h0) (processFencingRequest a nf)
      (\<lambda>(nf', err) h. err = None \<longrightarrow> since h0 (carries_out a (nfi_instance nf')) h) (result_earned a h0)" for nf
    by (rule htriple_processFencingRequest) simp_all
  have proc: "htriple (extends h0) (processFencing a nf)
      (\<lambda>(nf', err) h. err = None \<longrightarrow> since h0 (carries_out a (nfi_instance nf')) h) (result_earned a h0)"
    unfolding processFencing_def
    by (rule htriple_bind [OF add]) (auto intro!: req split: prod.split option.split)
  have cong: "carries_out a (f\<lparr>nf_result := r, nf_message := m\<rparr>) = carries_out a f" for f r m
    by (rule carries_out_cong) simp_all
  have ok: "htriple (since h0 (carries_out a f)) (updateStatus a f FencingOperationResultSucceeded m) (\<lambda>_ _. True) (result_earned a h0)"
    and failed: "emits (result_earned a h0) (updateStatus a f FencingOperationResultFailed m)" for f m
    unfolding updateStatus_def StatusUpdate_Fence_def
    by (rule htriple_bind [where K = "\<lambda>_ _. True"], rule htriple_call)
      (auto simp: result_earned_def cong intro!: emits_intros split: sum.split)
  show ?thesis
    unfolding Fence_process_def
  proof (rule htriple_bind [OF proc], goal_cases)
    case (1 x)
    obtain nf' err where x: "x = (nf', err)" by fastforce
    show ?case
    proof (cases err)
      case None
      with x show ?thesis by (auto intro: htriple_bind [OF ok])
    next
      case (Some er)
      with x show ?thesis
        by (auto intro!: htriple_true emits_intros failed)
    qed
  qed
qed

lemma htriple_Fence_Reconcile: "htriple (\<lambda>h. h = h0) (Fence_Reconcile e a req) (\<lambda>_ _. True) (result_earned a h0)"
proof -
  have inst: "htriple (extends h0) (getNetworkFenceInstance e a f) (\<lambda>_. extends h0) (result_earned a h0)" for f
    by (rule htriple_ignore) (auto intro!: emits_instance)
  have deleted: "emits (result_earned a h0) (Fence_deleted a nf)" for nf
    unfolding Fence_deleted_def by (intro emits_intros nf_fin.emits_rem) simp
  have invalid: "emits (result_earned a h0) (Fence_invalid a f err)" for f err
    unfolding Fence_invalid_def StatusUpdate_Fence_def by (intro emits_intros) (simp add: result_earned_def)
  have rest: "htriple (extends h0) (case nfr of GoErr err \<Rightarrow> ret (done_err err) | GoPanic m \<Rightarrow> ret (Panicked m)
      | GoOk nf \<Rightarrow> if om_deletionTimestamp (nf_meta (nfi_instance nf)) \<noteq> None then Fence_deleted a nf
          else Fence_process a nf) (\<lambda>_ _. True) (result_earned a h0)" for nfr
    using htriple_true [OF deleted] htriple_Fence_process by (auto split: gores.split)
  have body: "htriple (extends h0) (case validateNetworkFenceSpec f of
      Some err \<Rightarrow> Fence_invalid a f err
    | None \<Rightarrow> do {
        nfr \<leftarrow> getNetworkFenceInstance e a f;
        (case nfr of GoErr err \<Rightarrow> ret (done_err err) | GoPanic m \<Rightarrow> ret (Panicked m)
         | GoOk nf \<Rightarrow> if om_deletionTimestamp (nf_meta (nfi_instance nf)) \<noteq> None then Fence_deleted a nf
             else Fence_process a nf) }) (\<lambda>_ _. True) (result_earned a h0)" for f
    by (simp only: split: option.split) (intro conjI impI allI htriple_bind [OF inst rest] htriple_true [OF invalid])
  show ?thesis
    unfolding Fence_Reconcile_def Get_Fence_def
    by (rule htriple_first_call) (use body in \<open>auto split: sum.split\<close>)
qed

section \<open>Protection before fencing\<close>

text \<open>The object carries the finalizer, as it was read or as the server accepted it since.\<close>

definition held :: "aenv \<Rightarrow> event list \<Rightarrow> network_fence \<Rightarrow> event list \<Rightarrow> bool" where
  "held a h0 f h \<longleftrightarrow> networkFenceFinalizer \<in> set (om_finalizers (nf_meta f)) \<or>
     since h0 (\<lambda>h ev. \<exists>g y. ev = ApiUpdate (O_Fence g) \<and> networkFenceFinalizer \<in> set (om_finalizers (nf_meta g)) \<and>
       a_updateFence a h g = Inr y) h"

definition guarded :: "aenv \<Rightarrow> event list \<Rightarrow> network_fence \<Rightarrow> event list \<Rightarrow> event \<Rightarrow> bool" where
  "guarded a h0 f h ev \<longleftrightarrow>
     (\<forall>c q. ev = Rpc c (RpcFence q) \<or> ev = Rpc c (RpcUnfence q) \<longrightarrow>
        om_deletionTimestamp (nf_meta f) = None \<and> held a h0 f h)"

lemma guarded_other [simp]:
  "guarded a h0 f h (ApiUpdate x)" "guarded a h0 f h (ApiStatusUpdate x)" "lookup_call ev \<Longrightarrow> guarded a h0 f h ev"
  by (auto simp: guarded_def)

lemma htriple_hold:
  "htriple (extends h0) (addFinalizerToNetworkFence a f)
     (\<lambda>(f', err) h. extends h0 h \<and> (err = None \<longrightarrow> held a h0 f h)) (guarded a h0 f)"
proof (cases "networkFenceFinalizer \<in> set (om_finalizers (nf_meta f))")
  case True
  then show ?thesis by (simp add: addFinalizerToNetworkFence_def held_def)
next
  case False
  let ?g = "nf_set_finalizers (om_finalizers (nf_meta f) @ [networkFenceFinalizer]) f"
  have "networkFenceFinalizer \<in> set (om_finalizers (nf_meta ?g))" by (simp add: nf_set_finalizers_def)
  then have "htriple (extends h0) (Update_Fence a ?g) (\<lambda>r h. extends h0 h \<and> (\<forall>y. r = Inr y \<longrightarrow> held a h0 f h)) (guarded a h0 f)"
    unfolding Update_Fence_def
    by (intro htriple_call) (auto simp: extends_append held_def intro!: since_snoc)
  with False show ?thesis
    unfolding addFinalizerToNetworkFence_def Let_def
    by (auto intro!: htriple_bind simp: update_result_def split: sum.split)
qed

lemma htriple_guarded_process:
  assumes "om_deletionTimestamp (nf_meta (nfi_instance nf)) = None"
  shows "htriple (extends h0) (Fence_process a nf) (\<lambda>_ _. True) (guarded a h0 (nfi_instance nf))"
proof -
  let ?f = "nfi_instance nf"
  have status: "emits (guarded a h0 ?f) (updateStatus a g r m)" for g r m
    unfolding updateStatus_def StatusUpdate_Fence_def by (intro emits_intros) simp
  have req: "htriple (\<lambda>h. extends h0 h \<and> held a h0 ?f h) (processFencingRequest a nf') (\<lambda>_ _. True) (guarded a h0 ?f)" for nf'
    by (rule htriple_weaken [OF htriple_processFencingRequest
          [where H = "\<lambda>h. extends h0 h \<and> held a h0 ?f h" and ?h0.0 = h0]]) (auto simp: guarded_def assms)
  have proc: "htriple (extends h0) (processFencing a nf) (\<lambda>_ _. True) (guarded a h0 ?f)"
    unfolding processFencing_def
  proof (rule htriple_bind [OF htriple_hold], goal_cases)
    case (1 x)
    then show ?case using req by (auto split: prod.split option.split)
  qed
  show ?thesis
    unfolding Fence_process_def
    by (rule htriple_bind [OF proc], rule htriple_true) (intro emits_intros status)
qed

lemma htriple_guarded:
  assumes get: "a_getFence a h0 req = Inr f"
  shows "htriple (\<lambda>h. h = h0) (Fence_Reconcile e a req) (\<lambda>_ _. True) (guarded a h0 f)"
proof -
  have inst: "htriple (extends h0) (getNetworkFenceInstance e a f)
      (\<lambda>r h. extends h0 h \<and> (\<forall>nf. r = GoOk nf \<longrightarrow> nfi_instance nf = f)) (guarded a h0 f)"
    by (rule htriple_stable) (auto intro!: emits_instance getNetworkFenceInstance_same)
  have deleted: "htriple H (Fence_deleted a nf) (\<lambda>_ _. True) (guarded a h0 f)" for nf H
    unfolding Fence_deleted_def by (intro htriple_true emits_intros nf_fin.emits_rem) simp
  have invalid: "htriple H (Fence_invalid a f err) (\<lambda>_ _. True) (guarded a h0 f)" for err H
    unfolding Fence_invalid_def StatusUpdate_Fence_def by (intro htriple_true emits_intros) simp
  have rest: "htriple (\<lambda>h. extends h0 h \<and> (\<forall>nf. nfr = GoOk nf \<longrightarrow> nfi_instance nf = f))
      (case nfr of GoErr err \<Rightarrow> ret (done_err err) | GoPanic m \<Rightarrow> ret (Panicked m)
      | GoOk nf \<Rightarrow> if om_deletionTimestamp (nf_meta (nfi_instance nf)) \<noteq> None then Fence_deleted a nf
          else Fence_process a nf) (\<lambda>_ _. True) (guarded a h0 f)" for nfr
  proof (rule htriple_pure)
    assume "\<forall>nf. nfr = GoOk nf \<longrightarrow> nfi_instance nf = f"
    then show "htriple (extends h0) (case nfr of GoErr err \<Rightarrow> ret (done_err err) | GoPanic m \<Rightarrow> ret (Panicked m)
      | GoOk nf \<Rightarrow> if om_deletionTimestamp (nf_meta (nfi_instance nf)) \<noteq> None then Fence_deleted a nf
          else Fence_process a nf) (\<lambda>_ _. True) (guarded a h0 f)"
      using deleted htriple_guarded_process by (auto split: gores.split)
  qed
  show ?thesis
    unfolding Fence_Reconcile_def Get_Fence_def
  proof (rule htriple_first_call, goal_cases)
    case 1
    show ?case by simp
  next
    case 2
    show ?case
      unfolding get sum.case
      by (simp only: split: option.split) (intro conjI impI allI htriple_bind [OF inst rest] invalid)
  qed
qed

section \<open>Reading the list\<close>

lemma node_classes_getNetworkFenceClasses:
  "getNetworkFenceClassesForDriver a n =
     (case node_classes n of Inl err \<Rightarrow> ret (Inl err) | Inr classes \<Rightarrow> getNetworkFenceClasses_loop a classes)"
  by (simp add: getNetworkFenceClassesForDriver_def node_classes_def split: option.split)

lemma run_getNetworkFenceClasses_loop:
  assumes "\<And>h x. a_getNFC a h \<lparr>nn_namespace = [], nn_name = x\<rparr> = Inr (cls x)"
  shows "run_state (getNetworkFenceClasses_loop a cs) w = (Inr (map cls cs),
    w\<lparr>trace := trace w @ map (\<lambda>x. ApiGet ''NetworkFenceClass'' \<lparr>nn_namespace = [], nn_name = x\<rparr>) cs\<rparr>)"
proof (induction cs arbitrary: w)
  case Nil
  then show ?case by simp
next
  case (Cons c cs)
  show ?case
    using Cons.IH by (simp add: Get_NFC_def run_call assms)
qed

end
