(* ===== verification/Props_Fence.thy ===== *)
theory Props_Fence
  imports Fence_Facts
begin

text \<open>
  The properties of the two fencing controllers: the list of classes on a node and how the node
  controller reads it, the order in which a class is released, and the request of a fence with
  what protects it and what is reported.
\<close>

section \<open>A cluster to apply the properties to\<close>

definition fx_class :: network_fence_class where
  "fx_class = \<lparr>nfc_meta = (empty_meta ''fc'' [])\<lparr>om_finalizers := [csiAddonsNodeFinalizer]\<rparr>, nfc_provisioner = ''drv'',
     nfc_parameters = [(prefixedNetworkFenceSecretNameKey, ''s''), (''x'', ''y'')]\<rparr>"

definition fx_node :: csiaddons_node where
  "fx_node = \<lparr>can_meta = (empty_meta ''node'' ''dns'')\<lparr>om_annotations :=
       [(networkFenceClassAnnotationKey, json_Marshal [''fc'', ''fd''])]\<rparr>,
     can_driverName = ''drv'', can_endPoint = ''pod://pod.dns:99'', can_nodeID = ''n1'', can_state = NodeConnected,
     can_message = [], can_reason = [], can_capabilities = [''network_fence.GET_CLIENTS_TO_FENCE''],
     can_fenceClients = []\<rparr>"

definition fx_fence :: network_fence where
  "fx_fence = \<lparr>nf_meta = empty_meta ''fence'' [], nf_className = ''fc'', nf_driver = [], nf_fenceState = Fenced,
     nf_cidrs = Some [''10.0.0.0/8''], nf_secretName = [], nf_secretNamespace = [], nf_parameters = None,
     nf_result = FenceNoResult, nf_message = []\<rparr>"

definition fx_conn :: connection where
  "fx_conn = \<lparr>cn_Client = Some 7, cn_Capabilities = [CapNetworkFence NETWORK_FENCE], cn_Namespace = ''dns'',
     cn_Name = ''node'', cn_NodeID = ''n1'', cn_DriverName = ''drv'', cn_Timeout = minute, cn_enableAuth = False,
     cn_endpoint = ''ep'', cn_podName = ''node''\<rparr>"

definition fx_env :: env where
  "fx_env = env0\<lparr>e_isShutdown := (\<lambda>_ _. False),
     e_getLease := (\<lambda>_ _. Inr \<lparr>ls_namespace = ''dns'', ls_holderIdentity = Some ''pod''\<rparr>)\<rparr>"

definition fx_aenv :: aenv where
  "fx_aenv = aenv0\<lparr>a_listNodes := (\<lambda>_ _. Inr [fx_node]), a_updateNode := (\<lambda>_ n. Inr n),
     a_getNFC := (\<lambda>_ _. Inr (fx_class\<lparr>nfc_meta := (nfc_meta fx_class)\<lparr>om_deletionTimestamp := Some 1\<rparr>\<rparr>)),
     a_updateNFC := (\<lambda>_ c. Inr c), a_getFence := (\<lambda>_ _. Inr fx_fence), a_updateFence := (\<lambda>_ f. Inr f),
     a_statusFence := (\<lambda>_ f. Inr f), a_rpcFence := (\<lambda>_ _ _. Inr ())\<rparr>"

definition fx_world :: world where
  "fx_world = \<lparr>trace = [], pool = [(''dns/pod'', fx_conn)]\<rparr>"

definition fx_req :: nsname where
  "fx_req = \<lparr>nn_namespace = [], nn_name = ''fc''\<rparr>"

section \<open>Classes on nodes\<close>

text \<open>For a node that reports capabilities and carries a readable list, one class is added once or
  removed, and the node is written exactly when its list changes; the written list is the new
  one, it has no duplicates when the old one had none, and no other annotation is touched.\<close>

theorem class_list_update:
  assumes "run_state (processCSIAddonsNode a n c del) w = (r, w')" "can_capabilities n \<noteq> []" "listed_classes n = Inr cs"
    and "x = om_name (nfc_meta c)" "m = step_node del x cs n" "cs' = step_classes del x cs"
  shows "(\<forall>i ev. appended w w' i ev \<longleftrightarrow>
      i = length (trace w) \<and> fence_capable n \<and> cs' \<noteq> cs \<and> ev = ApiUpdate (O_Node m)) \<and>
    listed_classes m = Inr cs' \<and>
    (distinct cs \<longrightarrow> distinct cs' \<and> set cs' = (if del then set cs - {x} else insert x (set cs))) \<and>
    (\<forall>k. k \<noteq> networkFenceClassAnnotationKey \<longrightarrow> mget (om_annotations (can_meta m)) k = mget (om_annotations (can_meta n)) k)"
proof -
  have "appended w w' i ev \<longleftrightarrow> i = length (trace w) \<and> fence_capable n \<and> cs' \<noteq> cs \<and> ev = ApiUpdate (O_Node m)" for i ev
    using assms(1) unfolding assms(4-6) step_classes_change run_processCSIAddonsNode [OF assms(2,3)]
    by (auto split: if_splits)
  with step_classes_distinct [of cs del x] step_node_other [of _ del x cs n] listed_step [of del x cs n] assms(5,6)
  show ?thesis by (simp add: mget_def)
qed

theorem class_list_update_witness:
  "listed_classes (step_node True ''fc'' [''fc'', ''fd''] fx_node) = Inr [''fd''] \<and>
   (\<exists>w'. appended fx_world w' 0 (ApiUpdate (O_Node (step_node True ''fc'' [''fc'', ''fd''] fx_node))))"
proof -
  have run: "run_state (processCSIAddonsNode fx_aenv fx_node fx_class True) fx_world =
      (fst (run_state (processCSIAddonsNode fx_aenv fx_node fx_class True) fx_world),
       snd (run_state (processCSIAddonsNode fx_aenv fx_node fx_class True) fx_world))" by simp
  have node: "can_capabilities fx_node \<noteq> []" "listed_classes fx_node = Inr [''fc'', ''fd'']" "fence_capable fx_node"
    by (simp add: fx_node_def, code_simp, code_simp)
  have name: "''fc'' = om_name (nfc_meta fx_class)" by (simp add: fx_class_def empty_meta_def)
  from class_list_update [OF run node(1,2) name refl refl] node(3) show ?thesis
    by (auto simp: step_classes_def fx_world_def)
qed

text \<open>After a class has been recorded on a node, the node controller reads back exactly the recorded
  list, this class included, and asks the server for each class of the list in order.\<close>

theorem recorded_class_is_read:
  assumes "listed_classes n = Inr cs" "m = step_node False x cs n" "x \<notin> set cs"
    and "\<forall>h c. a_getNFC a h \<lparr>nn_namespace = [], nn_name = c\<rparr> = Inr (cls c)"
  shows "run_state (getNetworkFenceClassesForDriver a m) w = (Inr (map cls cs @ [cls x]),
    w\<lparr>trace := trace w @ map (\<lambda>c. ApiGet ''NetworkFenceClass'' \<lparr>nn_namespace = [], nn_name = c\<rparr>) (cs @ [x])\<rparr>)"
  using assms(2-4) run_getNetworkFenceClasses_loop [of a cls]
  by (simp add: node_classes_getNetworkFenceClasses node_classes_step step_classes_def)

theorem recorded_class_is_read_witness:
  "fst (run_state (getNetworkFenceClassesForDriver (aenv0\<lparr>a_getNFC := (\<lambda>_ _. Inr fx_class)\<rparr>)
     (step_node False ''fe'' [''fc'', ''fd''] fx_node)) fx_world) = Inr [fx_class, fx_class, fx_class]"
proof -
  have "listed_classes fx_node = Inr [''fc'', ''fd'']" by code_simp
  from recorded_class_is_read [OF this refl, of "''fe''" "aenv0\<lparr>a_getNFC := (\<lambda>_ _. Inr fx_class)\<rparr>" "\<lambda>_. fx_class" fx_world]
  show ?thesis by simp
qed



section \<open>Fences\<close>

text \<open>C11: a fence is reported as succeeded only after, in the same run, the sidecar accepted the request
  that carries out its state, fencing for a fence and unfencing for everything else, for exactly
  the addresses of the object.\<close>

theorem fence_result_is_earned:
  assumes "run_state (Fence_Reconcile e a req) w = (out, w')" "appended w w' i (ApiStatusUpdate (O_Fence f))"
    and "nf_result f = FencingOperationResultSucceeded"
  shows "since (trace w) (carries_out a f) (take i (trace w'))"
  using htriple_appended [OF htriple_Fence_Reconcile assms(1,2)] assms(3) by (simp add: result_earned_def)

definition fx_held :: network_fence where
  "fx_held = nf_set_finalizers [networkFenceFinalizer] fx_fence"

definition fx_request :: fence_req where
  "fx_request = \<lparr>fq_parameters = [(''x'', ''y'')], fq_secretName = ''s'', fq_secretNamespace = [], fq_cidrs = [''10.0.0.0/8'']\<rparr>"

definition fx_done :: network_fence where
  "fx_done = fx_held\<lparr>nf_result := FencingOperationResultSucceeded, nf_message := FenceOperationSuccessfulMessage\<rparr>"

lemma fx_run:
  "trace (snd (run_state (Fence_Reconcile fx_env fx_aenv fx_req) fx_world)) =
     [ApiGet ''NetworkFence'' fx_req, ApiGet ''NetworkFenceClass'' fx_req,
      ApiGet ''Lease'' \<lparr>nn_namespace = ''dns'', nn_name = ''drv-csi-addons''\<rparr>, GetState 7, ApiUpdate (O_Fence fx_held),
      Rpc (Some 7) (RpcFence fx_request), ApiStatusUpdate (O_Fence fx_done)]"
  by code_simp

lemma fx_events:
  "appended fx_world (snd (run_state (Fence_Reconcile fx_env fx_aenv fx_req) fx_world)) 5 (Rpc (Some 7) (RpcFence fx_request))"
  "appended fx_world (snd (run_state (Fence_Reconcile fx_env fx_aenv fx_req) fx_world)) 6 (ApiStatusUpdate (O_Fence fx_done))"
  unfolding appended_def fx_run by (simp_all add: fx_world_def)

theorem fence_result_is_earned_witness:
  "\<exists>h. since (trace fx_world) (carries_out fx_aenv fx_done) h"
proof -
  have "nf_result fx_done = FencingOperationResultSucceeded" by (simp add: fx_done_def)
  from fence_result_is_earned [OF surjective_pairing fx_events(2) this] show ?thesis by blast
qed

text \<open>C12: no address is fenced or unfenced for an object under deletion, nor before the object carries the
  controller's finalizer, as it was read or as the server accepted it earlier in the run.\<close>

theorem fence_is_protected:
  assumes "run_state (Fence_Reconcile e a req) w = (out, w')" "a_getFence a (trace w) req = Inr f"
    and "appended w w' i (Rpc c rq)" "rq = RpcFence q \<or> rq = RpcUnfence q"
  shows "om_deletionTimestamp (nf_meta f) = None \<and> held a (trace w) f (take i (trace w'))"
  using htriple_appended [OF htriple_guarded [OF assms(2)] assms(1,3)] assms(4) by (auto simp: guarded_def)

theorem fence_is_protected_witness: "\<exists>h. held fx_aenv (trace fx_world) fx_fence h"
proof -
  have "a_getFence fx_aenv (trace fx_world) fx_req = Inr fx_fence" by (simp add: fx_aenv_def)
  from fence_is_protected [OF surjective_pairing this fx_events(1), of fx_request] show ?thesis by blast
qed

end
