(* ===== verification/Go_Time.thy ===== *)
theory Go_Time
  imports Api_Types
begin

text \<open>
  The part of Go's package \<open>time\<close> the controllers use: calendar dates, \<open>Format(time.RFC3339)\<close>,
  \<open>Parse(time.RFC3339, _)\<close>, \<open>Unix\<close>, \<open>IsZero\<close> and \<open>Until\<close>. An instant is a number of nanoseconds since
  1970 UTC; the offset of the local zone, in seconds east of UTC, is an argument of \<open>Format\<close>. A time
  written with \<open>Format\<close> is read back by \<open>Parse\<close> to the second.
\<close>

section \<open>Calendar\<close>

text \<open>The zero value of a time is the first of January of year 1.\<close>

definition zero_time :: time where
  "zero_time = - (62135596800 * second)"

definition time_of :: "time option \<Rightarrow> time" where
  "time_of t = (case t of None \<Rightarrow> zero_time | Some x \<Rightarrow> x)"

definition Unix :: "time \<Rightarrow> int" where
  "Unix t = t div second"

text \<open>A difference of two times saturates at the bounds of a duration.\<close>

definition time_Sub :: "time \<Rightarrow> time \<Rightarrow> duration" where
  "time_Sub t u = max (- (2 ^ 63)) (min (2 ^ 63 - 1) (t - u))"

definition is_leap :: "int \<Rightarrow> bool" where
  "is_leap y \<longleftrightarrow> y mod 4 = 0 \<and> (y mod 100 \<noteq> 0 \<or> y mod 400 = 0)"

definition month_days :: "int \<Rightarrow> nat list" where
  "month_days y = [31, if is_leap y then 29 else 28, 31, 30, 31, 30, 31, 31, 30, 31, 30, 31]"

fun find_month :: "nat list \<Rightarrow> nat \<Rightarrow> nat \<Rightarrow> nat \<times> nat" where
  "find_month [] m yday = (m, yday + 1)"
| "find_month (n # ns) m yday = (if yday < n then (m, yday + 1) else find_month ns (m + 1) (yday - n))"

text \<open>Days are counted from the first of January of year 1; years in cycles of 400, 100, 4 and 1.\<close>

definition split_year :: "int \<Rightarrow> int \<times> int" where
  "split_year d =
     (let q400 = d div 146097; r400 = d mod 146097;
          q100 = min 3 (r400 div 36524); r100 = r400 - 36524 * q100;
          q4 = r100 div 1461; r4 = r100 mod 1461;
          q1 = min 3 (r4 div 365)
      in (1 + 400 * q400 + 100 * q100 + 4 * q4 + q1, r4 - 365 * q1))"

definition days_before_year :: "int \<Rightarrow> int" where
  "days_before_year y = 365 * (y - 1) + (y - 1) div 4 - (y - 1) div 100 + (y - 1) div 400"

definition date_of_days :: "int \<Rightarrow> int \<times> nat \<times> nat" where
  "date_of_days d =
     (let (y, yday) = split_year d; (m, day) = find_month (month_days y) 1 (nat yday) in (y, m, day))"

definition days_of_date :: "int \<Rightarrow> nat \<Rightarrow> nat \<Rightarrow> int" where
  "days_of_date y m d = days_before_year y + int (sum_list (take (m - 1) (month_days y)) + d - 1)"

abbreviation epoch_days :: int where "epoch_days \<equiv> 719162"
abbreviation day_seconds :: int where "day_seconds \<equiv> 86400"

section \<open>Format and Parse\<close>

definition pad :: "nat \<Rightarrow> nat \<Rightarrow> string" where
  "pad w n = replicate (w - length (nat_digits n)) (CHR ''0'') @ nat_digits n"

definition appendInt :: "int \<Rightarrow> nat \<Rightarrow> string" where
  "appendInt x w = (if x < 0 then CHR ''-'' # pad w (nat (- x)) else pad w (nat x))"

definition format_zone :: "int \<Rightarrow> string" where
  "format_zone offset =
     (if offset = 0 then ''Z''
      else
        (let zone = (if offset < 0 then - (- offset div 60) else offset div 60); m = nat \<bar>zone\<bar>
         in (if zone < 0 then ''-'' else ''+'') @ pad 2 (m div 60) @ '':'' @ pad 2 (m mod 60)))"

definition format_RFC3339 :: "int \<Rightarrow> time \<Rightarrow> string" where
  "format_RFC3339 offset t =
     (let sec = Unix t + offset; (y, m, d) = date_of_days (sec div day_seconds + epoch_days);
          s = nat (sec mod day_seconds)
      in appendInt y 4 @ ''-'' @ pad 2 m @ ''-'' @ pad 2 d @ ''T'' @ pad 2 (s div 3600) @ '':'' @
         pad 2 (s mod 3600 div 60) @ '':'' @ pad 2 (s mod 60) @ format_zone offset)"

definition getnum :: "string \<Rightarrow> bool \<Rightarrow> (nat \<times> string) option" where
  "getnum s fixed =
     (case s of
        [] \<Rightarrow> None
      | c # r \<Rightarrow>
          if \<not> is_digit c then None
          else
            (case r of
               [] \<Rightarrow> if fixed then None else Some (digits_val [c], [])
             | c' # r' \<Rightarrow>
                 if is_digit c' then Some (digits_val [c, c'], r')
                 else if fixed then None else Some (digits_val [c], r)))"

definition skip :: "char \<Rightarrow> string \<Rightarrow> string option" where
  "skip c s = (case s of [] \<Rightarrow> None | x # r \<Rightarrow> if x = c then Some r else None)"

definition check :: "bool \<Rightarrow> unit option" where
  "check b = (if b then Some () else None)"

definition parse_year :: "string \<Rightarrow> (nat \<times> string) option" where
  "parse_year s =
     (if length s < 4 \<or> \<not> list_all is_digit (take 4 s) then None else Some (digits_val (take 4 s), drop 4 s))"

text \<open>A fraction may follow the seconds although the layout has none; nine digits count.\<close>

definition parse_fraction :: "string \<Rightarrow> nat \<times> string" where
  "parse_fraction s =
     (case s of
        c # d # r \<Rightarrow>
          if (c = CHR ''.'' \<or> c = CHR '','') \<and> is_digit d
          then (let ds = take 9 (takeWhile is_digit (d # r))
                in (digits_val ds * 10 ^ (9 - length ds), dropWhile is_digit (d # r)))
          else (0, s)
      | _ \<Rightarrow> (0, s))"

definition parse_zone :: "string \<Rightarrow> (int \<times> string) option" where
  "parse_zone s =
     (case s of
        [] \<Rightarrow> None
      | c # r \<Rightarrow>
          if c = CHR ''Z'' then Some (0, r)
          else if length s < 6 then None
          else do {
            _ \<leftarrow> check (s ! 3 = CHR '':'');
            (hr, _) \<leftarrow> getnum (take 2 (drop 1 s)) True;
            (mm, _) \<leftarrow> getnum (take 2 (drop 4 s)) True;
            _ \<leftarrow> check (hr \<le> 24 \<and> mm \<le> 60 \<and> (c = CHR ''+'' \<or> c = CHR ''-''));
            Some ((if c = CHR ''-'' then -1 else 1) * int ((hr * 60 + mm) * 60), drop 6 s)
          })"

definition parse_RFC3339 :: "string \<Rightarrow> time option" where
  "parse_RFC3339 s0 = do {
     (y, s) \<leftarrow> parse_year s0;
     s \<leftarrow> skip (CHR ''-'') s;
     (m, s) \<leftarrow> getnum s True;
     _ \<leftarrow> check (1 \<le> m \<and> m \<le> 12);
     s \<leftarrow> skip (CHR ''-'') s;
     (d, s) \<leftarrow> getnum s True;
     s \<leftarrow> skip (CHR ''T'') s;
     (hh, s) \<leftarrow> getnum s False;
     _ \<leftarrow> check (hh < 24);
     s \<leftarrow> skip (CHR '':'') s;
     (mi, s) \<leftarrow> getnum s True;
     _ \<leftarrow> check (mi < 60);
     s \<leftarrow> skip (CHR '':'') s;
     (se, s) \<leftarrow> getnum s True;
     _ \<leftarrow> check (se < 60);
     let (nsec, s) = parse_fraction s;
     (zone, s) \<leftarrow> parse_zone s;
     _ \<leftarrow> check (s = [] \<and> 1 \<le> d \<and> d \<le> month_days (int y) ! (m - 1));
     Some (((days_of_date (int y) m d - epoch_days) * day_seconds + int (hh * 3600 + mi * 60 + se) - zone) * second + int nsec)
   }"

section \<open>Dates are read back\<close>

lemma capped_quotient:
  assumes "0 \<le> r" "(0::int) < n" "r \<le> 4 * n" "q = min 3 (r div n)"
  shows "0 \<le> q" "q \<le> 3" "0 \<le> r - n * q" "r - n * q \<le> n" "q < 3 \<Longrightarrow> r - n * q < n"
proof -
  define k where "k = r div n"
  have "r = n * k + r mod n" by (simp add: k_def)
  moreover have "0 \<le> r mod n" "r mod n < n" using assms(2) by simp_all
  ultimately have k: "n * k \<le> r" "r < n * k + n" by linarith+
  have k0: "0 \<le> k" using assms(1,2) by (simp add: k_def pos_imp_zdiv_nonneg_iff)
  have q: "q = (if k \<le> 3 then k else 3)" using assms(4) by (simp add: k_def min_def)
  show "0 \<le> q" "q \<le> 3" using k0 q by simp_all
  show "q < 3 \<Longrightarrow> r - n * q < n" using k q by (auto split: if_splits)
  have "n * q \<le> n * k" using q assms(2) by simp
  with k(1) show "0 \<le> r - n * q" by simp
  show "r - n * q \<le> n" using k(2) q assms(3) by (cases "k \<le> 3") simp_all
qed

lemma div_cycle: "0 \<le> b \<Longrightarrow> b < n \<Longrightarrow> x = b + n * a \<Longrightarrow> x div n = (a::int)"
  by simp

lemma mod_cycle: "x = b + n * a \<Longrightarrow> x mod n = b mod (n::int)"
  by simp

lemma split_year_bounds:
  assumes "split_year d = (y, yday)"
  shows "0 \<le> yday" "yday < (if is_leap y then 366 else 365)" "d = days_before_year y + yday"
proof -
  define q400 r400 where "q400 = d div 146097" "r400 = d mod 146097"
  define q100 where "q100 = min 3 (r400 div 36524)"
  define r100 where "r100 = r400 - 36524 * q100"
  define q4 r4 where "q4 = r100 div 1461" "r4 = r100 mod 1461"
  define q1 where "q1 = min 3 (r4 div 365)"
  note defs = q400_r400_def q100_def r100_def q4_r4_def q1_def
  have y: "y - 1 = 400 * q400 + 100 * q100 + 4 * q4 + q1" and yday: "yday = r4 - 365 * q1"
    using assms by (simp_all add: split_year_def Let_def defs)
  have r400: "0 \<le> r400" "r400 < 146097" "d = 146097 * q400 + r400" by (simp_all add: defs)
  have q100: "0 \<le> q100" "q100 \<le> 3" and r100: "0 \<le> r100" "r100 \<le> 36524" "q100 < 3 \<Longrightarrow> r100 < 36524"
    using r400(1,2) unfolding r100_def by (intro capped_quotient [OF _ _ _ q100_def]; simp)+
  have r4: "0 \<le> r4" "r4 < 1461" "r100 = 1461 * q4 + r4" by (simp_all add: defs)
  then have q4: "0 \<le> q4" "q4 \<le> 24" using r100(1,2) by linarith+
  have q1: "0 \<le> q1" "q1 \<le> 3" and yd: "0 \<le> yday" "yday \<le> 365" "q1 < 3 \<Longrightarrow> yday < 365"
    using r4(1,2) unfolding yday by (intro capped_quotient [OF _ _ _ q1_def]; simp)+
  have short: "yday < 365" if "q1 = 3" "q4 = 24" "q100 < 3"
    using that r100 r4 yday by linarith
  have div4: "(y - 1) div 4 = 100 * q400 + 25 * q100 + q4" by (rule div_cycle [of q1]) (use y q1 in simp_all)
  have div100: "(y - 1) div 100 = 4 * q400 + q100" by (rule div_cycle [of "4 * q4 + q1"]) (use y q1 q4 in simp_all)
  have div400: "(y - 1) div 400 = q400" by (rule div_cycle [of "100 * q100 + 4 * q4 + q1"]) (use y q1 q4 q100 in simp_all)
  show "d = days_before_year y + yday"
    unfolding days_before_year_def div4 div100 div400 yday using y r400(3) r4(3) r100_def by (simp add: algebra_simps)
  have mods: "y mod 4 = (q1 + 1) mod 4" "y mod 100 = (4 * q4 + q1 + 1) mod 100"
      "y mod 400 = (100 * q100 + 4 * q4 + q1 + 1) mod 400"
    by (rule mod_cycle [of _ _ _ "100 * q400 + 25 * q100 + q4"], use y in simp,
        rule mod_cycle [of _ _ _ "4 * q400 + q100"], use y in simp, rule mod_cycle [of _ _ _ q400], use y in simp)
  show "0 \<le> yday" by (rule yd)
  have leap: "is_leap y" if "q1 = 3" "q4 < 24 \<or> q100 = 3"
  proof (cases "q4 < 24")
    case True
    then have "(4 + 4 * q4) mod 100 \<noteq> 0" using q4 by simp
    with that mods show ?thesis by (simp add: is_leap_def)
  next
    case False
    with that q4 mods show ?thesis by (simp add: is_leap_def)
  qed
  show "yday < (if is_leap y then 366 else 365)"
  proof (cases "yday = 365")
    case True
    with yd(3) q1 have "q1 = 3" by linarith
    moreover from this True short q4 q100 have "q4 < 24 \<or> q100 = 3" by linarith
    ultimately show ?thesis using leap True by simp
  next
    case False
    with yd(2) show ?thesis by simp
  qed
qed

lemma find_month_spec:
  assumes "find_month ns m0 yday = (m, d)" "yday < sum_list ns"
  shows "m0 \<le> m \<and> m < m0 + length ns \<and> 1 \<le> d \<and> d \<le> ns ! (m - m0) \<and>
    yday = sum_list (take (m - m0) ns) + d - 1"
  using assms
proof (induction ns arbitrary: m0 yday)
  case (Cons n ns)
  show ?case
  proof (cases "yday < n")
    case True
    with Cons.prems show ?thesis by auto
  next
    case False
    with Cons.prems have "find_month ns (m0 + 1) (yday - n) = (m, d)" "yday - n < sum_list ns" by auto
    from Cons.IH [OF this] False show ?thesis
      by (auto simp: nth_Cons' take_Cons' Suc_le_eq)
  qed
qed simp

lemma sum_month_days: "sum_list (month_days y) = (if is_leap y then 366 else 365)"
  by (simp add: month_days_def)

lemma date_of_days_spec:
  assumes "date_of_days n = (y, m, d)"
  shows "1 \<le> m" "m \<le> 12" "1 \<le> d" "d \<le> month_days y ! (m - 1)" "days_of_date y m d = n"
proof -
  obtain yday where sy: "split_year n = (y, yday)" and fm: "find_month (month_days y) 1 (nat yday) = (m, d)"
    using assms by (auto simp: date_of_days_def split: prod.splits)
  have len: "length (month_days y) = 12" by (simp add: month_days_def)
  have "nat yday < sum_list (month_days y)"
    using split_year_bounds [OF sy] by (simp add: sum_month_days split: if_splits)
  note spec = find_month_spec [OF fm this]
  from spec len show "1 \<le> m" "m \<le> 12" "1 \<le> d" "d \<le> month_days y ! (m - 1)" by simp_all
  from spec split_year_bounds [OF sy] show "days_of_date y m d = n"
    by (simp add: days_of_date_def nat_eq_iff)
qed

lemma month_days_le: "m < 12 \<Longrightarrow> month_days y ! m \<le> 31"
  by (auto simp: month_days_def nth_Cons' split: if_splits)

section \<open>Text is read back\<close>

lemma length_nat_digits: "n < 10 ^ w \<Longrightarrow> 0 < w \<Longrightarrow> length (nat_digits n) \<le> w"
proof (induction w arbitrary: n)
  case (Suc w)
  show ?case
  proof (cases "n < 10")
    case True
    then show ?thesis by (simp add: nat_digits.simps [of n])
  next
    case False
    then have "0 < w" using Suc.prems by (cases w) auto
    moreover have "n div 10 < 10 ^ w" using Suc.prems by (simp add: less_mult_imp_div_less mult.commute)
    ultimately show ?thesis using Suc.IH [of "n div 10"] False by (simp add: nat_digits.simps [of n])
  qed
qed simp

lemma digits_val_zeros: "digits_val (replicate k (CHR ''0'') @ s) = digits_val s"
  by (induction k) (simp_all add: digits_val_def)

lemma pad_props:
  assumes "n < 10 ^ w" "0 < w"
  shows "length (pad w n) = w" "list_all is_digit (pad w n)" "digits_val (pad w n) = n"
  using length_nat_digits [OF assms] list_all_is_digit_nat_digits [of n]
  by (auto simp: pad_def digits_val_zeros digits_val_nat_digits list_all_iff is_digit_def)

lemma getnum_pad:
  assumes "n < 100"
  shows "getnum (pad 2 n @ r) fixed = Some (n, r)"
proof -
  note p = pad_props [of n 2, simplified, OF assms]
  then obtain a b where "pad 2 n = [a, b]"
    by (metis One_nat_def Suc_1 length_0_conv length_Suc_conv)
  with p show ?thesis by (simp add: getnum_def)
qed

lemma parse_year_pad: "n < 10000 \<Longrightarrow> parse_year (pad 4 n @ r) = Some (n, r)"
  using pad_props [of n 4] by (simp add: parse_year_def)

definition zone_ok :: "int \<Rightarrow> bool" where
  "zone_ok offset \<longleftrightarrow> offset mod 60 = 0 \<and> \<bar>offset\<bar> < 90000"

lemma parse_zone_format:
  assumes "zone_ok offset"
  shows "parse_zone (format_zone offset) = Some (offset, [])" "parse_fraction (format_zone offset) = (0, format_zone offset)"
proof -
  define m where "m = nat (\<bar>offset\<bar> div 60)"
  obtain k where k: "offset = 60 * k" using assms by (auto simp: zone_ok_def)
  then have m: "int m = \<bar>k\<bar>" by (simp add: m_def abs_mult)
  then have "m < 1500" using assms k by (simp add: zone_ok_def abs_mult)
  then have hm: "m div 60 \<le> 24" "m mod 60 < 60" "m div 60 < 100" "m mod 60 < 100"
    by (simp_all add: less_mult_imp_div_less)
  have zone: "(if offset < 0 then - (- offset div 60) else offset div 60) = k" using k by auto
  have nk: "nat \<bar>k\<bar> = m" using m by simp
  have neg: "k < 0 \<longleftrightarrow> offset < 0" "offset = 0 \<longleftrightarrow> k = 0" using k by auto
  have fz: "format_zone offset = (if offset = 0 then ''Z'' else
      (if offset < 0 then ''-'' else ''+'') @ pad 2 (m div 60) @ '':'' @ pad 2 (m mod 60))"
    unfolding format_zone_def zone Let_def nk neg ..
  obtain a b where ab: "pad 2 (m div 60) = [a, b]"
    using pad_props(1) [of "m div 60" 2] hm by (auto simp: length_Suc_conv numeral_2_eq_2)
  obtain c d where cd: "pad 2 (m mod 60) = [c, d]"
    using pad_props(1) [of "m mod 60" 2] hm by (auto simp: length_Suc_conv numeral_2_eq_2)
  have g: "getnum [a, b] True = Some (m div 60, [])" "getnum [c, d] True = Some (m mod 60, [])"
    using getnum_pad [OF hm(3), of "[]" True] getnum_pad [OF hm(4), of "[]" True] ab cd by simp_all
  have "int m = 60 * int (m div 60) + int (m mod 60)"
    by (metis mult_div_mod_eq of_nat_add of_nat_mult of_nat_numeral)
  then have total: "3600 * int (m div 60) + int (m mod 60) * 60 = \<bar>offset\<bar>" using k m by (simp add: abs_mult)
  show "parse_zone (format_zone offset) = Some (offset, [])"
    using hm g total by (auto simp: fz parse_zone_def ab cd check_def)
  show "parse_fraction (format_zone offset) = (0, format_zone offset)"
    by (simp add: fz parse_fraction_def ab cd)
qed

text \<open>The local year of an instant.\<close>

definition local_year :: "int \<Rightarrow> time \<Rightarrow> int" where
  "local_year offset t = fst (date_of_days ((Unix t + offset) div day_seconds + epoch_days))"

theorem RFC3339_roundtrip:
  assumes "zone_ok offset" "0 \<le> local_year offset t" "local_year offset t < 10000"
  shows "parse_RFC3339 (format_RFC3339 offset t) = Some (Unix t * second)"
proof -
  define sec where "sec = Unix t + offset"
  define s where "s = nat (sec mod day_seconds)"
  obtain y m d where date: "date_of_days (sec div day_seconds + epoch_days) = (y, m, d)" by (metis prod_cases3)
  have y: "0 \<le> y" "y < 10000" using assms(2,3) date by (simp_all add: local_year_def sec_def)
  note spec = date_of_days_spec [OF date]
  have "month_days y ! (m - 1) \<le> 31" using spec(2) by (intro month_days_le) simp
  with spec(4) have d: "d < 100" by simp
  have s: "s < 86400" by (simp add: s_def nat_less_iff)
  then have hms: "s div 3600 < 24" "s mod 3600 div 60 < 60" "s mod 60 < 60"
    by (simp_all add: less_mult_imp_div_less)
  have "s mod 60 = s mod 3600 mod 60" by (simp add: mod_mod_cancel)
  then have total: "s div 3600 * 3600 + s mod 3600 div 60 * 60 + s mod 60 = s"
    using div_mult_mod_eq [of s 3600] div_mult_mod_eq [of "s mod 3600" 60] by linarith
  have "int s = sec mod day_seconds" by (simp add: s_def)
  then have secs: "sec div day_seconds * day_seconds + int s = sec" by simp
  have fmt: "format_RFC3339 offset t = pad 4 (nat y) @ ''-'' @ pad 2 m @ ''-'' @ pad 2 d @ ''T'' @ pad 2 (s div 3600) @ '':'' @
      pad 2 (s mod 3600 div 60) @ '':'' @ pad 2 (s mod 60) @ format_zone offset"
    using y by (simp add: format_RFC3339_def Let_def sec_def [symmetric] date s_def [symmetric] appendInt_def)
  have "parse_RFC3339 (format_RFC3339 offset t) =
      Some (((sec div day_seconds) * day_seconds + int (s div 3600 * 3600 + s mod 3600 div 60 * 60 + s mod 60) - offset) * second)"
    unfolding fmt parse_RFC3339_def
    using y d hms spec parse_zone_format [OF assms(1)]
    by (simp add: parse_year_pad getnum_pad skip_def check_def)
  then show ?thesis unfolding total secs by (simp add: sec_def)
qed

end
