(* ===== verification/Jobs.thy ===== *)
theory Jobs
  imports Conn_Pool Conditions Go_Time
begin

text \<open>
  The controllers of single jobs: \<open>internal/controller/csiaddons/reclaimspacejob_controller.go\<close> and
  \<open>internal/controller/csiaddons/encryptionkeyrotationjob_controller.go\<close>. The two \<open>Reconcile\<close>
  functions have the same statements over different types; \<open>Job_Reconcile\<close> is their common text
  and \<open>RSJob_Reconcile\<close>, \<open>KRJob_Reconcile\<close> are its two readings. Times are nanoseconds since 1970.
\<close>

section \<open>The environment of the job controllers\<close>

record jenv =
  j_getRSJob :: "(nsname, job) answer"
  j_statusRSJob :: "(job, job) answer"
  j_getKRJob :: "(nsname, job) answer"
  j_statusKRJob :: "(job, job) answer"
  j_listVA :: "(unit, volume_attachment list) answer"
  j_rpcControllerReclaim :: "(string, reclaim_response) rpc_answer"
  j_rpcNodeReclaim :: "(string, reclaim_response) rpc_answer"
  j_rpcKeyRotate :: "(string, unit) rpc_answer"

definition jenv0 :: jenv where
  "jenv0 = \<lparr>j_getRSJob = (\<lambda>_ _. Inl notfound), j_statusRSJob = (\<lambda>_ _. Inl notfound),
     j_getKRJob = (\<lambda>_ _. Inl notfound), j_statusKRJob = (\<lambda>_ _. Inl notfound), j_listVA = (\<lambda>_ _. Inr []),
     j_rpcControllerReclaim = (\<lambda>_ _ _. Inl unavailable), j_rpcNodeReclaim = (\<lambda>_ _ _. Inl unavailable),
     j_rpcKeyRotate = (\<lambda>_ _ _. Inl unavailable)\<rparr>"

text \<open>The two kinds of job, with the calls that belong to each.\<close>

record job_kind =
  jk_name :: string
  jk_getJob :: "(nsname, job) answer"
  jk_statusJob :: "(job, job) answer"
  jk_obj :: "job \<Rightarrow> obj"
  jk_invalid :: string
  jk_validate :: "job \<Rightarrow> goerr option"

definition Get_Job :: "job_kind \<Rightarrow> nsname \<Rightarrow> (goerr + job) prog" where
  "Get_Job k nn = call (\<lambda>h. jk_getJob k h nn) (ApiGet (jk_name k) nn)"
definition StatusUpdate_Job :: "job_kind \<Rightarrow> job \<Rightarrow> (goerr + job) prog" where
  "StatusUpdate_Job k job = call (\<lambda>h. jk_statusJob k h job) (ApiStatusUpdate (jk_obj k job))"

definition validateReclaimSpaceJobSpec :: "job \<Rightarrow> goerr option" where
  "validateReclaimSpaceJobSpec job =
     (if js_targetPVC (job_spec job) = []
      then Some (ErrMsg ''required parameter 'PersistentVolumeClaim' in ReclaimSpaceJob.Spec.Target is empty'') else None)"

definition validateEncryptionKeyRotationJobSpec :: "job \<Rightarrow> goerr option" where
  "validateEncryptionKeyRotationJobSpec job =
     (if js_targetPVC (job_spec job) = []
      then Some (ErrMsg ''required parameter 'PersistentVolumeClaim' is missing'') else None)"

definition rs_kind :: "jenv \<Rightarrow> job_kind" where
  "rs_kind j = \<lparr>jk_name = ''ReclaimSpaceJob'', jk_getJob = j_getRSJob j, jk_statusJob = j_statusRSJob j, jk_obj = O_RSJob,
     jk_invalid = ''Failed to validate ReclaimSpaceJob.Spec: '',
     jk_validate = validateReclaimSpaceJobSpec\<rparr>"

definition kr_kind :: "jenv \<Rightarrow> job_kind" where
  "kr_kind j = \<lparr>jk_name = ''EncryptionKeyRotationJob'', jk_getJob = j_getKRJob j, jk_statusJob = j_statusKRJob j, jk_obj = O_KRJob,
     jk_invalid = ''failed to validate encryptionkeyrotationjob spec: '',
     jk_validate = validateEncryptionKeyRotationJobSpec\<rparr>"

section \<open>Jobs and their target\<close>

abbreviation (input) defaultBackoffLimit :: int where "defaultBackoffLimit \<equiv> 6"
abbreviation (input) defaultRetryDeadlineSeconds :: int where "defaultRetryDeadlineSeconds \<equiv> 600"

abbreviation on_status :: "(job_status \<Rightarrow> job_status) \<Rightarrow> job \<Rightarrow> job" where
  "on_status f job \<equiv> job\<lparr>job_status := f (job_status job)\<rparr>"

definition job_result :: "job \<Rightarrow> operation_result" where
  "job_result job = jst_result (job_status job)"

definition job_finish :: "operation_result \<Rightarrow> string \<Rightarrow> time \<Rightarrow> job \<Rightarrow> job" where
  "job_finish res msg t =
     on_status (\<lambda>s. s\<lparr>jst_result := res, jst_message := msg, jst_completionTime := Some t\<rparr>)"

definition job_failed_condition :: "time \<Rightarrow> string \<Rightarrow> job \<Rightarrow> job" where
  "job_failed_condition t msg job =
     on_status (\<lambda>s. s\<lparr>jst_conditions := setFailedCondition t (jst_conditions s) msg (om_generation (job_meta job))\<rparr>) job"

record target_details =
  td_driverName :: string
  td_pvName :: string
  td_nodeID :: string
  td_timeout :: duration

definition canNodeReclaimSpace :: "target_details \<Rightarrow> bool" where
  "canNodeReclaimSpace td \<longleftrightarrow> td_nodeID td \<noteq> []"

text \<open>
  The loop over the attachments: the node of the first attachment that is in place for the volume.
  \<open>None\<close> is the panic on an attachment that names no volume.
\<close>

fun findNodeID :: "string \<Rightarrow> volume_attachment list \<Rightarrow> string option" where
  "findNodeID pvName [] = Some []"
| "findNodeID pvName (v # vs) =
     (if \<not> va_deleting v \<and> va_attached v then
        (case va_persistentVolumeName v of
           None \<Rightarrow> None
         | Some n \<Rightarrow> if n = pvName then Some (va_nodeName v) else findNodeID pvName vs)
      else findNodeID pvName vs)"

definition getTargetDetails :: "env \<Rightarrow> jenv \<Rightarrow> duration \<Rightarrow> job_spec \<Rightarrow> string \<Rightarrow> target_details gores prog" where
  "getTargetDetails e j Timeout spec namespace = do {
     let req = \<lparr>nn_namespace = namespace, nn_name = js_targetPVC spec\<rparr>;
     pr \<leftarrow> Get_PVC e req;
     (case pr of
        Inl err \<Rightarrow> ret (GoErr err)
      | Inr p \<Rightarrow>
          if pvc_phase p \<noteq> ClaimBound
          then ret (GoErr (ErrMsg (''PVC '' @ fmt_q (nn_name req) @ '' is not bound to any PV'')))
          else do {
            vr \<leftarrow> Get_PV e \<lparr>nn_namespace = [], nn_name = pvc_volumeName p\<rparr>;
            (case vr of
               Inl err \<Rightarrow> ret (GoErr err)
             | Inr v \<Rightarrow>
                 (case pv_csi v of
                    None \<Rightarrow> ret (GoErr (ErrMsg (fmt_q (pv_name v) @ '' PV is not a CSI PVC'')))
                  | Some csi \<Rightarrow> do {
                      lr \<leftarrow> call (\<lambda>h. j_listVA j h ()) (ApiList ''VolumeAttachment'' []);
                      (case lr of
                         Inl err \<Rightarrow> ret (GoErr err)
                       | Inr items \<Rightarrow>
                           (case findNodeID (pv_name v) items of
                              None \<Rightarrow> ret (GoPanic ''invalid memory address or nil pointer dereference'')
                            | Some nodeID \<Rightarrow>
                                ret (GoOk \<lparr>td_driverName = csi_driver csi, td_pvName = pv_name v, td_nodeID = nodeID,
                                   td_timeout = (case js_timeout spec of None \<Rightarrow> Timeout
                                     | Some t \<Rightarrow> wrap64 (second * t))\<rparr>)))
                    }))
          })
   }"

text \<open>The method of the key rotation controller has the same body.\<close>

definition KR_getTargetDetails :: "env \<Rightarrow> jenv \<Rightarrow> duration \<Rightarrow> job_spec \<Rightarrow> string \<Rightarrow> target_details gores prog" where
  "KR_getTargetDetails = getTargetDetails"

section \<open>Clients\<close>

definition getLeadingRSClient :: "env \<Rightarrow> string \<Rightarrow> grpc_client option gores prog" where
  "getLeadingRSClient e driverName = do {
     r \<leftarrow> GetLeaderByDriver e driverName;
     (case r of
        GoErr err \<Rightarrow> ret (GoErr err)
      | GoPanic m \<Rightarrow> ret (GoPanic m)
      | GoOk conn \<Rightarrow>
          if CapReclaimSpace OFFLINE \<in> set (cn_Capabilities conn) then ret (GoOk (cn_Client conn))
          else ret (GoErr (ErrMsg (''leading controller for driver '' @ fmt_q driverName @
                 '' does not support ReclaimSpace_OFFLINE''))))
   }"

text \<open>The first connection with the capability, or nothing.\<close>

fun first_capable :: "capability \<Rightarrow> conn_map \<Rightarrow> (string \<times> grpc_client option) option" where
  "first_capable cap [] = None"
| "first_capable cap ((k, v) # ps) =
     (if cap \<in> set (cn_Capabilities v) then Some (k, cn_Client v) else first_capable cap ps)"

definition getRSClientByNode :: "env \<Rightarrow> string \<Rightarrow> string \<Rightarrow> (goerr + (string \<times> grpc_client option) option) prog" where
  "getRSClientByNode e driverName nodeID = do {
     r \<leftarrow> GetByNodeID e driverName nodeID;
     (case r of Inl err \<Rightarrow> ret (Inl err) | Inr conns \<Rightarrow> ret (Inr (first_capable (CapReclaimSpace ONLINE) conns)))
   }"

definition getClientByNode :: "env \<Rightarrow> string \<Rightarrow> string \<Rightarrow> (goerr + (string \<times> grpc_client option) option) prog" where
  "getClientByNode e driver nodeID = do {
     r \<leftarrow> GetByNodeID e driver nodeID;
     (case r of
        Inl err \<Rightarrow> ret (Inl err)
      | Inr conns \<Rightarrow> ret (Inr (first_capable (CapEncryptionKeyRotation ENCRYPTIONKEYROTATION) conns)))
   }"

section \<open>Reclaimed space\<close>

text \<open>
  \<open>float64\<close> of an integer: 53 significant bits, rounded to the nearest, ties to even. A difference of
  two such numbers is an integer again and is rounded the same way.
\<close>

fun bit_length :: "nat \<Rightarrow> nat" where
  "bit_length n = (if n = 0 then 0 else Suc (bit_length (n div 2)))"

declare bit_length.simps [simp del]

definition round53 :: "nat \<Rightarrow> nat" where
  "round53 n =
     (if n < 2 ^ 53 then n
      else
        (let k = bit_length n - 53; q = n div 2 ^ k; r = n mod 2 ^ k
         in (if 2 * r > 2 ^ k \<or> (2 * r = 2 ^ k \<and> odd q) then q + 1 else q) * 2 ^ k))"

definition float64 :: "int \<Rightarrow> int" where
  "float64 x = (if x < 0 then - int (round53 (nat (- x))) else int (round53 (nat x)))"

text \<open>Converting a float beyond the range of \<open>int64\<close> gives the smallest integer, as amd64 does.\<close>

definition int64_of_float :: "int \<Rightarrow> int" where
  "int64_of_float x = (if x < 2 ^ 63 then x else - (2 ^ 63))"

definition calculateReclaimedSpace :: "int option \<Rightarrow> int option \<Rightarrow> int option" where
  "calculateReclaimedSpace PreUsage PostUsage =
     (case (PreUsage, PostUsage) of
        (Some preUsage, Some postUsage) \<Rightarrow>
          Some (int64_of_float (max (float64 (float64 postUsage - float64 preUsage)) 0))
      | _ \<Rightarrow> None)"

definition controllerReclaimSpace :: "env \<Rightarrow> jenv \<Rightarrow> target_details \<Rightarrow> (bool \<times> int option) gores prog" where
  "controllerReclaimSpace e j target = do {
     cr \<leftarrow> getLeadingRSClient e (td_driverName target);
     (case cr of
        GoErr err \<Rightarrow> ret (GoErr err)
      | GoPanic m \<Rightarrow> ret (GoPanic m)
      | GoOk cl \<Rightarrow> do {
          resp \<leftarrow> call (\<lambda>h. j_rpcControllerReclaim j h cl (td_pvName target))
                    (Rpc cl (RpcControllerReclaimSpace (td_pvName target)));
          (case resp of
             Inl err \<Rightarrow> if status_Code err = C_Unimplemented then ret (GoOk (True, None)) else ret (GoErr err)
           | Inr rs \<Rightarrow> ret (GoOk (True, calculateReclaimedSpace (rr_preUsage rs) (rr_postUsage rs))))
        })
   }"

definition nodeReclaimSpace :: "env \<Rightarrow> jenv \<Rightarrow> target_details \<Rightarrow> (goerr + int option) prog" where
  "nodeReclaimSpace e j target = do {
     cr \<leftarrow> getRSClientByNode e (td_driverName target) (td_nodeID target);
     (case cr of
        Inl err \<Rightarrow> ret (Inl err)
      | Inr None \<Rightarrow> ret (Inl (ErrMsg (''node Client not found for '' @ fmt_q (td_nodeID target) @ '' nodeID'')))
      | Inr (Some (clientName, cl)) \<Rightarrow> do {
          resp \<leftarrow> call (\<lambda>h. j_rpcNodeReclaim j h cl (td_pvName target)) (Rpc cl (RpcNodeReclaimSpace (td_pvName target)));
          (case resp of
             Inl err \<Rightarrow> if status_Code err = C_Unimplemented then ret (Inr None) else ret (Inl err)
           | Inr rs \<Rightarrow> ret (Inr (calculateReclaimedSpace (rr_preUsage rs) (rr_postUsage rs))))
        })
   }"

section \<open>Reconciling a job\<close>

text \<open>A step of a job: a panic, or the job as it is left with the error to return.\<close>

type_synonym job_step = "string + job \<times> goerr option"

definition job_begin :: "env \<Rightarrow> job \<Rightarrow> job prog" where
  "job_begin e job =
     (case jst_startTime (job_status job) of
        None \<Rightarrow> do { t \<leftarrow> now e; ret (on_status (\<lambda>s. s\<lparr>jst_startTime := Some t\<rparr>) job) }
      | Some _ \<Rightarrow> ret (on_status (\<lambda>s. s\<lparr>jst_retries := wrap32 (jst_retries s + 1)\<rparr>) job))"

definition job_expired :: "env \<Rightarrow> job \<Rightarrow> bool prog" where
  "job_expired e job = do {
     t \<leftarrow> now e;
     ret (time_of (om_creationTimestamp (job_meta job)) + wrap64 (second * js_retryDeadlineSeconds (job_spec job)) < t)
   }"

definition job_fail :: "env \<Rightarrow> string \<Rightarrow> job \<Rightarrow> goerr \<Rightarrow> job_step prog" where
  "job_fail e msg job err = do { t \<leftarrow> now e; ret (Inr (job_failed_condition t msg job, Some err)) }"

definition RS_succeed :: "env \<Rightarrow> job \<Rightarrow> bool \<Rightarrow> int option \<Rightarrow> int option \<Rightarrow> job_step prog" where
  "RS_succeed e job nodeFound nodeSpace controllerSpace = do {
     let reclaimed = wrap64 ((case controllerSpace of None \<Rightarrow> 0 | Some x \<Rightarrow> x) +
                             (if nodeFound then (case nodeSpace of None \<Rightarrow> 0 | Some x \<Rightarrow> x) else 0));
     let job = (if nodeSpace \<noteq> None \<or> controllerSpace \<noteq> None
                then on_status (\<lambda>s. s\<lparr>jst_reclaimedSpace := Some reclaimed\<rparr>) job else job);
     t \<leftarrow> now e;
     ret (Inr (job_finish OperationResultSucceeded ''Reclaim Space operation successfully completed.'' t job, None))
   }"

definition RS_controller :: "env \<Rightarrow> jenv \<Rightarrow> job \<Rightarrow> target_details \<Rightarrow> bool \<Rightarrow> int option \<Rightarrow> job_step prog" where
  "RS_controller e j job target nodeFound nodeSpace = do {
     cr \<leftarrow> controllerReclaimSpace e j target;
     (case cr of
        GoErr err \<Rightarrow> job_fail e (''Failed to make controller request: '' @ GetErrorMessage err) job err
      | GoPanic m \<Rightarrow> ret (Inl m)
      | GoOk (controllerFound, controllerSpace) \<Rightarrow>
          if \<not> controllerFound \<and> \<not> nodeFound
          then (let err = ErrMsg (''controller and Node Client not found for '' @ fmt_q (td_nodeID target) @ '' nodeID'')
                in job_fail e (Error err) job err)
          else RS_succeed e job nodeFound nodeSpace controllerSpace)
   }"

definition RS_reconcile :: "env \<Rightarrow> jenv \<Rightarrow> duration \<Rightarrow> job \<Rightarrow> string \<Rightarrow> job_step prog" where
  "RS_reconcile e j Timeout job namespace = do {
     job \<leftarrow> job_begin e job;
     expired \<leftarrow> job_expired e job;
     if expired then do { t \<leftarrow> now e; ret (Inr (job_finish OperationResultFailed ''Time limit reached'' t job, None)) }
     else do {
       tr \<leftarrow> getTargetDetails e j Timeout (job_spec job) namespace;
       (case tr of
          GoErr err \<Rightarrow> job_fail e ''Failed to get target details'' job err
        | GoPanic m \<Rightarrow> ret (Inl m)
        | GoOk target \<Rightarrow>
            if canNodeReclaimSpace target then do {
              nr \<leftarrow> nodeReclaimSpace e j target;
              (case nr of
                 Inl err \<Rightarrow> job_fail e (''Failed to make node request: '' @ GetErrorMessage err) job err
               | Inr nodeSpace \<Rightarrow> RS_controller e j job target True nodeSpace)
            }
            else RS_controller e j job target False None)
     }
   }"

definition rotateEncryptionKey :: "env \<Rightarrow> jenv \<Rightarrow> target_details \<Rightarrow> goerr option prog" where
  "rotateEncryptionKey e j target = do {
     cr \<leftarrow> getClientByNode e (td_driverName target) (td_nodeID target);
     (case cr of
        Inl err \<Rightarrow> ret (Some err)
      | Inr None \<Rightarrow> ret (Some (ErrMsg (''node client not found for node id: '' @ td_nodeID target)))
      | Inr (Some (clientName, cl)) \<Rightarrow> do {
          resp \<leftarrow> call (\<lambda>h. j_rpcKeyRotate j h cl (td_pvName target)) (Rpc cl (RpcEncryptionKeyRotate (td_pvName target)));
          (case resp of
             Inl err \<Rightarrow> if status_Code err = C_Unimplemented then ret None else ret (Some err)
           | Inr _ \<Rightarrow> ret None)
        })
   }"

definition reconcileEncryptionKeyRotationJob :: "env \<Rightarrow> jenv \<Rightarrow> duration \<Rightarrow> job \<Rightarrow> string \<Rightarrow> job_step prog" where
  "reconcileEncryptionKeyRotationJob e j Timeout job ns = do {
     job \<leftarrow> job_begin e job;
     expired \<leftarrow> job_expired e job;
     if expired then do { t \<leftarrow> now e; ret (Inr (job_finish OperationResultFailed ''Time limit reached'' t job, None)) }
     else do {
       tr \<leftarrow> KR_getTargetDetails e j Timeout (job_spec job) ns;
       (case tr of
          GoErr err \<Rightarrow> job_fail e ''Failed to get target details'' job err
        | GoPanic m \<Rightarrow> ret (Inl m)
        | GoOk target \<Rightarrow>
            if td_nodeID target = []
            then ret (Inr (job, Some (ErrMsg (''unable to find nodeID for pv: '' @ js_targetPVC (job_spec job)))))
            else do {
              err \<leftarrow> rotateEncryptionKey e j target;
              (case err of
                 Some er \<Rightarrow> job_fail e (''Failed to make node request: '' @ GetErrorMessage er) job er
               | None \<Rightarrow> do {
                   t \<leftarrow> now e;
                   ret (Inr (job_finish OperationResultSucceeded ''Key rotation operation successfully completed.'' t job, None))
                 })
            })
     }
   }"

definition job_defaults :: "job \<Rightarrow> job" where
  "job_defaults job =
     (let spec = job_spec job;
          spec = (if js_backoffLimit spec = 0 then spec\<lparr>js_backoffLimit := defaultBackoffLimit\<rparr> else spec);
          spec = (if js_retryDeadlineSeconds spec = 0 then spec\<lparr>js_retryDeadlineSeconds := defaultRetryDeadlineSeconds\<rparr> else spec)
      in job\<lparr>job_spec := spec\<rparr>)"

text \<open>What follows the step: the retry limit, the status update, and what is returned.\<close>

definition Job_report :: "env \<Rightarrow> job_kind \<Rightarrow> job \<Rightarrow> goerr option \<Rightarrow> outcome prog" where
  "Job_report e k job err = do {
     job \<leftarrow> (if job_result job = NoResult \<and> jst_retries (job_status job) = js_backoffLimit (job_spec job)
            then do { t \<leftarrow> now e; ret (job_finish OperationResultFailed ''Maximum retry limit reached'' t job) }
            else ret job);
     st \<leftarrow> StatusUpdate_Job k job;
     (case st of
        Inl statusErr \<Rightarrow> ret (done_err statusErr)
      | Inr job \<Rightarrow> if job_result job \<noteq> NoResult then ret done_ok else ret (Returned rr_empty err))
   }"

definition Job_Reconcile :: "env \<Rightarrow> job_kind \<Rightarrow> (job \<Rightarrow> string \<Rightarrow> job_step prog) \<Rightarrow> nsname \<Rightarrow> outcome prog" where
  "Job_Reconcile e k body req = do {
     r \<leftarrow> Get_Job k req;
     (case r of
        Inl err \<Rightarrow> if IsNotFound err then ret done_ok else ret (done_err err)
      | Inr job \<Rightarrow>
          if om_deletionTimestamp (job_meta job) \<noteq> None then ret done_ok
          else if job_result job \<noteq> NoResult then ret done_ok
          else
            (case jk_validate k job of
               Some err \<Rightarrow> do {
                 t \<leftarrow> now e;
                 st \<leftarrow> StatusUpdate_Job k (job_finish OperationResultFailed (jk_invalid k @ Error err) t job);
                 (case st of Inl statusErr \<Rightarrow> ret (done_err statusErr) | Inr _ \<Rightarrow> ret done_ok)
               }
             | None \<Rightarrow> do {
                 step \<leftarrow> body (job_defaults job) (nn_namespace req);
                 (case step of
                    Inl m \<Rightarrow> ret (Panicked m)
                  | Inr (job, err) \<Rightarrow> Job_report e k job err)
               }))
   }"

definition RSJob_Reconcile :: "env \<Rightarrow> jenv \<Rightarrow> duration \<Rightarrow> nsname \<Rightarrow> outcome prog" where
  "RSJob_Reconcile e j Timeout = Job_Reconcile e (rs_kind j) (RS_reconcile e j Timeout)"

definition KRJob_Reconcile :: "env \<Rightarrow> jenv \<Rightarrow> duration \<Rightarrow> nsname \<Rightarrow> outcome prog" where
  "KRJob_Reconcile e j Timeout = Job_Reconcile e (kr_kind j) (reconcileEncryptionKeyRotationJob e j Timeout)"

end
