(* ===== verification/Job_Facts.thy ===== *)
theory Job_Facts
  imports Jobs Node_Facts
begin

text \<open>
  What the two job controllers share, proved once for every body that counts its attempts, and
  what each of them reports.
\<close>

section \<open>The contract of a job body\<close>

text \<open>
  A body keeps the object but for its status, marks the first attempt by the start time and counts
  every further one, and reports nothing itself.
\<close>

definition counted :: "job \<Rightarrow> job \<Rightarrow> bool" where
  "counted job job' \<longleftrightarrow> job_meta job' = job_meta job \<and> job_spec job' = job_spec job \<and>
     jst_startTime (job_status job') \<noteq> None \<and>
     jst_retries (job_status job') =
       (if jst_startTime (job_status job) = None then jst_retries (job_status job)
        else wrap32 (jst_retries (job_status job) + 1))"

definition counting :: "job \<Rightarrow> job_step \<Rightarrow> bool" where
  "counting job r \<longleftrightarrow> (\<forall>job' err. r = Inr (job', err) \<longrightarrow> counted job job')"

lemma counting_simps [simp]: "counting job (Inl m)" "counting job (Inr (job', err)) = counted job job'"
  by (simp_all add: counting_def)

definition unreported :: "event list \<Rightarrow> event \<Rightarrow> bool" where
  "unreported h ev \<longleftrightarrow> (\<forall>x. ev \<noteq> ApiStatusUpdate x)"

definition backoff_limit :: "job \<Rightarrow> int" where
  "backoff_limit job = js_backoffLimit (job_spec (job_defaults job))"

text \<open>A report after an attempt on \<open>job\<close>: final, or one attempt further and below the limit.\<close>

definition advanced :: "job \<Rightarrow> job \<Rightarrow> bool" where
  "advanced job m \<longleftrightarrow> job_result job = NoResult \<and>
     (job_result m \<noteq> NoResult \<or> counted (job_defaults job) m \<and> jst_retries (job_status m) \<noteq> backoff_limit job)"

definition advances :: "job_kind \<Rightarrow> job \<Rightarrow> event list \<Rightarrow> event \<Rightarrow> bool" where
  "advances k job h ev \<longleftrightarrow> (\<forall>m. ev = ApiStatusUpdate (jk_obj k m) \<longrightarrow> advanced job m)"

lemma job_finish_simps [simp]:
  "job_result (job_finish r msg t job) = r" "job_meta (job_finish r msg t job) = job_meta job"
  "job_spec (job_finish r msg t job) = job_spec job"
  by (simp_all add: job_finish_def job_result_def)

locale job_body =
  fixes k :: job_kind
    and body :: "job \<Rightarrow> string \<Rightarrow> job_step prog"
  assumes obj_inj: "inj (jk_obj k)"
    and counts: "returns (body job ns) (counting job)"
    and quiet: "emits unreported (body job ns)"
begin

lemma advances_other [simp]: "unreported h ev \<Longrightarrow> advances k job h ev"
  by (simp add: unreported_def advances_def)

lemma htriple_Job_report:
  assumes "job_result job = NoResult" "counted (job_defaults job) job'"
  shows "emits (advances k job) (Job_report e k job' err)"
proof -
  have limit: "js_backoffLimit (job_spec job') = backoff_limit job"
    using assms(2) by (simp add: counted_def backoff_limit_def)
  have sent: "emits (advances k job) (StatusUpdate_Job k m)" if "advanced job m" for m
    using that unfolding StatusUpdate_Job_def
    by (intro emits_intros) (auto simp: advances_def dest: injD [OF obj_inj])
  show ?thesis
    unfolding Job_report_def emits_def
  proof (rule htriple_bind [where K = "\<lambda>m _. advanced job m"], goal_cases)
    case 1
    show ?case using assms limit by (auto simp: advanced_def intro!: htriple_now_bind)
  next
    case (2 m)
    show ?case
    proof (rule htriple_pre [of _ "advanced job m"])
      assume "advanced job m"
      then have "emits (advances k job) (do {
          st \<leftarrow> StatusUpdate_Job k m;
          (case st of Inl statusErr \<Rightarrow> ret (done_err statusErr)
           | Inr job \<Rightarrow> if job_result job \<noteq> NoResult then ret done_ok else ret (Returned rr_empty err)) })"
        by (intro emits_intros sent)
      then show "htriple (\<lambda>_. advanced job m) (do {
          st \<leftarrow> StatusUpdate_Job k m;
          (case st of Inl statusErr \<Rightarrow> ret (done_err statusErr)
           | Inr job \<Rightarrow> if job_result job \<noteq> NoResult then ret done_ok else ret (Returned rr_empty err)) })
          (\<lambda>_ _. True) (advances k job)"
        by (rule htriple_true)
    qed simp
  qed
qed

lemma htriple_Job_Reconcile:
  assumes get: "jk_getJob k h0 req = Inr job"
  shows "htriple (\<lambda>h. h = h0) (Job_Reconcile e k body req) (\<lambda>_ _. True) (advances k job)"
proof -
  have invalid: "emits (advances k job) (do {
      t \<leftarrow> now e;
      st \<leftarrow> StatusUpdate_Job k (job_finish OperationResultFailed msg t job);
      (case st of Inl statusErr \<Rightarrow> ret (done_err statusErr) | Inr _ \<Rightarrow> ret done_ok) })"
    if "job_result job = NoResult" for msg
    using that unfolding StatusUpdate_Job_def
    by (intro emits_intros) (auto simp: advances_def advanced_def dest: injD [OF obj_inj])
  have run: "htriple (extends h0) (do {
      step \<leftarrow> body (job_defaults job) (nn_namespace req);
      (case step of Inl m \<Rightarrow> ret (Panicked m) | Inr (job, err) \<Rightarrow> Job_report e k job err) }) (\<lambda>_ _. True) (advances k job)"
    if "job_result job = NoResult"
  proof (rule htriple_bind)
    show "htriple (extends h0) (body (job_defaults job) (nn_namespace req))
        (\<lambda>r h. extends h0 h \<and> counting (job_defaults job) r) (advances k job)"
      by (rule htriple_stable [OF emits_mono [OF quiet] _ counts]) auto
    show "htriple (\<lambda>h. extends h0 h \<and> counting (job_defaults job) step)
        (case step of Inl m \<Rightarrow> ret (Panicked m) | Inr (job, err) \<Rightarrow> Job_report e k job err) (\<lambda>_ _. True) (advances k job)" for step
    proof (rule htriple_pure)
      assume "counting (job_defaults job) step"
      with that show "htriple (extends h0)
          (case step of Inl m \<Rightarrow> ret (Panicked m) | Inr (job, err) \<Rightarrow> Job_report e k job err) (\<lambda>_ _. True) (advances k job)"
        by (auto intro!: htriple_true htriple_Job_report split: sum.split)
    qed
  qed
  show ?thesis
    unfolding Job_Reconcile_def Get_Job_def
  proof (rule htriple_first_call, goal_cases)
    case 1
    show ?case by (simp add: unreported_def)
  next
    case 2
    show ?case
      unfolding get sum.case
      by (simp only: split: if_split option.split) (use invalid run in \<open>auto intro: htriple_true\<close>)
  qed
qed

text \<open>A job that is finished or under deletion is only read.\<close>

lemma finished_untouched:
  assumes "jk_getJob k (trace w) req = Inr job" "job_result job \<noteq> NoResult \<or> om_deletionTimestamp (job_meta job) \<noteq> None"
  shows "run_state (Job_Reconcile e k body req) w = (done_ok, w\<lparr>trace := trace w @ [ApiGet (jk_name k) req]\<rparr>)"
  using assms by (auto simp: Job_Reconcile_def Get_Job_def run_call)

end

text \<open>
  The attempts on one job: each is a reconcile of the object as the server has it, whose report the
  server accepted.
\<close>

inductive attempts :: "env \<Rightarrow> job_kind \<Rightarrow> (job \<Rightarrow> string \<Rightarrow> job_step prog) \<Rightarrow> job \<Rightarrow> nat \<Rightarrow> job \<Rightarrow> bool"
  for e k body job0 where
  fresh: "attempts e k body job0 0 job0"
| attempt: "attempts e k body job0 n job \<Longrightarrow> jk_getJob k (trace w) req = Inr job \<Longrightarrow>
    run_state (Job_Reconcile e k body req) w = (out, w') \<Longrightarrow> appended w w' i (ApiStatusUpdate (jk_obj k m)) \<Longrightarrow>
    jk_statusJob k (take i (trace w')) m = Inr m' \<Longrightarrow> attempts e k body job0 (Suc n) m'"

text \<open>The server stores the status it is sent and keeps the rest.\<close>

definition stores_status :: "job_kind \<Rightarrow> job \<Rightarrow> bool" where
  "stores_status k job0 \<longleftrightarrow>
     (\<forall>h m m'. jk_statusJob k h m = Inr m' \<longrightarrow> job_status m' = job_status m \<and> job_spec m' = job_spec job0)"

context job_body
begin

lemma attempts_bounded:
  assumes "attempts e k body job0 n job" "stores_status k job0"
    and "jst_startTime (job_status job0) = None" "jst_retries (job_status job0) = 0"
    and "0 < backoff_limit job0" "backoff_limit job0 < 2 ^ 30"
  shows "int n \<le> backoff_limit job0 + 1 \<and> job_spec job = job_spec job0 \<and>
    (job_result job = NoResult \<longrightarrow> int n \<le> backoff_limit job0 \<and>
       jst_retries (job_status job) = int (n - 1) \<and> (jst_startTime (job_status job) = None \<longleftrightarrow> n = 0))"
  using assms(1)
proof (induction rule: attempts.induct)
  case fresh
  with assms(3-5) show ?case by simp
next
  case (attempt n job w req out w' i m m')
  have "advances k job (take i (trace w')) (ApiStatusUpdate (jk_obj k m))"
    by (rule htriple_appended [OF htriple_Job_Reconcile [OF attempt.hyps(2)] attempt.hyps(3,4)])
  then have m: "advanced job m" by (simp add: advances_def)
  have m': "job_status m' = job_status m" "job_spec m' = job_spec job0"
    using assms(2) attempt.hyps(5) by (auto simp: stores_status_def)
  have limit: "backoff_limit job = backoff_limit job0"
    using attempt.IH by (simp add: backoff_limit_def job_defaults_def Let_def)
  have job: "int n \<le> backoff_limit job0" "jst_retries (job_status job) = int (n - 1)"
      "jst_startTime (job_status job) = None \<longleftrightarrow> n = 0"
    using attempt.IH m by (auto simp: advanced_def)
  have "jst_retries (job_status m) = int n \<and> jst_startTime (job_status m) \<noteq> None \<and> int n \<noteq> backoff_limit job0"
    if "job_result m = NoResult"
  proof -
    have "wrap32 (int (n - 1) + 1) = int n" if "n \<noteq> 0"
      using that job(1) assms(6) by (simp add: wrap32_def)
    with m that job limit show ?thesis
      by (auto simp: advanced_def counted_def job_defaults_def Let_def)
  qed
  with job(1) m' show ?case by (auto simp: job_result_def)
qed

end

section \<open>The two bodies\<close>

lemma counted_keep [simp]:
  "counted job (job_finish r msg t job') = counted job job'"
  "counted job (job_failed_condition t msg job') = counted job job'"
  "counted job (job'\<lparr>job_status := (job_status job')\<lparr>jst_reclaimedSpace := x\<rparr>\<rparr>) = counted job job'"
  by (simp_all add: counted_def job_finish_def job_failed_condition_def)

lemma job_begin_counted: "returns (job_begin e job) (counted job)"
  unfolding job_begin_def
  by (auto simp: counted_def intro!: returns_any returns_ret split: option.split)

lemma returns_steps:
  assumes "counted job job'"
  shows "returns (job_fail e msg job' err) (counting job)"
    and "returns (RS_succeed e job' nf ns cs) (counting job)"
    and "returns (RS_controller e j job' target nf ns) (counting job)"
proof -
  show fail: "returns (job_fail e msg job' err) (counting job)" for msg err
    unfolding job_fail_def by (rule returns_any) (auto intro!: returns_ret simp: assms)
  show succeed: "returns (RS_succeed e job' nf ns cs) (counting job)" for nf ns cs
    unfolding RS_succeed_def Let_def by (rule returns_any) (auto intro!: returns_ret simp: assms)
  show "returns (RS_controller e j job' target nf ns) (counting job)"
    unfolding RS_controller_def Let_def
    by (rule returns_any) (auto intro!: returns_ret fail succeed split: gores.split)
qed

lemma RS_counts: "returns (RS_reconcile e j T job ns) (counting job)"
  unfolding RS_reconcile_def
proof (rule returns_bind [OF job_begin_counted])
  fix job' assume job': "counted job job'"
  note steps = returns_steps [OF job']
  show "returns (do {
     expired \<leftarrow> job_expired e job';
     if expired then do { t \<leftarrow> now e; ret (Inr (job_finish OperationResultFailed ''Time limit reached'' t job', None)) }
     else do {
       tr \<leftarrow> getTargetDetails e j T (job_spec job') ns;
       (case tr of
          GoErr err \<Rightarrow> job_fail e ''Failed to get target details'' job' err
        | GoPanic m \<Rightarrow> ret (Inl m)
        | GoOk target \<Rightarrow>
            if canNodeReclaimSpace target then do {
              nr \<leftarrow> nodeReclaimSpace e j target;
              (case nr of
                 Inl err \<Rightarrow> job_fail e (''Failed to make node request: '' @ GetErrorMessage err) job' err
               | Inr nodeSpace \<Rightarrow> RS_controller e j job' target True nodeSpace)
            }
            else RS_controller e j job' target False None) } }) (counting job)"
    by (auto intro!: returns_any returns_ret steps simp: job' split: gores.split sum.split)
qed

lemma KR_counts: "returns (reconcileEncryptionKeyRotationJob e j T job ns) (counting job)"
  unfolding reconcileEncryptionKeyRotationJob_def
proof (rule returns_bind [OF job_begin_counted], goal_cases)
  case (1 job')
  note steps = returns_steps [OF 1]
  show ?case
    by (auto intro!: returns_any returns_ret steps simp: 1 split: gores.split option.split)
qed

text \<open>Calls of the bodies: lookups and the requests to the sidecars.\<close>

definition job_rpc :: "event \<Rightarrow> bool" where
  "job_rpc ev \<longleftrightarrow> (\<exists>c v. ev \<in> {Rpc c (RpcControllerReclaimSpace v), Rpc c (RpcNodeReclaimSpace v), Rpc c (RpcEncryptionKeyRotate v)})"

lemma job_rpc_simps [simp]:
  "job_rpc (Rpc c (RpcControllerReclaimSpace v))" "job_rpc (Rpc c (RpcNodeReclaimSpace v))"
  "job_rpc (Rpc c (RpcEncryptionKeyRotate v))"
  by (auto simp: job_rpc_def)

lemma emits_steps:
  assumes "\<And>h ev. lookup_call ev \<Longrightarrow> R h ev"
  shows "emits R (job_begin e job)" "emits R (job_expired e job)" "emits R (job_fail e msg job err)"
    "emits R (getTargetDetails e j T spec ns)" "emits R (RS_succeed e job nf nsp csp)"
    "emits R (getLeadingRSClient e d)" "emits R (getRSClientByNode e d n)" "emits R (getClientByNode e d n)"
  unfolding job_begin_def job_expired_def job_fail_def getTargetDetails_def RS_succeed_def Get_PVC_def Get_PV_def
    getLeadingRSClient_def getRSClientByNode_def getClientByNode_def
  by (intro emits_intros emits_leader [OF assms] emits_GetByNodeID [OF assms]; simp add: assms)+

lemma emits_bodies:
  assumes "\<And>h ev. lookup_call ev \<Longrightarrow> R h ev" "\<And>h ev. job_rpc ev \<Longrightarrow> R h ev"
  shows "emits R (RS_reconcile e j T job ns)" "emits R (reconcileEncryptionKeyRotationJob e j T job ns)"
proof -
  note steps = emits_steps [of R, OF assms(1)]
  show "emits R (RS_reconcile e j T job ns)"
    unfolding RS_reconcile_def RS_controller_def controllerReclaimSpace_def nodeReclaimSpace_def Let_def
    by (intro emits_intros steps) (simp_all add: assms(2))
  show "emits R (reconcileEncryptionKeyRotationJob e j T job ns)"
    unfolding reconcileEncryptionKeyRotationJob_def rotateEncryptionKey_def KR_getTargetDetails_def
    by (intro emits_intros steps) (simp_all add: assms(2))
qed

lemma unreported_calls: "lookup_call ev \<Longrightarrow> unreported h ev" "job_rpc ev \<Longrightarrow> unreported h ev"
  by (auto simp: unreported_def job_rpc_def)

lemma emits_unreported:
  "emits unreported (RS_reconcile e j T job ns)" "emits unreported (reconcileEncryptionKeyRotationJob e j T job ns)"
  by (rule emits_bodies; simp add: unreported_calls)+

interpretation rs_jobs: job_body "rs_kind j" "RS_reconcile e j T" for e j T
  by unfold_locales (auto simp: rs_kind_def inj_def intro!: RS_counts emits_unreported)

interpretation kr_jobs: job_body "kr_kind j" "reconcileEncryptionKeyRotationJob e j T" for e j T
  by unfold_locales (auto simp: kr_kind_def inj_def intro!: KR_counts emits_unreported)

section \<open>Success\<close>

text \<open>A body that ends in success only after a call that did the work.\<close>

definition success_since :: "(event list \<Rightarrow> event \<Rightarrow> bool) \<Rightarrow> event list \<Rightarrow> job_step \<Rightarrow> event list \<Rightarrow> bool" where
  "success_since work h0 r h \<longleftrightarrow>
     (\<forall>job err. r = Inr (job, err) \<longrightarrow> job_result job = OperationResultSucceeded \<longrightarrow> since h0 work h)"

lemma success_since_simps [simp]:
  "success_since work h0 (Inl m) h"
  "success_since work h0 (Inr (job, err)) h \<longleftrightarrow> (job_result job = OperationResultSucceeded \<longrightarrow> since h0 work h)"
  by (simp_all add: success_since_def)

locale working_body = job_body +
  fixes work :: "event list \<Rightarrow> event \<Rightarrow> bool"
  assumes works: "job_result job = NoResult \<Longrightarrow>
    htriple (extends h0) (body job ns) (success_since work h0) unreported"
begin

definition success_earned :: "event list \<Rightarrow> event list \<Rightarrow> event \<Rightarrow> bool" where
  "success_earned h0 h ev \<longleftrightarrow>
     (\<forall>m. ev = ApiStatusUpdate (jk_obj k m) \<longrightarrow> job_result m = OperationResultSucceeded \<longrightarrow> since h0 work h)"

lemma success_earned_other: "unreported h ev \<Longrightarrow> success_earned h0 h ev"
  by (simp add: unreported_def success_earned_def)

lemma report_earned:
  "htriple (\<lambda>h. job_result job = OperationResultSucceeded \<longrightarrow> since h0 work h) (Job_report e k job err) (\<lambda>_ _. True)
     (success_earned h0)"
proof -
  have send: "htriple (\<lambda>h. job_result m = OperationResultSucceeded \<longrightarrow> since h0 work h) (StatusUpdate_Job k m) (\<lambda>_ _. True)
      (success_earned h0)" for m
    unfolding StatusUpdate_Job_def by (rule htriple_call) (auto simp: success_earned_def dest: injD [OF obj_inj])
  show ?thesis
    unfolding Job_report_def
    by (rule htriple_bind [where K = "\<lambda>m h. job_result m = OperationResultSucceeded \<longrightarrow> since h0 work h"])
      (auto intro!: htriple_now_bind htriple_bind [OF send] split: sum.split)
qed

lemma htriple_success_earned: "htriple (\<lambda>h. h = h0) (Job_Reconcile e k body req) (\<lambda>_ _. True) (success_earned h0)"
proof -
  have run: "htriple (extends h0) (do {
      step \<leftarrow> body (job_defaults job) (nn_namespace req);
      (case step of Inl m \<Rightarrow> ret (Panicked m) | Inr (job, err) \<Rightarrow> Job_report e k job err) }) (\<lambda>_ _. True) (success_earned h0)"
    if "job_result job = NoResult" for job
  proof (rule htriple_bind)
    have "job_result (job_defaults job) = NoResult"
      using that by (simp add: job_result_def job_defaults_def Let_def)
    from works [OF this] show "htriple (extends h0) (body (job_defaults job) (nn_namespace req)) (success_since work h0) (success_earned h0)"
      by (rule htriple_mono) (rule success_earned_other)
    show "htriple (success_since work h0 step)
        (case step of Inl m \<Rightarrow> ret (Panicked m) | Inr (job, err) \<Rightarrow> Job_report e k job err) (\<lambda>_ _. True) (success_earned h0)" for step
      by (cases step) (auto intro!: htriple_weaken [OF report_earned])
  qed
  have invalid: "emits (success_earned h0) (do {
      t \<leftarrow> now e;
      st \<leftarrow> StatusUpdate_Job k (job_finish OperationResultFailed msg t job);
      (case st of Inl statusErr \<Rightarrow> ret (done_err statusErr) | Inr _ \<Rightarrow> ret done_ok) })" for msg job
    unfolding StatusUpdate_Job_def
    by (intro emits_intros) (auto simp: success_earned_def dest: injD [OF obj_inj])
  show ?thesis
    unfolding Job_Reconcile_def Get_Job_def
  proof (rule htriple_first_call, goal_cases)
    case 1
    show ?case by (rule success_earned_other) (simp add: unreported_def)
  next
    case 2
    show ?case
      by (simp only: split: sum.split if_split option.split) (use invalid run in \<open>auto intro: htriple_true\<close>)
  qed
qed

end

text \<open>The work of each kind: a request the sidecar carried out, or does not implement.\<close>

definition unless_unimplemented :: "goerr + 'a \<Rightarrow> bool" where
  "unless_unimplemented r \<longleftrightarrow> (case r of Inl err \<Rightarrow> status_Code err = C_Unimplemented | Inr _ \<Rightarrow> True)"

definition reclaimed_by_controller :: "jenv \<Rightarrow> event list \<Rightarrow> event \<Rightarrow> bool" where
  "reclaimed_by_controller j h ev \<longleftrightarrow>
     (\<exists>c v. ev = Rpc c (RpcControllerReclaimSpace v) \<and> unless_unimplemented (j_rpcControllerReclaim j h c v))"

definition rotated :: "jenv \<Rightarrow> event list \<Rightarrow> event \<Rightarrow> bool" where
  "rotated j h ev \<longleftrightarrow> (\<exists>c v. ev = Rpc c (RpcEncryptionKeyRotate v) \<and> unless_unimplemented (j_rpcKeyRotate j h c v))"

lemma unreported_rpc [simp]: "unreported h (Rpc c q)"
  by (simp add: unreported_def)

lemma htriple_carry:
  assumes "emits unreported m"
  shows "htriple (extends h0) m (\<lambda>_. extends h0) unreported"
  by (rule htriple_ignore [OF emits_mono [OF assms]]) auto

lemma htriple_controllerReclaimSpace:
  "htriple (extends h0) (controllerReclaimSpace e j target)
     (\<lambda>r h. extends h0 h \<and> (\<forall>x. r = GoOk x \<longrightarrow> since h0 (reclaimed_by_controller j) h)) unreported"
proof -
  have lead: "htriple (extends h0) (getLeadingRSClient e d) (\<lambda>_. extends h0) unreported" for d
    by (intro htriple_carry emits_steps) (simp add: unreported_calls)
  have rpc: "htriple (extends h0) (call (\<lambda>h. j_rpcControllerReclaim j h cl v) (Rpc cl (RpcControllerReclaimSpace v)))
      (\<lambda>r h. extends h0 h \<and> (unless_unimplemented r \<longrightarrow> since h0 (reclaimed_by_controller j) h)) unreported" for cl v
    by (rule htriple_call) (auto simp: extends_append reclaimed_by_controller_def intro!: since_snoc)
  show ?thesis
    unfolding controllerReclaimSpace_def
  proof (rule htriple_bind [OF lead], goal_cases)
    case (1 cr)
    show ?case
      by (cases cr) (auto intro!: htriple_bind [OF rpc] simp: unless_unimplemented_def split: sum.split)
  qed
qed

lemma htriple_rotateEncryptionKey:
  "htriple (extends h0) (rotateEncryptionKey e j target)
     (\<lambda>r h. extends h0 h \<and> (r = None \<longrightarrow> since h0 (rotated j) h)) unreported"
proof -
  have client: "htriple (extends h0) (getClientByNode e d n) (\<lambda>_. extends h0) unreported" for d n
    by (intro htriple_carry emits_steps) (simp add: unreported_calls)
  have rpc: "htriple (extends h0) (call (\<lambda>h. j_rpcKeyRotate j h cl v) (Rpc cl (RpcEncryptionKeyRotate v)))
      (\<lambda>r h. extends h0 h \<and> (unless_unimplemented r \<longrightarrow> since h0 (rotated j) h)) unreported" for cl v
    by (rule htriple_call) (auto simp: extends_append rotated_def intro!: since_snoc)
  show ?thesis
    unfolding rotateEncryptionKey_def
  proof (rule htriple_bind [OF client], goal_cases)
    case (1 cr)
    show ?case
      by (auto intro!: htriple_bind [OF rpc] simp: unless_unimplemented_def split: sum.split option.split prod.split)
  qed
qed

lemma htriple_fail:
  "job_result job = NoResult \<Longrightarrow> htriple H (job_fail e msg job err) (success_since work h0) unreported"
  unfolding job_fail_def
  by (rule htriple_now_bind) (simp add: job_failed_condition_def job_result_def)

lemma htriple_expire:
  "htriple H (do { t \<leftarrow> now e; ret (Inr (job_finish OperationResultFailed msg t job, None)) }) (success_since work h0) unreported"
  by (rule htriple_now_bind) simp

lemma htriple_begin:
  assumes "job_result job = NoResult"
  shows "htriple (extends h0) (job_begin e job) (\<lambda>job' h. extends h0 h \<and> job_result job' = NoResult) unreported"
proof (rule htriple_stable)
  show "emits (\<lambda>h ev. extends h0 h \<longrightarrow> unreported h ev) (job_begin e job)"
    by (rule emits_mono [OF emits_steps(1)]) (auto simp: unreported_calls)
  show "returns (job_begin e job) (\<lambda>job'. job_result job' = NoResult)"
    unfolding job_begin_def using assms
    by (auto simp: job_result_def intro!: returns_any returns_ret split: option.split)
qed auto

lemma htriple_RS_controller:
  assumes "job_result job = NoResult"
  shows "htriple (extends h0) (RS_controller e j job target nf nsp) (success_since (reclaimed_by_controller j) h0) unreported"
proof -
  have succeed: "htriple (\<lambda>h. extends h0 h \<and> since h0 work h) (RS_succeed e job found nsp csp) (success_since work h0) unreported" for found csp work
    unfolding RS_succeed_def Let_def by (rule htriple_now_bind) simp
  show ?thesis
    unfolding RS_controller_def Let_def
  proof (rule htriple_bind [OF htriple_controllerReclaimSpace], goal_cases)
    case (1 cr)
    show ?case
      by (cases cr) (auto intro!: htriple_fail assms htriple_weaken [OF succeed])
  qed
qed

lemma RS_works:
  assumes "job_result job = NoResult"
  shows "htriple (extends h0) (RS_reconcile e j T job ns) (success_since (reclaimed_by_controller j) h0) unreported"
proof -
  have carry: "htriple (extends h0) (job_expired e job') (\<lambda>_. extends h0) unreported"
      "htriple (extends h0) (getTargetDetails e j T spec ns) (\<lambda>_. extends h0) unreported"
      "htriple (extends h0) (nodeReclaimSpace e j target) (\<lambda>_. extends h0) unreported" for job' spec target
    subgoal by (intro htriple_carry emits_steps) (simp add: unreported_calls)
    subgoal by (intro htriple_carry emits_steps) (simp add: unreported_calls)
    subgoal unfolding nodeReclaimSpace_def
      by (intro htriple_carry emits_intros emits_steps) (simp_all add: unreported_calls)
    done
  show ?thesis
    unfolding RS_reconcile_def
  proof (rule htriple_bind [OF htriple_begin [OF assms]], rule htriple_pure, goal_cases)
    case (1 job')
    note steps = htriple_fail [OF 1] htriple_RS_controller [OF 1]
    show ?case
    proof (rule htriple_bind [OF carry(1)], goal_cases)
      case (1 expired)
      have target: "htriple (extends h0) (case tr of
          GoErr err \<Rightarrow> job_fail e ''Failed to get target details'' job' err
        | GoPanic m \<Rightarrow> ret (Inl m)
        | GoOk target \<Rightarrow>
            if canNodeReclaimSpace target then do {
              nr \<leftarrow> nodeReclaimSpace e j target;
              (case nr of
                 Inl err \<Rightarrow> job_fail e (''Failed to make node request: '' @ GetErrorMessage err) job' err
               | Inr nodeSpace \<Rightarrow> RS_controller e j job' target True nodeSpace)
            }
            else RS_controller e j job' target False None) (success_since (reclaimed_by_controller j) h0) unreported" for tr
        by (cases tr) (auto intro!: steps htriple_bind [OF carry(3)] split: sum.split)
      show ?case
        using htriple_expire htriple_bind [OF carry(2) target] by auto
    qed
  qed
qed

lemma KR_works:
  assumes "job_result job = NoResult"
  shows "htriple (extends h0) (reconcileEncryptionKeyRotationJob e j T job ns) (success_since (rotated j) h0) unreported"
proof -
  have carry: "htriple (extends h0) (job_expired e job') (\<lambda>_. extends h0) unreported"
      "htriple (extends h0) (KR_getTargetDetails e j T spec ns) (\<lambda>_. extends h0) unreported" for job' spec
    unfolding KR_getTargetDetails_def by (intro htriple_carry emits_steps; simp add: unreported_calls)+
  show ?thesis
    unfolding reconcileEncryptionKeyRotationJob_def
  proof (rule htriple_bind [OF htriple_begin [OF assms]], rule htriple_pure, goal_cases)
    case (1 job')
    note no_result = 1
    have finish: "htriple (\<lambda>h. extends h0 h \<and> (err = None \<longrightarrow> since h0 (rotated j) h)) (case err of
        Some er \<Rightarrow> job_fail e (''Failed to make node request: '' @ GetErrorMessage er) job' er
      | None \<Rightarrow> do {
          t \<leftarrow> now e;
          ret (Inr (job_finish OperationResultSucceeded ''Key rotation operation successfully completed.'' t job', None))
        }) (success_since (rotated j) h0) unreported" for err
      by (cases err) (auto intro!: htriple_fail no_result htriple_now_bind)
    show ?case
    proof (rule htriple_bind [OF carry(1)], goal_cases)
      case (1 expired)
      have target: "htriple (extends h0) (case tr of
          GoErr err \<Rightarrow> job_fail e ''Failed to get target details'' job' err
        | GoPanic m \<Rightarrow> ret (Inl m)
        | GoOk target \<Rightarrow>
            if td_nodeID target = []
            then ret (Inr (job', Some (ErrMsg (''unable to find nodeID for pv: '' @ js_targetPVC (job_spec job')))))
            else do {
              err \<leftarrow> rotateEncryptionKey e j target;
              (case err of
                 Some er \<Rightarrow> job_fail e (''Failed to make node request: '' @ GetErrorMessage er) job' er
               | None \<Rightarrow> do {
                   t \<leftarrow> now e;
                   ret (Inr (job_finish OperationResultSucceeded ''Key rotation operation successfully completed.'' t job', None))
                 })
            }) (success_since (rotated j) h0) unreported" for tr
      proof (cases tr)
        case (GoOk target)
        show ?thesis
        proof (cases "td_nodeID target = []")
          case True
          with GoOk no_result show ?thesis by simp
        next
          case False
          show ?thesis
            unfolding GoOk gores.case if_not_P [OF False] by (rule htriple_bind [OF htriple_rotateEncryptionKey finish])
        qed
      qed (auto intro!: htriple_fail simp: no_result)
      show ?case
        using htriple_expire htriple_bind [OF carry(2) target] by auto
    qed
  qed
qed

interpretation rs_works: working_body "rs_kind j" "RS_reconcile e j T" "reclaimed_by_controller j" for e j T
  by unfold_locales (rule RS_works)

interpretation kr_works: working_body "kr_kind j" "reconcileEncryptionKeyRotationJob e j T" "rotated j" for e j T
  by unfold_locales (rule KR_works)

end
