(* ===== verification/Owners.thy ===== *)
theory Owners
  imports Api_Types
begin

text \<open>
  Controller owners of objects, as \<open>ctrl.SetControllerReference\<close> and \<open>metav1.GetControllerOf\<close> of the
  vendored packages maintain them. The group, version and kind a scheme has for the type of the
  owner are an argument.
\<close>

record gvk =
  gvk_group :: string
  gvk_version :: string
  gvk_kind :: string

definition gvk_apiVersion :: "gvk \<Rightarrow> string" where
  "gvk_apiVersion g = (if gvk_group g = [] then gvk_version g else gvk_group g @ ''/'' @ gvk_version g)"

definition ParseGroupVersion :: "string \<Rightarrow> (string \<times> string) option" where
  "ParseGroupVersion gv =
     (if gv = [] \<or> gv = ''/'' then Some ([], [])
      else if strings_Count gv (CHR ''/'') = 0 then Some ([], gv)
      else if strings_Count gv (CHR ''/'') = 1
      then Some (takeWhile (\<lambda>c. c \<noteq> CHR ''/'') gv, tl (dropWhile (\<lambda>c. c \<noteq> CHR ''/'') gv))
      else None)"

definition referSameObject :: "owner_ref \<Rightarrow> owner_ref \<Rightarrow> bool" where
  "referSameObject a b =
     (case ParseGroupVersion (or_apiVersion a) of
        None \<Rightarrow> False
      | Some aGV \<Rightarrow>
          (case ParseGroupVersion (or_apiVersion b) of
             None \<Rightarrow> False
           | Some bGV \<Rightarrow> fst aGV = fst bGV \<and> or_kind a = or_kind b \<and> or_name a = or_name b))"

definition GetControllerOf :: "object_meta \<Rightarrow> owner_ref option" where
  "GetControllerOf m = find or_controller (om_ownerReferences m)"

definition validateOwner :: "object_meta \<Rightarrow> object_meta \<Rightarrow> goerr option" where
  "validateOwner owner obj =
     (if om_namespace owner = [] then None
      else if om_namespace obj = []
      then Some (ErrMsg (''cluster-scoped resource must not have a namespace-scoped owner, owner's namespace '' @ om_namespace owner))
      else if om_namespace owner \<noteq> om_namespace obj
      then Some (ErrMsg (''cross-namespace owner references are disallowed, owner's namespace '' @ om_namespace owner @
             '', obj's namespace '' @ om_namespace obj))
      else None)"

fun upsertOwnerRef :: "owner_ref \<Rightarrow> owner_ref list \<Rightarrow> owner_ref list" where
  "upsertOwnerRef r [] = [r]"
| "upsertOwnerRef r (x # xs) = (if referSameObject x r then r # xs else x # upsertOwnerRef r xs)"

definition owner_ref_to :: "gvk \<Rightarrow> object_meta \<Rightarrow> owner_ref" where
  "owner_ref_to g owner = \<lparr>or_apiVersion = gvk_apiVersion g, or_kind = gvk_kind g, or_name = om_name owner,
     or_uid = om_uid owner, or_controller = True\<rparr>"

definition alreadyOwned :: "object_meta \<Rightarrow> owner_ref \<Rightarrow> goerr" where
  "alreadyOwned obj r = ErrMsg (''Object '' @ om_namespace obj @ ''/'' @ om_name obj @ '' is already owned by another '' @
     or_kind r @ '' controller '' @ or_name r)"

definition SetControllerReference :: "goerr + gvk \<Rightarrow> object_meta \<Rightarrow> object_meta \<Rightarrow> goerr + object_meta" where
  "SetControllerReference scheme owner obj =
     (case validateOwner owner obj of
        Some err \<Rightarrow> Inl err
      | None \<Rightarrow>
          (case scheme of
             Inl err \<Rightarrow> Inl err
           | Inr g \<Rightarrow>
               (let r = owner_ref_to g owner in
                (case GetControllerOf obj of
                   Some existing \<Rightarrow>
                     if \<not> referSameObject existing r then Inl (alreadyOwned obj existing)
                     else Inr (obj\<lparr>om_ownerReferences := upsertOwnerRef r (om_ownerReferences obj)\<rparr>)
                 | None \<Rightarrow> Inr (obj\<lparr>om_ownerReferences := upsertOwnerRef r (om_ownerReferences obj)\<rparr>)))))"

text \<open>An object without owners gets the owner as its only one, and nothing else changes.\<close>

lemma SetControllerReference_fresh:
  assumes "SetControllerReference scheme owner obj = Inr m" "om_ownerReferences obj = []"
  obtains g where "scheme = Inr g" "m = obj\<lparr>om_ownerReferences := [owner_ref_to g owner]\<rparr>"
    "GetControllerOf m = Some (owner_ref_to g owner)"
proof -
  obtain g where g: "scheme = Inr g" "m = obj\<lparr>om_ownerReferences := [owner_ref_to g owner]\<rparr>"
    using assms by (auto simp: SetControllerReference_def GetControllerOf_def split: option.splits sum.splits)
  moreover from g(2) have "GetControllerOf m = Some (owner_ref_to g owner)"
    by (simp add: GetControllerOf_def owner_ref_to_def)
  ultimately show thesis using that by blast
qed

end
