(* ===== verification/Cron_Jobs.thy ===== *)
theory Cron_Jobs
  imports Jobs Owners
begin

text \<open>
  The controllers that run jobs on a schedule:
  \<open>internal/controller/csiaddons/reclaimspacecronjob_controller.go\<close> and
  \<open>internal/controller/csiaddons/encryptionkeyrotationcronjob_controller.go\<close>. Their \<open>Reconcile\<close>
  functions agree statement by statement except for the order in which old jobs are pruned and for
  what is returned when a job cannot be constructed; \<open>Cron_Reconcile\<close> is the common text. The parser
  of schedules, \<open>cron.ParseStandard\<close>, is a parameter that gives the \<open>Next\<close> function of a schedule;
  the offset of the local time zone, the reference made by \<open>ref.GetReference\<close> and the order in which
  \<open>sort.Slice\<close> leaves jobs that compare equal are parameters too.
\<close>

section \<open>The environment of the scheduling controllers\<close>

record cenv =
  c_getRSCron :: "(nsname, cronjob) answer"
  c_statusRSCron :: "(cronjob, cronjob) answer"
  c_listRSJob :: "(string, job list) answer"
  c_createRSJob :: "(job, job) answer"
  c_deleteRSJob :: "(job, unit) answer"
  c_getKRCron :: "(nsname, cronjob) answer"
  c_statusKRCron :: "(cronjob, cronjob) answer"
  c_listKRJob :: "(string, job list) answer"
  c_createKRJob :: "(job, job) answer"
  c_deleteKRJob :: "(job, unit) answer"
  c_parseStandard :: "string \<Rightarrow> goerr + (time \<Rightarrow> time)"
  c_zone :: "time \<Rightarrow> int"
  c_sortSlice :: "(job \<Rightarrow> job \<Rightarrow> bool) \<Rightarrow> job list \<Rightarrow> job list"
  c_reference :: "job \<Rightarrow> goerr + string"
  c_gvkRSCron :: "goerr + gvk"
  c_gvkKRCron :: "goerr + gvk"

definition apiGVStr :: string where
  "apiGVStr = ''csiaddons.openshift.io/v1alpha1''"

definition scheduledTimeAnnotation :: string where
  "scheduledTimeAnnotation = ''csiaddons.openshift.io/scheduled-at''"

text \<open>The index of jobs by the scheduler that owns them, which \<open>List\<close> selects by.\<close>

definition jobOwnerIndex :: "string \<Rightarrow> job \<Rightarrow> string list" where
  "jobOwnerIndex kind job =
     (case GetControllerOf (job_meta job) of
        None \<Rightarrow> []
      | Some owner \<Rightarrow> if or_apiVersion owner \<noteq> apiGVStr \<or> or_kind owner \<noteq> kind then [] else [or_name owner])"

section \<open>Child jobs\<close>

record child_info =
  ci_activeJob :: "job option"
  ci_successfulJobs :: "job list"
  ci_failedJobs :: "job list"
  ci_mostRecentTime :: "time option"
  ci_lastSuccessfulTime :: "time option"

text \<open>\<open>None\<close> is the parse error; \<open>Some None\<close> that the job carries no time.\<close>

definition getScheduledTimeForRSJob :: "job \<Rightarrow> time option option" where
  "getScheduledTimeForRSJob job =
     (let timeRaw = mget (om_annotations (job_meta job)) scheduledTimeAnnotation
      in if timeRaw = [] then Some None
         else (case parse_RFC3339 timeRaw of None \<Rightarrow> None | Some t \<Rightarrow> Some (Some t)))"

text \<open>The switch on the result; \<open>None\<close> is the panic on a first successful job without completion time.\<close>

definition classify :: "child_info \<Rightarrow> job \<Rightarrow> child_info option" where
  "classify ci job =
     (case job_result job of
        NoResult \<Rightarrow> Some (ci\<lparr>ci_activeJob := Some job\<rparr>)
      | OperationResultFailed \<Rightarrow> Some (ci\<lparr>ci_failedJobs := ci_failedJobs ci @ [job]\<rparr>)
      | OperationResultSucceeded \<Rightarrow>
          (let ci = ci\<lparr>ci_successfulJobs := ci_successfulJobs ci @ [job]\<rparr>
           in (case (ci_lastSuccessfulTime ci, jst_completionTime (job_status job)) of
                 (None, None) \<Rightarrow> None
               | (None, Some t) \<Rightarrow> Some (ci\<lparr>ci_lastSuccessfulTime := Some t\<rparr>)
               | (Some _, None) \<Rightarrow> Some ci
               | (Some l, Some t) \<Rightarrow> Some (if l < t then ci\<lparr>ci_lastSuccessfulTime := Some t\<rparr> else ci))))"

definition note_scheduled :: "(job \<Rightarrow> time option option) \<Rightarrow> child_info \<Rightarrow> job \<Rightarrow> child_info" where
  "note_scheduled getTime ci job =
     (case getTime job of
        Some (Some t) \<Rightarrow>
          (case ci_mostRecentTime ci of
             None \<Rightarrow> ci\<lparr>ci_mostRecentTime := Some t\<rparr>
           | Some m \<Rightarrow> if m < t then ci\<lparr>ci_mostRecentTime := Some t\<rparr> else ci)
      | _ \<Rightarrow> ci)"

fun parseJobs_loop :: "(job \<Rightarrow> time option option) \<Rightarrow> child_info \<Rightarrow> job list \<Rightarrow> child_info option" where
  "parseJobs_loop getTime ci [] = Some ci"
| "parseJobs_loop getTime ci (job # jobs) =
     (case classify ci job of
        None \<Rightarrow> None
      | Some ci \<Rightarrow> parseJobs_loop getTime (note_scheduled getTime ci job) jobs)"

definition no_children :: child_info where
  "no_children = \<lparr>ci_activeJob = None, ci_successfulJobs = [], ci_failedJobs = [], ci_mostRecentTime = None,
     ci_lastSuccessfulTime = None\<rparr>"

definition parseJobList :: "job list \<Rightarrow> child_info option" where
  "parseJobList = parseJobs_loop getScheduledTimeForRSJob no_children"

definition started_before :: "job \<Rightarrow> job \<Rightarrow> bool" where
  "started_before a b =
     (case jst_startTime (job_status a) of
        None \<Rightarrow> jst_startTime (job_status b) \<noteq> None
      | Some s \<Rightarrow> (case jst_startTime (job_status b) of None \<Rightarrow> False | Some t \<Rightarrow> s < t))"

text \<open>Job \<open>i\<close> of the sorted list is deleted while \<open>int32(i) < int32(len) - historyLimit\<close>.\<close>

fun deleteOld_loop :: "(job \<Rightarrow> (goerr + unit) prog) \<Rightarrow> int \<Rightarrow> nat \<Rightarrow> nat \<Rightarrow> job list \<Rightarrow> unit prog" where
  "deleteOld_loop del historyLimit n i [] = ret ()"
| "deleteOld_loop del historyLimit n i (job # jobs) =
     (if wrap32 (wrap32 (int n) - historyLimit) \<le> wrap32 (int i) then ret ()
      else do { _ \<leftarrow> del job; deleteOld_loop del historyLimit n (Suc i) jobs })"

definition deleteOld :: "cenv \<Rightarrow> (job \<Rightarrow> (goerr + unit) prog) \<Rightarrow> job list \<Rightarrow> int \<Rightarrow> unit prog" where
  "deleteOld c del jobsList historyLimit =
     (let sorted = c_sortSlice c started_before jobsList
      in deleteOld_loop del historyLimit (length sorted) 0 sorted)"

section \<open>The next run\<close>

text \<open>\<open>None\<close> is the error for more than a hundred missed runs.\<close>

function missed_loop :: "(time \<Rightarrow> time) \<Rightarrow> time \<Rightarrow> time \<Rightarrow> nat \<Rightarrow> time \<Rightarrow> time option" where
  "missed_loop Next tnow t starts lastMissed =
     (if tnow < t then Some lastMissed
      else if 100 < starts + 1 then None
      else missed_loop Next tnow (Next t) (starts + 1) t)"
  by pat_completeness auto
termination
  by (relation "measure (\<lambda>(Next, tnow, t, starts, lastMissed). 100 - starts)") auto

declare missed_loop.simps [simp del]

definition earliest_time :: "cronjob \<Rightarrow> time \<Rightarrow> time" where
  "earliest_time cj tnow =
     (let earliestTime = (case cj_lastScheduleTime cj of Some t \<Rightarrow> t
            | None \<Rightarrow> time_of (om_creationTimestamp (cj_meta cj)))
      in (case cjs_startingDeadlineSeconds (cj_spec cj) of
            None \<Rightarrow> earliestTime
          | Some d \<Rightarrow>
              (let schedulingDeadline = tnow + wrap64 (- second * d)
               in if earliestTime < schedulingDeadline then schedulingDeadline else earliestTime)))"

definition nextSchedule :: "string \<Rightarrow> cenv \<Rightarrow> cronjob \<Rightarrow> time \<Rightarrow> goerr + time \<times> time" where
  "nextSchedule tooMany c cj tnow =
     (case c_parseStandard c (cjs_schedule (cj_spec cj)) of
        Inl err \<Rightarrow> Inl (ErrMsg (''unparsable schedule '' @ fmt_q (cjs_schedule (cj_spec cj)) @ '': '' @ Error err))
      | Inr Next \<Rightarrow>
          (let earliestTime = earliest_time cj tnow
           in if tnow < earliestTime then Inr (zero_time, Next tnow)
              else (case missed_loop Next tnow (Next earliestTime) 0 zero_time of
                      None \<Rightarrow> Inl (ErrMsg tooMany)
                    | Some lastMissed \<Rightarrow> Inr (lastMissed, Next tnow))))"

definition getNextSchedule :: "cenv \<Rightarrow> cronjob \<Rightarrow> time \<Rightarrow> goerr + time \<times> time" where
  "getNextSchedule = nextSchedule (''too many missed start times (> 100); set or decrease'' @
     '' .spec.startingDeadlineSeconds, check clock skew or'' @ '' delete and recreate reclaimspacecronjob'')"

definition getNextScheduleForKeyRotation :: "cenv \<Rightarrow> cronjob \<Rightarrow> time \<Rightarrow> goerr + time \<times> time" where
  "getNextScheduleForKeyRotation = nextSchedule (''too many missed start times (> 100). Set or decrease'' @
     ''.spec.startingDeadlineSeconds, check clock skew or'' @ '' delete and recreate encryptionkeyrotationjob'')"

section \<open>New jobs\<close>

definition job_status0 :: job_status where
  "job_status0 = \<lparr>jst_result = NoResult, jst_message = [], jst_reclaimedSpace = None, jst_conditions = [], jst_retries = 0,
     jst_startTime = None, jst_completionTime = None\<rparr>"

text \<open>\<open>for k, v := range m { target[k] = v }\<close>\<close>

definition map_copy :: "strmap \<Rightarrow> strmap \<Rightarrow> strmap" where
  "map_copy m target = fold (\<lambda>(k, v). AList.update k v) m target"

definition constructJob :: "goerr + gvk \<Rightarrow> cenv \<Rightarrow> cronjob \<Rightarrow> time \<Rightarrow> goerr + job" where
  "constructJob scheme c cj scheduledTime =
     (let name = om_name (cj_meta cj) @ ''-'' @ fmt_d (Unix scheduledTime);
          meta = (empty_meta name (om_namespace (cj_meta cj)))
                   \<lparr>om_annotations := AList.update scheduledTimeAnnotation (format_RFC3339 (c_zone c scheduledTime) scheduledTime)
                      (map_copy (cjs_jobAnnotations (cj_spec cj)) []),
                    om_labels := map_copy (cjs_jobLabels (cj_spec cj)) []\<rparr>
      in (case SetControllerReference scheme (cj_meta cj) meta of
            Inl err \<Rightarrow> Inl err
          | Inr meta \<Rightarrow> Inr \<lparr>job_meta = meta, job_spec = cjs_jobSpec (cj_spec cj), job_status = job_status0\<rparr>))"

definition constructRSJobForCronJob :: "cenv \<Rightarrow> cronjob \<Rightarrow> time \<Rightarrow> goerr + job" where
  "constructRSJobForCronJob c = constructJob (c_gvkRSCron c) c"

definition constructEncryptionKeyRotationJob :: "cenv \<Rightarrow> cronjob \<Rightarrow> time \<Rightarrow> goerr + job" where
  "constructEncryptionKeyRotationJob c = constructJob (c_gvkKRCron c) c"

section \<open>The two controllers\<close>

record cron_kind =
  ck_name :: string
  ck_jobName :: string
  ck_getCron :: "(nsname, cronjob) answer"
  ck_statusCron :: "(cronjob, cronjob) answer"
  ck_listJob :: "(string, job list) answer"
  ck_createJob :: "(job, job) answer"
  ck_deleteJob :: "(job, unit) answer"
  ck_cronObj :: "cronjob \<Rightarrow> obj"
  ck_jobObj :: "job \<Rightarrow> obj"
  ck_parse :: "job list \<Rightarrow> child_info option"
  ck_next :: "cronjob \<Rightarrow> time \<Rightarrow> goerr + time \<times> time"
  ck_construct :: "cronjob \<Rightarrow> time \<Rightarrow> goerr + job"
  ck_constructFailed :: "rresult \<Rightarrow> goerr \<Rightarrow> outcome"

definition Get_Cron :: "cron_kind \<Rightarrow> nsname \<Rightarrow> (goerr + cronjob) prog" where
  "Get_Cron k nn = call (\<lambda>h. ck_getCron k h nn) (ApiGet (ck_name k) nn)"
definition StatusUpdate_Cron :: "cron_kind \<Rightarrow> cronjob \<Rightarrow> (goerr + cronjob) prog" where
  "StatusUpdate_Cron k cj = call (\<lambda>h. ck_statusCron k h cj) (ApiStatusUpdate (ck_cronObj k cj))"
definition Create_Job :: "cron_kind \<Rightarrow> job \<Rightarrow> (goerr + job) prog" where
  "Create_Job k job = call (\<lambda>h. ck_createJob k h job) (ApiCreate (ck_jobObj k job))"
definition Delete_Job :: "cron_kind \<Rightarrow> job \<Rightarrow> (goerr + unit) prog" where
  "Delete_Job k job = call (\<lambda>h. ck_deleteJob k h job) (ApiDelete (ck_jobObj k job))"

text \<open>The server answers with the jobs of the namespace, the index selects those of the scheduler.\<close>

definition List_Jobs :: "cron_kind \<Rightarrow> nsname \<Rightarrow> (goerr + job list) prog" where
  "List_Jobs k req = do {
     r \<leftarrow> call (\<lambda>h. ck_listJob k h (nn_namespace req)) (ApiList (ck_jobName k) (nn_namespace req));
     (case r of
        Inl err \<Rightarrow> ret (Inl err)
      | Inr jobs \<Rightarrow> ret (Inr (filter (\<lambda>job. nn_name req \<in> set (jobOwnerIndex (ck_name k) job)) jobs)))
   }"

definition rs_cron :: "cenv \<Rightarrow> cron_kind" where
  "rs_cron c = \<lparr>ck_name = ''ReclaimSpaceCronJob'', ck_jobName = ''ReclaimSpaceJob'', ck_getCron = c_getRSCron c,
     ck_statusCron = c_statusRSCron c, ck_listJob = c_listRSJob c, ck_createJob = c_createRSJob c,
     ck_deleteJob = c_deleteRSJob c, ck_cronObj = O_RSCronJob, ck_jobObj = O_RSJob, ck_parse = parseJobList,
     ck_next = getNextSchedule c, ck_construct = constructRSJobForCronJob c,
     ck_constructFailed = (\<lambda>scheduledResult err. Returned scheduledResult None)\<rparr>"

text \<open>The functions of the key rotation scheduler with the bodies of their counterparts.\<close>

definition getScheduledTimeForEKRJob :: "job \<Rightarrow> time option option" where
  "getScheduledTimeForEKRJob = getScheduledTimeForRSJob"

definition parseEncryptionKeyRotationJobList :: "job list \<Rightarrow> child_info option" where
  "parseEncryptionKeyRotationJobList = parseJobs_loop getScheduledTimeForEKRJob no_children"

definition kr_cron :: "cenv \<Rightarrow> cron_kind" where
  "kr_cron c = \<lparr>ck_name = ''EncryptionKeyRotationCronJob'', ck_jobName = ''EncryptionKeyRotationJob'', ck_getCron = c_getKRCron c,
     ck_statusCron = c_statusKRCron c, ck_listJob = c_listKRJob c, ck_createJob = c_createKRJob c,
     ck_deleteJob = c_deleteKRJob c, ck_cronObj = O_KRCronJob, ck_jobObj = O_KRJob, ck_parse = parseEncryptionKeyRotationJobList,
     ck_next = getNextScheduleForKeyRotation c, ck_construct = constructEncryptionKeyRotationJob c,
     ck_constructFailed = (\<lambda>schedResult err. done_err err)\<rparr>"

definition deleteOldJobs :: "cenv \<Rightarrow> job list \<Rightarrow> int \<Rightarrow> unit prog" where
  "deleteOldJobs c = deleteOld c (Delete_Job (rs_cron c))"

definition deleteOldEncryptionKeyRotationJobs :: "cenv \<Rightarrow> job list \<Rightarrow> int \<Rightarrow> unit prog" where
  "deleteOldEncryptionKeyRotationJobs c = deleteOld c (Delete_Job (kr_cron c))"

text \<open>The limits are read through pointers of the stored object: \<open>False\<close> is the panic on a nil one.\<close>

definition prune :: "(job list \<Rightarrow> int \<Rightarrow> unit prog) \<Rightarrow> job list \<Rightarrow> int option \<Rightarrow> bool prog" where
  "prune del jobs limit = (case limit of None \<Rightarrow> ret False | Some l \<Rightarrow> do { _ \<leftarrow> del jobs l; ret True })"

definition RSCron_prune :: "cenv \<Rightarrow> cronjob \<Rightarrow> child_info \<Rightarrow> bool prog" where
  "RSCron_prune c cj ci = do {
     ok \<leftarrow> prune (deleteOldJobs c) (ci_successfulJobs ci) (cjs_successfulJobsHistoryLimit (cj_spec cj));
     if ok then prune (deleteOldJobs c) (ci_failedJobs ci) (cjs_failedJobsHistoryLimit (cj_spec cj)) else ret False
   }"

definition KRCron_prune :: "cenv \<Rightarrow> cronjob \<Rightarrow> child_info \<Rightarrow> bool prog" where
  "KRCron_prune c cj ci = do {
     ok \<leftarrow> prune (deleteOldEncryptionKeyRotationJobs c) (ci_failedJobs ci) (cjs_failedJobsHistoryLimit (cj_spec cj));
     if ok then prune (deleteOldEncryptionKeyRotationJobs c) (ci_successfulJobs ci) (cjs_successfulJobsHistoryLimit (cj_spec cj))
     else ret False
   }"

section \<open>Reconcile\<close>

definition cron_status :: "cenv \<Rightarrow> child_info \<Rightarrow> cronjob \<Rightarrow> cronjob" where
  "cron_status c ci cj = cj\<lparr>
     cj_lastScheduleTime := ci_mostRecentTime ci,
     cj_lastSuccessfulTime := (case ci_lastSuccessfulTime ci of None \<Rightarrow> cj_lastSuccessfulTime cj | Some t \<Rightarrow> Some t),
     cj_active := (case ci_activeJob ci of
        None \<Rightarrow> None
      | Some job \<Rightarrow> (case c_reference c job of Inl err \<Rightarrow> None | Inr r \<Rightarrow> Some r))\<rparr>"

definition nil_dereference :: outcome where
  "nil_dereference = Panicked ''invalid memory address or nil pointer dereference''"

definition Cron_create :: "cron_kind \<Rightarrow> cronjob \<Rightarrow> child_info \<Rightarrow> rresult \<Rightarrow> time \<Rightarrow> outcome prog" where
  "Cron_create k cj ci scheduledResult missedRun =
     (if ci_activeJob ci \<noteq> None then ret (Returned scheduledResult None)
      else
        (case ck_construct k cj missedRun of
           Inl err \<Rightarrow> ret (ck_constructFailed k scheduledResult err)
         | Inr job \<Rightarrow> do {
             r \<leftarrow> Create_Job k job;
             (case r of Inl err \<Rightarrow> ret (done_err err) | Inr _ \<Rightarrow> ret (Returned scheduledResult None))
           }))"

text \<open>
  With the policy \<open>Replace\<close> the active job is deleted. When there is none, \<open>Delete\<close> returns an error
  for the nil pointer and the message about it reads the name through the same pointer.
\<close>

definition Cron_start :: "cron_kind \<Rightarrow> cronjob \<Rightarrow> child_info \<Rightarrow> rresult \<Rightarrow> time \<Rightarrow> outcome prog" where
  "Cron_start k cj ci scheduledResult missedRun =
     (if cjs_concurrencyPolicy (cj_spec cj) = ReplaceConcurrent then
        (case ci_activeJob ci of
           None \<Rightarrow> ret nil_dereference
         | Some active \<Rightarrow> do {
             d \<leftarrow> Delete_Job k active;
             (case d of
                Inl err \<Rightarrow> if IsNotFound err then Cron_create k cj ci scheduledResult missedRun else ret (done_err err)
              | Inr _ \<Rightarrow> Cron_create k cj ci scheduledResult missedRun)
           })
      else Cron_create k cj ci scheduledResult missedRun)"

definition Cron_schedule :: "env \<Rightarrow> cron_kind \<Rightarrow> cronjob \<Rightarrow> child_info \<Rightarrow> outcome prog" where
  "Cron_schedule e k cj ci =
     (if cjs_suspend (cj_spec cj) = Some True then ret done_ok
      else do {
        t \<leftarrow> now e;
        (case ck_next k cj t of
           Inl err \<Rightarrow> ret done_ok
         | Inr (missedRun, nextRun) \<Rightarrow> do {
             t \<leftarrow> now e;
             let scheduledResult = \<lparr>rr_requeue = False, rr_requeueAfter = time_Sub nextRun t\<rparr>;
             if missedRun = zero_time then ret (Returned scheduledResult None)
             else do {
               t \<leftarrow> now e;
               let tooLate = (case cjs_startingDeadlineSeconds (cj_spec cj) of
                     None \<Rightarrow> False | Some d \<Rightarrow> missedRun + wrap64 (d * second) < t);
               if tooLate then ret (Returned scheduledResult None)
               else Cron_start k cj ci scheduledResult missedRun
             }
           })
      })"

definition Cron_children :: "env \<Rightarrow> cenv \<Rightarrow> cron_kind \<Rightarrow> (cronjob \<Rightarrow> child_info \<Rightarrow> bool prog) \<Rightarrow> cronjob \<Rightarrow> job list \<Rightarrow> outcome prog" where
  "Cron_children e c k pruning cj jobs =
     (case ck_parse k jobs of
        None \<Rightarrow> ret nil_dereference
      | Some ci \<Rightarrow> do {
          st \<leftarrow> StatusUpdate_Cron k (cron_status c ci cj);
          (case st of
             Inl err \<Rightarrow> ret (done_err err)
           | Inr cj \<Rightarrow> do {
               ok \<leftarrow> pruning cj ci;
               if ok then Cron_schedule e k cj ci else ret nil_dereference
             })
        })"

text \<open>An absent history limit is written through the nil pointer before anything else happens.\<close>

definition Cron_Reconcile ::
  "env \<Rightarrow> cenv \<Rightarrow> cron_kind \<Rightarrow> (cronjob \<Rightarrow> child_info \<Rightarrow> bool prog) \<Rightarrow> nsname \<Rightarrow> outcome prog" where
  "Cron_Reconcile e c k pruning req = do {
     r \<leftarrow> Get_Cron k req;
     (case r of
        Inl err \<Rightarrow> if IsNotFound err then ret done_ok else ret (done_err err)
      | Inr cj \<Rightarrow>
          if om_deletionTimestamp (cj_meta cj) \<noteq> None then ret done_ok
          else if cjs_failedJobsHistoryLimit (cj_spec cj) = None \<or> cjs_successfulJobsHistoryLimit (cj_spec cj) = None
          then ret nil_dereference
          else do {
            lr \<leftarrow> List_Jobs k req;
            (case lr of
               Inl err \<Rightarrow> ret (done_err err)
             | Inr jobs \<Rightarrow> Cron_children e c k pruning cj jobs)
          })
   }"

definition RSCron_Reconcile :: "env \<Rightarrow> cenv \<Rightarrow> nsname \<Rightarrow> outcome prog" where
  "RSCron_Reconcile e c = Cron_Reconcile e c (rs_cron c) (RSCron_prune c)"

definition KRCron_Reconcile :: "env \<Rightarrow> cenv \<Rightarrow> nsname \<Rightarrow> outcome prog" where
  "KRCron_Reconcile e c = Cron_Reconcile e c (kr_cron c) (KRCron_prune c)"

end
