(* ===== verification/Cron_Facts.thy ===== *)
theory Cron_Facts
  imports Cron_Jobs
begin

text \<open>
  What the scheduling controllers rely on: the loop over missed runs against the iterates of the
  schedule, the summary of the child jobs, the pruning of old jobs, and the interface \<open>cron_controller\<close>
  from which it follows when a job is created. Both controllers are interpretations of it.
\<close>

section \<open>Missed runs\<close>

lemma missed_loop_iterates:
  assumes "\<forall>i < n. (Next ^^ i) t \<le> tnow" "tnow < (Next ^^ n) t" "starts \<le> 100"
  shows "missed_loop Next tnow t starts l =
    (if starts + n \<le> 100 then Some (if n = 0 then l else (Next ^^ (n - 1)) t) else None)"
  using assms
proof (induction n arbitrary: t starts l)
  case 0
  then show ?case by (subst missed_loop.simps) simp
next
  case (Suc n)
  have t: "t \<le> tnow" using Suc.prems(1) by force
  show ?case
  proof (cases "starts = 100")
    case True
    with t show ?thesis by (subst missed_loop.simps) simp
  next
    case False
    have "\<forall>i < n. (Next ^^ i) (Next t) \<le> tnow"
      using Suc.prems(1) by (metis Suc_mono funpow_Suc_right o_apply)
    moreover have "tnow < (Next ^^ n) (Next t)"
      using Suc.prems(2) by (simp add: funpow_swap1)
    moreover have "starts + 1 \<le> 100" using False Suc.prems(3) by simp
    ultimately have "missed_loop Next tnow (Next t) (starts + 1) t =
        (if starts + 1 + n \<le> 100 then Some (if n = 0 then t else (Next ^^ (n - 1)) (Next t)) else None)"
      by (rule Suc.IH)
    moreover have "(if n = 0 then t else (Next ^^ (n - 1)) (Next t)) = (Next ^^ n) t"
      by (cases n) (simp_all add: funpow_swap1)
    ultimately show ?thesis using t False Suc.prems(3) by (subst missed_loop.simps) simp
  qed
qed

lemma iterates_grow: "(\<And>t. t < (Next t :: int)) \<Longrightarrow> t + int i \<le> (Next ^^ i) t"
proof (induction i)
  case (Suc i)
  from Suc.IH [OF Suc.prems] Suc.prems [of "(Next ^^ i) t"] show ?case by simp
qed simp

lemma iterates_mono:
  assumes "\<And>t. t < (Next t :: int)" "i \<le> j"
  shows "(Next ^^ i) t \<le> (Next ^^ j) t"
proof -
  obtain d where "j = d + i" using assms(2) by (metis le_add_diff_inverse2)
  then show ?thesis
    using iterates_grow [where Next = Next and t = "(Next ^^ i) t" and i = d, OF assms(1)] by (simp add: funpow_add)
qed

text \<open>The last iterate of an instant that is not later than another.\<close>

lemma last_iterate:
  assumes "\<And>t. t < (Next t :: int)" "t \<le> tnow"
  obtains n where "(Next ^^ n) t \<le> tnow" "tnow < (Next ^^ Suc n) t"
proof -
  have "tnow < (Next ^^ Suc (nat (tnow - t))) t"
    using iterates_grow [where Next = Next and t = t and i = "Suc (nat (tnow - t))", OF assms(1)] assms(2) by linarith
  then have ex: "\<exists>i. tnow < (Next ^^ i) t" by blast
  define m where "m = (LEAST i. tnow < (Next ^^ i) t)"
  have m: "tnow < (Next ^^ m) t" unfolding m_def by (rule LeastI_ex [OF ex])
  then have "m \<noteq> 0" using assms(2) by (metis funpow_0 linorder_not_le)
  then obtain n where n: "m = Suc n" by (cases m) auto
  have "\<not> tnow < (Next ^^ n) t" using not_less_Least [of n "\<lambda>i. tnow < (Next ^^ i) t"] n m_def by simp
  with m n that show thesis by (simp add: linorder_not_less)
qed

lemma nextSchedule_iterates:
  assumes "c_parseStandard c (cjs_schedule (cj_spec cj)) = Inr Next" "\<And>t. t < Next t"
    and "(Next ^^ n) (earliest_time cj tnow) \<le> tnow" "tnow < (Next ^^ Suc n) (earliest_time cj tnow)"
  shows "nextSchedule tooMany c cj tnow =
    (if n \<le> 100 then Inr (if n = 0 then zero_time else (Next ^^ n) (earliest_time cj tnow), Next tnow)
     else Inl (ErrMsg tooMany))"
proof -
  let ?e = "earliest_time cj tnow"
  have "?e \<le> (Next ^^ n) ?e" using iterates_mono [OF assms(2), of 0 n] by simp
  with assms(3) have e: "?e \<le> tnow" by simp
  have "\<forall>i < n. (Next ^^ i) (Next ?e) \<le> tnow"
  proof (intro allI impI)
    fix i assume "i < n"
    then have "(Next ^^ Suc i) ?e \<le> (Next ^^ n) ?e" by (intro iterates_mono [OF assms(2)]) simp
    with assms(3) show "(Next ^^ i) (Next ?e) \<le> tnow" by (simp add: funpow_swap1)
  qed
  from missed_loop_iterates [OF this, of 0 zero_time] assms(4) have
    "missed_loop Next tnow (Next ?e) 0 zero_time =
       (if n \<le> 100 then Some (if n = 0 then zero_time else (Next ^^ (n - 1)) (Next ?e)) else None)"
    by (simp add: funpow_swap1)
  moreover have "n \<noteq> 0 \<Longrightarrow> (Next ^^ (n - 1)) (Next ?e) = (Next ^^ n) ?e"
    by (cases n) (simp_all add: funpow_swap1)
  ultimately show ?thesis using e assms(1) by (simp add: nextSchedule_def)
qed

text \<open>A run that is started lies after the last one recorded, at an instant of the schedule.\<close>

lemma nextSchedule_later:
  assumes "nextSchedule tooMany c cj tnow = Inr (m, nx)" "m \<noteq> zero_time"
    and "\<And>s Next t. c_parseStandard c s = Inr Next \<Longrightarrow> t < Next t \<and> P (Next t)"
  shows "earliest_time cj tnow < m \<and> m \<le> tnow \<and> P m"
proof -
  obtain Next where N: "c_parseStandard c (cjs_schedule (cj_spec cj)) = Inr Next"
    using assms(1) by (auto simp: nextSchedule_def split: sum.splits)
  note grow = assms(3) [OF N, THEN conjunct1] and P = assms(3) [OF N, THEN conjunct2]
  let ?e = "earliest_time cj tnow"
  have "?e \<le> tnow" using assms(1,2) N by (auto simp: nextSchedule_def Let_def split: if_splits)
  then obtain n where n: "(Next ^^ n) ?e \<le> tnow" "tnow < (Next ^^ Suc n) ?e"
    by (rule last_iterate [OF grow])
  from nextSchedule_iterates [OF N grow n] assms(1,2) have m: "n \<noteq> 0" "m = (Next ^^ n) ?e"
    by (auto split: if_splits)
  have "Next ?e \<le> m" using m iterates_mono [OF grow, of 1 n] by simp
  with grow [of ?e] have "?e < m" by simp
  moreover have "P m" using m P by (cases n) simp_all
  ultimately show ?thesis using n(1) m(2) by simp
qed

lemma earliest_after_last: "cj_lastScheduleTime cj = Some s \<Longrightarrow> s \<le> earliest_time cj tnow"
  by (auto simp: earliest_time_def Let_def split: option.splits)

section \<open>The summary of child jobs\<close>

lemma classify_keeps:
  assumes "classify ci job = Some ci'"
  shows "ci_mostRecentTime ci' = ci_mostRecentTime ci"
    "ci_activeJob ci' = (if job_result job = NoResult then Some job else ci_activeJob ci)"
  using assms by (auto simp: classify_def Let_def split: operation_result.splits option.splits if_splits)

lemma note_scheduled_keeps:
  "ci_activeJob (note_scheduled g ci job) = ci_activeJob ci"
  "ci_mostRecentTime ci = Some m \<Longrightarrow> \<exists>m'. ci_mostRecentTime (note_scheduled g ci job) = Some m' \<and> m \<le> m'"
  "g job = Some (Some t) \<Longrightarrow> \<exists>m'. ci_mostRecentTime (note_scheduled g ci job) = Some m' \<and> t \<le> m'"
  by (auto simp: note_scheduled_def split: option.splits)

lemma parseJobs_loop_active:
  "parseJobs_loop g ci jobs = Some ci' \<Longrightarrow> ci_activeJob ci' = None \<Longrightarrow>
     ci_activeJob ci = None \<and> (\<forall>job \<in> set jobs. job_result job \<noteq> NoResult)"
proof (induction jobs arbitrary: ci)
  case (Cons job jobs)
  then obtain ci1 where "classify ci job = Some ci1" by (auto split: option.splits)
  with Cons.IH [of "note_scheduled g ci1 job"] Cons.prems show ?case
    by (auto simp: classify_keeps note_scheduled_keeps split: if_splits)
qed simp

lemma parseJobs_loop_grows:
  "parseJobs_loop g ci jobs = Some ci' \<Longrightarrow> ci_mostRecentTime ci = Some m \<Longrightarrow>
     \<exists>m'. ci_mostRecentTime ci' = Some m' \<and> m \<le> m'"
proof (induction jobs arbitrary: ci m)
  case (Cons job jobs)
  then obtain ci1 where c: "classify ci job = Some ci1" by (auto split: option.splits)
  with Cons.prems(2) have "ci_mostRecentTime ci1 = Some m" by (simp add: classify_keeps)
  then obtain m1 where "ci_mostRecentTime (note_scheduled g ci1 job) = Some m1" "m \<le> m1"
    using note_scheduled_keeps(2) by blast
  with Cons.IH [of "note_scheduled g ci1 job" m1] Cons.prems(1) c show ?case by fastforce
qed simp

lemma parseJobs_loop_recent:
  "parseJobs_loop g ci jobs = Some ci' \<Longrightarrow> job \<in> set jobs \<Longrightarrow> g job = Some (Some t) \<Longrightarrow>
     \<exists>m. ci_mostRecentTime ci' = Some m \<and> t \<le> m"
proof (induction jobs arbitrary: ci)
  case (Cons x jobs)
  then obtain ci1 where c: "classify ci x = Some ci1"
    and loop: "parseJobs_loop g (note_scheduled g ci1 x) jobs = Some ci'" by (auto split: option.splits)
  show ?case
  proof (cases "job = x")
    case True
    with note_scheduled_keeps(3) [where g = g and job = job and t = t, OF Cons.prems(3)] obtain m where
      "ci_mostRecentTime (note_scheduled g ci1 x) = Some m" "t \<le> m" by blast
    with parseJobs_loop_grows [OF loop] show ?thesis by fastforce
  next
    case False
    with Cons loop show ?thesis by auto
  qed
qed simp

section \<open>Pruning\<close>

lemma run_Delete_Job [run_defs]:
  "run_state (Delete_Job k job) w =
     (ck_deleteJob k (trace w) job, w\<lparr>trace := trace w @ [ApiDelete (ck_jobObj k job)]\<rparr>)"
  by (simp add: Delete_Job_def run_call)

lemma deleteOld_loop_run:
  assumes "i + length jobs = n" "n < 2 ^ 31" "0 \<le> limit" "limit < 2 ^ 31"
  shows "run_state (deleteOld_loop (Delete_Job k) limit n i jobs) w =
    ((), w\<lparr>trace := trace w @ map (\<lambda>job. ApiDelete (ck_jobObj k job)) (take (n - nat limit - i) jobs)\<rparr>)"
  using assms
proof (induction jobs arbitrary: i w)
  case (Cons job jobs)
  obtain l where l: "limit = int l" using Cons.prems(3) by (rule nonneg_int_cases)
  have wraps: "wrap32 (int n) = int n" "wrap32 (int i) = int i" "wrap32 (int n - limit) = int n - limit"
    using Cons.prems by (simp_all add: wrap32_id)
  show ?case
  proof (cases "int n - limit \<le> int i")
    case True
    with wraps show ?thesis by (simp add: nat_le_iff)
  next
    case False
    then have rest: "n - nat limit - i = Suc (n - nat limit - Suc i)" using l by auto
    from False wraps Cons.prems show ?thesis
      by (simp add: Cons.IH run_Delete_Job rest del: diff_diff_left)
  qed
qed simp

lemma emits_deleteOld_loop:
  assumes "\<And>job. emits R (del job)"
  shows "emits R (deleteOld_loop del limit n i jobs)"
  by (induction jobs arbitrary: i) (auto intro!: emits_intros assms)

definition no_create :: "event list \<Rightarrow> event \<Rightarrow> bool" where
  "no_create h ev \<longleftrightarrow> (\<forall>x. ev \<noteq> ApiCreate x)"

lemma emits_prune:
  "(\<And>jobs l. emits R (del jobs l)) \<Longrightarrow> emits R (prune del jobs limit)"
  by (auto simp: prune_def intro!: emits_intros)

lemma emits_RSCron_prune: "emits no_create (RSCron_prune c cj ci)"
  unfolding RSCron_prune_def deleteOldJobs_def deleteOld_def Let_def Delete_Job_def
  by (intro emits_intros emits_prune emits_deleteOld_loop) (simp_all add: no_create_def)

lemma emits_KRCron_prune: "emits no_create (KRCron_prune c cj ci)"
  unfolding KRCron_prune_def deleteOldEncryptionKeyRotationJobs_def deleteOld_def Let_def Delete_Job_def
  by (intro emits_intros emits_prune emits_deleteOld_loop) (simp_all add: no_create_def)

section \<open>When a job is created\<close>

text \<open>
  \<open>creation k c cj jobs x\<close>: \<open>x\<close> is a job the scheduler \<open>cj\<close> creates for a missed run it found with the
  children \<open>jobs\<close>, none of them active, under a policy that is not \<open>Replace\<close>.
\<close>

definition creation :: "cron_kind \<Rightarrow> cenv \<Rightarrow> cronjob \<Rightarrow> job list \<Rightarrow> obj \<Rightarrow> bool" where
  "creation k c cj jobs x \<longleftrightarrow> (\<exists>job ci cj' h tnow m nx.
     x = ck_jobObj k job \<and> ck_parse k jobs = Some ci \<and> ci_activeJob ci = None \<and>
     ck_statusCron k h (cron_status c ci cj) = Inr cj' \<and> cjs_concurrencyPolicy (cj_spec cj') \<noteq> ReplaceConcurrent \<and>
     ck_next k cj' tnow = Inr (m, nx) \<and> m \<noteq> zero_time \<and> ck_construct k cj' m = Inr job)"

definition creates_only :: "(obj \<Rightarrow> bool) \<Rightarrow> event list \<Rightarrow> event \<Rightarrow> bool" where
  "creates_only P h ev \<longleftrightarrow> (\<forall>x. ev = ApiCreate x \<longrightarrow> P x)"

lemma creates_only_other [simp]:
  "creates_only P h (ApiGet s nn)" "creates_only P h (ApiList s t)" "creates_only P h (ApiDelete x)"
  "creates_only P h (ApiStatusUpdate x)" "creates_only P h (ApiCreate x) \<longleftrightarrow> P x"
  by (simp_all add: creates_only_def)

lemma emits_Cron_start:
  assumes "\<And>job. ci_activeJob ci = None \<Longrightarrow> cjs_concurrencyPolicy (cj_spec cj) \<noteq> ReplaceConcurrent \<Longrightarrow>
      ck_construct k cj m = Inr job \<Longrightarrow> P (ck_jobObj k job)"
  shows "emits (creates_only P) (Cron_start k cj ci sr m)"
proof -
  have quiet: "emits (creates_only P) (Cron_create k cj ci sr m)"
    if "ci_activeJob ci \<noteq> None \<or> cjs_concurrencyPolicy (cj_spec cj) \<noteq> ReplaceConcurrent"
    using that assms unfolding Cron_create_def Create_Job_def
    by (auto intro!: emits_intros split: sum.split)
  show ?thesis
    unfolding Cron_start_def Delete_Job_def
    by (auto intro!: emits_intros quiet split: option.split)
qed

lemma emits_Cron_schedule:
  assumes "\<And>tnow m nx job. ci_activeJob ci = None \<Longrightarrow> cjs_concurrencyPolicy (cj_spec cj) \<noteq> ReplaceConcurrent \<Longrightarrow>
      ck_next k cj tnow = Inr (m, nx) \<Longrightarrow> m \<noteq> zero_time \<Longrightarrow> ck_construct k cj m = Inr job \<Longrightarrow> P (ck_jobObj k job)"
  shows "emits (creates_only P) (Cron_schedule e k cj ci)"
proof -
  have sched: "emits (creates_only P) (case ck_next k cj tnow of Inl err \<Rightarrow> ret done_ok | Inr (m, nx) \<Rightarrow> f m nx)"
    if "\<And>m nx. ck_next k cj tnow = Inr (m, nx) \<Longrightarrow> emits (creates_only P) (f m nx)" for tnow f
    using that by (auto intro!: emits_intros split: sum.split)
  show ?thesis
    unfolding Cron_schedule_def
    by (intro emits_if emits_ret emits_bind emits_now emits_let sched emits_Cron_start) (rule assms)
qed

definition children_of :: "cron_kind \<Rightarrow> nsname \<Rightarrow> job list \<Rightarrow> job list" where
  "children_of k req jobs = filter (\<lambda>job. nn_name req \<in> set (jobOwnerIndex (ck_name k) job)) jobs"

definition creation_for :: "cron_kind \<Rightarrow> cenv \<Rightarrow> nsname \<Rightarrow> obj \<Rightarrow> bool" where
  "creation_for k c req x \<longleftrightarrow> (\<exists>h h' cj jobs. ck_getCron k h req = Inr cj \<and>
     ck_listJob k h' (nn_namespace req) = Inr jobs \<and> creation k c cj (children_of k req jobs) x)"

text \<open>
  What is relied on of schedules and of the time zone: the next run of a schedule lies in the future
  and on a whole second, and the zone is a whole number of minutes, less than 25 hours, from UTC.
\<close>

definition schedule_laws :: "cenv \<Rightarrow> bool" where
  "schedule_laws c \<longleftrightarrow>
     (\<forall>s Next t. c_parseStandard c s = Inr Next \<longrightarrow> t < Next t \<and> Next t mod second = 0) \<and> (\<forall>t. zone_ok (c_zone c t))"

locale cron_controller =
  fixes k :: cron_kind and c :: cenv and pruning :: "cronjob \<Rightarrow> child_info \<Rightarrow> bool prog"
    and time_of_job :: "job \<Rightarrow> time option option"
  assumes prune_quiet: "emits no_create (pruning cj ci)"
    and parse_active: "ck_parse k jobs = Some ci \<Longrightarrow> ci_activeJob ci = None \<Longrightarrow> job \<in> set jobs \<Longrightarrow> job_result job \<noteq> NoResult"
    and parse_recent: "ck_parse k jobs = Some ci \<Longrightarrow> job \<in> set jobs \<Longrightarrow> time_of_job job = Some (Some t) \<Longrightarrow>
      \<exists>s. ci_mostRecentTime ci = Some s \<and> t \<le> s"
    and next_later: "ck_next k cj tnow = Inr (m, nx) \<Longrightarrow> m \<noteq> zero_time \<Longrightarrow>
      (\<And>s Next t. c_parseStandard c s = Inr Next \<Longrightarrow> t < Next t \<and> P (Next t)) \<Longrightarrow> earliest_time cj tnow < m \<and> m \<le> tnow \<and> P m"
    and construct_time: "ck_construct k cj m = Inr job \<Longrightarrow> zone_ok (c_zone c m) \<Longrightarrow> 0 \<le> local_year (c_zone c m) m \<Longrightarrow>
      local_year (c_zone c m) m < 10000 \<Longrightarrow> time_of_job job = Some (Some (Unix m * second))"
    and construct_name: "ck_construct k cj m = Inr job \<Longrightarrow> om_name (job_meta job) = om_name (cj_meta cj) @ ''-'' @ fmt_d (Unix m)"
    and job_inj: "inj (ck_jobObj k)"
begin

lemma emits_children: "emits (creates_only (creation k c cj jobs)) (Cron_children e c k pruning cj jobs)"
proof -
  let ?R = "creates_only (creation k c cj jobs)"
  have "emits ?R (do { st \<leftarrow> StatusUpdate_Cron k (cron_status c ci cj);
      (case st of Inl err \<Rightarrow> ret (done_err err) | Inr cj \<Rightarrow> do {
         ok \<leftarrow> pruning cj ci; if ok then Cron_schedule e k cj ci else ret nil_dereference }) })"
    if ci: "ck_parse k jobs = Some ci" for ci
    unfolding StatusUpdate_Cron_def
  proof (rule emits_bind_returns [OF _ returns_call])
    show "emits ?R (call (\<lambda>h. ck_statusCron k h (cron_status c ci cj)) (ApiStatusUpdate (ck_cronObj k (cron_status c ci cj))))"
      by (intro emits_call) simp
    fix st assume "\<exists>h. st = ck_statusCron k h (cron_status c ci cj)"
    then obtain h where st: "st = ck_statusCron k h (cron_status c ci cj)" ..
    have "emits ?R (do { ok \<leftarrow> pruning cj' ci; if ok then Cron_schedule e k cj' ci else ret nil_dereference })"
      if "ck_statusCron k h (cron_status c ci cj) = Inr cj'" for cj'
    proof (intro emits_intros)
      show "emits ?R (pruning cj' ci)"
        by (rule emits_mono [OF prune_quiet]) (auto simp: no_create_def creates_only_def)
      show "emits ?R (Cron_schedule e k cj' ci)"
        using ci that by (intro emits_Cron_schedule) (unfold creation_def, blast)
    qed
    with st show "emits ?R (case st of Inl err \<Rightarrow> ret (done_err err) | Inr cj \<Rightarrow> do {
         ok \<leftarrow> pruning cj ci; if ok then Cron_schedule e k cj ci else ret nil_dereference })"
      by (auto intro!: emits_intros split: sum.split)
  qed
  then show ?thesis unfolding Cron_children_def by (auto intro!: emits_intros split: option.split)
qed

lemma emits_Reconcile:
  "emits (creates_only (creation_for k c req)) (Cron_Reconcile e c k pruning req)"
  (is "emits (creates_only ?P) _")
proof -
  have kids: "emits (creates_only ?P) (do { lr \<leftarrow> List_Jobs k req;
      (case lr of Inl err \<Rightarrow> ret (done_err err) | Inr jobs \<Rightarrow> Cron_children e c k pruning cj jobs) })"
    if cj: "ck_getCron k h req = Inr cj" for h cj
  proof (rule emits_bind_returns [where V = "\<lambda>r. \<forall>js. r = Inr js \<longrightarrow> (\<exists>h' jobs. ck_listJob k h' (nn_namespace req) = Inr jobs \<and>
      js = children_of k req jobs)"])
    show "emits (creates_only ?P) (List_Jobs k req)"
      unfolding List_Jobs_def by (intro emits_intros) simp
    show "returns (List_Jobs k req) (\<lambda>r. \<forall>js. r = Inr js \<longrightarrow> (\<exists>h' jobs. ck_listJob k h' (nn_namespace req) = Inr jobs \<and>
        js = children_of k req jobs))"
      by (auto simp: List_Jobs_def children_of_def returns_def run_defs split: sum.split)
    fix lr :: "goerr + job list" assume lr: "\<forall>js. lr = Inr js \<longrightarrow> (\<exists>h' jobs. ck_listJob k h' (nn_namespace req) = Inr jobs \<and> js = children_of k req jobs)"
    have "emits (creates_only ?P) (Cron_children e c k pruning cj js)" if "lr = Inr js" for js
    proof -
      from lr that obtain h' jobs where l: "ck_listJob k h' (nn_namespace req) = Inr jobs" "js = children_of k req jobs" by blast
      show ?thesis
      proof (rule emits_mono [OF emits_children])
        fix g ev assume "creates_only (creation k c cj js) g ev"
        with cj l show "creates_only ?P g ev" unfolding creates_only_def creation_for_def by blast
      qed
    qed
    then show "emits (creates_only ?P) (case lr of Inl err \<Rightarrow> ret (done_err err) | Inr jobs \<Rightarrow> Cron_children e c k pruning cj jobs)"
      by (auto intro: emits_ret split: sum.split)
  qed
  show ?thesis
    unfolding Cron_Reconcile_def
  proof (rule emits_bind_returns [where V = "\<lambda>r. \<exists>h. r = ck_getCron k h req"])
    show "emits (creates_only ?P) (Get_Cron k req)" unfolding Get_Cron_def by (intro emits_call) simp
    show "returns (Get_Cron k req) (\<lambda>r. \<exists>h. r = ck_getCron k h req)" unfolding Get_Cron_def by (rule returns_call)
    fix r assume "\<exists>h. r = ck_getCron k h req"
    then show "emits (creates_only ?P) (case r of
        Inl err \<Rightarrow> if IsNotFound err then ret done_ok else ret (done_err err)
      | Inr cj \<Rightarrow>
          if om_deletionTimestamp (cj_meta cj) \<noteq> None then ret done_ok
          else if cjs_failedJobsHistoryLimit (cj_spec cj) = None \<or> cjs_successfulJobsHistoryLimit (cj_spec cj) = None
          then ret nil_dereference
          else do { lr \<leftarrow> List_Jobs k req;
            (case lr of Inl err \<Rightarrow> ret (done_err err) | Inr jobs \<Rightarrow> Cron_children e c k pruning cj jobs) })"
      by (auto intro!: emits_ret kids split: sum.split)
  qed
qed

text \<open>What a created job has to do with the other children of its scheduler.\<close>

lemma created_after:
  assumes "creation k c cj jobs x" "schedule_laws c"
    and "\<And>h x y. ck_statusCron k h x = Inr y \<Longrightarrow> cj_lastScheduleTime y = cj_lastScheduleTime x \<and> cj_meta y = cj_meta x"
  shows "\<exists>job t. x = ck_jobObj k job \<and> om_name (job_meta job) = om_name (cj_meta cj) @ ''-'' @ fmt_d (Unix t) \<and>
    (\<forall>child \<in> set jobs. job_result child \<noteq> NoResult \<and> (\<forall>s. time_of_job child = Some (Some s) \<longrightarrow> s < t)) \<and>
    (0 \<le> local_year (c_zone c t) t \<and> local_year (c_zone c t) t < 10000 \<longrightarrow> time_of_job job = Some (Some t))"
proof -
  obtain job ci cj' h tnow m nx where x: "x = ck_jobObj k job" and ci: "ck_parse k jobs = Some ci" "ci_activeJob ci = None"
    and cj': "ck_statusCron k h (cron_status c ci cj) = Inr cj'"
    and nxt: "ck_next k cj' tnow = Inr (m, nx)" "m \<noteq> zero_time" and job: "ck_construct k cj' m = Inr job"
    using assms(1) by (auto simp: creation_def)
  have "earliest_time cj' tnow < m \<and> m \<le> tnow \<and> m mod second = 0"
    using next_later [OF nxt, of "\<lambda>t. t mod second = 0"] assms(2) by (simp add: schedule_laws_def)
  then have later: "earliest_time cj' tnow < m" and whole: "Unix m * second = m"
    by (auto simp: Unix_def)
  have "s < m" if "child \<in> set jobs" "time_of_job child = Some (Some s)" for child s
  proof -
    from parse_recent [OF ci(1) that] obtain r where r: "ci_mostRecentTime ci = Some r" "s \<le> r" by blast
    with assms(3) [OF cj'] have "cj_lastScheduleTime cj' = Some r" by (simp add: cron_status_def)
    from earliest_after_last [OF this, of tnow] r(2) later show ?thesis by simp
  qed
  moreover have "job_result child \<noteq> NoResult" if "child \<in> set jobs" for child
    using parse_active [OF ci that] .
  moreover have "time_of_job job = Some (Some m)"
    if "0 \<le> local_year (c_zone c m) m" "local_year (c_zone c m) m < 10000"
    using construct_time [OF job _ that] assms(2) whole by (simp add: schedule_laws_def)
  moreover have "om_name (job_meta job) = om_name (cj_meta cj) @ ''-'' @ fmt_d (Unix m)"
    using construct_name [OF job] assms(3) [OF cj'] by (simp add: cron_status_def)
  ultimately show ?thesis using x by blast
qed

end

section \<open>Both controllers\<close>

lemma constructJob_facts:
  assumes "constructJob scheme c cj m = Inr job"
  obtains g where "scheme = Inr g" "om_name (job_meta job) = om_name (cj_meta cj) @ ''-'' @ fmt_d (Unix m)"
    "mget (om_annotations (job_meta job)) scheduledTimeAnnotation = format_RFC3339 (c_zone c m) m"
    "GetControllerOf (job_meta job) = Some (owner_ref_to g (cj_meta cj))"
proof -
  obtain meta where set: "SetControllerReference scheme (cj_meta cj) ((empty_meta (om_name (cj_meta cj) @ ''-'' @ fmt_d (Unix m)) (om_namespace (cj_meta cj)))
       \<lparr>om_annotations := AList.update scheduledTimeAnnotation (format_RFC3339 (c_zone c m) m) (map_copy (cjs_jobAnnotations (cj_spec cj)) []),
        om_labels := map_copy (cjs_jobLabels (cj_spec cj)) []\<rparr>) = Inr meta"
    and meta: "job_meta job = meta"
    using assms by (auto simp: constructJob_def Let_def split: sum.splits)
  from set obtain g where "scheme = Inr g" "GetControllerOf meta = Some (owner_ref_to g (cj_meta cj))"
    "om_name meta = om_name (cj_meta cj) @ ''-'' @ fmt_d (Unix m)"
    "mget (om_annotations meta) scheduledTimeAnnotation = format_RFC3339 (c_zone c m) m"
    by (rule SetControllerReference_fresh) (simp_all add: empty_meta_def)
  with meta that show thesis by simp
qed

lemma format_RFC3339_not_Nil: "format_RFC3339 offset t \<noteq> []"
  by (simp add: format_RFC3339_def Let_def split: prod.split)

lemma constructJob_time:
  assumes "constructJob scheme c cj m = Inr job" "zone_ok (c_zone c m)" "0 \<le> local_year (c_zone c m) m"
    and "local_year (c_zone c m) m < 10000"
  shows "getScheduledTimeForRSJob job = Some (Some (Unix m * second))"
proof -
  from assms(1) have "mget (om_annotations (job_meta job)) scheduledTimeAnnotation = format_RFC3339 (c_zone c m) m"
    by (rule constructJob_facts)
  with RFC3339_roundtrip [OF assms(2-4)] show ?thesis
    by (simp add: getScheduledTimeForRSJob_def format_RFC3339_not_Nil)
qed

lemma constructJob_name:
  "constructJob scheme c cj m = Inr job \<Longrightarrow> om_name (job_meta job) = om_name (cj_meta cj) @ ''-'' @ fmt_d (Unix m)"
  by (erule constructJob_facts)

interpretation rs_crons: cron_controller "rs_cron c" c "RSCron_prune c" getScheduledTimeForRSJob for c
proof
  show "emits no_create (RSCron_prune c cj ci)" for cj ci by (rule emits_RSCron_prune)
qed (simp_all add: rs_cron_def parseJobList_def getNextSchedule_def constructRSJobForCronJob_def parseJobs_loop_active
    parseJobs_loop_recent nextSchedule_later constructJob_time constructJob_name inj_def)

interpretation kr_crons: cron_controller "kr_cron c" c "KRCron_prune c" getScheduledTimeForEKRJob for c
proof
  show "emits no_create (KRCron_prune c cj ci)" for cj ci by (rule emits_KRCron_prune)
qed (simp_all add: kr_cron_def parseEncryptionKeyRotationJobList_def getScheduledTimeForEKRJob_def getNextScheduleForKeyRotation_def
    constructEncryptionKeyRotationJob_def parseJobs_loop_active parseJobs_loop_recent nextSchedule_later constructJob_time
    constructJob_name inj_def)

end
