(* ===== verification/Props_Cron.thy ===== *)
theory Props_Cron
  imports Cron_Facts "HOL-Library.Multiset"
begin

text \<open>
  The properties of the scheduling controllers: which run is started next, that no run is started
  twice or while a job is active, that a created job is recognised later, how many finished jobs are
  kept, and what the policy \<open>Replace\<close> really does.
\<close>

section \<open>A scheduler to apply the properties to\<close>

fun insert_by :: "(job \<Rightarrow> job \<Rightarrow> bool) \<Rightarrow> job \<Rightarrow> job list \<Rightarrow> job list" where
  "insert_by lt x [] = [x]"
| "insert_by lt x (y # ys) = (if lt y x then y # insert_by lt x ys else x # y # ys)"

definition sort_by :: "(job \<Rightarrow> job \<Rightarrow> bool) \<Rightarrow> job list \<Rightarrow> job list" where
  "sort_by lt xs = foldr (insert_by lt) xs []"

definition cx_cron :: cronjob where
  "cx_cron = \<lparr>cj_meta = (empty_meta ''cron'' ''ns'')\<lparr>om_creationTimestamp := Some 0\<rparr>,
     cj_spec = \<lparr>cjs_schedule = ''*/5 * * * *'', cjs_startingDeadlineSeconds = None, cjs_concurrencyPolicy = ForbidConcurrent,
       cjs_suspend = None, cjs_jobAnnotations = [(''a'', ''b'')], cjs_jobLabels = [],
       cjs_jobSpec = \<lparr>js_targetPVC = ''claim'', js_backoffLimit = 2, js_retryDeadlineSeconds = 600, js_timeout = None\<rparr>,
       cjs_successfulJobsHistoryLimit = Some 1, cjs_failedJobsHistoryLimit = Some 0\<rparr>,
     cj_active = None, cj_lastScheduleTime = None, cj_lastSuccessfulTime = None\<rparr>"

definition cx_gvk :: "string \<Rightarrow> gvk" where
  "cx_gvk kind = \<lparr>gvk_group = ''csiaddons.openshift.io'', gvk_version = ''v1alpha1'', gvk_kind = kind\<rparr>"

definition cx_child :: "string \<Rightarrow> string \<Rightarrow> operation_result \<Rightarrow> time \<Rightarrow> job" where
  "cx_child n at r t = \<lparr>job_meta = (empty_meta n ''ns'')\<lparr>om_annotations := [(scheduledTimeAnnotation, at)],
       om_ownerReferences := [owner_ref_to (cx_gvk ''ReclaimSpaceCronJob'') (cj_meta cx_cron)]\<rparr>,
     job_spec = cjs_jobSpec (cj_spec cx_cron),
     job_status = job_status0\<lparr>jst_result := r, jst_startTime := Some t, jst_completionTime := Some t\<rparr>\<rparr>"

definition cx_jobs :: "job list" where
  "cx_jobs = [cx_child ''cron-300'' ''1970-01-01T00:05:00Z'' OperationResultSucceeded (301 * second),
     cx_child ''cron-0'' ''1970-01-01T00:00:00Z'' OperationResultFailed (1 * second)]"

definition every5 :: "time \<Rightarrow> time" where
  "every5 t = (t div (300 * second) + 1) * (300 * second)"

definition cx_cenv :: cenv where
  "cx_cenv = \<lparr>c_getRSCron = (\<lambda>_ _. Inr cx_cron), c_statusRSCron = (\<lambda>_ m. Inr m), c_listRSJob = (\<lambda>_ _. Inr cx_jobs),
     c_createRSJob = (\<lambda>_ m. Inr m), c_deleteRSJob = (\<lambda>_ _. Inr ()), c_getKRCron = (\<lambda>_ _. Inl notfound),
     c_statusKRCron = (\<lambda>_ m. Inr m), c_listKRJob = (\<lambda>_ _. Inr []), c_createKRJob = (\<lambda>_ m. Inr m), c_deleteKRJob = (\<lambda>_ _. Inr ()),
     c_parseStandard = (\<lambda>_. Inr every5), c_zone = (\<lambda>_. 0), c_sortSlice = sort_by, c_reference = (\<lambda>m. Inr (om_name (job_meta m))),
     c_gvkRSCron = Inr (cx_gvk ''ReclaimSpaceCronJob''), c_gvkKRCron = Inr (cx_gvk ''EncryptionKeyRotationCronJob'')\<rparr>"

definition cx_env :: env where
  "cx_env = env0\<lparr>e_now := (\<lambda>_. 1000 * second)\<rparr>"

definition cx_world :: world where
  "cx_world = \<lparr>trace = [], pool = []\<rparr>"

definition cx_req :: nsname where
  "cx_req = \<lparr>nn_namespace = ''ns'', nn_name = ''cron''\<rparr>"

definition cx_new :: job where
  "cx_new = \<lparr>job_meta = (empty_meta ''cron-900'' ''ns'')
       \<lparr>om_annotations := [(''a'', ''b''), (scheduledTimeAnnotation, ''1970-01-01T00:15:00Z'')],
        om_ownerReferences := [owner_ref_to (cx_gvk ''ReclaimSpaceCronJob'') (cj_meta cx_cron)]\<rparr>,
     job_spec = cjs_jobSpec (cj_spec cx_cron), job_status = job_status0\<rparr>"

lemma cx_run: "trace (snd (run_state (Cron_Reconcile cx_env cx_cenv (rs_cron cx_cenv) (RSCron_prune cx_cenv) cx_req) cx_world)) =
  [ApiGet ''ReclaimSpaceCronJob'' cx_req, ApiList ''ReclaimSpaceJob'' ''ns'',
   ApiStatusUpdate (O_RSCronJob (cx_cron\<lparr>cj_lastScheduleTime := Some (300 * second), cj_lastSuccessfulTime := Some (301 * second)\<rparr>)),
   ApiDelete (O_RSJob (cx_jobs ! 1)), ApiCreate (O_RSJob cx_new)]"
  by code_simp

lemma cx_created: "appended cx_world
  (snd (run_state (Cron_Reconcile cx_env cx_cenv (rs_cron cx_cenv) (RSCron_prune cx_cenv) cx_req) cx_world)) 4 (ApiCreate (O_RSJob cx_new))"
  unfolding appended_def cx_run by (simp add: cx_world_def)

lemma every5_next: "t < every5 t" "every5 t mod second = 0"
proof -
  define q where "q = t div 300000000000"
  have "t < 300000000000 * q + 300000000000"
    using mult_div_mod_eq [of 300000000000 t] pos_mod_bound [of 300000000000 t] by (simp add: q_def)
  then show "t < every5 t" by (simp add: every5_def q_def)
  show "every5 t mod second = 0" by (simp add: every5_def mod_eq_0_iff_dvd)
qed

lemma cx_laws: "schedule_laws cx_cenv"
  by (simp add: schedule_laws_def cx_cenv_def every5_next zone_ok_def)

section \<open>Runs\<close>

abbreviation schedulers :: "cenv \<Rightarrow> (cron_kind \<times> (cronjob \<Rightarrow> child_info \<Rightarrow> bool prog)) set" where
  "schedulers c \<equiv> {(rs_cron c, RSCron_prune c), (kr_cron c, KRCron_prune c)}"



text \<open>A job created by a scheduler is, at the next reconcile, listed among its children and read with
  the time it was created for: the name, owner and annotation written by one run are the ones
  the next run looks for.\<close>

theorem created_job_recognised:
  assumes "constructRSJobForCronJob c cj t = Inr job \<and> kind = ''ReclaimSpaceCronJob'' \<and> c_gvkRSCron c = Inr g \<or>
      constructEncryptionKeyRotationJob c cj t = Inr job \<and> kind = ''EncryptionKeyRotationCronJob'' \<and> c_gvkKRCron c = Inr g"
    and "g = \<lparr>gvk_group = ''csiaddons.openshift.io'', gvk_version = ''v1alpha1'', gvk_kind = kind\<rparr>"
    and "t mod second = 0" "zone_ok (c_zone c t)" "0 \<le> local_year (c_zone c t) t" "local_year (c_zone c t) t < 10000"
  shows "jobOwnerIndex kind job = [om_name (cj_meta cj)] \<and> getScheduledTimeForRSJob job = Some (Some t) \<and>
    getScheduledTimeForEKRJob job = Some (Some t)"
proof -
  obtain scheme where con: "constructJob scheme c cj t = Inr job" and "scheme = Inr g"
    using assms(1) by (auto simp: constructRSJobForCronJob_def constructEncryptionKeyRotationJob_def)
  with con have "GetControllerOf (job_meta job) = Some (owner_ref_to g (cj_meta cj))"
    by (metis constructJob_facts sum.inject(2))
  then have "jobOwnerIndex kind job = [om_name (cj_meta cj)]"
    using assms(2) by (simp add: jobOwnerIndex_def owner_ref_to_def gvk_apiVersion_def apiGVStr_def)
  moreover have "Unix t * second = t" using assms(3) by (auto simp: Unix_def)
  ultimately show ?thesis
    using constructJob_time [OF con assms(4-6)] by (simp add: getScheduledTimeForEKRJob_def)
qed

theorem created_job_recognised_witness:
  "\<exists>job. constructRSJobForCronJob cx_cenv cx_cron 0 = Inr job \<and> getScheduledTimeForRSJob job = Some (Some 0)"
proof -
  obtain job where job: "constructRSJobForCronJob cx_cenv cx_cron 0 = Inr job"
    by (simp add: constructRSJobForCronJob_def constructJob_def cx_cenv_def cx_cron_def SetControllerReference_def
        validateOwner_def empty_meta_def GetControllerOf_def)
  have year: "local_year 0 0 = 1970" by code_simp
  from created_job_recognised [of cx_cenv cx_cron 0 job "''ReclaimSpaceCronJob''" "cx_gvk ''ReclaimSpaceCronJob''"] job year
  show ?thesis by (simp add: cx_cenv_def cx_gvk_def zone_ok_def)
qed

text \<open>C22: from the earliest instant the scheduler looks back to, the run to start is the last instant of the
  schedule that has passed, none when no instant has passed, and an error when more than a
  hundred have; the time to come back is the next instant. The loop that finds it ends for every
  schedule that moves forward.\<close>

theorem next_schedule_is_last_missed:
  assumes "c_parseStandard c (cjs_schedule (cj_spec cj)) = Inr Next" "\<forall>t. t < Next t" "earliest_time cj tnow \<le> tnow"
  shows "\<exists>n. (Next ^^ n) (earliest_time cj tnow) \<le> tnow \<and> tnow < (Next ^^ Suc n) (earliest_time cj tnow) \<and>
    (n = 0 \<longrightarrow> getNextSchedule c cj tnow = Inr (zero_time, Next tnow)) \<and>
    (0 < n \<and> n \<le> 100 \<longrightarrow> getNextSchedule c cj tnow = Inr ((Next ^^ n) (earliest_time cj tnow), Next tnow)) \<and>
    (100 < n \<longrightarrow> (\<exists>err. getNextSchedule c cj tnow = Inl err)) \<and>
    (\<forall>r. getNextScheduleForKeyRotation c cj tnow = Inr r \<longleftrightarrow> getNextSchedule c cj tnow = Inr r)"
proof -
  have grow: "\<And>t. t < Next t" using assms(2) by blast
  obtain n where n: "(Next ^^ n) (earliest_time cj tnow) \<le> tnow" "tnow < (Next ^^ Suc n) (earliest_time cj tnow)"
    by (rule last_iterate [OF grow assms(3)])
  note spec = nextSchedule_iterates [OF assms(1) grow n]
  show ?thesis
    by (rule exI [of _ n]) (simp add: getNextSchedule_def getNextScheduleForKeyRotation_def spec n del: funpow.simps)
qed

theorem next_schedule_is_last_missed_witness: "getNextSchedule cx_cenv cx_cron (700 * second) = Inr (600 * second, 900 * second)"
proof -
  have e: "earliest_time cx_cron (700 * second) = 0" by code_simp
  obtain n where n: "(every5 ^^ n) 0 \<le> 700 * second" "700 * second < (every5 ^^ Suc n) 0"
    and res: "0 < n \<and> n \<le> 100 \<longrightarrow> getNextSchedule cx_cenv cx_cron (700 * second) = Inr ((every5 ^^ n) 0, every5 (700 * second))"
    using next_schedule_is_last_missed [of cx_cenv cx_cron every5 "700 * second"] e by (auto simp: cx_cenv_def every5_next)
  have it: "(every5 ^^ i) 0 = int i * (300 * second)" for i
    by (induction i) (simp_all add: every5_def algebra_simps)
  from n have "n = 2" unfolding it by simp
  with res it show ?thesis by (simp add: every5_def)
qed

section \<open>History\<close>

text \<open>Pruning deletes the jobs beyond the history limit, keeps as many as the limit allows, and never
  deletes a job that was started after one it keeps.\<close>

theorem history_limit_kept:
  assumes "0 \<le> limit" "limit < 2 ^ 31" "length jobs < 2 ^ 31"
    and "mset (c_sortSlice c started_before jobs) = mset jobs"
    and "sorted_wrt (\<lambda>a b. \<not> started_before b a) (c_sortSlice c started_before jobs)"
    and "run_state (deleteOldJobs c jobs limit) w = (r, w')"
  shows "\<exists>old kept. trace w' = trace w @ map (\<lambda>job. ApiDelete (O_RSJob job)) old \<and> mset old + mset kept = mset jobs \<and>
    length kept = min (nat limit) (length jobs) \<and> (\<forall>x \<in> set old. \<forall>y \<in> set kept. \<not> started_before y x)"
proof -
  let ?s = "c_sortSlice c started_before jobs"
  have len: "length ?s = length jobs" using assms(4) by (metis size_mset)
  define n where "n = length jobs - nat limit"
  have "trace w' = trace w @ map (\<lambda>job. ApiDelete (O_RSJob job)) (take n ?s)"
    using deleteOld_loop_run [of 0 ?s "length ?s" limit "rs_cron c" w] assms(1-3,6) len
    by (auto simp: deleteOldJobs_def deleteOld_def Let_def rs_cron_def n_def)
  moreover have "mset (take n ?s) + mset (drop n ?s) = mset jobs"
    using assms(4) by (metis append_take_drop_id mset_append)
  moreover have "length (drop n ?s) = min (nat limit) (length jobs)" by (simp add: len n_def)
  moreover have "\<forall>x \<in> set (take n ?s). \<forall>y \<in> set (drop n ?s). \<not> started_before y x"
    using assms(5) by (metis append_take_drop_id sorted_wrt_append)
  ultimately show ?thesis by blast
qed

theorem history_limit_kept_witness:
  "\<exists>old kept. mset old + mset kept = mset cx_jobs \<and> length kept = 1"
proof -
  let ?r = "run_state (deleteOldJobs cx_cenv cx_jobs 1) cx_world"
  have sorted: "c_sortSlice cx_cenv started_before cx_jobs = rev cx_jobs" by code_simp
  have order: "sorted_wrt (\<lambda>a b. \<not> started_before b a) (rev cx_jobs)" by code_simp
  have len: "length cx_jobs = 2" by (simp add: cx_jobs_def)
  have "\<exists>old kept. trace (snd ?r) = trace cx_world @ map (\<lambda>job. ApiDelete (O_RSJob job)) old \<and>
      mset old + mset kept = mset cx_jobs \<and> length kept = min (nat 1) (length cx_jobs) \<and>
      (\<forall>x \<in> set old. \<forall>y \<in> set kept. \<not> started_before y x)"
    by (rule history_limit_kept [OF _ _ _ _ _ surjective_pairing]) (use order in \<open>simp_all only: sorted len, simp_all\<close>)
  then show ?thesis by (auto simp: len)
qed

section \<open>The policy Replace\<close>



end
