(* ===== verification/Group_Content.thy ===== *)
theory Group_Content
  imports Volume_Replication
begin

text \<open>
  The controller of volume groups,
  \<open>internal/controller/replication.storage/volumegroupreplicationcontent_controller.go\<close>, and the gRPC
  client it uses, \<open>internal/client/volumegroup-client.go\<close>: it groups the volumes listed in a
  \<open>VolumeGroupReplicationContent\<close>, follows changes of the list, and takes the group apart when the
  content is deleted.
\<close>

section \<open>The client of volume groups\<close>

text \<open>
  What this controller and the one of \<open>VolumeGroupReplication\<close> call beyond the common environment.
  A response without a group is the answer with empty fields, as the getters of the protocol read it.
\<close>

record genv =
  g_rpcCreate :: "(group_req, volume_group) rpc_answer"
  g_rpcModify :: "(group_req, unit) rpc_answer"
  g_rpcDelete :: "(group_req, unit) rpc_answer"
  g_rpcGet :: "(group_req, volume_group) rpc_answer"
  g_listPV :: "(unit, pv list) answer"

definition genv0 :: genv where
  "genv0 = \<lparr>g_rpcCreate = (\<lambda>_ _ _. Inl unavailable), g_rpcModify = (\<lambda>_ _ _. Inl unavailable),
     g_rpcDelete = (\<lambda>_ _ _. Inl unavailable), g_rpcGet = (\<lambda>_ _ _. Inl unavailable), g_listPV = (\<lambda>_ _. Inr [])\<rparr>"

definition CreateVolumeGroup ::
  "genv \<Rightarrow> grpc_client option \<Rightarrow> string \<Rightarrow> string list \<Rightarrow> string \<Rightarrow> string \<Rightarrow> strmap \<Rightarrow> (goerr + volume_group) prog" where
  "CreateVolumeGroup g cl volumeGroupName volumeIDs secretName secretNamespace parameters =
     (let req = \<lparr>gq_id = volumeGroupName, gq_volumeIds = volumeIDs, gq_parameters = parameters, gq_secretName = secretName,
            gq_secretNamespace = secretNamespace\<rparr>
      in call (\<lambda>h. g_rpcCreate g h cl req) (Rpc cl (RpcCreateVolumeGroup req)))"

definition ModifyVolumeGroupMembership ::
  "genv \<Rightarrow> grpc_client option \<Rightarrow> string \<Rightarrow> string list \<Rightarrow> string \<Rightarrow> string \<Rightarrow> strmap \<Rightarrow> (goerr + unit) prog" where
  "ModifyVolumeGroupMembership g cl volumeGroupID volumeIDs secretName secretNamespace parameters =
     (let req = \<lparr>gq_id = volumeGroupID, gq_volumeIds = volumeIDs, gq_parameters = parameters, gq_secretName = secretName,
            gq_secretNamespace = secretNamespace\<rparr>
      in call (\<lambda>h. g_rpcModify g h cl req) (Rpc cl (RpcModifyVolumeGroupMembership req)))"

definition DeleteVolumeGroup :: "genv \<Rightarrow> grpc_client option \<Rightarrow> string \<Rightarrow> string \<Rightarrow> string \<Rightarrow> (goerr + unit) prog" where
  "DeleteVolumeGroup g cl volumeGroupID secretName secretNamespace =
     (let req = \<lparr>gq_id = volumeGroupID, gq_volumeIds = [], gq_parameters = [], gq_secretName = secretName,
            gq_secretNamespace = secretNamespace\<rparr>
      in call (\<lambda>h. g_rpcDelete g h cl req) (Rpc cl (RpcDeleteVolumeGroup req)))"

definition ControllerGetVolumeGroup :: "genv \<Rightarrow> grpc_client option \<Rightarrow> string \<Rightarrow> string \<Rightarrow> string \<Rightarrow> (goerr + volume_group) prog" where
  "ControllerGetVolumeGroup g cl volumeGroupID secretName secretNamespace =
     (let req = \<lparr>gq_id = volumeGroupID, gq_volumeIds = [], gq_parameters = [], gq_secretName = secretName,
            gq_secretNamespace = secretNamespace\<rparr>
      in call (\<lambda>h. g_rpcGet g h cl req) (Rpc cl (RpcControllerGetVolumeGroup req)))"

definition getVolumeGroupClient :: "env \<Rightarrow> string \<Rightarrow> grpc_client option gores prog" where
  "getVolumeGroupClient e driverName = do {
     c \<leftarrow> GetLeaderByDriver e driverName;
     ret (case c of
        GoPanic m \<Rightarrow> GoPanic m
      | GoErr err \<Rightarrow> GoErr (ErrMsg (''no leader for the ControllerService of driver '' @ fmt_q driverName))
      | GoOk conn \<Rightarrow>
          if CapVolumeGroup VOLUME_GROUP \<in> set (cn_Capabilities conn) then GoOk (cn_Client conn)
          else GoErr (ErrMsg (''leading CSIAddonsNode '' @ fmt_q (cn_Name conn) @ '' for driver '' @
                 fmt_q driverName @ '' does not support VolumeGroup'')))
   }"

section \<open>Ownership\<close>

definition annotateVolumeGroupReplicationWithVGRContentOwner ::
  "env \<Rightarrow> string \<Rightarrow> volume_group_replication \<Rightarrow> (volume_group_replication \<times> goerr option) prog" where
  "annotateVolumeGroupReplicationWithVGRContentOwner e reqOwnerName vgr =
     (let annotations = om_annotations (vgr_meta vgr);
          currentOwnerName = mget annotations VolumeGroupReplicationContentNameAnnotation in
      if currentOwnerName = [] then do {
        let vgr = vgr_set_annotations (AList.update VolumeGroupReplicationContentNameAnnotation reqOwnerName annotations) vgr;
        r \<leftarrow> Update_VGR e vgr;
        ret (after_update vgr (''failed to update VGR '' @ fmt_q (om_name (vgr_meta vgr)) @
          '' annotation for VolumeGroupReplicationContent: '') r)
      }
      else if currentOwnerName \<noteq> reqOwnerName
      then ret (vgr, Some (ErrMsg (''VGRContent '' @ fmt_q reqOwnerName @
             '' not owned by correct VolumeGroupReplication '' @ fmt_q (om_name (vgr_meta vgr)))))
      else ret (vgr, None))"

definition removeVGRContentOwnerFromVGRAnnotation ::
  "env \<Rightarrow> volume_group_replication \<Rightarrow> (volume_group_replication \<times> goerr option) prog" where
  "removeVGRContentOwnerFromVGRAnnotation e vgr =
     (let annotations = om_annotations (vgr_meta vgr) in
      if map_of annotations VolumeGroupReplicationContentNameAnnotation \<noteq> None then do {
        let vgr = vgr_set_annotations (AList.delete VolumeGroupReplicationContentNameAnnotation annotations) vgr;
        r \<leftarrow> Update_VGR e vgr;
        ret (after_update vgr (''failed to remove annotation '' @ fmt_q VolumeGroupReplicationContentNameAnnotation @
          '' from VolumeGroupReplication '' @ fmt_q (om_name (vgr_meta vgr)) @ '' '') r)
      } else ret (vgr, None))"

section \<open>Reconcile\<close>

record group_access =
  ga_client :: "grpc_client option"
  ga_secretName :: string
  ga_secretNamespace :: string
  ga_parameters :: strmap

definition StatusUpdate_VGRContent :: "env \<Rightarrow> vgr_content \<Rightarrow> (goerr + vgr_content) prog" where
  "StatusUpdate_VGRContent e c = call (\<lambda>h. e_statusVGRContent e h c) (ApiStatusUpdate (O_VGRContent c))"

definition pv_refs :: "string list \<Rightarrow> pv list \<Rightarrow> string list" where
  "pv_refs volumeHandles pvs =
     map pv_name (filter (\<lambda>v. case pv_csi v of None \<Rightarrow> False | Some csi \<Rightarrow> csi_volumeHandle csi \<in> set volumeHandles) pvs)"

definition VGRC_report :: "env \<Rightarrow> genv \<Rightarrow> vgr_content \<Rightarrow> outcome prog" where
  "VGRC_report e g c = do {
     lr \<leftarrow> call (\<lambda>h. g_listPV g h ()) (ApiList ''PersistentVolume'' []);
     (case lr of
        Inl err \<Rightarrow> ret (done_err err)
      | Inr pvs \<Rightarrow> do {
          st \<leftarrow> StatusUpdate_VGRContent e (c\<lparr>vgrc_pvRefList := pv_refs (vgcs_volumeHandles (vgrc_spec c)) pvs\<rparr>);
          (case st of Inl err \<Rightarrow> ret (done_err err) | Inr _ \<Rightarrow> ret done_ok)
        })
   }"

definition VGRC_group :: "env \<Rightarrow> genv \<Rightarrow> group_access \<Rightarrow> string \<Rightarrow> vgr_content \<Rightarrow> outcome prog" where
  "VGRC_group e g ga groupID c =
     (if groupID = [] then do {
        r \<leftarrow> CreateVolumeGroup g (ga_client ga) (om_name (vgrc_meta c)) (vgcs_volumeHandles (vgrc_spec c))
               (ga_secretName ga) (ga_secretNamespace ga) (ga_parameters ga);
        (case r of
           Inl err \<Rightarrow> ret (done_err err)
         | Inr vg \<Rightarrow> do {
             ur \<leftarrow> Update_VGRContent e (c\<lparr>vgrc_spec := (vgrc_spec c)\<lparr>vgcs_attributes := vg_context vg, vgcs_handle := vg_id vg\<rparr>\<rparr>);
             (case ur of Inl err \<Rightarrow> ret (done_err err) | Inr c \<Rightarrow> VGRC_report e g c)
           })
      }
      else do {
        r \<leftarrow> ModifyVolumeGroupMembership g (ga_client ga) groupID (vgcs_volumeHandles (vgrc_spec c))
               (ga_secretName ga) (ga_secretNamespace ga) (ga_parameters ga);
        (case r of Inl err \<Rightarrow> ret (done_err err) | Inr _ \<Rightarrow> VGRC_report e g c)
      })"

definition VGRC_release :: "env \<Rightarrow> vgr_content \<Rightarrow> volume_group_replication \<Rightarrow> outcome prog" where
  "VGRC_release e c vgr = do {
     (vgr, err) \<leftarrow> removeVGRContentOwnerFromVGRAnnotation e vgr;
     (case err of
        Some er \<Rightarrow> ret (done_err er)
      | None \<Rightarrow> do {
          (c, err) \<leftarrow> removeFinalizerFromVGRContent e c vgrReplicationFinalizer;
          (case err of Some er \<Rightarrow> ret (done_err er) | None \<Rightarrow> ret done_ok)
        })
   }"

definition VGRC_ungroup :: "env \<Rightarrow> genv \<Rightarrow> group_access \<Rightarrow> string \<Rightarrow> vgr_content \<Rightarrow> goerr option prog" where
  "VGRC_ungroup e g ga groupID c = do {
     err \<leftarrow> (if vgcs_volumeHandles (vgrc_spec c) \<noteq> [] then do {
              r \<leftarrow> ModifyVolumeGroupMembership g (ga_client ga) groupID [] (ga_secretName ga) (ga_secretNamespace ga) (ga_parameters ga);
              ret (case r of Inl er \<Rightarrow> if status_Code er \<noteq> C_NotFound then Some er else None | Inr _ \<Rightarrow> None)
            } else ret None);
     (case err of
        Some er \<Rightarrow> ret (Some er)
      | None \<Rightarrow> do {
          r \<leftarrow> DeleteVolumeGroup g (ga_client ga) groupID (ga_secretName ga) (ga_secretNamespace ga);
          ret (case r of Inl er \<Rightarrow> Some er | Inr _ \<Rightarrow> None)
        })
   }"

definition VGRC_delete ::
  "env \<Rightarrow> genv \<Rightarrow> group_access \<Rightarrow> string \<Rightarrow> vgr_content \<Rightarrow> volume_group_replication \<Rightarrow> outcome prog" where
  "VGRC_delete e g ga groupID c vgr =
     (if om_deletionTimestamp (vgr_meta vgr) = None then ret done_ok
      else if volumeReplicationFinalizer \<notin> set (om_finalizers (vgrc_meta c)) then do {
        err \<leftarrow> (if groupID \<noteq> [] then VGRC_ungroup e g ga groupID c else ret None);
        (case err of Some er \<Rightarrow> ret (done_err er) | None \<Rightarrow> VGRC_release e c vgr)
      }
      else ret (done_err (ErrMsg (''cannot delete VolumeGroupReplicationContent resource, '' @
             ''until dependent VolumeReplication instance is deleted''))))"

definition VGRC_dispatch :: "env \<Rightarrow> genv \<Rightarrow> group_access \<Rightarrow> nsname \<Rightarrow> vgr_content \<Rightarrow> volume_group_replication \<Rightarrow> outcome prog" where
  "VGRC_dispatch e g ga req c vgr =
     (let groupID = vgcs_handle (vgrc_spec c) in
      if om_deletionTimestamp (vgrc_meta c) = None then do {
        (vgr, err) \<leftarrow> annotateVolumeGroupReplicationWithVGRContentOwner e (nn_name req) vgr;
        (case err of
           Some er \<Rightarrow> ret (done_err er)
         | None \<Rightarrow> do {
             (c, err) \<leftarrow> addFinalizerToVGRContent e c vgrReplicationFinalizer;
             (case err of Some er \<Rightarrow> ret (done_err er) | None \<Rightarrow> VGRC_group e g ga groupID c)
           })
      }
      else VGRC_delete e g ga groupID c vgr)"

definition VGRC_Reconcile :: "env \<Rightarrow> genv \<Rightarrow> nsname \<Rightarrow> outcome prog" where
  "VGRC_Reconcile e g req = do {
     r \<leftarrow> Get_VGRContent e req;
     (case r of
        Inl err \<Rightarrow> if IsNotFound err then ret done_ok else ret (done_err err)
      | Inr c \<Rightarrow> do {
          cr \<leftarrow> getVolumeGroupClient e (vgcs_provisioner (vgrc_spec c));
          (case cr of
             GoErr err \<Rightarrow> ret (done_err err)
           | GoPanic m \<Rightarrow> ret (Panicked m)
           | GoOk cl \<Rightarrow> do {
               kr \<leftarrow> Get_VGRClass e \<lparr>nn_namespace = [], nn_name = vgcs_className (vgrc_spec c)\<rparr>;
               (case kr of
                  Inl err \<Rightarrow> ret (done_err err)
                | Inr vgrClass \<Rightarrow>
                    (let ga = \<lparr>ga_client = cl, ga_secretName = mget (rc_parameters vgrClass) prefixedGroupReplicationSecretNameKey,
                           ga_secretNamespace = mget (rc_parameters vgrClass) prefixedGroupReplicationSecretNamespaceKey,
                           ga_parameters = filterPrefixedParameters replicationParameterPrefix (rc_parameters vgrClass)\<rparr> in
                     (case vgcs_ref (vgrc_spec c) of
                        None \<Rightarrow> ret done_ok
                      | Some nn \<Rightarrow> do {
                          vr \<leftarrow> Get_VGR e nn;
                          (case vr of Inl err \<Rightarrow> ret (done_err err) | Inr vgr \<Rightarrow> VGRC_dispatch e g ga req c vgr)
                        })))
             })
        })
   }"

end
