(* ===== verification/Volume_Group_Replication.thy ===== *)
theory Volume_Group_Replication
  imports Group_Content Owners "HOL-Library.Char_ord" "HOL-Library.List_Lexorder"
begin

text \<open>
  The controller of \<open>VolumeGroupReplication\<close>,
  \<open>internal/controller/replication.storage/volumegroupreplication_controller.go\<close>: it collects the claims
  its selector matches, owns them, and keeps one \<open>VolumeGroupReplicationContent\<close> and one
  \<open>VolumeReplication\<close> for the group. Events recorded on claims are not modelled. The visiting order of
  the map of old claims and the reading of label selectors are parameters.
\<close>

section \<open>The environment of the group controller\<close>

record genv_vgr = genv +
  g_labelSelector :: "string \<Rightarrow> goerr + string"
  g_listPVC :: "(string \<times> string, pvc list) answer"
  g_createContent :: "(vgr_content, vgr_content) answer"
  g_deleteContent :: "(vgr_content, unit) answer"
  g_createVR :: "(volume_replication, volume_replication) answer"
  g_deleteVR :: "(volume_replication, unit) answer"
  g_rangeOrder :: "string list \<Rightarrow> string list"
  g_gvkVGR :: "goerr + gvk"

definition StatusUpdate_VGR :: "env \<Rightarrow> volume_group_replication \<Rightarrow> (goerr + volume_group_replication) prog" where
  "StatusUpdate_VGR e vgr = call (\<lambda>h. e_statusVGR e h vgr) (ApiStatusUpdate (O_VGR vgr))"
definition Create_VGRContent :: "genv_vgr \<Rightarrow> vgr_content \<Rightarrow> (goerr + vgr_content) prog" where
  "Create_VGRContent g c = call (\<lambda>h. g_createContent g h c) (ApiCreate (O_VGRContent c))"
definition Delete_VGRContent :: "genv_vgr \<Rightarrow> vgr_content \<Rightarrow> (goerr + unit) prog" where
  "Delete_VGRContent g c = call (\<lambda>h. g_deleteContent g h c) (ApiDelete (O_VGRContent c))"
definition Create_VR :: "genv_vgr \<Rightarrow> volume_replication \<Rightarrow> (goerr + volume_replication) prog" where
  "Create_VR g vr = call (\<lambda>h. g_createVR g h vr) (ApiCreate (O_VR vr))"
definition Delete_VR :: "genv_vgr \<Rightarrow> volume_replication \<Rightarrow> (goerr + unit) prog" where
  "Delete_VR g vr = call (\<lambda>h. g_deleteVR g h vr) (ApiDelete (O_VR vr))"

definition volumeGroupReplicationRef :: string where
  "volumeGroupReplicationRef = ''replication.storage.openshift.io/volumegroupref''"
definition pvcSelector :: string where
  "pvcSelector = ''pvcSelector''"
definition annDynamicallyProvisioned :: string where
  "annDynamicallyProvisioned = ''replication.storage.openshift.io/provisioned-by''"

text \<open>\<open>controllerutil.CreateOrUpdate\<close> of the vendored package; the mutation is a function of the object.\<close>

definition CreateOrUpdate ::
  "('o \<Rightarrow> nsname) \<Rightarrow> (nsname \<Rightarrow> (goerr + 'o) prog) \<Rightarrow> ('o \<Rightarrow> (goerr + 'o) prog) \<Rightarrow> ('o \<Rightarrow> (goerr + 'o) prog) \<Rightarrow>
   ('o \<Rightarrow> goerr + 'o) \<Rightarrow> 'o \<Rightarrow> ('o \<times> goerr option) prog" where
  "CreateOrUpdate key get create update f obj = do {
     let mutate = (\<lambda>x. case f x of
           Inl err \<Rightarrow> Inl err
         | Inr y \<Rightarrow> if key y \<noteq> key obj then Inl (ErrMsg ''MutateFn cannot mutate object name and/or object namespace'') else Inr y);
     r \<leftarrow> get (key obj);
     (case r of
        Inl err \<Rightarrow>
          if \<not> IsNotFound err then ret (obj, Some err)
          else
            (case mutate obj of
               Inl er \<Rightarrow> ret (obj, Some er)
             | Inr new \<Rightarrow> do {
                 c \<leftarrow> create new;
                 (case c of Inl er \<Rightarrow> ret (new, Some er) | Inr stored \<Rightarrow> ret (stored, None))
               })
      | Inr existing \<Rightarrow>
          (case mutate existing of
             Inl er \<Rightarrow> ret (existing, Some er)
           | Inr new \<Rightarrow>
               if new = existing then ret (new, None)
               else do {
                 u \<leftarrow> update new;
                 (case u of Inl er \<Rightarrow> ret (new, Some er) | Inr stored \<Rightarrow> ret (stored, None))
               }))
   }"

definition SetMetaDataAnnotation :: "object_meta \<Rightarrow> string \<Rightarrow> string \<Rightarrow> object_meta" where
  "SetMetaDataAnnotation m k v = m\<lparr>om_annotations := AList.update k v (om_annotations m)\<rparr>"

definition SetOwnerReference :: "goerr + gvk \<Rightarrow> object_meta \<Rightarrow> object_meta \<Rightarrow> goerr + object_meta" where
  "SetOwnerReference scheme owner obj =
     (case validateOwner owner obj of
        Some err \<Rightarrow> Inl err
      | None \<Rightarrow>
          (case scheme of
             Inl err \<Rightarrow> Inl err
           | Inr g \<Rightarrow>
               Inr (obj\<lparr>om_ownerReferences := upsertOwnerRef ((owner_ref_to g owner)\<lparr>or_controller := False\<rparr>) (om_ownerReferences obj)\<rparr>)))"

section \<open>Failures\<close>

abbreviation on_group_status :: "(vr_status \<Rightarrow> vr_status) \<Rightarrow> volume_group_replication \<Rightarrow> volume_group_replication" where
  "on_group_status f vgr \<equiv>
     vgr\<lparr>vgr_status := (vgr_status vgr)\<lparr>vgst_replication := f (vgst_replication (vgr_status vgr))\<rparr>\<rparr>"

definition setGroupReplicationFailure ::
  "env \<Rightarrow> volume_group_replication \<Rightarrow> goerr \<Rightarrow> (volume_group_replication \<times> goerr option) prog" where
  "setGroupReplicationFailure e vgr err = do {
     let vgr = on_group_status (\<lambda>s. s\<lparr>vst_state := GetCurrentReplicationState (vst_state s), vst_message := GetMessageFromError err,
           vst_observedGeneration := om_generation (vgr_meta vgr)\<rparr>) vgr;
     r \<leftarrow> StatusUpdate_VGR e vgr;
     (case r of Inl er \<Rightarrow> ret (vgr, Some er) | Inr vgr \<Rightarrow> ret (vgr, None))
   }"

definition group_failed :: "env \<Rightarrow> volume_group_replication \<Rightarrow> goerr \<Rightarrow> outcome prog" where
  "group_failed e vgr err = do { _ \<leftarrow> setGroupReplicationFailure e vgr err; ret (done_err err) }"

text \<open>\<open>%q\<close> of a count, which is between 1 and 100: a quoted character.\<close>

definition quote_rune :: "int \<Rightarrow> string" where
  "quote_rune d =
     (if 1 \<le> d \<and> d \<le> 127
      then [CHR 0x27] @ (if d = 39 then [CHR 0x5C, CHR 0x27] else if d = 34 then [CHR 0x22] else quote_char (char_of (nat d))) @ [CHR 0x27]
      else fmt_q_int d)"

section \<open>The claims of a group\<close>

definition removable :: "pvc \<Rightarrow> bool" where
  "removable p \<longleftrightarrow> om_deletionTimestamp (pvc_meta p) \<noteq> None \<and> vgrReplicationFinalizer \<notin> set (om_finalizers (pvc_meta p))"

definition withoutDeleting :: "pvc list \<Rightarrow> pvc list" where
  "withoutDeleting items =
     (let removeDeletingPVC = filter removable items
      in if removeDeletingPVC \<noteq> []
         then filter (\<lambda>p. om_name (pvc_meta p) \<notin> (\<lambda>q. om_name (pvc_meta q)) ` set removeDeletingPVC) items
         else items)"

definition getMatchingPVCsFromSource ::
  "genv_vgr \<Rightarrow> volume_group_replication \<Rightarrow> (goerr + pvc list \<times> string) prog" where
  "getMatchingPVCsFromSource g vgr =
     (case g_labelSelector g (vgs_selector (vgr_spec vgr)) of
        Inl err \<Rightarrow> ret (Inl err)
      | Inr selector \<Rightarrow> do {
          let ns = om_namespace (vgr_meta vgr);
          r \<leftarrow> call (\<lambda>h. g_listPVC g h (ns, selector)) (ApiList ''PersistentVolumeClaim'' ns);
          (case r of
             Inl err \<Rightarrow> ret (Inl err)
           | Inr items \<Rightarrow> ret (Inr (withoutDeleting items, selector)))
        })"

fun getPVHandles_loop :: "env \<Rightarrow> replication_class \<Rightarrow> string list \<Rightarrow> pvc list \<Rightarrow> (goerr + string list) prog" where
  "getPVHandles_loop e vgrClass acc [] = ret (Inr acc)"
| "getPVHandles_loop e vgrClass acc (p # ps) = do {
     r \<leftarrow> Get_PV e \<lparr>nn_namespace = [], nn_name = pvc_volumeName p\<rparr>;
     (case r of
        Inl err \<Rightarrow> ret (Inl err)
      | Inr v \<Rightarrow>
          (case pv_csi v of
             None \<Rightarrow> ret (Inl (ErrMsg (''pvc '' @ om_name (pvc_meta p) @ '' is not bound to a CSI PV'')))
           | Some csi \<Rightarrow>
               if csi_driver csi \<noteq> rc_provisioner vgrClass
               then ret (Inl (ErrMsg (''driver ('' @ om_name (pvc_meta p) @ '') of PV for PVC '' @ csi_driver csi @
                      '' is different than the VolumeGroupReplicationClass driver ('' @ rc_provisioner vgrClass @ '')'')))
               else getPVHandles_loop e vgrClass (acc @ [csi_volumeHandle csi]) ps))
   }"

definition getPVHandles :: "env \<Rightarrow> replication_class \<Rightarrow> pvc list \<Rightarrow> (goerr + string list) prog" where
  "getPVHandles e vgrClass pvcList = do {
     r \<leftarrow> getPVHandles_loop e vgrClass [] pvcList;
     ret (case r of Inl err \<Rightarrow> Inl err | Inr handles \<Rightarrow> Inr (sort handles))
   }"

fun getPVCs_loop :: "env \<Rightarrow> string \<Rightarrow> pvc list \<Rightarrow> string list \<Rightarrow> (goerr + pvc list) prog" where
  "getPVCs_loop e ns acc [] = ret (Inr acc)"
| "getPVCs_loop e ns acc (name # names) = do {
     r \<leftarrow> Get_PVC e \<lparr>nn_namespace = ns, nn_name = name\<rparr>;
     (case r of Inl err \<Rightarrow> ret (Inl err) | Inr p \<Rightarrow> getPVCs_loop e ns (acc @ [p]) names)
   }"

fun own_claims :: "env \<Rightarrow> string \<Rightarrow> pvc list \<Rightarrow> goerr option prog" where
  "own_claims e vgrName [] = ret None"
| "own_claims e vgrName (p # ps) = do {
     (p, err) \<leftarrow> annotatePVCWithOwner e vgrName p VolumeGroupReplicationNameAnnotation;
     (case err of
        Some er \<Rightarrow> ret (Some er)
      | None \<Rightarrow> do {
          (p, err) \<leftarrow> addFinalizerToPVC e p vgrReplicationFinalizer;
          (case err of Some er \<Rightarrow> ret (Some er) | None \<Rightarrow> own_claims e vgrName ps)
        })
   }"

definition disown :: "env \<Rightarrow> pvc \<Rightarrow> goerr option prog" where
  "disown e p = do {
     (p, err) \<leftarrow> removeOwnerFromPVCAnnotation e p VolumeGroupReplicationNameAnnotation;
     (case err of
        Some er \<Rightarrow> ret (Some er)
      | None \<Rightarrow> do { (p, err) \<leftarrow> removeFinalizerFromPVC e p vgrReplicationFinalizer; ret err })
   }"

fun disown_claims :: "env \<Rightarrow> pvc list \<Rightarrow> goerr option prog" where
  "disown_claims e [] = ret None"
| "disown_claims e (p # ps) = do {
     err \<leftarrow> disown e p;
     (case err of Some er \<Rightarrow> ret (Some er) | None \<Rightarrow> disown_claims e ps)
   }"

definition ref_list :: "volume_group_replication \<Rightarrow> string list" where
  "ref_list vgr = (case vgst_pvcRefList (vgr_status vgr) of None \<Rightarrow> [] | Some xs \<Rightarrow> xs)"

definition updateFinalizerAndAnnotationOnPVCs ::
  "env \<Rightarrow> genv_vgr \<Rightarrow> volume_group_replication \<Rightarrow> pvc list \<Rightarrow> (goerr + string list) prog" where
  "updateFinalizerAndAnnotationOnPVCs e g vgr pvcList = do {
     let oldPVCs = remdups (ref_list vgr);
     let pvcRefList = map (\<lambda>p. om_name (pvc_meta p)) pvcList;
     let toAddPVCs = filter (\<lambda>p. om_name (pvc_meta p) \<notin> set oldPVCs) pvcList;
     gr \<leftarrow> getPVCs_loop e (om_namespace (vgr_meta vgr)) [] (filter (\<lambda>n. n \<notin> set pvcRefList) (g_rangeOrder g oldPVCs));
     (case gr of
        Inl err \<Rightarrow> ret (Inl err)
      | Inr toRemovePVCs \<Rightarrow> do {
          err \<leftarrow> own_claims e (om_name (vgr_meta vgr)) toAddPVCs;
          (case err of
             Some er \<Rightarrow> ret (Inl er)
           | None \<Rightarrow> do {
               err \<leftarrow> disown_claims e toRemovePVCs;
               (case err of Some er \<Rightarrow> ret (Inl er) | None \<Rightarrow> ret (Inr pvcRefList))
             })
        })
   }"

fun cleanupGroupPVC_loop :: "env \<Rightarrow> string \<Rightarrow> string list \<Rightarrow> goerr option prog" where
  "cleanupGroupPVC_loop e ns [] = ret None"
| "cleanupGroupPVC_loop e ns (name # names) = do {
     r \<leftarrow> Get_PVC e \<lparr>nn_namespace = ns, nn_name = name\<rparr>;
     (case r of
        Inl err \<Rightarrow> ret (Some err)
      | Inr p \<Rightarrow> do {
          err \<leftarrow> disown e p;
          (case err of Some er \<Rightarrow> ret (Some er) | None \<Rightarrow> cleanupGroupPVC_loop e ns names)
        })
   }"

definition cleanupGroupPVC :: "env \<Rightarrow> volume_group_replication \<Rightarrow> goerr option prog" where
  "cleanupGroupPVC e vgr = cleanupGroupPVC_loop e (om_namespace (vgr_meta vgr)) (ref_list vgr)"

section \<open>Dependent resources\<close>

definition vgr_ref :: "volume_group_replication \<Rightarrow> string" where
  "vgr_ref vgr = om_namespace (vgr_meta vgr) @ ''/'' @ om_name (vgr_meta vgr)"

definition vgr_key :: "volume_group_replication \<Rightarrow> nsname" where
  "vgr_key vgr = \<lparr>nn_namespace = om_namespace (vgr_meta vgr), nn_name = om_name (vgr_meta vgr)\<rparr>"

definition meta_key :: "object_meta \<Rightarrow> nsname" where
  "meta_key m = \<lparr>nn_namespace = om_namespace m, nn_name = om_name m\<rparr>"

definition mutate_content ::
  "volume_group_replication \<Rightarrow> string \<Rightarrow> string list \<Rightarrow> vgr_content \<Rightarrow> goerr + vgr_content" where
  "mutate_content vgr driver pvHandlesList c =
     (if vgs_volumeGroupReplicationContentName (vgr_spec vgr) \<noteq> [] \<and> om_creationTimestamp (vgrc_meta c) = None
      then Inl (ErrMsg ''dependent VGRContent resource is not yet created, waiting for it to be created'')
      else if om_creationTimestamp (vgrc_meta c) = None
      then Inr (c\<lparr>vgrc_meta := SetMetaDataAnnotation (vgrc_meta c) volumeGroupReplicationRef (vgr_ref vgr),
             vgrc_spec := \<lparr>vgcs_ref = Some (vgr_key vgr), vgcs_handle = [], vgcs_provisioner = driver,
               vgcs_className = vgs_volumeGroupReplicationClassName (vgr_spec vgr), vgcs_attributes = [],
               vgcs_volumeHandles = pvHandlesList\<rparr>\<rparr>)
      else
        (let m = (if mget (om_annotations (vgrc_meta c)) volumeGroupReplicationRef \<noteq> vgr_ref vgr
                  then SetMetaDataAnnotation (vgrc_meta c) volumeGroupReplicationRef (vgr_ref vgr) else vgrc_meta c);
             m = SetMetaDataAnnotation m annDynamicallyProvisioned driver;
             spec = (if vgcs_ref (vgrc_spec c) = None then (vgrc_spec c)\<lparr>vgcs_ref := Some (vgr_key vgr)\<rparr> else vgrc_spec c)
         in Inr (c\<lparr>vgrc_meta := m, vgrc_spec := spec\<lparr>vgcs_volumeHandles := pvHandlesList\<rparr>\<rparr>)))"

definition createOrUpdateVolumeGroupReplicationContentCR ::
  "env \<Rightarrow> genv_vgr \<Rightarrow> volume_group_replication \<Rightarrow> vgr_content \<Rightarrow> string \<Rightarrow> string list \<Rightarrow> (vgr_content \<times> goerr option) prog" where
  "createOrUpdateVolumeGroupReplicationContentCR e g vgr vgrContentObj driver pvHandlesList =
     CreateOrUpdate (\<lambda>c. meta_key (vgrc_meta c)) (Get_VGRContent e) (Create_VGRContent g) (Update_VGRContent e)
       (mutate_content vgr driver pvHandlesList) vgrContentObj"

definition cleanupVGRContent :: "env \<Rightarrow> genv_vgr \<Rightarrow> volume_group_replication \<Rightarrow> goerr option prog" where
  "cleanupVGRContent e g vgr = do {
     r \<leftarrow> Get_VGRContent e \<lparr>nn_namespace = [], nn_name = vgs_volumeGroupReplicationContentName (vgr_spec vgr)\<rparr>;
     (case r of
        Inl err \<Rightarrow> if \<not> IsNotFound err then ret (Some err) else ret None
      | Inr c \<Rightarrow> do { d \<leftarrow> Delete_VGRContent g c; ret (case d of Inl er \<Rightarrow> Some er | Inr _ \<Rightarrow> None) })
   }"

definition mutate_VR :: "genv_vgr \<Rightarrow> volume_group_replication \<Rightarrow> volume_replication \<Rightarrow> goerr + volume_replication" where
  "mutate_VR g vgr vr =
     (let vr = (if om_creationTimestamp (vr_meta vr) = None
                then vr\<lparr>vr_meta := (vr_meta vr)\<lparr>om_annotations := [(volumeGroupReplicationRef, vgr_ref vgr)]\<rparr>,
                       vr_spec := \<lparr>vrs_volumeReplicationClass = vgs_volumeReplicationClassName (vgr_spec vgr),
                         vrs_replicationState = OtherReplicationState [],
                         vrs_dataSource = \<lparr>ds_kind = vgr_kind vgr, ds_name = om_name (vgr_meta vgr)\<rparr>,
                         vrs_autoResync = False, vrs_replicationHandle = []\<rparr>\<rparr>
                else vr);
          vr = vr\<lparr>vr_spec := (vr_spec vr)\<lparr>vrs_autoResync := vgs_autoResync (vgr_spec vgr),
                 vrs_replicationState := vgs_replicationState (vgr_spec vgr)\<rparr>\<rparr>
      in (case SetOwnerReference (g_gvkVGR g) (vgr_meta vgr) (vr_meta vr) of
            Inl err \<Rightarrow> Inl err
          | Inr m \<Rightarrow> Inr (vr\<lparr>vr_meta := m\<rparr>)))"

definition createOrUpdateVolumeReplicationCR ::
  "env \<Rightarrow> genv_vgr \<Rightarrow> volume_group_replication \<Rightarrow> volume_replication \<Rightarrow> (volume_replication \<times> goerr option) prog" where
  "createOrUpdateVolumeReplicationCR e g vgr vrObj =
     CreateOrUpdate (\<lambda>vr. meta_key (vr_meta vr)) (Get_VR e) (Create_VR g) (Update_VR e) (mutate_VR g vgr) vrObj"

definition cleanupVR :: "env \<Rightarrow> genv_vgr \<Rightarrow> volume_group_replication \<Rightarrow> goerr option prog" where
  "cleanupVR e g vgr = do {
     r \<leftarrow> Get_VR e \<lparr>nn_namespace = om_namespace (vgr_meta vgr), nn_name = vgs_volumeReplicationName (vgr_spec vgr)\<rparr>;
     (case r of
        Inl err \<Rightarrow> if \<not> IsNotFound err then ret (Some err) else ret None
      | Inr vr \<Rightarrow> do { d \<leftarrow> Delete_VR g vr; ret (case d of Inl er \<Rightarrow> Some er | Inr _ \<Rightarrow> None) })
   }"

section \<open>Reconcile\<close>

definition vr_status0 :: vr_status where
  "vr_status0 = \<lparr>vst_state = NoState, vst_message = [], vst_conditions = [], vst_observedGeneration = 0,
     vst_lastStartTime = None, vst_lastCompletionTime = None, vst_lastSyncTime = None, vst_lastSyncBytes = None,
     vst_lastSyncDuration = None\<rparr>"

text \<open>The objects declared before the two branches, named after the instance unless it names them.\<close>

definition content_of :: "volume_group_replication \<Rightarrow> replication_class \<Rightarrow> vgr_content" where
  "content_of vgr vgrClass =
     (let secretName = mget (rc_parameters vgrClass) prefixedGroupReplicationSecretNameKey;
          secretNamespace = mget (rc_parameters vgrClass) prefixedGroupReplicationSecretNamespaceKey;
          name = (if vgs_volumeGroupReplicationContentName (vgr_spec vgr) \<noteq> []
                  then vgs_volumeGroupReplicationContentName (vgr_spec vgr) else ''vgrcontent-'' @ om_uid (vgr_meta vgr));
          m = empty_meta name [];
          m = (if secretName \<noteq> [] \<and> secretNamespace \<noteq> []
               then SetMetaDataAnnotation (SetMetaDataAnnotation m prefixedGroupReplicationSecretNameKey secretName)
                      prefixedGroupReplicationSecretNamespaceKey secretNamespace else m)
      in \<lparr>vgrc_meta = m, vgrc_spec = \<lparr>vgcs_ref = None, vgcs_handle = [], vgcs_provisioner = [], vgcs_className = [],
           vgcs_attributes = [], vgcs_volumeHandles = []\<rparr>, vgrc_pvRefList = []\<rparr>)"

definition vr_of :: "volume_group_replication \<Rightarrow> volume_replication" where
  "vr_of vgr =
     (let name = (if vgs_volumeReplicationName (vgr_spec vgr) \<noteq> [] then vgs_volumeReplicationName (vgr_spec vgr)
                  else ''vr-'' @ om_uid (vgr_meta vgr))
      in \<lparr>vr_meta = empty_meta name (om_namespace (vgr_meta vgr)),
          vr_spec = \<lparr>vrs_volumeReplicationClass = [], vrs_replicationState = OtherReplicationState [],
            vrs_dataSource = \<lparr>ds_kind = [], ds_name = []\<rparr>, vrs_autoResync = False, vrs_replicationHandle = []\<rparr>,
          vr_status = vr_status0\<rparr>)"

definition group_status :: "volume_replication \<Rightarrow> volume_group_replication \<Rightarrow> volume_group_replication" where
  "group_status vr vgr =
     on_group_status (\<lambda>_. (vr_status vr)\<lparr>vst_observedGeneration := om_generation (vgr_meta vgr),
       vst_conditions := map (\<lambda>c. c\<lparr>cd_observedGeneration := om_generation (vgr_meta vgr)\<rparr>) (vst_conditions (vr_status vr))\<rparr>) vgr"

definition VGR_status :: "env \<Rightarrow> volume_group_replication \<Rightarrow> volume_replication \<Rightarrow> outcome prog" where
  "VGR_status e vgr vr = do {
     r \<leftarrow> StatusUpdate_VGR e (group_status vr vgr);
     (case r of Inl err \<Rightarrow> ret (done_err err) | Inr _ \<Rightarrow> ret done_ok)
   }"

definition VGR_replicate :: "env \<Rightarrow> genv_vgr \<Rightarrow> volume_group_replication \<Rightarrow> volume_replication \<Rightarrow> outcome prog" where
  "VGR_replicate e g vgr vrObj = do {
     (vr, err) \<leftarrow> createOrUpdateVolumeReplicationCR e g vgr vrObj;
     (case err of
        Some er \<Rightarrow> group_failed e vgr er
      | None \<Rightarrow>
          if vgs_volumeReplicationName (vgr_spec vgr) = [] then do {
            let vgr = vgr\<lparr>vgr_spec := (vgr_spec vgr)\<lparr>vgs_volumeReplicationName := om_name (vr_meta vr)\<rparr>\<rparr>;
            r \<leftarrow> Update_VGR e vgr;
            (case r of Inl er \<Rightarrow> group_failed e vgr er | Inr vgr \<Rightarrow> VGR_status e vgr vr)
          }
          else VGR_status e vgr vr)
   }"

definition VGR_content ::
  "env \<Rightarrow> genv_vgr \<Rightarrow> replication_class \<Rightarrow> volume_group_replication \<Rightarrow> vgr_content \<Rightarrow> volume_replication \<Rightarrow> pvc list \<Rightarrow> outcome prog" where
  "VGR_content e g vgrClass vgr contentObj vrObj pvcList = do {
     hr \<leftarrow> getPVHandles e vgrClass pvcList;
     (case hr of
        Inl err \<Rightarrow> group_failed e vgr err
      | Inr pvHandlesList \<Rightarrow> do {
          (c, err) \<leftarrow> createOrUpdateVolumeGroupReplicationContentCR e g vgr contentObj (rc_provisioner vgrClass) pvHandlesList;
          (case err of
             Some er \<Rightarrow> group_failed e vgr er
           | None \<Rightarrow> do {
               let named = (if vgs_volumeGroupReplicationContentName (vgr_spec vgr) = []
                     then vgr\<lparr>vgr_spec := (vgr_spec vgr)\<lparr>vgs_volumeGroupReplicationContentName := om_name (vgrc_meta c)\<rparr>\<rparr> else vgr);
               r \<leftarrow> (if vgs_volumeGroupReplicationContentName (vgr_spec vgr) = [] then Update_VGR e named else ret (Inr vgr));
               (case r of
                  Inl er \<Rightarrow> group_failed e named er
                | Inr vgr \<Rightarrow>
                    if vgcs_handle (vgrc_spec c) = [] then ret done_ok else VGR_replicate e g vgr vrObj)
             })
        })
   }"

definition VGR_claims ::
  "env \<Rightarrow> genv_vgr \<Rightarrow> replication_class \<Rightarrow> volume_group_replication \<Rightarrow> vgr_content \<Rightarrow> volume_replication \<Rightarrow> pvc list \<Rightarrow> outcome prog" where
  "VGR_claims e g vgrClass vgr contentObj vrObj pvcList = do {
     ar \<leftarrow> updateFinalizerAndAnnotationOnPVCs e g vgr pvcList;
     (case ar of
        Inl err \<Rightarrow> group_failed e vgr err
      | Inr pvcRefList \<Rightarrow> do {
          let listed = vgr\<lparr>vgr_status := (vgr_status vgr)\<lparr>vgst_pvcRefList := Some pvcRefList\<rparr>\<rparr>;
          r \<leftarrow> (if vgst_pvcRefList (vgr_status vgr) \<noteq> Some pvcRefList then StatusUpdate_VGR e listed else ret (Inr vgr));
          (case r of
             Inl err \<Rightarrow> group_failed e listed err
           | Inr vgr \<Rightarrow> VGR_content e g vgrClass vgr contentObj vrObj pvcList)
        })
   }"

definition VGR_update ::
  "env \<Rightarrow> genv_vgr \<Rightarrow> int \<Rightarrow> replication_class \<Rightarrow> volume_group_replication \<Rightarrow> outcome prog" where
  "VGR_update e g MaxGroupPVCCount vgrClass instance = do {
     (vgr, err) \<leftarrow> addFinalizerToVGR e instance;
     (case err of
        Some er \<Rightarrow> ret (done_err er)
      | None \<Rightarrow> do {
          mr \<leftarrow> getMatchingPVCsFromSource g vgr;
          (case mr of
             Inl err \<Rightarrow> group_failed e vgr err
           | Inr (pvcList, labelSelector) \<Rightarrow>
               if MaxGroupPVCCount < int (length pvcList)
               then group_failed e vgr (ErrMsg (''more than '' @ quote_rune MaxGroupPVCCount @ '' PVCs match the given selector''))
               else do {
                 let annotated = vgr_set_annotations (AList.update pvcSelector labelSelector (om_annotations (vgr_meta vgr))) vgr;
                 r \<leftarrow> (if mget (om_annotations (vgr_meta vgr)) pvcSelector \<noteq> labelSelector then Update_VGR e annotated else ret (Inr vgr));
                 (case r of
                    Inl err \<Rightarrow> group_failed e annotated err
                  | Inr vgr \<Rightarrow> VGR_claims e g vgrClass vgr (content_of instance vgrClass) (vr_of instance) pvcList)
               })
        })
   }"

definition VGR_release :: "env \<Rightarrow> volume_group_replication \<Rightarrow> outcome prog" where
  "VGR_release e vgr =
     (if isSafeToDeleteVGR vgr then do {
        err \<leftarrow> (if vgst_pvcRefList (vgr_status vgr) \<noteq> None then cleanupGroupPVC e vgr else ret None);
        (case err of
           Some er \<Rightarrow> ret (done_err er)
         | None \<Rightarrow> do { (vgr, err) \<leftarrow> removeFinalizerFromVGR e vgr; ret done_ok })
      }
      else ret (Returned \<lparr>rr_requeue = False, rr_requeueAfter = 10 * second\<rparr> None))"

definition VGR_delete :: "env \<Rightarrow> genv_vgr \<Rightarrow> volume_group_replication \<Rightarrow> outcome prog" where
  "VGR_delete e g vgr = do {
     err \<leftarrow> (if vgs_volumeReplicationName (vgr_spec vgr) \<noteq> [] then cleanupVR e g vgr else ret None);
     (case err of
        Some er \<Rightarrow> ret (done_err er)
      | None \<Rightarrow> do {
          err \<leftarrow> (if vgs_volumeGroupReplicationContentName (vgr_spec vgr) \<noteq> [] then cleanupVGRContent e g vgr else ret None);
          (case err of Some er \<Rightarrow> ret (done_err er) | None \<Rightarrow> VGR_release e vgr)
        })
   }"

definition VGR_Reconcile :: "env \<Rightarrow> genv_vgr \<Rightarrow> int \<Rightarrow> nsname \<Rightarrow> outcome prog" where
  "VGR_Reconcile e g MaxGroupPVCCount req = do {
     r \<leftarrow> Get_VGR e req;
     (case r of
        Inl err \<Rightarrow> if IsNotFound err then ret done_ok else ret (done_err err)
      | Inr vgr \<Rightarrow>
          if vgs_external (vgr_spec vgr) then ret done_ok
          else do {
            kr \<leftarrow> getVolumeGroupReplicationClass e (vgs_volumeGroupReplicationClassName (vgr_spec vgr));
            (case kr of
               Inl err \<Rightarrow> group_failed e vgr err
             | Inr vgrClass \<Rightarrow>
                 (case validatePrefixedParameters (rc_parameters vgrClass) of
                    Some err \<Rightarrow> group_failed e vgr err
                  | None \<Rightarrow>
                      if om_deletionTimestamp (vgr_meta vgr) = None then VGR_update e g MaxGroupPVCCount vgrClass vgr
                      else VGR_delete e g vgr))
          })
   }"

section \<open>Who is reconciled\<close>

text \<open>
  The mapping from a dependent object to the group it belongs to. \<open>None\<close> is the panic on a reference
  without a slash.
\<close>

definition enqueueVGRRequest :: "strmap \<Rightarrow> nsname list option" where
  "enqueueVGRRequest objAnnotations =
     (case map_of objAnnotations volumeGroupReplicationRef of
        None \<Rightarrow> Some []
      | Some v \<Rightarrow>
          (case strings_Split v (CHR ''/'') of
             vgrNamespace # vgrName # _ \<Rightarrow>
               Some (if vgrName = [] \<or> vgrNamespace = [] then [] else [\<lparr>nn_namespace = vgrNamespace, nn_name = vgrName\<rparr>])
           | _ \<Rightarrow> None))"

text \<open>The mapping from a claim to the first group whose selector matches its labels; \<open>matches\<close> stands for
  \<open>labels.Parse\<close> followed by \<open>Matches\<close>.\<close>

fun match_group :: "(string \<Rightarrow> goerr + (strmap \<Rightarrow> bool)) \<Rightarrow> strmap \<Rightarrow> volume_group_replication list \<Rightarrow> nsname list" where
  "match_group matches objLabels [] = []"
| "match_group matches objLabels (vgr # vgrs) =
     (if vgs_external (vgr_spec vgr) then match_group matches objLabels vgrs
      else if mget (om_annotations (vgr_meta vgr)) pvcSelector \<noteq> [] then
        (case matches (mget (om_annotations (vgr_meta vgr)) pvcSelector) of
           Inl err \<Rightarrow> []
         | Inr m \<Rightarrow> if m objLabels then [vgr_key vgr] else match_group matches objLabels vgrs)
      else match_group matches objLabels vgrs)"

definition enqueueVGRForPVCRequest ::
  "(string \<Rightarrow> goerr + (strmap \<Rightarrow> bool)) \<Rightarrow> goerr + volume_group_replication list \<Rightarrow> strmap \<Rightarrow> nsname list" where
  "enqueueVGRForPVCRequest matches listed objLabels =
     (if objLabels = [] then []
      else (case listed of Inl err \<Rightarrow> [] | Inr vgrs \<Rightarrow> match_group matches objLabels vgrs))"

end
