(* ===== verification/Group_Facts.thy ===== *)
theory Group_Facts
  imports Volume_Group_Replication
begin

text \<open>
  Lemmas on the two controllers of volume groups: what is known when a group is taken apart, where
  the handle of a group comes from, in which order a group replication is torn down, and that the
  content of a group is written only when it changes.
\<close>

section \<open>Taking a group apart\<close>

definition ungrouped :: "genv \<Rightarrow> string \<Rightarrow> event list \<Rightarrow> event \<Rightarrow> bool" where
  "ungrouped g groupID h ev \<longleftrightarrow>
     (\<exists>cl q. ev = Rpc cl (RpcDeleteVolumeGroup q) \<and> gq_id q = groupID \<and> g_rpcDelete g h cl q = Inr ())"

text \<open>The owner of a content is under deletion, and no replication holds the content.\<close>

definition may_ungroup :: "env \<Rightarrow> vgr_content \<Rightarrow> bool" where
  "may_ungroup e c \<longleftrightarrow> om_deletionTimestamp (vgrc_meta c) \<noteq> None \<and>
     volumeReplicationFinalizer \<notin> set (om_finalizers (vgrc_meta c)) \<and>
     (\<exists>h nn vgr. vgcs_ref (vgrc_spec c) = Some nn \<and> e_getVGR e h nn = Inr vgr \<and> om_deletionTimestamp (vgr_meta vgr) \<noteq> None)"

text \<open>
  The calls a reconcile of the content \<open>c\<close> may make: the group is deleted only when that is allowed,
  and while the content is under deletion nothing is written before the group is gone.
\<close>

definition apart_ok :: "env \<Rightarrow> genv \<Rightarrow> event list \<Rightarrow> vgr_content \<Rightarrow> event list \<Rightarrow> event \<Rightarrow> bool" where
  "apart_ok e g h0 c h ev \<longleftrightarrow>
     (\<forall>cl q. ev = Rpc cl (RpcDeleteVolumeGroup q) \<longrightarrow> may_ungroup e c) \<and>
     (\<forall>x. ev = ApiUpdate x \<and> om_deletionTimestamp (vgrc_meta c) \<noteq> None \<longrightarrow>
        vgcs_handle (vgrc_spec c) = [] \<or> since h0 (ungrouped g (vgcs_handle (vgrc_spec c))) h)"

lemma apart_ok_lookup: "lookup_call ev \<Longrightarrow> apart_ok e g h0 c h ev"
  by (auto simp: apart_ok_def lookup_call_def)

lemma apart_ok_simps [simp]:
  "apart_ok e g h0 c h (ApiGet k nn)" "apart_ok e g h0 c h (ApiList k s)" "apart_ok e g h0 c h (ApiStatusUpdate x)"
  "apart_ok e g h0 c h (Rpc cl (RpcModifyVolumeGroupMembership q))" "apart_ok e g h0 c h (Rpc cl (RpcCreateVolumeGroup q))"
  "apart_ok e g h0 c h (Rpc cl (RpcDeleteVolumeGroup q)) \<longleftrightarrow> may_ungroup e c"
  by (simp_all add: apart_ok_def)

lemma emits_getVolumeGroupClient:
  assumes "\<And>h ev. lookup_call ev \<Longrightarrow> R h ev"
  shows "emits R (getVolumeGroupClient e d)"
  unfolding getVolumeGroupClient_def by (intro emits_intros emits_leader assms)

lemma emits_group_owner:
  assumes "\<And>h x. R h (ApiUpdate x)"
  shows "emits R (annotateVolumeGroupReplicationWithVGRContentOwner e n vgr)" "emits R (removeVGRContentOwnerFromVGRAnnotation e vgr)"
  by (auto simp: annotateVolumeGroupReplicationWithVGRContentOwner_def removeVGRContentOwnerFromVGRAnnotation_def Update_VGR_def assms
      intro!: emits_intros)

lemma emits_VGRC_release:
  assumes "\<And>h x. H h \<Longrightarrow> R h (ApiUpdate x)"
  shows "emits (\<lambda>h ev. H h \<longrightarrow> R h ev) (VGRC_release e c vgr)"
  unfolding VGRC_release_def by (intro emits_intros emits_group_owner vgrc_fin.emits_rem) (auto simp: assms)

lemma htriple_VGRC_ungroup:
  assumes "\<And>h cl q. R h (Rpc cl (RpcModifyVolumeGroupMembership q))" "\<And>h cl q. R h (Rpc cl (RpcDeleteVolumeGroup q))"
  shows "htriple (extends h0) (VGRC_ungroup e g ga groupID c)
    (\<lambda>err h. extends h0 h \<and> (err = None \<longrightarrow> since h0 (ungrouped g groupID) h)) R"
  unfolding VGRC_ungroup_def
proof (rule htriple_bind [where K = "\<lambda>_. extends h0"], goal_cases)
  case 1
  show ?case
    unfolding ModifyVolumeGroupMembership_def Let_def
    by (rule htriple_ignore) (auto intro!: emits_intros assms)
next
  case (2 err)
  show ?case
  proof (cases err)
    case None
    show ?thesis
      unfolding DeleteVolumeGroup_def Let_def None option.case
    proof (rule htriple_bind [where K = "\<lambda>r h. extends h0 h \<and> (r = Inr () \<longrightarrow> since h0 (ungrouped g groupID) h)"], goal_cases)
      case 1
      show ?case
        by (rule htriple_call) (auto intro!: extends_append since_snoc assms simp: ungrouped_def)
    next
      case (2 r)
      show ?case by (cases r) auto
    qed
  qed simp
qed

lemma htriple_VGRC_delete:
  assumes "om_deletionTimestamp (vgrc_meta c) \<noteq> None" "vgcs_ref (vgrc_spec c) = Some nn" "e_getVGR e h1 nn = Inr vgr"
  shows "htriple (extends h0) (VGRC_delete e g ga (vgcs_handle (vgrc_spec c)) c vgr) (\<lambda>_ _. True) (apart_ok e g h0 c)"
proof -
  let ?id = "vgcs_handle (vgrc_spec c)"
  let ?H = "\<lambda>h. ?id = [] \<or> since h0 (ungrouped g ?id) h"
  have rel: "htriple ?H (VGRC_release e c vgr) (\<lambda>_ _. True) (apart_ok e g h0 c)"
  proof (rule htriple_weaken [OF htriple_ignore])
    show "emits (\<lambda>h ev. ?H h \<longrightarrow> apart_ok e g h0 c h ev) (VGRC_release e c vgr)"
      by (rule emits_VGRC_release) (simp add: apart_ok_def)
    show "stable ?H" by (intro stable_intros)
  qed auto
  have body: "htriple (extends h0) (do {
      err \<leftarrow> (if ?id \<noteq> [] then VGRC_ungroup e g ga ?id c else ret None);
      (case err of Some er \<Rightarrow> ret (done_err er) | None \<Rightarrow> VGRC_release e c vgr) }) (\<lambda>_ _. True) (apart_ok e g h0 c)"
    if may: "may_ungroup e c"
  proof (rule htriple_bind [where K = "\<lambda>err h. err = None \<longrightarrow> ?H h"], goal_cases)
    case 1
    show ?case
    proof (cases "?id = []")
      case False
      have "htriple (extends h0) (VGRC_ungroup e g ga ?id c)
          (\<lambda>err h. extends h0 h \<and> (err = None \<longrightarrow> since h0 (ungrouped g ?id) h)) (apart_ok e g h0 c)"
        by (rule htriple_VGRC_ungroup) (simp_all add: may)
      with False show ?thesis by (auto elim!: htriple_weaken)
    qed simp
  next
    case (2 err)
    show ?case by (cases err) (simp_all add: rel)
  qed
  have "may_ungroup e c" if "\<not> om_deletionTimestamp (vgr_meta vgr) = None" "volumeReplicationFinalizer \<notin> set (om_finalizers (vgrc_meta c))"
    using assms that unfolding may_ungroup_def by blast
  note body = body [OF this]
  show ?thesis
    unfolding VGRC_delete_def by (intro htriple_if) (simp, rule body, assumption+, simp)
qed

lemma emits_VGRC_group:
  assumes "om_deletionTimestamp (vgrc_meta c) = None"
  shows "emits (apart_ok e g h0 c) (VGRC_group e g ga groupID c')"
  using assms unfolding VGRC_group_def VGRC_report_def CreateVolumeGroup_def ModifyVolumeGroupMembership_def
    StatusUpdate_VGRContent_def Update_VGRContent_def Let_def
  by (intro emits_intros) (simp_all add: apart_ok_def)

lemma htriple_VGRC_dispatch:
  assumes "vgcs_ref (vgrc_spec c) = Some nn" "e_getVGR e h1 nn = Inr vgr"
  shows "htriple (extends h0) (VGRC_dispatch e g ga req c vgr) (\<lambda>_ _. True) (apart_ok e g h0 c)"
proof (cases "om_deletionTimestamp (vgrc_meta c) = None")
  case True
  then have "emits (apart_ok e g h0 c) (VGRC_dispatch e g ga req c vgr)"
    unfolding VGRC_dispatch_def Let_def
    by (simp only: if_True) (intro emits_intros emits_group_owner vgrc_fin.emits_add emits_VGRC_group; simp add: apart_ok_def)
  then show ?thesis by (rule htriple_true)
next
  case False
  show ?thesis
    unfolding VGRC_dispatch_def Let_def if_not_P [OF False] by (rule htriple_VGRC_delete [OF False assms])
qed

text \<open>
  Everything before the dispatch only looks things up: a property of the calls and a stable fact hold of
  the whole reconcile when they hold of the dispatch.
\<close>

lemma htriple_VGRC_Reconcile:
  assumes "e_getVGRContent e h0 req = Inr c" "\<And>h ev. lookup_call ev \<Longrightarrow> R h ev"
    and "\<And>ga nn h1 vgr. vgcs_ref (vgrc_spec c) = Some nn \<Longrightarrow> e_getVGR e h1 nn = Inr vgr \<Longrightarrow>
      htriple (extends h0) (VGRC_dispatch e g ga req c vgr) (\<lambda>_ _. True) R"
  shows "htriple (\<lambda>h. h = h0) (VGRC_Reconcile e g req) (\<lambda>_ _. True) R"
proof -
  have owner: "htriple (extends h0) (do { vr \<leftarrow> Get_VGR e nn;
      (case vr of Inl err \<Rightarrow> ret (done_err err) | Inr vgr \<Rightarrow> VGRC_dispatch e g ga req c vgr) }) (\<lambda>_ _. True) R"
    if nn: "vgcs_ref (vgrc_spec c) = Some nn" for nn ga
    unfolding Get_VGR_def
  proof (rule htriple_bind [where K = "\<lambda>r h. extends h0 h \<and> (\<forall>v. r = Inr v \<longrightarrow> (\<exists>h1. e_getVGR e h1 nn = Inr v))"], goal_cases)
    case 1
    show ?case by (rule htriple_call) (auto intro: extends_append assms(2) simp: eq_commute)
  next
    case (2 r)
    show ?case by (rule htriple_sum) (auto intro: assms(3) [OF nn])
  qed
  have lookup: "htriple (extends h0) m (\<lambda>_. extends h0) R" if "emits R m" for m :: "'z prog"
    by (rule htriple_ignore) (auto intro: emits_mono [OF that])
  show ?thesis
    unfolding VGRC_Reconcile_def Get_VGRContent_def
  proof (rule htriple_first_call, goal_cases)
    case 1
    show ?case by (rule assms(2)) simp
  next
    case 2
    show ?case
      unfolding assms(1) sum.case
    proof (rule htriple_bind [OF lookup], goal_cases)
      case 1
      show ?case by (intro emits_getVolumeGroupClient assms(2))
    next
      case (2 cr)
      show ?case
      proof (cases cr)
        case (GoOk cl)
        show ?thesis
          unfolding GoOk gores.case
        proof (rule htriple_bind [OF lookup], goal_cases)
          case 1
          show ?case unfolding Get_VGRClass_def by (intro emits_intros assms(2)) simp
        next
          case (2 kr)
          show ?case
            by (cases kr; cases "vgcs_ref (vgrc_spec c)") (simp_all add: Let_def owner)
        qed
      qed simp_all
    qed
  qed
qed

section \<open>Where a handle comes from\<close>

text \<open>The driver created the group with exactly the volumes listed, under the name of the content.\<close>

definition grouped_as :: "genv \<Rightarrow> vgr_content \<Rightarrow> event list \<Rightarrow> event \<Rightarrow> bool" where
  "grouped_as g x h ev \<longleftrightarrow>
     (\<exists>cl q vg. ev = Rpc cl (RpcCreateVolumeGroup q) \<and> g_rpcCreate g h cl q = Inr vg \<and> gq_id q = om_name (vgrc_meta x) \<and>
        gq_volumeIds q = vgcs_volumeHandles (vgrc_spec x) \<and> vgcs_handle (vgrc_spec x) = vg_id vg \<and> vgcs_attributes (vgrc_spec x) = vg_context vg)"

definition handle_ok :: "genv \<Rightarrow> event list \<Rightarrow> vgr_content \<Rightarrow> event list \<Rightarrow> event \<Rightarrow> bool" where
  "handle_ok g h0 c h ev \<longleftrightarrow>
     (\<forall>x. ev = ApiUpdate (O_VGRContent x) \<and> vgcs_handle (vgrc_spec x) \<noteq> vgcs_handle (vgrc_spec c) \<longrightarrow>
        vgcs_handle (vgrc_spec c) = [] \<and> since h0 (grouped_as g x) h)"

lemma handle_ok_other:
  assumes "\<And>x. ev \<noteq> ApiUpdate (O_VGRContent x)"
  shows "handle_ok g h0 c h ev"
  using assms by (auto simp: handle_ok_def)

lemma handle_ok_lookup: "lookup_call ev \<Longrightarrow> handle_ok g h0 c h ev"
  by (rule handle_ok_other) auto

lemma emits_handle_finalizer:
  "emits (handle_ok g h0 c) (addFinalizerToVGRContent e c f)" "emits (handle_ok g h0 c) (removeFinalizerFromVGRContent e c f)"
  unfolding addFinalizerToVGRContent_def removeFinalizerFromVGRContent_def Update_VGRContent_def Let_def
  by (intro emits_intros; simp add: handle_ok_def vgrc_set_finalizers_def)+

lemma emits_handle_report: "emits (handle_ok g h0 c) (VGRC_report e g c')"
  unfolding VGRC_report_def StatusUpdate_VGRContent_def by (intro emits_intros handle_ok_other) simp_all

lemma htriple_handle_group:
  "htriple (extends h0) (VGRC_group e g ga (vgcs_handle (vgrc_spec c)) c') (\<lambda>_ _. True) (handle_ok g h0 c)"
proof (cases "vgcs_handle (vgrc_spec c) = []")
  case False
  have "emits (handle_ok g h0 c) (VGRC_group e g ga (vgcs_handle (vgrc_spec c)) c')"
    unfolding VGRC_group_def if_not_P [OF False] ModifyVolumeGroupMembership_def Let_def
    by (intro emits_intros emits_handle_report handle_ok_other) simp
  then show ?thesis by (rule htriple_true)
next
  case True
  let ?upd = "\<lambda>vg. c'\<lparr>vgrc_spec := (vgrc_spec c')\<lparr>vgcs_attributes := vg_context vg, vgcs_handle := vg_id vg\<rparr>\<rparr>"
  show ?thesis
    unfolding VGRC_group_def if_P [OF True] CreateVolumeGroup_def Let_def
  proof (rule htriple_bind [where K = "\<lambda>r h. extends h0 h \<and> (\<forall>vg. r = Inr vg \<longrightarrow> since h0 (grouped_as g (?upd vg)) h)"], goal_cases)
    case 1
    show ?case
      by (rule htriple_call) (auto intro!: extends_append since_snoc handle_ok_other simp: grouped_as_def)
  next
    case (2 r)
    show ?case
    proof (cases r)
      case (Inr vg)
      show ?thesis
        unfolding Inr sum.case Update_VGRContent_def
      proof (rule htriple_bind [where K = "\<lambda>_ _. True"], goal_cases)
        case 1
        show ?case by (rule htriple_call) (auto simp: handle_ok_def True)
      next
        case (2 ur)
        show ?case by (cases ur) (auto intro: htriple_true emits_handle_report)
      qed
    qed simp
  qed
qed

lemma htriple_handle_dispatch: "htriple (extends h0) (VGRC_dispatch e g ga req c vgr) (\<lambda>_ _. True) (handle_ok g h0 c)"
proof (cases "om_deletionTimestamp (vgrc_meta c) = None")
  case True
  have keep: "htriple (extends h0) m (\<lambda>_. extends h0) (handle_ok g h0 c)" if "emits (handle_ok g h0 c) m" for m :: "'z prog"
    by (rule htriple_ignore) (auto intro: emits_mono [OF that])
  show ?thesis
    unfolding VGRC_dispatch_def Let_def if_P [OF True]
  proof (rule htriple_bind [OF keep], goal_cases)
    case 1
    show ?case
      by (auto simp: annotateVolumeGroupReplicationWithVGRContentOwner_def Update_VGR_def intro!: emits_intros handle_ok_other)
  next
    case (2 r)
    show ?case
    proof (cases r)
      case (Pair v err)
      have "htriple (extends h0) (do { (c', err) \<leftarrow> addFinalizerToVGRContent e c vgrReplicationFinalizer;
          (case err of Some er \<Rightarrow> ret (done_err er) | None \<Rightarrow> VGRC_group e g ga (vgcs_handle (vgrc_spec c)) c') })
          (\<lambda>_ _. True) (handle_ok g h0 c)"
        by (rule htriple_bind [OF keep [OF emits_handle_finalizer(1)]])
          (auto split: prod.split option.split intro: htriple_handle_group)
      then show ?thesis unfolding Pair prod.case by (cases err) simp_all
    qed
  qed
next
  case False
  have "emits (handle_ok g h0 c) (VGRC_dispatch e g ga req c vgr)"
    unfolding VGRC_dispatch_def Let_def if_not_P [OF False] VGRC_delete_def VGRC_release_def VGRC_ungroup_def
      removeVGRContentOwnerFromVGRAnnotation_def Update_VGR_def ModifyVolumeGroupMembership_def DeleteVolumeGroup_def
    by (intro emits_intros emits_handle_finalizer handle_ok_other) simp_all
  then show ?thesis by (rule htriple_true)
qed

section \<open>Tearing a group replication down\<close>

definition vr_gone :: "env \<Rightarrow> genv_vgr \<Rightarrow> event list \<Rightarrow> event \<Rightarrow> bool" where
  "vr_gone e g h ev \<longleftrightarrow>
     (\<exists>nn err. ev = ApiGet ''VolumeReplication'' nn \<and> e_getVR e h nn = Inl err \<and> IsNotFound err) \<or>
     (\<exists>v. ev = ApiDelete (O_VR v) \<and> g_deleteVR g h v = Inr ())"

definition teardown_ok :: "env \<Rightarrow> genv_vgr \<Rightarrow> event list \<Rightarrow> volume_group_replication \<Rightarrow> event list \<Rightarrow> event \<Rightarrow> bool" where
  "teardown_ok e g h0 vgr h ev \<longleftrightarrow>
     (\<forall>x. ev = ApiDelete (O_VGRContent x) \<longrightarrow> vgs_volumeReplicationName (vgr_spec vgr) = [] \<or> since h0 (vr_gone e g) h) \<and>
     (\<forall>x. ev = ApiUpdate x \<longrightarrow> isSafeToDeleteVGR vgr) \<and> (\<forall>x. ev \<noteq> ApiCreate x)"

lemma teardown_ok_simps [simp]:
  "teardown_ok e g h0 vgr h (ApiGet k nn)" "teardown_ok e g h0 vgr h (ApiStatusUpdate x)"
  "teardown_ok e g h0 vgr h (ApiDelete (O_VR v))" "teardown_ok e g h0 vgr h (ApiUpdate x) \<longleftrightarrow> isSafeToDeleteVGR vgr"
  by (simp_all add: teardown_ok_def)

lemma emits_disown: "(\<And>h p. R h (ApiUpdate (O_PVC p))) \<Longrightarrow> emits R (disown e p)"
  by (auto simp: disown_def removeOwnerFromPVCAnnotation_def Update_PVC_def intro!: emits_intros pvc_fin.emits_rem)

lemma emits_cleanupGroupPVC:
  assumes "\<And>h p. R h (ApiUpdate (O_PVC p))" "\<And>h k nn. R h (ApiGet k nn)"
  shows "emits R (cleanupGroupPVC e vgr)"
proof -
  have "emits R (cleanupGroupPVC_loop e ns names)" for ns names
    by (induction names) (auto intro!: emits_intros emits_disown assms simp: Get_PVC_def)
  then show ?thesis by (simp add: cleanupGroupPVC_def)
qed

lemma emits_VGR_release:
  "emits (teardown_ok e g h0 vgr) (VGR_release e vgr)"
proof (cases "isSafeToDeleteVGR vgr")
  case True
  show ?thesis
    unfolding VGR_release_def if_P [OF True]
    by (intro emits_intros emits_cleanupGroupPVC vgr_fin.emits_rem) (simp_all add: True)
next
  case False
  show ?thesis unfolding VGR_release_def if_not_P [OF False] by (rule emits_ret)
qed

lemma htriple_cleanupVR:
  assumes "\<And>h k nn. R h (ApiGet k nn)" "\<And>h v. R h (ApiDelete (O_VR v))"
  shows "htriple (extends h0) (cleanupVR e g vgr) (\<lambda>err h. extends h0 h \<and> (err = None \<longrightarrow> since h0 (vr_gone e g) h)) R"
  unfolding cleanupVR_def Get_VR_def
proof (rule htriple_bind [where K = "\<lambda>r h. extends h0 h \<and> (\<forall>err. r = Inl err \<and> IsNotFound err \<longrightarrow> since h0 (vr_gone e g) h)"], goal_cases)
  case 1
  show ?case by (rule htriple_call) (auto intro!: extends_append since_snoc assms(1) simp: vr_gone_def)
next
  case (2 r)
  show ?case
  proof (cases r)
    case (Inr vr)
    show ?thesis
      unfolding Inr sum.case Delete_VR_def
    proof (rule htriple_bind [where K = "\<lambda>d h. extends h0 h \<and> (d = Inr () \<longrightarrow> since h0 (vr_gone e g) h)"], goal_cases)
      case 1
      show ?case by (rule htriple_call) (auto intro!: extends_append since_snoc assms(2) simp: vr_gone_def)
    next
      case (2 d)
      show ?case by (cases d) auto
    qed
  qed auto
qed

lemma htriple_VGR_delete: "htriple (extends h0) (VGR_delete e g vgr) (\<lambda>_ _. True) (teardown_ok e g h0 vgr)"
proof -
  let ?H = "\<lambda>h. vgs_volumeReplicationName (vgr_spec vgr) = [] \<or> since h0 (vr_gone e g) h"
  have content: "htriple ?H (do {
      err \<leftarrow> (if vgs_volumeGroupReplicationContentName (vgr_spec vgr) \<noteq> [] then cleanupVGRContent e g vgr else ret None);
      (case err of Some er \<Rightarrow> ret (done_err er) | None \<Rightarrow> VGR_release e vgr) }) (\<lambda>_ _. True) (teardown_ok e g h0 vgr)"
  proof (rule htriple_weaken [OF htriple_ignore])
    show "stable ?H" by (intro stable_intros)
    show "emits (\<lambda>h ev. ?H h \<longrightarrow> teardown_ok e g h0 vgr h ev) (do {
      err \<leftarrow> (if vgs_volumeGroupReplicationContentName (vgr_spec vgr) \<noteq> [] then cleanupVGRContent e g vgr else ret None);
      (case err of Some er \<Rightarrow> ret (done_err er) | None \<Rightarrow> VGR_release e vgr) })"
      unfolding cleanupVGRContent_def Get_VGRContent_def Delete_VGRContent_def
      by (intro emits_intros) (auto simp: teardown_ok_def intro: emits_mono [OF emits_VGR_release])
  qed auto
  show ?thesis
    unfolding VGR_delete_def
  proof (rule htriple_bind [where K = "\<lambda>err h. err = None \<longrightarrow> ?H h"], goal_cases)
    case 1
    have "htriple (extends h0) (cleanupVR e g vgr) (\<lambda>err h. extends h0 h \<and> (err = None \<longrightarrow> since h0 (vr_gone e g) h)) (teardown_ok e g h0 vgr)"
      by (rule htriple_cleanupVR) simp_all
    then show ?case by (intro htriple_if) (auto elim: htriple_weaken)
  next
    case (2 err)
    show ?case by (cases err) (simp_all add: content)
  qed
qed

lemma htriple_VGR_Reconcile_deleting:
  assumes "e_getVGR e h0 req = Inr vgr" "om_deletionTimestamp (vgr_meta vgr) \<noteq> None"
  shows "htriple (\<lambda>h. h = h0) (VGR_Reconcile e g n req) (\<lambda>_ _. True) (teardown_ok e g h0 vgr)"
proof -
  have failed: "emits (teardown_ok e g h0 vgr) (group_failed e vgr err)" for err
    unfolding group_failed_def setGroupReplicationFailure_def StatusUpdate_VGR_def by (intro emits_intros) simp_all
  have looked: "htriple (extends h0) (do {
      kr \<leftarrow> getVolumeGroupReplicationClass e (vgs_volumeGroupReplicationClassName (vgr_spec vgr));
      (case kr of
         Inl err \<Rightarrow> group_failed e vgr err
       | Inr vgrClass \<Rightarrow>
           (case validatePrefixedParameters (rc_parameters vgrClass) of
              Some err \<Rightarrow> group_failed e vgr err
            | None \<Rightarrow>
                if om_deletionTimestamp (vgr_meta vgr) = None then VGR_update e g n vgrClass vgr else VGR_delete e g vgr)) })
      (\<lambda>_ _. True) (teardown_ok e g h0 vgr)"
    unfolding if_not_P [OF assms(2)] getVolumeGroupReplicationClass_def Get_VGRClass_def
  proof (rule htriple_bind [where K = "\<lambda>_. extends h0"], goal_cases)
    case 1
    show ?case by (rule htriple_call) (auto intro: extends_append)
  next
    case (2 kr)
    show ?case
      by (auto split: sum.split option.split intro: htriple_true [OF failed] htriple_VGR_delete)
  qed
  show ?thesis
    unfolding VGR_Reconcile_def Get_VGR_def
    by (rule htriple_first_call) (simp_all only: assms(1) sum.case teardown_ok_simps, intro htriple_if looked, simp)
qed

section \<open>Replication starts after grouping\<close>

definition content_answer :: "env \<Rightarrow> genv_vgr \<Rightarrow> vgr_content \<Rightarrow> bool" where
  "content_answer e g c \<longleftrightarrow> (\<exists>h x. g_createContent g h x = Inr c) \<or> (\<exists>h x. e_updateVGRContent e h x = Inr c) \<or>
     (\<exists>h nn. e_getVGRContent e h nn = Inr c)"

fun touches_VR :: "event \<Rightarrow> bool" where
  "touches_VR (ApiCreate (O_VR v)) = True"
| "touches_VR (ApiUpdate (O_VR v)) = True"
| "touches_VR ev = False"

definition vr_after_group :: "env \<Rightarrow> genv_vgr \<Rightarrow> event list \<Rightarrow> event \<Rightarrow> bool" where
  "vr_after_group e g h ev \<longleftrightarrow> (touches_VR ev \<longrightarrow> (\<exists>c. content_answer e g c \<and> vgcs_handle (vgrc_spec c) \<noteq> []))"

lemma vr_after_group_other [simp]: "\<not> touches_VR ev \<Longrightarrow> vr_after_group e g h ev"
  by (simp add: vr_after_group_def)

lemma returns_CreateOrUpdate:
  assumes "\<And>nn. returns (get nn) (\<lambda>r. \<forall>x. r = Inr x \<longrightarrow> V x)" "\<And>y. returns (create y) (\<lambda>r. \<forall>x. r = Inr x \<longrightarrow> V x)"
    and "\<And>y. returns (update y) (\<lambda>r. \<forall>x. r = Inr x \<longrightarrow> V x)"
  shows "returns (CreateOrUpdate key get create update f obj) (\<lambda>r. snd r = None \<longrightarrow> V (fst r))"
  unfolding CreateOrUpdate_def Let_def
  by (rule returns_bind [OF assms(1)])
    (auto simp: returns_ret split: sum.split intro!: returns_bind [OF assms(2)] returns_bind [OF assms(3)] returns_ret)

lemma emits_CreateOrUpdate:
  assumes "\<And>nn. emits R (get nn)" "\<And>y. emits R (create y)" "\<And>y. emits R (update y)"
  shows "emits R (CreateOrUpdate key get create update f obj)"
  unfolding CreateOrUpdate_def by (intro emits_intros assms)

lemma content_returned:
  "returns (createOrUpdateVolumeGroupReplicationContentCR e g vgr c driver hs) (\<lambda>r. snd r = None \<longrightarrow> content_answer e g (fst r))"
  unfolding createOrUpdateVolumeGroupReplicationContentCR_def
  by (rule returns_CreateOrUpdate)
    (auto simp: Get_VGRContent_def Create_VGRContent_def Update_VGRContent_def content_answer_def intro!: returns_mono [OF returns_call])

lemma emits_group_failed: "emits (vr_after_group e g) (group_failed e' vgr err)"
  unfolding group_failed_def setGroupReplicationFailure_def StatusUpdate_VGR_def by (intro emits_intros) simp_all

lemma emits_claims:
  assumes "\<And>h p. R h (ApiUpdate (O_PVC p))" "\<And>h k nn. R h (ApiGet k nn)"
  shows "emits R (updateFinalizerAndAnnotationOnPVCs e g vgr ps)" "emits R (getPVHandles e k ps)"
proof -
  have get: "emits R (getPVCs_loop e ns acc names)" for ns acc names
    by (induction names arbitrary: acc) (auto intro!: emits_intros assms simp: Get_PVC_def)
  have own: "emits R (own_claims e n xs)" for n xs
    by (induction xs)
      (auto intro!: emits_intros pvc_fin.emits_add assms simp: annotatePVCWithOwner_def Update_PVC_def Let_def)
  have disown: "emits R (disown_claims e xs)" for xs
    by (induction xs) (auto intro!: emits_intros emits_disown assms)
  show "emits R (updateFinalizerAndAnnotationOnPVCs e g vgr ps)"
    unfolding updateFinalizerAndAnnotationOnPVCs_def by (intro emits_intros get own disown)
  have "emits R (getPVHandles_loop e k acc ps)" for acc
    by (induction ps arbitrary: acc) (auto intro!: emits_intros assms simp: Get_PV_def)
  then show "emits R (getPVHandles e k ps)" unfolding getPVHandles_def by (intro emits_intros)
qed

lemma emits_content_CR:
  assumes "\<And>h k nn. R h (ApiGet k nn)" "\<And>h x. R h (ApiCreate (O_VGRContent x))" "\<And>h x. R h (ApiUpdate (O_VGRContent x))"
  shows "emits R (createOrUpdateVolumeGroupReplicationContentCR e g vgr c driver hs)"
  unfolding createOrUpdateVolumeGroupReplicationContentCR_def Get_VGRContent_def Create_VGRContent_def Update_VGRContent_def
  by (intro emits_CreateOrUpdate emits_call assms)

lemma emits_VGR_replicate:
  assumes "content_answer e g c" "vgcs_handle (vgrc_spec c) \<noteq> []"
  shows "emits (vr_after_group e g) (VGR_replicate e g vgr vrObj)"
proof -
  have "\<exists>c. content_answer e g c \<and> vgcs_handle (vgrc_spec c) \<noteq> []" using assms by blast
  then have all: "vr_after_group e g h ev" for h ev by (simp add: vr_after_group_def)
  show ?thesis
    unfolding VGR_replicate_def createOrUpdateVolumeReplicationCR_def VGR_status_def Get_VR_def Create_VR_def Update_VR_def
      Update_VGR_def StatusUpdate_VGR_def
    by (intro emits_intros emits_CreateOrUpdate emits_group_failed all)
qed

lemma emits_VGR_content: "emits (vr_after_group e g) (VGR_content e g vgrClass vgr contentObj vrObj pvcList)"
proof -
  have grouped: "emits (vr_after_group e g) (case r of (c, err) \<Rightarrow>
      (case err of
         Some er \<Rightarrow> group_failed e vgr er
       | None \<Rightarrow> do {
           let named = (if vgs_volumeGroupReplicationContentName (vgr_spec vgr) = []
                 then vgr\<lparr>vgr_spec := (vgr_spec vgr)\<lparr>vgs_volumeGroupReplicationContentName := om_name (vgrc_meta c)\<rparr>\<rparr> else vgr);
           r \<leftarrow> (if vgs_volumeGroupReplicationContentName (vgr_spec vgr) = [] then Update_VGR e named else ret (Inr vgr));
           (case r of
              Inl er \<Rightarrow> group_failed e named er
            | Inr vgr \<Rightarrow> if vgcs_handle (vgrc_spec c) = [] then ret done_ok else VGR_replicate e g vgr vrObj)
         }))" if "snd r = None \<longrightarrow> content_answer e g (fst r)" for r
    using that unfolding Update_VGR_def
    by (cases r; cases "snd r") (auto intro!: emits_intros emits_group_failed intro: emits_VGR_replicate)
  show ?thesis
    unfolding VGR_content_def
  proof (rule emits_bind, goal_cases)
    case 1
    show ?case by (intro emits_claims) simp_all
  next
    case (2 hr)
    show ?case
    proof (cases hr)
      case (Inr hs)
      show ?thesis
        unfolding Inr sum.case
        by (rule emits_bind_returns [OF _ content_returned grouped]) (auto intro: emits_content_CR)
    qed (simp add: emits_group_failed)
  qed
qed

lemma emits_VGR_Reconcile: "emits (vr_after_group e g) (VGR_Reconcile e g n req)"
  unfolding VGR_Reconcile_def VGR_update_def VGR_claims_def VGR_delete_def VGR_release_def cleanupVR_def cleanupVGRContent_def
    getMatchingPVCsFromSource_def getVolumeGroupReplicationClass_def api_defs StatusUpdate_VGR_def Delete_VR_def Delete_VGRContent_def
  by (intro emits_intros emits_group_failed emits_VGR_content emits_claims emits_cleanupGroupPVC vgr_fin.emits_add vgr_fin.emits_rem) simp_all

section \<open>The content is written only when it changes\<close>

lemma SetMetaDataAnnotation_same: "map_of (om_annotations m) k = Some v \<Longrightarrow> SetMetaDataAnnotation m k v = m"
  by (simp add: SetMetaDataAnnotation_def map_of_SomeD update_triv)

lemma mutate_content_key: "mutate_content vgr d hs c = Inr c' \<Longrightarrow> meta_key (vgrc_meta c') = meta_key (vgrc_meta c)"
  by (auto simp: mutate_content_def meta_key_def SetMetaDataAnnotation_def Let_def split: if_splits)

text \<open>A second mutation with the same driver and volumes changes nothing.\<close>

lemma mutate_content_again:
  assumes "mutate_content vgr d hs c = Inr c'" "om_creationTimestamp (vgrc_meta c) \<noteq> None"
  shows "mutate_content vgr d hs c' = Inr c'"
proof -
  obtain ts where ts: "om_creationTimestamp (vgrc_meta c) = Some ts" using assms(2) by blast
  let ?m = "if mget (om_annotations (vgrc_meta c)) volumeGroupReplicationRef \<noteq> vgr_ref vgr
      then SetMetaDataAnnotation (vgrc_meta c) volumeGroupReplicationRef (vgr_ref vgr) else vgrc_meta c"
  have c': "c' = c\<lparr>vgrc_meta := SetMetaDataAnnotation ?m annDynamicallyProvisioned d,
      vgrc_spec := (if vgcs_ref (vgrc_spec c) = None then (vgrc_spec c)\<lparr>vgcs_ref := Some (vgr_key vgr)\<rparr> else vgrc_spec c)
        \<lparr>vgcs_volumeHandles := hs\<rparr>\<rparr>"
    using assms(1) ts by (simp add: mutate_content_def Let_def)
  have neq: "volumeGroupReplicationRef \<noteq> annDynamicallyProvisioned"
    by (simp add: volumeGroupReplicationRef_def annDynamicallyProvisioned_def)
  have ts': "om_creationTimestamp (vgrc_meta c') = Some ts" using ts by (simp add: c' SetMetaDataAnnotation_def)
  have r: "mget (om_annotations (vgrc_meta c')) volumeGroupReplicationRef = vgr_ref vgr"
    using neq by (simp add: c' SetMetaDataAnnotation_def)
  have "map_of (om_annotations (vgrc_meta c')) annDynamicallyProvisioned = Some d"
    by (simp add: c' SetMetaDataAnnotation_def update_conv')
  then have d: "SetMetaDataAnnotation (vgrc_meta c') annDynamicallyProvisioned d = vgrc_meta c'"
    by (rule SetMetaDataAnnotation_same)
  have "vgcs_ref (vgrc_spec c') \<noteq> None" "vgcs_volumeHandles (vgrc_spec c') = hs" by (simp_all add: c')
  with ts' r d show ?thesis by (simp add: mutate_content_def Let_def)
qed

lemma getPVHandles_loop_run:
  assumes "\<forall>p \<in> set ps. \<forall>h. \<exists>v csi. e_getPV e h \<lparr>nn_namespace = [], nn_name = pvc_volumeName p\<rparr> = Inr v \<and>
      pv_csi v = Some csi \<and> csi_driver csi = rc_provisioner k \<and> csi_volumeHandle csi = hd_of p"
  shows "fst (run_state (getPVHandles_loop e k acc ps) w) = Inr (acc @ map hd_of ps)"
  using assms
proof (induction ps arbitrary: acc w)
  case (Cons p ps)
  from Cons.prems obtain v csi where "e_getPV e (trace w) \<lparr>nn_namespace = [], nn_name = pvc_volumeName p\<rparr> = Inr v"
    "pv_csi v = Some csi" "csi_driver csi = rc_provisioner k" "csi_volumeHandle csi = hd_of p" by fastforce
  with Cons show ?case by (simp add: Get_PV_def run_defs)
qed simp

end
