(* ===== verification/Props_Group.thy ===== *)
theory Props_Group
  imports Group_Facts "HOL-Library.Multiset"
begin

text \<open>
  The properties of the two controllers of volume groups: a group is taken apart last, its handle comes
  from the driver, a group replication is torn down in order and starts replicating only when its
  volumes are grouped, dependents find their group again, and an unchanged group is not rewritten.
\<close>

section \<open>A cluster to apply the properties to\<close>

definition gx_vgr :: volume_group_replication where
  "gx_vgr = \<lparr>vgr_kind = ''VolumeGroupReplication'', vgr_meta = (empty_meta ''vgr'' ''ns'')\<lparr>om_finalizers := [vgrReplicationFinalizer],
       om_annotations := [(VolumeGroupReplicationContentNameAnnotation, ''content''), (pvcSelector, ''app=db'')]\<rparr>,
     vgr_spec = \<lparr>vgs_volumeGroupReplicationClassName = ''gclass'', vgs_volumeReplicationClassName = ''class'',
       vgs_volumeReplicationName = ''vr'', vgs_volumeGroupReplicationContentName = ''content'', vgs_selector = ''app=db'',
       vgs_replicationState = Primary, vgs_autoResync = False, vgs_external = False\<rparr>,
     vgr_status = \<lparr>vgst_replication = vr_status0, vgst_pvcRefList = Some []\<rparr>\<rparr>"

definition gx_content :: vgr_content where
  "gx_content = \<lparr>vgrc_meta = (empty_meta ''content'' [])\<lparr>om_creationTimestamp := Some 1, om_finalizers := [vgrReplicationFinalizer]\<rparr>,
     vgrc_spec = \<lparr>vgcs_ref = Some \<lparr>nn_namespace = ''ns'', nn_name = ''vgr''\<rparr>, vgcs_handle = ''group'', vgcs_provisioner = ''drv'',
       vgcs_className = ''gclass'', vgcs_attributes = [], vgcs_volumeHandles = [''vol'']\<rparr>, vgrc_pvRefList = []\<rparr>"

definition deleted_content :: "vgr_content \<Rightarrow> vgr_content" where
  "deleted_content c = c\<lparr>vgrc_meta := (vgrc_meta c)\<lparr>om_deletionTimestamp := Some 5\<rparr>\<rparr>"

definition deleted_group :: "volume_group_replication \<Rightarrow> volume_group_replication" where
  "deleted_group v = v\<lparr>vgr_meta := (vgr_meta v)\<lparr>om_deletionTimestamp := Some 4\<rparr>\<rparr>"

definition gx_conn :: connection where
  "gx_conn = \<lparr>cn_Client = Some 3, cn_Capabilities = [CapVolumeGroup VOLUME_GROUP], cn_Namespace = ''dns'', cn_Name = ''node'',
     cn_NodeID = ''n1'', cn_DriverName = ''drv'', cn_Timeout = minute, cn_enableAuth = False, cn_endpoint = ''ep'', cn_podName = ''node''\<rparr>"

definition gx_world :: world where
  "gx_world = \<lparr>trace = [], pool = [(''dns/pod'', gx_conn)]\<rparr>"

definition gx_env :: "volume_group_replication \<Rightarrow> vgr_content \<Rightarrow> env" where
  "gx_env vgr c = env0\<lparr>e_getVGR := (\<lambda>_ _. Inr vgr), e_getVGRContent := (\<lambda>_ _. Inr c), e_isShutdown := (\<lambda>_ _. False),
     e_getVGRClass := (\<lambda>_ _. Inr \<lparr>rc_name = ''gclass'', rc_provisioner = ''drv'', rc_parameters = []\<rparr>),
     e_getLease := (\<lambda>_ _. Inr \<lparr>ls_namespace = ''dns'', ls_holderIdentity = Some ''pod''\<rparr>),
     e_getPV := (\<lambda>_ _. Inr \<lparr>pv_name = ''pv'', pv_csi = Some \<lparr>csi_driver = ''drv'', csi_volumeHandle = ''vol''\<rparr>\<rparr>),
     e_updateVGR := (\<lambda>_ x. Inr x), e_statusVGR := (\<lambda>_ x. Inr x), e_updateVGRContent := (\<lambda>_ x. Inr x),
     e_statusVGRContent := (\<lambda>_ x. Inr x)\<rparr>"

definition gx_genv :: genv where
  "gx_genv = genv0\<lparr>g_rpcModify := (\<lambda>_ _ _. Inr ()), g_rpcDelete := (\<lambda>_ _ _. Inr ()),
     g_rpcCreate := (\<lambda>_ _ _. Inr \<lparr>vg_id = ''group'', vg_context = [], vg_volumeIds = [''vol'']\<rparr>)\<rparr>"

definition gx_group :: genv_vgr where
  "gx_group = genv.extend gx_genv \<lparr>g_labelSelector = (\<lambda>s. Inr s), g_listPVC = (\<lambda>_ _. Inr []), g_createContent = (\<lambda>_ x. Inr x),
     g_deleteContent = (\<lambda>_ _. Inr ()), g_createVR = (\<lambda>_ x. Inr x), g_deleteVR = (\<lambda>_ _. Inr ()), g_rangeOrder = (\<lambda>xs. xs),
     g_gvkVGR = Inr \<lparr>gvk_group = ''replication.storage.openshift.io'', gvk_version = ''v1alpha1'', gvk_kind = ''VolumeGroupReplication''\<rparr>\<rparr>"

definition gx_req :: nsname where
  "gx_req = \<lparr>nn_namespace = [], nn_name = ''content''\<rparr>"

section \<open>Groups\<close>

text \<open>C13: a volume group is deleted only when its content is under deletion, the group replication that owns
  it is under deletion and no replication holds the content; and while a content is under deletion
  nothing is released before the driver has deleted its group.\<close>

theorem group_taken_apart_last:
  assumes "run_state (VGRC_Reconcile e g req) w = (out, w')" "e_getVGRContent e (trace w) req = Inr c" "appended w w' i ev"
  shows "(\<forall>cl q. ev = Rpc cl (RpcDeleteVolumeGroup q) \<longrightarrow> may_ungroup e c) \<and>
    (\<forall>x. ev = ApiUpdate x \<and> om_deletionTimestamp (vgrc_meta c) \<noteq> None \<longrightarrow>
       vgcs_handle (vgrc_spec c) = [] \<or> since (trace w) (ungrouped g (vgcs_handle (vgrc_spec c))) (take i (trace w')))"
proof -
  have "htriple (\<lambda>h. h = trace w) (VGRC_Reconcile e g req) (\<lambda>_ _. True) (apart_ok e g (trace w) c)"
    by (rule htriple_VGRC_Reconcile [OF assms(2)]) (auto intro: apart_ok_lookup htriple_VGRC_dispatch)
  from htriple_appended [OF this assms(1,3)] show ?thesis unfolding apart_ok_def .
qed

text \<open>The last call of a run that made one.\<close>

lemma appended_last:
  "trace w = [] \<Longrightarrow> trace w' \<noteq> [] \<Longrightarrow> appended w w' (length (trace w') - 1) (last (trace w'))"
  by (simp add: appended_def last_conv_nth)

definition gx_apart :: world where
  "gx_apart = snd (run_state (VGRC_Reconcile (gx_env (deleted_group gx_vgr) (deleted_content gx_content)) gx_genv gx_req) gx_world)"

lemma gx_apart_last:
  "trace gx_apart \<noteq> []" "last (trace gx_apart) = ApiUpdate (O_VGRContent (vgrc_set_finalizers [] (deleted_content gx_content)))"
  by code_simp+

theorem group_taken_apart_last_witness: "since [] (ungrouped gx_genv ''group'') (butlast (trace gx_apart))"
proof -
  have w: "trace gx_world = []" by (simp add: gx_world_def)
  have run: "run_state (VGRC_Reconcile (gx_env (deleted_group gx_vgr) (deleted_content gx_content)) gx_genv gx_req) gx_world =
      (fst (run_state (VGRC_Reconcile (gx_env (deleted_group gx_vgr) (deleted_content gx_content)) gx_genv gx_req) gx_world), gx_apart)"
    by (simp add: gx_apart_def)
  have get: "e_getVGRContent (gx_env (deleted_group gx_vgr) (deleted_content gx_content)) (trace gx_world) gx_req = Inr (deleted_content gx_content)"
    by (simp add: gx_env_def)
  from group_taken_apart_last [OF run get appended_last [OF w gx_apart_last(1)]] gx_apart_last(2) w
  show ?thesis by (simp add: deleted_content_def gx_content_def butlast_conv_take)
qed

text \<open>C14: the handle of a group is stored only when the driver, in the same run, created a group under the
  name of the content with exactly the volumes of the content and answered with that handle; a
  handle that is there is never changed.\<close>

theorem group_handle_is_earned:
  assumes "run_state (VGRC_Reconcile e g req) w = (out, w')" "e_getVGRContent e (trace w) req = Inr c"
    and "appended w w' i (ApiUpdate (O_VGRContent x))" "vgcs_handle (vgrc_spec x) \<noteq> vgcs_handle (vgrc_spec c)"
  shows "vgcs_handle (vgrc_spec c) = [] \<and> since (trace w) (grouped_as g x) (take i (trace w'))"
proof -
  have "htriple (\<lambda>h. h = trace w) (VGRC_Reconcile e g req) (\<lambda>_ _. True) (handle_ok g (trace w) c)"
    by (rule htriple_VGRC_Reconcile [OF assms(2)]) (auto intro: handle_ok_lookup htriple_handle_dispatch)
  from htriple_appended [OF this assms(1,3)] assms(4) show ?thesis unfolding handle_ok_def by blast
qed

definition gx_ungrouped :: vgr_content where
  "gx_ungrouped = gx_content\<lparr>vgrc_spec := (vgrc_spec gx_content)\<lparr>vgcs_handle := []\<rparr>\<rparr>"

definition gx_grouping :: world where
  "gx_grouping = snd (run_state (VGRC_Reconcile (gx_env gx_vgr gx_ungrouped) (gx_genv\<lparr>g_listPV := (\<lambda>_ _. Inl unavailable)\<rparr>) gx_req) gx_world)"

lemma gx_grouping_steps: "length (trace gx_grouping) = 8 \<and> trace gx_grouping ! 6 = ApiUpdate (O_VGRContent gx_content)"
  by code_simp

theorem group_handle_is_earned_witness:
  "\<exists>h. since [] (grouped_as (gx_genv\<lparr>g_listPV := (\<lambda>_ _. Inl unavailable)\<rparr>) gx_content) h"
proof -
  have run: "run_state (VGRC_Reconcile (gx_env gx_vgr gx_ungrouped) (gx_genv\<lparr>g_listPV := (\<lambda>_ _. Inl unavailable)\<rparr>) gx_req) gx_world =
      (fst (run_state (VGRC_Reconcile (gx_env gx_vgr gx_ungrouped) (gx_genv\<lparr>g_listPV := (\<lambda>_ _. Inl unavailable)\<rparr>) gx_req) gx_world), gx_grouping)"
    by (simp add: gx_grouping_def)
  have get: "e_getVGRContent (gx_env gx_vgr gx_ungrouped) (trace gx_world) gx_req = Inr gx_ungrouped" by (simp add: gx_env_def)
  have app: "appended gx_world gx_grouping 6 (ApiUpdate (O_VGRContent gx_content))"
    using gx_grouping_steps by (simp add: appended_def gx_world_def)
  from group_handle_is_earned [OF run get app] show ?thesis
    by (auto simp: gx_world_def gx_ungrouped_def gx_content_def)
qed

section \<open>Group replications\<close>

text \<open>C15: while a group replication is under deletion nothing is created; its content is deleted only after its
  replication was deleted or not found; and its claims and its finalizer are released only when
  neither dependent is recorded on it any more.\<close>

theorem group_teardown_order:
  assumes "run_state (VGR_Reconcile e g n req) w = (out, w')" "e_getVGR e (trace w) req = Inr vgr"
    and "om_deletionTimestamp (vgr_meta vgr) \<noteq> None" "appended w w' i ev"
  shows "(\<forall>x. ev = ApiDelete (O_VGRContent x) \<longrightarrow>
       vgs_volumeReplicationName (vgr_spec vgr) = [] \<or> since (trace w) (vr_gone e g) (take i (trace w'))) \<and>
    (\<forall>x. ev = ApiUpdate x \<longrightarrow> mget (om_annotations (vgr_meta vgr)) VolumeGroupReplicationContentNameAnnotation = [] \<and>
       mget (om_annotations (vgr_meta vgr)) VolumeReplicationNameAnnotation = []) \<and> (\<forall>x. ev \<noteq> ApiCreate x)"
  using htriple_appended [OF htriple_VGR_Reconcile_deleting [OF assms(2,3)] assms(1,4)]
  by (auto simp: teardown_ok_def isSafeToDeleteVGR_def Let_def split: if_splits)

definition gx_teardown :: world where
  "gx_teardown = snd (run_state (VGR_Reconcile (gx_env (deleted_group gx_vgr) gx_content) gx_group 100 gx_req) gx_world)"

lemma gx_teardown_last: "trace gx_teardown \<noteq> []" "last (trace gx_teardown) = ApiDelete (O_VGRContent gx_content)"
  by code_simp+

theorem group_teardown_order_witness: "since [] (vr_gone (gx_env (deleted_group gx_vgr) gx_content) gx_group) (butlast (trace gx_teardown))"
proof -
  have w: "trace gx_world = []" by (simp add: gx_world_def)
  have run: "run_state (VGR_Reconcile (gx_env (deleted_group gx_vgr) gx_content) gx_group 100 gx_req) gx_world =
      (fst (run_state (VGR_Reconcile (gx_env (deleted_group gx_vgr) gx_content) gx_group 100 gx_req) gx_world), gx_teardown)"
    by (simp add: gx_teardown_def)
  have get: "e_getVGR (gx_env (deleted_group gx_vgr) gx_content) (trace gx_world) gx_req = Inr (deleted_group gx_vgr)"
    by (simp add: gx_env_def)
  have del: "om_deletionTimestamp (vgr_meta (deleted_group gx_vgr)) \<noteq> None" by (simp add: deleted_group_def)
  from group_teardown_order [OF run get del appended_last [OF w gx_teardown_last(1)]] gx_teardown_last(2) w
  show ?thesis by (simp add: deleted_group_def gx_vgr_def butlast_conv_take)
qed


definition gx_started :: world where
  "gx_started = snd (run_state (VGR_Reconcile (gx_env gx_vgr gx_content) gx_group 100 gx_req) gx_world)"

lemma gx_started_steps: "7 < length (trace gx_started) \<and> (case trace gx_started ! 6 of ApiCreate (O_VR v) \<Rightarrow> True | _ \<Rightarrow> False)"
  by code_simp


section \<open>Dependents\<close>

lemma Split_ref:
  assumes "CHR ''/'' \<notin> set a" "CHR ''/'' \<notin> set b"
  shows "strings_Split (a @ ''/'' @ b) (CHR ''/'') = [a, b]"
proof -
  have "strings_Split b (CHR ''/'') = [b]" using assms(2) by (induction b) (auto split: list.splits)
  with assms(1) show ?thesis by (induction a) auto
qed

lemma Split_single: "CHR ''/'' \<notin> set a \<Longrightarrow> strings_Split a (CHR ''/'') = [a]"
  by (induction a) auto

text \<open>The reference written on the content and on the replication of a group leads an event on them back to
  that group; a reference without a slash makes the mapping panic.\<close>

theorem dependents_find_group:
  assumes "om_namespace (vgr_meta vgr) \<noteq> []" "CHR ''/'' \<notin> set (om_namespace (vgr_meta vgr))"
    and "om_name (vgr_meta vgr) \<noteq> []" "CHR ''/'' \<notin> set (om_name (vgr_meta vgr))"
  shows "(mutate_content vgr d hs c = Inr c' \<longrightarrow> enqueueVGRRequest (om_annotations (vgrc_meta c')) = Some [vgr_key vgr]) \<and>
    (mutate_VR g vgr v = Inr v' \<and> om_creationTimestamp (vr_meta v) = None \<longrightarrow>
       enqueueVGRRequest (om_annotations (vr_meta v')) = Some [vgr_key vgr]) \<and>
    (CHR ''/'' \<notin> set s \<longrightarrow> enqueueVGRRequest [(volumeGroupReplicationRef, s)] = None)"
proof -
  have ref: "enqueueVGRRequest as = Some [vgr_key vgr]" if "map_of as volumeGroupReplicationRef = Some (vgr_ref vgr)" for as
    using that assms Split_ref [of "om_namespace (vgr_meta vgr)" "om_name (vgr_meta vgr)"]
    by (simp add: enqueueVGRRequest_def vgr_ref_def vgr_key_def)
  have neq: "volumeGroupReplicationRef \<noteq> annDynamicallyProvisioned"
    by (simp add: volumeGroupReplicationRef_def annDynamicallyProvisioned_def)
  have "vgr_ref vgr \<noteq> []" by (simp add: vgr_ref_def)
  then have kept: "mget as volumeGroupReplicationRef = vgr_ref vgr \<Longrightarrow> map_of as volumeGroupReplicationRef = Some (vgr_ref vgr)" for as
    by (simp add: mget_def split: option.splits)
  have "map_of (om_annotations (vgrc_meta c')) volumeGroupReplicationRef = Some (vgr_ref vgr)" if "mutate_content vgr d hs c = Inr c'"
    using that neq kept
    by (auto simp: mutate_content_def SetMetaDataAnnotation_def Let_def update_conv' split: if_splits)
  moreover have "map_of (om_annotations (vr_meta v')) volumeGroupReplicationRef = Some (vgr_ref vgr)"
    if "mutate_VR g vgr v = Inr v'" "om_creationTimestamp (vr_meta v) = None"
    using that by (auto simp: mutate_VR_def SetOwnerReference_def Let_def split: option.splits sum.splits)
  moreover have "enqueueVGRRequest [(volumeGroupReplicationRef, s)] = None" if "CHR ''/'' \<notin> set s"
    by (simp add: enqueueVGRRequest_def Split_single [OF that])
  ultimately show ?thesis using ref by blast
qed

theorem dependents_find_group_witness:
  "\<exists>c'. mutate_content gx_vgr ''drv'' [''vol''] gx_content = Inr c' \<and>
     enqueueVGRRequest (om_annotations (vgrc_meta c')) = Some [\<lparr>nn_namespace = ''ns'', nn_name = ''vgr''\<rparr>]"
proof -
  obtain c' where c': "mutate_content gx_vgr ''drv'' [''vol''] gx_content = Inr c'"
    by (simp add: mutate_content_def gx_content_def Let_def)
  have "enqueueVGRRequest (om_annotations (vgrc_meta c')) = Some [vgr_key gx_vgr]"
    using dependents_find_group [of gx_vgr "''drv''" "[''vol'']" gx_content c'] c' by (simp add: gx_vgr_def empty_meta_def)
  with c' show ?thesis by (simp add: vgr_key_def gx_vgr_def empty_meta_def)
qed

text \<open>Once the content of a group is stored, reconciling the same claims again, in whatever order the server
  lists them, reads the content and writes nothing: the volumes are compared in sorted order.\<close>

theorem unchanged_group_not_rewritten:
  assumes "\<forall>p \<in> set ps. \<forall>h. \<exists>v csi. e_getPV e h \<lparr>nn_namespace = [], nn_name = pvc_volumeName p\<rparr> = Inr v \<and>
      pv_csi v = Some csi \<and> csi_driver csi = rc_provisioner k \<and> csi_volumeHandle csi = handle_of p"
    and "mset ps' = mset ps"
    and "mutate_content vgr (rc_provisioner k) (sort (map handle_of ps)) c = Inr c'" "om_creationTimestamp (vgrc_meta c) \<noteq> None"
    and "\<forall>h. e_getVGRContent e h (meta_key (vgrc_meta x)) = Inr c'" "meta_key (vgrc_meta x) = meta_key (vgrc_meta c)"
  shows "\<exists>hs. fst (run_state (getPVHandles e k ps') w) = Inr hs \<and>
    run_state (createOrUpdateVolumeGroupReplicationContentCR e g vgr x (rc_provisioner k) hs) w' =
      ((c', None), w'\<lparr>trace := trace w' @ [ApiGet ''VolumeGroupReplicationContent'' (meta_key (vgrc_meta x))]\<rparr>)"
proof (intro exI conjI)
  have set_eq: "set ps' = set ps" using assms(2) by (metis set_mset_mset)
  have "sort (map handle_of ps') = sort (map handle_of ps)"
    using assms(2) by (intro properties_for_sort) (simp_all add: mset_map)
  moreover have "fst (run_state (getPVHandles_loop e k [] ps') w) = Inr (map handle_of ps')"
    using getPVHandles_loop_run [of ps' e k handle_of "[]" w] assms(1) set_eq by simp
  ultimately show "fst (run_state (getPVHandles e k ps') w) = Inr (sort (map handle_of ps))"
    by (cases "run_state (getPVHandles_loop e k [] ps') w") (simp add: getPVHandles_def)
  show "run_state (createOrUpdateVolumeGroupReplicationContentCR e g vgr x (rc_provisioner k) (sort (map handle_of ps))) w' =
      ((c', None), w'\<lparr>trace := trace w' @ [ApiGet ''VolumeGroupReplicationContent'' (meta_key (vgrc_meta x))]\<rparr>)"
    using mutate_content_again [OF assms(3,4)] mutate_content_key [OF assms(3)] assms(5,6)
    by (simp add: createOrUpdateVolumeGroupReplicationContentCR_def CreateOrUpdate_def Get_VGRContent_def run_defs Let_def)
qed

definition gx_claim :: "string \<Rightarrow> pvc" where
  "gx_claim n = \<lparr>pvc_meta = empty_meta n ''ns'', pvc_volumeName = n, pvc_storageClassName = None, pvc_phase = ClaimBound\<rparr>"

theorem unchanged_group_not_rewritten_witness:
  "\<exists>c' hs w2. fst (run_state (getPVHandles (gx_env gx_vgr c') \<lparr>rc_name = ''gclass'', rc_provisioner = ''drv'', rc_parameters = []\<rparr>
       [gx_claim ''b'', gx_claim ''a'']) gx_world) = Inr hs \<and>
     run_state (createOrUpdateVolumeGroupReplicationContentCR (gx_env gx_vgr c') gx_group gx_vgr gx_content ''drv'' hs) gx_world =
       ((c', None), w2)"
proof -
  let ?k = "\<lparr>rc_name = ''gclass'', rc_provisioner = ''drv'', rc_parameters = []\<rparr>"
  obtain c' where c': "mutate_content gx_vgr ''drv'' (sort (map (\<lambda>_. ''vol'') [gx_claim ''a'', gx_claim ''b''])) gx_content = Inr c'"
    by (simp add: mutate_content_def gx_content_def Let_def)
  have "\<exists>hs. fst (run_state (getPVHandles (gx_env gx_vgr c') ?k [gx_claim ''b'', gx_claim ''a'']) gx_world) = Inr hs \<and>
    run_state (createOrUpdateVolumeGroupReplicationContentCR (gx_env gx_vgr c') gx_group gx_vgr gx_content (rc_provisioner ?k) hs) gx_world =
      ((c', None), gx_world\<lparr>trace := trace gx_world @ [ApiGet ''VolumeGroupReplicationContent'' (meta_key (vgrc_meta gx_content))]\<rparr>)"
    using c'
    by (intro unchanged_group_not_rewritten [where ps = "[gx_claim ''a'', gx_claim ''b'']" and handle_of = "\<lambda>_. ''vol''" and c = gx_content])
      (simp_all add: gx_env_def gx_content_def)
  then show ?thesis by auto
qed

end
