(* ===== verification/Pvc_Schedules.thy ===== *)
theory Pvc_Schedules
  imports Cron_Jobs Conn_Pool
begin

text \<open>
  The controllers that keep a scheduler for every annotated claim:
  \<open>internal/controller/csiaddons/persistentvolumeclaim_controller.go\<close>, which reads the annotations of
  claim, namespace and storage class, and \<open>internal/controller/csiaddons/pvc_new_controller.go\<close>, which
  replaces it when only storage classes count. With them the helpers of
  \<open>internal/controller/utils/reclaimspace_keyrotation.go\<close> and \<open>internal/controller/utils/predicates.go\<close>.
  A strategic merge patch of annotations is the list of the changes its JSON text encodes: a value to
  set, or \<open>None\<close> for a null that removes the annotation.
\<close>

section \<open>The environment\<close>

record senv =
  s_cron :: cenv
  s_getNamespace :: "(nsname, object_meta) answer"
  s_getStorageClass :: "(nsname, object_meta) answer"
  s_listPVC :: "(unit, pvc list) answer"
  s_patchPVC :: "(pvc \<times> (string \<times> string option) list, pvc) answer"
  s_listRSCron :: "(string, cronjob list) answer"
  s_createRSCron :: "(cronjob, cronjob) answer"
  s_updateRSCron :: "(cronjob, cronjob) answer"
  s_deleteRSCron :: "(cronjob, unit) answer"
  s_listKRCron :: "(string, cronjob list) answer"
  s_createKRCron :: "(cronjob, cronjob) answer"
  s_updateKRCron :: "(cronjob, cronjob) answer"
  s_deleteKRCron :: "(cronjob, unit) answer"
  s_gvkPVC :: "goerr + gvk"

text \<open>The two kinds of scheduler, with the calls that belong to each.\<close>

record sched_kind =
  sk_name :: string
  sk_get :: "(nsname, cronjob) answer"
  sk_list :: "(string, cronjob list) answer"
  sk_create :: "(cronjob, cronjob) answer"
  sk_update :: "(cronjob, cronjob) answer"
  sk_delete :: "(cronjob, unit) answer"
  sk_obj :: "cronjob \<Rightarrow> obj"
  sk_setSpec :: "cronjob \<Rightarrow> string \<Rightarrow> string \<Rightarrow> cronjob"

text \<open>The index of schedulers by the claim that owns them.\<close>

definition ExtractOwnerNameFromPVCObj :: "object_meta \<Rightarrow> string list" where
  "ExtractOwnerNameFromPVCObj job =
     (case GetControllerOf job of
        None \<Rightarrow> []
      | Some owner \<Rightarrow>
          if or_apiVersion owner \<noteq> ''v1'' \<or> or_kind owner \<noteq> ''PersistentVolumeClaim'' then [] else [or_name owner])"

text \<open>The index of claims by storage class.\<close>

definition storageClassIndex :: "pvc \<Rightarrow> string list" where
  "storageClassIndex p =
     (case pvc_storageClassName p of
        None \<Rightarrow> []
      | Some n \<Rightarrow> if length n = 0 then [] else [n])"

definition Get_Sched :: "sched_kind \<Rightarrow> nsname \<Rightarrow> (goerr + cronjob) prog" where
  "Get_Sched k nn = call (\<lambda>h. sk_get k h nn) (ApiGet (sk_name k) nn)"
definition Create_Sched :: "sched_kind \<Rightarrow> cronjob \<Rightarrow> (goerr + cronjob) prog" where
  "Create_Sched k cj = call (\<lambda>h. sk_create k h cj) (ApiCreate (sk_obj k cj))"
definition Update_Sched :: "sched_kind \<Rightarrow> cronjob \<Rightarrow> (goerr + cronjob) prog" where
  "Update_Sched k cj = call (\<lambda>h. sk_update k h cj) (ApiUpdate (sk_obj k cj))"
definition Delete_Sched :: "sched_kind \<Rightarrow> cronjob \<Rightarrow> (goerr + unit) prog" where
  "Delete_Sched k cj = call (\<lambda>h. sk_delete k h cj) (ApiDelete (sk_obj k cj))"
definition Get_Namespace :: "senv \<Rightarrow> nsname \<Rightarrow> (goerr + object_meta) prog" where
  "Get_Namespace s nn = call (\<lambda>h. s_getNamespace s h nn) (ApiGet ''Namespace'' nn)"
definition Get_StorageClass :: "senv \<Rightarrow> nsname \<Rightarrow> (goerr + object_meta) prog" where
  "Get_StorageClass s nn = call (\<lambda>h. s_getStorageClass s h nn) (ApiGet ''StorageClass'' nn)"
definition Patch_PVC :: "senv \<Rightarrow> pvc \<Rightarrow> (string \<times> string option) list \<Rightarrow> (goerr + pvc) prog" where
  "Patch_PVC s p patch = call (\<lambda>h. s_patchPVC s h (p, patch)) (ApiPatch (O_PVC p) patch)"

text \<open>The server answers with the schedulers of the namespace, the index selects those of the claim.\<close>

definition List_Sched :: "sched_kind \<Rightarrow> nsname \<Rightarrow> (goerr + cronjob list) prog" where
  "List_Sched k req = do {
     r \<leftarrow> call (\<lambda>h. sk_list k h (nn_namespace req)) (ApiList (sk_name k) (nn_namespace req));
     (case r of
        Inl err \<Rightarrow> ret (Inl err)
      | Inr jobs \<Rightarrow> ret (Inr (filter (\<lambda>job. nn_name req \<in> set (ExtractOwnerNameFromPVCObj (cj_meta job))) jobs)))
   }"

definition List_PVC :: "senv \<Rightarrow> string \<Rightarrow> (goerr + pvc list) prog" where
  "List_PVC s scName = do {
     r \<leftarrow> call (\<lambda>h. s_listPVC s h ()) (ApiList ''PersistentVolumeClaim'' []);
     (case r of
        Inl err \<Rightarrow> ret (Inl err)
      | Inr claims \<Rightarrow> ret (Inr (filter (\<lambda>p. scName \<in> set (storageClassIndex p)) claims)))
   }"

section \<open>Errors and constants\<close>

definition ErrConnNotFoundRequeueNeeded :: goerr where
  "ErrConnNotFoundRequeueNeeded = Sentinel ''connection not found, requeue needed''"
definition ErrScheduleNotFound :: goerr where
  "ErrScheduleNotFound = Sentinel ''schedule not found''"

text \<open>\<open>errors.Is\<close> for a sentinel follows the chain of wrapped errors.\<close>

fun errors_Is :: "goerr \<Rightarrow> goerr \<Rightarrow> bool" where
  "errors_Is (ErrWrap pre err post) target = errors_Is err target"
| "errors_Is err target = (err = target)"

definition IgnoreNotFound :: "goerr \<Rightarrow> goerr option" where
  "IgnoreNotFound err = (if IsNotFound err then None else Some err)"
definition IgnoreAlreadyExists :: "goerr \<Rightarrow> goerr option" where
  "IgnoreAlreadyExists err = (if IsAlreadyExists err then None else Some err)"

abbreviation (input) defaultSchedule :: string where "defaultSchedule \<equiv> ''@weekly''"
abbreviation (input) relciamSpaceOp :: string where "relciamSpaceOp \<equiv> ''reclaimspace''"
abbreviation (input) keyRotationOp :: string where "keyRotationOp \<equiv> ''keyrotation''"
abbreviation (input) rsCSIAddonsDriverAnnotation :: string where
  "rsCSIAddonsDriverAnnotation \<equiv> ''reclaimspace.csiaddons.openshift.io/drivers''"
abbreviation (input) krCSIAddonsDriverAnnotation :: string where
  "krCSIAddonsDriverAnnotation \<equiv> ''keyrotation.csiaddons.openshift.io/drivers''"
abbreviation (input) DefaultFailedJobsHistoryLimit :: int where "DefaultFailedJobsHistoryLimit \<equiv> 1"
abbreviation (input) DefaultSuccessfulJobsHistoryLimit :: int where "DefaultSuccessfulJobsHistoryLimit \<equiv> 3"

section \<open>The schedule of a claim\<close>

definition getScheduleFromAnnotation :: "senv \<Rightarrow> string \<Rightarrow> strmap \<Rightarrow> string option" where
  "getScheduleFromAnnotation s key annotations =
     (case map_of annotations key of
        None \<Rightarrow> None
      | Some schedule \<Rightarrow>
          (case c_parseStandard (s_cron s) schedule of
             Inl err \<Rightarrow> Some defaultSchedule
           | Inr _ \<Rightarrow> Some schedule))"

definition op_capability :: "string \<Rightarrow> capability \<Rightarrow> bool" where
  "op_capability op c =
     (if op = relciamSpaceOp then (case c of CapReclaimSpace _ \<Rightarrow> True | _ \<Rightarrow> False)
      else if op = keyRotationOp then (case c of CapEncryptionKeyRotation _ \<Rightarrow> True | _ \<Rightarrow> False)
      else False)"

text \<open>Whether to requeue, whether the capability is registered, and the error.\<close>

definition checkDriverSupportCapability :: "env \<Rightarrow> strmap \<Rightarrow> string \<Rightarrow> string \<Rightarrow> (bool \<times> bool \<times> goerr option) prog" where
  "checkDriverSupportCapability e annotations driverName op =
     (if op \<noteq> relciamSpaceOp \<and> op \<noteq> keyRotationOp then ret (False, False, None)
      else do {
        let driverAnnotation = (if op = relciamSpaceOp then rsCSIAddonsDriverAnnotation else krCSIAddonsDriverAnnotation);
        let driverSupportsCap = (case map_of annotations driverAnnotation of
              None \<Rightarrow> False
            | Some drivers \<Rightarrow> driverAnnotation \<in> set (strings_Split drivers (CHR '','')));
        r \<leftarrow> GetByNodeID e driverName [];
        (case r of
           Inl err \<Rightarrow> ret (False, False, Some err)
         | Inr conns \<Rightarrow>
             if list_ex (\<lambda>(key, conn). list_ex (op_capability op) (cn_Capabilities conn)) conns
             then ret (False, True, None)
             else if driverSupportsCap then ret (True, False, None)
             else ret (False, False, None))
      })"

definition hasValidStorageClassName :: "pvc \<Rightarrow> bool" where
  "hasValidStorageClassName p = (case pvc_storageClassName p of None \<Rightarrow> False | Some n \<Rightarrow> 0 < length n)"

text \<open>The name behind the pointer; it is read only where \<open>hasValidStorageClassName\<close> holds.\<close>

definition sc_key :: "pvc \<Rightarrow> nsname" where
  "sc_key p = \<lparr>nn_namespace = [], nn_name = (case pvc_storageClassName p of None \<Rightarrow> [] | Some n \<Rightarrow> n)\<rparr>"

definition ns_key :: "pvc \<Rightarrow> nsname" where
  "ns_key p = \<lparr>nn_namespace = [], nn_name = om_namespace (pvc_meta p)\<rparr>"

definition getScheduleFromPVC :: "senv \<Rightarrow> pvc \<Rightarrow> string \<Rightarrow> string" where
  "getScheduleFromPVC s p annotationKey =
     (case getScheduleFromAnnotation s annotationKey (om_annotations (pvc_meta p)) of Some schedule \<Rightarrow> schedule | None \<Rightarrow> [])"

definition getScheduleFromSC :: "senv \<Rightarrow> pvc \<Rightarrow> string \<Rightarrow> (string \<times> goerr option) prog" where
  "getScheduleFromSC s p annotationKey =
     (if hasValidStorageClassName p then do {
        r \<leftarrow> Get_StorageClass s (sc_key p);
        (case r of
           Inl err \<Rightarrow> if IsNotFound err then ret ([], Some ErrScheduleNotFound) else ret ([], Some err)
         | Inr sc \<Rightarrow>
             (case getScheduleFromAnnotation s annotationKey (om_annotations sc) of
                Some schedule \<Rightarrow> ret (schedule, None)
              | None \<Rightarrow> ret ([], Some ErrScheduleNotFound)))
      } else ret ([], Some ErrScheduleNotFound))"

definition ns_supported :: "env \<Rightarrow> strmap \<Rightarrow> string \<Rightarrow> string \<Rightarrow> string \<Rightarrow> (string \<times> goerr option) prog" where
  "ns_supported e annotations driverName op schedule = do {
     (requeue, supported, err) \<leftarrow> checkDriverSupportCapability e annotations driverName op;
     (case err of
        Some er \<Rightarrow> ret ([], Some er)
      | None \<Rightarrow>
          if supported then ret (schedule, None)
          else if requeue then ret ([], Some ErrConnNotFoundRequeueNeeded)
          else ret ([], Some ErrScheduleNotFound))
   }"

definition getScheduleFromNS :: "env \<Rightarrow> senv \<Rightarrow> pvc \<Rightarrow> string \<Rightarrow> string \<Rightarrow> (string \<times> goerr option) prog" where
  "getScheduleFromNS e s p driverName annotationKey = do {
     r \<leftarrow> Get_Namespace s (ns_key p);
     (case r of
        Inl err \<Rightarrow> ret ([], Some err)
      | Inr ns \<Rightarrow>
          (case getScheduleFromAnnotation s annotationKey (om_annotations ns) of
             None \<Rightarrow> ret ([], Some ErrScheduleNotFound)
           | Some schedule \<Rightarrow>
               if annotationKey = KrcJobScheduleTimeAnnotation
               then ns_supported e (om_annotations ns) driverName keyRotationOp schedule
               else if annotationKey = RsCronJobScheduleTimeAnnotation
               then ns_supported e (om_annotations ns) driverName relciamSpaceOp schedule
               else ret ([], Some (ErrMsg (''unknown annotation key: '' @ annotationKey)))))
   }"

text \<open>The last source: \<open>schedule != ""\<close> is looked at before the error.\<close>

definition last_source :: "string \<times> goerr option \<Rightarrow> goerr + string" where
  "last_source r = (if fst r \<noteq> [] then Inr (fst r)
     else (case snd r of Some err \<Rightarrow> Inl err | None \<Rightarrow> Inl ErrScheduleNotFound))"

text \<open>
  A nil error of the namespace with the empty schedule is no \<open>ErrScheduleNotFound\<close>: the function then
  returns the empty schedule without error.
\<close>

definition determineScheduleAndRequeue :: "env \<Rightarrow> senv \<Rightarrow> string \<Rightarrow> pvc \<Rightarrow> string \<Rightarrow> string \<Rightarrow> (goerr + string) prog" where
  "determineScheduleAndRequeue e s schedulePrecedence p driverName annotationKey =
     (if schedulePrecedence = ScheduleSC then do {
        r \<leftarrow> getScheduleFromSC s p annotationKey;
        ret (last_source r)
      }
      else if getScheduleFromPVC s p annotationKey \<noteq> [] then ret (Inr (getScheduleFromPVC s p annotationKey))
      else do {
        (schedule, err) \<leftarrow> getScheduleFromNS e s p driverName annotationKey;
        if schedule \<noteq> [] then ret (Inr schedule)
        else (case err of
                None \<Rightarrow> ret (Inr [])
              | Some er \<Rightarrow>
                  if \<not> errors_Is er ErrScheduleNotFound then ret (Inl er)
                  else do {
                    r \<leftarrow> getScheduleFromSC s p annotationKey;
                    ret (last_source r)
                  })
      })"

section \<open>Switching a feature off\<close>

definition checkAnnotationForValue :: "object_meta \<Rightarrow> string \<Rightarrow> string \<Rightarrow> bool" where
  "checkAnnotationForValue m key expected \<longleftrightarrow> map_of (om_annotations m) key = Some expected"

definition isDisabledOnSC :: "senv \<Rightarrow> pvc \<Rightarrow> string \<Rightarrow> (goerr + bool) prog" where
  "isDisabledOnSC s p annotationKey =
     (if \<not> hasValidStorageClassName p then ret (Inr False)
      else do {
        r \<leftarrow> Get_StorageClass s (sc_key p);
        (case r of
           Inl err \<Rightarrow> ret (Inl err)
         | Inr sc \<Rightarrow> ret (Inr (checkAnnotationForValue sc annotationKey ''false'')))
      })"

definition checkDisabledByAnnotation :: "senv \<Rightarrow> string \<Rightarrow> pvc \<Rightarrow> string \<Rightarrow> (goerr + bool) prog" where
  "checkDisabledByAnnotation s schedulePrecedence p annotationKey =
     (if schedulePrecedence = ScheduleSC then isDisabledOnSC s p annotationKey
      else if checkAnnotationForValue (pvc_meta p) annotationKey ''false'' then ret (Inr True)
      else do {
        r \<leftarrow> Get_Namespace s (ns_key p);
        (case r of
           Inl err \<Rightarrow> ret (Inl err)
         | Inr ns \<Rightarrow>
             if checkAnnotationForValue ns annotationKey ''false'' then ret (Inr True)
             else isDisabledOnSC s p annotationKey)
      })"

section \<open>Constructing schedulers\<close>

definition claim_job_spec :: "string \<Rightarrow> job_spec" where
  "claim_job_spec pvcName = \<lparr>js_targetPVC = pvcName, js_backoffLimit = defaultBackoffLimit,
     js_retryDeadlineSeconds = defaultRetryDeadlineSeconds, js_timeout = None\<rparr>"

definition constructRSCronJob :: "string \<Rightarrow> string \<Rightarrow> string \<Rightarrow> string \<Rightarrow> cronjob" where
  "constructRSCronJob name namespace schedule pvcName =
     \<lparr>cj_meta = (empty_meta name namespace)\<lparr>om_annotations := [(CSIAddonsStateAnnotation, CSIAddonsStateManaged)]\<rparr>,
      cj_spec = \<lparr>cjs_schedule = schedule, cjs_startingDeadlineSeconds = None, cjs_concurrencyPolicy = NoConcurrencyPolicy,
        cjs_suspend = None, cjs_jobAnnotations = [], cjs_jobLabels = [], cjs_jobSpec = claim_job_spec pvcName,
        cjs_successfulJobsHistoryLimit = Some DefaultSuccessfulJobsHistoryLimit,
        cjs_failedJobsHistoryLimit = Some DefaultFailedJobsHistoryLimit\<rparr>,
      cj_active = None, cj_lastScheduleTime = None, cj_lastSuccessfulTime = None\<rparr>"

text \<open>The two functions fill the same fields with the same values.\<close>

definition constructKRCronJob :: "string \<Rightarrow> string \<Rightarrow> string \<Rightarrow> string \<Rightarrow> cronjob" where
  "constructKRCronJob = constructRSCronJob"

definition generateCronJobName :: "env \<Rightarrow> string \<Rightarrow> string prog" where
  "generateCronJobName e parentName = do {
     t \<leftarrow> now e;
     ret (parentName @ ''-'' @ fmt_d (Unix t))
   }"

definition setReclaimspaceSpec :: "cronjob \<Rightarrow> string \<Rightarrow> string \<Rightarrow> cronjob" where
  "setReclaimspaceSpec v schedule pvcName =
     v\<lparr>cj_meta := (cj_meta v)\<lparr>om_annotations := AList.update CSIAddonsStateAnnotation CSIAddonsStateManaged (om_annotations (cj_meta v))\<rparr>,
       cj_spec := (cj_spec v)\<lparr>cjs_schedule := schedule,
         cjs_failedJobsHistoryLimit := Some DefaultFailedJobsHistoryLimit,
         cjs_successfulJobsHistoryLimit := Some DefaultSuccessfulJobsHistoryLimit,
         cjs_jobAnnotations := [], cjs_jobLabels := [], cjs_jobSpec := claim_job_spec pvcName\<rparr>\<rparr>"

definition setKeyrotationSpec :: "cronjob \<Rightarrow> string \<Rightarrow> string \<Rightarrow> cronjob" where
  "setKeyrotationSpec = setReclaimspaceSpec"

definition rs_sched :: "senv \<Rightarrow> sched_kind" where
  "rs_sched s = \<lparr>sk_name = ''ReclaimSpaceCronJob'', sk_get = c_getRSCron (s_cron s), sk_list = s_listRSCron s,
     sk_create = s_createRSCron s, sk_update = s_updateRSCron s, sk_delete = s_deleteRSCron s, sk_obj = O_RSCronJob,
     sk_setSpec = setReclaimspaceSpec\<rparr>"

definition kr_sched :: "senv \<Rightarrow> sched_kind" where
  "kr_sched s = \<lparr>sk_name = ''EncryptionKeyRotationCronJob'', sk_get = c_getKRCron (s_cron s), sk_list = s_listKRCron s,
     sk_create = s_createKRCron s, sk_update = s_updateKRCron s, sk_delete = s_deleteKRCron s, sk_obj = O_KRCronJob,
     sk_setSpec = setKeyrotationSpec\<rparr>"

text \<open>The type switches of \<open>SetSpec\<close> and \<open>GetSchedule\<close>, on the kind of the scheduler.\<close>

definition SetSpec :: "sched_kind \<Rightarrow> cronjob \<Rightarrow> string \<Rightarrow> string \<Rightarrow> cronjob" where
  "SetSpec k obj schedule pvcName = sk_setSpec k obj schedule pvcName"

definition GetSchedule :: "cronjob \<Rightarrow> string" where
  "GetSchedule v = cjs_schedule (cj_spec v)"

section \<open>The children of a claim\<close>

text \<open>Deleting a scheduler; that it is gone already is no error.\<close>

definition delete_child :: "sched_kind \<Rightarrow> (cronjob \<Rightarrow> goerr \<Rightarrow> goerr) \<Rightarrow> cronjob \<Rightarrow> goerr option prog" where
  "delete_child k failed job = do {
     r \<leftarrow> Delete_Sched k job;
     ret (case r of
        Inl err \<Rightarrow> if IgnoreNotFound err \<noteq> None then Some (failed job err) else None
      | Inr _ \<Rightarrow> None)
   }"

fun delete_rest :: "(cronjob \<Rightarrow> goerr option prog) \<Rightarrow> cronjob list \<Rightarrow> goerr option prog" where
  "delete_rest del [] = ret None"
| "delete_rest del (job # jobs) = do {
     err \<leftarrow> del job;
     (case err of Some er \<Rightarrow> ret (Some er) | None \<Rightarrow> delete_rest del jobs)
   }"

definition find_child :: "sched_kind \<Rightarrow> string \<Rightarrow> (cronjob \<Rightarrow> goerr option prog) \<Rightarrow> nsname \<Rightarrow> (goerr + cronjob option) prog" where
  "find_child k listFailed del req = do {
     r \<leftarrow> List_Sched k req;
     (case r of
        Inl err \<Rightarrow> ret (Inl (ErrMsg (listFailed @ Error err)))
      | Inr [] \<Rightarrow> ret (Inr None)
      | Inr (activeJob # rest) \<Rightarrow> do {
          d \<leftarrow> delete_rest del rest;
          ret (case d of Some err \<Rightarrow> Inl err | None \<Rightarrow> Inr (Some activeJob))
        })
   }"

definition child_delete_error :: "cronjob \<Rightarrow> goerr \<Rightarrow> goerr" where
  "child_delete_error job err =
     ErrWrap (''failed to delete child reclaimSpaceCronJob '' @ fmt_q (om_name (cj_meta job)) @ '': '') err []"

definition deleteChildCronJob :: "senv \<Rightarrow> cronjob \<Rightarrow> goerr option prog" where
  "deleteChildCronJob s = delete_child (rs_sched s) child_delete_error"

definition findChildCronJob :: "senv \<Rightarrow> nsname \<Rightarrow> (goerr + cronjob option) prog" where
  "findChildCronJob s = find_child (rs_sched s) ''failed to list child reclaimSpaceCronJob: '' (deleteChildCronJob s)"

definition findChildEncryptionKeyRotationCronJob :: "senv \<Rightarrow> nsname \<Rightarrow> (goerr + cronjob option) prog" where
  "findChildEncryptionKeyRotationCronJob s =
     find_child (kr_sched s) ''failed to list encryptionkeyrotationcronjobs: ''
       (delete_child (kr_sched s) (\<lambda>job err. ErrWrap ''failed to delete extraneous child encryptionkeyrotationcronjob: '' err []))"

text \<open>The claim as the patch leaves it.\<close>

definition patchAnnotationsToResource :: "senv \<Rightarrow> (string \<times> string option) list \<Rightarrow> pvc \<Rightarrow> (pvc \<times> goerr option) prog" where
  "patchAnnotationsToResource s annotations p = do {
     r \<leftarrow> Patch_PVC s p annotations;
     ret (case r of Inl err \<Rightarrow> (p, Some err) | Inr p' \<Rightarrow> (p', None))
   }"

text \<open>A child marked as unmanaged stops the work on its kind.\<close>

definition unmanaged :: "cronjob option \<Rightarrow> bool" where
  "unmanaged child =
     (case child of
        None \<Rightarrow> False
      | Some job \<Rightarrow>
          (case map_of (om_annotations (cj_meta job)) CSIAddonsStateAnnotation of
             None \<Rightarrow> False
           | Some st \<Rightarrow> st \<noteq> CSIAddonsStateManaged))"

section \<open>Reclaim space\<close>

definition RS_unschedule :: "senv \<Rightarrow> pvc \<Rightarrow> cronjob option \<Rightarrow> (rresult \<times> goerr option) prog" where
  "RS_unschedule s p child = do {
     err \<leftarrow> (case child of None \<Rightarrow> ret None | Some job \<Rightarrow> deleteChildCronJob s job);
     (case err of
        Some er \<Rightarrow> ret (rr_empty, Some er)
      | None \<Rightarrow>
          if map_of (om_annotations (pvc_meta p)) RsCronJobNameAnnotation \<noteq> None then do {
            r \<leftarrow> Patch_PVC s p [(RsCronJobNameAnnotation, None)];
            ret (rr_empty, (case r of Inl er \<Rightarrow> Some er | Inr _ \<Rightarrow> None))
          } else ret (rr_empty, None))
   }"

definition RS_update :: "senv \<Rightarrow> nsname \<Rightarrow> pvc \<Rightarrow> cronjob \<Rightarrow> string \<Rightarrow> (rresult \<times> goerr option) prog" where
  "RS_update s req p job schedule =
     (let newJob = constructRSCronJob (om_name (cj_meta job)) (nn_namespace req) schedule (om_name (pvc_meta p))
      in if cj_spec newJob = cj_spec job then ret (rr_empty, None)
         else do {
           r \<leftarrow> Update_Sched (rs_sched s) (job\<lparr>cj_spec := cj_spec newJob\<rparr>);
           (case r of
              Inl err \<Rightarrow> ret (rr_empty, Some err)
            | Inr _ \<Rightarrow> do {
                (p, err) \<leftarrow> patchAnnotationsToResource s [(RsCronJobScheduleTimeAnnotation, Some schedule)] p;
                ret (rr_empty, err)
              })
         })"

definition RS_create :: "env \<Rightarrow> senv \<Rightarrow> nsname \<Rightarrow> pvc \<Rightarrow> string \<Rightarrow> (rresult \<times> goerr option) prog" where
  "RS_create e s req p schedule = do {
     rsCronJobName \<leftarrow> generateCronJobName e (nn_name req);
     (p, err) \<leftarrow> patchAnnotationsToResource s
       [(RsCronJobNameAnnotation, Some rsCronJobName), (RsCronJobScheduleTimeAnnotation, Some schedule)] p;
     (case err of
        Some er \<Rightarrow> ret (rr_empty, Some er)
      | None \<Rightarrow>
          (let job = constructRSCronJob rsCronJobName (nn_namespace req) schedule (om_name (pvc_meta p))
           in (case SetControllerReference (s_gvkPVC s) (pvc_meta p) (cj_meta job) of
                 Inl er \<Rightarrow> ret (rr_empty, Some er)
               | Inr m \<Rightarrow> do {
                   r \<leftarrow> Create_Sched (rs_sched s) (job\<lparr>cj_meta := m\<rparr>);
                   ret (rr_empty, (case r of Inl er \<Rightarrow> Some er | Inr _ \<Rightarrow> None))
                 })))
   }"

definition processReclaimSpace ::
  "env \<Rightarrow> senv \<Rightarrow> string \<Rightarrow> nsname \<Rightarrow> pvc \<Rightarrow> csi_source \<Rightarrow> (rresult \<times> goerr option) prog" where
  "processReclaimSpace e s schedulePrecedence req p csi = do {
     c \<leftarrow> findChildCronJob s req;
     (case c of
        Inl err \<Rightarrow> ret (rr_empty, Some err)
      | Inr child \<Rightarrow>
          if unmanaged child then ret (rr_empty, None)
          else do {
            sched \<leftarrow> determineScheduleAndRequeue e s schedulePrecedence p (csi_driver csi) RsCronJobScheduleTimeAnnotation;
            (case sched of
               Inl err \<Rightarrow>
                 if errors_Is err ErrConnNotFoundRequeueNeeded then ret (\<lparr>rr_requeue = True, rr_requeueAfter = 0\<rparr>, None)
                 else if errors_Is err ErrScheduleNotFound then RS_unschedule s p child
                 else ret (rr_empty, Some err)
             | Inr schedule \<Rightarrow>
                 (case child of
                    Some job \<Rightarrow> RS_update s req p job schedule
                  | None \<Rightarrow> RS_create e s req p schedule))
          })
   }"

section \<open>Key rotation\<close>

text \<open>Each function returns the claim as it leaves it: the caller goes on with the same object.\<close>

definition KR_unschedule :: "senv \<Rightarrow> pvc \<Rightarrow> cronjob option \<Rightarrow> (cronjob \<Rightarrow> goerr \<Rightarrow> goerr) \<Rightarrow> (pvc \<times> goerr option) prog" where
  "KR_unschedule s p child failed =
     (case child of
        None \<Rightarrow> ret (p, None)
      | Some job \<Rightarrow> do { err \<leftarrow> delete_child (kr_sched s) failed job; ret (p, err) })"

definition KR_update :: "senv \<Rightarrow> nsname \<Rightarrow> pvc \<Rightarrow> cronjob \<Rightarrow> string \<Rightarrow> (pvc \<times> goerr option) prog" where
  "KR_update s req p job sched =
     (let newJob = constructKRCronJob (om_name (cj_meta job)) (nn_namespace req) sched (om_name (pvc_meta p))
      in if cj_spec newJob = cj_spec job then ret (p, None)
         else do {
           r \<leftarrow> Update_Sched (kr_sched s) (job\<lparr>cj_spec := cj_spec newJob\<rparr>);
           (case r of
              Inl err \<Rightarrow> ret (p, Some err)
            | Inr _ \<Rightarrow> patchAnnotationsToResource s [(KrcJobScheduleTimeAnnotation, Some sched)] p)
         })"

definition KR_create :: "env \<Rightarrow> senv \<Rightarrow> nsname \<Rightarrow> pvc \<Rightarrow> string \<Rightarrow> (pvc \<times> goerr option) prog" where
  "KR_create e s req p sched = do {
     krcJobName \<leftarrow> generateCronJobName e (nn_name req);
     (p, err) \<leftarrow> patchAnnotationsToResource s
       [(KrcJobNameAnnotation, Some krcJobName), (KrcJobScheduleTimeAnnotation, Some sched)] p;
     (case err of
        Some er \<Rightarrow> ret (p, Some er)
      | None \<Rightarrow>
          (let job = constructKRCronJob krcJobName (nn_namespace req) sched (om_name (pvc_meta p))
           in (case SetControllerReference (s_gvkPVC s) (pvc_meta p) (cj_meta job) of
                 Inl er \<Rightarrow> ret (p, Some er)
               | Inr m \<Rightarrow> do {
                   r \<leftarrow> Create_Sched (kr_sched s) (job\<lparr>cj_meta := m\<rparr>);
                   ret (p, (case r of Inl er \<Rightarrow> Some er | Inr _ \<Rightarrow> None))
                 })))
   }"

definition processKeyRotation :: "env \<Rightarrow> senv \<Rightarrow> string \<Rightarrow> nsname \<Rightarrow> pvc \<Rightarrow> csi_source \<Rightarrow> (pvc \<times> goerr option) prog" where
  "processKeyRotation e s schedulePrecedence req p csi = do {
     c \<leftarrow> findChildEncryptionKeyRotationCronJob s req;
     (case c of
        Inl err \<Rightarrow> ret (p, Some err)
      | Inr child \<Rightarrow>
          if unmanaged child then ret (p, None)
          else do {
            d \<leftarrow> checkDisabledByAnnotation s schedulePrecedence p KrEnableAnnotation;
            (case d of
               Inl err \<Rightarrow> ret (p, Some err)
             | Inr True \<Rightarrow>
                 KR_unschedule s p child (\<lambda>job err. ErrWrap [] err '': failed to delete EncryptionKeyRotationCronJob'')
             | Inr False \<Rightarrow> do {
                 sched \<leftarrow> determineScheduleAndRequeue e s schedulePrecedence p (csi_driver csi) KrcJobScheduleTimeAnnotation;
                 (case sched of
                    Inl err \<Rightarrow>
                      if errors_Is err ErrScheduleNotFound
                      then KR_unschedule s p child (\<lambda>job err.
                        ErrWrap (''failed to delete child encryptionkeyrotationcronjob '' @ fmt_q (om_name (cj_meta job)) @ '':'') err [])
                      else ret (p, Some err)
                  | Inr sched \<Rightarrow>
                      (case child of
                         Some job \<Rightarrow> KR_update s req p job sched
                       | None \<Rightarrow> KR_create e s req p sched))
               })
          })
   }"

section \<open>Reconcile\<close>

definition PVC_process :: "env \<Rightarrow> senv \<Rightarrow> string \<Rightarrow> nsname \<Rightarrow> pvc \<Rightarrow> csi_source \<Rightarrow> outcome prog" where
  "PVC_process e s schedulePrecedence req p csi = do {
     (p, keyRotationErr) \<leftarrow> processKeyRotation e s schedulePrecedence req p csi;
     (reclaimSpaceResult, reclaimSpaceErr) \<leftarrow> processReclaimSpace e s schedulePrecedence req p csi;
     (case reclaimSpaceErr of
        Some err \<Rightarrow> ret (Returned reclaimSpaceResult (Some err))
      | None \<Rightarrow> ret (Returned rr_empty keyRotationErr))
   }"

definition PVC_Reconcile :: "env \<Rightarrow> senv \<Rightarrow> string \<Rightarrow> nsname \<Rightarrow> outcome prog" where
  "PVC_Reconcile e s schedulePrecedence req = do {
     r \<leftarrow> Get_PVC e req;
     (case r of
        Inl err \<Rightarrow> if IsNotFound err then ret done_ok else ret (done_err err)
      | Inr p \<Rightarrow>
          if om_deletionTimestamp (pvc_meta p) \<noteq> None then ret done_ok
          else if pvc_phase p \<noteq> ClaimBound then ret (Returned \<lparr>rr_requeue = True, rr_requeueAfter = 0\<rparr> None)
          else do {
            r \<leftarrow> Get_PV e \<lparr>nn_namespace = [], nn_name = pvc_volumeName p\<rparr>;
            (case r of
               Inl err \<Rightarrow> ret (done_err err)
             | Inr v \<Rightarrow>
                 (case pv_csi v of
                    None \<Rightarrow> ret done_ok
                  | Some csi \<Rightarrow> PVC_process e s schedulePrecedence req p csi))
          })
   }"

section \<open>The controller for storage classes only\<close>

definition feature_update :: "sched_kind \<Rightarrow> pvc \<Rightarrow> cronjob \<Rightarrow> string \<Rightarrow> goerr option prog" where
  "feature_update k p existing schedule =
     (if GetSchedule existing \<noteq> schedule then do {
        r \<leftarrow> Update_Sched k (SetSpec k existing schedule (om_name (pvc_meta p)));
        ret (case r of Inl err \<Rightarrow> Some err | Inr _ \<Rightarrow> None)
      } else ret None)"

definition feature_create :: "senv \<Rightarrow> sched_kind \<Rightarrow> pvc \<Rightarrow> cronjob \<Rightarrow> string \<Rightarrow> goerr option prog" where
  "feature_create s k p childObj schedule =
     (let childObj = SetSpec k childObj schedule (om_name (pvc_meta p))
      in (case SetControllerReference (s_gvkPVC s) (pvc_meta p) (cj_meta childObj) of
            Inl err \<Rightarrow> ret (Some err)
          | Inr m \<Rightarrow> do {
              r \<leftarrow> Create_Sched k (childObj\<lparr>cj_meta := m\<rparr>);
              ret (case r of Inl err \<Rightarrow> IgnoreAlreadyExists err | Inr _ \<Rightarrow> None)
            }))"

definition feature_delete :: "sched_kind \<Rightarrow> cronjob \<Rightarrow> goerr option prog" where
  "feature_delete k existing = do {
     r \<leftarrow> Delete_Sched k existing;
     ret (case r of Inl err \<Rightarrow> IgnoreNotFound err | Inr _ \<Rightarrow> None)
   }"

definition reconcileFeature :: "senv \<Rightarrow> sched_kind \<Rightarrow> pvc \<Rightarrow> cronjob \<Rightarrow> string \<Rightarrow> string \<Rightarrow> goerr option prog" where
  "reconcileFeature s k p childObj schedule enabledVal =
     (let shouldExist = (schedule \<noteq> [] \<and> enabledVal \<noteq> ''false'')
      in do {
        r \<leftarrow> Get_Sched k \<lparr>nn_namespace = om_namespace (cj_meta childObj), nn_name = om_name (cj_meta childObj)\<rparr>;
        (case r of
           Inl err \<Rightarrow>
             if IsNotFound err then (if shouldExist then feature_create s k p childObj schedule else ret None)
             else ret (Some err)
         | Inr existing \<Rightarrow>
             if \<not> IsManagedByController (cj_meta existing) then ret None
             else if \<not> shouldExist then feature_delete k existing
             else feature_update k p existing schedule)
      })"

text \<open>The bare child object with its deterministic name.\<close>

definition bare_child :: "string \<Rightarrow> string \<Rightarrow> cronjob" where
  "bare_child name namespace =
     \<lparr>cj_meta = empty_meta name namespace,
      cj_spec = \<lparr>cjs_schedule = [], cjs_startingDeadlineSeconds = None, cjs_concurrencyPolicy = NoConcurrencyPolicy,
        cjs_suspend = None, cjs_jobAnnotations = [], cjs_jobLabels = [],
        cjs_jobSpec = \<lparr>js_targetPVC = [], js_backoffLimit = 0, js_retryDeadlineSeconds = 0, js_timeout = None\<rparr>,
        cjs_successfulJobsHistoryLimit = None, cjs_failedJobsHistoryLimit = None\<rparr>,
      cj_active = None, cj_lastScheduleTime = None, cj_lastSuccessfulTime = None\<rparr>"

definition PVCNew_features :: "senv \<Rightarrow> pvc \<Rightarrow> object_meta \<Rightarrow> outcome prog" where
  "PVCNew_features s p sc = do {
     err \<leftarrow> reconcileFeature s (kr_sched s) p (bare_child (om_name (pvc_meta p) @ ''-keyrotation'') (om_namespace (pvc_meta p)))
       (mget (om_annotations sc) KrcJobScheduleTimeAnnotation) (mget (om_annotations sc) KrEnableAnnotation);
     (case err of
        Some er \<Rightarrow> ret (done_err er)
      | None \<Rightarrow> do {
          err \<leftarrow> reconcileFeature s (rs_sched s) p (bare_child (om_name (pvc_meta p) @ ''-reclaimspace'') (om_namespace (pvc_meta p)))
            (mget (om_annotations sc) RsCronJobScheduleTimeAnnotation) ''true'';
          (case err of Some er \<Rightarrow> ret (done_err er) | None \<Rightarrow> ret done_ok)
        })
   }"

definition PVCNew_Reconcile :: "env \<Rightarrow> senv \<Rightarrow> nsname \<Rightarrow> outcome prog" where
  "PVCNew_Reconcile e s req = do {
     r \<leftarrow> Get_PVC e req;
     (case r of
        Inl err \<Rightarrow> ret (Returned rr_empty (IgnoreNotFound err))
      | Inr p \<Rightarrow>
          if om_deletionTimestamp (pvc_meta p) \<noteq> None then ret done_ok
          else if pvc_phase p \<noteq> ClaimBound then ret (Returned \<lparr>rr_requeue = True, rr_requeueAfter = 0\<rparr> None)
          else do {
            r \<leftarrow> Get_PV e \<lparr>nn_namespace = [], nn_name = pvc_volumeName p\<rparr>;
            (case r of
               Inl err \<Rightarrow> ret (Returned rr_empty (IgnoreNotFound err))
             | Inr v \<Rightarrow>
                 if pv_csi v = None then ret done_ok
                 else if \<not> hasValidStorageClassName p then ret done_ok
                 else do {
                   r \<leftarrow> Get_StorageClass s (sc_key p);
                   (case r of
                      Inl err \<Rightarrow> ret (Returned rr_empty (IgnoreNotFound err))
                    | Inr sc \<Rightarrow> PVCNew_features s p sc)
                 })
          })
   }"

section \<open>Events\<close>

fun annotationValueMissingOrDiff :: "strmap \<Rightarrow> strmap \<Rightarrow> string list \<Rightarrow> bool" where
  "annotationValueMissingOrDiff scAnnotations pvcAnnotations [] = False"
| "annotationValueMissingOrDiff scAnnotations pvcAnnotations (key # keys) =
     (case map_of scAnnotations key of
        None \<Rightarrow> annotationValueMissingOrDiff scAnnotations pvcAnnotations keys
      | Some scValue \<Rightarrow>
          if map_of pvcAnnotations key = None \<or> map_of pvcAnnotations key \<noteq> Some scValue then True
          else annotationValueMissingOrDiff scAnnotations pvcAnnotations keys)"

text \<open>A claim is enqueued by the event of its storage class.\<close>

definition pvc_request :: "pvc \<Rightarrow> nsname" where
  "pvc_request p = \<lparr>nn_namespace = om_namespace (pvc_meta p), nn_name = om_name (pvc_meta p)\<rparr>"

definition storageClassEventHandler :: "senv \<Rightarrow> object_meta \<Rightarrow> nsname list prog" where
  "storageClassEventHandler s sc = do {
     r \<leftarrow> List_PVC s (om_name sc);
     ret (case r of
        Inl err \<Rightarrow> []
      | Inr claims \<Rightarrow> map pvc_request (filter (\<lambda>p. annotationValueMissingOrDiff (om_annotations sc) (om_annotations (pvc_meta p))
            [RsCronJobScheduleTimeAnnotation, KrcJobScheduleTimeAnnotation, KrEnableAnnotation]) claims))
   }"

definition ScMapFunc :: "senv \<Rightarrow> object_meta \<Rightarrow> nsname list prog" where
  "ScMapFunc s sc = do {
     r \<leftarrow> List_PVC s (om_name sc);
     ret (case r of Inl err \<Rightarrow> [] | Inr claims \<Rightarrow> map pvc_request claims)
   }"

text \<open>The filters of update events, for objects that may be nil or of another type.\<close>

definition createAnnotationPredicate :: "string list \<Rightarrow> object_meta option \<Rightarrow> object_meta option \<Rightarrow> bool" where
  "createAnnotationPredicate annotations objectOld objectNew =
     (case (objectOld, objectNew) of
        (Some old, Some new) \<Rightarrow> AnnotationValueChanged (om_annotations old) (om_annotations new) annotations
      | _ \<Rightarrow> False)"

definition StorageClassPredicate :: "object_meta option \<Rightarrow> object_meta option \<Rightarrow> bool" where
  "StorageClassPredicate oldSC newSC =
     (case (oldSC, newSC) of
        (Some old, Some new) \<Rightarrow> AnnotationValueChanged (om_annotations old) (om_annotations new)
          [KrcJobScheduleTimeAnnotation, KrEnableAnnotation, RsCronJobScheduleTimeAnnotation]
      | _ \<Rightarrow> False)"

end
