(* ===== verification/Pvc_Facts.thy ===== *)
theory Pvc_Facts
  imports Pvc_Schedules
begin

text \<open>
  What the claim controllers do to the schedulers of a claim: which of them may be written, and when;
  and the effect of \<open>reconcileFeature\<close> on a server that keeps what it is told.
\<close>

section \<open>Writes to schedulers\<close>

text \<open>
  \<open>children_listed k req cs\<close>: the call that listed \<open>cs\<close> as the schedulers of the claim.
  \<open>announced s nk tk x\<close>: the accepted patch that wrote name and schedule of \<open>x\<close> on the claim, which
  \<open>x\<close> has as its only owner and as its target.
\<close>

definition children_listed :: "sched_kind \<Rightarrow> nsname \<Rightarrow> cronjob list \<Rightarrow> event list \<Rightarrow> event \<Rightarrow> bool" where
  "children_listed k req cs h ev \<longleftrightarrow> ev = ApiList (sk_name k) (nn_namespace req) \<and>
     (\<exists>jobs. sk_list k h (nn_namespace req) = Inr jobs \<and>
        cs = filter (\<lambda>job. nn_name req \<in> set (ExtractOwnerNameFromPVCObj (cj_meta job))) jobs)"

definition announced :: "senv \<Rightarrow> string \<Rightarrow> string \<Rightarrow> cronjob \<Rightarrow> event list \<Rightarrow> event \<Rightarrow> bool" where
  "announced s nk tk x h ev \<longleftrightarrow> (\<exists>p p' g patch.
     patch = [(nk, Some (om_name (cj_meta x))), (tk, Some (cjs_schedule (cj_spec x)))] \<and>
     ev = ApiPatch (O_PVC p) patch \<and> s_patchPVC s h (p, patch) = Inr p' \<and> s_gvkPVC s = Inr g \<and>
     om_ownerReferences (cj_meta x) = [owner_ref_to g (pvc_meta p')] \<and>
     js_targetPVC (cjs_jobSpec (cj_spec x)) = om_name (pvc_meta p'))"

definition sched_write_ok ::
  "senv \<Rightarrow> sched_kind \<Rightarrow> string \<Rightarrow> string \<Rightarrow> nsname \<Rightarrow> event list \<Rightarrow> event list \<Rightarrow> event \<Rightarrow> bool" where
  "sched_write_ok s k nk tk req h0 h ev \<longleftrightarrow>
     (\<forall>x. ev = ApiCreate (sk_obj k x) \<longrightarrow> since h0 (children_listed k req []) h \<and> since h0 (announced s nk tk x) h) \<and>
     (\<forall>x. ev = ApiUpdate (sk_obj k x) \<longrightarrow>
        (\<exists>job rest. since h0 (children_listed k req (job # rest)) h \<and> \<not> unmanaged (Some job) \<and> cj_meta x = cj_meta job)) \<and>
     (\<forall>x. ev = ApiDelete (sk_obj k x) \<longrightarrow>
        (\<exists>job rest. since h0 (children_listed k req (job # rest)) h \<and> (x \<in> set rest \<or> x = job \<and> \<not> unmanaged (Some job))))"

definition child_known :: "sched_kind \<Rightarrow> nsname \<Rightarrow> event list \<Rightarrow> cronjob option \<Rightarrow> event list \<Rightarrow> bool" where
  "child_known k req h0 c h \<longleftrightarrow> extends h0 h \<and>
     (case c of None \<Rightarrow> since h0 (children_listed k req []) h
      | Some job \<Rightarrow> \<exists>rest. since h0 (children_listed k req (job # rest)) h)"

lemma stable_child_known [intro]: "stable (child_known k req h0 c)"
  by (cases c) (auto simp: child_known_def stable_def extends_append intro: since_append)

lemma child_known_extends: "child_known k req h0 c h \<Longrightarrow> extends h0 h"
  by (simp add: child_known_def)

text \<open>Events that are no writes to a scheduler.\<close>

definition sched_quiet :: "event \<Rightarrow> bool" where
  "sched_quiet ev \<longleftrightarrow> (\<forall>x. ev \<noteq> ApiCreate x \<and> ev \<noteq> ApiUpdate x \<and> ev \<noteq> ApiDelete x)"

lemma sched_quiet_simps [simp]:
  "sched_quiet (ApiGet n nn)" "sched_quiet (ApiList n ns)" "sched_quiet (ApiPatch x patch)"
  "sched_quiet (Rpc c r)" "sched_quiet (Dial a b)" "sched_quiet (GetState d)" "sched_quiet (CloseClient d)"
  by (simp_all add: sched_quiet_def)

lemma sched_quiet_ok: "sched_quiet ev \<Longrightarrow> sched_write_ok s k nk tk req h0 h ev"
  by (auto simp: sched_quiet_def sched_write_ok_def)

lemmas sched_api_defs = Get_Sched_def Create_Sched_def Update_Sched_def Delete_Sched_def Get_Namespace_def
  Get_StorageClass_def Patch_PVC_def

lemma lookup_call_quiet: "lookup_call ev \<Longrightarrow> sched_quiet ev"
  by (auto simp: sched_quiet_def)

lemma emits_getScheduleFromSC: "emits (\<lambda>_. sched_quiet) (getScheduleFromSC s p key)"
  unfolding getScheduleFromSC_def sched_api_defs by (intro emits_intros) simp

lemma emits_determine: "emits (\<lambda>_. sched_quiet) (determineScheduleAndRequeue e s prec p d key)"
proof -
  have "emits (\<lambda>_. sched_quiet) (GetByNodeID e d [])"
    by (rule emits_GetByNodeID) (rule lookup_call_quiet)
  then have "emits (\<lambda>_. sched_quiet) (getScheduleFromNS e s p d key)"
    unfolding getScheduleFromNS_def ns_supported_def checkDriverSupportCapability_def sched_api_defs
    by (intro emits_intros) simp_all
  then show ?thesis
    unfolding determineScheduleAndRequeue_def
    by (intro emits_intros emits_getScheduleFromSC) simp_all
qed

lemma emits_checkDisabled: "emits (\<lambda>_. sched_quiet) (checkDisabledByAnnotation s prec p key)"
  unfolding checkDisabledByAnnotation_def isDisabledOnSC_def sched_api_defs
  by (intro emits_intros) simp_all

section \<open>Finding the child\<close>

lemma emits_delete_rest:
  assumes "\<And>job. job \<in> set jobs \<Longrightarrow> emits R (del job)"
  shows "emits R (delete_rest del jobs)"
  using assms by (induction jobs) (auto intro!: emits_intros)

lemma emits_delete_child: "(\<And>h. R h (ApiDelete (sk_obj k job))) \<Longrightarrow> emits R (delete_child k failed job)"
  unfolding delete_child_def sched_api_defs by (intro emits_intros)

lemma htriple_find_child:
  assumes "inj (sk_obj k)" "\<And>job. del job = delete_child k failed job"
  shows "htriple (extends h0) (find_child k msg del req) (\<lambda>r h. extends h0 h \<and> (\<forall>c. r = Inr c \<longrightarrow> child_known k req h0 c h))
    (sched_write_ok s k nk tk req h0)"
  (is "htriple _ _ ?K ?R")
  unfolding find_child_def
proof (rule htriple_bind)
  let ?L = "\<lambda>r h. extends h0 h \<and> (\<forall>cs. r = Inr cs \<longrightarrow> since h0 (children_listed k req cs) h)"
  show "htriple (extends h0) (List_Sched k req) ?L ?R"
    unfolding List_Sched_def
    by (rule htriple_bind, rule htriple_call [where K = "\<lambda>r h. extends h0 h \<and> (\<forall>jobs. r = Inr jobs \<longrightarrow>
         since h0 (children_listed k req (filter (\<lambda>job. nn_name req \<in> set (ExtractOwnerNameFromPVCObj (cj_meta job))) jobs)) h)"])
      (auto simp: extends_append sched_quiet_ok children_listed_def intro!: since_snoc split: sum.split)
  show "htriple (?L r) (case r of Inl err \<Rightarrow> ret (Inl (ErrMsg (msg @ Error err))) | Inr [] \<Rightarrow> ret (Inr None)
      | Inr (activeJob # rest) \<Rightarrow> do { d \<leftarrow> delete_rest del rest;
          ret (case d of Some err \<Rightarrow> Inl err | None \<Rightarrow> Inr (Some activeJob)) }) ?K ?R" for r
  proof (cases r)
    case (Inr cs)
    show ?thesis
    proof (cases cs)
      case Nil
      with Inr show ?thesis by (simp add: child_known_def)
    next
      case (Cons job rest)
      let ?S = "\<lambda>h. extends h0 h \<and> since h0 (children_listed k req (job # rest)) h"
      have "htriple ?S (delete_rest del rest) (\<lambda>_. ?S) ?R"
      proof (rule htriple_ignore)
        show "emits (\<lambda>h ev. ?S h \<longrightarrow> ?R h ev) (delete_rest del rest)"
          using assms unfolding inj_def
          by (intro emits_delete_rest) (auto intro!: emits_delete_child simp: sched_write_ok_def)
      qed (intro stable_intros)
      then have "htriple ?S (do { d \<leftarrow> delete_rest del rest; ret (case d of Some err \<Rightarrow> Inl err | None \<Rightarrow> Inr (Some job)) }) ?K ?R"
        by (rule htriple_bind) (auto simp: child_known_def split: option.split)
      with Inr Cons show ?thesis by simp
    qed
  qed simp
qed

section \<open>Working on the child\<close>

lemma inj_sched_obj [simp]: "inj (sk_obj (rs_sched s))" "inj (sk_obj (kr_sched s))"
  by (auto simp: rs_sched_def kr_sched_def inj_def)

lemma emits_quiet_ok: "emits (\<lambda>_. sched_quiet) m \<Longrightarrow> emits (\<lambda>h ev. H h \<longrightarrow> sched_write_ok s k nk tk req h0 h ev) m"
  by (erule emits_mono) (auto intro: sched_quiet_ok)

lemma htriple_quiet_ok:
  assumes "emits (\<lambda>_. sched_quiet) m" "stable H"
  shows "htriple H m (\<lambda>_. H) (sched_write_ok s k nk tk req h0)"
  using assms by (intro htriple_ignore emits_quiet_ok)

lemma emits_patch: "(\<And>h. R h (ApiPatch (O_PVC p) a)) \<Longrightarrow> emits R (patchAnnotationsToResource s a p)"
  unfolding patchAnnotationsToResource_def sched_api_defs by (intro emits_intros)

lemma update_ok:
  assumes "inj (sk_obj k)" "child_known k req h0 (Some job) h" "\<not> unmanaged (Some job)"
  shows "sched_write_ok s k nk tk req h0 h (ApiUpdate (sk_obj k (job\<lparr>cj_spec := sp\<rparr>)))"
proof -
  have "cj_meta x = cj_meta job" if "sk_obj k (job\<lparr>cj_spec := sp\<rparr>) = sk_obj k x" for x
    using injD [OF assms(1) that] by auto
  with assms show ?thesis by (fastforce simp: sched_write_ok_def child_known_def)
qed

lemma delete_ok:
  assumes "inj (sk_obj k)" "child_known k req h0 (Some job) h" "\<not> unmanaged (Some job)"
  shows "sched_write_ok s k nk tk req h0 h (ApiDelete (sk_obj k job))"
  using assms by (auto simp: sched_write_ok_def child_known_def inj_def)

lemma htriple_child_work:
  assumes "emits (\<lambda>h ev. child_known k req h0 c h \<longrightarrow> sched_write_ok s k nk tk req h0 h ev) m"
  shows "htriple (child_known k req h0 c) m (\<lambda>_. extends h0) (sched_write_ok s k nk tk req h0)"
  by (rule htriple_weaken [OF htriple_ignore [OF assms]]) (auto dest: child_known_extends)

lemma htriple_RS_update:
  assumes "\<not> unmanaged (Some job)"
  shows "htriple (child_known (rs_sched s) req h0 (Some job)) (RS_update s req p job sched) (\<lambda>_. extends h0)
    (sched_write_ok s (rs_sched s) nk tk req h0)"
  unfolding RS_update_def Update_Sched_def
  by (intro htriple_child_work emits_intros emits_patch) (simp_all add: assms update_ok sched_quiet_ok)

lemma htriple_KR_update:
  assumes "\<not> unmanaged (Some job)"
  shows "htriple (child_known (kr_sched s) req h0 (Some job)) (KR_update s req p job sched) (\<lambda>_. extends h0)
    (sched_write_ok s (kr_sched s) nk tk req h0)"
  unfolding KR_update_def Update_Sched_def
  by (intro htriple_child_work emits_intros emits_patch) (simp_all add: assms update_ok sched_quiet_ok)

lemma htriple_RS_unschedule:
  assumes "\<not> unmanaged child"
  shows "htriple (child_known (rs_sched s) req h0 child) (RS_unschedule s p child) (\<lambda>_. extends h0)
    (sched_write_ok s (rs_sched s) nk tk req h0)"
proof (rule htriple_child_work)
  let ?R = "\<lambda>h ev. child_known (rs_sched s) req h0 child h \<longrightarrow> sched_write_ok s (rs_sched s) nk tk req h0 h ev"
  have "emits ?R (case child of None \<Rightarrow> ret None | Some job \<Rightarrow> deleteChildCronJob s job)"
    using assms unfolding deleteChildCronJob_def
    by (cases child) (auto intro!: emits_intros emits_delete_child delete_ok)
  then show "emits ?R (RS_unschedule s p child)"
    unfolding RS_unschedule_def Patch_PVC_def
    by (rule emits_bind) (intro emits_intros, simp add: sched_quiet_ok)
qed

lemma htriple_KR_unschedule:
  assumes "\<not> unmanaged child"
  shows "htriple (child_known (kr_sched s) req h0 child) (KR_unschedule s p child failed) (\<lambda>_. extends h0)
    (sched_write_ok s (kr_sched s) nk tk req h0)"
  using assms unfolding KR_unschedule_def
  by (intro htriple_child_work, cases child) (auto intro!: emits_intros emits_delete_child delete_ok)

text \<open>A scheduler is created after the claim was told its name and schedule.\<close>

definition patched :: "senv \<Rightarrow> (string \<times> string option) list \<Rightarrow> pvc \<Rightarrow> event list \<Rightarrow> event \<Rightarrow> bool" where
  "patched s patch p' h ev \<longleftrightarrow> (\<exists>p. ev = ApiPatch (O_PVC p) patch \<and> s_patchPVC s h (p, patch) = Inr p')"

lemma htriple_announce:
  assumes "stable H" "\<And>h. H h \<Longrightarrow> extends h0 h"
    and "\<And>p' er. htriple H (f (p', Some er)) L (sched_write_ok s k nk tk req h0)"
    and "\<And>p'. htriple (\<lambda>h. H h \<and> since h0 (patched s patch p') h) (f (p', None)) L (sched_write_ok s k nk tk req h0)"
  shows "htriple H (State_Monad.bind (patchAnnotationsToResource s patch p) f) L (sched_write_ok s k nk tk req h0)"
proof (rule htriple_bind)
  let ?K = "\<lambda>r h. H h \<and> (snd r = None \<longrightarrow> since h0 (patched s patch (fst r)) h)"
  show "htriple H (patchAnnotationsToResource s patch p) ?K (sched_write_ok s k nk tk req h0)"
    unfolding patchAnnotationsToResource_def Patch_PVC_def
  proof (rule htriple_bind, rule htriple_call)
    fix h assume h: "H h"
    then show "sched_write_ok s k nk tk req h0 h (ApiPatch (O_PVC p) patch)" by (simp add: sched_quiet_ok)
    show "(\<lambda>r h. H h \<and> (\<forall>p'. r = Inr p' \<longrightarrow> since h0 (patched s patch p') h)) (s_patchPVC s h (p, patch)) (h @ [ApiPatch (O_PVC p) patch])"
      using h assms(1,2) by (auto simp: stable_def patched_def intro!: since_snoc)
  qed (auto split: sum.split)
  show "htriple (?K r) (f r) L (sched_write_ok s k nk tk req h0)" for r
    using assms(3,4) by (cases r; cases "snd r") auto
qed

lemma htriple_create:
  assumes "inj (sk_obj k)"
    and "patch = [(nk, Some name), (tk, Some sched)]"
    and "SetControllerReference (s_gvkPVC s) (pvc_meta p') (cj_meta (constructRSCronJob name ns sched (om_name (pvc_meta p')))) = Inr m"
  shows "htriple (\<lambda>h. child_known k req h0 None h \<and> since h0 (patched s patch p') h)
    (Create_Sched k ((constructRSCronJob name ns sched (om_name (pvc_meta p')))\<lparr>cj_meta := m\<rparr>)) (\<lambda>_. extends h0)
    (sched_write_ok s k nk tk req h0)"
  unfolding Create_Sched_def
proof (rule htriple_call)
  let ?x = "(constructRSCronJob name ns sched (om_name (pvc_meta p')))\<lparr>cj_meta := m\<rparr>"
  fix h assume h: "child_known k req h0 None h \<and> since h0 (patched s patch p') h"
  then show "extends h0 (h @ [ApiCreate (sk_obj k ?x)])" by (simp add: child_known_def extends_append)
  obtain g where "s_gvkPVC s = Inr g"
    "m = (cj_meta (constructRSCronJob name ns sched (om_name (pvc_meta p'))))\<lparr>om_ownerReferences := [owner_ref_to g (pvc_meta p')]\<rparr>"
    using assms(3) by (rule SetControllerReference_fresh) (auto simp: constructRSCronJob_def empty_meta_def)
  then have "announced s nk tk ?x h' ev" if "patched s patch p' h' ev" for h' ev
    using that assms(2) by (auto simp: patched_def announced_def constructRSCronJob_def empty_meta_def claim_job_spec_def)
  then have "since h0 (announced s nk tk ?x) h"
    using h unfolding since_def by blast
  with h assms(1) show "sched_write_ok s k nk tk req h0 h (ApiCreate (sk_obj k ?x))"
    by (auto simp: sched_write_ok_def child_known_def inj_def)
qed

lemma htriple_RS_create:
  "htriple (child_known (rs_sched s) req h0 None) (RS_create e s req p sched) (\<lambda>_. extends h0)
    (sched_write_ok s (rs_sched s) RsCronJobNameAnnotation RsCronJobScheduleTimeAnnotation req h0)"
  (is "htriple ?H _ _ ?R")
  unfolding RS_create_def
proof (rule htriple_bind [where K = "\<lambda>_. ?H"])
  show "htriple ?H (generateCronJobName e (nn_name req)) (\<lambda>_. ?H) ?R"
    unfolding generateCronJobName_def by (intro htriple_quiet_ok stable_child_known emits_intros)
qed (auto intro!: htriple_announce htriple_bind [OF htriple_create] dest: child_known_extends simp: Let_def split: sum.split)

lemma htriple_KR_create:
  "htriple (child_known (kr_sched s) req h0 None) (KR_create e s req p sched) (\<lambda>_. extends h0)
    (sched_write_ok s (kr_sched s) KrcJobNameAnnotation KrcJobScheduleTimeAnnotation req h0)"
  (is "htriple ?H _ _ ?R")
  unfolding KR_create_def constructKRCronJob_def
proof (rule htriple_bind [where K = "\<lambda>_. ?H"])
  show "htriple ?H (generateCronJobName e (nn_name req)) (\<lambda>_. ?H) ?R"
    unfolding generateCronJobName_def by (intro htriple_quiet_ok stable_child_known emits_intros)
qed (auto intro!: htriple_announce htriple_bind [OF htriple_create] dest: child_known_extends simp: Let_def split: sum.split)

section \<open>Whole runs\<close>

lemma htriple_sum_known:
  assumes "\<And>a. htriple H (f a) L R" "\<And>c. htriple (V c) (g c) L R"
  shows "htriple (\<lambda>h. H h \<and> (\<forall>c. r = Inr c \<longrightarrow> V c h)) (case r of Inl a \<Rightarrow> f a | Inr c \<Rightarrow> g c) L R"
  using assms by (cases r) (auto intro: htriple_weaken)

lemma htriple_processReclaimSpace:
  "htriple (extends h0) (processReclaimSpace e s prec req p csi) (\<lambda>_. extends h0)
    (sched_write_ok s (rs_sched s) RsCronJobNameAnnotation RsCronJobScheduleTimeAnnotation req h0)"
  unfolding processReclaimSpace_def findChildCronJob_def
proof (rule htriple_bind [OF htriple_find_child [OF inj_sched_obj(1)]], goal_cases)
  case (2 r)
  show ?case
  proof (rule htriple_sum_known, goal_cases)
    case (2 c)
    show ?case
      by (auto intro!: htriple_bind [OF htriple_quiet_ok [OF emits_determine]] htriple_RS_unschedule htriple_RS_update
          htriple_RS_create dest: child_known_extends split: sum.split option.split)
  qed simp
qed (simp add: deleteChildCronJob_def)

lemma htriple_processKeyRotation:
  "htriple (extends h0) (processKeyRotation e s prec req p csi) (\<lambda>_. extends h0)
    (sched_write_ok s (kr_sched s) KrcJobNameAnnotation KrcJobScheduleTimeAnnotation req h0)"
  unfolding processKeyRotation_def findChildEncryptionKeyRotationCronJob_def
proof (rule htriple_bind [OF htriple_find_child [OF inj_sched_obj(2)]], goal_cases)
  case (2 r)
  show ?case
  proof (rule htriple_sum_known, goal_cases)
    case (2 c)
    show ?case
      by (auto intro!: htriple_bind [OF htriple_quiet_ok [OF emits_checkDisabled]]
          htriple_bind [OF htriple_quiet_ok [OF emits_determine]] htriple_KR_unschedule htriple_KR_update
          htriple_KR_create stable_child_known split: sum.split option.split bool.split) (erule child_known_extends)+
  qed simp
qed (rule refl)

text \<open>Each of the two parts writes only schedulers of its own kind.\<close>

definition writes_to :: "sched_kind \<Rightarrow> event \<Rightarrow> bool" where
  "writes_to k ev \<longleftrightarrow> sched_quiet ev \<or> (\<exists>x. ev = ApiCreate (sk_obj k x) \<or> ev = ApiUpdate (sk_obj k x) \<or> ev = ApiDelete (sk_obj k x))"

lemma writes_to_simps [simp]:
  "writes_to k (ApiCreate (sk_obj k x))" "writes_to k (ApiUpdate (sk_obj k x))" "writes_to k (ApiDelete (sk_obj k x))"
  "sched_quiet ev \<Longrightarrow> writes_to k ev"
  by (auto simp: writes_to_def)

lemma writes_to_other:
  "writes_to (kr_sched s) ev \<Longrightarrow> sched_write_ok s' (rs_sched s') nk tk req h0 h ev"
  "writes_to (rs_sched s) ev \<Longrightarrow> sched_write_ok s' (kr_sched s') nk tk req h0 h ev"
  by (auto simp: writes_to_def sched_quiet_def sched_write_ok_def rs_sched_def kr_sched_def)

lemma emits_find_child_own: "emits (\<lambda>_. writes_to k) (find_child k msg (delete_child k failed) req)"
  unfolding find_child_def List_Sched_def
  by (auto intro!: emits_intros emits_delete_rest emits_delete_child split: list.split)

lemma emits_own: "emits (\<lambda>_. sched_quiet) m \<Longrightarrow> emits (\<lambda>_. writes_to k) m"
  by (erule emits_mono) simp

lemma emits_processKeyRotation_own: "emits (\<lambda>_. writes_to (kr_sched s)) (processKeyRotation e s prec req p csi)"
proof -
  have "emits (\<lambda>_. writes_to (kr_sched s)) (KR_unschedule s p child failed)" for child failed
    unfolding KR_unschedule_def by (intro emits_intros emits_delete_child) simp
  moreover have "emits (\<lambda>_. writes_to (kr_sched s)) (KR_update s req p job sched)" for job sched
    unfolding KR_update_def Update_Sched_def by (intro emits_intros emits_patch) simp_all
  moreover have "emits (\<lambda>_. writes_to (kr_sched s)) (KR_create e s req p sched)" for sched
    unfolding KR_create_def generateCronJobName_def Create_Sched_def by (intro emits_intros emits_patch) simp_all
  ultimately show ?thesis
    unfolding processKeyRotation_def findChildEncryptionKeyRotationCronJob_def
    by (auto intro!: emits_intros emits_find_child_own emits_own [OF emits_determine] emits_own [OF emits_checkDisabled]
        split: sum.split bool.split option.split)
qed

lemma emits_processReclaimSpace_own: "emits (\<lambda>_. writes_to (rs_sched s)) (processReclaimSpace e s prec req p csi)"
proof -
  have "emits (\<lambda>_. writes_to (rs_sched s)) (RS_unschedule s p child)" for child
    unfolding RS_unschedule_def deleteChildCronJob_def Patch_PVC_def by (intro emits_intros emits_delete_child) simp_all
  moreover have "emits (\<lambda>_. writes_to (rs_sched s)) (RS_update s req p job sched)" for job sched
    unfolding RS_update_def Update_Sched_def by (intro emits_intros emits_patch) simp_all
  moreover have "emits (\<lambda>_. writes_to (rs_sched s)) (RS_create e s req p sched)" for sched
    unfolding RS_create_def generateCronJobName_def Create_Sched_def by (intro emits_intros emits_patch) simp_all
  ultimately show ?thesis
    unfolding processReclaimSpace_def findChildCronJob_def deleteChildCronJob_def
    by (auto intro!: emits_intros emits_find_child_own emits_own [OF emits_determine] split: sum.split option.split)
qed

text \<open>\<open>claim_write_ok\<close>: the obligation for both kinds.\<close>

definition claim_write_ok :: "senv \<Rightarrow> nsname \<Rightarrow> event list \<Rightarrow> event list \<Rightarrow> event \<Rightarrow> bool" where
  "claim_write_ok s req h0 h ev \<longleftrightarrow>
     sched_write_ok s (rs_sched s) RsCronJobNameAnnotation RsCronJobScheduleTimeAnnotation req h0 h ev \<and>
     sched_write_ok s (kr_sched s) KrcJobNameAnnotation KrcJobScheduleTimeAnnotation req h0 h ev"

lemma htriple_conj_emits:
  assumes "htriple H m K R" "emits S m"
  shows "htriple H m K (\<lambda>h ev. R h ev \<and> S h ev)"
  unfolding htriple_def
proof (intro allI impI)
  fix w x w' assume run: "run_state m w = (x, w')" and h: "H (trace w)"
  obtain es where es: "trace w' = trace w @ es" "steps_ok R (trace w) es" "K x (trace w')"
    using assms(1) run h by (rule htripleD)
  obtain es' where "trace w' = trace w @ es'" "steps_ok S (trace w) es'"
    using assms(2) run by (rule emitsD)
  with es have "steps_ok (\<lambda>h ev. R h ev \<and> S h ev) (trace w) es" by (simp add: steps_ok_def)
  with es show "\<exists>es. trace w' = trace w @ es \<and> steps_ok (\<lambda>h ev. R h ev \<and> S h ev) (trace w) es \<and> K x (trace w')" by blast
qed

lemma htriple_PVC_process: "htriple (extends h0) (PVC_process e s prec req p csi) (\<lambda>_. extends h0) (claim_write_ok s req h0)"
proof -
  have kr: "htriple (extends h0) (processKeyRotation e s prec req p csi) (\<lambda>_. extends h0) (claim_write_ok s req h0)" for p
    by (rule htriple_mono [OF htriple_conj_emits [OF htriple_processKeyRotation emits_processKeyRotation_own]])
      (auto simp: claim_write_ok_def intro: writes_to_other)
  have rs: "htriple (extends h0) (processReclaimSpace e s prec req p csi) (\<lambda>_. extends h0) (claim_write_ok s req h0)" for p
    by (rule htriple_mono [OF htriple_conj_emits [OF htriple_processReclaimSpace emits_processReclaimSpace_own]])
      (auto simp: claim_write_ok_def intro: writes_to_other)
  show ?thesis
    unfolding PVC_process_def
  proof (rule htriple_bind [OF kr], unfold case_prod_beta, rule htriple_bind [OF rs])
    show "htriple (extends h0) (case snd r of None \<Rightarrow> ret (Returned rr_empty (snd kr)) | Some err \<Rightarrow> ret (Returned (fst r) (Some err)))
      (\<lambda>_. extends h0) (claim_write_ok s req h0)" for r :: "rresult \<times> goerr option" and kr :: "pvc \<times> goerr option"
      by (cases "snd r") simp_all
  qed
qed

lemma claim_write_quiet: "sched_quiet ev \<Longrightarrow> claim_write_ok s req h0 h ev"
  by (simp add: claim_write_ok_def sched_quiet_ok)

lemma htriple_PVC_Reconcile: "htriple (extends h0) (PVC_Reconcile e s prec req) (\<lambda>_. extends h0) (claim_write_ok s req h0)"
proof -
  have call: "htriple (extends h0) (call ans (ApiGet n nn)) (\<lambda>_. extends h0) (claim_write_ok s req h0)" for ans :: "event list \<Rightarrow> 'b" and n nn
    by (rule htriple_call) (simp_all add: claim_write_quiet extends_append)
  show ?thesis
    unfolding PVC_Reconcile_def Get_PVC_def Get_PV_def
    by (auto intro!: htriple_bind [OF call] htriple_PVC_process split: sum.split option.split)
qed

end
