(* ===== verification/Sched_Server.thy ===== *)
theory Sched_Server
  imports Pvc_Facts
begin

text \<open>
  The effect of \<open>reconcileFeature\<close> on the schedulers a server holds. The interface to the server is a
  locale: what is stored after a call, and what is answered given what is stored. \<open>api_server\<close> is a
  server that keeps its objects as the trace of accepted writes leaves them, and interprets the locale
  for both kinds of scheduler.
\<close>

section \<open>Stored schedulers\<close>

type_synonym sched_map = "nsname \<Rightarrow> cronjob option"

definition sched_key :: "cronjob \<Rightarrow> nsname" where
  "sched_key x = \<lparr>nn_namespace = om_namespace (cj_meta x), nn_name = om_name (cj_meta x)\<rparr>"

definition owned_by :: "gvk \<Rightarrow> pvc \<Rightarrow> cronjob \<Rightarrow> cronjob" where
  "owned_by g p x = x\<lparr>cj_meta := (cj_meta x)\<lparr>om_ownerReferences := [owner_ref_to g (pvc_meta p)]\<rparr>\<rparr>"

text \<open>
  What is stored after a feature was reconciled: an unmanaged scheduler stays as it is; otherwise there
  is a scheduler exactly when one is wanted, and it has the wanted schedule.
\<close>

definition feature_spec :: "gvk \<Rightarrow> sched_kind \<Rightarrow> pvc \<Rightarrow> string \<Rightarrow> string \<Rightarrow> string \<Rightarrow> sched_map \<Rightarrow> sched_map" where
  "feature_spec g k p name schedule enabledVal m =
     (let wanted = (schedule \<noteq> [] \<and> enabledVal \<noteq> ''false'');
          nn = \<lparr>nn_namespace = om_namespace (pvc_meta p), nn_name = name\<rparr>
      in (case m nn of
            None \<Rightarrow>
              if wanted then m(nn \<mapsto> owned_by g p (SetSpec k (bare_child name (om_namespace (pvc_meta p))) schedule (om_name (pvc_meta p))))
              else m
          | Some x \<Rightarrow>
              if \<not> IsManagedByController (cj_meta x) then m
              else if \<not> wanted then m(nn := None)
              else if GetSchedule x \<noteq> schedule then m(nn \<mapsto> SetSpec k x schedule (om_name (pvc_meta p)))
              else m))"

lemma SetSpec_sched [simp]:
  "SetSpec (rs_sched s) = setReclaimspaceSpec" "SetSpec (kr_sched s) = setReclaimspaceSpec"
  by (intro ext, simp add: SetSpec_def rs_sched_def kr_sched_def setKeyrotationSpec_def)+

lemma setReclaimspaceSpec_facts [simp]:
  "sched_key (setReclaimspaceSpec x t n) = sched_key x" "GetSchedule (setReclaimspaceSpec x t n) = t"
  "IsManagedByController (cj_meta (setReclaimspaceSpec x t n))"
  "om_ownerReferences (cj_meta (setReclaimspaceSpec x t n)) = om_ownerReferences (cj_meta x)"
  "om_namespace (cj_meta (setReclaimspaceSpec x t n)) = om_namespace (cj_meta x)"
  by (simp_all add: setReclaimspaceSpec_def sched_key_def GetSchedule_def IsManagedByController_def update_conv')

lemma set_spec_fixed: "x = setReclaimspaceSpec x t n \<Longrightarrow> GetSchedule x = t"
  by (metis setReclaimspaceSpec_facts(2))

lemma owned_by_facts [simp]:
  "sched_key (owned_by g p x) = sched_key x" "GetSchedule (owned_by g p x) = GetSchedule x"
  "IsManagedByController (cj_meta (owned_by g p x)) = IsManagedByController (cj_meta x)"
  by (simp_all add: owned_by_def sched_key_def GetSchedule_def IsManagedByController_def)

lemma bare_child_facts [simp]:
  "sched_key (bare_child n ns) = \<lparr>nn_namespace = ns, nn_name = n\<rparr>"
  "om_namespace (cj_meta (bare_child n ns)) = ns" "om_name (cj_meta (bare_child n ns)) = n"
  "om_ownerReferences (cj_meta (bare_child n ns)) = []"
  by (simp_all add: bare_child_def sched_key_def empty_meta_def)

text \<open>Reconciling a second time changes nothing.\<close>

lemma feature_spec_settled:
  assumes "SetSpec k = setReclaimspaceSpec"
  shows "feature_spec g k p name t en (feature_spec g k p name t en m) = feature_spec g k p name t en m"
  using assms by (auto simp: feature_spec_def Let_def split: option.split)

section \<open>The server as an interface\<close>

locale sched_server =
  fixes k :: sched_kind and store :: "event list \<Rightarrow> sched_map"
  assumes get: "sk_get k h nn = (case store h nn of None \<Rightarrow> Inl notfound | Some x \<Rightarrow> Inr x)"
    and create_ok: "store h (sched_key x) = None \<Longrightarrow> sk_create k h x = Inr x"
    and update_ok: "store h (sched_key x) \<noteq> None \<Longrightarrow> sk_update k h x = Inr x"
    and delete_ok: "store h (sched_key x) \<noteq> None \<Longrightarrow> sk_delete k h x = Inr ()"
    and store_create: "store h (sched_key x) = None \<Longrightarrow> store (h @ [ApiCreate (sk_obj k x)]) = (store h)(sched_key x \<mapsto> x)"
    and store_update: "store h (sched_key x) \<noteq> None \<Longrightarrow> store (h @ [ApiUpdate (sk_obj k x)]) = (store h)(sched_key x \<mapsto> x)"
    and store_delete: "store (h @ [ApiDelete (sk_obj k x)]) = (store h)(sched_key x := None)"
    and store_other: "(\<And>x. ev \<noteq> ApiCreate (sk_obj k x) \<and> ev \<noteq> ApiUpdate (sk_obj k x) \<and> ev \<noteq> ApiDelete (sk_obj k x)) \<Longrightarrow>
      store (h @ [ev]) = store h"
    and keyed: "store h nn = Some x \<Longrightarrow> sched_key x = nn"
    and set_spec: "SetSpec k = setReclaimspaceSpec"
begin

lemma store_get [simp]: "store (h @ [ApiGet n nn]) = store h"
  by (rule store_other) simp

lemma store_get_write:
  "store h (sched_key x) = None \<Longrightarrow> store (h @ [ApiGet n nn, ApiCreate (sk_obj k x)]) = (store h)(sched_key x \<mapsto> x)"
  "store h (sched_key x) \<noteq> None \<Longrightarrow> store (h @ [ApiGet n nn, ApiUpdate (sk_obj k x)]) = (store h)(sched_key x \<mapsto> x)"
  "store (h @ [ApiGet n nn, ApiDelete (sk_obj k x)]) = (store h)(sched_key x := None)"
  using store_create [of "h @ [ApiGet n nn]" x] store_update [of "h @ [ApiGet n nn]" x] store_delete [of "h @ [ApiGet n nn]" x]
  by simp_all

lemma run_create:
  assumes "s_gvkPVC s = Inr g" "store (trace w) \<lparr>nn_namespace = om_namespace (pvc_meta p), nn_name = name\<rparr> = None"
    and "x = owned_by g p (SetSpec k (bare_child name (om_namespace (pvc_meta p))) t (om_name (pvc_meta p)))"
  shows "run_state (feature_create s k p (bare_child name (om_namespace (pvc_meta p))) t) w =
    (None, w\<lparr>trace := trace w @ [ApiCreate (sk_obj k x)]\<rparr>)"
proof -
  let ?y = "setReclaimspaceSpec (bare_child name (om_namespace (pvc_meta p))) t (om_name (pvc_meta p))"
  have "SetControllerReference (s_gvkPVC s) (pvc_meta p) (cj_meta ?y) = Inr (cj_meta x)"
    using assms(1,3) by (simp add: SetControllerReference_def validateOwner_def GetControllerOf_def set_spec owned_by_def)
  moreover have "?y\<lparr>cj_meta := cj_meta x\<rparr> = x"
    using assms(3) by (simp add: set_spec owned_by_def)
  moreover have "sk_create k (trace w) x = Inr x"
    using assms(2,3) by (intro create_ok) (simp add: set_spec)
  ultimately show ?thesis
    by (simp add: feature_create_def Create_Sched_def set_spec run_defs)
qed

text \<open>One run of \<open>reconcileFeature\<close>: no error, the store as specified, and only a read when it was settled.\<close>

lemma reconcileFeature_refines:
  assumes "s_gvkPVC s = Inr g"
    and run: "run_state (reconcileFeature s k p (bare_child name (om_namespace (pvc_meta p))) t en) w = (err, w')"
  shows "err = None" "store (trace w') = feature_spec g k p name t en (store (trace w))" "pool w' = pool w"
    "feature_spec g k p name t en (store (trace w)) = store (trace w) \<Longrightarrow>
      trace w' = trace w @ [ApiGet (sk_name k) \<lparr>nn_namespace = om_namespace (pvc_meta p), nn_name = name\<rparr>]"
proof -
  let ?nn = "\<lparr>nn_namespace = om_namespace (pvc_meta p), nn_name = name\<rparr>"
  let ?w = "w\<lparr>trace := trace w @ [ApiGet (sk_name k) ?nn]\<rparr>"
  have nf: "IsNotFound notfound" by (simp add: notfound_def IsNotFound_def)
  have "err = None \<and> store (trace w') = feature_spec g k p name t en (store (trace w)) \<and> pool w' = pool w \<and>
    (feature_spec g k p name t en (store (trace w)) = store (trace w) \<longrightarrow> trace w' = trace w @ [ApiGet (sk_name k) ?nn])"
  proof (cases "store (trace w) ?nn")
    case None
    then have "store (trace ?w) ?nn = None" by simp
    note create = run_create [OF assms(1) this refl]
    from None run nf create show ?thesis
      by (auto simp: reconcileFeature_def Get_Sched_def get run_defs Let_def feature_spec_def set_spec store_get_write fun_upd_idem_iff
          split: if_splits)
  next
    case (Some x)
    then have "sched_key x = ?nn" by (rule keyed)
    with Some run show ?thesis
      by (auto simp: reconcileFeature_def Get_Sched_def get run_defs Let_def feature_spec_def set_spec feature_delete_def
          feature_update_def Update_Sched_def Delete_Sched_def delete_ok update_ok store_get_write fun_upd_idem_iff dest: set_spec_fixed
          split: if_splits)
  qed
  then show "err = None" "store (trace w') = feature_spec g k p name t en (store (trace w))" "pool w' = pool w"
    "feature_spec g k p name t en (store (trace w)) = store (trace w) \<Longrightarrow> trace w' = trace w @ [ApiGet (sk_name k) ?nn]"
    by auto
qed

end

section \<open>A server over the trace\<close>

definition rs_of :: "obj \<Rightarrow> cronjob option" where
  "rs_of ob = (case ob of O_RSCronJob x \<Rightarrow> Some x | _ \<Rightarrow> None)"

definition kr_of :: "obj \<Rightarrow> cronjob option" where
  "kr_of ob = (case ob of O_KRCronJob x \<Rightarrow> Some x | _ \<Rightarrow> None)"

definition srv_step :: "(obj \<Rightarrow> cronjob option) \<Rightarrow> event \<Rightarrow> sched_map \<Rightarrow> sched_map" where
  "srv_step sel ev m =
     (case ev of
        ApiCreate ob \<Rightarrow> (case sel ob of None \<Rightarrow> m | Some x \<Rightarrow> if m (sched_key x) = None then m(sched_key x \<mapsto> x) else m)
      | ApiUpdate ob \<Rightarrow> (case sel ob of None \<Rightarrow> m | Some x \<Rightarrow> if m (sched_key x) = None then m else m(sched_key x \<mapsto> x))
      | ApiDelete ob \<Rightarrow> (case sel ob of None \<Rightarrow> m | Some x \<Rightarrow> m(sched_key x := None))
      | _ \<Rightarrow> m)"

definition srv_store :: "(obj \<Rightarrow> cronjob option) \<Rightarrow> cronjob list \<Rightarrow> event list \<Rightarrow> sched_map" where
  "srv_store sel initial h = fold (srv_step sel) h (\<lambda>nn. find (\<lambda>x. sched_key x = nn) initial)"

lemma srv_store_snoc [simp]: "srv_store sel initial (h @ [ev]) = srv_step sel ev (srv_store sel initial h)"
  by (simp add: srv_store_def)

lemma srv_store_keyed: "srv_store sel initial h nn = Some x \<Longrightarrow> sched_key x = nn"
proof (induction h arbitrary: nn x rule: rev_induct)
  case Nil
  then show ?case by (auto simp: srv_store_def find_Some_iff)
next
  case (snoc ev h)
  then show ?case
    by (auto simp: srv_step_def split: event.splits option.splits if_splits)
qed

definition alreadyexists :: goerr where
  "alreadyexists = ApiStatus R_AlreadyExists ''already exists''"

text \<open>The answers of the server, for both kinds, from the objects it was started with.\<close>

definition api_server :: "senv \<Rightarrow> cronjob list \<Rightarrow> cronjob list \<Rightarrow> senv" where
  "api_server s rs kr =
     (let get = (\<lambda>sel initial h nn. case srv_store sel initial h nn of None \<Rightarrow> Inl notfound | Some x \<Rightarrow> Inr x);
          create = (\<lambda>sel initial h x. if srv_store sel initial h (sched_key x) = None then Inr x else Inl alreadyexists);
          update = (\<lambda>sel initial h x. if srv_store sel initial h (sched_key x) = None then Inl notfound else Inr x);
          delete = (\<lambda>sel initial h x. if srv_store sel initial h (sched_key x) = None then Inl notfound else Inr ())
      in s\<lparr>s_cron := (s_cron s)\<lparr>c_getRSCron := get rs_of rs, c_getKRCron := get kr_of kr\<rparr>,
           s_createRSCron := create rs_of rs, s_updateRSCron := update rs_of rs, s_deleteRSCron := delete rs_of rs,
           s_createKRCron := create kr_of kr, s_updateKRCron := update kr_of kr, s_deleteKRCron := delete kr_of kr\<rparr>)"

lemma srv_step_other:
  assumes "\<And>x. ev \<noteq> ApiCreate (mk x) \<and> ev \<noteq> ApiUpdate (mk x) \<and> ev \<noteq> ApiDelete (mk x)" "\<And>ob x. sel ob = Some x \<Longrightarrow> ob = mk x"
  shows "srv_step sel ev m = m"
  using assms by (auto simp: srv_step_def split: event.split option.split)

lemma sel_obj: "rs_of ob = Some x \<Longrightarrow> ob = O_RSCronJob x" "kr_of ob = Some x \<Longrightarrow> ob = O_KRCronJob x"
  by (auto simp: rs_of_def kr_of_def split: obj.splits)

lemmas api_server_simps = api_server_def Let_def srv_step_def

interpretation rs_server: sched_server "rs_sched (api_server s rs kr)" "srv_store rs_of rs" for s rs kr
proof (unfold_locales, goal_cases)
  case (8 ev h)
  then show ?case by (simp add: rs_sched_def srv_step_other [of ev O_RSCronJob rs_of] sel_obj)
next
  case (9 h nn x)
  then show ?case by (rule srv_store_keyed)
qed (auto simp: rs_sched_def api_server_simps rs_of_def SetSpec_def fun_eq_iff)

interpretation kr_server: sched_server "kr_sched (api_server s rs kr)" "srv_store kr_of kr" for s rs kr
proof (unfold_locales, goal_cases)
  case (8 ev h)
  then show ?case by (simp add: kr_sched_def srv_step_other [of ev O_KRCronJob kr_of] sel_obj)
next
  case (9 h nn x)
  then show ?case by (rule srv_store_keyed)
qed (auto simp: kr_sched_def api_server_simps kr_of_def SetSpec_def setKeyrotationSpec_def fun_eq_iff)

section \<open>A whole run\<close>

text \<open>The names and the wanted schedules of the two features of a claim.\<close>

definition wanted_kr :: "gvk \<Rightarrow> sched_kind \<Rightarrow> pvc \<Rightarrow> object_meta \<Rightarrow> sched_map \<Rightarrow> sched_map" where
  "wanted_kr g k p sc = feature_spec g k p (om_name (pvc_meta p) @ ''-keyrotation'')
     (mget (om_annotations sc) KrcJobScheduleTimeAnnotation) (mget (om_annotations sc) KrEnableAnnotation)"

definition wanted_rs :: "gvk \<Rightarrow> sched_kind \<Rightarrow> pvc \<Rightarrow> object_meta \<Rightarrow> sched_map \<Rightarrow> sched_map" where
  "wanted_rs g k p sc = feature_spec g k p (om_name (pvc_meta p) @ ''-reclaimspace'')
     (mget (om_annotations sc) RsCronJobScheduleTimeAnnotation) ''true''"

text \<open>Neither feature touches the schedulers of the other.\<close>

lemma emits_reconcileFeature: "emits (\<lambda>_. writes_to k) (reconcileFeature s k p c t en)"
  unfolding reconcileFeature_def feature_create_def feature_update_def feature_delete_def sched_api_defs
  by (intro emits_intros) simp_all

lemma srv_store_foreign:
  assumes "steps_ok (\<lambda>_ ev. srv_step sel ev = id) h es"
  shows "srv_store sel initial (h @ es) = srv_store sel initial h"
proof -
  have "\<forall>ev \<in> set es. srv_step sel ev = id" using assms by (auto simp: steps_ok_def in_set_conv_nth)
  then have "fold (srv_step sel) es m = m" for m by (induction es arbitrary: m) auto
  then show ?thesis by (simp add: srv_store_def)
qed

lemma reconcileFeature_foreign:
  assumes "run_state (reconcileFeature s k p c t en) w = (err, w')" "\<And>ev. writes_to k ev \<Longrightarrow> srv_step sel ev = id"
  shows "srv_store sel initial (trace w') = srv_store sel initial (trace w)"
proof -
  have "emits (\<lambda>_ ev. srv_step sel ev = id) (reconcileFeature s k p c t en)"
    by (rule emits_mono [OF emits_reconcileFeature]) (rule assms(2))
  then obtain es where "trace w' = trace w @ es" "steps_ok (\<lambda>_ ev. srv_step sel ev = id) (trace w) es"
    using assms(1) by (rule emitsD)
  then show ?thesis by (simp add: srv_store_foreign)
qed

lemma foreign_writes:
  "writes_to (rs_sched s) ev \<Longrightarrow> srv_step kr_of ev = id" "writes_to (kr_sched s) ev \<Longrightarrow> srv_step rs_of ev = id"
  by (auto simp: writes_to_def sched_quiet_def srv_step_def rs_sched_def kr_sched_def rs_of_def kr_of_def fun_eq_iff split: event.split)

lemma PVCNew_features_refines:
  assumes g: "s_gvkPVC s = Inr g" and srv: "srv = api_server s rs kr"
    and run: "run_state (PVCNew_features srv p sc) w = (r, w')"
  shows "r = done_ok \<and> srv_store kr_of kr (trace w') = wanted_kr g (kr_sched srv) p sc (srv_store kr_of kr (trace w)) \<and>
    srv_store rs_of rs (trace w') = wanted_rs g (rs_sched srv) p sc (srv_store rs_of rs (trace w)) \<and>
    (wanted_kr g (kr_sched srv) p sc (srv_store kr_of kr (trace w)) = srv_store kr_of kr (trace w) \<longrightarrow>
     wanted_rs g (rs_sched srv) p sc (srv_store rs_of rs (trace w)) = srv_store rs_of rs (trace w) \<longrightarrow>
     (\<exists>nn nn'. trace w' = trace w @ [ApiGet ''EncryptionKeyRotationCronJob'' nn, ApiGet ''ReclaimSpaceCronJob'' nn']))"
proof -
  have g': "s_gvkPVC (api_server s rs kr) = Inr g" using g by (simp add: api_server_def Let_def)
  obtain err w1 where kr: "run_state (reconcileFeature srv (kr_sched srv) p
      (bare_child (om_name (pvc_meta p) @ ''-keyrotation'') (om_namespace (pvc_meta p)))
      (mget (om_annotations sc) KrcJobScheduleTimeAnnotation) (mget (om_annotations sc) KrEnableAnnotation)) w = (err, w1)"
    by fastforce
  note k = kr_server.reconcileFeature_refines [OF g' kr [unfolded srv], folded srv wanted_kr_def]
  obtain err' w2 where rs: "run_state (reconcileFeature srv (rs_sched srv) p
      (bare_child (om_name (pvc_meta p) @ ''-reclaimspace'') (om_namespace (pvc_meta p)))
      (mget (om_annotations sc) RsCronJobScheduleTimeAnnotation) ''true'') w1 = (err', w2)"
    by fastforce
  note r = rs_server.reconcileFeature_refines [OF g' rs [unfolded srv], folded srv wanted_rs_def]
  have names: "sk_name (kr_sched srv) = ''EncryptionKeyRotationCronJob''" "sk_name (rs_sched srv) = ''ReclaimSpaceCronJob''"
    by (simp_all add: kr_sched_def rs_sched_def)
  have "r = done_ok" "w' = w2"
    using run kr rs k(1) r(1) by (simp_all add: PVCNew_features_def)
  moreover have "srv_store rs_of rs (trace w1) = srv_store rs_of rs (trace w)"
    using kr foreign_writes(2) by (rule reconcileFeature_foreign)
  moreover have "srv_store kr_of kr (trace w2) = srv_store kr_of kr (trace w1)"
    using rs foreign_writes(1) by (rule reconcileFeature_foreign)
  ultimately show ?thesis using k(2,4) r(2,4) by (auto simp: names)
qed

end
