(* ===== verification/Props_Pvc.thy ===== *)
theory Props_Pvc
  imports Sched_Server
begin

text \<open>Properties of the controllers that keep a scheduler for every annotated claim.\<close>

section \<open>An example cluster\<close>

definition px_claim :: pvc where
  "px_claim = \<lparr>pvc_meta = (empty_meta ''data'' ''shop'')\<lparr>om_uid := ''u1''\<rparr>, pvc_volumeName = ''pv1'',
     pvc_storageClassName = Some ''rbd'', pvc_phase = ClaimBound\<rparr>"

definition px_req :: nsname where
  "px_req = \<lparr>nn_namespace = ''shop'', nn_name = ''data''\<rparr>"

definition px_class :: object_meta where
  "px_class = (empty_meta ''rbd'' [])\<lparr>om_annotations := [(RsCronJobScheduleTimeAnnotation, ''@daily'')]\<rparr>"

definition px_env :: env where
  "px_env = env0\<lparr>e_getPVC := (\<lambda>_ _. Inr px_claim),
     e_getPV := (\<lambda>_ _. Inr \<lparr>pv_name = ''pv1'', pv_csi = Some \<lparr>csi_driver = ''rbd.csi'', csi_volumeHandle = ''h1''\<rparr>\<rparr>)\<rparr>"

definition px_patch :: "(string \<times> string option) list \<Rightarrow> strmap \<Rightarrow> strmap" where
  "px_patch = fold (\<lambda>(k, v) m. case v of None \<Rightarrow> AList.delete k m | Some v \<Rightarrow> AList.update k v m)"

definition px_cenv :: cenv where
  "px_cenv = \<lparr>c_getRSCron = (\<lambda>_ _. Inl notfound), c_statusRSCron = (\<lambda>_ m. Inr m), c_listRSJob = (\<lambda>_ _. Inr []),
     c_createRSJob = (\<lambda>_ m. Inr m), c_deleteRSJob = (\<lambda>_ _. Inr ()), c_getKRCron = (\<lambda>_ _. Inl notfound),
     c_statusKRCron = (\<lambda>_ m. Inr m), c_listKRJob = (\<lambda>_ _. Inr []), c_createKRJob = (\<lambda>_ m. Inr m), c_deleteKRJob = (\<lambda>_ _. Inr ()),
     c_parseStandard = (\<lambda>t. if t = [] then Inl (ErrMsg ''empty spec string'') else Inr (\<lambda>t. t + second)), c_zone = (\<lambda>_. 0),
     c_sortSlice = (\<lambda>_ xs. xs), c_reference = (\<lambda>m. Inr (om_name (job_meta m))),
     c_gvkRSCron = Inr \<lparr>gvk_group = ''csiaddons.openshift.io'', gvk_version = ''v1alpha1'', gvk_kind = ''ReclaimSpaceCronJob''\<rparr>,
     c_gvkKRCron = Inr \<lparr>gvk_group = ''csiaddons.openshift.io'', gvk_version = ''v1alpha1'', gvk_kind = ''EncryptionKeyRotationCronJob''\<rparr>\<rparr>"

definition gvk_claim :: gvk where
  "gvk_claim = \<lparr>gvk_group = [], gvk_version = ''v1'', gvk_kind = ''PersistentVolumeClaim''\<rparr>"

definition px_senv :: senv where
  "px_senv = \<lparr>s_cron = px_cenv, s_getNamespace = (\<lambda>_ _. Inr (empty_meta ''shop'' [])), s_getStorageClass = (\<lambda>_ _. Inr px_class),
     s_listPVC = (\<lambda>_ _. Inr [px_claim]),
     s_patchPVC = (\<lambda>_ (p, a). Inr (p\<lparr>pvc_meta := (pvc_meta p)\<lparr>om_annotations := px_patch a (om_annotations (pvc_meta p))\<rparr>\<rparr>)),
     s_listRSCron = (\<lambda>_ _. Inr []), s_createRSCron = (\<lambda>_ x. Inr x), s_updateRSCron = (\<lambda>_ x. Inr x), s_deleteRSCron = (\<lambda>_ _. Inr ()),
     s_listKRCron = (\<lambda>_ _. Inr []), s_createKRCron = (\<lambda>_ x. Inr x), s_updateKRCron = (\<lambda>_ x. Inr x), s_deleteKRCron = (\<lambda>_ _. Inr ()),
     s_gvkPVC = Inr gvk_claim\<rparr>"

definition px_world :: world where
  "px_world = \<lparr>trace = [], pool = []\<rparr>"

definition px_child :: cronjob where
  "px_child = owned_by gvk_claim px_claim (constructRSCronJob ''data-0'' ''shop'' ''@daily'' ''data'')"

lemmas px_defs = px_claim_def px_req_def px_class_def px_env_def px_patch_def px_cenv_def px_senv_def px_world_def gvk_claim_def

section \<open>Schedulers of claims\<close>

text \<open>C24: reconciling a claim writes only schedulers of that claim. A scheduler is created only when the
  server has listed, in that run, none for the claim, and after the claim was patched with its name and
  schedule; the new object has the patched claim as its only owner and as target of its jobs. A scheduler
  is updated only when it is the first one listed and not marked as unmanaged, and its metadata are kept.
  One is deleted only when it is surplus or the first one and not unmanaged. This holds for schedulers of
  space reclamation and of key rotation alike.\<close>

theorem claim_schedulers_safe:
  assumes "run_state (PVC_Reconcile e s prec req) w = (r, w')" "appended w w' i ev"
  shows "sched_write_ok s (rs_sched s) RsCronJobNameAnnotation RsCronJobScheduleTimeAnnotation req (trace w) (take i (trace w')) ev \<and>
    sched_write_ok s (kr_sched s) KrcJobNameAnnotation KrcJobScheduleTimeAnnotation req (trace w) (take i (trace w')) ev"
proof -
  have "htriple (\<lambda>h. h = trace w) (PVC_Reconcile e s prec req) (\<lambda>_. extends (trace w)) (claim_write_ok s req (trace w))"
    by (rule htriple_weaken [OF htriple_PVC_Reconcile]) simp_all
  from htriple_appended [OF this assms] show ?thesis
    by (simp add: claim_write_ok_def)
qed

lemma px_run: "appended px_world (snd (run_state (PVC_Reconcile px_env px_senv SchedulePVC px_req) px_world)) 11
    (ApiCreate (O_RSCronJob px_child))"
  by (simp add: appended_def px_child_def) code_simp

theorem claim_schedulers_safe_witness:
  "since [] (children_listed (rs_sched px_senv) px_req [])
     (take 11 (trace (snd (run_state (PVC_Reconcile px_env px_senv SchedulePVC px_req) px_world)))) \<and>
   since [] (announced px_senv RsCronJobNameAnnotation RsCronJobScheduleTimeAnnotation px_child)
     (take 11 (trace (snd (run_state (PVC_Reconcile px_env px_senv SchedulePVC px_req) px_world))))"
proof -
  let ?r = "run_state (PVC_Reconcile px_env px_senv SchedulePVC px_req) px_world"
  have "run_state (PVC_Reconcile px_env px_senv SchedulePVC px_req) px_world = (fst ?r, snd ?r)" by simp
  from claim_schedulers_safe [OF this px_run] show ?thesis
    by (simp add: sched_write_ok_def rs_sched_def px_world_def)
qed

text \<open>C25: when only storage classes count, reconciling a bound claim of a CSI volume brings the stored
  schedulers to what the class asks for. On a server that keeps what it is told, one run ends without
  error; for each of the two features an unmanaged scheduler is left as it is, and otherwise there is one
  exactly when the class gives a schedule and does not disable the feature, owned by the claim and with the
  schedule of the class; no other scheduler changes. A second run makes five reads and no write.\<close>

theorem class_schedules_converge:
  assumes "\<forall>h. e_getPVC e h req = Inr p" "om_deletionTimestamp (pvc_meta p) = None" "pvc_phase p = ClaimBound"
    and "\<forall>h. e_getPV e h \<lparr>nn_namespace = [], nn_name = pvc_volumeName p\<rparr> = Inr v" "pv_csi v \<noteq> None" "hasValidStorageClassName p"
    and "\<forall>h. s_getStorageClass s h (sc_key p) = Inr sc" "s_gvkPVC s = Inr g"
    and "srv = api_server s rs kr"
    and "run_state (PVCNew_Reconcile e srv req) w = (r1, w1)" "run_state (PVCNew_Reconcile e srv req) w1 = (r2, w2)"
  shows "r1 = done_ok \<and>
    srv_store kr_of kr (trace w1) = feature_spec g (kr_sched srv) p (om_name (pvc_meta p) @ ''-keyrotation'')
      (mget (om_annotations sc) KrcJobScheduleTimeAnnotation) (mget (om_annotations sc) KrEnableAnnotation) (srv_store kr_of kr (trace w)) \<and>
    srv_store rs_of rs (trace w1) = feature_spec g (rs_sched srv) p (om_name (pvc_meta p) @ ''-reclaimspace'')
      (mget (om_annotations sc) RsCronJobScheduleTimeAnnotation) ''true'' (srv_store rs_of rs (trace w)) \<and>
    r2 = done_ok \<and> (\<exists>nn nn'. trace w2 = trace w1 @ [ApiGet ''PersistentVolumeClaim'' req,
      ApiGet ''PersistentVolume'' \<lparr>nn_namespace = [], nn_name = pvc_volumeName p\<rparr>, ApiGet ''StorageClass'' (sc_key p),
      ApiGet ''EncryptionKeyRotationCronJob'' nn, ApiGet ''ReclaimSpaceCronJob'' nn'])"
proof -
  let ?gets = "[ApiGet ''PersistentVolumeClaim'' req, ApiGet ''PersistentVolume'' \<lparr>nn_namespace = [], nn_name = pvc_volumeName p\<rparr>,
    ApiGet ''StorageClass'' (sc_key p)]"
  have classes: "s_getStorageClass srv = s_getStorageClass s" by (simp add: assms(9) api_server_def Let_def)
  have reach: "run_state (PVCNew_Reconcile e srv req) w = run_state (PVCNew_features srv p sc) (w\<lparr>trace := trace w @ ?gets\<rparr>)" for w
    using assms(1-7) classes
    by (auto simp: PVCNew_Reconcile_def Get_PVC_def Get_PV_def Get_StorageClass_def run_defs)
  have gets: "srv_store sel initial (h @ ?gets) = srv_store sel initial h" for sel initial h
    by (rule srv_store_foreign) (auto simp: steps_ok_def less_Suc_eq srv_step_def nth_Cons' fun_eq_iff)
  note first = PVCNew_features_refines [OF assms(8,9) assms(10) [unfolded reach], simplified gets]
  note second = PVCNew_features_refines [OF assms(8,9) assms(11) [unfolded reach], simplified gets]
  have "wanted_kr g (kr_sched srv) p sc (srv_store kr_of kr (trace w1)) = srv_store kr_of kr (trace w1)"
    "wanted_rs g (rs_sched srv) p sc (srv_store rs_of rs (trace w1)) = srv_store rs_of rs (trace w1)"
    using first by (simp_all add: wanted_kr_def wanted_rs_def feature_spec_settled)
  with first second show ?thesis by (auto simp: wanted_kr_def wanted_rs_def gets)
qed

text \<open>A server without schedulers: the one for space reclamation is created, and the second run leaves it.\<close>

theorem class_schedules_converge_witness:
  "let srv = api_server px_senv [] []; w1 = snd (run_state (PVCNew_Reconcile px_env srv px_req) px_world);
       w2 = snd (run_state (PVCNew_Reconcile px_env srv px_req) w1)
   in (\<exists>x. srv_store rs_of [] (trace w1) \<lparr>nn_namespace = ''shop'', nn_name = ''data-reclaimspace''\<rparr> = Some x \<and>
        GetSchedule x = ''@daily'') \<and>
      length (trace w2) = length (trace w1) + 5"
proof -
  let ?srv = "api_server px_senv [] []"
  let ?r1 = "run_state (PVCNew_Reconcile px_env ?srv px_req) px_world"
  let ?r2 = "run_state (PVCNew_Reconcile px_env ?srv px_req) (snd ?r1)"
  have "\<forall>h. e_getPVC px_env h px_req = Inr px_claim" "om_deletionTimestamp (pvc_meta px_claim) = None" "pvc_phase px_claim = ClaimBound"
    "\<forall>h. e_getPV px_env h \<lparr>nn_namespace = [], nn_name = pvc_volumeName px_claim\<rparr> =
      Inr \<lparr>pv_name = ''pv1'', pv_csi = Some \<lparr>csi_driver = ''rbd.csi'', csi_volumeHandle = ''h1''\<rparr>\<rparr>"
    "pv_csi \<lparr>pv_name = ''pv1'', pv_csi = Some \<lparr>csi_driver = ''rbd.csi'', csi_volumeHandle = ''h1''\<rparr>\<rparr> \<noteq> None"
    "hasValidStorageClassName px_claim" "\<forall>h. s_getStorageClass px_senv h (sc_key px_claim) = Inr px_class" "s_gvkPVC px_senv = Inr gvk_claim"
    by (simp_all add: px_defs empty_meta_def hasValidStorageClassName_def)
  note conv = class_schedules_converge [OF this refl, of "[]" "[]" px_world "fst ?r1" "snd ?r1" "fst ?r2" "snd ?r2",
      OF prod.collapse [symmetric] prod.collapse [symmetric]]
  have empty: "srv_store rs_of [] (trace px_world) = (\<lambda>_. None)" by (simp add: srv_store_def px_world_def)
  have names: "om_name (pvc_meta px_claim) = ''data''" "mget (om_annotations px_class) RsCronJobScheduleTimeAnnotation = ''@daily''"
    by (simp_all add: px_claim_def px_class_def empty_meta_def mget_def)
  from conv have "srv_store rs_of [] (trace (snd ?r1)) = feature_spec gvk_claim (rs_sched ?srv) px_claim (''data'' @ ''-reclaimspace'') ''@daily'' ''true'' (\<lambda>_. None)"
    unfolding empty names by blast
  moreover obtain evs where "trace (snd ?r2) = trace (snd ?r1) @ evs" "length evs = 5"
    using conv by fastforce
  ultimately have "srv_store rs_of [] (trace (snd ?r1)) = feature_spec gvk_claim (rs_sched ?srv) px_claim ''data-reclaimspace'' ''@daily'' ''true'' (\<lambda>_. None)"
    "length (trace (snd ?r2)) = length (trace (snd ?r1)) + 5"
    by simp_all
  then show ?thesis
    by (simp add: Let_def feature_spec_def px_claim_def empty_meta_def)
qed

section \<open>From a claim to its jobs\<close>

text \<open>C27: the scheduler a claim controller constructs and hands to the claim is found again under the
  claim and is managed; its limits are present, so the scheduling controller does not stop on it; and every
  job the scheduling controllers construct from it targets that claim, passes the validation of the job
  controllers and is found again under the scheduler. The two controllers construct objects with the same
  schedule, limits and job template.\<close>

theorem claim_to_job:
  assumes "SetControllerReference (Inr gvk_claim) claim (cj_meta (constructRSCronJob name ns schedule (om_name claim))) = Inr m"
    and "x = (constructRSCronJob name ns schedule (om_name claim))\<lparr>cj_meta := m\<rparr>" "om_name claim \<noteq> []"
    and "c_gvkRSCron c = Inr \<lparr>gvk_group = ''csiaddons.openshift.io'', gvk_version = ''v1alpha1'', gvk_kind = ''ReclaimSpaceCronJob''\<rparr>"
    and "constructRSJobForCronJob c x t = Inr job"
  shows "ExtractOwnerNameFromPVCObj (cj_meta x) = [om_name claim] \<and> \<not> unmanaged (Some x) \<and>
    cjs_failedJobsHistoryLimit (cj_spec x) \<noteq> None \<and> cjs_successfulJobsHistoryLimit (cj_spec x) \<noteq> None \<and>
    js_targetPVC (job_spec job) = om_name claim \<and> validateReclaimSpaceJobSpec job = None \<and>
    validateEncryptionKeyRotationJobSpec job = None \<and> jobOwnerIndex ''ReclaimSpaceCronJob'' job = [name] \<and>
    cj_spec (setReclaimspaceSpec (bare_child n ns) schedule (om_name claim)) = cj_spec x"
proof -
  have "om_ownerReferences (cj_meta (constructRSCronJob name ns schedule (om_name claim))) = []"
    by (simp add: constructRSCronJob_def empty_meta_def)
  then have m: "m = (cj_meta (constructRSCronJob name ns schedule (om_name claim)))\<lparr>om_ownerReferences := [owner_ref_to gvk_claim claim]\<rparr>"
    using assms(1) by (auto elim!: SetControllerReference_fresh)
  have scheduler: "ExtractOwnerNameFromPVCObj (cj_meta x) = [om_name claim]" "\<not> unmanaged (Some x)" "om_name (cj_meta x) = name"
    "cj_spec x = cj_spec (constructRSCronJob name ns schedule (om_name claim))"
    by (simp_all add: assms(2) m ExtractOwnerNameFromPVCObj_def GetControllerOf_def owner_ref_to_def gvk_claim_def gvk_apiVersion_def
        unmanaged_def constructRSCronJob_def empty_meta_def)
  obtain meta where "SetControllerReference (c_gvkRSCron c) (cj_meta x) meta = Inr (job_meta job)" "om_ownerReferences meta = []"
    "job_spec job = cjs_jobSpec (cj_spec x)"
    using assms(5) by (auto simp: constructRSJobForCronJob_def constructJob_def Let_def empty_meta_def split: sum.splits)
  then have "jobOwnerIndex ''ReclaimSpaceCronJob'' job = [name]" "js_targetPVC (job_spec job) = om_name claim"
    using scheduler(3,4) assms(4)
    by (auto elim!: SetControllerReference_fresh
        simp: jobOwnerIndex_def owner_ref_to_def gvk_apiVersion_def apiGVStr_def constructRSCronJob_def claim_job_spec_def)
  with scheduler assms(3) show ?thesis
    by (simp add: validateReclaimSpaceJobSpec_def validateEncryptionKeyRotationJobSpec_def constructRSCronJob_def
        setReclaimspaceSpec_def bare_child_def)
qed

theorem claim_to_job_witness:
  "case constructRSJobForCronJob px_cenv px_child (5 * second) of
     Inl err \<Rightarrow> False
   | Inr job \<Rightarrow> js_targetPVC (job_spec job) = ''data'' \<and> jobOwnerIndex ''ReclaimSpaceCronJob'' job = [''data-0'']"
proof -
  obtain job where job: "constructRSJobForCronJob px_cenv px_child (5 * second) = Inr job"
    by (simp add: constructRSJobForCronJob_def constructJob_def Let_def px_cenv_def px_child_def owned_by_def constructRSCronJob_def
        px_claim_def empty_meta_def SetControllerReference_def validateOwner_def GetControllerOf_def)
  have "SetControllerReference (Inr gvk_claim) (pvc_meta px_claim) (cj_meta (constructRSCronJob ''data-0'' ''shop'' ''@daily'' ''data'')) =
      Inr (cj_meta px_child)"
    by (simp add: px_child_def owned_by_def constructRSCronJob_def px_claim_def empty_meta_def SetControllerReference_def
        validateOwner_def GetControllerOf_def)
  moreover have "om_name (pvc_meta px_claim) = ''data''" by (simp add: px_claim_def empty_meta_def)
  moreover have "px_child = (constructRSCronJob ''data-0'' ''shop'' ''@daily'' ''data'')\<lparr>cj_meta := cj_meta px_child\<rparr>"
    by (simp add: px_child_def owned_by_def)
  ultimately show ?thesis
    using claim_to_job [of "pvc_meta px_claim" "''data-0''" "''shop''" "''@daily''" "cj_meta px_child" px_child px_cenv "5 * second" job] job
    by (simp add: px_cenv_def)
qed

section \<open>Which schedule counts\<close>

text \<open>The schedule of a storage class, as the last source.\<close>

definition class_schedule :: "senv \<Rightarrow> string \<Rightarrow> object_meta \<Rightarrow> goerr + string" where
  "class_schedule s key sc =
     (case getScheduleFromAnnotation s key (om_annotations sc) of None \<Rightarrow> Inl ErrScheduleNotFound | Some t \<Rightarrow> Inr t)"

lemma schedule_nonempty:
  assumes "c_parseStandard (s_cron s) [] = Inl err"
  shows "getScheduleFromAnnotation s key a \<noteq> Some []"
  using assms by (auto simp: getScheduleFromAnnotation_def split: option.split sum.split)

lemma run_getScheduleFromSC:
  assumes "c_parseStandard (s_cron s) [] = Inl err" "\<forall>h. s_getStorageClass s h (sc_key p) = Inr sc" "hasValidStorageClassName p"
  shows "\<exists>x. run_state (getScheduleFromSC s p key) w = (x, w\<lparr>trace := trace w @ [ApiGet ''StorageClass'' (sc_key p)]\<rparr>) \<and>
    last_source x = class_schedule s key sc"
  using assms schedule_nonempty [OF assms(1), of key "om_annotations sc"]
  by (auto simp: getScheduleFromSC_def Get_StorageClass_def run_defs last_source_def class_schedule_def split: option.split)

text \<open>What the namespace contributes, given the connections to the driver.\<close>

definition namespace_schedule :: "senv \<Rightarrow> string \<Rightarrow> string \<Rightarrow> string \<Rightarrow> object_meta \<Rightarrow> (string \<times> connection) list \<Rightarrow> goerr + string" where
  "namespace_schedule s key op drivers ns conns =
     (case getScheduleFromAnnotation s key (om_annotations ns) of
        None \<Rightarrow> Inl ErrScheduleNotFound
      | Some t \<Rightarrow>
          if \<exists>(k, conn) \<in> set conns. \<exists>c \<in> set (cn_Capabilities conn). op_capability op c then Inr t
          else if drivers \<in> set (strings_Split (mget (om_annotations ns) drivers) (CHR '','')) then Inl ErrConnNotFoundRequeueNeeded
          else Inl ErrScheduleNotFound)"

definition annotation_keys :: "(string \<times> string \<times> string) set" where
  "annotation_keys = {(RsCronJobScheduleTimeAnnotation, relciamSpaceOp, rsCSIAddonsDriverAnnotation),
     (KrcJobScheduleTimeAnnotation, keyRotationOp, krCSIAddonsDriverAnnotation)}"

lemma run_ns_supported:
  assumes "(key, op, drivers) \<in> annotation_keys" "run_state (GetByNodeID e driver []) w = (Inr conns, w')"
  shows "run_state (ns_supported e a driver op t) w =
    (if \<exists>(k, conn) \<in> set conns. \<exists>c \<in> set (cn_Capabilities conn). op_capability op c then (t, None)
     else if drivers \<in> set (strings_Split (mget a drivers) (CHR '','')) then ([], Some ErrConnNotFoundRequeueNeeded)
     else ([], Some ErrScheduleNotFound), w')"
proof -
  have "list_ex (\<lambda>(k, conn). list_ex (op_capability op) (cn_Capabilities conn)) conns =
      (\<exists>(k, conn) \<in> set conns. \<exists>c \<in> set (cn_Capabilities conn). op_capability op c)"
    by (auto simp: list_ex_iff)
  moreover have "(case map_of a drivers of None \<Rightarrow> False | Some ds \<Rightarrow> drivers \<in> set (strings_Split ds (CHR '',''))) =
      (drivers \<in> set (strings_Split (mget a drivers) (CHR '','')))"
    using assms(1) by (auto simp: mget_def annotation_keys_def split: option.split)
  moreover have "op = relciamSpaceOp \<and> drivers = rsCSIAddonsDriverAnnotation \<or> op = keyRotationOp \<and> drivers = krCSIAddonsDriverAnnotation"
    using assms(1) by (auto simp: annotation_keys_def)
  ultimately show ?thesis
    using assms(2) by (elim disjE conjE; hypsubst) (simp_all add: ns_supported_def checkDriverSupportCapability_def run_defs Let_def)
qed

lemma run_getScheduleFromNS:
  assumes "\<forall>h. s_getNamespace s h (ns_key p) = Inr ns" "(key, op, drivers) \<in> annotation_keys"
    and "fst (run_state (GetByNodeID e driver []) (w\<lparr>trace := trace w @ [ApiGet ''Namespace'' (ns_key p)]\<rparr>)) = Inr conns"
  shows "\<exists>w'. run_state (getScheduleFromNS e s p driver key) w =
    ((case namespace_schedule s key op drivers ns conns of Inl er \<Rightarrow> ([], Some er) | Inr t \<Rightarrow> (t, None)), w')"
proof -
  let ?w = "w\<lparr>trace := trace w @ [ApiGet ''Namespace'' (ns_key p)]\<rparr>"
  obtain w' where "run_state (GetByNodeID e driver []) ?w = (Inr conns, w')"
    using assms(3) by (metis prod.collapse)
  note supported = run_ns_supported [OF assms(2) this]
  have "run_state (getScheduleFromNS e s p driver key) w =
      (case getScheduleFromAnnotation s key (om_annotations ns) of
         None \<Rightarrow> (([], Some ErrScheduleNotFound), ?w) | Some t \<Rightarrow> run_state (ns_supported e (om_annotations ns) driver op t) ?w)"
    using assms(1,2)
    by (auto simp: annotation_keys_def getScheduleFromNS_def Get_Namespace_def run_defs split: option.split)
  then show ?thesis
    by (auto simp: supported namespace_schedule_def split: option.split)
qed



section \<open>Requeueing and rewriting\<close>

lemma returns_processReclaimSpace: "returns (processReclaimSpace e s prec req p csi) (\<lambda>(r, err). err \<noteq> None \<longrightarrow> r = rr_empty)"
proof -
  have "returns (RS_unschedule s p child) (\<lambda>(r, err). (\<exists>y. err = Some y) \<longrightarrow> r = rr_empty)" for child
    unfolding RS_unschedule_def by (intro returns_any) (auto intro!: returns_any returns_ret split: option.split)
  moreover have "returns (RS_update s req p job t) (\<lambda>(r, err). (\<exists>y. err = Some y) \<longrightarrow> r = rr_empty)" for job t
    unfolding RS_update_def Let_def by (auto intro!: returns_any returns_ret split: sum.split)
  moreover have "returns (RS_create e s req p t) (\<lambda>(r, err). (\<exists>y. err = Some y) \<longrightarrow> r = rr_empty)" for t
    unfolding RS_create_def Let_def by (auto intro!: returns_any returns_ret split: option.split sum.split)
  ultimately show ?thesis
    unfolding processReclaimSpace_def
    by (intro returns_any)
      (auto intro!: returns_any returns_ret split: sum.split option.split)
qed

text \<open>Reconciling a claim that is bound never asks to be run again: the result of the controller is empty,
  also when space reclamation found that the driver is not connected yet and asked for a requeue.\<close>

theorem claim_requeue_lost:
  assumes "run_state (PVC_Reconcile e s prec req) w = (Returned rr er, w')" "e_getPVC e (trace w) req = Inr p" "pvc_phase p = ClaimBound"
  shows "rr = rr_empty"
proof -
  have process: "returns (PVC_process e s prec req p csi) (\<lambda>out. \<exists>er. out = Returned rr_empty er)" for csi
    unfolding PVC_process_def
    by (intro returns_any, unfold case_prod_beta, rule returns_bind [OF returns_processReclaimSpace])
      (auto intro!: returns_ret split: option.split)
  have "run_state (PVC_Reconcile e s prec req) w \<in> {out. \<exists>er w'. out = (Returned rr_empty er, w')}"
    using assms(2,3) returnsD [OF process]
    by (auto simp: PVC_Reconcile_def Get_PVC_def Get_PV_def run_defs split: sum.split option.split) (metis prod.collapse)
  with assms(1) show ?thesis by auto
qed

text \<open>A namespace that asks for schedules of a driver without connection, in the one form that is recognised.\<close>

definition px_pending :: senv where
  "px_pending = px_senv\<lparr>s_getNamespace := (\<lambda>_ _. Inr ((empty_meta ''shop'' [])\<lparr>om_annotations :=
     [(RsCronJobScheduleTimeAnnotation, ''@daily''), (rsCSIAddonsDriverAnnotation, rsCSIAddonsDriverAnnotation)]\<rparr>))\<rparr>"

lemma px_pending_requeue:
  "fst (run_state (processReclaimSpace px_env px_pending SchedulePVC px_req px_claim \<lparr>csi_driver = ''rbd.csi'', csi_volumeHandle = ''h1''\<rparr>) px_world) =
     (\<lparr>rr_requeue = True, rr_requeueAfter = 0\<rparr>, None)"
  by code_simp

theorem claim_requeue_lost_witness:
  "fst (run_state (processReclaimSpace px_env px_pending SchedulePVC px_req px_claim \<lparr>csi_driver = ''rbd.csi'', csi_volumeHandle = ''h1''\<rparr>) px_world) =
     (\<lparr>rr_requeue = True, rr_requeueAfter = 0\<rparr>, None) \<and>
   (\<exists>er. fst (run_state (PVC_Reconcile px_env px_pending SchedulePVC px_req) px_world) = Returned rr_empty er)"
proof -
  let ?r = "run_state (PVC_Reconcile px_env px_pending SchedulePVC px_req) px_world"
  have "(case fst ?r of Returned rr er \<Rightarrow> True | Panicked m \<Rightarrow> False)" by code_simp
  then obtain rr er where r: "fst ?r = Returned rr er" by (cases "fst ?r") auto
  then have "?r = (Returned rr er, snd ?r)" by (metis prod.collapse)
  moreover have "e_getPVC px_env (trace px_world) px_req = Inr px_claim" "pvc_phase px_claim = ClaimBound"
    by (simp_all add: px_env_def px_claim_def)
  ultimately have "rr = rr_empty" by (rule claim_requeue_lost)
  with r px_pending_requeue show ?thesis by simp
qed

text \<open>A managed scheduler whose concurrency policy the server has filled in is written again in every run,
  with the policy emptied and everything a user set in its specification dropped, even when its schedule is
  the wanted one; the claim is patched again after it.\<close>

theorem managed_scheduler_rewritten:
  assumes "cjs_concurrencyPolicy (cj_spec job) \<noteq> NoConcurrencyPolicy" "cjs_schedule (cj_spec job) = t"
    and "run_state (RS_update s req p job t) w = (r, w')"
    and "x = job\<lparr>cj_spec := cj_spec (constructRSCronJob (om_name (cj_meta job)) (nn_namespace req) t (om_name (pvc_meta p)))\<rparr>"
  shows "trace w' = trace w @ ApiUpdate (O_RSCronJob x) #
      (case s_updateRSCron s (trace w) x of
         Inl err \<Rightarrow> []
       | Inr _ \<Rightarrow> [ApiPatch (O_PVC p) [(RsCronJobScheduleTimeAnnotation, Some t)]]) \<and>
    cjs_concurrencyPolicy (cj_spec x) = NoConcurrencyPolicy \<and> cjs_suspend (cj_spec x) = None"
proof -
  have "cj_spec (constructRSCronJob n ns t' c) \<noteq> cj_spec job" for n ns t' c
  proof
    assume eq: "cj_spec (constructRSCronJob n ns t' c) = cj_spec job"
    have "cjs_concurrencyPolicy (cj_spec job) = NoConcurrencyPolicy" by (simp add: eq [symmetric] constructRSCronJob_def)
    with assms(1) show False by simp
  qed
  with assms(3,4) have "trace w' = trace w @ ApiUpdate (O_RSCronJob x) #
      (case s_updateRSCron s (trace w) x of
         Inl err \<Rightarrow> []
       | Inr _ \<Rightarrow> [ApiPatch (O_PVC p) [(RsCronJobScheduleTimeAnnotation, Some t)]])"
    by (auto simp: RS_update_def Let_def Update_Sched_def Patch_PVC_def patchAnnotationsToResource_def rs_sched_def run_defs
        split: sum.splits prod.splits)
  moreover have "cjs_concurrencyPolicy (cj_spec x) = NoConcurrencyPolicy" "cjs_suspend (cj_spec x) = None"
    using assms(4) by (simp_all add: constructRSCronJob_def)
  ultimately show ?thesis by blast
qed

theorem managed_scheduler_rewritten_witness:
  "let job = px_child\<lparr>cj_spec := (cj_spec px_child)\<lparr>cjs_concurrencyPolicy := ForbidConcurrent\<rparr>\<rparr>
   in trace (snd (run_state (RS_update px_senv px_req px_claim job ''@daily'') px_world)) =
     [ApiUpdate (O_RSCronJob px_child), ApiPatch (O_PVC px_claim) [(RsCronJobScheduleTimeAnnotation, Some ''@daily'')]]"
proof -
  let ?job = "px_child\<lparr>cj_spec := (cj_spec px_child)\<lparr>cjs_concurrencyPolicy := ForbidConcurrent\<rparr>\<rparr>"
  have "cjs_concurrencyPolicy (cj_spec ?job) \<noteq> NoConcurrencyPolicy" "cjs_schedule (cj_spec ?job) = ''@daily''"
    by (simp_all add: px_child_def owned_by_def constructRSCronJob_def)
  moreover have "px_child = ?job\<lparr>cj_spec := cj_spec (constructRSCronJob (om_name (cj_meta ?job)) (nn_namespace px_req) ''@daily''
      (om_name (pvc_meta px_claim)))\<rparr>"
    by (simp add: px_child_def owned_by_def constructRSCronJob_def px_claim_def empty_meta_def)
  ultimately show ?thesis
    using managed_scheduler_rewritten [of ?job "''@daily''" px_senv px_req px_claim px_world, OF _ _ prod.collapse [symmetric]]
    by (simp add: px_senv_def px_world_def)
qed

end
