(* ===== verification/Manager.thy ===== *)
theory Manager
  imports Pvc_Schedules CSIAddons_Node
begin

text \<open>
  The start of the operator, \<open>main\<close> of \<open>cmd/manager/main.go\<close>: command line flags, then the config map,
  then the controllers with the values they get from the configuration. The flags of the metrics,
  webhook and leader election servers, and the registration with the manager, are left out.
\<close>

record flags =
  fl_reclaimSpaceTimeout :: "duration option"
  fl_maxConcurrentReconciles :: "int option"
  fl_namespace :: "string option"
  fl_schedulePrecedence :: "string option"
  fl_maxGroupPVC :: "int option"
  fl_csiAddonsNodeRetryDelay :: "int option"
  fl_enableAuth :: "bool option"
  fl_version :: bool

definition given :: "'a option \<Rightarrow> 'a \<Rightarrow> 'a" where
  "given f d = (case f of None \<Rightarrow> d | Some v \<Rightarrow> v)"

definition flag_config :: "flags \<Rightarrow> config" where
  "flag_config fl =
     (let cfg = NewConfig
      in \<lparr>cfg_Namespace = given (fl_namespace fl) (cfg_Namespace cfg),
          cfg_ReclaimSpaceTimeout = given (fl_reclaimSpaceTimeout fl) (cfg_ReclaimSpaceTimeout cfg),
          cfg_MaxConcurrentReconciles = given (fl_maxConcurrentReconciles fl) (cfg_MaxConcurrentReconciles cfg),
          cfg_SchedulePrecedence = given (fl_schedulePrecedence fl) SchedulePVC,
          cfg_MaxGroupPVC = given (fl_maxGroupPVC fl) (cfg_MaxGroupPVC cfg),
          cfg_CSIAddonsNodeRetryDelay = given (fl_csiAddonsNodeRetryDelay fl) (cfg_CSIAddonsNodeRetryDelay cfg)\<rparr>)"

datatype claim_controller = ClaimsByClass | ClaimsByPrecedence string

record manager =
  mgr_node :: node_reconciler
  mgr_reclaimSpaceTimeout :: duration
  mgr_fenceTimeout :: duration
  mgr_defaultTimeout :: duration
  mgr_claims :: claim_controller
  mgr_maxGroupPVCCount :: int

definition setup_controllers :: "config \<Rightarrow> bool \<Rightarrow> manager" where
  "setup_controllers cfg enableAuth =
     \<lparr>mgr_node = \<lparr>nr_EnableAuth = enableAuth, nr_BaseRetryDelay = cfg_CSIAddonsNodeRetryDelay cfg\<rparr>,
      mgr_reclaimSpaceTimeout = cfg_ReclaimSpaceTimeout cfg, mgr_fenceTimeout = minute * 3, mgr_defaultTimeout = minute * 3,
      mgr_claims = (if cfg_SchedulePrecedence cfg = ScheduleSC then ClaimsByClass
        else ClaimsByPrecedence (cfg_SchedulePrecedence cfg)),
      mgr_maxGroupPVCCount = cfg_MaxGroupPVC cfg\<rparr>"

text \<open>\<open>Inr None\<close> is the exit after the version was printed, \<open>Inl\<close> the exit with an unreadable config map.\<close>

definition main_start ::
  "(string \<Rightarrow> goerr + duration) \<Rightarrow> (string \<Rightarrow> string \<Rightarrow> goerr + strmap) \<Rightarrow> flags \<Rightarrow> goerr + manager option" where
  "main_start parseDuration getConfigMap fl =
     (if fl_version fl then Inr None
      else (case ReadConfigMap parseDuration getConfigMap (flag_config fl) of
              (cfg, Some err) \<Rightarrow> Inl err
            | (cfg, None) \<Rightarrow> Inr (Some (setup_controllers cfg (given (fl_enableAuth fl) True)))))"

definition Claim_Reconcile :: "env \<Rightarrow> senv \<Rightarrow> manager \<Rightarrow> nsname \<Rightarrow> outcome prog" where
  "Claim_Reconcile e s m req =
     (case mgr_claims m of
        ClaimsByClass \<Rightarrow> PVCNew_Reconcile e s req
      | ClaimsByPrecedence prec \<Rightarrow> PVC_Reconcile e s prec req)"

section \<open>Facts\<close>

lemma main_startE:
  assumes "main_start pd gcm fl = Inr (Some m)"
  obtains cfg where "ReadConfigMap pd gcm (flag_config fl) = (cfg, None)" "m = setup_controllers cfg (given (fl_enableAuth fl) True)"
  using assms by (auto simp: main_start_def split: if_splits prod.splits option.splits)



end
