(* ===== verification/Sidecar_Services.thy ===== *)
theory Sidecar_Services
  imports Conn_Pool
begin

text \<open>
  The services of the sidecar, \<open>internal/sidecar/service/*.go\<close>, which stand between the operator and the
  CSI driver: a request names a secret or a volume, the sidecar reads it from the API server and calls
  the driver with what it found. A handler is a program over the trace of its own calls; the API server
  and the driver answer through the record \<open>denv\<close>. The handlers run in another process than the
  operator, so they have a trace of their own.
\<close>

section \<open>Requests to the driver\<close>

record drv_repl =
  dr_source :: source
  dr_replicationId :: string
  dr_parameters :: strmap
  dr_secrets :: strmap

record drv_group =
  dg_id :: string
  dg_volumeIds :: "string list"
  dg_parameters :: strmap
  dg_secrets :: strmap

datatype fence_cidr = CIDR (Cidr: string)

record drv_fence =
  df_parameters :: strmap
  df_cidrs :: "fence_cidr list"
  df_secrets :: strmap

record drv_client =
  dc_id :: string
  dc_addresses :: "fence_cidr list"

datatype access_type = MountVolume | BlockVolume

text \<open>The access mode is the number of the CSI enumeration.\<close>

record drv_volume =
  dv_volumeId :: string
  dv_parameters :: strmap
  dv_stagingTargetPath :: string
  dv_accessMode :: "int option"
  dv_accessType :: "access_type option"
  dv_secrets :: strmap

datatype drv_event =
  SecretGet nsname
| PVGet string
| ContentGet string
| DrvEnable drv_repl
| DrvDisable drv_repl
| DrvPromote drv_repl bool
| DrvDemote drv_repl bool
| DrvResync drv_repl bool
| DrvInfo drv_repl
| DrvFence drv_fence
| DrvUnfence drv_fence
| DrvFenceClients drv_fence
| DrvCreateGroup drv_group
| DrvModifyGroup drv_group
| DrvDeleteGroup drv_group
| DrvGetGroup drv_group
| DrvControllerReclaim drv_volume
| DrvNodeReclaim drv_volume
| DrvRotate drv_volume
| DrvIdentity string
| DrvProbe
| DrvGetIdentity
| DrvGetCapabilities
| TokenReview string

section \<open>Requests of the operator\<close>

text \<open>
  The source of a replication request is \<open>None\<close> for a nil message and \<open>Some None\<close> for a message with
  neither a volume nor a group.
\<close>

record proto_repl =
  pq_source :: "source option option"
  pq_replicationId :: string
  pq_parameters :: strmap
  pq_secretName :: string
  pq_secretNamespace :: string
  pq_force :: bool

section \<open>The volumes of the cluster\<close>

datatype volume_mode = PersistentVolumeFilesystem | PersistentVolumeBlock

record csi_volume =
  cv_driver :: string
  cv_volumeHandle :: string
  cv_volumeAttributes :: strmap
  cv_nodeStageSecretRef :: "nsname option"

record pvol =
  pvol_csi :: "csi_volume option"
  pvol_accessModes :: "string list"
  pvol_volumeMode :: "volume_mode option"

section \<open>The environment of the sidecar\<close>

type_synonym ('q, 'a) drv_answer = "drv_event list \<Rightarrow> 'q \<Rightarrow> goerr + 'a"

record denv =
  d_secret :: "(nsname, strmap) drv_answer"
  d_pv :: "(string, pvol) drv_answer"
  d_enable :: "(drv_repl, unit) drv_answer"
  d_disable :: "(drv_repl, unit) drv_answer"
  d_promote :: "(drv_repl \<times> bool, unit) drv_answer"
  d_demote :: "(drv_repl \<times> bool, unit) drv_answer"
  d_resync :: "(drv_repl \<times> bool, bool) drv_answer"
  d_info :: "(drv_repl, info_response) drv_answer"
  d_fence :: "(drv_fence, unit) drv_answer"
  d_unfence :: "(drv_fence, unit) drv_answer"
  d_fenceClients :: "(drv_fence, drv_client list) drv_answer"
  d_createGroup :: "(drv_group, volume_group) drv_answer"
  d_modifyGroup :: "(drv_group, volume_group) drv_answer"
  d_deleteGroup :: "(drv_group, unit) drv_answer"
  d_getGroup :: "(drv_group, volume_group) drv_answer"
  d_controllerReclaim :: "(drv_volume, reclaim_response option) drv_answer"
  d_nodeReclaim :: "(drv_volume, reclaim_response option) drv_answer"
  d_rotate :: "(drv_volume, unit) drv_answer"
  d_identity :: "(string, string) drv_answer"
  d_probe :: "(unit, bool option) drv_answer"
  d_name :: "(unit, string) drv_answer"
  d_capabilities :: "(unit, capability list) drv_answer"
  d_tokenReview :: "(string, bool) drv_answer"
  d_toCSIAccessMode :: "string list \<Rightarrow> goerr + int"
  d_sha256hex :: "string \<Rightarrow> string"

type_synonym 'a sprog = "(drv_event list, 'a) state"

definition scall :: "(drv_event list \<Rightarrow> 'a) \<Rightarrow> drv_event \<Rightarrow> 'a sprog" where
  "scall ans ev = State (\<lambda>h. (ans h, h @ [ev]))"

abbreviation sret :: "'a \<Rightarrow> 'a sprog" where
  "sret \<equiv> State_Monad.return"

lemma run_scall [run_defs]: "run_state (scall ans ev) h = (ans h, h @ [ev])"
  by (simp add: scall_def)

section \<open>Secrets\<close>

definition GetSecret :: "denv \<Rightarrow> string \<Rightarrow> string \<Rightarrow> (goerr + strmap) sprog" where
  "GetSecret d name ns =
     (let nn = \<lparr>nn_namespace = ns, nn_name = name\<rparr> in scall (\<lambda>h. d_secret d h nn) (SecretGet nn))"

text \<open>Every handler with a secret starts like this; the code is that of the error it reports.\<close>

definition with_secret :: "denv \<Rightarrow> grpc_code \<Rightarrow> string \<Rightarrow> string \<Rightarrow> (strmap \<Rightarrow> (goerr + 'a) sprog) \<Rightarrow> (goerr + 'a) sprog" where
  "with_secret d code name ns f = do {
     r \<leftarrow> GetSecret d name ns;
     (case r of
        Inl err \<Rightarrow> sret (Inl (GrpcStatus code (Error err)))
      | Inr data \<Rightarrow> f data)
   }"

section \<open>volumereplication.go\<close>

definition setReplicationSource :: "source option option \<Rightarrow> goerr + source" where
  "setReplicationSource req =
     (case req of
        None \<Rightarrow> Inl (ErrMsg ''replication source is required'')
      | Some None \<Rightarrow> Inl (ErrMsg ''either volume or volume group is required'')
      | Some (Some src) \<Rightarrow> Inr src)"

definition with_source :: "source option option \<Rightarrow> (source \<Rightarrow> (goerr + 'a) sprog) \<Rightarrow> (goerr + 'a) sprog" where
  "with_source req f =
     (case setReplicationSource req of
        Inl err \<Rightarrow> sret (Inl (GrpcStatus C_Internal (Error err)))
      | Inr src \<Rightarrow> f src)"

definition drv_req :: "proto_repl \<Rightarrow> strmap \<Rightarrow> source \<Rightarrow> drv_repl" where
  "drv_req q data src = \<lparr>dr_source = src, dr_replicationId = pq_replicationId q, dr_parameters = pq_parameters q, dr_secrets = data\<rparr>"

definition srv_EnableVolumeReplication :: "denv \<Rightarrow> proto_repl \<Rightarrow> (goerr + unit) sprog" where
  "srv_EnableVolumeReplication d q =
     with_secret d C_Internal (pq_secretName q) (pq_secretNamespace q) (\<lambda>data.
       with_source (pq_source q) (\<lambda>src.
         let repReq = drv_req q data src in scall (\<lambda>h. d_enable d h repReq) (DrvEnable repReq)))"

definition srv_DisableVolumeReplication :: "denv \<Rightarrow> proto_repl \<Rightarrow> (goerr + unit) sprog" where
  "srv_DisableVolumeReplication d q =
     with_secret d C_Internal (pq_secretName q) (pq_secretNamespace q) (\<lambda>data.
       with_source (pq_source q) (\<lambda>src.
         let repReq = drv_req q data src in scall (\<lambda>h. d_disable d h repReq) (DrvDisable repReq)))"

definition srv_PromoteVolume :: "denv \<Rightarrow> proto_repl \<Rightarrow> (goerr + unit) sprog" where
  "srv_PromoteVolume d q =
     with_secret d C_Internal (pq_secretName q) (pq_secretNamespace q) (\<lambda>data.
       with_source (pq_source q) (\<lambda>src.
         let repReq = drv_req q data src in scall (\<lambda>h. d_promote d h (repReq, pq_force q)) (DrvPromote repReq (pq_force q))))"

definition srv_DemoteVolume :: "denv \<Rightarrow> proto_repl \<Rightarrow> (goerr + unit) sprog" where
  "srv_DemoteVolume d q =
     with_secret d C_Internal (pq_secretName q) (pq_secretNamespace q) (\<lambda>data.
       with_source (pq_source q) (\<lambda>src.
         let repReq = drv_req q data src in scall (\<lambda>h. d_demote d h (repReq, pq_force q)) (DrvDemote repReq (pq_force q))))"

definition srv_ResyncVolume :: "denv \<Rightarrow> proto_repl \<Rightarrow> (goerr + bool) sprog" where
  "srv_ResyncVolume d q =
     with_secret d C_Internal (pq_secretName q) (pq_secretNamespace q) (\<lambda>data.
       with_source (pq_source q) (\<lambda>src.
         let repReq = drv_req q data src in scall (\<lambda>h. d_resync d h (repReq, pq_force q)) (DrvResync repReq (pq_force q))))"

text \<open>The request for information carries no parameters.\<close>

definition srv_GetVolumeReplicationInfo :: "denv \<Rightarrow> proto_repl \<Rightarrow> (goerr + info_response) sprog" where
  "srv_GetVolumeReplicationInfo d q =
     with_secret d C_Internal (pq_secretName q) (pq_secretNamespace q) (\<lambda>data.
       with_source (pq_source q) (\<lambda>src.
         let repReq = (drv_req q data src)\<lparr>dr_parameters := []\<rparr> in scall (\<lambda>h. d_info d h repReq) (DrvInfo repReq)))"

section \<open>networkfence.go\<close>

definition getCIDRS :: "string list \<Rightarrow> fence_cidr list" where
  "getCIDRS cidr = map CIDR cidr"

definition cidrsFromFenceCIDR :: "fence_cidr list \<Rightarrow> string list" where
  "cidrsFromFenceCIDR cidr = map Cidr cidr"

definition srv_FenceClusterNetwork :: "denv \<Rightarrow> fence_req \<Rightarrow> (goerr + unit) sprog" where
  "srv_FenceClusterNetwork d q =
     with_secret d C_InvalidArgument (fq_secretName q) (fq_secretNamespace q) (\<lambda>data.
       let fenceRequest = \<lparr>df_parameters = fq_parameters q, df_cidrs = getCIDRS (fq_cidrs q), df_secrets = data\<rparr>
       in scall (\<lambda>h. d_fence d h fenceRequest) (DrvFence fenceRequest))"

definition srv_UnFenceClusterNetwork :: "denv \<Rightarrow> fence_req \<Rightarrow> (goerr + unit) sprog" where
  "srv_UnFenceClusterNetwork d q =
     with_secret d C_InvalidArgument (fq_secretName q) (fq_secretNamespace q) (\<lambda>data.
       let fenceRequest = \<lparr>df_parameters = fq_parameters q, df_cidrs = getCIDRS (fq_cidrs q), df_secrets = data\<rparr>
       in scall (\<lambda>h. d_unfence d h fenceRequest) (DrvUnfence fenceRequest))"

definition fence_clients :: "denv \<Rightarrow> fence_req \<Rightarrow> strmap \<Rightarrow> (goerr + client_detail list) sprog" where
  "fence_clients d q data =
     (let getFenceClientRequest = \<lparr>df_parameters = fq_parameters q, df_cidrs = [], df_secrets = data\<rparr> in do {
        r \<leftarrow> scall (\<lambda>h. d_fenceClients d h getFenceClientRequest) (DrvFenceClients getFenceClientRequest);
        sret (case r of
           Inl err \<Rightarrow> Inl err
         | Inr clients \<Rightarrow> Inr (map (\<lambda>c. \<lparr>cl_id = dc_id c, cl_cidrs = cidrsFromFenceCIDR (dc_addresses c)\<rparr>) clients))
      })"

definition srv_GetFenceClients :: "denv \<Rightarrow> fence_req \<Rightarrow> (goerr + client_detail list) sprog" where
  "srv_GetFenceClients d q =
     (if fq_secretName q \<noteq> [] \<or> fq_secretNamespace q \<noteq> []
      then with_secret d C_InvalidArgument (fq_secretName q) (fq_secretNamespace q) (fence_clients d q)
      else fence_clients d q [])"

section \<open>volumegroup.go\<close>

definition srv_CreateVolumeGroup :: "denv \<Rightarrow> group_req \<Rightarrow> (goerr + volume_group) sprog" where
  "srv_CreateVolumeGroup d q =
     with_secret d C_Internal (gq_secretName q) (gq_secretNamespace q) (\<lambda>data.
       let vgReq = \<lparr>dg_id = gq_id q, dg_volumeIds = gq_volumeIds q, dg_parameters = gq_parameters q, dg_secrets = data\<rparr>
       in scall (\<lambda>h. d_createGroup d h vgReq) (DrvCreateGroup vgReq))"

definition srv_ModifyVolumeGroupMembership :: "denv \<Rightarrow> group_req \<Rightarrow> (goerr + volume_group) sprog" where
  "srv_ModifyVolumeGroupMembership d q =
     with_secret d C_Internal (gq_secretName q) (gq_secretNamespace q) (\<lambda>data.
       let vgReq = \<lparr>dg_id = gq_id q, dg_volumeIds = gq_volumeIds q, dg_parameters = gq_parameters q, dg_secrets = data\<rparr>
       in scall (\<lambda>h. d_modifyGroup d h vgReq) (DrvModifyGroup vgReq))"

text \<open>The last two requests carry only the group and the secrets.\<close>

definition srv_DeleteVolumeGroup :: "denv \<Rightarrow> group_req \<Rightarrow> (goerr + unit) sprog" where
  "srv_DeleteVolumeGroup d q =
     with_secret d C_Internal (gq_secretName q) (gq_secretNamespace q) (\<lambda>data.
       let vgReq = \<lparr>dg_id = gq_id q, dg_volumeIds = [], dg_parameters = [], dg_secrets = data\<rparr>
       in scall (\<lambda>h. d_deleteGroup d h vgReq) (DrvDeleteGroup vgReq))"

definition srv_ControllerGetVolumeGroup :: "denv \<Rightarrow> group_req \<Rightarrow> (goerr + volume_group) sprog" where
  "srv_ControllerGetVolumeGroup d q =
     with_secret d C_Internal (gq_secretName q) (gq_secretNamespace q) (\<lambda>data.
       let vgReq = \<lparr>dg_id = gq_id q, dg_volumeIds = [], dg_parameters = [], dg_secrets = data\<rparr>
       in scall (\<lambda>h. d_getGroup d h vgReq) (DrvGetGroup vgReq))"

section \<open>Paths\<close>

text \<open>\<open>filepath.Clean\<close> on the segments of a path: \<open>..\<close> removes the segment before it, or is dropped at the root.\<close>

fun clean_segments :: "bool \<Rightarrow> string list \<Rightarrow> string list \<Rightarrow> string list" where
  "clean_segments rooted done [] = rev done"
| "clean_segments rooted done (x # xs) =
     (if x = [] \<or> x = ''.'' then clean_segments rooted done xs
      else if x = ''..'' then
        (case done of
           [] \<Rightarrow> clean_segments rooted (if rooted then [] else [''..'']) xs
         | y # ys \<Rightarrow> if y = ''..'' then clean_segments rooted (''..'' # done) xs else clean_segments rooted ys xs)
      else clean_segments rooted (x # done) xs)"

fun join_with :: "string \<Rightarrow> string list \<Rightarrow> string" where
  "join_with sep [] = []"
| "join_with sep [x] = x"
| "join_with sep (x # y # xs) = x @ sep @ join_with sep (y # xs)"

lemma strings_Split_append: "strings_Split (a @ c # b) c = strings_Split a c @ strings_Split b c"
proof (induction a)
  case (Cons x a)
  have "strings_Split a c \<noteq> []" by (induction a) (auto split: list.split)
  with Cons show ?case by (auto split: list.split simp: append_eq_Cons_conv)
qed simp

lemma strings_Split_join: "xs \<noteq> [] \<Longrightarrow> strings_Split (join_with [c] xs) c = concat (map (\<lambda>x. strings_Split x c) xs)"
  by (induction "[c]" xs rule: join_with.induct) (auto simp: strings_Split_append)

lemma strings_Split_id: "c \<notin> set s \<Longrightarrow> strings_Split s c = [s]"
  by (induction s) auto

lemma strings_Split_join_id: "xs \<noteq> [] \<Longrightarrow> \<forall>x \<in> set xs. c \<notin> set x \<Longrightarrow> strings_Split (join_with [c] xs) c = xs"
  by (induction "[c]" xs rule: join_with.induct) (auto simp: strings_Split_append strings_Split_id)

definition filepath_Clean :: "string \<Rightarrow> string" where
  "filepath_Clean path =
     (let rooted = (path \<noteq> [] \<and> hd path = CHR ''/'');
          segments = clean_segments rooted [] (strings_Split path (CHR ''/''))
      in if rooted then CHR ''/'' # join_with ''/'' segments
         else if segments = [] then ''.'' else join_with ''/'' segments)"

definition filepath_Join :: "string list \<Rightarrow> string" where
  "filepath_Join elems =
     (if dropWhile (\<lambda>x. x = []) elems = [] then []
      else filepath_Clean (join_with ''/'' (dropWhile (\<lambda>x. x = []) elems)))"

section \<open>reclaimspace.go\<close>

definition getStagingTargetPath :: "denv \<Rightarrow> string \<Rightarrow> csi_volume \<Rightarrow> string" where
  "getStagingTargetPath d stagingPath csi =
     filepath_Join [stagingPath, cv_driver csi, d_sha256hex d (cv_volumeHandle csi), ''globalmount'']"

definition stage_secrets :: "denv \<Rightarrow> csi_volume \<Rightarrow> (goerr + strmap) sprog" where
  "stage_secrets d csi =
     (case cv_nodeStageSecretRef csi of
        None \<Rightarrow> sret (Inr [])
      | Some ref \<Rightarrow> do {
          r \<leftarrow> GetSecret d (nn_name ref) (nn_namespace ref);
          sret (case r of Inl err \<Rightarrow> Inl (GrpcStatus C_InvalidArgument (Error err)) | Inr data \<Rightarrow> Inr data)
        })"

definition nil_response :: "string \<Rightarrow> goerr + reclaim_response option \<Rightarrow> goerr + reclaim_response" where
  "nil_response msg r =
     (case r of
        Inl err \<Rightarrow> Inl err
      | Inr None \<Rightarrow> Inl (GrpcStatus C_InvalidArgument msg)
      | Inr (Some res) \<Rightarrow> Inr res)"

definition get_pv :: "denv \<Rightarrow> string \<Rightarrow> (goerr \<Rightarrow> string) \<Rightarrow> string \<Rightarrow> (goerr + (pvol \<times> csi_volume)) sprog" where
  "get_pv d pvName failed notCSI = do {
     r \<leftarrow> scall (\<lambda>h. d_pv d h pvName) (PVGet pvName);
     sret (case r of
        Inl err \<Rightarrow> Inl (GrpcStatus C_InvalidArgument (failed err))
      | Inr pv \<Rightarrow>
          (case pvol_csi pv of None \<Rightarrow> Inl (GrpcStatus C_InvalidArgument notCSI) | Some csi \<Rightarrow> Inr (pv, csi)))
   }"

definition reclaim_pv :: "denv \<Rightarrow> string \<Rightarrow> (goerr + (pvol \<times> csi_volume)) sprog" where
  "reclaim_pv d pvName = get_pv d pvName (\<lambda>err. ''failed to get pv '' @ fmt_q pvName) (''pv '' @ fmt_q pvName @ '' is not a CSI volume'')"

definition srv_ControllerReclaimSpace :: "denv \<Rightarrow> string \<Rightarrow> (goerr + reclaim_response) sprog" where
  "srv_ControllerReclaimSpace d pvName = do {
     p \<leftarrow> reclaim_pv d pvName;
     (case p of
        Inl err \<Rightarrow> sret (Inl err)
      | Inr (pv, csi) \<Rightarrow> do {
          secrets \<leftarrow> stage_secrets d csi;
          (case secrets of
             Inl err \<Rightarrow> sret (Inl err)
           | Inr data \<Rightarrow> do {
               let csiReq = \<lparr>dv_volumeId = cv_volumeHandle csi, dv_parameters = cv_volumeAttributes csi, dv_stagingTargetPath = [],
                   dv_accessMode = None, dv_accessType = None, dv_secrets = data\<rparr>;
               r \<leftarrow> scall (\<lambda>h. d_controllerReclaim d h csiReq) (DrvControllerReclaim csiReq);
               sret (nil_response ''nil value returned as the response of ControllerReclaimSpace'' r)
             })
        })
   }"

text \<open>The volume mode is read through a pointer.\<close>

definition srv_NodeReclaimSpace :: "denv \<Rightarrow> string \<Rightarrow> string \<Rightarrow> reclaim_response gores sprog" where
  "srv_NodeReclaimSpace d stagingPath pvName = do {
     p \<leftarrow> reclaim_pv d pvName;
     (case p of
        Inl err \<Rightarrow> sret (GoErr err)
      | Inr (pv, csi) \<Rightarrow>
          (case d_toCSIAccessMode d (pvol_accessModes pv) of
             Inl err \<Rightarrow> sret (GoErr (GrpcStatus C_InvalidArgument (Error err)))
           | Inr csiMode \<Rightarrow>
               (case pvol_volumeMode pv of
                  None \<Rightarrow> sret (GoPanic ''invalid memory address or nil pointer dereference'')
                | Some mode \<Rightarrow> do {
                    secrets \<leftarrow> stage_secrets d csi;
                    (case secrets of
                       Inl err \<Rightarrow> sret (GoErr err)
                     | Inr data \<Rightarrow> do {
                         let block = (mode = PersistentVolumeBlock);
                         let csiReq = \<lparr>dv_volumeId = cv_volumeHandle csi, dv_parameters = [],
                             dv_stagingTargetPath = (if block then filepath_Join [stagingPath, ''volumeDevices'', ''staging'', pvName]
                               else getStagingTargetPath d stagingPath csi),
                             dv_accessMode = Some csiMode, dv_accessType = Some (if block then BlockVolume else MountVolume), dv_secrets = data\<rparr>;
                         r \<leftarrow> scall (\<lambda>h. d_nodeReclaim d h csiReq) (DrvNodeReclaim csiReq);
                         sret (case nil_response ''nil value returned as the response of NodeReclaimSpace'' r of
                            Inl err \<Rightarrow> GoErr err
                          | Inr res \<Rightarrow> GoOk res)
                       })
                  })))
   }"

section \<open>encryptionkeyrotation.go\<close>

definition srv_EncryptionKeyRotate :: "denv \<Rightarrow> string \<Rightarrow> (goerr + unit) sprog" where
  "srv_EncryptionKeyRotate d pvName =
     (if pvName = [] then sret (Inl (GrpcStatus C_InvalidArgument ''pv name is missing from the request''))
      else do {
        p \<leftarrow> get_pv d pvName (\<lambda>err. ''failed to find a pv with name: '' @ pvName @ ''. error: '' @ Error err) (pvName @ '' is not a CSI volume'');
        (case p of
           Inl err \<Rightarrow> sret (Inl err)
         | Inr (pv, csi) \<Rightarrow>
             (case d_toCSIAccessMode d (pvol_accessModes pv) of
                Inl err \<Rightarrow> sret (Inl (GrpcStatus C_InvalidArgument (Error err)))
              | Inr csiMode \<Rightarrow> do {
                  secrets \<leftarrow> stage_secrets d csi;
                  (case secrets of
                     Inl err \<Rightarrow> sret (Inl err)
                   | Inr data \<Rightarrow>
                       (let ekrRequest = \<lparr>dv_volumeId = cv_volumeHandle csi, dv_parameters = cv_volumeAttributes csi,
                            dv_stagingTargetPath = [], dv_accessMode = Some csiMode, dv_accessType = None, dv_secrets = data\<rparr>
                        in scall (\<lambda>h. d_rotate d h ekrRequest) (DrvRotate ekrRequest)))
                }))
      })"

section \<open>identity.go\<close>

text \<open>The identity service hands the three requests on as they are; the request names the method.\<close>

definition srv_Identity :: "denv \<Rightarrow> string \<Rightarrow> (goerr + string) sprog" where
  "srv_Identity d req = scall (\<lambda>h. d_identity d h req) (DrvIdentity req)"

end
