(* ===== verification/Props_Sidecar.thy ===== *)
theory Props_Sidecar
  imports Sidecar_Services Props_Jobs Examples
begin

text \<open>
  The sidecar between operator and driver: what its services hand on, and what the answers of the sidecar
  that the operator acts on mean for the driver.
\<close>

section \<open>What the services hand on\<close>

text \<open>
  \<open>forwards d code nn mk ans ev m\<close>: the handler \<open>m\<close> reads the secret \<open>nn\<close> and, if that fails, returns an
  error with \<open>code\<close> and calls nothing else; otherwise it makes exactly one call to the driver, with the
  request \<open>mk\<close> gives for the content of the secret, and returns what the driver answers.
\<close>

definition forwards ::
  "denv \<Rightarrow> grpc_code \<Rightarrow> nsname \<Rightarrow> (strmap \<Rightarrow> 'q) \<Rightarrow> ('q, 'a) drv_answer \<Rightarrow> ('q \<Rightarrow> drv_event) \<Rightarrow> (goerr + 'a) sprog \<Rightarrow> bool" where
  "forwards d code nn mk ans ev m \<longleftrightarrow> (\<forall>h. run_state m h =
     (case d_secret d h nn of
        Inl err \<Rightarrow> (Inl (GrpcStatus code (Error err)), h @ [SecretGet nn])
      | Inr data \<Rightarrow> (ans (h @ [SecretGet nn]) (mk data), h @ [SecretGet nn, ev (mk data)])))"

definition repl_secret :: "proto_repl \<Rightarrow> nsname" where
  "repl_secret q = \<lparr>nn_namespace = pq_secretNamespace q, nn_name = pq_secretName q\<rparr>"

definition fence_secret :: "fence_req \<Rightarrow> nsname" where
  "fence_secret q = \<lparr>nn_namespace = fq_secretNamespace q, nn_name = fq_secretName q\<rparr>"

definition group_secret :: "group_req \<Rightarrow> nsname" where
  "group_secret q = \<lparr>nn_namespace = gq_secretNamespace q, nn_name = gq_secretName q\<rparr>"

lemma forwards_with_secret:
  assumes "\<And>data h. run_state (f data) h = (ans h (mk data), h @ [ev (mk data)])"
  shows "forwards d code \<lparr>nn_namespace = ns, nn_name = n\<rparr> mk ans ev (with_secret d code n ns f)"
  using assms by (simp add: forwards_def with_secret_def GetSecret_def Let_def run_defs split: sum.split)

lemma run_with_source: "req = Some (Some src) \<Longrightarrow> with_source req f = f src"
  by (simp add: with_source_def setReplicationSource_def)

lemmas srv_repl_defs = srv_EnableVolumeReplication_def srv_DisableVolumeReplication_def srv_PromoteVolume_def
  srv_DemoteVolume_def srv_ResyncVolume_def srv_GetVolumeReplicationInfo_def

lemma forwards_replication:
  assumes "pq_source q = Some (Some src)"
  shows "forwards d C_Internal (repl_secret q) (\<lambda>data. drv_req q data src) (d_enable d) DrvEnable (srv_EnableVolumeReplication d q)"
    "forwards d C_Internal (repl_secret q) (\<lambda>data. drv_req q data src) (d_disable d) DrvDisable (srv_DisableVolumeReplication d q)"
    "forwards d C_Internal (repl_secret q) (\<lambda>data. (drv_req q data src, pq_force q)) (d_promote d) (case_prod DrvPromote) (srv_PromoteVolume d q)"
    "forwards d C_Internal (repl_secret q) (\<lambda>data. (drv_req q data src, pq_force q)) (d_demote d) (case_prod DrvDemote) (srv_DemoteVolume d q)"
    "forwards d C_Internal (repl_secret q) (\<lambda>data. (drv_req q data src, pq_force q)) (d_resync d) (case_prod DrvResync) (srv_ResyncVolume d q)"
    "forwards d C_Internal (repl_secret q) (\<lambda>data. (drv_req q data src)\<lparr>dr_parameters := []\<rparr>) (d_info d) DrvInfo (srv_GetVolumeReplicationInfo d q)"
  unfolding repl_secret_def srv_repl_defs
  by (rule forwards_with_secret, simp add: run_with_source [OF assms] Let_def run_defs)+

lemma forwards_fence:
  "forwards d C_InvalidArgument (fence_secret q) (\<lambda>data. \<lparr>df_parameters = fq_parameters q, df_cidrs = map CIDR (fq_cidrs q), df_secrets = data\<rparr>)
     (d_fence d) DrvFence (srv_FenceClusterNetwork d q)"
  "forwards d C_InvalidArgument (fence_secret q) (\<lambda>data. \<lparr>df_parameters = fq_parameters q, df_cidrs = map CIDR (fq_cidrs q), df_secrets = data\<rparr>)
     (d_unfence d) DrvUnfence (srv_UnFenceClusterNetwork d q)"
  unfolding fence_secret_def srv_FenceClusterNetwork_def srv_UnFenceClusterNetwork_def
  by (rule forwards_with_secret, simp add: getCIDRS_def Let_def run_defs)+

lemma forwards_group:
  "forwards d C_Internal (group_secret q) (\<lambda>data. \<lparr>dg_id = gq_id q, dg_volumeIds = gq_volumeIds q, dg_parameters = gq_parameters q, dg_secrets = data\<rparr>)
     (d_createGroup d) DrvCreateGroup (srv_CreateVolumeGroup d q)"
  "forwards d C_Internal (group_secret q) (\<lambda>data. \<lparr>dg_id = gq_id q, dg_volumeIds = gq_volumeIds q, dg_parameters = gq_parameters q, dg_secrets = data\<rparr>)
     (d_modifyGroup d) DrvModifyGroup (srv_ModifyVolumeGroupMembership d q)"
  "forwards d C_Internal (group_secret q) (\<lambda>data. \<lparr>dg_id = gq_id q, dg_volumeIds = [], dg_parameters = [], dg_secrets = data\<rparr>)
     (d_deleteGroup d) DrvDeleteGroup (srv_DeleteVolumeGroup d q)"
  "forwards d C_Internal (group_secret q) (\<lambda>data. \<lparr>dg_id = gq_id q, dg_volumeIds = [], dg_parameters = [], dg_secrets = data\<rparr>)
     (d_getGroup d) DrvGetGroup (srv_ControllerGetVolumeGroup d q)"
  unfolding group_secret_def srv_CreateVolumeGroup_def srv_ModifyVolumeGroupMembership_def srv_DeleteVolumeGroup_def
    srv_ControllerGetVolumeGroup_def
  by (rule forwards_with_secret, simp add: Let_def run_defs)+


definition sx_denv :: denv where
  "sx_denv = \<lparr>d_secret = (\<lambda>_ _. Inr [(''key'', ''v'')]),
     d_pv = (\<lambda>_ _. Inr \<lparr>pvol_csi = Some \<lparr>cv_driver = ''drv'', cv_volumeHandle = ''vol'', cv_volumeAttributes = [],
       cv_nodeStageSecretRef = Some \<lparr>nn_namespace = ''ns'', nn_name = ''stage''\<rparr>\<rparr>, pvol_accessModes = [''ReadWriteOnce''],
       pvol_volumeMode = Some PersistentVolumeFilesystem\<rparr>),
     d_enable = (\<lambda>_ _. Inr ()), d_disable = (\<lambda>_ _. Inr ()),
     d_promote = (\<lambda>_ (q, force). if force then Inr () else Inl (GrpcStatus C_FailedPrecondition ''x'')), d_demote = (\<lambda>_ _. Inr ()),
     d_resync = (\<lambda>_ _. Inr True), d_info = (\<lambda>_ _. Inl (GrpcStatus C_Unimplemented ''x'')), d_fence = (\<lambda>_ _. Inr ()),
     d_unfence = (\<lambda>_ _. Inr ()), d_fenceClients = (\<lambda>_ _. Inr []), d_createGroup = (\<lambda>_ _. Inl (GrpcStatus C_Unimplemented ''x'')),
     d_modifyGroup = (\<lambda>_ _. Inl (GrpcStatus C_Unimplemented ''x'')), d_deleteGroup = (\<lambda>_ _. Inr ()),
     d_getGroup = (\<lambda>_ _. Inl (GrpcStatus C_Unimplemented ''x'')), d_controllerReclaim = (\<lambda>_ _. Inr None), d_nodeReclaim = (\<lambda>_ _. Inr None),
     d_rotate = (\<lambda>_ _. Inr ()), d_identity = (\<lambda>_ r. Inr r), d_probe = (\<lambda>_ _. Inr None), d_name = (\<lambda>_ _. Inr ''drv''),
     d_capabilities = (\<lambda>_ _. Inr [CapService CONTROLLER_SERVICE]), d_tokenReview = (\<lambda>_ t. Inr (t = ''secret'')), d_toCSIAccessMode = (\<lambda>_. Inr 1), d_sha256hex = (\<lambda>v. v)\<rparr>"

definition sx_req :: proto_repl where
  "sx_req = \<lparr>pq_source = Some (Some (VolumeSource ''vol'')), pq_replicationId = [], pq_parameters = [], pq_secretName = ''s'',
     pq_secretNamespace = ''ns'', pq_force = False\<rparr>"


section \<open>The operator and the driver\<close>

text \<open>A gRPC server turns the error of a handler into a status: its own, or Unknown for any other error.\<close>

definition on_wire :: "goerr + 'a \<Rightarrow> goerr + 'a" where
  "on_wire r =
     (case r of
        Inl err \<Rightarrow> (case status_FromError err of (c, m, ok) \<Rightarrow> Inl (GrpcStatus c m))
      | Inr x \<Rightarrow> Inr x)"

lemma on_wire_Inr: "on_wire r = Inr x \<longleftrightarrow> r = Inr x"
  by (cases r) (auto simp: on_wire_def split: prod.split)

lemma on_wire_code: "on_wire r = Inl err \<Longrightarrow> \<exists>err'. r = Inl err' \<and> grpc_code_of err = Some (status_Code err')"
  by (cases r) (auto simp: on_wire_def status_Code_def split: prod.splits)

definition proto_of :: "repl_req \<Rightarrow> bool \<Rightarrow> proto_repl" where
  "proto_of q force = \<lparr>pq_source = Some (Some (rq_source q)), pq_replicationId = rq_replicationId q, pq_parameters = rq_parameters q,
     pq_secretName = rq_secretName q, pq_secretNamespace = rq_secretNamespace q, pq_force = force\<rparr>"

text \<open>\<open>promotes_through d hist e\<close>: the operator's promotions are answered by the sidecar over the driver \<open>d\<close>,
  whose own trace at that time is \<open>hist\<close> of the operator's.\<close>

definition promotes_through :: "denv \<Rightarrow> (event list \<Rightarrow> drv_event list) \<Rightarrow> env \<Rightarrow> bool" where
  "promotes_through d hist e \<longleftrightarrow> (\<forall>h cl q force.
     e_rpcPromote e h cl (q, force) = on_wire (fst (run_state (srv_PromoteVolume d (proto_of q force)) (hist h))))"

text \<open>C32: when the sidecar answers the operator's promotions, a promotion with force is only ever sent after
  the driver itself, called with the same volume, parameters and the content of the secret, refused the
  promotion without force with FailedPrecondition: an error of the sidecar never leads to force.\<close>

theorem forced_promotion_reaches_driver:
  assumes "promotes_through d hist e" "run_state (VR_Reconcile e req) w = (out, w')"
    and "appended w w' i (Rpc cl (RpcPromote q True))"
  shows "\<exists>h data err. take i (trace w') = h @ [Rpc cl (RpcPromote q False)] \<and>
    d_secret d (hist h) (repl_secret (proto_of q False)) = Inr data \<and>
    d_promote d (hist h @ [SecretGet (repl_secret (proto_of q False))]) (drv_req (proto_of q False) data (rq_source q), False) = Inl err \<and>
    status_Code err = C_FailedPrecondition"
proof -
  have "refused_before e (take i (trace w')) (Rpc cl (RpcPromote q True))"
    using emits_appended [OF forced.emits_VR_Reconcile assms(2,3)] .
  then obtain h err where h: "take i (trace w') = h @ [Rpc cl (RpcPromote q False)]"
      "e_rpcPromote e h cl (q, False) = Inl err" "grpc_code_of err = Some C_FailedPrecondition"
    by (auto simp: refused_before_def)
  let ?p = "proto_of q False"
  have src: "pq_source ?p = Some (Some (rq_source q))" "pq_force ?p = False" by (simp_all add: proto_of_def)
  obtain err' where err': "fst (run_state (srv_PromoteVolume d ?p) (hist h)) = Inl err'" "status_Code err' = C_FailedPrecondition"
    using assms(1) h(2,3) on_wire_code [of "fst (run_state (srv_PromoteVolume d ?p) (hist h))" err] by (auto simp: promotes_through_def)
  then have "\<exists>data. d_secret d (hist h) (repl_secret ?p) = Inr data \<and>
      d_promote d (hist h @ [SecretGet (repl_secret ?p)]) (drv_req ?p data (rq_source q), False) = Inl err'"
    using forwards_replication(3) [OF src(1), of d, unfolded forwards_def, rule_format, of "hist h"] src(2)
    by (auto simp: status_Code_def split: sum.splits)
  with h(1) err'(2) show ?thesis by blast
qed

definition sx_env :: env where
  "sx_env = ex_env\<lparr>e_rpcPromote := (\<lambda>_ _ (q, force). on_wire (fst (run_state (srv_PromoteVolume sx_denv (proto_of q force)) [])))\<rparr>"

theorem forced_promotion_reaches_driver_witness:
  "\<exists>i q data err. trace (snd (run_state (VR_Reconcile sx_env ex_req) ex_world)) ! i = Rpc (Some 1) (RpcPromote q True) \<and>
     d_promote sx_denv [SecretGet (repl_secret (proto_of q False))] (drv_req (proto_of q False) data (rq_source q), False) = Inl err"
proof -
  let ?r = "run_state (VR_Reconcile sx_env ex_req) ex_world"
  let ?q = "mk_req (VolumeSource ''vol'') [] [] [] []"
  have through: "promotes_through sx_denv (\<lambda>_. []) sx_env" by (simp add: promotes_through_def sx_env_def)
  have forced: "appended ex_world (snd ?r) 9 (Rpc (Some 1) (RpcPromote ?q True))" by code_simp
  then have at9: "trace (snd ?r) ! 9 = Rpc (Some 1) (RpcPromote ?q True)" by (simp add: appended_def)
  obtain data err where "d_promote sx_denv [SecretGet (repl_secret (proto_of ?q False))]
      (drv_req (proto_of ?q False) data (rq_source ?q), False) = Inl err"
    using forced_promotion_reaches_driver [OF through prod.collapse [symmetric] forced] by fastforce
  with at9 show ?thesis by blast
qed

text \<open>The driver rotated the key of the volume behind the name \<open>v\<close>, or does not implement it.\<close>

definition driver_rotated :: "denv \<Rightarrow> drv_event list \<Rightarrow> string \<Rightarrow> bool" where
  "driver_rotated d h v \<longleftrightarrow> (\<exists>pv csi mode data h'. d_pv d h v = Inr pv \<and> pvol_csi pv = Some csi \<and>
     d_toCSIAccessMode d (pvol_accessModes pv) = Inr mode \<and>
     (case cv_nodeStageSecretRef csi of None \<Rightarrow> data = [] \<and> h' = h @ [PVGet v]
      | Some ref \<Rightarrow> d_secret d (h @ [PVGet v]) ref = Inr data \<and> h' = h @ [PVGet v, SecretGet ref]) \<and>
     unless_unimplemented (d_rotate d h' \<lparr>dv_volumeId = cv_volumeHandle csi, dv_parameters = cv_volumeAttributes csi,
       dv_stagingTargetPath = [], dv_accessMode = Some mode, dv_accessType = None, dv_secrets = data\<rparr>))"

lemma rotate_reaches_driver:
  assumes "unless_unimplemented (on_wire (fst (run_state (srv_EncryptionKeyRotate d v) h)))"
  shows "driver_rotated d h v"
proof -
  have wire: "unless_unimplemented (on_wire r) = unless_unimplemented r" for r :: "goerr + unit"
    by (cases r) (auto simp: unless_unimplemented_def on_wire_def status_Code_def split: prod.splits)
  have other: "\<not> unless_unimplemented (Inl (GrpcStatus C_InvalidArgument m))" for m
    by (simp add: unless_unimplemented_def status_Code_def)
  have eta: "\<lparr>nn_namespace = nn_namespace ref, nn_name = nn_name ref\<rparr> = ref" for ref by simp
  show ?thesis
    using assms
    by (auto simp: wire other eta srv_EncryptionKeyRotate_def get_pv_def stage_secrets_def GetSecret_def Let_def run_defs driver_rotated_def
        split: if_splits sum.splits option.splits)
qed

definition rotates_through :: "denv \<Rightarrow> (event list \<Rightarrow> drv_event list) \<Rightarrow> jenv \<Rightarrow> bool" where
  "rotates_through d hist j \<longleftrightarrow>
     (\<forall>h cl v. j_rpcKeyRotate j h cl v = on_wire (fst (run_state (srv_EncryptionKeyRotate d v) (hist h))))"

text \<open>When the sidecar answers the operator's key rotations, a job is reported as succeeded only after, in
  that run, the driver was asked to rotate the key of a volume of the cluster: the volume behind a
  persistent volume name the operator sent, with its attributes and the secret it is staged with; and
  the driver did so or answered that it does not implement it. A volume that is missing, is no CSI volume
  or whose secret cannot be read never counts as rotated.\<close>

theorem rotation_reaches_driver:
  assumes "rotates_through d hist j" "run_state (KRJob_Reconcile e j T req) w = (out, w')"
    and "appended w w' i (ApiStatusUpdate (O_KRJob m))" "job_result m = OperationResultSucceeded"
  shows "\<exists>h cl v h'. take i (trace w') = h @ Rpc cl (RpcEncryptionKeyRotate v) # h' \<and> extends (trace w) h \<and> driver_rotated d (hist h) v"
proof -
  have "jk_obj (kr_kind j) = O_KRJob" by (simp add: kr_kind_def)
  with htriple_appended [OF kr_works.htriple_success_earned assms(2) [unfolded KRJob_Reconcile_def] assms(3)] assms(4)
  have "since (trace w) (rotated j) (take i (trace w'))" by (simp add: kr_works.success_earned_def)
  then obtain h1 cl v h2 where h: "take i (trace w') = trace w @ h1 @ Rpc cl (RpcEncryptionKeyRotate v) # h2"
      "unless_unimplemented (j_rpcKeyRotate j (trace w @ h1) cl v)"
    by (auto simp: since_def rotated_def)
  then have "driver_rotated d (hist (trace w @ h1)) v"
    using assms(1) by (intro rotate_reaches_driver) (simp add: rotates_through_def)
  moreover have "extends (trace w) (trace w @ h1)" by (simp add: extends_append)
  ultimately show ?thesis using h(1) by (metis append.assoc)
qed

definition sx_jenv :: jenv where
  "sx_jenv = jx_rotating\<lparr>j_rpcKeyRotate := (\<lambda>_ _ v. on_wire (fst (run_state (srv_EncryptionKeyRotate sx_denv v) [])))\<rparr>"

lemma sx_rotation: "appended jx_world (snd (run_state (KRJob_Reconcile jx_env sx_jenv minute jx_req) jx_world)) 7
    (ApiStatusUpdate (O_KRJob jx_rotated))"
  by code_simp

theorem rotation_reaches_driver_witness: "\<exists>v. driver_rotated sx_denv [] v"
proof -
  have "rotates_through sx_denv (\<lambda>_. []) sx_jenv" by (simp add: rotates_through_def sx_jenv_def)
  moreover have "job_result jx_rotated = OperationResultSucceeded" by (simp add: jx_rotated_def job_result_def)
  ultimately show ?thesis
    using rotation_reaches_driver [OF _ prod.collapse [symmetric] sx_rotation] by blast
qed

end
