(* ===== verification/Sidecar_Node.thy ===== *)
theory Sidecar_Node
  imports Volume_Group_Replication Sidecar_Util Go_Time
begin

text \<open>
  How a sidecar registers itself: \<open>sidecar/internal/csiaddonsnode/csiaddonsnode.go\<close>.
  The object is created or updated, watched, and created again when it is deleted. \<open>wait.PollUntilContextTimeout\<close> of the vendored package is modelled with the time an attempt
  takes as a parameter; the digest of a name and the time zone are parameters too.
\<close>

section \<open>The environment of the registration\<close>

datatype watch_event = WatchAdded | WatchModified | WatchDeleted | WatchBookmark | WatchError

text \<open>\<open>n_watch\<close> gives the events of a watch until its channel is closed.\<close>

record nenv =
  n_getNode :: "(nsname, csiaddons_node) answer"
  n_createNode :: "(csiaddons_node, csiaddons_node) answer"
  n_updateNode :: "(csiaddons_node, csiaddons_node) answer"
  n_getPod :: "(nsname, owner_ref list) answer"
  n_getReplicaSet :: "(nsname, owner_ref list) answer"
  n_driverName :: "event list \<Rightarrow> goerr + string"
  n_newClient :: "event list \<Rightarrow> goerr option"
  n_dynamicClient :: "event list \<Rightarrow> goerr option"
  n_watch :: "(nsname, watch_event list) answer"
  n_took :: "event list \<Rightarrow> duration"
  n_zone :: "time \<Rightarrow> int"
  n_sha256hex8 :: "string \<Rightarrow> string"

record node_manager =
  nm_Node :: string
  nm_Endpoint :: string
  nm_PodName :: string
  nm_PodNamespace :: string
  nm_PodUID :: string

abbreviation (input) nodeCreationRetry :: duration where "nodeCreationRetry \<equiv> minute * 5"
abbreviation (input) nodeCreationTimeout :: duration where "nodeCreationTimeout \<equiv> minute * 3"
abbreviation (input) watcherRetryCount :: int where "watcherRetryCount \<equiv> 10"
abbreviation (input) watcherRetryDelay :: duration where "watcherRetryDelay \<equiv> second * 5"
abbreviation (input) errInvalidConfig :: goerr where "errInvalidConfig \<equiv> Sentinel ''invalid configuration''"
abbreviation (input) createdByPodUID :: string where "createdByPodUID \<equiv> ''sidecar.csiaddons.openshift.io/createdByPodUID''"
abbreviation (input) lastUpdatedAt :: string where "lastUpdatedAt \<equiv> ''sidecar.csiaddons.openshift.io/lastUpdatedAt''"

definition invalid_config :: "string \<Rightarrow> goerr" where
  "invalid_config msg = ErrWrap [] errInvalidConfig ('': '' @ msg)"

section \<open>The name of the object\<close>

definition to_lower :: "char \<Rightarrow> char" where
  "to_lower c = (if 65 \<le> (of_char c :: nat) \<and> (of_char c :: nat) \<le> 90 then char_of ((of_char c :: nat) + 32) else c)"

definition strings_ToLower :: "string \<Rightarrow> string" where
  "strings_ToLower s = map to_lower s"

definition generateName :: "nenv \<Rightarrow> string \<Rightarrow> string \<Rightarrow> string \<Rightarrow> string \<Rightarrow> goerr + string" where
  "generateName v nodeID namespace ownerKind ownerName =
     (if nodeID = [] then Inl (ErrMsg ''nodeID is required'')
      else if ownerKind = [] then Inl (ErrMsg ''ownerKind is required'')
      else if ownerName = [] then Inl (ErrMsg ''ownerName is required'')
      else if namespace = [] then Inl (ErrMsg ''namespace is required'')
      else
        (let ownerKind = strings_ToLower ownerKind;
             base = nodeID @ ''-'' @ namespace @ ''-'' @ ownerKind @ ''-'' @ ownerName
         in if 253 < length base then
              (let uuid = n_sha256hex8 v (nodeID @ namespace @ ownerKind @ ownerName)
               in Inr (take (251 - length uuid - 1) base @ ''-'' @ uuid))
            else Inr base))"

section \<open>The object\<close>

definition Get_Owners :: "nenv \<Rightarrow> string \<Rightarrow> (nsname, owner_ref list) answer \<Rightarrow> nsname \<Rightarrow> (goerr + owner_ref list) prog" where
  "Get_Owners v kind get nn = call (\<lambda>h. get h nn) (ApiGet kind nn)"

text \<open>Kind and name of the owner for the name, and the owner of the object.\<close>

definition node_owner :: "nenv \<Rightarrow> node_manager \<Rightarrow> owner_ref list \<Rightarrow> (goerr + (string \<times> string \<times> owner_ref)) prog" where
  "node_owner v mgr owners =
     (case owners of
        [] \<Rightarrow> ret (Inl (invalid_config ''pod has no owner''))
      | owner # _ \<Rightarrow>
          if or_kind owner = ''ReplicaSet'' then do {
            r \<leftarrow> Get_Owners v ''ReplicaSet'' (n_getReplicaSet v) \<lparr>nn_namespace = nm_PodNamespace mgr, nn_name = or_name owner\<rparr>;
            ret (case r of
               Inl err \<Rightarrow> Inl (ErrWrap ''failed to get replicaset: '' err [])
             | Inr [] \<Rightarrow> Inl (invalid_config ''replicaset has no owner'')
             | Inr (rsOwner # _) \<Rightarrow> Inr (or_kind rsOwner, or_name rsOwner,
                 \<lparr>or_apiVersion = ''v1'', or_kind = ''Pod'', or_name = nm_PodName mgr, or_uid = nm_PodUID mgr, or_controller = False\<rparr>))
          }
          else ret (Inr (or_kind owner, or_name owner, owner)))"

definition new_node :: "string \<Rightarrow> string \<Rightarrow> owner_ref list \<Rightarrow> string \<Rightarrow> string \<Rightarrow> string \<Rightarrow> csiaddons_node" where
  "new_node name namespace owners driver endpoint nodeID =
     \<lparr>can_meta = (empty_meta name namespace)\<lparr>om_ownerReferences := owners\<rparr>, can_driverName = driver, can_endPoint = endpoint,
      can_nodeID = nodeID, can_state = NodeNoState, can_message = [], can_reason = [], can_capabilities = [], can_fenceClients = []\<rparr>"

definition mgr_missing :: "node_manager \<Rightarrow> goerr option" where
  "mgr_missing mgr =
     (if nm_PodName mgr = [] then Some (invalid_config ''missing Pod name'')
      else if nm_PodNamespace mgr = [] then Some (invalid_config ''missing Pod namespace'')
      else if nm_PodUID mgr = [] then Some (invalid_config ''missing Pod UID'')
      else if nm_Endpoint mgr = [] then Some (invalid_config ''missing endpoint'')
      else if nm_Node mgr = [] then Some (invalid_config ''missing node'')
      else None)"

definition node_object :: "nenv \<Rightarrow> node_manager \<Rightarrow> string \<Rightarrow> goerr + (string \<times> string \<times> owner_ref) \<Rightarrow> goerr + csiaddons_node" where
  "node_object v mgr driver owner =
     (case owner of
        Inl err \<Rightarrow> Inl err
      | Inr (kind, name, ref) \<Rightarrow>
          (case generateName v (nm_Node mgr) (nm_PodNamespace mgr) kind name of
             Inl err \<Rightarrow> Inl (ErrWrap ''failed to generate name: '' err [])
           | Inr n \<Rightarrow> Inr (new_node n (nm_PodNamespace mgr) [ref] driver (nm_Endpoint mgr) (nm_Node mgr))))"

definition getCSIAddonsNode :: "nenv \<Rightarrow> node_manager \<Rightarrow> (goerr + csiaddons_node) prog" where
  "getCSIAddonsNode v mgr =
     (case mgr_missing mgr of
        Some err \<Rightarrow> ret (Inl err)
      | None \<Rightarrow> do {
          dr \<leftarrow> ask (n_driverName v);
          (case dr of
             Inl err \<Rightarrow> ret (Inl (ErrWrap ''failed to get driver name: '' err []))
           | Inr driver \<Rightarrow>
               if driver = [] then ret (Inl (invalid_config ''CSI-driver returned an empty driver name''))
               else do {
                 r \<leftarrow> Get_Owners v ''Pod'' (n_getPod v) \<lparr>nn_namespace = nm_PodNamespace mgr, nn_name = nm_PodName mgr\<rparr>;
                 (case r of
                    Inl err \<Rightarrow> ret (Inl (ErrWrap ''failed to get pod: '' err []))
                  | Inr owners \<Rightarrow> do {
                      owner \<leftarrow> node_owner v mgr owners;
                      ret (node_object v mgr driver owner)
                    })
               })
        })"

section \<open>Creating or updating it\<close>

definition Get_NodeObj :: "nenv \<Rightarrow> nsname \<Rightarrow> (goerr + csiaddons_node) prog" where
  "Get_NodeObj v nn = call (\<lambda>h. n_getNode v h nn) (ApiGet ''CSIAddonsNode'' nn)"
definition Create_NodeObj :: "nenv \<Rightarrow> csiaddons_node \<Rightarrow> (goerr + csiaddons_node) prog" where
  "Create_NodeObj v n = call (\<lambda>h. n_createNode v h n) (ApiCreate (O_Node n))"
definition Update_NodeObj :: "nenv \<Rightarrow> csiaddons_node \<Rightarrow> (goerr + csiaddons_node) prog" where
  "Update_NodeObj v n = call (\<lambda>h. n_updateNode v h n) (ApiUpdate (O_Node n))"

text \<open>The function given to \<open>CreateOrUpdate\<close>, at the time \<open>t\<close>; it reads the clock after the object was read.\<close>

definition mutate_node :: "nenv \<Rightarrow> node_manager \<Rightarrow> csiaddons_node \<Rightarrow> time \<Rightarrow> csiaddons_node \<Rightarrow> goerr + csiaddons_node" where
  "mutate_node v mgr node t x =
     (if om_deletionTimestamp (can_meta x) \<noteq> None then Inl (ErrMsg ''csiaddonnode is being deleted'')
      else Inr (x\<lparr>can_driverName := can_driverName node, can_endPoint := can_endPoint node, can_nodeID := can_nodeID node,
        can_meta := (can_meta x)\<lparr>om_ownerReferences := om_ownerReferences (can_meta node),
          om_annotations := AList.update lastUpdatedAt (format_RFC3339 (n_zone v t) t)
            (AList.update createdByPodUID (nm_PodUID mgr) (om_annotations (can_meta x)))\<rparr>\<rparr>))"

definition newCSIAddonsNode :: "env \<Rightarrow> nenv \<Rightarrow> node_manager \<Rightarrow> csiaddons_node \<Rightarrow> goerr option prog" where
  "newCSIAddonsNode e v mgr node = do {
     cl \<leftarrow> ask (n_newClient v);
     (case cl of
        Some err \<Rightarrow> ret (Some (ErrWrap ''failed to create controller-runtime client: '' err []))
      | None \<Rightarrow> do {
          t \<leftarrow> ask (\<lambda>h. e_now e (h @ [ApiGet ''CSIAddonsNode'' (meta_key (can_meta node))]));
          (x, err) \<leftarrow> CreateOrUpdate (\<lambda>n. meta_key (can_meta n)) (Get_NodeObj v) (Create_NodeObj v) (Update_NodeObj v)
            (mutate_node v mgr node t) (new_node (om_name (can_meta node)) (om_namespace (can_meta node)) [] [] [] []);
          ret (case err of None \<Rightarrow> None | Some er \<Rightarrow> Some (ErrWrap ''failed to create/update csiaddonsnode object: '' er []))
        })
   }"

section \<open>Polling\<close>

definition context_deadline :: goerr where
  "context_deadline = Sentinel ''context deadline exceeded''"

text \<open>
  The loop of \<open>wait.PollUntilContextTimeout\<close> with an immediate first attempt. An attempt that starts at
  \<open>start\<close> is followed by the next one after the interval, or when it is over if it takes longer; the loop ends
  when that is not before the timeout. Every attempt takes the clock on by at least the interval, so
  \<open>timeout div interval + 1\<close> attempts are enough fuel.
\<close>

primrec poll_loop ::
  "nat \<Rightarrow> duration \<Rightarrow> duration \<Rightarrow> duration \<Rightarrow> (event list \<Rightarrow> duration) \<Rightarrow> (goerr + bool) prog \<Rightarrow> goerr option prog" where
  "poll_loop 0 interval timeout start took condition = ret (Some context_deadline)"
| "poll_loop (Suc n) interval timeout start took condition = do {
     r \<leftarrow> condition;
     (case r of
        Inl err \<Rightarrow> ret (Some err)
      | Inr True \<Rightarrow> ret None
      | Inr False \<Rightarrow> do {
          t \<leftarrow> ask took;
          if timeout \<le> start + max interval t then ret (Some context_deadline)
          else poll_loop n interval timeout (start + max interval t) took condition
        })
   }"

definition PollUntilContextTimeout ::
  "duration \<Rightarrow> duration \<Rightarrow> (event list \<Rightarrow> duration) \<Rightarrow> (goerr + bool) prog \<Rightarrow> goerr option prog" where
  "PollUntilContextTimeout interval timeout = poll_loop (Suc (nat (timeout div interval))) interval timeout 0"

definition deploy :: "env \<Rightarrow> nenv \<Rightarrow> node_manager \<Rightarrow> csiaddons_node \<Rightarrow> goerr option prog" where
  "deploy e v mgr object =
     PollUntilContextTimeout nodeCreationRetry nodeCreationTimeout (n_took v) (do {
       err \<leftarrow> newCSIAddonsNode e v mgr object;
       ret (Inr (err = None))
     })"

section \<open>Watching\<close>

text \<open>\<open>Exited\<close> is \<open>klog.Fatalf\<close>, which ends the process.\<close>

datatype watch_end = WatchFailed goerr | WatchClosed | Exited string

fun watch_events :: "env \<Rightarrow> nenv \<Rightarrow> node_manager \<Rightarrow> csiaddons_node \<Rightarrow> watch_event list \<Rightarrow> watch_end prog" where
  "watch_events e v mgr node [] = ret WatchClosed"
| "watch_events e v mgr node (ev # evs) =
     (if ev = WatchDeleted then do {
        err \<leftarrow> deploy e v mgr node;
        (case err of
           Some er \<Rightarrow> ret (WatchFailed (ErrWrap ''failed to recreate CSIAddonsNode: '' er []))
         | None \<Rightarrow> watch_events e v mgr node evs)
      } else watch_events e v mgr node evs)"

definition watchCSIAddonsNode :: "env \<Rightarrow> nenv \<Rightarrow> node_manager \<Rightarrow> csiaddons_node \<Rightarrow> watch_end prog" where
  "watchCSIAddonsNode e v mgr node = do {
     err \<leftarrow> deploy e v mgr node;
     (case err of
        Some er \<Rightarrow> ret (Exited (''Failed to create csiaddonsnode: '' @ Error er))
      | None \<Rightarrow> do {
          dyn \<leftarrow> ask (n_dynamicClient v);
          (case dyn of
             Some er \<Rightarrow> ret (WatchFailed (ErrWrap ''failed to create dynamic client: '' er []))
           | None \<Rightarrow> do {
               r \<leftarrow> ask (\<lambda>h. n_watch v h (meta_key (can_meta node)));
               (case r of
                  Inl er \<Rightarrow> ret (WatchFailed (ErrWrap ''failed to watch CSIAddonsNode objects: '' er []))
                | Inr evs \<Rightarrow> watch_events e v mgr node evs)
             })
        })
   }"

text \<open>
  The loop of \<open>DispatchWatcher\<close>, which goes on for as long as watches end without error: the fuel bounds
  the number of watches, and \<open>None\<close> means that it is still running. With the result come the times it slept.
\<close>

datatype dispatch_end = GaveUp goerr | ProcessExit string

primrec dispatch_loop ::
  "nat \<Rightarrow> watch_end prog \<Rightarrow> string \<Rightarrow> int \<Rightarrow> duration list \<Rightarrow> (dispatch_end \<times> duration list) option prog" where
  "dispatch_loop 0 watch name retryCount slept = ret None"
| "dispatch_loop (Suc n) watch name retryCount slept =
     (if watcherRetryCount \<le> retryCount
      then ret (Some (GaveUp (ErrMsg (''watcher for '' @ name @ '' reached max retries, giving up'')), slept))
      else do {
        r \<leftarrow> watch;
        (case r of
           Exited msg \<Rightarrow> ret (Some (ProcessExit msg, slept))
         | WatchFailed err \<Rightarrow>
             dispatch_loop n watch name (retryCount + 1) (slept @ [wrap64 (watcherRetryDelay * (retryCount + 1))])
         | WatchClosed \<Rightarrow> dispatch_loop n watch name 0 slept)
      })"

definition DispatchWatcher :: "nat \<Rightarrow> env \<Rightarrow> nenv \<Rightarrow> node_manager \<Rightarrow> (dispatch_end \<times> duration list) option prog" where
  "DispatchWatcher fuel e v mgr = do {
     r \<leftarrow> getCSIAddonsNode v mgr;
     (case r of
        Inl err \<Rightarrow> ret (Some (GaveUp (ErrWrap ''failed to get CSIAddonsNode object due to error: '' err []), []))
      | Inr node \<Rightarrow> dispatch_loop fuel (watchCSIAddonsNode e v mgr node) (om_name (can_meta node)) 0 [])
   }"

end
