(* ===== verification/Props_Register.thy ===== *)
theory Props_Register
  imports Sidecar_Node
begin

text \<open>Properties of the registration of a sidecar.\<close>

section \<open>The object a sidecar registers\<close>

lemma generateName_bound:
  assumes "\<And>s. length (n_sha256hex8 v s) = 16" "generateName v nodeID ns kind name = Inr n"
  shows "length n \<le> 253"
  using assms by (auto simp: generateName_def Let_def split: if_splits)

lemma getCSIAddonsNodeE:
  assumes "run_state (getCSIAddonsNode v mgr) w = (Inr n, w')"
  obtains driver kind name ref where "mgr_missing mgr = None" "driver \<noteq> []"
    "generateName v (nm_Node mgr) (nm_PodNamespace mgr) kind name = Inr (om_name (can_meta n))"
    "n = new_node (om_name (can_meta n)) (nm_PodNamespace mgr) [ref] driver (nm_Endpoint mgr) (nm_Node mgr)"
proof -
  have mgr: "mgr_missing mgr = None"
    using assms by (auto simp: getCSIAddonsNode_def split: option.splits)
  obtain driver where driver: "n_driverName v (trace w) = Inr driver" "driver \<noteq> []"
    using assms by (auto simp: getCSIAddonsNode_def mgr run_defs split: sum.splits if_splits)
  obtain owner where "node_object v mgr driver owner = Inr n"
    using assms
    by (auto simp: getCSIAddonsNode_def mgr driver run_defs Get_Owners_def split: sum.splits prod.splits)
  then obtain kind name ref m where gen: "generateName v (nm_Node mgr) (nm_PodNamespace mgr) kind name = Inr m"
      "n = new_node m (nm_PodNamespace mgr) [ref] driver (nm_Endpoint mgr) (nm_Node mgr)"
    by (auto simp: node_object_def split: sum.splits)
  then have m: "om_name (can_meta n) = m"
    by (simp add: new_node_def empty_meta_def)
  show thesis
    by (rule that [OF mgr driver(2)]; unfold m) (rule gen)+
qed

text \<open>What the registered object says about the pod, when the endpoint was built from it.\<close>

lemma registered_endpoint:
  assumes "run_state (getCSIAddonsNode v mgr) w = (Inr n, w')"
    and "BuildEndpointURL parseIP [] rawPort (nm_PodName mgr) (nm_PodNamespace mgr) = Inr (nm_Endpoint mgr)"
    and "list_all dns_char (nm_PodName mgr)" "list_all dns_char (nm_PodNamespace mgr)" "CHR ''.'' \<notin> set (nm_PodNamespace mgr)"
  obtains port where "parsePort rawPort = Inr port" "nm_PodName mgr \<noteq> []" "nm_Endpoint mgr \<noteq> []"
    "parseEndpoint (can_endPoint n) = Inr (nm_PodNamespace mgr, nm_PodName mgr, nat_digits port)"
    "can_endPoint n = nm_Endpoint mgr" "om_namespace (can_meta n) = nm_PodNamespace mgr" "can_nodeID n = nm_Node mgr"
proof -
  obtain driver kind name ref where n: "mgr_missing mgr = None"
      "n = new_node (om_name (can_meta n)) (nm_PodNamespace mgr) [ref] driver (nm_Endpoint mgr) (nm_Node mgr)"
    using assms(1) by (rule getCSIAddonsNodeE)
  have mgr: "nm_PodName mgr \<noteq> []" "nm_PodNamespace mgr \<noteq> []" "nm_Endpoint mgr \<noteq> []"
    using n(1) by (auto simp: mgr_missing_def split: if_splits)
  have fields: "can_endPoint n = nm_Endpoint mgr" "om_namespace (can_meta n) = nm_PodNamespace mgr" "can_nodeID n = nm_Node mgr"
    by (subst n(2), simp add: new_node_def empty_meta_def)+
  obtain port where port: "parsePort rawPort = Inr port"
      "nm_Endpoint mgr = ''pod://'' @ nm_PodName mgr @ ''.'' @ nm_PodNamespace mgr @ '':'' @ nat_digits port"
    using assms(2) mgr by (auto simp: BuildEndpointURL_def Let_def split: if_splits sum.splits)
  have "parseEndpoint (can_endPoint n) = Inr (nm_PodNamespace mgr, nm_PodName mgr, nat_digits port)"
    unfolding fields port(2)
    using parseEndpoint_pod [OF assms(3) mgr(1) assms(4) mgr(2) assms(5) list_all_is_digit_nat_digits] by simp
  from that [OF port(1) mgr(1,3) this fields] show thesis .
qed


text \<open>A sidecar of a daemon set whose API server answers everything but a watch.\<close>

definition rg_mgr :: node_manager where
  "rg_mgr = \<lparr>nm_Node = ''n1'', nm_Endpoint = ''pod://p.ns:9070'', nm_PodName = ''p'', nm_PodNamespace = ''ns'', nm_PodUID = ''u1''\<rparr>"

definition rg_owner :: owner_ref where
  "rg_owner = \<lparr>or_apiVersion = ''apps/v1'', or_kind = ''DaemonSet'', or_name = ''plugin'', or_uid = ''d'', or_controller = True\<rparr>"

definition rg_node :: csiaddons_node where
  "rg_node = new_node ''n1-ns-daemonset-plugin'' ''ns'' [rg_owner] ''drv'' ''pod://p.ns:9070'' ''n1''"

text \<open>The object as an earlier pod left it and the operator completed it.\<close>

definition rg_existing :: csiaddons_node where
  "rg_existing = rg_node\<lparr>can_endPoint := ''pod://old.ns:9070'', can_state := NodeConnected,
     can_meta := (can_meta rg_node)\<lparr>om_finalizers := [''csiaddons.openshift.io/csiaddonsnode''], om_annotations := [(''a'', ''b'')]\<rparr>\<rparr>"

definition rg_env :: nenv where
  "rg_env = \<lparr>n_getNode = (\<lambda>_ _. Inr rg_existing), n_createNode = (\<lambda>_ n. Inr n), n_updateNode = (\<lambda>_ n. Inr n),
     n_getPod = (\<lambda>_ _. Inr [rg_owner]), n_getReplicaSet = (\<lambda>_ _. Inl notfound), n_driverName = (\<lambda>_. Inr ''drv''),
     n_newClient = (\<lambda>_. None), n_dynamicClient = (\<lambda>_. None), n_watch = (\<lambda>_ _. Inl unavailable), n_took = (\<lambda>_. second),
     n_zone = (\<lambda>_. 0), n_sha256hex8 = (\<lambda>_. replicate 16 CHR ''0'')\<rparr>"

definition rg_world :: world where
  "rg_world = \<lparr>trace = [], pool = []\<rparr>"

lemma rg_name: "generateName rg_env ''n1'' ''ns'' ''DaemonSet'' ''plugin'' = Inr ''n1-ns-daemonset-plugin''"
  by (simp add: generateName_def strings_ToLower_def to_lower_def Let_def) code_simp

lemma rg_getCSIAddonsNode:
  "run_state (getCSIAddonsNode rg_env rg_mgr) rg_world =
     (Inr rg_node, rg_world\<lparr>trace := [ApiGet ''Pod'' \<lparr>nn_namespace = ''ns'', nn_name = ''p''\<rparr>]\<rparr>)"
  using rg_name
  by (simp add: getCSIAddonsNode_def mgr_missing_def rg_mgr_def rg_env_def rg_world_def rg_owner_def rg_node_def run_defs
      Get_Owners_def node_owner_def node_object_def)


section \<open>Creating or updating the object\<close>

text \<open>\<open>CreateOrUpdate\<close> of an object that exists, when the mutation keeps its name.\<close>

lemma run_CreateOrUpdate_existing:
  assumes "run_state (get (key obj)) w = (Inr old, w1)" "f old = Inr new" "key new = key obj"
  shows "run_state (CreateOrUpdate key get create update f obj) w =
    (if new = old then ((old, None), w1)
     else case run_state (update new) w1 of (Inl er, w2) \<Rightarrow> ((new, Some er), w2) | (Inr stored, w2) \<Rightarrow> ((stored, None), w2))"
  using assms by (simp add: CreateOrUpdate_def split: prod.split sum.split)

lemma run_CreateOrUpdate_refused:
  assumes "run_state (get (key obj)) w = (Inr old, w1)" "f old = Inl er"
  shows "run_state (CreateOrUpdate key get create update f obj) w = ((old, Some er), w1)"
  using assms by (simp add: CreateOrUpdate_def)


text \<open>A sidecar that finds its object already registered changes only what it owns. An object under deletion
  is left alone and the registration fails; otherwise at most one update is sent, and it sets driver,
  endpoint, node and owner to those of this sidecar and the two annotations that make the operator
  reconnect, and keeps the status the operator reported, its finalizer and every other annotation.\<close>

theorem registration_update:
  assumes "n_newClient v (trace w) = None" "n_getNode v (trace w) (meta_key (can_meta node)) = Inr old"
    and "meta_key (can_meta old) = meta_key (can_meta node)" "run_state (newCSIAddonsNode e v mgr node) w = (r, w')"
  shows "(om_deletionTimestamp (can_meta old) \<noteq> None \<longrightarrow>
       r \<noteq> None \<and> trace w' = trace w @ [ApiGet ''CSIAddonsNode'' (meta_key (can_meta node))]) \<and>
    (om_deletionTimestamp (can_meta old) = None \<longrightarrow>
       (\<exists>new. (trace w' = trace w @ [ApiGet ''CSIAddonsNode'' (meta_key (can_meta node)), ApiUpdate (O_Node new)] \<or>
               trace w' = trace w @ [ApiGet ''CSIAddonsNode'' (meta_key (can_meta node))] \<and> new = old \<and> r = None) \<and>
          can_driverName new = can_driverName node \<and> can_endPoint new = can_endPoint node \<and> can_nodeID new = can_nodeID node \<and>
          om_ownerReferences (can_meta new) = om_ownerReferences (can_meta node) \<and>
          mget (om_annotations (can_meta new)) createdByPodUID = nm_PodUID mgr \<and>
          can_state new = can_state old \<and> can_capabilities new = can_capabilities old \<and>
          om_finalizers (can_meta new) = om_finalizers (can_meta old) \<and>
          (\<forall>k. k \<noteq> createdByPodUID \<and> k \<noteq> lastUpdatedAt \<longrightarrow>
             mget (om_annotations (can_meta new)) k = mget (om_annotations (can_meta old)) k)))"
proof -
  let ?key = "meta_key (can_meta node)"
  let ?obj = "new_node (om_name (can_meta node)) (om_namespace (can_meta node)) [] [] [] []"
  let ?t = "e_now e (trace w @ [ApiGet ''CSIAddonsNode'' ?key])"
  let ?w1 = "w\<lparr>trace := trace w @ [ApiGet ''CSIAddonsNode'' ?key]\<rparr>"
  let ?cou = "CreateOrUpdate (\<lambda>n. meta_key (can_meta n)) (Get_NodeObj v) (Create_NodeObj v) (Update_NodeObj v) (mutate_node v mgr node ?t) ?obj"
  have key: "meta_key (can_meta ?obj) = ?key" by (simp add: new_node_def empty_meta_def meta_key_def)
  have get: "run_state (Get_NodeObj v (meta_key (can_meta ?obj))) w = (Inr old, ?w1)"
    unfolding key by (simp add: Get_NodeObj_def run_defs assms(2))
  obtain x er where cou: "run_state ?cou w = ((x, er), w')" "r = None \<longleftrightarrow> er = None"
    using assms(1,4) by (auto simp: newCSIAddonsNode_def run_defs split: prod.splits option.splits)
  show ?thesis
  proof (cases "om_deletionTimestamp (can_meta old)")
    case (Some ts)
    then have "mutate_node v mgr node ?t old = Inl (ErrMsg ''csiaddonnode is being deleted'')"
      by (simp add: mutate_node_def)
    from run_CreateOrUpdate_refused [where key = "\<lambda>n. meta_key (can_meta n)" and get = "Get_NodeObj v" and f = "mutate_node v mgr node ?t", OF get this] cou Some show ?thesis by auto
  next
    case None
    then obtain new where new: "mutate_node v mgr node ?t old = Inr new" by (simp add: mutate_node_def)
    then have fields: "can_driverName new = can_driverName node" "can_endPoint new = can_endPoint node" "can_nodeID new = can_nodeID node"
        "om_ownerReferences (can_meta new) = om_ownerReferences (can_meta node)"
        "mget (om_annotations (can_meta new)) createdByPodUID = nm_PodUID mgr" "can_state new = can_state old"
        "can_capabilities new = can_capabilities old" "om_finalizers (can_meta new) = om_finalizers (can_meta old)"
        "k \<noteq> createdByPodUID \<and> k \<noteq> lastUpdatedAt \<Longrightarrow> mget (om_annotations (can_meta new)) k = mget (om_annotations (can_meta old)) k"
        "meta_key (can_meta new) = meta_key (can_meta old)" for k
      by (auto simp: mutate_node_def meta_key_def None)
    have "trace w' = trace w @ [ApiGet ''CSIAddonsNode'' ?key, ApiUpdate (O_Node new)] \<or>
        trace w' = trace w @ [ApiGet ''CSIAddonsNode'' ?key] \<and> new = old \<and> r = None"
      using run_CreateOrUpdate_existing [where key = "\<lambda>n. meta_key (can_meta n)" and get = "Get_NodeObj v" and update = "Update_NodeObj v" and
            create = "Create_NodeObj v" and f = "mutate_node v mgr node ?t", OF get new] cou fields(10) assms(3) key
      by (auto simp: Update_NodeObj_def run_defs split: if_splits sum.splits)
    with fields(1-9) None show ?thesis by auto
  qed
qed

theorem registration_update_witness:
  "\<exists>new w'. snd (run_state (newCSIAddonsNode env0 rg_env rg_mgr rg_node) rg_world) = w' \<and>
     trace w' = [ApiGet ''CSIAddonsNode'' (meta_key (can_meta rg_node)), ApiUpdate (O_Node new)] \<and>
     can_endPoint new = ''pod://p.ns:9070'' \<and> can_state new = NodeConnected \<and>
     om_finalizers (can_meta new) = [''csiaddons.openshift.io/csiaddonsnode''] \<and> mget (om_annotations (can_meta new)) ''a'' = ''b''"
proof -
  let ?r = "run_state (newCSIAddonsNode env0 rg_env rg_mgr rg_node) rg_world"
  have node: "meta_key (can_meta rg_existing) = meta_key (can_meta rg_node)" "om_deletionTimestamp (can_meta rg_existing) = None"
      "can_endPoint rg_node = ''pod://p.ns:9070''" "can_endPoint rg_existing = ''pod://old.ns:9070''" "can_state rg_existing = NodeConnected"
      "om_finalizers (can_meta rg_existing) = [''csiaddons.openshift.io/csiaddonsnode'']" "mget (om_annotations (can_meta rg_existing)) ''a'' = ''b''"
    by (simp_all add: rg_existing_def rg_node_def new_node_def empty_meta_def meta_key_def mget_def)
  have env: "n_newClient rg_env (trace rg_world) = None" "n_getNode rg_env (trace rg_world) nn = Inr rg_existing" "trace rg_world = []" for nn
    by (simp_all add: rg_env_def rg_world_def)
  from registration_update [OF env(1,2) node(1) prod.collapse [symmetric, of ?r]] node(2)
  obtain new where new: "trace (snd ?r) = [ApiGet ''CSIAddonsNode'' (meta_key (can_meta rg_node)), ApiUpdate (O_Node new)] \<or> new = rg_existing"
      "can_endPoint new = can_endPoint rg_node" "can_state new = can_state rg_existing"
      "om_finalizers (can_meta new) = om_finalizers (can_meta rg_existing)"
      "\<forall>k. k \<noteq> createdByPodUID \<and> k \<noteq> lastUpdatedAt \<longrightarrow> mget (om_annotations (can_meta new)) k = mget (om_annotations (can_meta rg_existing)) k"
    unfolding env(3) by auto
  from new(5) have "mget (om_annotations (can_meta new)) ''a'' = ''b''" by (simp add: node)
  with new(1-4) show ?thesis by (auto simp: node)
qed

section \<open>Retries\<close>


lemma run_watch_refused:
  assumes "run_state (newCSIAddonsNode e v mgr node) w = (None, w1)" "n_dynamicClient v (trace w1) = None"
    and "n_watch v (trace w1) (meta_key (can_meta node)) = Inl er"
  shows "run_state (watchCSIAddonsNode e v mgr node) w = (WatchFailed (ErrWrap ''failed to watch CSIAddonsNode objects: '' er []), w1)"
  using assms by (simp add: watchCSIAddonsNode_def deploy_def PollUntilContextTimeout_def run_defs)

text \<open>The pauses of consecutive failures.\<close>

definition backoffs :: "nat \<Rightarrow> duration list" where
  "backoffs n = map (\<lambda>i. watcherRetryDelay * (int i + 1)) [0..<n]"

lemma backoffs_Suc: "int c < watcherRetryCount \<Longrightarrow> backoffs c @ [wrap64 (watcherRetryDelay * (int c + 1))] = backoffs (Suc c)"
  by (simp add: backoffs_def wrap64_id)

lemma dispatch_loop_gave_up:
  assumes "run_state (dispatch_loop n watch name (int c) slept) w = (Some (GaveUp er, slept'), w')" "slept = pre @ backoffs c" "c \<le> 10"
  shows "\<exists>pre. slept' = pre @ backoffs 10"
  using assms
proof (induction n arbitrary: c slept pre w)
  case 0
  then show ?case by simp
next
  case (Suc n)
  show ?case
  proof (cases "c = 10")
    case True
    with Suc.prems show ?thesis by auto
  next
    case False
    with Suc.prems(3) have c: "int c < watcherRetryCount" "Suc c \<le> 10" "1 + int c = int (Suc c)" by simp_all
    obtain r w1 where r: "run_state watch w = (r, w1)" by fastforce
    show ?thesis
    proof (cases r)
      case (WatchFailed er')
      with Suc.prems(1) r c(1) have "run_state (dispatch_loop n watch name (int (Suc c)) (slept @ [wrap64 (watcherRetryDelay * (int c + 1))])) w1 =
          (Some (GaveUp er, slept'), w')"
        by (simp add: add.commute)
      then show ?thesis
        using Suc.prems(2) c(2) backoffs_Suc [OF c(1)] by (intro Suc.IH [where c = "Suc c" and pre = pre]) simp_all
    next
      case WatchClosed
      with Suc.prems(1) r c(1) have "run_state (dispatch_loop n watch name (int 0) slept) w1 = (Some (GaveUp er, slept'), w')"
        by simp
      then show ?thesis by (rule Suc.IH [where pre = slept]) (simp_all add: backoffs_def)
    next
      case (Exited msg)
      with Suc.prems(1) r c(1) show ?thesis by simp
    qed
  qed
qed

lemma dispatch_loop_failing:
  assumes "\<forall>w. \<exists>er w'. run_state watch w = (WatchFailed er, w')" "c \<le> 10" "10 - c < n" "slept = backoffs c"
  shows "\<exists>w'. run_state (dispatch_loop n watch name (int c) slept) w =
    (Some (GaveUp (ErrMsg (''watcher for '' @ name @ '' reached max retries, giving up'')), backoffs 10), w')"
  using assms(2-4)
proof (induction n arbitrary: c slept w)
  case 0
  then show ?case by simp
next
  case (Suc n)
  show ?case
  proof (cases "c = 10")
    case True
    with Suc.prems show ?thesis by simp
  next
    case False
    with Suc.prems have c: "int c < watcherRetryCount" "Suc c \<le> 10" "10 - Suc c < n" by simp_all
    obtain er w1 where r: "run_state watch w = (WatchFailed er, w1)" using assms(1) by blast
    from Suc.IH [OF c(2,3) refl, of w1] backoffs_Suc [OF c(1)] r c(1) show ?thesis
      by (simp add: Suc.prems(3) add.commute)
  qed
qed

text \<open>C37: a sidecar gives up watching its object only after ten failures in a row, having paused 5, 10, up to 50
  seconds after them (a watch that ends without error starts the count again); and when every watch fails
  it does give up, after exactly these ten pauses, so that it is restarted.\<close>

theorem dispatch_gives_up:
  assumes "run_state (getCSIAddonsNode v mgr) w = (Inr node, w1)"
  shows "(\<forall>fuel er slept w'. run_state (DispatchWatcher fuel e v mgr) w = (Some (GaveUp er, slept), w') \<longrightarrow>
       (\<exists>before. slept = before @ map (\<lambda>i. 5 * second * i) [1..10])) \<and>
    ((\<forall>w. \<exists>er w'. run_state (watchCSIAddonsNode e v mgr node) w = (WatchFailed er, w')) \<longrightarrow>
       (\<forall>fuel \<ge> 11. \<exists>er w'. run_state (DispatchWatcher fuel e v mgr) w = (Some (GaveUp er, map (\<lambda>i. 5 * second * i) [1..10]), w')))"
proof -
  let ?watch = "watchCSIAddonsNode e v mgr node"
  have dispatch: "run_state (DispatchWatcher fuel e v mgr) w =
      run_state (dispatch_loop fuel ?watch (om_name (can_meta node)) (int 0) (backoffs 0)) w1" for fuel
    using assms by (simp add: DispatchWatcher_def backoffs_def)
  have pauses: "backoffs 10 = map (\<lambda>i. 5 * second * i) [1..10]"
    by (simp add: backoffs_def upto_rec1 upt_rec)
  have "\<exists>before. slept = before @ backoffs 10"
    if "run_state (dispatch_loop fuel ?watch (om_name (can_meta node)) (int 0) (backoffs 0)) w1 = (Some (GaveUp er, slept), w')"
    for fuel er slept w'
    using that by (rule dispatch_loop_gave_up [where pre = "[]"]) simp_all
  moreover have "\<exists>er w'. run_state (dispatch_loop fuel ?watch (om_name (can_meta node)) (int 0) (backoffs 0)) w1 = (Some (GaveUp er, backoffs 10), w')"
    if "\<forall>w. \<exists>er w'. run_state ?watch w = (WatchFailed er, w')" "11 \<le> fuel" for fuel
    using dispatch_loop_failing [OF that(1), of 0 fuel "backoffs 0" "om_name (can_meta node)" w1] that(2) by auto
  ultimately show ?thesis
    unfolding dispatch pauses [symmetric] by blast
qed

theorem dispatch_gives_up_witness:
  "\<exists>er w'. run_state (DispatchWatcher 11 env0 rg_env rg_mgr) rg_world =
     (Some (GaveUp er, map (\<lambda>i. 5 * second * i) [1..10]), w')"
proof -
  have "fst (run_state (newCSIAddonsNode env0 rg_env rg_mgr rg_node) w) = None" for w
    by (simp add: newCSIAddonsNode_def rg_env_def CreateOrUpdate_def Get_NodeObj_def Update_NodeObj_def mutate_node_def
        rg_existing_def rg_node_def new_node_def empty_meta_def meta_key_def run_defs Let_def)
  then have new: "run_state (newCSIAddonsNode env0 rg_env rg_mgr rg_node) w =
      (None, snd (run_state (newCSIAddonsNode env0 rg_env rg_mgr rg_node) w))" for w
    by (metis prod.collapse)
  have "\<exists>er w'. run_state (watchCSIAddonsNode env0 rg_env rg_mgr rg_node) w = (WatchFailed er, w')" for w
    using run_watch_refused [OF new, of w unavailable] by (simp add: rg_env_def)
  with dispatch_gives_up [OF rg_getCSIAddonsNode, of env0] show ?thesis by simp
qed

end
