(* ===== verification/Sidecar_Start.thy ===== *)
theory Sidecar_Start
  imports Sidecar_Services Sidecar_Node
begin

text \<open>
  How a sidecar starts and protects itself: \<open>sidecar/main.go\<close>, its client of the driver
  (\<open>sidecar/internal/client/client.go\<close>), its server (\<open>sidecar/internal/server/server.go\<close>), the
  authentication of requests (\<open>internal/kubernetes/token/grpc.go\<close>) and the part of the vendored leader
  election that chooses the lease. Certificates, sockets and the election itself are left out.
\<close>

section \<open>client.go\<close>

definition probeOnce :: "denv \<Rightarrow> (goerr + bool) sprog" where
  "probeOnce d = do {
     r \<leftarrow> scall (\<lambda>h. d_probe d h ()) DrvProbe;
     sret (case r of
        Inl err \<Rightarrow> Inl err
      | Inr None \<Rightarrow> Inr True
      | Inr (Some ready) \<Rightarrow> Inr ready)
   }"

text \<open>\<open>Probe\<close> goes on until the driver is ready; the fuel bounds the attempts, \<open>None\<close> means it is still waiting.\<close>

primrec Probe :: "nat \<Rightarrow> denv \<Rightarrow> goerr option option sprog" where
  "Probe 0 d = sret None"
| "Probe (Suc n) d = do {
     r \<leftarrow> probeOnce d;
     (case r of
        Inl err \<Rightarrow>
          (let (code, _, ok) = status_FromError err
           in if \<not> ok then sret (Some (Some (ErrMsg (''CSI driver probe failed: '' @ Error err))))
              else if code \<noteq> C_DeadlineExceeded then sret (Some (Some (ErrMsg (''CSI driver probe failed: '' @ Error err))))
              else Probe n d)
      | Inr ready \<Rightarrow> if ready then sret (Some None) else Probe n d)
   }"

fun has_controller :: "capability list \<Rightarrow> bool" where
  "has_controller [] = False"
| "has_controller (c # cs) = (if c = CapService CONTROLLER_SERVICE then True else has_controller cs)"

definition client_HasControllerService :: "denv \<Rightarrow> (goerr + bool) sprog" where
  "client_HasControllerService d = do {
     rsp \<leftarrow> scall (\<lambda>h. d_capabilities d h ()) DrvGetCapabilities;
     sret (case rsp of Inl err \<Rightarrow> Inl err | Inr caps \<Rightarrow> Inr (has_controller caps))
   }"

definition GetDriverName :: "denv \<Rightarrow> (goerr + string) sprog" where
  "GetDriverName d = do {
     rsp \<leftarrow> scall (\<lambda>h. d_name d h ()) DrvGetIdentity;
     sret (case rsp of
        Inl err \<Rightarrow> Inl err
      | Inr name \<Rightarrow> if name = [] then Inl (ErrMsg ''driver name is empty'') else Inr name)
   }"

section \<open>token/grpc.go\<close>

abbreviation (input) bearerPrefix :: string where "bearerPrefix \<equiv> ''Bearer ''"
abbreviation (input) authorizationKey :: string where "authorizationKey \<equiv> ''authorization''"

text \<open>The metadata of a call: several values under a key, \<open>None\<close> when there is none at all.\<close>

type_synonym call_metadata = "(string \<times> string list) list"

definition AppendToOutgoingContext :: "call_metadata \<Rightarrow> string \<Rightarrow> string \<Rightarrow> call_metadata" where
  "AppendToOutgoingContext md k v =
     AList.update k ((case map_of md k of None \<Rightarrow> [] | Some vs \<Rightarrow> vs) @ [v]) md"

text \<open>The client side: \<open>getToken\<close> is the content of the token file of the operator's service account.\<close>

definition addAuthorizationHeader :: "goerr + string \<Rightarrow> call_metadata \<Rightarrow> (call_metadata \<Rightarrow> goerr + 'a) \<Rightarrow> goerr + 'a" where
  "addAuthorizationHeader getToken md invoker =
     (case getToken of
        Inl err \<Rightarrow> Inl err
      | Inr token \<Rightarrow> invoker (AppendToOutgoingContext md authorizationKey (bearerPrefix @ token)))"

definition parseToken :: "string \<Rightarrow> string" where
  "parseToken authHeader =
     (if strings_HasPrefix authHeader bearerPrefix then drop (length bearerPrefix) authHeader else authHeader)"

definition validateBearerToken :: "denv \<Rightarrow> string \<Rightarrow> (goerr + bool) sprog" where
  "validateBearerToken d token = do {
     result \<leftarrow> scall (\<lambda>h. d_tokenReview d h (parseToken token)) (TokenReview (parseToken token));
     sret (case result of
        Inl err \<Rightarrow> Inl (ErrWrap ''failed to review token '' err [])
      | Inr authenticated \<Rightarrow> Inr authenticated)
   }"

definition authorizeConnection :: "denv \<Rightarrow> call_metadata option \<Rightarrow> goerr option sprog" where
  "authorizeConnection d md =
     (case md of
        None \<Rightarrow> sret (Some (GrpcStatus C_Unauthenticated ''missing metadata''))
      | Some md \<Rightarrow>
          (case map_of md authorizationKey of
             None \<Rightarrow> sret (Some (GrpcStatus C_Unauthenticated ''missing authorization token''))
           | Some [] \<Rightarrow> sret (Some (GrpcStatus C_Unauthenticated ''missing authorization token''))
           | Some (token # _) \<Rightarrow> do {
               isValidated \<leftarrow> validateBearerToken d token;
               sret (case isValidated of
                  Inl err \<Rightarrow> Some err
                | Inr ok \<Rightarrow> if \<not> ok then Some (GrpcStatus C_Unauthenticated ''invalid token'') else None)
             }))"

definition AuthorizationInterceptor :: "denv \<Rightarrow> call_metadata option \<Rightarrow> (goerr + 'a) sprog \<Rightarrow> (goerr + 'a) sprog" where
  "AuthorizationInterceptor d md handler = do {
     err \<leftarrow> authorizeConnection d md;
     (case err of Some er \<Rightarrow> sret (Inl er) | None \<Rightarrow> handler)
   }"

section \<open>server.go\<close>

datatype sidecar_service =
  IdentityServer | ReclaimSpaceServer string | NetworkFenceServer | ReplicationServer | EncryptionKeyRotationServer | VolumeGroupServer

record sidecar_server =
  ss_scheme :: string
  ss_endpoint :: string
  ss_services :: "sidecar_service list"
  ss_enableAuthChecks :: bool

definition NewSidecarServer :: "string \<Rightarrow> string \<Rightarrow> bool \<Rightarrow> sidecar_server" where
  "NewSidecarServer ip port enableAuthChecks =
     \<lparr>ss_scheme = ''tcp'', ss_endpoint = ip @ '':'' @ port, ss_services = [], ss_enableAuthChecks = enableAuthChecks\<rparr>"

definition RegisterService :: "sidecar_service \<Rightarrow> sidecar_server \<Rightarrow> sidecar_server" where
  "RegisterService svc ss = ss\<lparr>ss_services := ss_services ss @ [svc]\<rparr>"

text \<open>What the started server does with one request for a handler of a registered service.\<close>

definition serve_request :: "denv \<Rightarrow> sidecar_server \<Rightarrow> call_metadata option \<Rightarrow> (goerr + 'a) sprog \<Rightarrow> (goerr + 'a) sprog" where
  "serve_request d ss md handler =
     (if ss_enableAuthChecks ss then AuthorizationInterceptor d md handler else handler)"

section \<open>The lease of the leader election\<close>

record leader_election =
  le_lockName :: string
  le_identity :: string
  le_namespace :: string
  le_leaseDuration :: duration
  le_renewDeadline :: duration
  le_retryPeriod :: duration

definition NewLeaderElection :: "string \<Rightarrow> leader_election" where
  "NewLeaderElection lockName = \<lparr>le_lockName = lockName, le_identity = [], le_namespace = [], le_leaseDuration = 15 * second,
     le_renewDeadline = 10 * second, le_retryPeriod = 5 * second\<rparr>"

text \<open>The host of the process: its name, its variable \<open>POD_NAMESPACE\<close> and its namespace file.\<close>

record host =
  ho_name :: "goerr + string"
  ho_podNamespace :: string
  ho_namespaceFile :: "goerr + string"

definition inClusterNamespace :: "host \<Rightarrow> string" where
  "inClusterNamespace ho =
     (if ho_podNamespace ho \<noteq> [] then ho_podNamespace ho
      else
        (case ho_namespaceFile ho of
           Inl _ \<Rightarrow> ''default''
         | Inr data \<Rightarrow> if strings_TrimSpace data \<noteq> [] then strings_TrimSpace data else ''default''))"

text \<open>\<open>sanitizeName\<close> of the vendored package, with \<open>None\<close> for the panic on the empty name.\<close>

definition sanitizeName :: "string \<Rightarrow> string option" where
  "sanitizeName name =
     (let name = map (\<lambda>c. if lease_char c then c else CHR ''-'') name
      in if name = [] then None
         else Some (if last name = CHR ''-'' then name @ ''X'' else name))"

text \<open>The lease that \<open>Run\<close> competes for, and the identity it writes into it as its holder.\<close>

definition election_lock :: "host \<Rightarrow> leader_election \<Rightarrow> (nsname \<times> string) gores" where
  "election_lock ho l =
     (case (if le_identity l = [] then ho_name ho else Inr (le_identity l)) of
        Inl err \<Rightarrow> GoErr (ErrMsg (''error getting the default leader identity: '' @ Error err))
      | Inr identity \<Rightarrow>
          (let namespace = (if le_namespace l = [] then inClusterNamespace ho else le_namespace l)
           in case (sanitizeName identity, sanitizeName (le_lockName l)) of
                (Some holder, Some name) \<Rightarrow> GoOk (\<lparr>nn_namespace = namespace, nn_name = name\<rparr>, holder)
              | _ \<Rightarrow> GoPanic ''index out of range [-1]''))"

section \<open>main.go\<close>

record sidecar_flags =
  sf_timeout :: duration
  sf_csiAddonsAddress :: string
  sf_nodeID :: string
  sf_stagingPath :: string
  sf_controllerPort :: string
  sf_controllerIP :: string
  sf_podName :: string
  sf_podNamespace :: string
  sf_podUID :: string
  sf_showVersion :: bool
  sf_leNamespace :: string
  sf_leLeaseDuration :: duration
  sf_leRenewDeadline :: duration
  sf_leRetryPeriod :: duration
  sf_enableAuthChecks :: bool
  sf_enableVolumeCondition :: bool
  sf_volumeConditionInterval :: duration
  sf_volumeConditionRecorders :: string

definition default_flags :: sidecar_flags where
  "default_flags = \<lparr>sf_timeout = minute * 3, sf_csiAddonsAddress = ''/run/csi-addons/socket'', sf_nodeID = [],
     sf_stagingPath = ''/var/lib/kubelet/plugins/kubernetes.io/csi/'', sf_controllerPort = [], sf_controllerIP = [], sf_podName = [],
     sf_podNamespace = [], sf_podUID = [], sf_showVersion = False, sf_leNamespace = [], sf_leLeaseDuration = 15 * second,
     sf_leRenewDeadline = 10 * second, sf_leRetryPeriod = 5 * second, sf_enableAuthChecks = True, sf_enableVolumeCondition = False,
     sf_volumeConditionInterval = 1 * minute, sf_volumeConditionRecorders = ''log,pvcEvent''\<rparr>"

datatype recorder = LogRecorder | EventRecorder

text \<open>The recorders that are asked for; \<open>Inl\<close> is the message the process ends with.\<close>

fun recorder_options :: "string list \<Rightarrow> string + recorder list" where
  "recorder_options [] = Inr []"
| "recorder_options (vcr # vcrs) =
     (if vcr = ''log'' then map_sum id ((#) LogRecorder) (recorder_options vcrs)
      else if vcr = ''pvcEvent'' then map_sum id ((#) EventRecorder) (recorder_options vcrs)
      else Inl (''condition recorder '' @ fmt_q vcr @ '' is unknown''))"

definition sidecar_services :: "sidecar_flags \<Rightarrow> sidecar_server" where
  "sidecar_services f =
     fold RegisterService
       [IdentityServer, ReclaimSpaceServer (sf_stagingPath f), NetworkFenceServer, ReplicationServer, EncryptionKeyRotationServer, VolumeGroupServer]
       (NewSidecarServer (sf_controllerIP f) (sf_controllerPort f) (sf_enableAuthChecks f))"

definition sidecar_election :: "sidecar_flags \<Rightarrow> string \<Rightarrow> leader_election" where
  "sidecar_election f leaseName =
     (let le = NewLeaderElection leaseName;
          le = (if sf_podName f \<noteq> [] then le\<lparr>le_identity := sf_podName f\<rparr> else le);
          le = (if sf_leNamespace f \<noteq> [] then le\<lparr>le_namespace := sf_leNamespace f\<rparr> else le)
      in le\<lparr>le_leaseDuration := sf_leLeaseDuration f, le_renewDeadline := sf_leRenewDeadline f, le_retryPeriod := sf_leRetryPeriod f\<rparr>)"

text \<open>
  What runs after the start: the registration (with its manager), the reporter of volume conditions when it
  is enabled (with its driver and recorders), the server, and the leader election of a controller. The
  registration and the reporter run beside the rest and end the process with a message of their own.
\<close>

record sidecar =
  sc_manager :: node_manager
  sc_reporter :: "(string + (string \<times> recorder list)) option"
  sc_server :: sidecar_server
  sc_election :: "leader_election option"

datatype start = PrintVersion | Fatalf string | StartPanic string | Started sidecar

definition start_reporter :: "denv \<Rightarrow> sidecar_flags \<Rightarrow> (string + (string \<times> recorder list)) option sprog" where
  "start_reporter d f =
     (if \<not> sf_enableVolumeCondition f then sret None
      else do {
        driver \<leftarrow> GetDriverName d;
        sret (Some (case driver of
           Inl err \<Rightarrow> Inl (''failed to get the drivername from the CSI-plugin: '' @ Error err)
         | Inr driver \<Rightarrow>
             (case recorder_options (strings_Split (sf_volumeConditionRecorders f) (CHR '','')) of
                Inl msg \<Rightarrow> Inl msg
              | Inr options \<Rightarrow> Inr (driver, options))))
      })"

definition start_server :: "denv \<Rightarrow> sidecar_flags \<Rightarrow> node_manager \<Rightarrow> (string + (string \<times> recorder list)) option \<Rightarrow> start sprog" where
  "start_server d f mgr reporter = do {
     isController \<leftarrow> client_HasControllerService d;
     (case isController of
        Inl err \<Rightarrow> sret (Fatalf (''Failed to check if the CSI-plugin supports CONTROLLER_SERVICE: '' @ Error err))
      | Inr False \<Rightarrow>
          sret (Started \<lparr>sc_manager = mgr, sc_reporter = reporter, sc_server = sidecar_services f, sc_election = None\<rparr>)
      | Inr True \<Rightarrow> do {
          driver \<leftarrow> GetDriverName d;
          sret (case driver of
             Inl err \<Rightarrow> Fatalf (''Failed to get the drivername from the CSI-plugin: '' @ Error err)
           | Inr driver \<Rightarrow>
               (case NormalizeLeaseName driver of
                  None \<Rightarrow> StartPanic ''index out of range [-1]''
                | Some n \<Rightarrow>
                    Started \<lparr>sc_manager = mgr, sc_reporter = reporter, sc_server = sidecar_services f,
                      sc_election = Some (sidecar_election f (n @ ''-csi-addons''))\<rparr>))
        })
   }"

text \<open>The clients of driver and cluster are made by library calls, whose errors are parameters.\<close>

record start_env =
  st_parseIP :: "string \<Rightarrow> (bool \<times> string) option"
  st_connect :: "string \<Rightarrow> goerr option"
  st_config :: "goerr option"
  st_kubeClient :: "goerr option"

definition sidecar_main :: "nat \<Rightarrow> start_env \<Rightarrow> denv \<Rightarrow> sidecar_flags \<Rightarrow> start option sprog" where
  "sidecar_main fuel t d f =
     (if sf_showVersion f then sret (Some PrintVersion)
      else
        (case BuildEndpointURL (st_parseIP t) (sf_controllerIP f) (sf_controllerPort f) (sf_podName f) (sf_podNamespace f) of
           Inl err \<Rightarrow> sret (Some (Fatalf (''Failed to validate controller endpoint: '' @ Error err)))
         | Inr controllerEndpoint \<Rightarrow>
             (case st_connect t (sf_csiAddonsAddress f) of
                Some err \<Rightarrow> sret (Some (Fatalf (''Failed to connect to '' @ fmt_q (sf_csiAddonsAddress f) @ '' : '' @ Error err)))
              | None \<Rightarrow> do {
                  probed \<leftarrow> Probe fuel d;
                  (case probed of
                     None \<Rightarrow> sret None
                   | Some (Some err) \<Rightarrow> sret (Some (Fatalf (''Failed to probe driver: '' @ Error err)))
                   | Some None \<Rightarrow>
                       (case (st_config t, st_kubeClient t) of
                          (Some err, _) \<Rightarrow> sret (Some (Fatalf (''Failed to get cluster config: '' @ Error err)))
                        | (None, Some err) \<Rightarrow> sret (Some (Fatalf (''Failed to create client: '' @ Error err)))
                        | (None, None) \<Rightarrow> do {
                            let nodeMgr = \<lparr>nm_Node = sf_nodeID f, nm_Endpoint = controllerEndpoint, nm_PodName = sf_podName f,
                                nm_PodNamespace = sf_podNamespace f, nm_PodUID = sf_podUID f\<rparr>;
                            reporter \<leftarrow> start_reporter d f;
                            st \<leftarrow> start_server d f nodeMgr reporter;
                            sret (Some st)
                          }))
                })))"

end
