(* ===== verification/Props_Start.thy ===== *)
theory Props_Start
  imports Sidecar_Start Props_Register Props_Node Props_Sidecar
begin

text \<open>
  Properties of a started sidecar: no request reaches the driver without an authenticated token, and the
  sidecar that holds the lease is the one the operator finds as the leader of the driver.
\<close>

section \<open>Authentication\<close>

text \<open>The review of the token a request carries, if it carries one.\<close>

definition reviewed :: "denv \<Rightarrow> drv_event list \<Rightarrow> call_metadata option \<Rightarrow> string \<Rightarrow> bool" where
  "reviewed d h md t \<longleftrightarrow> (\<exists>m vs. md = Some m \<and> map_of m ''authorization'' = Some (t # vs) \<and> d_tokenReview d h (parseToken t) = Inr True)"

lemma parseToken_bearer [simp]: "parseToken (''Bearer '' @ token) = token"
  by (simp add: parseToken_def strings_HasPrefix_def)

lemma run_authorized:
  assumes "reviewed d h md t"
  shows "run_state (AuthorizationInterceptor d md handler) h = run_state handler (h @ [TokenReview (parseToken t)])"
  using assms
  by (auto simp: reviewed_def AuthorizationInterceptor_def authorizeConnection_def validateBearerToken_def run_defs)

lemma run_unauthorized:
  assumes "\<And>t. \<not> reviewed d h md t" "run_state (AuthorizationInterceptor d md handler) h = (r, h')"
  shows "(\<exists>err. r = Inl err) \<and> (\<exists>ts. h' = h @ map TokenReview ts)"
  using assms
  by (cases md)
    (auto simp: reviewed_def AuthorizationInterceptor_def authorizeConnection_def validateBearerToken_def run_defs
      split: option.splits list.splits sum.splits if_splits intro: exI [of _ "[]"] exI [of _ "[_]"])

text \<open>C8: with authentication enabled, as it is by default, a request has no effect but token reviews and gets an
  error unless the API server authenticates the token it carries; then the handler of the service runs.
  A request of the operator, whose interceptor adds the token of its service account, is reviewed with
  exactly this token.\<close>

theorem requests_authenticated:
  assumes "sf_enableAuthChecks f"
  shows "(\<forall>md h r h'. run_state (serve_request d (sidecar_services f) md handler) h = (r, h') \<longrightarrow>
       (\<exists>t. reviewed d h md t \<and> run_state handler (h @ [TokenReview (parseToken t)]) = (r, h')) \<or>
       (\<forall>t. \<not> reviewed d h md t) \<and> (\<exists>err. r = Inl err) \<and> (\<exists>ts. h' = h @ map TokenReview ts)) \<and>
    (\<forall>token h. d_tokenReview d h token = Inr True \<longrightarrow>
       addAuthorizationHeader (Inr token) [] (\<lambda>md. fst (run_state (serve_request d (sidecar_services f) (Some md) handler) h)) =
         fst (run_state handler (h @ [TokenReview token])))"
proof -
  have auth: "ss_enableAuthChecks (sidecar_services f)"
    using assms by (simp add: sidecar_services_def NewSidecarServer_def RegisterService_def)
  have "addAuthorizationHeader (Inr token) [] (\<lambda>md. fst (run_state (serve_request d (sidecar_services f) (Some md) handler) h)) =
      fst (run_state handler (h @ [TokenReview token]))" if "d_tokenReview d h token = Inr True" for token h
  proof -
    let ?md = "AppendToOutgoingContext [] ''authorization'' (''Bearer '' @ token)"
    have "reviewed d h (Some ?md) (''Bearer '' @ token)"
      using that parseToken_bearer [of token] by (simp add: reviewed_def AppendToOutgoingContext_def)
    from run_authorized [OF this, of handler] auth parseToken_bearer [of token] show ?thesis
      by (simp add: addAuthorizationHeader_def serve_request_def)
  qed
  moreover have "(\<exists>t. reviewed d h md t \<and> run_state handler (h @ [TokenReview (parseToken t)]) = (r, h')) \<or>
      (\<forall>t. \<not> reviewed d h md t) \<and> (\<exists>err. r = Inl err) \<and> (\<exists>ts. h' = h @ map TokenReview ts)"
    if "run_state (serve_request d (sidecar_services f) md handler) h = (r, h')" for md h r h'
    using that auth run_authorized [of d h md _ handler] run_unauthorized [of d h md handler r h']
    by (auto simp: serve_request_def)
  ultimately show ?thesis by blast
qed

theorem requests_authenticated_witness:
  "addAuthorizationHeader (Inr ''secret'') []
     (\<lambda>md. fst (run_state (serve_request sx_denv (sidecar_services default_flags) (Some md) (srv_Identity sx_denv ''Probe'')) [])) = Inr ''Probe''"
proof -
  have "sf_enableAuthChecks default_flags" by (simp add: default_flags_def)
  moreover have "d_tokenReview sx_denv [] ''secret'' = Inr True" by (simp add: sx_denv_def)
  moreover have "fst (run_state (srv_Identity sx_denv ''Probe'') h) = Inr ''Probe''" for h
    by (simp add: srv_Identity_def run_defs sx_denv_def)
  ultimately show ?thesis
    using requests_authenticated [of default_flags sx_denv "srv_Identity sx_denv ''Probe''"] by simp
qed

section \<open>The leader of a driver\<close>

text \<open>The function the sidecar's library applies to names is the one the operator applies.\<close>

lemma sanitizeName_eq: "sanitizeName = NormalizeLeaseName"
  by (rule ext) (simp add: sanitizeName_def NormalizeLeaseName_def Let_def)

lemma lease_name_kept:
  assumes "NormalizeLeaseName d = Some n"
  shows "sanitizeName (n @ ''-csi-addons'') = Some (n @ ''-csi-addons'')"
proof -
  have "list_all lease_char ''-csi-addons''" by code_simp
  then show ?thesis
    unfolding sanitizeName_eq using NormalizeLeaseName_ok [OF assms] by (intro NormalizeLeaseName_id) simp_all
qed

lemma sidecar_mainE:
  assumes "run_state (sidecar_main fuel t d f) h = (Some (Started sc), h')" "\<forall>h. d_name d h () = Inr drv"
  obtains ep where "BuildEndpointURL (st_parseIP t) (sf_controllerIP f) (sf_controllerPort f) (sf_podName f) (sf_podNamespace f) = Inr ep"
    "sc_manager sc = \<lparr>nm_Node = sf_nodeID f, nm_Endpoint = ep, nm_PodName = sf_podName f, nm_PodNamespace = sf_podNamespace f, nm_PodUID = sf_podUID f\<rparr>"
    "sc_server sc = sidecar_services f"
    "\<And>le. sc_election sc = Some le \<Longrightarrow> \<exists>n. NormalizeLeaseName drv = Some n \<and> le = sidecar_election f (n @ ''-csi-addons'')"
proof -
  have server: "sc_manager sc = mgr \<and> sc_server sc = sidecar_services f \<and>
      (\<forall>le. sc_election sc = Some le \<longrightarrow> (\<exists>n. NormalizeLeaseName drv = Some n \<and> le = sidecar_election f (n @ ''-csi-addons'')))"
    if "run_state (start_server d f mgr reporter) h1 = (Started sc, h2)" for mgr reporter h1 h2
    using that assms(2)
    by (auto simp: start_server_def client_HasControllerService_def GetDriverName_def run_defs split: sum.splits bool.splits if_splits option.splits)
  obtain ep where ep: "BuildEndpointURL (st_parseIP t) (sf_controllerIP f) (sf_controllerPort f) (sf_podName f) (sf_podNamespace f) = Inr ep"
    using assms(1) by (auto simp: sidecar_main_def split: if_splits sum.splits)
  obtain reporter h1 h2 where "run_state (start_server d f \<lparr>nm_Node = sf_nodeID f, nm_Endpoint = ep, nm_PodName = sf_podName f,
      nm_PodNamespace = sf_podNamespace f, nm_PodUID = sf_podUID f\<rparr> reporter) h1 = (Started sc, h2)"
    using assms(1) ep
    by (auto simp: sidecar_main_def Let_def split: if_splits sum.splits option.splits prod.splits elim!: run_bindE)
  from server [OF this] ep that show thesis by blast
qed

lemma findNamespace_SomeD: "findNamespace p d = Some ns \<Longrightarrow> \<exists>k c. (k, c) \<in> set p \<and> cn_DriverName c = d \<and> cn_Namespace c = ns"
  by (induction p d rule: findNamespace.induct) (auto split: if_splits)

lemma leader_of_lease:
  assumes "map_of (pool w) (ns @ ''/'' @ holder) = Some c" "cn_DriverName c = d" "NormalizeLeaseName d = Some n" "holder \<noteq> []"
    and "\<forall>k c. (k, c) \<in> set (pool w) \<and> cn_DriverName c = d \<longrightarrow> cn_Namespace c = ns"
    and "\<forall>h. e_getLease e h \<lparr>nn_namespace = ns, nn_name = n @ ''-csi-addons''\<rparr> = Inr \<lparr>ls_namespace = ns, ls_holderIdentity = Some holder\<rparr>"
    and "cn_Client c \<noteq> None" "\<forall>h cl. \<not> e_isShutdown e h cl"
  shows "fst (run_state (GetLeaderByDriver e d) w) = GoOk c"
proof -
  obtain cl where cl: "cn_Client c = Some cl" using assms(7) by auto
  have "findNamespace (pool w) d \<noteq> None"
    using map_of_SomeD [OF assms(1)] assms(2) findNamespace_None [of "pool w" d] by force
  then have "findNamespace (pool w) d = Some ns"
    using findNamespace_SomeD [of "pool w" d] assms(5) by auto
  with assms cl show ?thesis
    by (auto simp: GetLeaderByDriver_def getNamespaceByDriverName_def Get_Lease_def Connect_entry_def Connect_reuse
        run_defs Let_def split: prod.splits)
qed

text \<open>The operator's object is the one the sidecar registered, possibly with a status and finalizers.\<close>

definition same_node :: "csiaddons_node \<Rightarrow> csiaddons_node \<Rightarrow> bool" where
  "same_node n node \<longleftrightarrow> can_driverName n = can_driverName node \<and> can_endPoint n = can_endPoint node \<and>
     can_nodeID n = can_nodeID node \<and> om_namespace (can_meta n) = om_namespace (can_meta node)"

text \<open>C7: operator and sidecars agree on who leads. When a sidecar has started with leader election, registered its
  object and holds the lease it competes for, and the operator has connected to that object, then the
  operator's lookup of the leader of the driver returns the live connection to this sidecar: the name of
  the lease, its namespace, the identity of the holder and the key of the connection, which are computed
  in four different places, fit together. The namespace of the lease is that of the pod and the sidecars
  of the driver run in one namespace.\<close>

theorem elected_sidecar_is_leader:
  assumes "run_state (sidecar_main fuel t d f) h = (Some (Started sc), h')" "\<forall>h. d_name d h () = Inr drv"
    and "sc_election sc = Some le" "election_lock ho le = GoOk (nn, holder)" "nn_namespace nn = sf_podNamespace f"
    and "run_state (getCSIAddonsNode v (sc_manager sc)) wr = (Inr node, wr')" "can_driverName node = drv"
    and "sf_controllerIP f = []" "list_all dns_char (sf_podName f)" "list_all dns_char (sf_podNamespace f)" "CHR ''.'' \<notin> set (sf_podNamespace f)"
    and "run_state (Node_Reconcile e a r req) w = (out, w')" "a_getNode a (trace w) req = Inr n" "same_node n node"
    and "appended w w' i (ApiStatusUpdate (O_Node m))" "can_state m = NodeConnected"
    and "\<forall>k c. (k, c) \<in> set (pool w') \<and> cn_DriverName c = drv \<longrightarrow> cn_Namespace c = sf_podNamespace f"
    and "\<forall>h. e_getLease e h nn = Inr \<lparr>ls_namespace = nn_namespace nn, ls_holderIdentity = Some holder\<rparr>" "\<forall>h cl. \<not> e_isShutdown e h cl"
  shows "\<exists>c. fst (run_state (GetLeaderByDriver e drv) w') = GoOk c \<and> cn_Client c \<noteq> None \<and> cn_DriverName c = drv \<and> cn_NodeID c = sf_nodeID f"
proof -
  obtain ep where ep: "BuildEndpointURL (st_parseIP t) (sf_controllerIP f) (sf_controllerPort f) (sf_podName f) (sf_podNamespace f) = Inr ep"
      "sc_manager sc = \<lparr>nm_Node = sf_nodeID f, nm_Endpoint = ep, nm_PodName = sf_podName f, nm_PodNamespace = sf_podNamespace f, nm_PodUID = sf_podUID f\<rparr>"
      and "\<exists>n. NormalizeLeaseName drv = Some n \<and> le = sidecar_election f (n @ ''-csi-addons'')"
    using sidecar_mainE [OF assms(1,2)] assms(3) by metis
  then obtain l where l: "NormalizeLeaseName drv = Some l" "le = sidecar_election f (l @ ''-csi-addons'')" by blast
  obtain port where port: "sf_podName f \<noteq> []" "parseEndpoint (can_endPoint node) = Inr (sf_podNamespace f, sf_podName f, nat_digits port)"
      "om_namespace (can_meta node) = sf_podNamespace f" "can_nodeID node = sf_nodeID f"
    using registered_endpoint [OF assms(6), of "st_parseIP t" "sf_controllerPort f"] ep assms(8-11) by auto
  have "le_identity le = sf_podName f" "le_lockName le = l @ ''-csi-addons''"
    using port(1) by (simp_all add: l(2) sidecar_election_def NewLeaderElection_def Let_def)
  then have lock: "nn_name nn = l @ ''-csi-addons''" "NormalizeLeaseName (sf_podName f) = Some holder"
    using assms(4) lease_name_kept [OF l(1)] port(1)
    by (auto simp: election_lock_def Let_def sanitizeName_eq split: option.splits)
  then have nn: "nn = \<lparr>nn_namespace = sf_podNamespace f, nn_name = l @ ''-csi-addons''\<rparr>" using assms(5) by simp
  obtain c where c: "map_of (pool w') (sf_podNamespace f @ ''/'' @ holder) = Some c" "cn_Client c \<noteq> None" "cn_DriverName c = drv" "cn_NodeID c = sf_nodeID f"
    by (rule connected_pool [OF assms(12,15,16)]) (use assms(7,13,14) port lock(2) in \<open>auto simp: same_node_def\<close>)
  have "holder \<noteq> []" using NormalizeLeaseName_ok [OF lock(2)] by simp
  from leader_of_lease [OF c(1,3) l(1) this assms(17) _ c(2) assms(19)] assms(18) c show ?thesis
    unfolding nn by auto
qed

text \<open>The sidecar in the pod \<open>pod\<close> of the namespace \<open>dns\<close>, to which the operator connects.\<close>

definition lx_flags :: sidecar_flags where
  "lx_flags = default_flags\<lparr>sf_nodeID := ''n1'', sf_controllerPort := ''99'', sf_podName := ''pod'', sf_podNamespace := ''dns'', sf_podUID := ''u''\<rparr>"

definition lx_start :: start_env where
  "lx_start = \<lparr>st_parseIP = (\<lambda>_. None), st_connect = (\<lambda>_. None), st_config = None, st_kubeClient = None\<rparr>"

definition lx_host :: host where
  "lx_host = \<lparr>ho_name = Inr ''h'', ho_podNamespace = [], ho_namespaceFile = Inr ''dns''\<rparr>"

definition lx_sidecar :: sidecar where
  "lx_sidecar = \<lparr>sc_manager = \<lparr>nm_Node = ''n1'', nm_Endpoint = ''pod://pod.dns:99'', nm_PodName = ''pod'', nm_PodNamespace = ''dns'', nm_PodUID = ''u''\<rparr>,
     sc_reporter = None, sc_server = sidecar_services lx_flags, sc_election = Some (sidecar_election lx_flags ''drv-csi-addons'')\<rparr>"

definition lx_node :: csiaddons_node where
  "lx_node = new_node ''n1-dns-daemonset-plugin'' ''dns'' [rg_owner] ''drv'' ''pod://pod.dns:99'' ''n1''"

lemma lx_main: "fst (run_state (sidecar_main 1 lx_start sx_denv lx_flags) []) = Some (Started lx_sidecar)"
proof -
  have "BuildEndpointURL (\<lambda>_. None) [] ''99'' ''pod'' ''dns'' = Inr ''pod://pod.dns:99''"
    by (simp add: BuildEndpointURL_def parsePort_def is_digit_def nat_digits.simps, code_simp)
  moreover have "NormalizeLeaseName ''drv'' = Some ''drv''" by code_simp
  ultimately show ?thesis
    by (simp add: sidecar_main_def lx_start_def lx_flags_def default_flags_def lx_sidecar_def start_reporter_def start_server_def
        client_HasControllerService_def GetDriverName_def probeOnce_def sx_denv_def run_defs Let_def)
qed

lemma lx_registered: "fst (run_state (getCSIAddonsNode rg_env (sc_manager lx_sidecar)) rg_world) = Inr lx_node"
proof -
  have "generateName rg_env ''n1'' ''dns'' ''DaemonSet'' ''plugin'' = Inr ''n1-dns-daemonset-plugin''"
    by (simp add: generateName_def strings_ToLower_def to_lower_def Let_def) code_simp
  then show ?thesis
    by (simp add: getCSIAddonsNode_def mgr_missing_def lx_sidecar_def rg_env_def rg_world_def rg_owner_def lx_node_def run_defs
        Get_Owners_def node_owner_def node_object_def)
qed

theorem elected_sidecar_is_leader_witness:
  "\<exists>c. fst (run_state (GetLeaderByDriver nx_env ''drv'') (snd (run_state (Node_Reconcile nx_env nx_aenv nx_rec nx_req) nx_world))) = GoOk c \<and>
     cn_NodeID c = ''n1''"
proof -
  let ?w = "snd (run_state (Node_Reconcile nx_env nx_aenv nx_rec nx_req) nx_world)"
  let ?nn = "\<lparr>nn_namespace = ''dns'', nn_name = ''drv-csi-addons''\<rparr>"
  let ?le = "sidecar_election lx_flags ''drv-csi-addons''"
  have main: "run_state (sidecar_main 1 lx_start sx_denv lx_flags) [] =
      (Some (Started lx_sidecar), snd (run_state (sidecar_main 1 lx_start sx_denv lx_flags) []))"
    using lx_main by (metis prod.collapse)
  have reg: "run_state (getCSIAddonsNode rg_env (sc_manager lx_sidecar)) rg_world =
      (Inr lx_node, snd (run_state (getCSIAddonsNode rg_env (sc_manager lx_sidecar)) rg_world))"
    using lx_registered by (metis prod.collapse)
  have drv: "\<forall>h. d_name sx_denv h () = Inr ''drv''" by (simp add: sx_denv_def)
  have le: "sc_election lx_sidecar = Some ?le" by (simp add: lx_sidecar_def)
  have lock: "election_lock lx_host ?le = GoOk (?nn, ''pod'')" by code_simp
  have ns: "nn_namespace ?nn = sf_podNamespace lx_flags" by (simp add: lx_flags_def)
  have node: "can_driverName lx_node = ''drv''" "a_getNode nx_aenv (trace nx_world) nx_req = Inr nx_node" "same_node nx_node lx_node"
    by (simp_all add: lx_node_def new_node_def nx_aenv_def same_node_def nx_node_def empty_meta_def)
  have pd: "sf_controllerIP lx_flags = []" "list_all dns_char (sf_podName lx_flags)" "list_all dns_char (sf_podNamespace lx_flags)"
      "CHR ''.'' \<notin> set (sf_podNamespace lx_flags)"
    by code_simp+
  have rep: "appended nx_world ?w 4 (ApiStatusUpdate (O_Node nx_connected))" "can_state nx_connected = NodeConnected"
    unfolding appended_def nx_run by (simp_all add: nx_world_def nx_connected_def node_connected_def)
  have "map (\<lambda>(k, c). cn_Namespace c) (pool ?w) = [''dns'']" by code_simp
  then have "\<forall>k c. (k, c) \<in> set (pool ?w) \<and> cn_DriverName c = ''drv'' \<longrightarrow> cn_Namespace c = sf_podNamespace lx_flags"
    by (auto simp: lx_flags_def)
  moreover have "\<forall>h. e_getLease nx_env h ?nn = Inr \<lparr>ls_namespace = nn_namespace ?nn, ls_holderIdentity = Some ''pod''\<rparr>"
      "\<forall>h cl. \<not> e_isShutdown nx_env h cl"
    by (simp_all add: nx_env_def)
  ultimately obtain c where "fst (run_state (GetLeaderByDriver nx_env ''drv'') ?w) = GoOk c" "cn_NodeID c = sf_nodeID lx_flags"
    using elected_sidecar_is_leader [OF main drv le lock ns reg node(1) pd prod.collapse [symmetric] node(2,3) rep] by blast
  then show ?thesis by (auto simp: lx_flags_def)
qed

end
