(* ===== verification/Volume_Condition.thy ===== *)
theory Volume_Condition
  imports Sidecar_Start
begin

text \<open>
  The reporter of volume conditions, \<open>sidecar/internal/volume-condition\<close>: at every tick it lists the volumes
  attached to its node, asks the driver for the condition of each of its own, and records the conditions
  that have changed. Its only state is the cache of the last condition of each volume. The trace holds
  each exchange with its answer; \<open>venv\<close> gives the answers of node, file system, driver and API server.
\<close>

section \<open>volume/condition.go, volume/volume.go\<close>

record volume_condition =
  vc_healthy :: bool
  vc_message :: string

definition GetReason :: "volume_condition \<Rightarrow> string" where
  "GetReason vc = (if vc_healthy vc then ''VolumeConditionHealthy'' else ''VolumeConditionAbnormal'')"

record csi_vol =
  vol_drivername :: string
  vol_volumeID :: string

definition NewCSIVolume :: "string \<Rightarrow> string \<Rightarrow> csi_vol" where
  "NewCSIVolume drivername volumeID = \<lparr>vol_drivername = drivername, vol_volumeID = volumeID\<rparr>"

section \<open>The environment\<close>

text \<open>The answer to a request for the statistics of a volume: whether it is abnormal and why, if it tells.\<close>

type_synonym stats_answer = "goerr + (bool \<times> string) option"

datatype severity = EventTypeNormal | EventTypeWarning

text \<open>A log line is its format and its arguments.\<close>

datatype vevent =
  VGetNode string
| VListMounts
| VGlob string
| VReadFile string
| VPluginInfo string
| VNodeCapabilities
| VStats string string stats_answer
| VGetPV string
| VGetPVC nsname
| VInfof string "string list"
| VWarningf string "string list"
| VEvent nsname severity string string

record vol_data =
  vd_Driver :: string
  vd_PersistentVolumeName :: string
  vd_VolumeID :: string

text \<open>The persistent volume with the claim it is bound to.\<close>

record claimed_pv =
  cpv_name :: string
  cpv_claimRef :: "nsname option"

datatype node_rpc = RPC_VOLUME_CONDITION | RPC_STAGE_UNSTAGE_VOLUME | RPC_OTHER

type_synonym ('q, 'a) vanswer = "vevent list \<Rightarrow> 'q \<Rightarrow> goerr + 'a"

text \<open>\<open>v_readFile\<close> gives the decoded content of a file, or the error of decoding it.\<close>

record venv =
  v_getNode :: "(string, string list) vanswer"
  v_mounts :: "(unit, string list) vanswer"
  v_glob :: "(string, string list) vanswer"
  v_readFile :: "(string, goerr + vol_data) vanswer"
  v_newClient :: "string \<Rightarrow> goerr option"
  v_pluginInfo :: "(string, string) vanswer"
  v_nodeCapabilities :: "(unit, node_rpc list) vanswer"
  v_stats :: "(string \<times> string, (bool \<times> string) option) vanswer"
  v_getPV :: "(string, claimed_pv) vanswer"
  v_getPVC :: "(nsname, unit) vanswer"
  v_sha256hex :: "string \<Rightarrow> string"
  v_fmtDuration :: "duration \<Rightarrow> string"

text \<open>Interface values in the cache may be nil.\<close>

record vworld =
  vtrace :: "vevent list"
  conditionCache :: "(string \<times> volume_condition option) list"

type_synonym 'a vprog = "(vworld, 'a) state"

definition vcall :: "(vevent list \<Rightarrow> 'a) \<Rightarrow> ('a \<Rightarrow> vevent) \<Rightarrow> 'a vprog" where
  "vcall ans ev = State (\<lambda>w. (ans (vtrace w), w\<lparr>vtrace := vtrace w @ [ev (ans (vtrace w))]\<rparr>))"

definition vemit :: "vevent \<Rightarrow> unit vprog" where
  "vemit ev = vcall (\<lambda>_. ()) (\<lambda>_. ev)"

abbreviation vret :: "'a \<Rightarrow> 'a vprog" where
  "vret \<equiv> State_Monad.return"

lemma run_vcall [run_defs]: "run_state (vcall ans ev) w = (ans (vtrace w), w\<lparr>vtrace := vtrace w @ [ev (ans (vtrace w))]\<rparr>)"
  by (simp add: vcall_def)

lemma run_vemit [run_defs]: "run_state (vemit ev) w = ((), w\<lparr>vtrace := vtrace w @ [ev]\<rparr>)"
  by (simp add: vemit_def run_defs)

section \<open>node/node.go\<close>

definition strings_CutPrefix :: "string \<Rightarrow> string \<Rightarrow> string \<times> bool" where
  "strings_CutPrefix s p = (if strings_HasPrefix s p then (drop (length p) s, True) else (s, False))"

abbreviation (input) csiDriverPrefix :: string where "csiDriverPrefix \<equiv> ''kubernetes.io/csi/''"

definition newAttachedCSIVolume :: "string \<Rightarrow> goerr + csi_vol" where
  "newAttachedCSIVolume name =
     (let (driverVolume, found) = strings_CutPrefix name csiDriverPrefix
      in if \<not> found then Inl (ErrMsg (''attached volume '' @ fmt_q name @ '' is not a CSI volume''))
         else
           (case strings_Split driverVolume (CHR ''^'') of
              [driver, volumeID] \<Rightarrow> Inr (NewCSIVolume driver volumeID)
            | _ \<Rightarrow> Inl (ErrMsg (''format of attached volume '' @ fmt_q name @ '' is not supported: '' @ driverVolume))))"

definition Get_LocalNode :: "venv \<Rightarrow> string \<Rightarrow> (goerr + string list) vprog" where
  "Get_LocalNode v name = vcall (\<lambda>h. v_getNode v h name) (\<lambda>_. VGetNode name)"

definition NewNode :: "venv \<Rightarrow> string \<Rightarrow> (goerr + string) vprog" where
  "NewNode v nodename = do {
     r \<leftarrow> Get_LocalNode v nodename;
     vret (case r of
        Inl err \<Rightarrow> Inl (ErrMsg (''could not get my local Node '' @ fmt_q nodename @ '': '' @ Error err))
      | Inr _ \<Rightarrow> Inr nodename)
   }"

fun attached_volumes :: "string list \<Rightarrow> csi_vol list" where
  "attached_volumes [] = []"
| "attached_volumes (name # names) =
     (case newAttachedCSIVolume name of
        Inl _ \<Rightarrow> attached_volumes names
      | Inr vol \<Rightarrow> vol # attached_volumes names)"

definition ListCSIVolumes :: "venv \<Rightarrow> string \<Rightarrow> (goerr + csi_vol list) vprog" where
  "ListCSIVolumes v nodename = do {
     r \<leftarrow> Get_LocalNode v nodename;
     vret (case r of
        Inl err \<Rightarrow> Inl (ErrMsg (''could not get Node '' @ fmt_q nodename @ '': '' @ Error err))
      | Inr attached \<Rightarrow> Inr (attached_volumes attached))
   }"

section \<open>platform/kubelet.go\<close>

abbreviation (input) basedir :: string where "basedir \<equiv> ''/var/lib/kubelet''"
abbreviation (input) pluginPath :: string where "pluginPath \<equiv> ''/plugins''"
abbreviation (input) csiPath :: string where "csiPath \<equiv> ''/kubernetes.io/csi''"

definition isMountPoint :: "venv \<Rightarrow> string \<Rightarrow> bool vprog" where
  "isMountPoint v path = do {
     mps \<leftarrow> vcall (\<lambda>h. v_mounts v h ()) (\<lambda>_. VListMounts);
     vret (case mps of Inl _ \<Rightarrow> False | Inr mps \<Rightarrow> path \<in> set mps)
   }"

definition staging_path :: "venv \<Rightarrow> string \<Rightarrow> string \<Rightarrow> string" where
  "staging_path v driver volumeID = filepath_Join [basedir, pluginPath, csiPath, driver, v_sha256hex v volumeID, ''globalmount'']"

definition GetStagingPath :: "venv \<Rightarrow> string \<Rightarrow> string \<Rightarrow> (goerr + string) vprog" where
  "GetStagingPath v driver volumeID = do {
     let stagingPath = staging_path v driver volumeID;
     mp \<leftarrow> isMountPoint v stagingPath;
     if mp then vret (Inr stagingPath)
     else do {
       let stagingPath = filepath_Join [stagingPath, volumeID];
       mp \<leftarrow> isMountPoint v stagingPath;
       if mp then vret (Inr stagingPath)
       else vret (Inl (ErrMsg (''could not find a mountpoint at '' @ fmt_q stagingPath)))
     }
   }"

fun findPublished :: "venv \<Rightarrow> string \<Rightarrow> string \<Rightarrow> string list \<Rightarrow> (goerr + (string \<times> string)) vprog" where
  "findPublished v driver volumeID [] =
     vret (Inl (ErrMsg (''could not find a vol_data.json for driver '' @ fmt_q driver @ '' and volumeID '' @ fmt_q volumeID)))"
| "findPublished v driver volumeID (filename # volDatas) = do {
     data \<leftarrow> vcall (\<lambda>h. v_readFile v h filename) (\<lambda>_. VReadFile filename);
     (case data of
        Inl _ \<Rightarrow> findPublished v driver volumeID volDatas
      | Inr (Inl _) \<Rightarrow> findPublished v driver volumeID volDatas
      | Inr (Inr vd) \<Rightarrow>
          if vd_Driver vd \<noteq> driver \<or> vd_VolumeID vd \<noteq> volumeID then findPublished v driver volumeID volDatas
          else vret (Inr (strings_ReplaceAll filename ''vol_data.json'' ''mount'', vd_PersistentVolumeName vd)))
   }"

definition getPublishDetails :: "venv \<Rightarrow> string \<Rightarrow> string \<Rightarrow> (goerr + (string \<times> string)) vprog" where
  "getPublishDetails v driver volumeID = do {
     let pattern = filepath_Join [basedir, ''pods'', ''*'', ''volumes/kubernetes.io~csi/'', ''*'', ''vol_data.json''];
     volDatas \<leftarrow> vcall (\<lambda>h. v_glob v h pattern) (\<lambda>_. VGlob pattern);
     (case volDatas of
        Inl err \<Rightarrow> vret (Inl (ErrMsg (''could not find vol_data.json: '' @ Error err)))
      | Inr volDatas \<Rightarrow> findPublished v driver volumeID volDatas)
   }"

definition GetPublishPath :: "venv \<Rightarrow> string \<Rightarrow> string \<Rightarrow> (goerr + string) vprog" where
  "GetPublishPath v driver volumeID = do {
     r \<leftarrow> getPublishDetails v driver volumeID;
     vret (case r of
        Inl err \<Rightarrow> Inl (ErrWrap (''failed to find publish path for volume handle '' @ fmt_q volumeID @ '' of driver '' @ fmt_q driver @ '': '') err [])
      | Inr (path, _) \<Rightarrow> Inr path)
   }"

definition GetCSISocket :: "string \<Rightarrow> string" where
  "GetCSISocket driver = filepath_Join [''unix://'', basedir, pluginPath, driver, ''csi.sock'']"

definition ResolvePersistentVolumeName :: "venv \<Rightarrow> string \<Rightarrow> string \<Rightarrow> (goerr + string) vprog" where
  "ResolvePersistentVolumeName v driver volumeID = do {
     r \<leftarrow> getPublishDetails v driver volumeID;
     vret (case r of
        Inl err \<Rightarrow> Inl (ErrWrap (''failed to get persistent volume name for volume handle '' @ fmt_q volumeID @ '' of driver '' @ fmt_q driver @ '': '') err [])
      | Inr (_, pvName) \<Rightarrow> Inr pvName)
   }"

section \<open>volume/driver.go\<close>

record csi_driver =
  cd_name :: string
  cd_supportVolumeCondition :: bool
  cd_supportsNodeStageVolume :: bool

fun note_capabilities :: "node_rpc list \<Rightarrow> csi_driver \<Rightarrow> csi_driver" where
  "note_capabilities [] drv = drv"
| "note_capabilities (cap # caps) drv =
     note_capabilities caps
       (case cap of
          RPC_VOLUME_CONDITION \<Rightarrow> drv\<lparr>cd_supportVolumeCondition := True\<rparr>
        | RPC_STAGE_UNSTAGE_VOLUME \<Rightarrow> drv\<lparr>cd_supportsNodeStageVolume := True\<rparr>
        | RPC_OTHER \<Rightarrow> drv)"

definition detectCapabilities :: "venv \<Rightarrow> csi_driver \<Rightarrow> (goerr + csi_driver) vprog" where
  "detectCapabilities v drv = do {
     res \<leftarrow> vcall (\<lambda>h. v_nodeCapabilities v h ()) (\<lambda>_. VNodeCapabilities);
     vret (case res of
        Inl err \<Rightarrow> Inl (ErrMsg (''failed to get capabilities of driver '' @ fmt_q (cd_name drv) @ '': '' @ Error err))
      | Inr caps \<Rightarrow> Inr (note_capabilities caps drv))
   }"

definition FindDriver :: "venv \<Rightarrow> string \<Rightarrow> (goerr + csi_driver) vprog" where
  "FindDriver v name =
     (let endpoint = GetCSISocket name
      in case v_newClient v endpoint of
           Some err \<Rightarrow> vret (Inl (ErrWrap (''failed to connect to endpoint '' @ endpoint @ '': '') err []))
         | None \<Rightarrow> do {
             res \<leftarrow> vcall (\<lambda>h. v_pluginInfo v h endpoint) (\<lambda>_. VPluginInfo endpoint);
             (case res of
                Inl err \<Rightarrow> vret (Inl (ErrWrap (''failed to connect to get info from CSI driver '' @ fmt_q name @ '': '') err []))
              | Inr plugin \<Rightarrow>
                  if plugin \<noteq> name
                  then vret (Inl (ErrMsg (''CSI driver '' @ fmt_q name @ '' incorrectly identifies itself as '' @ fmt_q plugin)))
                  else do {
                    r \<leftarrow> detectCapabilities v \<lparr>cd_name = name, cd_supportVolumeCondition = False, cd_supportsNodeStageVolume = False\<rparr>;
                    vret (case r of
                       Inl err \<Rightarrow> Inl (ErrWrap (''failed to detect the capabilities of CSI driver '' @ fmt_q name @ '': '') err [])
                     | Inr drv \<Rightarrow> Inr drv)
                  })
           })"

definition volume_path :: "venv \<Rightarrow> csi_driver \<Rightarrow> csi_vol \<Rightarrow> (goerr + string) vprog" where
  "volume_path v drv vol =
     (if cd_supportsNodeStageVolume drv then do {
        r \<leftarrow> GetStagingPath v (cd_name drv) (vol_volumeID vol);
        vret (case r of Inl err \<Rightarrow> Inl (ErrWrap ''failed to get staging path: '' err []) | Inr p \<Rightarrow> Inr p)
      } else do {
        r \<leftarrow> GetPublishPath v (cd_name drv) (vol_volumeID vol);
        vret (case r of Inl err \<Rightarrow> Inl (ErrWrap ''failed to get publish path: '' err []) | Inr p \<Rightarrow> Inr p)
      })"

definition condition_of :: "stats_answer \<Rightarrow> goerr + volume_condition" where
  "condition_of res =
     (case res of
        Inl err \<Rightarrow> Inl (ErrWrap ''failed to call NodeGetVolumeStats: '' err [])
      | Inr None \<Rightarrow> Inl (ErrMsg ''VolumeCondition unknown'')
      | Inr (Some (abnormal, message)) \<Rightarrow> Inr \<lparr>vc_healthy = (\<not> abnormal), vc_message = message\<rparr>)"

definition GetVolumeCondition :: "venv \<Rightarrow> csi_driver \<Rightarrow> csi_vol \<Rightarrow> (goerr + volume_condition) vprog" where
  "GetVolumeCondition v drv vol = do {
     p \<leftarrow> volume_path v drv vol;
     (case p of
        Inl err \<Rightarrow> vret (Inl err)
      | Inr volumePath \<Rightarrow> do {
          res \<leftarrow> vcall (\<lambda>h. v_stats v h (vol_volumeID vol, volumePath)) (\<lambda>r. VStats (vol_volumeID vol) volumePath r);
          vret (condition_of res)
        })
   }"

section \<open>log_recorder.go, event_recorder.go\<close>

definition log_record :: "claimed_pv \<Rightarrow> volume_condition \<Rightarrow> goerr option vprog" where
  "log_record pv vc =
     (if vc_healthy vc then do {
        let msg = (if vc_message vc \<noteq> [] then '': '' @ vc_message vc else []);
        _ \<leftarrow> vemit (VInfof (''persistent volume %q is healthy'' @ msg) [cpv_name pv]);
        vret None
      } else do {
        _ \<leftarrow> vemit (VWarningf ''persistent volume %q is not healthy: %v'' [cpv_name pv, vc_message vc]);
        vret None
      })"

definition event_record :: "venv \<Rightarrow> claimed_pv \<Rightarrow> volume_condition \<Rightarrow> goerr option vprog" where
  "event_record v pv vc =
     (case cpv_claimRef pv of
        None \<Rightarrow> vret (Some (ErrMsg (''persistent volume '' @ fmt_q (cpv_name pv) @ '' does not have a claim (unused?)'')))
      | Some claim \<Rightarrow> do {
          r \<leftarrow> vcall (\<lambda>h. v_getPVC v h claim) (\<lambda>_. VGetPVC claim);
          (case r of
             Inl err \<Rightarrow> vret (Some (ErrWrap (''failed to get persistent volume claim '' @ fmt_q (nn_name claim) @ '' in namespace '' @
                 fmt_q (nn_namespace claim) @ '': '') err []))
           | Inr _ \<Rightarrow> do {
               let severity = (if \<not> vc_healthy vc then EventTypeWarning else EventTypeNormal);
               _ \<leftarrow> vemit (VEvent claim severity (GetReason vc) (vc_message vc));
               vret None
             })
        })"

fun record_condition :: "venv \<Rightarrow> recorder \<Rightarrow> claimed_pv \<Rightarrow> volume_condition \<Rightarrow> goerr option vprog" where
  "record_condition v LogRecorder pv vc = log_record pv vc"
| "record_condition v EventRecorder pv vc = event_record v pv vc"

section \<open>reporter.go\<close>

record reporter =
  rp_driver :: csi_driver
  rp_localNode :: string
  rp_recorders :: "recorder list"

definition NewVolumeConditionReporter :: "venv \<Rightarrow> string \<Rightarrow> string \<Rightarrow> recorder list \<Rightarrow> (goerr + reporter) vprog" where
  "NewVolumeConditionReporter v hostname drivername recorderOptions = do {
     drv \<leftarrow> FindDriver v drivername;
     (case drv of
        Inl err \<Rightarrow> vret (Inl (ErrWrap (''failed to find driver '' @ fmt_q drivername @ '': '') err []))
      | Inr drv \<Rightarrow>
          if \<not> cd_supportVolumeCondition drv
          then vret (Inl (ErrMsg (''driver '' @ fmt_q drivername @ '' does not support volume-condition'')))
          else do {
            n \<leftarrow> NewNode v hostname;
            vret (case n of
               Inl err \<Rightarrow> Inl (ErrWrap (''failed to get node '' @ fmt_q hostname @ '': '') err [])
             | Inr n \<Rightarrow> Inr \<lparr>rp_driver = drv, rp_localNode = n, rp_recorders = recorderOptions\<rparr>)
          })
   }"

definition cached :: "(string \<times> volume_condition option) list \<Rightarrow> string \<Rightarrow> volume_condition option" where
  "cached cache volumeID = (case map_of cache volumeID of None \<Rightarrow> None | Some c \<Rightarrow> c)"

definition isUpdatedVolumeCondition :: "string \<Rightarrow> volume_condition \<Rightarrow> bool vprog" where
  "isUpdatedVolumeCondition volumeID vc = State (\<lambda>w.
     let updated =
       (case cached (conditionCache w) volumeID of
          None \<Rightarrow> True
        | Some lastCondition \<Rightarrow> vc_healthy lastCondition \<noteq> vc_healthy vc \<or> vc_message lastCondition \<noteq> vc_message vc)
     in (updated, if updated then w\<lparr>conditionCache := AList.update volumeID (Some vc) (conditionCache w)\<rparr> else w))"

fun prune_cache :: "(string \<times> volume_condition option) list \<Rightarrow> csi_vol list \<Rightarrow>
    (string \<times> volume_condition option) list \<Rightarrow> (string \<times> volume_condition option) list" where
  "prune_cache old [] new = new"
| "prune_cache old (vol # vols) new =
     prune_cache old vols (AList.update (vol_volumeID vol) (cached old (vol_volumeID vol)) new)"

definition pruneConditionCache :: "csi_vol list \<Rightarrow> unit vprog" where
  "pruneConditionCache volumes = State (\<lambda>w. ((), w\<lparr>conditionCache := prune_cache (conditionCache w) volumes []\<rparr>))"

text \<open>An error of one recorder is logged and the next one is called.\<close>

fun record_all :: "venv \<Rightarrow> recorder list \<Rightarrow> claimed_pv \<Rightarrow> volume_condition \<Rightarrow> unit vprog" where
  "record_all v [] pv vc = vret ()"
| "record_all v (recorder # recorders) pv vc = do {
     _ \<leftarrow> record_condition v recorder pv vc;
     record_all v recorders pv vc
   }"

definition recordVolumeCondition :: "venv \<Rightarrow> reporter \<Rightarrow> string \<Rightarrow> volume_condition \<Rightarrow> unit vprog" where
  "recordVolumeCondition v rp volumeID vc = do {
     r \<leftarrow> ResolvePersistentVolumeName v (cd_name (rp_driver rp)) volumeID;
     (case r of
        Inl _ \<Rightarrow> vret ()
      | Inr pvName \<Rightarrow> do {
          pv \<leftarrow> vcall (\<lambda>h. v_getPV v h pvName) (\<lambda>_. VGetPV pvName);
          (case pv of
             Inl _ \<Rightarrow> vret ()
           | Inr pv \<Rightarrow> record_all v (rp_recorders rp) pv vc)
        })
   }"

text \<open>The body of the loop over the volumes; \<open>GetVolumeCondition\<close> never returns nil without an error.\<close>

definition check_volume :: "venv \<Rightarrow> reporter \<Rightarrow> csi_vol \<Rightarrow> unit vprog" where
  "check_volume v rp vol =
     (if vol_drivername vol \<noteq> cd_name (rp_driver rp) then vret ()
      else do {
        r \<leftarrow> GetVolumeCondition v (rp_driver rp) vol;
        (case r of
           Inl _ \<Rightarrow> vret ()
         | Inr vc \<Rightarrow> do {
             updated \<leftarrow> isUpdatedVolumeCondition (vol_volumeID vol) vc;
             if \<not> updated then vret () else recordVolumeCondition v rp (vol_volumeID vol) vc
           })
      })"

fun check_volumes :: "venv \<Rightarrow> reporter \<Rightarrow> csi_vol list \<Rightarrow> unit vprog" where
  "check_volumes v rp [] = vret ()"
| "check_volumes v rp (vol # vols) = do {
     _ \<leftarrow> check_volume v rp vol;
     check_volumes v rp vols
   }"

text \<open>The ticks; the fuel is the number of ticks, and \<open>None\<close> means that the reporter is still running.\<close>

primrec run_ticks :: "nat \<Rightarrow> venv \<Rightarrow> reporter \<Rightarrow> goerr option vprog" where
  "run_ticks 0 v rp = vret None"
| "run_ticks (Suc n) v rp = do {
     r \<leftarrow> ListCSIVolumes v (rp_localNode rp);
     (case r of
        Inl err \<Rightarrow> vret (Some (ErrWrap ''failed to list volumes: '' err []))
      | Inr volumes \<Rightarrow> do {
          _ \<leftarrow> check_volumes v rp volumes;
          _ \<leftarrow> pruneConditionCache volumes;
          run_ticks n v rp
        })
   }"

definition Reporter_Run :: "nat \<Rightarrow> venv \<Rightarrow> reporter \<Rightarrow> duration \<Rightarrow> goerr option vprog" where
  "Reporter_Run ticks v rp interval =
     (if interval \<le> 0 then vret (Some (ErrMsg (''interval '' @ v_fmtDuration v interval @ '' is invalid'')))
      else run_ticks ticks v rp)"

end
