(* ===== verification/Props_Condition.thy ===== *)
theory Props_Condition
  imports Volume_Condition Props_Sidecar
begin

text \<open>
  Properties of the reporter of volume conditions: the events it records on a claim are exactly the changes
  of the condition of the volume behind it, and it looks for a volume where the kubelet and the service
  for reclaiming space expect it.
\<close>

section \<open>What is observed and what is announced\<close>

definition observed :: "string \<Rightarrow> vevent list \<Rightarrow> volume_condition list" where
  "observed i tr = concat (map (\<lambda>ev. case ev of
     VStats j p r \<Rightarrow> if j = i then (case condition_of r of Inr c \<Rightarrow> [c] | Inl _ \<Rightarrow> []) else []
   | _ \<Rightarrow> []) tr)"

definition announced :: "nsname \<Rightarrow> vevent list \<Rightarrow> vevent list" where
  "announced nn tr = filter (\<lambda>ev. case ev of VEvent m s r t \<Rightarrow> m = nn | _ \<Rightarrow> False) tr"

definition announcement :: "nsname \<Rightarrow> volume_condition \<Rightarrow> vevent" where
  "announcement nn c = VEvent nn (if vc_healthy c then EventTypeNormal else EventTypeWarning) (GetReason c) (vc_message c)"

lemma observed_append [simp]: "observed i (xs @ ys) = observed i xs @ observed i ys"
  by (simp add: observed_def)

lemma announced_append [simp]: "announced nn (xs @ ys) = announced nn xs @ announced nn ys"
  by (simp add: announced_def)

lemma observed_simps [simp]: "observed i [] = []"
  "observed i (VStats j p r # tr) = (if j = i then (case condition_of r of Inr c \<Rightarrow> [c] | Inl _ \<Rightarrow> []) else []) @ observed i tr"
  "observed i (VInfof f as # tr) = observed i tr" "observed i (VWarningf f as # tr) = observed i tr"
  "observed i (VGetPVC nn # tr) = observed i tr" "observed i (VEvent nn s m t # tr) = observed i tr"
  by (simp_all add: observed_def)

lemma announced_simps [simp]: "announced nn [] = []" "announced nn (VStats j p a # tr) = announced nn tr"
  "announced nn (VInfof f as # tr) = announced nn tr" "announced nn (VWarningf f as # tr) = announced nn tr"
  "announced nn (VGetPVC m # tr) = announced nn tr"
  "announced nn (VEvent m s r t # tr) = (if m = nn then [VEvent m s r t] else []) @ announced nn tr"
  by (simp_all add: announced_def)

section \<open>Programs that only read\<close>

text \<open>\<open>adds m P\<close>: \<open>m\<close> leaves the cache alone and appends events; \<open>P\<close> holds of its result and these events.\<close>

definition adds :: "'a vprog \<Rightarrow> ('a \<Rightarrow> vevent list \<Rightarrow> bool) \<Rightarrow> bool" where
  "adds m P \<longleftrightarrow> (\<forall>w. \<exists>x es. run_state m w = (x, w\<lparr>vtrace := vtrace w @ es\<rparr>) \<and> P x es)"

definition plain :: "vevent \<Rightarrow> bool" where
  "plain ev \<longleftrightarrow> (case ev of VStats _ _ _ \<Rightarrow> False | VEvent _ _ _ _ \<Rightarrow> False | _ \<Rightarrow> True)"

lemma plain_simps [simp]: "plain (VGetNode n)" "plain VListMounts" "plain (VGlob p)" "plain (VReadFile f)" "plain (VGetPV n)"
  by (simp_all add: plain_def)

abbreviation reads :: "'a vprog \<Rightarrow> bool" where
  "reads m \<equiv> adds m (\<lambda>_ es. list_all plain es)"

lemma plain_observed: "list_all plain es \<Longrightarrow> observed i es = []"
  by (induction es) (auto simp: observed_def plain_def split: vevent.splits)

lemma plain_announced: "list_all plain es \<Longrightarrow> announced nn es = []"
  by (induction es) (auto simp: announced_def plain_def split: vevent.splits)

lemma adds_bind:
  assumes "adds m P" "\<And>x. adds (f x) (Q x)" "\<And>x y es es'. P x es \<Longrightarrow> Q x y es' \<Longrightarrow> R y (es @ es')"
  shows "adds (State_Monad.bind m f) R"
  unfolding adds_def
proof
  fix w
  obtain x es where m: "run_state m w = (x, w\<lparr>vtrace := vtrace w @ es\<rparr>)" "P x es"
    using assms(1) unfolding adds_def by blast
  let ?w = "w\<lparr>vtrace := vtrace w @ es\<rparr>"
  obtain y es' where f: "run_state (f x) ?w = (y, ?w\<lparr>vtrace := vtrace ?w @ es'\<rparr>)" "Q x y es'"
    using assms(2) [of x] unfolding adds_def by blast
  from m(1) f(1) have "run_state (State_Monad.bind m f) w = (y, w\<lparr>vtrace := vtrace w @ es @ es'\<rparr>)" by simp
  with assms(3) [OF m(2) f(2)] show "\<exists>x es. run_state (State_Monad.bind m f) w = (x, w\<lparr>vtrace := vtrace w @ es\<rparr>) \<and> R x es"
    by blast
qed

lemma adds_ret: "P x [] \<Longrightarrow> adds (vret x) P"
  by (auto simp: adds_def intro!: exI [of _ "[]"])

lemma adds_vcall: "(\<And>h. P (ans h) [ev (ans h)]) \<Longrightarrow> adds (vcall ans ev) P"
  by (auto simp: adds_def run_defs)

lemma adds_vcall_ret: "(\<And>h. P (g (ans h)) [ev (ans h)]) \<Longrightarrow> adds (vcall ans ev \<bind> (\<lambda>x. vret (g x))) P"
  by (auto simp: adds_def run_defs)

lemma adds_mono: "adds m P \<Longrightarrow> (\<And>x es. P x es \<Longrightarrow> Q x es) \<Longrightarrow> adds m Q"
  unfolding adds_def by blast

lemma reads_bind: "reads m \<Longrightarrow> (\<And>x. reads (f x)) \<Longrightarrow> reads (State_Monad.bind m f)"
  by (rule adds_bind [where P = "\<lambda>_ es. list_all plain es" and Q = "\<lambda>_ _ es. list_all plain es"]) auto

lemma reads_ret: "reads (vret x)"
  by (rule adds_ret) simp

lemma reads_vcall: "(\<And>x. plain (ev x)) \<Longrightarrow> reads (vcall ans ev)"
  by (rule adds_vcall) simp

lemmas reads_intros = reads_bind reads_ret reads_vcall

lemma reads_ListCSIVolumes: "reads (ListCSIVolumes v n)"
  unfolding ListCSIVolumes_def Get_LocalNode_def by (intro reads_intros) simp

lemma reads_isMountPoint: "reads (isMountPoint v p)"
  unfolding isMountPoint_def by (intro reads_intros) simp

lemma reads_GetStagingPath: "reads (GetStagingPath v d i)"
  unfolding GetStagingPath_def Let_def by (auto intro!: reads_bind [OF reads_isMountPoint] reads_ret)

lemma reads_findPublished: "reads (findPublished v d i fs)"
  by (induction fs) (auto intro!: reads_intros split: sum.split)

lemma reads_getPublishDetails: "reads (getPublishDetails v d i)"
  unfolding getPublishDetails_def Let_def
  by (rule reads_bind [OF reads_vcall]) (auto intro!: reads_ret reads_findPublished split: sum.split)

lemma reads_resolve: "reads (ResolvePersistentVolumeName v d i)" "reads (GetPublishPath v d i)"
  unfolding ResolvePersistentVolumeName_def GetPublishPath_def
  by (rule reads_bind [OF reads_getPublishDetails reads_ret])+

lemma reads_volume_path: "reads (volume_path v drv vol)"
  unfolding volume_path_def by (auto intro!: reads_bind [OF reads_GetStagingPath reads_ret] reads_bind [OF reads_resolve(2) reads_ret])

section \<open>One volume\<close>

lemma adds_GetVolumeCondition:
  "adds (GetVolumeCondition v drv vol) (\<lambda>r es. announced nn es = [] \<and>
     observed i es = (if vol_volumeID vol = i then (case r of Inr c \<Rightarrow> [c] | Inl _ \<Rightarrow> []) else []))"
  (is "adds _ ?R")
  unfolding GetVolumeCondition_def
proof (rule adds_bind [where P = "\<lambda>_ es. list_all plain es" and Q = "\<lambda>_. ?R"])
  show "reads (volume_path v drv vol)" by (rule reads_volume_path)
  show "adds (case p of Inl err \<Rightarrow> vret (Inl err) | Inr volumePath \<Rightarrow> do {
      res \<leftarrow> vcall (\<lambda>h. v_stats v h (vol_volumeID vol, volumePath)) (\<lambda>r. VStats (vol_volumeID vol) volumePath r);
      vret (condition_of res) }) ?R" for p
    by (cases p) (auto intro!: adds_ret adds_vcall_ret)
  show "?R y (es @ es')" if "list_all plain es" "?R y es'" for y es es'
    using that by (simp add: plain_observed plain_announced)
qed

lemma adds_record_all:
  assumes "\<And>h. v_getPVC v h nn = Inr ()"
  shows "adds (record_all v rs pv vc) (\<lambda>_ es. observed i es = [] \<and>
    announced nn es = (if cpv_claimRef pv = Some nn then replicate (count_list rs EventRecorder) (announcement nn vc) else []))"
    (is "adds _ (?R rs)")
proof (induction rs)
  case Nil
  show ?case by (auto intro: adds_ret simp: observed_def announced_def)
next
  case (Cons r rs)
  have "adds (record_condition v r pv vc) (\<lambda>_. ?R [r] ())"
  proof (cases r)
    case LogRecorder
    then show ?thesis
      by (auto simp: log_record_def Let_def vemit_def intro!: adds_vcall_ret)
  next
    case EventRecorder
    then show ?thesis
      using assms
      by (auto simp: adds_def event_record_def run_defs Let_def announcement_def split: option.split sum.split
        intro: exI [of _ "[]"])
  qed
  with Cons.IH show ?case
    by (auto elim!: adds_bind simp: replicate_add [symmetric])
qed

text \<open>
  \<open>reachable_claim v rp i nn\<close>: the volume \<open>i\<close> belongs to the claim \<open>nn\<close>, which can be read, and no other volume
  does. \<open>stays_attached v rp i\<close>: the volume is in every list of the volumes of the node.
\<close>

definition reachable_claim :: "venv \<Rightarrow> reporter \<Rightarrow> string \<Rightarrow> nsname \<Rightarrow> bool" where
  "reachable_claim v rp i nn \<longleftrightarrow>
     (\<exists>pvName pv. (\<forall>w. fst (run_state (ResolvePersistentVolumeName v (cd_name (rp_driver rp)) i) w) = Inr pvName) \<and>
        (\<forall>h. v_getPV v h pvName = Inr pv) \<and> cpv_claimRef pv = Some nn) \<and>
     (\<forall>h. v_getPVC v h nn = Inr ()) \<and>
     (\<forall>j w pvName h pv. j \<noteq> i \<and> fst (run_state (ResolvePersistentVolumeName v (cd_name (rp_driver rp)) j) w) = Inr pvName \<and>
        v_getPV v h pvName = Inr pv \<longrightarrow> cpv_claimRef pv \<noteq> Some nn)"

definition stays_attached :: "venv \<Rightarrow> reporter \<Rightarrow> string \<Rightarrow> bool" where
  "stays_attached v rp i \<longleftrightarrow>
     (\<forall>h att. v_getNode v h (rp_localNode rp) = Inr att \<longrightarrow> i \<in> vol_volumeID ` set (attached_volumes att))"

lemma adds_recordVolumeCondition:
  assumes "reachable_claim v rp i nn" "count_list (rp_recorders rp) EventRecorder = 1"
  shows "adds (recordVolumeCondition v rp j vc) (\<lambda>_ es. observed k es = [] \<and>
    announced nn es = (if j = i then [announcement nn vc] else []))" (is "adds _ ?R")
  unfolding adds_def
proof
  fix w
  let ?resolve = "ResolvePersistentVolumeName v (cd_name (rp_driver rp)) j"
  obtain r es where r: "run_state ?resolve w = (r, w\<lparr>vtrace := vtrace w @ es\<rparr>)" "list_all plain es"
    using reads_resolve(1) [of v "cd_name (rp_driver rp)" j] unfolding adds_def by blast
  note quiet = plain_observed [OF r(2)] plain_announced [OF r(2)]
  have getPVC: "\<And>h. v_getPVC v h nn = Inr ()" using assms(1) by (simp add: reachable_claim_def)
  show "\<exists>x es. run_state (recordVolumeCondition v rp j vc) w = (x, w\<lparr>vtrace := vtrace w @ es\<rparr>) \<and> ?R x es"
  proof (cases "\<exists>pvName pv. r = Inr pvName \<and> v_getPV v (vtrace w @ es) pvName = Inr pv")
    case True
    then obtain pvName pv where pv: "r = Inr pvName" "v_getPV v (vtrace w @ es) pvName = Inr pv" by blast
    have claim: "cpv_claimRef pv = Some nn \<longleftrightarrow> j = i"
    proof
      show "j = i" if "cpv_claimRef pv = Some nn"
        using assms(1) r(1) pv that unfolding reachable_claim_def by (metis fst_conv)
      show "cpv_claimRef pv = Some nn" if "j = i"
        using assms(1) r(1) pv that unfolding reachable_claim_def by (metis fst_conv sum.inject(2))
    qed
    let ?w = "w\<lparr>vtrace := (vtrace w @ es) @ [VGetPV pvName]\<rparr>"
    obtain x es' where all: "run_state (record_all v (rp_recorders rp) pv vc) ?w = (x, ?w\<lparr>vtrace := vtrace ?w @ es'\<rparr>)"
        "observed k es' = []" "announced nn es' = (if j = i then [announcement nn vc] else [])"
      using adds_record_all [OF getPVC, of "rp_recorders rp" pv vc k] unfolding adds_def claim assms(2)
      by (metis One_nat_def replicate_0 replicate_Suc)
    have "run_state (recordVolumeCondition v rp j vc) w = (x, w\<lparr>vtrace := vtrace w @ es @ VGetPV pvName # es'\<rparr>)"
      using r(1) pv all(1) by (simp add: recordVolumeCondition_def run_defs)
    moreover have "observed k (VGetPV pvName # es') = observed k es'" "announced nn (VGetPV pvName # es') = announced nn es'"
      by (simp_all add: observed_def announced_def)
    ultimately show ?thesis using quiet all(2,3) by (metis append_Nil announced_append observed_append)
  next
    case False
    have "j \<noteq> i"
    proof
      assume "j = i"
      then show False using False assms(1) r(1) unfolding reachable_claim_def by (metis fst_conv)
    qed
    moreover have "run_state (recordVolumeCondition v rp j vc) w =
        ((), w\<lparr>vtrace := vtrace w @ (case r of Inl _ \<Rightarrow> es | Inr pvName \<Rightarrow> es @ [VGetPV pvName])\<rparr>)"
      using False r(1) by (auto simp: recordVolumeCondition_def run_defs split: sum.splits)
    moreover have "observed k (case r of Inl _ \<Rightarrow> es | Inr pvName \<Rightarrow> es @ [VGetPV pvName]) = []"
        "announced nn (case r of Inl _ \<Rightarrow> es | Inr pvName \<Rightarrow> es @ [VGetPV pvName]) = []"
      using quiet by (auto simp: observed_def announced_def split: sum.split)
    ultimately show ?thesis by auto
  qed
qed

section \<open>The loop\<close>

text \<open>What was announced so far are the changes so far, and the cache holds the last condition.\<close>

definition up_to_date :: "string \<Rightarrow> nsname \<Rightarrow> vworld \<Rightarrow> bool" where
  "up_to_date i nn w \<longleftrightarrow>
     announced nn (vtrace w) = map (announcement nn) (remdups_adj (observed i (vtrace w))) \<and>
     cached (conditionCache w) i = (if observed i (vtrace w) = [] then None else Some (last (observed i (vtrace w))))"

lemma remdups_adj_snoc:
  "remdups_adj (xs @ [x]) = (if xs \<noteq> [] \<and> last xs = x then remdups_adj xs else remdups_adj xs @ [x])"
  by (cases "xs = []") (auto simp: remdups_adj_append'')

lemma cached_update: "cached (AList.update j c m) i = (if i = j then c else cached m i)"
  by (simp add: cached_def update_conv')

lemma up_to_date_check:
  assumes "reachable_claim v rp i nn" "count_list (rp_recorders rp) EventRecorder = 1"
    and "up_to_date i nn w" "run_state (check_volume v rp vol) w = (x, w')"
  shows "up_to_date i nn w'"
proof (cases "vol_drivername vol = cd_name (rp_driver rp)")
  case False
  with assms(3,4) show ?thesis by (simp add: check_volume_def)
next
  case True
  obtain r es where r: "run_state (GetVolumeCondition v (rp_driver rp) vol) w = (r, w\<lparr>vtrace := vtrace w @ es\<rparr>)"
      "announced nn es = []" "observed i es = (if vol_volumeID vol = i then (case r of Inr c \<Rightarrow> [c] | Inl _ \<Rightarrow> []) else [])"
    using adds_GetVolumeCondition [of v "rp_driver rp" vol nn i] unfolding adds_def by blast
  show ?thesis
  proof (cases r)
    case (Inl err)
    with True r(1) assms(4) have "w' = w\<lparr>vtrace := vtrace w @ es\<rparr>" by (simp add: check_volume_def)
    with Inl r(2,3) assms(3) show ?thesis by (simp add: up_to_date_def)
  next
    case (Inr vc)
    let ?id = "vol_volumeID vol"
    have rest: "run_state (isUpdatedVolumeCondition ?id vc \<bind> (\<lambda>updated. if \<not> updated then vret () else recordVolumeCondition v rp ?id vc))
        (w\<lparr>vtrace := vtrace w @ es\<rparr>) = (x, w')"
      using assms(4) True r(1) Inr by (simp add: check_volume_def)
    have updated: "(case cached (conditionCache w) ?id of None \<Rightarrow> True
        | Some c \<Rightarrow> vc_healthy c \<noteq> vc_healthy vc \<or> vc_message c \<noteq> vc_message vc) \<longleftrightarrow> cached (conditionCache w) ?id \<noteq> Some vc"
      by (auto split: option.split intro: volume_condition.equality)
    show ?thesis
    proof (cases "cached (conditionCache w) ?id = Some vc")
      case same: True
      then have "w' = w\<lparr>vtrace := vtrace w @ es\<rparr>"
        using rest by (simp add: isUpdatedVolumeCondition_def updated Let_def)
      then show ?thesis
        using assms(3) r(2,3) Inr same by (auto simp: up_to_date_def remdups_adj_snoc split: if_splits)
    next
      case False
      let ?w = "w\<lparr>vtrace := vtrace w @ es, conditionCache := AList.update ?id (Some vc) (conditionCache w)\<rparr>"
      obtain y es' where rec: "run_state (recordVolumeCondition v rp ?id vc) ?w = (y, ?w\<lparr>vtrace := vtrace ?w @ es'\<rparr>)"
          "observed i es' = []" "announced nn es' = (if ?id = i then [announcement nn vc] else [])"
        using adds_recordVolumeCondition [OF assms(1,2), of ?id vc i] unfolding adds_def by blast
      have "w' = ?w\<lparr>vtrace := vtrace ?w @ es'\<rparr>"
        using rest False rec(1) by (simp add: isUpdatedVolumeCondition_def updated Let_def)
      then show ?thesis
        using assms(3) r(2,3) Inr False rec(2,3) by (auto simp: up_to_date_def cached_update remdups_adj_snoc split: if_splits)
    qed
  qed
qed

lemma up_to_date_checks:
  assumes "reachable_claim v rp i nn" "count_list (rp_recorders rp) EventRecorder = 1"
    and "up_to_date i nn w" "run_state (check_volumes v rp vols) w = (x, w')"
  shows "up_to_date i nn w'"
  using assms(3,4)
proof (induction vols arbitrary: w)
  case (Cons vol vols)
  obtain y w1 where y: "run_state (check_volume v rp vol) w = (y, w1)" by (meson surj_pair)
  with Cons.prems(2) have "run_state (check_volumes v rp vols) w1 = (x, w')" by simp
  with Cons.IH up_to_date_check [OF assms(1,2) Cons.prems(1) y] show ?case by blast
qed simp

lemma cached_prune: "cached (prune_cache old vols new) i = (if i \<in> vol_volumeID ` set vols then cached old i else cached new i)"
  by (induction old vols new rule: prune_cache.induct) (auto simp: cached_update)

lemma up_to_date_ticks:
  assumes "reachable_claim v rp i nn" "count_list (rp_recorders rp) EventRecorder = 1" "stays_attached v rp i"
    and "up_to_date i nn w" "run_state (run_ticks n v rp) w = (x, w')"
  shows "up_to_date i nn w'"
  using assms(4,5)
proof (induction n arbitrary: w)
  case (Suc n)
  let ?w = "w\<lparr>vtrace := vtrace w @ [VGetNode (rp_localNode rp)]\<rparr>"
  have w: "up_to_date i nn ?w" using Suc.prems(1) by (simp add: up_to_date_def observed_def announced_def)
  show ?case
  proof (cases "v_getNode v (vtrace w) (rp_localNode rp)")
    case (Inl err)
    with Suc.prems(2) w show ?thesis by (simp add: ListCSIVolumes_def Get_LocalNode_def run_defs)
  next
    case (Inr att)
    obtain y w1 where y: "run_state (check_volumes v rp (attached_volumes att)) ?w = (y, w1)" by (meson surj_pair)
    let ?w1 = "w1\<lparr>conditionCache := prune_cache (conditionCache w1) (attached_volumes att) []\<rparr>"
    have "up_to_date i nn w1" using up_to_date_checks [OF assms(1,2) w y] .
    moreover have "i \<in> vol_volumeID ` set (attached_volumes att)" using assms(3) Inr by (simp add: stays_attached_def)
    ultimately have "up_to_date i nn ?w1" by (simp add: up_to_date_def cached_prune)
    moreover have "run_state (run_ticks n v rp) ?w1 = (x, w')"
      using Suc.prems(2) Inr y by (simp add: ListCSIVolumes_def Get_LocalNode_def pruneConditionCache_def run_defs)
    ultimately show ?thesis by (rule Suc.IH)
  qed
qed simp

text \<open>C33: a fresh reporter, after any number of ticks, has recorded on the claim of a volume exactly the changes
  of its condition: the sequence of all conditions the driver reported for it, with repetitions of the
  last one left out, in order, as warnings when abnormal and with reason and message. This holds whatever
  is reported in between and for the other volumes, whether or not some requests fail, as long as the
  volume stays attached and its claim can be read.\<close>

theorem conditions_announced:
  assumes "reachable_claim v rp i nn" "count_list (rp_recorders rp) EventRecorder = 1" "stays_attached v rp i"
    and "run_state (Reporter_Run ticks v rp interval) \<lparr>vtrace = [], conditionCache = []\<rparr> = (r, w)"
  shows "announced nn (vtrace w) = map (announcement nn) (remdups_adj (observed i (vtrace w)))"
proof (cases "interval \<le> 0")
  case True
  with assms(4) show ?thesis by (auto simp: Reporter_Run_def)
next
  case False
  have "up_to_date i nn \<lparr>vtrace = [], conditionCache = []\<rparr>" by (simp add: up_to_date_def cached_def)
  with False assms(4) have "up_to_date i nn w"
    by (auto simp: Reporter_Run_def intro: up_to_date_ticks [OF assms(1-3)])
  then show ?thesis by (simp add: up_to_date_def)
qed

definition vx_claim :: nsname where
  "vx_claim = \<lparr>nn_namespace = ''app'', nn_name = ''data''\<rparr>"

text \<open>A volume that is healthy at the first two checks and then is not.\<close>

definition vx_env :: venv where
  "vx_env = \<lparr>v_getNode = (\<lambda>_ _. Inr [''kubernetes.io/csi/drv^vol'', ''kubernetes.io/nfs/x'']), v_mounts = (\<lambda>_ _. Inr []),
     v_glob = (\<lambda>_ _. Inr [''vol_data.json'']),
     v_readFile = (\<lambda>_ _. Inr (Inr \<lparr>vd_Driver = ''drv'', vd_PersistentVolumeName = ''pv'', vd_VolumeID = ''vol''\<rparr>)),
     v_newClient = (\<lambda>_. None), v_pluginInfo = (\<lambda>_ _. Inr ''drv''), v_nodeCapabilities = (\<lambda>_ _. Inr [RPC_VOLUME_CONDITION]),
     v_stats = (\<lambda>h _. Inr (Some (14 < length h, ''m''))), v_getPV = (\<lambda>_ _. Inr \<lparr>cpv_name = ''pv'', cpv_claimRef = Some vx_claim\<rparr>),
     v_getPVC = (\<lambda>_ _. Inr ()), v_sha256hex = (\<lambda>i. i), v_fmtDuration = (\<lambda>_. [])\<rparr>"

definition vx_reporter :: reporter where
  "vx_reporter = \<lparr>rp_driver = \<lparr>cd_name = ''drv'', cd_supportVolumeCondition = True, cd_supportsNodeStageVolume = False\<rparr>,
     rp_localNode = ''n1'', rp_recorders = [LogRecorder, EventRecorder]\<rparr>"

definition vx_after :: vworld where
  "vx_after = snd (run_state (Reporter_Run 3 vx_env vx_reporter minute) \<lparr>vtrace = [], conditionCache = []\<rparr>)"

lemma vx_claim_found: "reachable_claim vx_env vx_reporter ''vol'' vx_claim"
proof -
  have resolve: "fst (run_state (ResolvePersistentVolumeName vx_env ''drv'' ''vol'') w) = Inr ''pv''"
      "j \<noteq> ''vol'' \<Longrightarrow> fst (run_state (ResolvePersistentVolumeName vx_env ''drv'' j) w) \<noteq> Inr p" for j w p
    by (simp_all add: ResolvePersistentVolumeName_def getPublishDetails_def vx_env_def run_defs Let_def)
  have env: "v_getPV vx_env h n = Inr \<lparr>cpv_name = ''pv'', cpv_claimRef = Some vx_claim\<rparr>" "v_getPVC vx_env h nn = Inr ()" for h n nn
    by (simp_all add: vx_env_def)
  have drv: "cd_name (rp_driver vx_reporter) = ''drv''" by (simp add: vx_reporter_def)
  show ?thesis
    unfolding reachable_claim_def drv using resolve env by (simp, blast)
qed

theorem conditions_announced_witness:
  "announced vx_claim (vtrace vx_after) =
     [VEvent vx_claim EventTypeNormal ''VolumeConditionHealthy'' ''m'', VEvent vx_claim EventTypeWarning ''VolumeConditionAbnormal'' ''m'']"
proof -
  have recorders: "count_list (rp_recorders vx_reporter) EventRecorder = 1" by (simp add: vx_reporter_def)
  have att: "stays_attached vx_env vx_reporter ''vol''"
    unfolding stays_attached_def by (simp add: vx_env_def, code_simp)
  have "observed ''vol'' (vtrace vx_after) =
      [\<lparr>vc_healthy = True, vc_message = ''m''\<rparr>, \<lparr>vc_healthy = True, vc_message = ''m''\<rparr>, \<lparr>vc_healthy = False, vc_message = ''m''\<rparr>]"
    by code_simp
  with conditions_announced [OF vx_claim_found recorders att prod.collapse [symmetric], of 3 minute] show ?thesis
    by (simp add: vx_after_def announcement_def GetReason_def)
qed

section \<open>Where a volume is staged\<close>

lemma clean_segments_filter: "clean_segments rooted before xs = clean_segments rooted before (filter (\<lambda>x. x \<noteq> []) xs)"
  by (induction rooted before xs rule: clean_segments.induct) (auto split: list.split)

text \<open>The path depends only on the segments that are not empty.\<close>

lemma filepath_Join_rooted:
  "filepath_Join ((CHR ''/'' # x) # xs) =
     CHR ''/'' # join_with ''/'' (clean_segments True [] (filter (\<lambda>y. y \<noteq> []) (concat (map (\<lambda>y. strings_Split y (CHR ''/'')) ((CHR ''/'' # x) # xs)))))"
proof -
  let ?xs = "(CHR ''/'' # x) # xs"
  have hd: "join_with ''/'' ?xs \<noteq> [] \<and> hd (join_with ''/'' ?xs) = CHR ''/''" by (cases xs) auto
  have "filepath_Clean (join_with ''/'' ?xs) =
      CHR ''/'' # join_with ''/'' (clean_segments True [] (strings_Split (join_with ''/'' ?xs) (CHR ''/'')))"
    unfolding filepath_Clean_def Let_def using hd by (simp only: if_True simp_thms)
  moreover have "strings_Split (join_with ''/'' ?xs) (CHR ''/'') = concat (map (\<lambda>y. strings_Split y (CHR ''/'')) ?xs)"
    by (rule strings_Split_join) simp
  ultimately have "filepath_Clean (join_with ''/'' ?xs) = CHR ''/'' # join_with ''/''
      (clean_segments True [] (filter (\<lambda>y. y \<noteq> []) (concat (map (\<lambda>y. strings_Split y (CHR ''/'')) ?xs))))"
    using clean_segments_filter [of True "[]" "concat (map (\<lambda>y. strings_Split y (CHR ''/'')) ?xs)"] by (simp only:)
  then show ?thesis by (simp add: filepath_Join_def)
qed

lemma staging_paths_agree:
  assumes "d_sha256hex d = v_sha256hex v"
  shows "getStagingTargetPath d (sf_stagingPath default_flags) csi = staging_path v (cv_driver csi) (cv_volumeHandle csi)"
  unfolding getStagingTargetPath_def staging_path_def default_flags_def sidecar_flags.simps assms filepath_Join_rooted by simp

text \<open>With the default staging path, the path the sidecar sends to the driver for reclaiming space of a mounted
  volume is the path at which the reporter of conditions looks for it: when the kubelet has mounted the
  volume there, the reporter asks the driver about exactly this path. The two components build the path
  in different ways.\<close>

theorem reclaim_path_is_found:
  assumes "d_sha256hex d = v_sha256hex v" "d_pv d h pvName = Inr pv" "pvol_csi pv = Some csi"
    and "run_state (srv_NodeReclaimSpace d (sf_stagingPath default_flags) pvName) h = (r, h')"
    and "h' = h @ es" "DrvNodeReclaim q \<in> set es" "dv_accessType q = Some MountVolume"
    and "\<forall>h. v_mounts v h () = Inr mps" "dv_stagingTargetPath q \<in> set mps"
  shows "fst (run_state (GetStagingPath v (cv_driver csi) (dv_volumeId q)) w) = Inr (dv_stagingTargetPath q)"
proof -
  have "dv_volumeId q = cv_volumeHandle csi \<and> dv_stagingTargetPath q = getStagingTargetPath d (sf_stagingPath default_flags) csi"
    using assms(2-7)
    by (auto simp: srv_NodeReclaimSpace_def reclaim_pv_def get_pv_def stage_secrets_def GetSecret_def run_defs Let_def
        split: sum.splits option.splits if_splits)
  then show ?thesis
    using assms(8,9) unfolding staging_paths_agree [OF assms(1)]
    by (auto simp: GetStagingPath_def isMountPoint_def run_defs Let_def)
qed

abbreviation (input) vx_path :: string where
  "vx_path \<equiv> ''/var/lib/kubelet/plugins/kubernetes.io/csi/drv/vol/globalmount''"

theorem reclaim_path_is_found_witness:
  "fst (run_state (GetStagingPath (vx_env\<lparr>v_mounts := (\<lambda>_ _. Inr [vx_path])\<rparr>) ''drv'' ''vol'') vx_after) = Inr vx_path"
proof -
  let ?v = "vx_env\<lparr>v_mounts := (\<lambda>_ _. Inr [vx_path])\<rparr>"
  let ?csi = "\<lparr>cv_driver = ''drv'', cv_volumeHandle = ''vol'', cv_volumeAttributes = [], cv_nodeStageSecretRef = Some \<lparr>nn_namespace = ''ns'', nn_name = ''stage''\<rparr>\<rparr>"
  let ?q = "\<lparr>dv_volumeId = ''vol'', dv_parameters = [], dv_stagingTargetPath = vx_path, dv_accessMode = Some 1, dv_accessType = Some MountVolume,
    dv_secrets = [(''key'', ''v'')]\<rparr>"
  let ?r = "run_state (srv_NodeReclaimSpace sx_denv (sf_stagingPath default_flags) ''pv'') []"
  have sha: "d_sha256hex sx_denv = v_sha256hex ?v" by (simp add: sx_denv_def vx_env_def)
  have pv: "d_pv sx_denv [] ''pv'' = Inr \<lparr>pvol_csi = Some ?csi, pvol_accessModes = [''ReadWriteOnce''], pvol_volumeMode = Some PersistentVolumeFilesystem\<rparr>"
    by (simp add: sx_denv_def)
  have run: "snd ?r = [] @ [PVGet ''pv'', SecretGet \<lparr>nn_namespace = ''ns'', nn_name = ''stage''\<rparr>, DrvNodeReclaim ?q]"
    by code_simp
  from reclaim_path_is_found [OF sha pv _ prod.collapse [symmetric] run, of ?csi ?q "[vx_path]" vx_after] show ?thesis
    by simp
qed

end
