(* ===== verification/Command_Tool.thy ===== *)
theory Command_Tool
  imports Sidecar_Services
begin

text \<open>
  The command line tool, \<open>cmd/csi-addons\<close>: it takes one operation and its arguments from the flags, builds
  the request, and runs the service of the sidecar for it in its own process, against the driver's
  socket. What it prints on success is left out.
\<close>

section \<open>main.go: the flags\<close>

record command =
  co_endpoint :: string
  co_stagingPath :: string
  co_operation :: string
  co_persistentVolume :: string
  co_volumeGroupReplicationContent :: string
  co_drivername :: string
  co_secret :: string
  co_cidrs :: string
  co_clusterid :: string
  co_legacy :: bool
  co_volumeGroupName :: string
  co_volumeGroupID :: string
  co_parameters :: string
  co_volumeIDs :: string

definition default_command :: command where
  "default_command = \<lparr>co_endpoint = ''unix:///tmp/csi-addons.sock'', co_stagingPath = ''/var/lib/kubelet/plugins/kubernetes.io/csi/'',
     co_operation = [], co_persistentVolume = [], co_volumeGroupReplicationContent = [], co_drivername = [], co_secret = [], co_cidrs = [],
     co_clusterid = [], co_legacy = False, co_volumeGroupName = [], co_volumeGroupID = [], co_parameters = [], co_volumeIDs = []\<rparr>"

text \<open>
  \<open>tl_kubeClient\<close> is the panic of \<open>getKubernetesClient\<close> and \<open>getVolumeReplicationClient\<close>, if any, \<open>tl_connect\<close> the
  error of the gRPC client, \<open>tl_content\<close> the group handle of a content.
\<close>

record tool_env =
  tl_kubeClient :: "string option"
  tl_connect :: "string \<Rightarrow> goerr option"
  tl_content :: "(string, string) drv_answer"

definition with_kube :: "tool_env \<Rightarrow> 'a gores sprog \<Rightarrow> 'a gores sprog" where
  "with_kube t m = (case tl_kubeClient t of Some msg \<Rightarrow> sret (GoPanic msg) | None \<Rightarrow> m)"

text \<open>The result of a service whose answer is only printed.\<close>

definition executed :: "(goerr + 'a) sprog \<Rightarrow> unit gores sprog" where
  "executed m = do {
     r \<leftarrow> m;
     sret (case r of Inl err \<Rightarrow> GoErr err | Inr _ \<Rightarrow> GoOk ())
   }"

section \<open>volumegroup.go: reading the flags\<close>

definition parseSecret :: "string \<Rightarrow> goerr + (string \<times> string)" where
  "parseSecret secretString =
     (case strings_Split secretString (CHR ''/'') of
        [namespace, name] \<Rightarrow>
          if namespace = [] then Inl (ErrMsg ''secret namespace is not set'')
          else if name = [] then Inl (ErrMsg ''secret name is not set'')
          else Inr (namespace, name)
      | _ \<Rightarrow> Inl (ErrMsg ''secret should be specified in the format `namespace/name`''))"

fun parsePairs :: "string list \<Rightarrow> strmap \<Rightarrow> goerr + strmap" where
  "parsePairs [] params = Inr params"
| "parsePairs (pair # pairs) params =
     (case strings_SplitN2 pair (CHR ''='') of
        [k, v] \<Rightarrow> parsePairs pairs (AList.update k v params)
      | _ \<Rightarrow> Inl (ErrMsg (''invalid parameter : '' @ pair)))"

definition parseParameters :: "string \<Rightarrow> goerr + strmap" where
  "parseParameters paramString =
     (if paramString \<noteq> [] then parsePairs (strings_Split paramString (CHR '','')) [] else Inr [])"

record group_base =
  gb_volumeGroupID :: string
  gb_volumeGroupName :: string
  gb_secretName :: string
  gb_secretNamespace :: string
  gb_parameters :: strmap
  gb_volumeIDs :: "string list"

definition empty_group :: group_base where
  "empty_group = \<lparr>gb_volumeGroupID = [], gb_volumeGroupName = [], gb_secretName = [], gb_secretNamespace = [], gb_parameters = [], gb_volumeIDs = []\<rparr>"

definition SetVolumeGroupID :: "string \<Rightarrow> group_base \<Rightarrow> goerr + group_base" where
  "SetVolumeGroupID i g = (if i = [] then Inl (ErrMsg ''volumeGroupID is not set'') else Inr (g\<lparr>gb_volumeGroupID := i\<rparr>))"

definition SetVolumeGroupName :: "string \<Rightarrow> group_base \<Rightarrow> goerr + group_base" where
  "SetVolumeGroupName n g = (if n = [] then Inl (ErrMsg ''volumeGroupName is not set'') else Inr (g\<lparr>gb_volumeGroupName := n\<rparr>))"

definition SetSecret :: "string \<Rightarrow> group_base \<Rightarrow> goerr + group_base" where
  "SetSecret secret g =
     (case parseSecret secret of
        Inl err \<Rightarrow> Inl (ErrWrap ''failed to parse secret: '' err [])
      | Inr (namespace, name) \<Rightarrow> Inr (g\<lparr>gb_secretNamespace := namespace, gb_secretName := name\<rparr>))"

definition SetParameters :: "string \<Rightarrow> group_base \<Rightarrow> goerr + group_base" where
  "SetParameters parameters g =
     (case parseParameters parameters of
        Inl err \<Rightarrow> Inl (ErrWrap ''failed to parse parameters: '' err [])
      | Inr params \<Rightarrow> Inr (g\<lparr>gb_parameters := params\<rparr>))"

definition SetVolumeIDs :: "string \<Rightarrow> group_base \<Rightarrow> group_base" where
  "SetVolumeIDs volumeids g = (if volumeids \<noteq> [] then g\<lparr>gb_volumeIDs := strings_Split volumeids (CHR '','')\<rparr> else g)"

definition and_then :: "goerr + 'a \<Rightarrow> ('a \<Rightarrow> goerr + 'b) \<Rightarrow> goerr + 'b" where
  "and_then r f = (case r of Inl err \<Rightarrow> Inl err | Inr x \<Rightarrow> f x)"

definition CreateVolumeGroup_Init :: "command \<Rightarrow> goerr + group_base" where
  "CreateVolumeGroup_Init c =
     and_then (SetVolumeGroupName (co_volumeGroupName c) empty_group) (\<lambda>g.
       and_then (SetParameters (co_parameters c) g) (\<lambda>g.
         and_then (SetSecret (co_secret c) g) (\<lambda>g. Inr (SetVolumeIDs (co_volumeIDs c) g))))"

definition ModifyVolumeGroupMembership_Init :: "command \<Rightarrow> goerr + group_base" where
  "ModifyVolumeGroupMembership_Init c =
     and_then (SetVolumeGroupID (co_volumeGroupID c) empty_group) (\<lambda>g.
       and_then (SetSecret (co_secret c) (SetVolumeIDs (co_volumeIDs c) g)) (\<lambda>g. SetParameters (co_parameters c) g))"

definition DeleteVolumeGroup_Init :: "command \<Rightarrow> goerr + group_base" where
  "DeleteVolumeGroup_Init c =
     and_then (SetVolumeGroupID (co_volumeGroupID c) empty_group) (\<lambda>g. SetSecret (co_secret c) g)"

definition ControllerGetVolumeGroup_Init :: "command \<Rightarrow> goerr + group_base" where
  "ControllerGetVolumeGroup_Init c =
     and_then (SetVolumeGroupID (co_volumeGroupID c) empty_group) (\<lambda>g. SetSecret (co_secret c) g)"

text \<open>The requests; the field \<open>gq_id\<close> is the name of a group to create and the identifier of an existing one.\<close>

definition group_request :: "string \<Rightarrow> group_base \<Rightarrow> group_req" where
  "group_request i g = \<lparr>gq_id = i, gq_volumeIds = gb_volumeIDs g, gq_parameters = gb_parameters g, gq_secretName = gb_secretName g,
     gq_secretNamespace = gb_secretNamespace g\<rparr>"

definition CreateVolumeGroup_Execute :: "tool_env \<Rightarrow> denv \<Rightarrow> group_base \<Rightarrow> unit gores sprog" where
  "CreateVolumeGroup_Execute t d g = with_kube t (executed (srv_CreateVolumeGroup d (group_request (gb_volumeGroupName g) g)))"

definition ModifyVolumeGroupMembership_Execute :: "tool_env \<Rightarrow> denv \<Rightarrow> group_base \<Rightarrow> unit gores sprog" where
  "ModifyVolumeGroupMembership_Execute t d g =
     with_kube t (executed (srv_ModifyVolumeGroupMembership d (group_request (gb_volumeGroupID g) g)))"

definition DeleteVolumeGroup_Execute :: "tool_env \<Rightarrow> denv \<Rightarrow> group_base \<Rightarrow> unit gores sprog" where
  "DeleteVolumeGroup_Execute t d g =
     with_kube t (executed (srv_DeleteVolumeGroup d ((group_request (gb_volumeGroupID g) g)\<lparr>gq_volumeIds := [], gq_parameters := []\<rparr>)))"

definition ControllerGetVolumeGroup_Execute :: "tool_env \<Rightarrow> denv \<Rightarrow> group_base \<Rightarrow> unit gores sprog" where
  "ControllerGetVolumeGroup_Execute t d g =
     with_kube t (executed (srv_ControllerGetVolumeGroup d ((group_request (gb_volumeGroupID g) g)\<lparr>gq_volumeIds := [], gq_parameters := []\<rparr>)))"

section \<open>replication.go\<close>

record replication_base =
  rb_parameters :: strmap
  rb_secretName :: string
  rb_secretNamespace :: string
  rb_volumeID :: string
  rb_groupID :: string

definition tool_setReplicationSource :: "replication_base \<Rightarrow> source option option \<Rightarrow> goerr + source option option" where
  "tool_setReplicationSource v req =
     (case req of
        None \<Rightarrow> Inl (ErrMsg ''replication source is not set'')
      | Some _ \<Rightarrow>
          if rb_volumeID v \<noteq> [] \<and> rb_groupID v \<noteq> [] then Inl (ErrMsg ''only one of volumeID or groupID should be set'')
          else if rb_volumeID v \<noteq> [] then Inr (Some (Some (VolumeSource (rb_volumeID v))))
          else if rb_groupID v \<noteq> [] then Inr (Some (Some (VolumeGroupSource (rb_groupID v))))
          else Inl (ErrMsg ''both volumeID and groupID is not set''))"

definition replication_volume :: "denv \<Rightarrow> string \<Rightarrow> replication_base \<Rightarrow> replication_base gores sprog" where
  "replication_volume d pv rep = do {
     r \<leftarrow> scall (\<lambda>h. d_pv d h pv) (PVGet pv);
     sret (case r of
        Inl _ \<Rightarrow> GoErr (ErrMsg (''failed to get pv '' @ fmt_q pv))
      | Inr vol \<Rightarrow>
          (case pvol_csi vol of
             None \<Rightarrow> GoErr (ErrMsg (''pv '' @ fmt_q pv @ '' is not a CSI volume''))
           | Some csi \<Rightarrow>
               if cv_volumeHandle csi = [] then GoErr (ErrMsg ''volume ID is not set'')
               else GoOk (rep\<lparr>rb_volumeID := cv_volumeHandle csi\<rparr>)))
   }"

definition replication_group :: "tool_env \<Rightarrow> string \<Rightarrow> replication_base \<Rightarrow> replication_base gores sprog" where
  "replication_group t content rep = do {
     r \<leftarrow> scall (\<lambda>h. tl_content t h content) (ContentGet content);
     sret (case r of
        Inl _ \<Rightarrow> GoErr (ErrMsg (''failed to get VolumeGroupReplicationContent '' @ fmt_q content))
      | Inr handle \<Rightarrow>
          if handle = [] then GoErr (ErrMsg ''volume group ID is not set'')
          else GoOk (rep\<lparr>rb_groupID := handle\<rparr>))
   }"

definition Replication_Init :: "tool_env \<Rightarrow> denv \<Rightarrow> command \<Rightarrow> replication_base gores sprog" where
  "Replication_Init t d c =
     (if co_clusterid c = [] then sret (GoErr (ErrMsg ''clusterID not set''))
      else
        (case parseSecret (co_secret c) of
           Inl err \<Rightarrow> sret (GoErr err)
         | Inr (namespace, name) \<Rightarrow>
             let rep = \<lparr>rb_parameters = [(''clusterID'', co_clusterid c)], rb_secretName = name, rb_secretNamespace = namespace,
                 rb_volumeID = [], rb_groupID = []\<rparr>
             in if co_persistentVolume c \<noteq> [] \<and> co_volumeGroupReplicationContent c \<noteq> []
                then sret (GoErr (ErrMsg ''only one of persistentVolume or volumeGroupReplicationContent should be set''))
                else if co_persistentVolume c \<noteq> [] then with_kube t (replication_volume d (co_persistentVolume c) rep)
                else if co_volumeGroupReplicationContent c \<noteq> []
                then with_kube t (replication_group t (co_volumeGroupReplicationContent c) rep)
                else sret (GoErr (ErrMsg ''either persistentVolume or volumeGroupReplicationContent should be set''))))"

text \<open>The six operations build the request alike: without parameters, and with no source to fill in.\<close>

definition replication_request :: "replication_base \<Rightarrow> proto_repl" where
  "replication_request rep = \<lparr>pq_source = None, pq_replicationId = [], pq_parameters = [], pq_secretName = rb_secretName rep,
     pq_secretNamespace = rb_secretNamespace rep, pq_force = False\<rparr>"

definition Replication_Execute :: "tool_env \<Rightarrow> (proto_repl \<Rightarrow> (goerr + 'a) sprog) \<Rightarrow> replication_base \<Rightarrow> unit gores sprog" where
  "Replication_Execute t service rep =
     with_kube t
       (let req = replication_request rep
        in case tool_setReplicationSource rep (pq_source req) of
             Inl err \<Rightarrow> sret (GoErr err)
           | Inr src \<Rightarrow> executed (service (req\<lparr>pq_source := src\<rparr>)))"

section \<open>networkfence.go\<close>

definition Fence_Init :: "command \<Rightarrow> goerr + fence_req" where
  "Fence_Init c =
     (if co_clusterid c = [] then Inl (ErrMsg ''clusterID not set'')
      else
        (case parseSecret (co_secret c) of
           Inl err \<Rightarrow> Inl err
         | Inr (namespace, name) \<Rightarrow>
             (let cidrs = strings_Split (co_cidrs c) (CHR '','')
              in if cidrs = [] \<or> cidrs = [[]] then Inl (ErrMsg ''cidrs not set'')
                 else Inr \<lparr>fq_parameters = [(''clusterID'', co_clusterid c)], fq_secretName = name, fq_secretNamespace = namespace, fq_cidrs = cidrs\<rparr>)))"

definition NetworkFence_Execute :: "tool_env \<Rightarrow> denv \<Rightarrow> fence_req \<Rightarrow> unit gores sprog" where
  "NetworkFence_Execute t d req = with_kube t (executed (srv_FenceClusterNetwork d req))"

definition NetworkUnFence_Execute :: "tool_env \<Rightarrow> denv \<Rightarrow> fence_req \<Rightarrow> unit gores sprog" where
  "NetworkUnFence_Execute t d req = with_kube t (executed (srv_UnFenceClusterNetwork d req))"

section \<open>reclaimspace.go, encryptionkeyrotation.go, identity.go\<close>

definition ControllerReclaimSpace_Init :: "command \<Rightarrow> goerr + string" where
  "ControllerReclaimSpace_Init c =
     (if co_persistentVolume c = [] then Inl (ErrMsg ''persistentvolume name is not set'') else Inr (co_persistentVolume c))"

definition ControllerReclaimSpace_Execute :: "tool_env \<Rightarrow> denv \<Rightarrow> string \<Rightarrow> unit gores sprog" where
  "ControllerReclaimSpace_Execute t d pv = with_kube t (executed (srv_ControllerReclaimSpace d pv))"

definition NodeReclaimSpace_Init :: "denv \<Rightarrow> command \<Rightarrow> goerr + (string \<times> string)" where
  "NodeReclaimSpace_Init d c =
     (if co_persistentVolume c = [] then Inl (ErrMsg ''persistentvolume name is not set'')
      else if co_stagingPath c = [] then Inl (ErrMsg ''stagingpath is not set'')
      else if \<not> co_legacy c then
        if co_drivername c = [] then Inl (ErrMsg ''drivername is not set'')
        else Inr (co_persistentVolume c, co_stagingPath c @ ''/'' @ co_drivername c @ ''/'' @ d_sha256hex d (co_persistentVolume c) @ ''/globalmount'')
      else Inr (co_persistentVolume c, co_stagingPath c @ ''/pv/'' @ co_persistentVolume c @ ''/globalmount''))"

definition NodeReclaimSpace_Execute :: "tool_env \<Rightarrow> denv \<Rightarrow> string \<times> string \<Rightarrow> unit gores sprog" where
  "NodeReclaimSpace_Execute t d nrs =
     with_kube t (do {
       r \<leftarrow> srv_NodeReclaimSpace d (snd nrs) (fst nrs);
       sret (case r of GoOk _ \<Rightarrow> GoOk () | GoErr err \<Rightarrow> GoErr err | GoPanic msg \<Rightarrow> GoPanic msg)
     })"

definition EncryptionKeyRotation_Init :: "command \<Rightarrow> goerr + string" where
  "EncryptionKeyRotation_Init c =
     (if co_persistentVolume c = [] then Inl (ErrMsg ''PersistentVolume name is not set'') else Inr (co_persistentVolume c))"

text \<open>A response without an error is never nil.\<close>

definition EncryptionKeyRotation_Execute :: "tool_env \<Rightarrow> denv \<Rightarrow> string \<Rightarrow> unit gores sprog" where
  "EncryptionKeyRotation_Execute t d pv = with_kube t (executed (srv_EncryptionKeyRotate d pv))"

text \<open>The three calls of the identity service need neither flags nor Kubernetes.\<close>

definition GetIdentity_Execute :: "denv \<Rightarrow> unit gores sprog" where
  "GetIdentity_Execute d = executed (srv_Identity d ''GetIdentity'')"
definition GetCapabilities_Execute :: "denv \<Rightarrow> unit gores sprog" where
  "GetCapabilities_Execute d = executed (srv_Identity d ''GetCapabilities'')"
definition Probe_Execute :: "denv \<Rightarrow> unit gores sprog" where
  "Probe_Execute d = executed (srv_Identity d ''Probe'')"

section \<open>main.go: the operations\<close>

text \<open>
  The registered operations as pairs of \<open>Init\<close> and \<open>Execute\<close>, joined as \<open>main\<close> joins them: the second part is
  run with what the first one stored, and the error says in which part it happened.
\<close>

datatype tool_result = Finished | LogFatal string | ToolPanic string

definition run_op :: "string \<Rightarrow> 'a gores sprog \<Rightarrow> ('a \<Rightarrow> unit gores sprog) \<Rightarrow> tool_result sprog" where
  "run_op name init execute = do {
     r \<leftarrow> init;
     (case r of
        GoPanic msg \<Rightarrow> sret (ToolPanic msg)
      | GoErr err \<Rightarrow> sret (LogFatal (''ERROR: failed to initialize '' @ fmt_q name @ '': '' @ Error err))
      | GoOk x \<Rightarrow> do {
          res \<leftarrow> execute x;
          sret (case res of
             GoPanic msg \<Rightarrow> ToolPanic msg
           | GoErr err \<Rightarrow> LogFatal (''ERROR: failed to execute '' @ fmt_q name @ '': '' @ Error err)
           | GoOk _ \<Rightarrow> Finished)
        })
   }"

definition pure_init :: "goerr + 'a \<Rightarrow> 'a gores sprog" where
  "pure_init r = sret (case r of Inl err \<Rightarrow> GoErr err | Inr x \<Rightarrow> GoOk x)"

definition operation :: "tool_env \<Rightarrow> denv \<Rightarrow> command \<Rightarrow> tool_result sprog option" where
  "operation t d c =
     (let op = co_operation c
      in if op = ''EnableVolumeReplication'' then Some (run_op op (Replication_Init t d c) (Replication_Execute t (srv_EnableVolumeReplication d)))
         else if op = ''DisableVolumeReplication'' then Some (run_op op (Replication_Init t d c) (Replication_Execute t (srv_DisableVolumeReplication d)))
         else if op = ''PromoteVolume'' then Some (run_op op (Replication_Init t d c) (Replication_Execute t (srv_PromoteVolume d)))
         else if op = ''DemoteVolume'' then Some (run_op op (Replication_Init t d c) (Replication_Execute t (srv_DemoteVolume d)))
         else if op = ''ResyncVolume'' then Some (run_op op (Replication_Init t d c) (Replication_Execute t (srv_ResyncVolume d)))
         else if op = ''GetVolumeReplicationInfo'' then Some (run_op op (Replication_Init t d c) (Replication_Execute t (srv_GetVolumeReplicationInfo d)))
         else if op = ''CreateVolumeGroup'' then Some (run_op op (pure_init (CreateVolumeGroup_Init c)) (CreateVolumeGroup_Execute t d))
         else if op = ''ModifyVolumeGroupMembership'' then Some (run_op op (pure_init (ModifyVolumeGroupMembership_Init c)) (ModifyVolumeGroupMembership_Execute t d))
         else if op = ''DeleteVolumeGroup'' then Some (run_op op (pure_init (DeleteVolumeGroup_Init c)) (DeleteVolumeGroup_Execute t d))
         else if op = ''ControllerGetVolumeGroup'' then Some (run_op op (pure_init (ControllerGetVolumeGroup_Init c)) (ControllerGetVolumeGroup_Execute t d))
         else if op = ''NetworkFence'' then Some (run_op op (pure_init (Fence_Init c)) (NetworkFence_Execute t d))
         else if op = ''NetworkUnFence'' then Some (run_op op (pure_init (Fence_Init c)) (NetworkUnFence_Execute t d))
         else if op = ''ControllerReclaimSpace''
         then Some (run_op op (pure_init (ControllerReclaimSpace_Init c)) (ControllerReclaimSpace_Execute t d))
         else if op = ''NodeReclaimSpace'' then Some (run_op op (pure_init (NodeReclaimSpace_Init d c)) (NodeReclaimSpace_Execute t d))
         else if op = ''EncryptionKeyRotation''
         then Some (run_op op (pure_init (EncryptionKeyRotation_Init c)) (EncryptionKeyRotation_Execute t d))
         else if op = ''GetIdentity'' then Some (run_op op (pure_init (Inr ())) (\<lambda>_. GetIdentity_Execute d))
         else if op = ''GetCapabilities'' then Some (run_op op (pure_init (Inr ())) (\<lambda>_. GetCapabilities_Execute d))
         else if op = ''Probe'' then Some (run_op op (pure_init (Inr ())) (\<lambda>_. Probe_Execute d))
         else None)"

definition tool_main :: "tool_env \<Rightarrow> denv \<Rightarrow> command \<Rightarrow> tool_result sprog" where
  "tool_main t d c =
     (case operation t d c of
        None \<Rightarrow> sret (LogFatal (''ERROR: operation '' @ fmt_q (co_operation c) @ '' not found''))
      | Some run \<Rightarrow>
          (case tl_connect t (co_endpoint c) of
             Some err \<Rightarrow> sret (ToolPanic (''failed to connect to '' @ fmt_q (co_endpoint c) @ '': '' @ Error err))
           | None \<Rightarrow> run))"

end
