(* ===== verification/Props_Tool.thy ===== *)
theory Props_Tool
  imports Command_Tool Props_Sidecar
begin

text \<open>
  Properties of the command line tool: its flags reach the driver for groups, and they never do for
  replication.
\<close>

section \<open>Replication\<close>

text \<open>The operations of the tool on replicated volumes.\<close>

definition replication_operations :: "string list" where
  "replication_operations = [''EnableVolumeReplication'', ''DisableVolumeReplication'', ''PromoteVolume'', ''DemoteVolume'', ''ResyncVolume'',
     ''GetVolumeReplicationInfo'']"

lemma run_Replication_Execute:
  "run_state (Replication_Execute t service rep) h =
     ((case tl_kubeClient t of Some msg \<Rightarrow> GoPanic msg | None \<Rightarrow> GoErr (ErrMsg ''replication source is not set'')), h)"
  by (simp add: Replication_Execute_def with_kube_def replication_request_def tool_setReplicationSource_def Let_def split: option.split)

lemma Replication_Init_reads:
  assumes "run_state (Replication_Init t d c) h = (r, h')"
  shows "h' = h \<or> h' = h @ [PVGet (co_persistentVolume c)] \<or> h' = h @ [ContentGet (co_volumeGroupReplicationContent c)]"
  using assms
  by (auto simp: Replication_Init_def with_kube_def replication_volume_def replication_group_def run_defs Let_def
      split: if_splits sum.splits option.splits)

lemma run_op_replication:
  assumes "run_state (run_op op (Replication_Init t d c) (Replication_Execute t service)) h = (r, h')"
  shows "r \<noteq> Finished \<and> (h' = h \<or> h' = h @ [PVGet (co_persistentVolume c)] \<or> h' = h @ [ContentGet (co_volumeGroupReplicationContent c)])"
proof -
  obtain x h1 where x: "run_state (Replication_Init t d c) h = (x, h1)" by fastforce
  with assms have "r \<noteq> Finished \<and> h' = h1"
    by (auto simp: run_op_def run_Replication_Execute split: gores.splits option.splits)
  with Replication_Init_reads [OF x] show ?thesis by simp
qed

text \<open>C38: none of the six replication operations of the tool ever succeeds, and none of them ever calls the driver:
  the source of the request is filled in through a pointer that is always nil. The tool only reads the
  volume or the content it was given.\<close>

theorem tool_replication_never_sent:
  assumes "co_operation c \<in> set replication_operations" "run_state (tool_main t d c) h = (r, h')"
  shows "r \<noteq> Finished \<and> (h' = h \<or> h' = h @ [PVGet (co_persistentVolume c)] \<or> h' = h @ [ContentGet (co_volumeGroupReplicationContent c)])"
proof (cases "tl_connect t (co_endpoint c)")
  case None
  have "\<exists>op service. operation t d c = Some (run_op op (Replication_Init t d c) (Replication_Execute t (service :: proto_repl \<Rightarrow> (goerr + unit) sprog))) \<or>
      (\<exists>service. operation t d c = Some (run_op op (Replication_Init t d c) (Replication_Execute t (service :: proto_repl \<Rightarrow> (goerr + bool) sprog)))) \<or>
      (\<exists>service. operation t d c = Some (run_op op (Replication_Init t d c) (Replication_Execute t (service :: proto_repl \<Rightarrow> (goerr + info_response) sprog))))"
    using assms(1) by (auto simp: replication_operations_def operation_def Let_def)
  with assms(2) None show ?thesis by (auto simp: tool_main_def dest!: run_op_replication)
next
  case (Some err)
  with assms(2) show ?thesis by (auto simp: tool_main_def split: option.splits)
qed

definition tx_env :: tool_env where
  "tx_env = \<lparr>tl_kubeClient = None, tl_connect = (\<lambda>_. None), tl_content = (\<lambda>_ _. Inr ''handle'')\<rparr>"

definition tx_command :: command where
  "tx_command = default_command\<lparr>co_operation := ''PromoteVolume'', co_persistentVolume := ''pv'', co_secret := ''ns/s'', co_clusterid := ''c''\<rparr>"

theorem tool_replication_never_sent_witness:
  "fst (run_state (tool_main tx_env sx_denv tx_command) []) \<noteq> Finished"
proof -
  have "co_operation tx_command \<in> set replication_operations" by (simp add: tx_command_def replication_operations_def)
  from tool_replication_never_sent [OF this prod.collapse [symmetric]] show ?thesis by blast
qed

section \<open>Groups\<close>

lemma parsePairs_list:
  assumes "\<And>k v. (k, v) \<in> set ps \<Longrightarrow> CHR ''='' \<notin> set k" "distinct (map fst (acc @ ps))"
  shows "parsePairs (map (\<lambda>(k, v). k @ ''='' @ v) ps) acc = Inr (acc @ ps)"
  using assms
proof (induction ps arbitrary: acc)
  case (Cons p ps)
  obtain k v where p: "p = (k, v)" by force
  have k: "CHR ''='' \<notin> set k" using Cons.prems(1) [of k v] p by simp
  then have "takeWhile (\<lambda>x. x \<noteq> CHR ''='') (k @ ''='' @ v) = k" "dropWhile (\<lambda>x. x \<noteq> CHR ''='') (k @ ''='' @ v) = ''='' @ v"
    by (auto simp: takeWhile_append dropWhile_append)
  then have "strings_SplitN2 (k @ ''='' @ v) (CHR ''='') = [k, v]"
    by (simp add: strings_SplitN2_def)
  moreover have "AList.update k v acc = acc @ [(k, v)]"
    using Cons.prems(2) p by (induction acc) auto
  ultimately show ?case
    using Cons.IH [of "acc @ [(k, v)]"] Cons.prems p by fastforce
qed simp

lemma parseParameters_join:
  assumes "\<And>k v. (k, v) \<in> set ps \<Longrightarrow> CHR ''='' \<notin> set k \<and> CHR '','' \<notin> set k \<and> CHR '','' \<notin> set v" "distinct (map fst ps)"
  shows "parseParameters (join_with '','' (map (\<lambda>(k, v). k @ ''='' @ v) ps)) = Inr ps"
proof (cases "ps = []")
  case False
  let ?qs = "map (\<lambda>(k, v). k @ ''='' @ v) ps"
  have "strings_Split (join_with '','' ?qs) (CHR '','') = ?qs"
    using False assms(1) by (intro strings_Split_join_id) fastforce+
  moreover have "join_with '','' ?qs \<noteq> []"
    using False by (cases ps; cases "tl ps") auto
  ultimately show ?thesis
    using parsePairs_list [of ps "[]"] assms by (simp add: parseParameters_def)
qed (simp add: parseParameters_def)

lemma parseSecret_join:
  assumes "ns \<noteq> []" "n \<noteq> []" "CHR ''/'' \<notin> set ns" "CHR ''/'' \<notin> set n"
  shows "parseSecret (ns @ ''/'' @ n) = Inr (ns, n)"
  using assms strings_Split_append [of ns "CHR ''/''" n] by (simp add: parseSecret_def strings_Split_id)

text \<open>What is written on the command line for a new volume group is what the driver is asked for: name, volumes
  and parameters, joined by commas and equal signs as the help text describes, and the secret as
  namespace and name, are taken apart into exactly these values, and the driver is called once with them
  and the content of the secret.\<close>

theorem tool_group_roundtrip:
  assumes "co_operation c = ''CreateVolumeGroup''" "co_volumeGroupName c = name" "name \<noteq> []"
    and "co_secret c = ns @ ''/'' @ n" "ns \<noteq> []" "n \<noteq> []" "CHR ''/'' \<notin> set ns" "CHR ''/'' \<notin> set n"
    and "co_volumeIDs c = join_with '','' vids" "vids \<noteq> [[]]" "\<forall>i \<in> set vids. CHR '','' \<notin> set i"
    and "co_parameters c = join_with '','' (map (\<lambda>(k, v). k @ ''='' @ v) ps)" "distinct (map fst ps)"
    and "\<forall>(k, v) \<in> set ps. CHR ''='' \<notin> set k \<and> CHR '','' \<notin> set k \<and> CHR '','' \<notin> set v"
    and "tl_kubeClient t = None" "tl_connect t (co_endpoint c) = None" "d_secret d h \<lparr>nn_namespace = ns, nn_name = n\<rparr> = Inr data"
  shows "snd (run_state (tool_main t d c) h) = h @ [SecretGet \<lparr>nn_namespace = ns, nn_name = n\<rparr>,
    DrvCreateGroup \<lparr>dg_id = name, dg_volumeIds = vids, dg_parameters = ps, dg_secrets = data\<rparr>]"
proof -
  have vids: "gb_volumeIDs (SetVolumeIDs (co_volumeIDs c) g) = vids" if "gb_volumeIDs g = []" for g
  proof (cases "vids = []")
    case False
    then have "join_with '','' vids \<noteq> []"
      using assms(10) by (cases vids; cases "tl vids") auto
    with False assms(9,11) show ?thesis
      using strings_Split_join_id [of vids "CHR '',''"] by (simp add: SetVolumeIDs_def)
  qed (use that assms(9) in \<open>simp add: SetVolumeIDs_def\<close>)
  have keep: "SetVolumeIDs i g = g\<lparr>gb_volumeIDs := gb_volumeIDs (SetVolumeIDs i g)\<rparr>" for i g
    by (simp add: SetVolumeIDs_def)
  have params: "parseParameters (co_parameters c) = Inr ps"
    unfolding assms(12) using assms(13,14) by (intro parseParameters_join) auto
  let ?g = "\<lparr>gb_volumeGroupID = [], gb_volumeGroupName = name, gb_secretName = n, gb_secretNamespace = ns, gb_parameters = ps, gb_volumeIDs = vids\<rparr>"
  have "CreateVolumeGroup_Init c = Inr ?g"
    using assms(2,3) params parseSecret_join [OF assms(5-8)] vids
      keep [of "co_volumeIDs c" "\<lparr>gb_volumeGroupID = [], gb_volumeGroupName = name, gb_secretName = n, gb_secretNamespace = ns, gb_parameters = ps, gb_volumeIDs = []\<rparr>"]
    by (simp add: CreateVolumeGroup_Init_def and_then_def SetVolumeGroupName_def SetParameters_def SetSecret_def empty_group_def assms(4))
  moreover have "operation t d c = Some (run_op ''CreateVolumeGroup'' (pure_init (CreateVolumeGroup_Init c)) (CreateVolumeGroup_Execute t d))"
    by (simp add: operation_def Let_def assms(1))
  ultimately show ?thesis
    using assms(15-17)
    by (simp add: tool_main_def run_op_def pure_init_def CreateVolumeGroup_Execute_def with_kube_def executed_def group_request_def
        srv_CreateVolumeGroup_def with_secret_def GetSecret_def run_defs Let_def split: sum.split)
qed

definition tx_create :: command where
  "tx_create = default_command\<lparr>co_operation := ''CreateVolumeGroup'', co_volumeGroupName := ''g'', co_secret := ''ns/s'',
     co_volumeIDs := ''v1,v2'', co_parameters := ''a=b,c=d=e''\<rparr>"

theorem tool_group_roundtrip_witness:
  "snd (run_state (tool_main tx_env sx_denv tx_create) []) = [SecretGet \<lparr>nn_namespace = ''ns'', nn_name = ''s''\<rparr>,
     DrvCreateGroup \<lparr>dg_id = ''g'', dg_volumeIds = [''v1'', ''v2''], dg_parameters = [(''a'', ''b''), (''c'', ''d=e'')], dg_secrets = [(''key'', ''v'')]\<rparr>]"
  using tool_group_roundtrip [of tx_create "''g''" "''ns''" "''s''" "[''v1'', ''v2'']" "[(''a'', ''b''), (''c'', ''d=e'')]" tx_env sx_denv "[]" "[(''key'', ''v'')]"]
  by (simp add: tx_create_def default_command_def tx_env_def sx_denv_def)

section \<open>Reclaiming space on a node\<close>

text \<open>
  The tool passes the whole staging path of a volume to the service as the directory below which volumes
  are staged, so the driver is asked about a path in which the staging path is followed by another one.
\<close>

lemma tool_node_path:
  assumes "NodeReclaimSpace_Init d c = Inr nrs" "d_pv d h (co_persistentVolume c) = Inr pv" "pvol_csi pv = Some csi"
    and "run_state (NodeReclaimSpace_Execute t d nrs) h = (r, h @ es)" "DrvNodeReclaim q \<in> set es" "dv_accessType q = Some MountVolume"
  shows "dv_stagingTargetPath q = filepath_Join [snd nrs, cv_driver csi, d_sha256hex d (cv_volumeHandle csi), ''globalmount''] \<and>
    (\<exists>dir. snd nrs = dir @ ''/globalmount'')"
proof
  have pv: "fst nrs = co_persistentVolume c"
    using assms(1) by (auto simp: NodeReclaimSpace_Init_def split: if_splits)
  with assms(2-6) show "dv_stagingTargetPath q = filepath_Join [snd nrs, cv_driver csi, d_sha256hex d (cv_volumeHandle csi), ''globalmount'']"
    by (auto simp: NodeReclaimSpace_Execute_def with_kube_def srv_NodeReclaimSpace_def reclaim_pv_def get_pv_def stage_secrets_def GetSecret_def
        getStagingTargetPath_def run_defs Let_def split: option.splits sum.splits if_splits)
  show "\<exists>dir. snd nrs = dir @ ''/globalmount''"
    using assms(1) by (auto simp: NodeReclaimSpace_Init_def split: if_splits intro: exI [of _ "co_stagingPath c @ _"])
qed

end
