(* ===== verification/Pool_Frame.thy ===== *)
theory Pool_Frame
  imports Manager Node_Facts Network_Fence Volume_Group_Replication
begin

text \<open>
  Which controllers may change whom the connection pool knows. Only the controller of nodes adds and
  removes connections; every other controller may reconnect what it looks up, and leaves the keys, their
  order and the identity of the connections as they were.
\<close>

section \<open>Programs that keep the identities of the pool\<close>

named_theorems ids_intros \<open>compositional rules for programs that keep the identities of the pool\<close>

definition keeps_ids :: "'a prog \<Rightarrow> bool" where
  "keeps_ids m \<longleftrightarrow>
     (\<forall>w. pool_ok w \<longrightarrow> pool_ok (snd (run_state m w)) \<and> ids (pool (snd (run_state m w))) = ids (pool w))"

lemma keeps_idsI:
  "(\<And>x w w'. run_state m w = (x, w') \<Longrightarrow> pool_ok w \<Longrightarrow> pool_ok w' \<and> ids (pool w') = ids (pool w)) \<Longrightarrow> keeps_ids m"
  unfolding keeps_ids_def by (metis prod.collapse)

lemma keeps_idsD:
  "keeps_ids m \<Longrightarrow> run_state m w = (x, w') \<Longrightarrow> pool_ok w \<Longrightarrow> pool_ok w' \<and> ids (pool w') = ids (pool w)"
  unfolding keeps_ids_def by (metis snd_conv)

lemma keeps_ids_basic [ids_intros]:
  "keeps_ids (ret x)" "keeps_ids (call ans ev)" "keeps_ids (ask f)" "keeps_ids get_pool" "keeps_ids (now e)"
  by (simp_all add: keeps_ids_def pool_ok_def run_defs now_def)

lemma keeps_ids_bind [ids_intros]:
  assumes "keeps_ids m" "\<And>x. keeps_ids (f x)"
  shows "keeps_ids (State_Monad.bind m f)"
proof (rule keeps_idsI)
  fix y w w''
  assume "run_state (State_Monad.bind m f) w = (y, w'')" and ok: "pool_ok w"
  then obtain x w' where "run_state m w = (x, w')" "run_state (f x) w' = (y, w'')" by (elim run_bindE)
  with assms ok show "pool_ok w'' \<and> ids (pool w'') = ids (pool w)" by (metis keeps_idsD)
qed

lemma keeps_ids_if [ids_intros]: "keeps_ids m \<Longrightarrow> keeps_ids n \<Longrightarrow> keeps_ids (if b then m else n)"
  by simp

lemma keeps_ids_let [ids_intros]: "(\<And>x. keeps_ids (f x)) \<Longrightarrow> keeps_ids (Let x f)"
  by (simp add: Let_def)

lemma keeps_ids_sum [ids_intros]:
  "(\<And>x. keeps_ids (f x)) \<Longrightarrow> (\<And>y. keeps_ids (g y)) \<Longrightarrow> keeps_ids (case s of Inl x \<Rightarrow> f x | Inr y \<Rightarrow> g y)"
  by (cases s) auto

lemma keeps_ids_option [ids_intros]:
  "keeps_ids m \<Longrightarrow> (\<And>y. keeps_ids (g y)) \<Longrightarrow> keeps_ids (case s of None \<Rightarrow> m | Some y \<Rightarrow> g y)"
  by (cases s) auto

lemma keeps_ids_prod [ids_intros]: "(\<And>x y. keeps_ids (f x y)) \<Longrightarrow> keeps_ids (case p of (x, y) \<Rightarrow> f x y)"
  by (cases p) auto

lemma keeps_ids_list [ids_intros]:
  "keeps_ids m \<Longrightarrow> (\<And>y ys. keeps_ids (g y ys)) \<Longrightarrow> keeps_ids (case s of [] \<Rightarrow> m | y # ys \<Rightarrow> g y ys)"
  by (cases s) auto

lemma keeps_ids_gores [ids_intros]:
  "(\<And>x. keeps_ids (f x)) \<Longrightarrow> (\<And>x. keeps_ids (g x)) \<Longrightarrow> (\<And>x. keeps_ids (k x)) \<Longrightarrow>
     keeps_ids (case c of GoOk x \<Rightarrow> f x | GoErr x \<Rightarrow> g x | GoPanic x \<Rightarrow> k x)"
  by (cases c) auto

lemma keeps_ids_state [ids_intros]:
  "keeps_ids m1 \<Longrightarrow> keeps_ids m2 \<Longrightarrow> keeps_ids m3 \<Longrightarrow> (\<And>x. keeps_ids (f x)) \<Longrightarrow>
     keeps_ids (case st of Primary \<Rightarrow> m1 | Secondary \<Rightarrow> m2 | Resync \<Rightarrow> m3 | OtherReplicationState x \<Rightarrow> f x)"
  by (cases st) auto

section \<open>Lookups\<close>

lemma keeps_ids_GetByNodeID [ids_intros]: "keeps_ids (GetByNodeID e d n)"
  by (rule keeps_idsI) (drule (1) GetByNodeID_ok, simp)

lemma keeps_ids_GetLeaderByDriver [ids_intros]: "keeps_ids (GetLeaderByDriver e d)"
proof (rule keeps_idsI)
  fix r w w'
  assume run: "run_state (GetLeaderByDriver e d) w = (r, w')" and ok: "pool_ok w"
  show "pool_ok w' \<and> ids (pool w') = ids (pool w)"
    using run ok
    by (auto simp: GetLeaderByDriver_def getNamespaceByDriverName_def Get_Lease_def run_defs Let_def pool_ok_def map_of_ids
        split: sum.splits option.splits if_splits prod.splits
        dest!: Connect_entry_ids [of e])
qed

section \<open>Replication\<close>

lemma keeps_ids_owners [ids_intros]:
  "keeps_ids (addFinalizerToVR e vr)" "keeps_ids (removeFinalizerFromVR e vr)"
  "keeps_ids (addFinalizerToPVC e p f)" "keeps_ids (removeFinalizerFromPVC e p f)"
  "keeps_ids (addFinalizerToVGR e g)" "keeps_ids (removeFinalizerFromVGR e g)"
  "keeps_ids (addFinalizerToVGRContent e c f)" "keeps_ids (removeFinalizerFromVGRContent e c f)"
  "keeps_ids (annotatePVCWithOwner e o1 p a)" "keeps_ids (removeOwnerFromPVCAnnotation e p a)"
  "keeps_ids (annotateVolumeGroupReplicationWithOwner e o1 g)" "keeps_ids (removeOwnerFromVGRAnnotation e g)"
  "keeps_ids (getPVCDataSource e nn)" "keeps_ids (getVolumeReplicationClass e n)" "keeps_ids (getVolumeGroupReplicationClass e n)"
  unfolding addFinalizerToVR_def removeFinalizerFromVR_def addFinalizerToPVC_def removeFinalizerFromPVC_def
    addFinalizerToVGR_def removeFinalizerFromVGR_def addFinalizerToVGRContent_def removeFinalizerFromVGRContent_def
    annotatePVCWithOwner_def removeOwnerFromPVCAnnotation_def annotateVolumeGroupReplicationWithOwner_def
    removeOwnerFromVGRAnnotation_def getPVCDataSource_def getVolumeReplicationClass_def
    getVolumeGroupReplicationClass_def api_defs
  by (intro ids_intros)+

lemma keeps_ids_clients [ids_intros]:
  "keeps_ids (EnableVolumeReplication e c a1 a2 a3 a4 a5)" "keeps_ids (DisableVolumeReplication e c a1 a2 a3 a4 a5)"
  "keeps_ids (PromoteVolume e c a1 a2 b a3 a4 a5)" "keeps_ids (DemoteVolume e c a1 a2 a3 a4 a5)"
  "keeps_ids (ResyncVolume e c a1 a2 b a3 a4 a5)" "keeps_ids (GetVolumeReplicationInfo e c a1 a2 a3 a4)"
  by (cases c; simp add: client_defs ids_intros)+

lemma keeps_ids_operations [ids_intros]:
  "keeps_ids (updateReplicationStatus e vr st msg)" "keeps_ids (reportFailure e vr m1 m2 m3)"
  "keeps_ids (setReplicationCondition e vr d m s)"
  "keeps_ids (enableReplication e params vr)" "keeps_ids (markVolumeAsPrimary e params vr)"
  "keeps_ids (markVolumeAsSecondary e params vr)" "keeps_ids (resyncVolume e params force vr)"
  "keeps_ids (disableVolumeReplication e params)" "keeps_ids (getVolumeReplicationInfo e params)"
  "keeps_ids (getReplicationClient e d k)" "keeps_ids (getVolumeGroupReplicationDataSource e nn)"
  unfolding updateReplicationStatus_def reportFailure_def setFailureCondition_def setReplicationCondition_def
    enableReplication_def markVolumeAsPrimary_def markVolumeAsSecondary_def resyncVolume_def
    disableVolumeReplication_def getVolumeReplicationInfo_def getReplicationClient_def
    getVolumeGroupReplicationDataSource_def Replication_Enable_def Replication_Promote_def Replication_Demote_def
    Replication_Resync_def Replication_Disable_def Replication_GetInfo_def api_defs
  by (intro ids_intros)+

lemma keeps_ids_replicate [ids_intros]:
  "keeps_ids (Reconcile_switch e params vr)" "keeps_ids (Reconcile_report e params rep)"
  "keeps_ids (Reconcile_delete e vr params di)"
  unfolding Reconcile_switch_def Reconcile_primary_def Reconcile_secondary_def set_promoted_def
    Reconcile_report_def Reconcile_info_def Reconcile_delete_def Reconcile_release_def
  by (intro ids_intros)+

lemma keeps_ids_VR_Reconcile [ids_intros]: "keeps_ids (VR_Reconcile e req)"
  unfolding VR_Reconcile_def Reconcile_dispatch_def Reconcile_replicate_def Reconcile_protect_def
    Reconcile_dataSource_def api_defs
  by (intro ids_intros)

section \<open>Groups\<close>

lemma keeps_ids_group_calls [ids_intros]:
  "keeps_ids (CreateVolumeGroup g c a1 xs a2 a3 ps)" "keeps_ids (ModifyVolumeGroupMembership g c a1 xs a2 a3 ps)"
  "keeps_ids (DeleteVolumeGroup g c a1 a2 a3)" "keeps_ids (ControllerGetVolumeGroup g c a1 a2 a3)"
  "keeps_ids (getVolumeGroupClient e d)" "keeps_ids (StatusUpdate_VGRContent e vc)"
  "keeps_ids (annotateVolumeGroupReplicationWithVGRContentOwner e o1 vg)"
  "keeps_ids (removeVGRContentOwnerFromVGRAnnotation e vg)"
  unfolding CreateVolumeGroup_def ModifyVolumeGroupMembership_def DeleteVolumeGroup_def ControllerGetVolumeGroup_def
    getVolumeGroupClient_def StatusUpdate_VGRContent_def annotateVolumeGroupReplicationWithVGRContentOwner_def
    removeVGRContentOwnerFromVGRAnnotation_def api_defs
  by (intro ids_intros)+

lemma keeps_ids_VGRC_Reconcile [ids_intros]: "keeps_ids (VGRC_Reconcile e g req)"
  unfolding VGRC_Reconcile_def VGRC_dispatch_def VGRC_delete_def VGRC_ungroup_def VGRC_release_def VGRC_group_def
    VGRC_report_def api_defs
  by (intro ids_intros)

lemma keeps_ids_CreateOrUpdate [ids_intros]:
  assumes "\<And>n. keeps_ids (get n)" "\<And>x. keeps_ids (create x)" "\<And>x. keeps_ids (update x)"
  shows "keeps_ids (CreateOrUpdate key get create update mutate x)"
  unfolding CreateOrUpdate_def by (intro ids_intros assms)

lemma keeps_ids_claim_loops [ids_intros]:
  "keeps_ids (getPVHandles_loop e c hs ps)" "keeps_ids (getPVCs_loop e ns ps ns')" "keeps_ids (own_claims e o1 ps)"
  "keeps_ids (disown_claims e ps)" "keeps_ids (cleanupGroupPVC_loop e ns ns')"
proof -
  show "keeps_ids (getPVHandles_loop e c hs ps)"
    by (induction ps arbitrary: hs) (auto simp: api_defs intro!: ids_intros)
  show "keeps_ids (getPVCs_loop e ns ps ns')"
    by (induction ns' arbitrary: ps) (auto simp: api_defs intro!: ids_intros)
  show "keeps_ids (own_claims e o1 ps)"
    by (induction ps) (auto simp: api_defs intro!: ids_intros)
  show "keeps_ids (disown_claims e ps)"
    by (induction ps) (auto simp: api_defs disown_def intro!: ids_intros)
  show "keeps_ids (cleanupGroupPVC_loop e ns ns')"
    by (induction ns') (auto simp: api_defs disown_def intro!: ids_intros)
qed

lemmas group_api_defs = StatusUpdate_VGR_def Create_VGRContent_def Delete_VGRContent_def Create_VR_def Delete_VR_def

lemma keeps_ids_group_parts [ids_intros]:
  "keeps_ids (group_failed e vg er)" "keeps_ids (getMatchingPVCsFromSource g vg)" "keeps_ids (getPVHandles e c ps)"
  "keeps_ids (updateFinalizerAndAnnotationOnPVCs e g vg ps)" "keeps_ids (cleanupGroupPVC e vg)"
  "keeps_ids (createOrUpdateVolumeGroupReplicationContentCR e g vg vc s hs)" "keeps_ids (cleanupVGRContent e g vg)"
  "keeps_ids (createOrUpdateVolumeReplicationCR e g vg vr)" "keeps_ids (cleanupVR e g vg)" "keeps_ids (VGR_status e vg vr)"
  unfolding group_failed_def setGroupReplicationFailure_def getMatchingPVCsFromSource_def getPVHandles_def
    updateFinalizerAndAnnotationOnPVCs_def cleanupGroupPVC_def createOrUpdateVolumeGroupReplicationContentCR_def
    cleanupVGRContent_def createOrUpdateVolumeReplicationCR_def cleanupVR_def VGR_status_def group_api_defs api_defs
  by (intro ids_intros)+

lemma keeps_ids_VGR_Reconcile [ids_intros]: "keeps_ids (VGR_Reconcile e g m req)"
  unfolding VGR_Reconcile_def VGR_delete_def VGR_release_def VGR_update_def VGR_claims_def VGR_content_def
    VGR_replicate_def group_api_defs api_defs
  by (intro ids_intros)

section \<open>Fencing\<close>

lemma keeps_ids_Fence_Reconcile [ids_intros]: "keeps_ids (Fence_Reconcile e a req)"
  unfolding Fence_Reconcile_def Fence_invalid_def Fence_deleted_def Fence_process_def processFencing_def
    processFencingRequest_def fenceClusterNetwork_def unfenceClusterNetwork_def getNetworkFenceInstance_def
    instance_client_def getNetworkFenceClient_def updateStatus_def addFinalizerToNetworkFence_def
    removeFinalizerFromNetworkFence_def fence_api_defs node_api_defs
  by (intro ids_intros)

lemma keeps_ids_processCapabilities [ids_intros]: "keeps_ids (processCapabilities a n c b xs ys)"
  by (induction ys) (simp_all add: node_api_defs Let_def ids_intros)

lemma keeps_ids_NFC_processNodes [ids_intros]: "keeps_ids (NFC_processNodes a c b ns errs)"
  by (induction ns arbitrary: errs) (auto simp: processCSIAddonsNode_def Let_def simp del: processCapabilities.simps
      intro!: ids_intros)

lemma keeps_ids_NFC_Reconcile [ids_intros]: "keeps_ids (NFC_Reconcile a req)"
  unfolding NFC_Reconcile_def NFC_nodes_def listCSIAddonsNodes_def getNetworkFenceClass_def NFC_addFinalizer_def
    NFC_removeFinalizer_def Update_NFC_def node_api_defs
  by (intro ids_intros)

section \<open>Jobs and schedules\<close>

lemma keeps_ids_steps [ids_intros]:
  "keeps_ids (RS_reconcile e j t job ns)" "keeps_ids (reconcileEncryptionKeyRotationJob e j t job ns)"
  unfolding RS_reconcile_def reconcileEncryptionKeyRotationJob_def RS_controller_def RS_succeed_def
    controllerReclaimSpace_def nodeReclaimSpace_def rotateEncryptionKey_def getLeadingRSClient_def getRSClientByNode_def
    getClientByNode_def KR_getTargetDetails_def getTargetDetails_def job_begin_def job_expired_def job_fail_def api_defs
  by (intro ids_intros)+

lemma keeps_ids_jobs [ids_intros]: "keeps_ids (RSJob_Reconcile e j t req)" "keeps_ids (KRJob_Reconcile e j t req)"
  unfolding RSJob_Reconcile_def KRJob_Reconcile_def Job_Reconcile_def Job_report_def Get_Job_def StatusUpdate_Job_def
  by (intro ids_intros)+

lemma keeps_ids_deleteOld_loop [ids_intros]:
  "(\<And>x. keeps_ids (del x)) \<Longrightarrow> keeps_ids (deleteOld_loop del l n i js)"
  by (induction del l n i js rule: deleteOld_loop.induct) (auto intro!: ids_intros)

lemma keeps_ids_crons [ids_intros]: "keeps_ids (RSCron_Reconcile e c req)" "keeps_ids (KRCron_Reconcile e c req)"
  unfolding RSCron_Reconcile_def KRCron_Reconcile_def Cron_Reconcile_def Cron_children_def Cron_schedule_def
    Cron_start_def Cron_create_def RSCron_prune_def KRCron_prune_def prune_def deleteOldJobs_def
    deleteOldEncryptionKeyRotationJobs_def deleteOld_def Get_Cron_def StatusUpdate_Cron_def Create_Job_def Delete_Job_def
    List_Jobs_def
  by (intro ids_intros)+

section \<open>Claims\<close>

lemma keeps_ids_delete_rest [ids_intros]: "(\<And>j. keeps_ids (del j)) \<Longrightarrow> keeps_ids (delete_rest del js)"
  by (induction js) (auto intro!: ids_intros)

lemma keeps_ids_bool [ids_intros]: "keeps_ids m \<Longrightarrow> keeps_ids n \<Longrightarrow> keeps_ids (case b of True \<Rightarrow> m | False \<Rightarrow> n)"
  by (cases b) auto

lemma keeps_ids_children [ids_intros]:
  "keeps_ids (findChildCronJob s req)" "keeps_ids (findChildEncryptionKeyRotationCronJob s req)"
  "keeps_ids (deleteChildCronJob s j)" "keeps_ids (delete_child k failed j)" "keeps_ids (patchAnnotationsToResource s xs p)"
  "keeps_ids (generateCronJobName e n)"
  unfolding findChildCronJob_def findChildEncryptionKeyRotationCronJob_def find_child_def deleteChildCronJob_def
    delete_child_def patchAnnotationsToResource_def generateCronJobName_def List_Sched_def Delete_Sched_def Patch_PVC_def
  by (intro ids_intros)+

lemma keeps_ids_annotations [ids_intros]:
  "keeps_ids (determineScheduleAndRequeue e s prec p d k)" "keeps_ids (checkDisabledByAnnotation s prec p k)"
  unfolding determineScheduleAndRequeue_def getScheduleFromNS_def ns_supported_def getScheduleFromSC_def
    checkDriverSupportCapability_def checkDisabledByAnnotation_def isDisabledOnSC_def Get_Namespace_def Get_StorageClass_def
  by (intro ids_intros)+

lemma keeps_ids_PVC_Reconcile [ids_intros]: "keeps_ids (PVC_Reconcile e s prec req)"
  unfolding PVC_Reconcile_def PVC_process_def processKeyRotation_def processReclaimSpace_def KR_unschedule_def KR_update_def
    KR_create_def RS_unschedule_def RS_update_def RS_create_def Update_Sched_def Create_Sched_def Patch_PVC_def api_defs
  by (intro ids_intros)

lemma keeps_ids_PVCNew_Reconcile [ids_intros]: "keeps_ids (PVCNew_Reconcile e s req)"
  unfolding PVCNew_Reconcile_def PVCNew_features_def reconcileFeature_def feature_update_def feature_create_def
    feature_delete_def Update_Sched_def Create_Sched_def Delete_Sched_def Get_Sched_def Get_StorageClass_def api_defs
  by (intro ids_intros)

lemma keeps_ids_Claim_Reconcile [ids_intros]: "keeps_ids (Claim_Reconcile e s m req)"
  unfolding Claim_Reconcile_def by (cases "mgr_claims m") (simp_all add: ids_intros)

end
