(* ===== verification/Pool_Machine.thy ===== *)
theory Pool_Machine
  imports Pool_Frame Props_Node
begin

text \<open>
  The operator as a transition system on the connection pool its controllers share: one step is one run of
  one controller, with whatever the API server, the sidecars and the clock answer in it. The pool stays
  well typed along every sequence of steps: each key occurs once and names the namespace and the pod of the
  connection under it.
\<close>

section \<open>Well-typed pools\<close>

text \<open>An entry is filed under the namespace of its connection and a normalised pod name, and has a driver.\<close>

definition filed :: "string \<times> connection \<Rightarrow> bool" where
  "filed kc = (case kc of (k, c) \<Rightarrow>
     let n = length (cn_Namespace c) + 1; pn = drop n k
     in take n k = cn_Namespace c @ ''/'' \<and> pn \<noteq> [] \<and> list_all lease_char pn \<and> last pn \<noteq> CHR ''-'' \<and> cn_DriverName c \<noteq> [])"

definition pool_typed :: "world \<Rightarrow> bool" where
  "pool_typed w \<longleftrightarrow> pool_ok w \<and> list_all filed (pool w)"

lemma filedI:
  "NormalizeLeaseName pd = Some pn \<Longrightarrow> cn_Namespace c = ns \<Longrightarrow> cn_DriverName c \<noteq> [] \<Longrightarrow> filed (ns @ ''/'' @ pn, c)"
  using NormalizeLeaseName_ok [of pd pn] by (simp add: filed_def Let_def)

lemma filedE:
  assumes "filed (k, c)"
  obtains pn where "k = cn_Namespace c @ ''/'' @ pn" "NormalizeLeaseName pn = Some pn" "cn_DriverName c \<noteq> []"
proof
  let ?pn = "drop (length (cn_Namespace c) + 1) k"
  show "k = cn_Namespace c @ ''/'' @ ?pn"
    using assms append_take_drop_id [of "length (cn_Namespace c) + 1" k] unfolding filed_def Let_def by simp
  show "NormalizeLeaseName ?pn = Some ?pn"
    using assms unfolding filed_def Let_def prod.case by (intro NormalizeLeaseName_id) blast+
  show "cn_DriverName c \<noteq> []" using assms by (simp add: filed_def Let_def)
qed

lemma filed_conn_id: "filed (k, conn_id c) = filed (k, c)"
  by (simp add: filed_def conn_id_def)

lemma list_all_filed_ids: "list_all filed (ids p) = list_all filed p"
  by (induction p) (auto simp: filed_conn_id)

lemma typed_of_ids: "pool_typed w \<Longrightarrow> pool_ok w' \<Longrightarrow> ids (pool w') = ids (pool w) \<Longrightarrow> pool_typed w'"
  unfolding pool_typed_def by (metis list_all_filed_ids)

lemma typed_pool: "pool_typed w \<Longrightarrow> pool w' = pool w \<Longrightarrow> pool_typed w'"
  by (simp add: pool_typed_def pool_ok_def)

lemma set_update_subset: "x \<in> set (AList.update k c p) \<Longrightarrow> x = (k, c) \<or> x \<in> set p"
  by (induction p) (auto split: if_splits)

lemma typed_update: "pool_typed w \<Longrightarrow> filed (k, c) \<Longrightarrow> pool w' = AList.update k c (pool w) \<Longrightarrow> pool_typed w'"
  by (auto simp: pool_typed_def pool_ok_def distinct_update list_all_iff dest: set_update_subset)

lemma set_delete_subset: "x \<in> set (AList.delete k p) \<Longrightarrow> x \<in> set p"
  by (simp add: AList.delete_eq)

lemma typed_delete: "pool_typed w \<Longrightarrow> pool w' = AList.delete k (pool w) \<Longrightarrow> pool_typed w'"
  by (auto simp: pool_typed_def pool_ok_def distinct_delete list_all_iff dest: set_delete_subset)

section \<open>The controller of nodes\<close>

text \<open>An update of a node does not move it to another namespace.\<close>

definition keeps_namespace :: "aenv \<Rightarrow> bool" where
  "keeps_namespace a \<longleftrightarrow>
     (\<forall>h n n'. a_updateNode a h n = Inr n' \<longrightarrow> om_namespace (can_meta n') = om_namespace (can_meta n))"

lemma addFinalizer_namespace:
  assumes "keeps_namespace a" "run_state (Node_addFinalizer a n) w = ((n1, None), w1)"
  shows "om_namespace (can_meta n1) = om_namespace (can_meta n)"
  using assms
  by (auto simp: Node_addFinalizer_def Update_Node_def update_result_def keeps_namespace_def node_set_finalizers_def
      run_defs Let_def split: if_splits sum.splits)

lemma Node_store_pool:
  assumes "run_state (Node_store e a key n c) w = (out, w')"
  shows "pool w' = pool w \<or> pool w' = AList.update key c (pool w)"
proof -
  obtain nr w1 where s1: "run_state (getNetworkFenceClientStatus a c n) w = (nr, w1)" by fastforce
  have p1: "pool w1 = pool w" by (rule keeps_poolD [OF keeps_pool_status(1) s1])
  obtain w2 where s2: "run_state (Put e key c) w1 = ((), w2)" by (metis (full_types) old.unit.exhaust surj_pair)
  have p2: "pool w2 = AList.update key c (pool w)" using pool_Put [of e key c w1] s2 p1 by simp
  show ?thesis
    using assms s1 s2 p1 p2 by (auto simp: Node_store_def StatusUpdate_Node_def run_call split: sum.splits)
qed

lemma Node_connect_pool:
  assumes "keeps_namespace a" "run_state (Node_connect e a r key ep nid drv n) w = (out, w')"
  shows "pool w' = pool w \<or>
    (\<exists>c. pool w' = AList.update key c (pool w) \<and> cn_Namespace c = om_namespace (can_meta n) \<and> cn_DriverName c = drv)"
proof -
  obtain n1 err w1 where s1: "run_state (Node_addFinalizer a n) w = ((n1, err), w1)" by (metis prod.collapse)
  have p1: "pool w1 = pool w" by (rule keeps_poolD [OF keeps_pool_node_fin(1) s1])
  show ?thesis
  proof (cases err)
    case (Some er)
    with assms(2) s1 p1 show ?thesis by (simp add: Node_connect_def)
  next
    case None
    let ?new = "NewConnection e ep nid drv (om_namespace (can_meta n1)) (om_name (can_meta n1)) (nr_EnableAuth r)"
    obtain cr w2 where s2: "run_state ?new w1 = (cr, w2)" by fastforce
    have p2: "pool w2 = pool w" using keeps_poolD [OF keeps_pool_NewConnection s2] p1 by simp
    have rest: "run_state (case cr of Inl er \<Rightarrow> backoffAndRetry a r n1 er | Inr c \<Rightarrow> Node_store e a key n1 c) w2 = (out, w')"
      using assms(2) s1 s2 None by (simp add: Node_connect_def)
    show ?thesis
    proof (cases cr)
      case (Inl er)
      with rest have "run_state (backoffAndRetry a r n1 er) w2 = (out, w')" by simp
      from keeps_poolD [OF keeps_pool_status(2) this] p2 show ?thesis by simp
    next
      case (Inr c)
      with rest have "run_state (Node_store e a key n1 c) w2 = (out, w')" by simp
      from Node_store_pool [OF this] NewConnection_ok [OF s2 [unfolded Inr]]
        addFinalizer_namespace [OF assms(1) s1 [unfolded None]] p2
      show ?thesis by auto
    qed
  qed
qed

lemma Node_Reconcile_typed:
  assumes "keeps_namespace a" "run_state (Node_Reconcile e a r req) w = (out, w')" "pool_typed w"
  shows "pool_typed w'"
proof (cases "a_getNode a (trace w) req")
  case (Inl err)
  with assms(2,3) show ?thesis by (auto simp: run_Node_Reconcile intro: typed_pool)
next
  case (Inr n)
  have got: "pool_typed (got req w)" using assms(3) by (rule typed_pool) simp
  obtain pd ep err w1 where res: "run_state (resolveEndpoint a (can_endPoint n)) (got req w) = ((pd, ep, err), w1)"
    by (metis prod.collapse)
  have w1: "pool_typed w1" by (rule typed_pool [OF got keeps_poolD [OF keeps_pool_status(3) res]])
  have keep: "pool_typed w'" if "run_state m v = (out, w')" "keeps_pool m" "pool_typed v" for m :: "outcome prog" and v
    using that by (blast intro: typed_pool keeps_poolD)
  show ?thesis
  proof (cases "validateCSIAddonsNodeSpec n")
    case (Some er)
    with assms(2) Inr got show ?thesis by (auto simp: run_Node_Reconcile intro: keep pool_intros)
  next
    case None
    then have drv: "can_driverName n \<noteq> []" by (auto simp: validateCSIAddonsNodeSpec_def)
    consider (retry) "err \<noteq> None \<and> om_deletionTimestamp (can_meta n) = None"
      | (panic) "\<not> (err \<noteq> None \<and> om_deletionTimestamp (can_meta n) = None)" "NormalizeLeaseName pd = None"
      | (go) pn where "\<not> (err \<noteq> None \<and> om_deletionTimestamp (can_meta n) = None)" "NormalizeLeaseName pd = Some pn"
      by (cases "NormalizeLeaseName pd") blast+
    then show ?thesis
    proof cases
      case retry
      with assms(2) Inr None res w1 show ?thesis by (auto simp: run_Node_Reconcile intro: keep pool_intros)
    next
      case panic
      with assms(2) Inr None res w1 show ?thesis by (auto simp: run_Node_Reconcile)
    next
      case (go pn)
      let ?key = "om_namespace (can_meta n) @ ''/'' @ pn"
      show ?thesis
      proof (cases "om_deletionTimestamp (can_meta n) = None")
        case False
        then have "run_state (Node_delete e a ?key n) w1 = (out, w')"
          using assms(2) Inr None res go by (auto simp: run_Node_Reconcile)
        then show ?thesis using Node_delete_effect w1 by (blast intro: typed_delete)
      next
        case True
        then have "run_state (Node_connect e a r ?key ep (can_nodeID n) (can_driverName n) n) w1 = (out, w')"
          using assms(2) Inr None res go by (auto simp: run_Node_Reconcile)
        from Node_connect_pool [OF assms(1) this] show ?thesis
          using w1 drv filedI [OF go(2)] by (metis typed_pool typed_update)
      qed
    qed
  qed
qed

section \<open>The operator\<close>

inductive operator_step :: "world \<Rightarrow> world \<Rightarrow> bool" where
  node: "keeps_namespace a \<Longrightarrow> run_state (Node_Reconcile e a r req) w = (out, w') \<Longrightarrow> operator_step w w'"
| fence_class: "run_state (NFC_Reconcile a req) w = (out, w') \<Longrightarrow> operator_step w w'"
| fence: "run_state (Fence_Reconcile e a req) w = (out, w') \<Longrightarrow> operator_step w w'"
| reclaim_job: "run_state (RSJob_Reconcile e j t req) w = (out, w') \<Longrightarrow> operator_step w w'"
| rotation_job: "run_state (KRJob_Reconcile e j t req) w = (out, w') \<Longrightarrow> operator_step w w'"
| reclaim_cron: "run_state (RSCron_Reconcile e c req) w = (out, w') \<Longrightarrow> operator_step w w'"
| rotation_cron: "run_state (KRCron_Reconcile e c req) w = (out, w') \<Longrightarrow> operator_step w w'"
| claim: "run_state (Claim_Reconcile e s m req) w = (out, w') \<Longrightarrow> operator_step w w'"
| replication: "run_state (VR_Reconcile e req) w = (out, w') \<Longrightarrow> operator_step w w'"
| group_content: "run_state (VGRC_Reconcile e g req) w = (out, w') \<Longrightarrow> operator_step w w'"
| group: "run_state (VGR_Reconcile e gv n req) w = (out, w') \<Longrightarrow> operator_step w w'"

inductive_cases operator_stepE: "operator_step w w'"

text \<open>Every step but that of the node controller keeps whom the pool knows.\<close>

lemma operator_step_cases:
  assumes "operator_step w w'" "pool_ok w"
  shows "(\<exists>e a r req out. keeps_namespace a \<and> run_state (Node_Reconcile e a r req) w = (out, w')) \<or>
    pool_ok w' \<and> ids (pool w') = ids (pool w)"
  using assms(1)
proof (cases rule: operator_step.cases)
  case (node a e r req out)
  then show ?thesis by blast
qed (rule disjI2, rule keeps_idsD [OF _ _ assms(2)], rule ids_intros, assumption)+

lemma operator_step_typed: "operator_step w w' \<Longrightarrow> pool_typed w \<Longrightarrow> pool_typed w'"
  unfolding pool_typed_def [of w]
  using operator_step_cases [of w w'] Node_Reconcile_typed [of _ _ _ _ w _ w'] typed_of_ids [of w w'] pool_typed_def [of w] by blast

text \<open>C10: however the controllers of the operator take turns and whatever the API server and the sidecars
  answer, the connection pool they share stays well typed: every key occurs once and consists of the
  namespace of its connection, a slash and a normalised pod name, and every connection names its driver.\<close>

theorem pool_well_typed:
  assumes "operator_step\<^sup>*\<^sup>* w w'" "pool w = NewConnectionPool"
  shows "pool_typed w'"
  using assms
proof (induction rule: rtranclp_induct)
  case base
  then show ?case by (simp add: pool_typed_def pool_ok_def NewConnectionPool_def)
next
  case (step w1 w2)
  then show ?case by (blast intro: operator_step_typed)
qed

theorem pool_well_typed_witness:
  "pool_typed (snd (run_state (VR_Reconcile nx_env nx_req)
     (snd (run_state (Node_Reconcile nx_env nx_aenv nx_rec nx_req) nx_world))))"
proof (rule pool_well_typed)
  let ?w1 = "snd (run_state (Node_Reconcile nx_env nx_aenv nx_rec nx_req) nx_world)"
  have "keeps_namespace nx_aenv" by (simp add: keeps_namespace_def nx_aenv_def)
  then have "operator_step nx_world ?w1" by (rule operator_step.node) (rule surjective_pairing)
  moreover have "operator_step ?w1 (snd (run_state (VR_Reconcile nx_env nx_req) ?w1))"
    by (rule operator_step.replication) (rule surjective_pairing)
  ultimately show "operator_step\<^sup>*\<^sup>* nx_world (snd (run_state (VR_Reconcile nx_env nx_req) ?w1))"
    by (blast intro: rtranclp.intros)
  show "pool nx_world = NewConnectionPool" by (simp add: nx_world_def NewConnectionPool_def)
qed

section \<open>What a typed pool gives to the clients\<close>

lemma lease_char_no_slash: "list_all lease_char pn \<Longrightarrow> CHR ''/'' \<notin> set pn"
  by (auto simp: list_all_iff lease_char_def)

lemma split_at_last_slash:
  assumes "xs @ ''/'' @ ys = us @ ''/'' @ vs" "CHR ''/'' \<notin> set ys" "CHR ''/'' \<notin> set vs"
  shows "xs = us \<and> ys = vs"
proof -
  have "rev ys @ CHR ''/'' # rev xs = rev vs @ CHR ''/'' # rev us"
    using arg_cong [OF assms(1), of rev] by simp
  moreover have "takeWhile (\<lambda>c. c \<noteq> CHR ''/'') (rev zs @ CHR ''/'' # ws) = rev zs" if "CHR ''/'' \<notin> set zs" for zs ws
    using that by (subst takeWhile_append2) auto
  ultimately have "rev ys = rev vs" using assms(2,3) by metis
  with assms(1) show ?thesis by simp
qed

text \<open>The leader found for a driver is a connection of the pod that holds the lease, in the namespace of the
  lease, whenever the identity of the holder has no slash.\<close>

lemma leader_in_namespace:
  assumes "run_state (GetLeaderByDriver e d) w = (GoOk c, w')" "pool_typed w"
  shows "\<exists>nn l holder. e_getLease e (trace w) nn = Inr l \<and> ls_holderIdentity l = Some holder \<and>
    (CHR ''/'' \<notin> set holder \<longrightarrow> cn_Namespace c = ls_namespace l \<and> NormalizeLeaseName holder = Some holder \<and>
       cn_DriverName c \<noteq> [])"
proof -
  obtain nn l holder c0 where l: "e_getLease e (trace w) nn = Inr l" "ls_holderIdentity l = Some holder"
    and c0: "map_of (pool w) (ls_namespace l @ ''/'' @ holder) = Some c0" and id: "conn_id c = conn_id c0"
    using assms(1)
    by (auto simp: GetLeaderByDriver_def getNamespaceByDriverName_def Get_Lease_def run_defs Let_def
        split: sum.splits option.splits if_splits prod.splits dest!: Connect_entry_frame [of e])
  have "filed (ls_namespace l @ ''/'' @ holder, c0)"
    using map_of_SomeD [OF c0] assms(2) by (auto simp: pool_typed_def list_all_iff)
  then obtain pn where key: "ls_namespace l @ ''/'' @ holder = cn_Namespace c0 @ ''/'' @ pn"
    and pn: "NormalizeLeaseName pn = Some pn" "cn_DriverName c0 \<noteq> []"
    by (elim filedE)
  have "cn_Namespace c0 = ls_namespace l \<and> pn = holder" if "CHR ''/'' \<notin> set holder"
    using split_at_last_slash [OF key that] lease_char_no_slash NormalizeLeaseName_ok [OF pn(1)] by simp
  with l pn conn_id_eqD [OF id] show ?thesis by metis
qed

end
