(* ===== verification/Watches.thy ===== *)
theory Watches
  imports Manager Network_Fence Volume_Group_Replication
begin

text \<open>
  What wakes the controllers: the functions \<open>SetupWithManager\<close>, \<open>setupIndexers\<close> and \<open>waitForCrds\<close> of the
  controllers under \<open>internal/controller\<close>, \<open>internal/controller/utils/predicates.go\<close>, and
  \<open>WaitForVolumeReplicationResource\<close> of \<open>replication.storage/utils.go\<close>. The predicates, the handlers of
  events and the order in which a builder combines them are those of the vendored \<open>controller-runtime\<close>
  (\<open>pkg/predicate\<close>, \<open>pkg/handler\<close>, \<open>pkg/builder\<close>). The objects of an event are never nil there.
\<close>

section \<open>Events\<close>

datatype watched =
  W_Obj obj
| W_StorageClass object_meta
| W_PersistentVolume object_meta
| W_VolumeAttachment object_meta

fun obj_meta :: "obj \<Rightarrow> object_meta" where
  "obj_meta (O_VR x) = vr_meta x"
| "obj_meta (O_VGR x) = vgr_meta x"
| "obj_meta (O_VGRContent x) = vgrc_meta x"
| "obj_meta (O_PVC x) = pvc_meta x"
| "obj_meta (O_Node x) = can_meta x"
| "obj_meta (O_Fence x) = nf_meta x"
| "obj_meta (O_FenceClass x) = nfc_meta x"
| "obj_meta (O_RSJob x) = job_meta x"
| "obj_meta (O_KRJob x) = job_meta x"
| "obj_meta (O_RSCronJob x) = cj_meta x"
| "obj_meta (O_KRCronJob x) = cj_meta x"

fun watched_meta :: "watched \<Rightarrow> object_meta" where
  "watched_meta (W_Obj x) = obj_meta x"
| "watched_meta (W_StorageClass m) = m"
| "watched_meta (W_PersistentVolume m) = m"
| "watched_meta (W_VolumeAttachment m) = m"

datatype watched_kind =
  K_VR | K_VGR | K_VGRContent | K_PVC | K_Node | K_Fence | K_FenceClass | K_RSJob | K_KRJob | K_RSCronJob | K_KRCronJob
| K_StorageClass | K_PersistentVolume | K_VolumeAttachment

fun obj_kind :: "obj \<Rightarrow> watched_kind" where
  "obj_kind (O_VR x) = K_VR"
| "obj_kind (O_VGR x) = K_VGR"
| "obj_kind (O_VGRContent x) = K_VGRContent"
| "obj_kind (O_PVC x) = K_PVC"
| "obj_kind (O_Node x) = K_Node"
| "obj_kind (O_Fence x) = K_Fence"
| "obj_kind (O_FenceClass x) = K_FenceClass"
| "obj_kind (O_RSJob x) = K_RSJob"
| "obj_kind (O_KRJob x) = K_KRJob"
| "obj_kind (O_RSCronJob x) = K_RSCronJob"
| "obj_kind (O_KRCronJob x) = K_KRCronJob"

fun kind_of :: "watched \<Rightarrow> watched_kind" where
  "kind_of (W_Obj x) = obj_kind x"
| "kind_of (W_StorageClass m) = K_StorageClass"
| "kind_of (W_PersistentVolume m) = K_PersistentVolume"
| "kind_of (W_VolumeAttachment m) = K_VolumeAttachment"

datatype watch_event = CreateEvent watched | UpdateEvent watched watched | DeleteEvent watched | GenericEvent watched

fun event_kind :: "watch_event \<Rightarrow> watched_kind" where
  "event_kind (CreateEvent x) = kind_of x"
| "event_kind (UpdateEvent old new) = kind_of new"
| "event_kind (DeleteEvent x) = kind_of x"
| "event_kind (GenericEvent x) = kind_of x"

definition watched_key :: "watched \<Rightarrow> nsname" where
  "watched_key x = \<lparr>nn_namespace = om_namespace (watched_meta x), nn_name = om_name (watched_meta x)\<rparr>"

section \<open>Predicates\<close>

text \<open>\<open>predicate.Funcs\<close>: a function that is not given accepts the event.\<close>

record predicate =
  pr_CreateFunc :: "(watched \<Rightarrow> bool) option"
  pr_UpdateFunc :: "(watched \<Rightarrow> watched \<Rightarrow> bool) option"
  pr_DeleteFunc :: "(watched \<Rightarrow> bool) option"
  pr_GenericFunc :: "(watched \<Rightarrow> bool) option"

fun passes :: "predicate \<Rightarrow> watch_event \<Rightarrow> bool" where
  "passes p (CreateEvent x) = (case pr_CreateFunc p of None \<Rightarrow> True | Some f \<Rightarrow> f x)"
| "passes p (UpdateEvent old new) = (case pr_UpdateFunc p of None \<Rightarrow> True | Some f \<Rightarrow> f old new)"
| "passes p (DeleteEvent x) = (case pr_DeleteFunc p of None \<Rightarrow> True | Some f \<Rightarrow> f x)"
| "passes p (GenericEvent x) = (case pr_GenericFunc p of None \<Rightarrow> True | Some f \<Rightarrow> f x)"

definition onUpdate :: "(watched \<Rightarrow> watched \<Rightarrow> bool) \<Rightarrow> predicate" where
  "onUpdate f = \<lparr>pr_CreateFunc = None, pr_UpdateFunc = Some f, pr_DeleteFunc = None, pr_GenericFunc = None\<rparr>"

definition GenerationChangedPredicate :: predicate where
  "GenerationChangedPredicate = onUpdate (\<lambda>old new. om_generation (watched_meta new) \<noteq> om_generation (watched_meta old))"

text \<open>\<open>maps.Equal\<close>.\<close>

definition maps_Equal :: "strmap \<Rightarrow> strmap \<Rightarrow> bool" where
  "maps_Equal m1 m2 \<longleftrightarrow> length m1 = length m2 \<and> list_all (\<lambda>(k, v). map_of m2 k = Some v) m1"

definition AnnotationChangedPredicate :: predicate where
  "AnnotationChangedPredicate =
     onUpdate (\<lambda>old new. \<not> maps_Equal (om_annotations (watched_meta new)) (om_annotations (watched_meta old)))"

text \<open>\<open>predicate.Or\<close> of the two predicates the node controller combines.\<close>

definition predicate_Or :: "predicate list \<Rightarrow> predicate" where
  "predicate_Or ps = \<lparr>pr_CreateFunc = Some (\<lambda>x. list_ex (\<lambda>p. passes p (CreateEvent x)) ps),
     pr_UpdateFunc = Some (\<lambda>old new. list_ex (\<lambda>p. passes p (UpdateEvent old new)) ps),
     pr_DeleteFunc = Some (\<lambda>x. list_ex (\<lambda>p. passes p (DeleteEvent x)) ps),
     pr_GenericFunc = Some (\<lambda>x. list_ex (\<lambda>p. passes p (GenericEvent x)) ps)\<rparr>"

definition SilentPredicate :: predicate where
  "SilentPredicate = \<lparr>pr_CreateFunc = Some (\<lambda>_. False), pr_UpdateFunc = Some (\<lambda>_ _. False),
     pr_DeleteFunc = Some (\<lambda>_. False), pr_GenericFunc = Some (\<lambda>_. False)\<rparr>"

text \<open>The type assertions of \<open>StorageClassPredicate\<close>.\<close>

fun as_StorageClass :: "watched \<Rightarrow> object_meta option" where
  "as_StorageClass (W_StorageClass m) = Some m"
| "as_StorageClass _ = None"

definition storage_class_filter :: predicate where
  "storage_class_filter = \<lparr>pr_CreateFunc = Some (\<lambda>_. True),
     pr_UpdateFunc = Some (\<lambda>old new. StorageClassPredicate (as_StorageClass old) (as_StorageClass new)),
     pr_DeleteFunc = None, pr_GenericFunc = None\<rparr>"

definition annotation_filter :: "string list \<Rightarrow> predicate" where
  "annotation_filter keys =
     onUpdate (\<lambda>old new. createAnnotationPredicate keys (Some (watched_meta old)) (Some (watched_meta new)))"

section \<open>Handlers\<close>

text \<open>The requests a handler adds to the queue; \<open>None\<close> is a panic of the handler.\<close>

type_synonym handler = "watch_event \<Rightarrow> nsname list option prog"

fun EnqueueRequestForObject :: handler where
  "EnqueueRequestForObject (CreateEvent x) = ret (Some [watched_key x])"
| "EnqueueRequestForObject (UpdateEvent old new) = ret (Some [watched_key new])"
| "EnqueueRequestForObject (DeleteEvent x) = ret (Some [watched_key x])"
| "EnqueueRequestForObject (GenericEvent x) = ret (Some [watched_key x])"

text \<open>The controller of an object, when it has the group and kind of the reconciled type; all reconciled types
  with owned objects are namespaced.\<close>

definition getOwnerReconcileRequest :: "string \<times> string \<Rightarrow> watched \<Rightarrow> nsname list" where
  "getOwnerReconcileRequest groupKind x =
     (case GetControllerOf (watched_meta x) of
        None \<Rightarrow> []
      | Some ref \<Rightarrow>
          (case ParseGroupVersion (or_apiVersion ref) of
             None \<Rightarrow> []
           | Some (g, v) \<Rightarrow>
               if or_kind ref = snd groupKind \<and> g = fst groupKind
               then [\<lparr>nn_namespace = om_namespace (watched_meta x), nn_name = or_name ref\<rparr>] else []))"

fun EnqueueRequestForOwner :: "string \<times> string \<Rightarrow> handler" where
  "EnqueueRequestForOwner gk (CreateEvent x) = ret (Some (getOwnerReconcileRequest gk x))"
| "EnqueueRequestForOwner gk (UpdateEvent old new) =
     ret (Some (remdups (getOwnerReconcileRequest gk old @ getOwnerReconcileRequest gk new)))"
| "EnqueueRequestForOwner gk (DeleteEvent x) = ret (Some (getOwnerReconcileRequest gk x))"
| "EnqueueRequestForOwner gk (GenericEvent x) = ret (Some (getOwnerReconcileRequest gk x))"

definition mapAndEnqueue :: "(watched \<Rightarrow> nsname list option prog) \<Rightarrow> watched \<Rightarrow> nsname list \<Rightarrow> nsname list option prog" where
  "mapAndEnqueue toRequests x reqs = do {
     r \<leftarrow> toRequests x;
     ret (map_option (\<lambda>rs. reqs @ filter (\<lambda>q. q \<notin> set reqs) (remdups rs)) r)
   }"

fun EnqueueRequestsFromMapFunc :: "(watched \<Rightarrow> nsname list option prog) \<Rightarrow> handler" where
  "EnqueueRequestsFromMapFunc f (CreateEvent x) = mapAndEnqueue f x []"
| "EnqueueRequestsFromMapFunc f (UpdateEvent old new) = do {
     r \<leftarrow> mapAndEnqueue f old [];
     (case r of None \<Rightarrow> ret None | Some reqs \<Rightarrow> mapAndEnqueue f new reqs)
   }"
| "EnqueueRequestsFromMapFunc f (DeleteEvent x) = mapAndEnqueue f x []"
| "EnqueueRequestsFromMapFunc f (GenericEvent x) = mapAndEnqueue f x []"

section \<open>Builders\<close>

record watch_builder =
  wb_filters :: "predicate list"
  wb_for :: "watched_kind \<times> predicate list"
  wb_owns :: "(watched_kind \<times> predicate list) list"
  wb_watches :: "(watched_kind \<times> handler \<times> predicate list) list"

record watch_source =
  ws_kind :: watched_kind
  ws_handler :: handler
  ws_predicates :: "predicate list"

text \<open>\<open>doWatch\<close>: the filters of the controller come before those of each source.\<close>

definition doWatch :: "string \<times> string \<Rightarrow> watch_builder \<Rightarrow> watch_source list" where
  "doWatch gk b =
     \<lparr>ws_kind = fst (wb_for b), ws_handler = EnqueueRequestForObject, ws_predicates = wb_filters b @ snd (wb_for b)\<rparr> #
     map (\<lambda>(k, ps). \<lparr>ws_kind = k, ws_handler = EnqueueRequestForOwner gk, ws_predicates = wb_filters b @ ps\<rparr>) (wb_owns b) @
     map (\<lambda>(k, h, ps). \<lparr>ws_kind = k, ws_handler = h, ws_predicates = wb_filters b @ ps\<rparr>) (wb_watches b)"

definition deliver :: "watch_source \<Rightarrow> watch_event \<Rightarrow> nsname list option prog" where
  "deliver src ev =
     (if ws_kind src = event_kind ev \<and> list_all (\<lambda>p. passes p ev) (ws_predicates src) then ws_handler src ev
      else ret (Some []))"

text \<open>The requests all sources of a controller make of an event, in the order of the sources.\<close>

fun woken :: "watch_source list \<Rightarrow> watch_event \<Rightarrow> nsname list option prog" where
  "woken [] ev = ret (Some [])"
| "woken (src # srcs) ev = do {
     r \<leftarrow> deliver src ev;
     (case r of
        None \<Rightarrow> ret None
      | Some reqs \<Rightarrow> do { rest \<leftarrow> woken srcs ev; ret (map_option (\<lambda>rs. reqs @ rs) rest) })
   }"

section \<open>The controllers\<close>

abbreviation (input) csiaddons_group :: string where "csiaddons_group \<equiv> ''csiaddons.openshift.io''"
abbreviation (input) replication_group :: string where "replication_group \<equiv> ''replication.storage.openshift.io''"

definition for_kind :: "watched_kind \<Rightarrow> watch_builder" where
  "for_kind k = \<lparr>wb_filters = [], wb_for = (k, []), wb_owns = [], wb_watches = []\<rparr>"

definition VR_watches :: "watch_source list" where
  "VR_watches = doWatch (replication_group, ''VolumeReplication'')
     ((for_kind K_VR)\<lparr>wb_filters := [GenerationChangedPredicate]\<rparr>)"

definition VGRC_watches :: "watch_source list" where
  "VGRC_watches = doWatch (replication_group, ''VolumeGroupReplicationContent'') (for_kind K_VGRContent)"

definition Node_watches :: "watch_source list" where
  "Node_watches = doWatch (csiaddons_group, ''CSIAddonsNode'')
     ((for_kind K_Node)\<lparr>wb_filters := [predicate_Or [GenerationChangedPredicate, AnnotationChangedPredicate]]\<rparr>)"

definition Fence_watches :: "watch_source list" where
  "Fence_watches = doWatch (csiaddons_group, ''NetworkFence'')
     ((for_kind K_Fence)\<lparr>wb_filters := [GenerationChangedPredicate]\<rparr>)"

definition RSJob_watches :: "watch_source list" where
  "RSJob_watches = doWatch (csiaddons_group, ''ReclaimSpaceJob'')
     ((for_kind K_RSJob)\<lparr>wb_filters := [GenerationChangedPredicate],
        wb_watches := [(K_VolumeAttachment, EnqueueRequestForObject, [SilentPredicate])]\<rparr>)"

definition KRJob_watches :: "watch_source list" where
  "KRJob_watches = doWatch (csiaddons_group, ''EncryptionKeyRotationJob'')
     ((for_kind K_KRJob)\<lparr>wb_filters := [GenerationChangedPredicate],
        wb_watches := [(K_VolumeAttachment, EnqueueRequestForObject, [SilentPredicate])]\<rparr>)"

definition RSCron_watches :: "watch_source list" where
  "RSCron_watches = doWatch (csiaddons_group, ''ReclaimSpaceCronJob'') ((for_kind K_RSCronJob)\<lparr>wb_owns := [(K_RSJob, [])]\<rparr>)"

definition KRCron_watches :: "watch_source list" where
  "KRCron_watches = doWatch (csiaddons_group, ''EncryptionKeyRotationCronJob'')
     ((for_kind K_KRCronJob)\<lparr>wb_owns := [(K_KRJob, [])]\<rparr>)"

text \<open>Node events reach the classes of the driver of the node only when the node is created.\<close>

definition csiAddonsNodePredicate :: predicate where
  "csiAddonsNodePredicate = \<lparr>pr_CreateFunc = Some (\<lambda>_. True), pr_UpdateFunc = Some (\<lambda>_ _. False),
     pr_DeleteFunc = Some (\<lambda>_. False), pr_GenericFunc = None\<rparr>"

definition NFC_watches :: "(event list \<Rightarrow> string \<Rightarrow> goerr + network_fence_class list) \<Rightarrow> watch_source list" where
  "NFC_watches listNFC = doWatch (csiaddons_group, ''NetworkFenceClass'')
     ((for_kind K_FenceClass)\<lparr>wb_watches := [(K_Node,
        EnqueueRequestsFromMapFunc (\<lambda>x. case x of
            W_Obj (O_Node n) \<Rightarrow> do { rs \<leftarrow> enqueueNFC listNFC n; ret (Some rs) }
          | _ \<Rightarrow> ret (Some [])),
        [csiAddonsNodePredicate])]\<rparr>)"

abbreviation (input) schedule_keys :: "string list" where
  "schedule_keys \<equiv> [RsCronJobScheduleTimeAnnotation, KrcJobScheduleTimeAnnotation, KrEnableAnnotation]"

definition map_class :: "(object_meta \<Rightarrow> nsname list prog) \<Rightarrow> watched \<Rightarrow> nsname list option prog" where
  "map_class f x =
     (case as_StorageClass x of None \<Rightarrow> ret (Some []) | Some sc \<Rightarrow> do { rs \<leftarrow> f sc; ret (Some rs) })"

definition PVC_watches :: "senv \<Rightarrow> watch_source list" where
  "PVC_watches s = doWatch ([], ''PersistentVolumeClaim'')
     ((for_kind K_PVC)\<lparr>wb_filters := [annotation_filter schedule_keys],
        wb_owns := [(K_RSCronJob, []), (K_KRCronJob, [])],
        wb_watches := [(K_StorageClass, EnqueueRequestsFromMapFunc (map_class (storageClassEventHandler s)),
          [annotation_filter schedule_keys])]\<rparr>)"

definition PVCNew_watches :: "senv \<Rightarrow> watch_source list" where
  "PVCNew_watches s = doWatch ([], ''PersistentVolumeClaim'')
     ((for_kind K_PVC)\<lparr>wb_owns := [(K_RSCronJob, []), (K_KRCronJob, [])],
        wb_watches := [(K_StorageClass, EnqueueRequestsFromMapFunc (map_class (ScMapFunc s)), [storage_class_filter]),
          (K_PersistentVolume, EnqueueRequestForObject, [SilentPredicate])]\<rparr>)"

text \<open>The filters of the group controller: silence for what it owns, and only some updates of what it watches.
  The type assertions of the filters hold for the kinds they are used with.\<close>

definition watchOnlyStatusUpdates :: predicate where
  "watchOnlyStatusUpdates = \<lparr>pr_CreateFunc = Some (\<lambda>_. False),
     pr_UpdateFunc = Some (\<lambda>old new. case (old, new) of
         (W_Obj (O_VR a), W_Obj (O_VR b)) \<Rightarrow> vr_status a \<noteq> vr_status b | _ \<Rightarrow> False),
     pr_DeleteFunc = None, pr_GenericFunc = None\<rparr>"

definition watchOnlySpecUpdates :: predicate where
  "watchOnlySpecUpdates = \<lparr>pr_CreateFunc = Some (\<lambda>_. False),
     pr_UpdateFunc = Some (\<lambda>old new. case (old, new) of
         (W_Obj (O_VGRContent a), W_Obj (O_VGRContent b)) \<Rightarrow> vgrc_spec a \<noteq> vgrc_spec b | _ \<Rightarrow> False),
     pr_DeleteFunc = None, pr_GenericFunc = None\<rparr>"

definition VGR_watches ::
  "(string \<Rightarrow> goerr + (strmap \<Rightarrow> bool)) \<Rightarrow> (unit, volume_group_replication list) answer \<Rightarrow> watch_source list" where
  "VGR_watches matches listVGR =
     (let enqueueVGR = EnqueueRequestsFromMapFunc (\<lambda>x. ret (enqueueVGRRequest (om_annotations (watched_meta x))));
          enqueueVGRForPVC = EnqueueRequestsFromMapFunc (\<lambda>x.
            if om_labels (watched_meta x) = [] then ret (Some [])
            else do {
              r \<leftarrow> call (\<lambda>h. listVGR h ()) (ApiList ''VolumeGroupReplication'' []);
              ret (Some (enqueueVGRForPVCRequest matches r (om_labels (watched_meta x))))
            })
      in doWatch (replication_group, ''VolumeGroupReplication'')
       \<lparr>wb_filters = [], wb_for = (K_VGR, [GenerationChangedPredicate]),
        wb_owns = [(K_VGRContent, [SilentPredicate]), (K_VR, [SilentPredicate])],
        wb_watches = [(K_VGRContent, enqueueVGR, [watchOnlySpecUpdates]), (K_VR, enqueueVGR, [watchOnlyStatusUpdates]),
          (K_PVC, enqueueVGRForPVC, [GenerationChangedPredicate])]\<rparr>)"

section \<open>Setting up\<close>

text \<open>Indexers are added in order; the first error ends the setup.\<close>

fun setupIndexers :: "(watched_kind \<Rightarrow> string \<Rightarrow> goerr option) \<Rightarrow> (watched_kind \<times> string) list \<Rightarrow> goerr option" where
  "setupIndexers indexField [] = None"
| "setupIndexers indexField ((k, field) # indices) =
     (case indexField k field of Some err \<Rightarrow> Some err | None \<Rightarrow> setupIndexers indexField indices)"

abbreviation (input) JobOwnerKey :: string where "JobOwnerKey \<equiv> ''.metadata.controller''"
abbreviation (input) StorageClassIndex :: string where "StorageClassIndex \<equiv> ''spec.storageClassName''"

definition PVC_indices :: "(watched_kind \<times> string) list" where
  "PVC_indices = [(K_RSCronJob, JobOwnerKey), (K_KRCronJob, JobOwnerKey), (K_PVC, StorageClassIndex)]"

definition PVCNew_indices :: "(watched_kind \<times> string) list" where
  "PVCNew_indices = [(K_PVC, StorageClassIndex)]"

definition nodeDriverIndex :: "csiaddons_node \<Rightarrow> string list" where
  "nodeDriverIndex n = (if can_driverName n \<noteq> [] then [can_driverName n] else [])"

definition classProvisionerIndex :: "network_fence_class \<Rightarrow> string list" where
  "classProvisionerIndex c = (if nfc_provisioner c \<noteq> [] then [nfc_provisioner c] else [])"

text \<open>Waiting for a resource to exist: what the server answers to the list at each attempt.\<close>

datatype crd_answer = Listed | NoMatch | ListFailed goerr

partial_function (option) WaitForVolumeReplicationResource ::
  "(nat \<Rightarrow> string \<Rightarrow> crd_answer) \<Rightarrow> string \<Rightarrow> nat \<Rightarrow> (goerr option \<times> nat) option" where
  "WaitForVolumeReplicationResource ans resource i =
     (case ans i resource of
        Listed \<Rightarrow> Some (None, Suc i)
      | ListFailed err \<Rightarrow> Some (Some err, Suc i)
      | NoMatch \<Rightarrow> WaitForVolumeReplicationResource ans resource (Suc i))"

fun wait_all :: "(nat \<Rightarrow> string \<Rightarrow> crd_answer) \<Rightarrow> string list \<Rightarrow> nat \<Rightarrow> (goerr option \<times> nat) option" where
  "wait_all ans [] i = Some (None, i)"
| "wait_all ans (resource # rs) i =
     (case WaitForVolumeReplicationResource ans resource i of
        None \<Rightarrow> None
      | Some (Some err, j) \<Rightarrow> Some (Some err, j)
      | Some (None, j) \<Rightarrow> wait_all ans rs j)"

definition waitForCrds :: "(nat \<Rightarrow> string \<Rightarrow> crd_answer) \<Rightarrow> nat \<Rightarrow> (goerr option \<times> nat) option" where
  "waitForCrds ans = wait_all ans [''VolumeReplicationClass'', ''VolumeReplication'']"

definition waitForGroupCrds :: "(nat \<Rightarrow> string \<Rightarrow> crd_answer) \<Rightarrow> nat \<Rightarrow> (goerr option \<times> nat) option" where
  "waitForGroupCrds ans =
     wait_all ans [''VolumeGroupReplicationClass'', ''VolumeGroupReplication'', ''VolumeGroupReplicationContent'']"

section \<open>Facts\<close>

lemmas predicate_defs = onUpdate_def GenerationChangedPredicate_def AnnotationChangedPredicate_def predicate_Or_def
  SilentPredicate_def storage_class_filter_def annotation_filter_def csiAddonsNodePredicate_def
  watchOnlyStatusUpdates_def watchOnlySpecUpdates_def

lemmas watch_defs = VR_watches_def VGRC_watches_def Node_watches_def Fence_watches_def RSJob_watches_def KRJob_watches_def
  RSCron_watches_def KRCron_watches_def NFC_watches_def PVC_watches_def PVCNew_watches_def VGR_watches_def for_kind_def doWatch_def

text \<open>A wait returns exactly when some attempt is not answered with \<open>NoMatch\<close>, with the first such answer.\<close>

lemma wait_found:
  assumes "\<forall>k. i \<le> k \<and> k < j \<longrightarrow> ans k r = NoMatch" "i \<le> j"
  shows "WaitForVolumeReplicationResource ans r i = WaitForVolumeReplicationResource ans r j"
  using assms(2,1)
proof (induction rule: inc_induct)
  case base
  then show ?case by simp
next
  case (step n)
  then have "ans n r = NoMatch" by simp
  with step show ?case by (subst WaitForVolumeReplicationResource.simps) simp
qed

lemma wait_returns:
  assumes "ans j r \<noteq> NoMatch" "i \<le> j"
  shows "\<exists>k x. i \<le> k \<and> k \<le> j \<and> (\<forall>l. i \<le> l \<and> l < k \<longrightarrow> ans l r = NoMatch) \<and>
    WaitForVolumeReplicationResource ans r i = Some (x, Suc k) \<and>
    ans k r = (case x of None \<Rightarrow> Listed | Some err \<Rightarrow> ListFailed err)"
proof -
  define k where "k = (LEAST k. i \<le> k \<and> ans k r \<noteq> NoMatch)"
  have k: "i \<le> k" "ans k r \<noteq> NoMatch" "k \<le> j"
    unfolding k_def using LeastI [of "\<lambda>k. i \<le> k \<and> ans k r \<noteq> NoMatch" j] Least_le [of "\<lambda>k. i \<le> k \<and> ans k r \<noteq> NoMatch" j] assms
    by auto
  have before: "\<forall>l. i \<le> l \<and> l < k \<longrightarrow> ans l r = NoMatch"
    unfolding k_def using not_less_Least by blast
  have "WaitForVolumeReplicationResource ans r i = WaitForVolumeReplicationResource ans r k"
    using before k(1) by (intro wait_found) auto
  moreover have "\<exists>x. WaitForVolumeReplicationResource ans r k = Some (x, Suc k) \<and>
      ans k r = (case x of None \<Rightarrow> Listed | Some err \<Rightarrow> ListFailed err)"
    using k(2) by (subst WaitForVolumeReplicationResource.simps) (cases "ans k r"; force)
  ultimately show ?thesis using k before by metis
qed

lemma wait_returned_pair:
  assumes "WaitForVolumeReplicationResource ans r i = Some y"
  shows "\<exists>k \<ge> i. snd y = Suc k \<and> ans k r = (case fst y of None \<Rightarrow> Listed | Some err \<Rightarrow> ListFailed err)"
proof (rule WaitForVolumeReplicationResource.raw_induct [where
    P = "\<lambda>ans r i y. \<exists>k \<ge> i. snd y = Suc k \<and> ans k r = (case fst y of None \<Rightarrow> Listed | Some err \<Rightarrow> ListFailed err)",
    OF _ assms], goal_cases)
  case (1 wait ans r i y)
  show ?case
  proof (cases "ans i r")
    case NoMatch
    with 1(2) have "wait ans r (Suc i) = Some y" by simp
    from 1(1) [OF this] show ?thesis by (meson Suc_leD)
  qed (use 1(2) in auto)
qed

lemma wait_returned:
  "WaitForVolumeReplicationResource ans r i = Some (x, j) \<Longrightarrow>
     \<exists>k \<ge> i. j = Suc k \<and> ans k r = (case x of None \<Rightarrow> Listed | Some err \<Rightarrow> ListFailed err)"
  using wait_returned_pair [of ans r i "(x, j)"] by simp

text \<open>The setup of the replication controllers waits until every resource exists: it goes on without error exactly
  when each is listed, and it does when each is listed from some attempt on and no list fails otherwise.\<close>

lemma wait_all_listed:
  "wait_all ans rs i = Some (None, j) \<Longrightarrow> r \<in> set rs \<Longrightarrow> \<exists>k. i \<le> k \<and> k < j \<and> ans k r = Listed"
proof (induction rs arbitrary: i)
  case Nil
  then show ?case by simp
next
  case (Cons r0 rs)
  from Cons.prems(1) obtain j0 where w: "WaitForVolumeReplicationResource ans r0 i = Some (None, j0)"
    and rest: "wait_all ans rs j0 = Some (None, j)"
    by (auto split: option.splits)
  have mono: "wait_all ans xs a = Some (y, b) \<Longrightarrow> a \<le> b" for xs a y b
  proof (induction xs arbitrary: a)
    case Nil
    then show ?case by simp
  next
    case (Cons x xs)
    then show ?case
      by (auto split: option.splits dest!: wait_returned) (metis Suc_leD order_trans)
  qed
  from wait_returned [OF w] obtain k where k: "i \<le> k" "j0 = Suc k" "ans k r0 = Listed" by auto
  show ?case
  proof (cases "r = r0")
    case True
    with k mono [OF rest] show ?thesis by auto
  next
    case False
    with Cons.prems(2) Cons.IH [OF rest] k show ?thesis by (metis Suc_leD le_trans set_ConsD)
  qed
qed

lemma wait_all_returns:
  assumes "\<forall>r \<in> set rs. (\<exists>n. \<forall>k \<ge> n. ans k r = Listed) \<and> (\<forall>k err. ans k r \<noteq> ListFailed err)"
  shows "\<exists>j. wait_all ans rs i = Some (None, j)"
  using assms
proof (induction rs arbitrary: i)
  case Nil
  then show ?case by simp
next
  case (Cons r rs)
  then obtain n where n: "\<forall>k \<ge> n. ans k r = Listed" and ok: "\<forall>k err. ans k r \<noteq> ListFailed err" by auto
  have "ans (max n i) r \<noteq> NoMatch" "i \<le> max n i" using n by auto
  from wait_returns [where ans = ans and r = r, OF this] obtain k x where
    w: "WaitForVolumeReplicationResource ans r i = Some (x, Suc k)" "ans k r = (case x of None \<Rightarrow> Listed | Some err \<Rightarrow> ListFailed err)"
    by blast
  with ok have "x = None" by (cases x) auto
  with Cons w show ?case by simp
qed

end
