(* ===== verification/Props_Watches.thy ===== *)
theory Props_Watches
  imports Watches Props_Pvc Props_Fence Props_Group
begin

text \<open>
  Properties of what wakes the controllers: the events a filter drops cannot change what a run would do, and
  the writes of one controller wake the controllers that depend on them.
\<close>

section \<open>Runs that read the same of storage classes\<close>

text \<open>Agreement on the annotations that matter for schedules.\<close>

definition same_keys :: "object_meta \<Rightarrow> object_meta \<Rightarrow> bool" where
  "same_keys old new \<longleftrightarrow> (\<forall>k \<in> set schedule_keys. map_of (om_annotations old) k = map_of (om_annotations new) k)"

lemma same_keysD: "same_keys old new \<Longrightarrow> k \<in> set schedule_keys \<Longrightarrow> map_of (om_annotations old) k = map_of (om_annotations new) k"
  unfolding same_keys_def by blast

abbreviation with_classes :: "senv \<Rightarrow> (nsname, object_meta) answer \<Rightarrow> senv" where
  "with_classes s g \<equiv> s\<lparr>s_getStorageClass := g\<rparr>"

definition same_classes :: "senv \<Rightarrow> (nsname, object_meta) answer \<Rightarrow> bool" where
  "same_classes s g \<longleftrightarrow> (\<forall>h nn. rel_sum (=) same_keys (s_getStorageClass s h nn) (g h nn))"

lemma bind_call_eq:
  "(\<And>h. f (ans h) = f' (ans' h)) \<Longrightarrow> State_Monad.bind (call ans ev) f = State_Monad.bind (call ans' ev) f'"
  by (simp add: call_def State_Monad.bind_def)

lemma same_calls:
  "rs_sched (with_classes s g) = rs_sched s" "kr_sched (with_classes s g) = kr_sched s"
  "Get_Namespace (with_classes s g) nn = Get_Namespace s nn" "Patch_PVC (with_classes s g) p ps = Patch_PVC s p ps"
  "getScheduleFromAnnotation (with_classes s g) k as = getScheduleFromAnnotation s k as"
  "s_gvkPVC (with_classes s g) = s_gvkPVC s"
  by (simp_all add: rs_sched_def kr_sched_def Get_Namespace_def Patch_PVC_def getScheduleFromAnnotation_def split: option.split)

lemma class_read:
  assumes "same_classes s g" "\<And>err. f (Inl err) = f' (Inl err)" "\<And>old new. same_keys old new \<Longrightarrow> f (Inr new) = f' (Inr old)"
  shows "State_Monad.bind (Get_StorageClass (with_classes s g) nn) f = State_Monad.bind (Get_StorageClass s nn) f'"
  unfolding Get_StorageClass_def
proof (rule bind_call_eq)
  fix h
  have "rel_sum (=) same_keys (s_getStorageClass s h nn) (g h nn)" using assms(1) by (simp add: same_classes_def)
  then show "f (s_getStorageClass (with_classes s g) h nn) = f' (s_getStorageClass s h nn)"
    by cases (simp_all add: assms(2,3))
qed

lemma same_schedule:
  assumes "same_classes s g" "k \<in> set schedule_keys"
  shows "getScheduleFromSC (with_classes s g) p k = getScheduleFromSC s p k"
proof -
  have "getScheduleFromAnnotation s k (om_annotations new) = getScheduleFromAnnotation s k (om_annotations old)"
    if "same_keys old new" for old new
    using same_keysD [OF that assms(2)] unfolding getScheduleFromAnnotation_def by simp
  then show ?thesis
    unfolding getScheduleFromSC_def same_calls by (intro if_cong refl class_read assms(1)) simp_all
qed

lemma same_disabled:
  "same_classes s g \<Longrightarrow> k \<in> set schedule_keys \<Longrightarrow> isDisabledOnSC (with_classes s g) p k = isDisabledOnSC s p k"
  unfolding isDisabledOnSC_def by (intro if_cong refl class_read) (simp_all add: checkAnnotationForValue_def same_keysD)

lemma same_sources:
  assumes "same_classes s g" "k \<in> set schedule_keys"
  shows "determineScheduleAndRequeue e (with_classes s g) prec p d k = determineScheduleAndRequeue e s prec p d k"
    and "checkDisabledByAnnotation (with_classes s g) prec p k = checkDisabledByAnnotation s prec p k"
  unfolding determineScheduleAndRequeue_def checkDisabledByAnnotation_def getScheduleFromNS_def same_calls
  by (simp_all only: same_schedule [OF assms] same_disabled [OF assms] getScheduleFromPVC_def same_calls)

lemma same_PVC_Reconcile:
  assumes "same_classes s g"
  shows "PVC_Reconcile e (with_classes s g) prec req = PVC_Reconcile e s prec req"
proof -
  note keys = same_sources(1) [OF assms, where k = RsCronJobScheduleTimeAnnotation, simplified]
    same_sources(1) [OF assms, where k = KrcJobScheduleTimeAnnotation, simplified]
    same_sources(2) [OF assms, where k = KrEnableAnnotation, simplified]
  show ?thesis
    unfolding PVC_Reconcile_def PVC_process_def processKeyRotation_def processReclaimSpace_def KR_unschedule_def KR_update_def
      KR_create_def RS_unschedule_def RS_update_def RS_create_def findChildCronJob_def findChildEncryptionKeyRotationCronJob_def
      deleteChildCronJob_def patchAnnotationsToResource_def same_calls keys ..
qed

lemma same_features:
  assumes "same_keys old new"
  shows "PVCNew_features (with_classes s g) p new = PVCNew_features s p old"
proof -
  have create: "feature_create (with_classes s g) = feature_create s" by (intro ext) (simp add: feature_create_def)
  have "reconcileFeature (with_classes s g) = reconcileFeature s"
    by (intro ext) (unfold reconcileFeature_def create, rule refl)
  moreover have "mget (om_annotations new) k = mget (om_annotations old) k" if "k \<in> set schedule_keys" for k
    using same_keysD [OF assms that] by (simp add: mget_def)
  ultimately show ?thesis unfolding PVCNew_features_def same_calls by simp
qed

lemma same_PVCNew_Reconcile:
  assumes "same_classes s g"
  shows "PVCNew_Reconcile e (with_classes s g) req = PVCNew_Reconcile e s req"
proof -
  have classes: "State_Monad.bind (Get_StorageClass (with_classes s g) nn) (\<lambda>r. case r of
        Inl err \<Rightarrow> ret (Returned rr_empty (IgnoreNotFound err)) | Inr sc \<Rightarrow> PVCNew_features (with_classes s g) p sc) =
      State_Monad.bind (Get_StorageClass s nn) (\<lambda>r. case r of
        Inl err \<Rightarrow> ret (Returned rr_empty (IgnoreNotFound err)) | Inr sc \<Rightarrow> PVCNew_features s p sc)" for nn p
    by (rule class_read [OF assms]) (simp_all add: same_features)
  show ?thesis unfolding PVCNew_Reconcile_def classes ..
qed

section \<open>Filters of storage classes\<close>

text \<open>A filter of the updates of storage classes may drop only what no run of a claim depends on.\<close>

locale class_filter =
  fixes drops :: "object_meta \<Rightarrow> object_meta \<Rightarrow> bool"
  assumes sound: "drops old new \<Longrightarrow> same_keys old new"
begin

lemma same_runs:
  assumes "\<And>h nn. rel_sum (=) drops (s_getStorageClass s h nn) (g h nn)"
  shows "PVC_Reconcile e (with_classes s g) prec req = PVC_Reconcile e s prec req"
    and "PVCNew_Reconcile e (with_classes s g) req = PVCNew_Reconcile e s req"
proof -
  have "same_classes s g"
    unfolding same_classes_def using assms sum.rel_mono [of "(=)" "(=)" drops same_keys] sound by blast
  then show "PVC_Reconcile e (with_classes s g) prec req = PVC_Reconcile e s prec req"
    "PVCNew_Reconcile e (with_classes s g) req = PVCNew_Reconcile e s req"
    by (simp_all add: same_PVC_Reconcile same_PVCNew_Reconcile)
qed

end

definition drops_update :: "predicate \<Rightarrow> object_meta \<Rightarrow> object_meta \<Rightarrow> bool" where
  "drops_update p old new \<longleftrightarrow> \<not> passes p (UpdateEvent (W_StorageClass old) (W_StorageClass new))"

interpretation by_class: class_filter "drops_update storage_class_filter"
  by unfold_locales
    (auto simp: drops_update_def predicate_defs StorageClassPredicate_def AnnotationValueChanged_iff same_keys_def)

interpretation by_precedence: class_filter "drops_update (annotation_filter schedule_keys)"
  by unfold_locales
    (auto simp: drops_update_def predicate_defs createAnnotationPredicate_def AnnotationValueChanged_iff same_keys_def)

definition Claim_watches :: "senv \<Rightarrow> manager \<Rightarrow> watch_source list" where
  "Claim_watches s m = (case mgr_claims m of ClaimsByClass \<Rightarrow> PVCNew_watches s | ClaimsByPrecedence prec \<Rightarrow> PVC_watches s)"

text \<open>The update from one storage class to another reaches no handler of the controller of claims.\<close>

definition class_update_dropped :: "senv \<Rightarrow> manager \<Rightarrow> object_meta \<Rightarrow> object_meta \<Rightarrow> bool" where
  "class_update_dropped s m old new \<longleftrightarrow>
     list_all (\<lambda>src. ws_kind src = K_StorageClass \<longrightarrow>
       \<not> list_all (\<lambda>p. passes p (UpdateEvent (W_StorageClass old) (W_StorageClass new))) (ws_predicates src)) (Claim_watches s m)"

lemma class_update_dropped_iff:
  "class_update_dropped s m old new =
     (case mgr_claims m of ClaimsByClass \<Rightarrow> drops_update storage_class_filter old new
      | ClaimsByPrecedence prec \<Rightarrow> drops_update (annotation_filter schedule_keys) old new)"
  by (simp add: class_update_dropped_def Claim_watches_def watch_defs drops_update_def split: claim_controller.split)

text \<open>C28: an update of a storage class that the controller of claims is not woken for cannot change what it
  does: when every class is answered as it was before or as after an update that was dropped, every run for
  every claim is the same, call by call.\<close>

theorem dropped_class_updates:
  assumes "\<forall>h nn. rel_sum (=) (class_update_dropped s m) (s_getStorageClass s h nn) (g h nn)"
  shows "Claim_Reconcile e (s\<lparr>s_getStorageClass := g\<rparr>) m req = Claim_Reconcile e s m req"
proof (cases "mgr_claims m")
  case ClaimsByClass
  then have "class_update_dropped s m = drops_update storage_class_filter"
    by (intro ext) (simp add: class_update_dropped_iff)
  with by_class.same_runs(2) assms ClaimsByClass show ?thesis by (simp add: Claim_Reconcile_def)
next
  case (ClaimsByPrecedence prec)
  then have "class_update_dropped s m = drops_update (annotation_filter schedule_keys)"
    by (intro ext) (simp add: class_update_dropped_iff)
  with by_precedence.same_runs(1) assms ClaimsByPrecedence show ?thesis by (simp add: Claim_Reconcile_def)
qed

definition wx_class :: object_meta where
  "wx_class = px_class\<lparr>om_labels := [(''team'', ''storage'')], om_annotations := (''note'', ''x'') # om_annotations px_class\<rparr>"

theorem dropped_class_updates_witness:
  "Claim_Reconcile px_env (px_senv\<lparr>s_getStorageClass := (\<lambda>_ _. Inr wx_class)\<rparr>) (setup_controllers NewConfig True) px_req =
     Claim_Reconcile px_env px_senv (setup_controllers NewConfig True) px_req \<and> wx_class \<noteq> px_class"
proof (rule conjI [OF dropped_class_updates])
  have "drops_update (annotation_filter schedule_keys) px_class wx_class" by code_simp
  then show "\<forall>h nn. rel_sum (=) (class_update_dropped px_senv (setup_controllers NewConfig True))
      (s_getStorageClass px_senv h nn) (Inr wx_class)"
    by (simp add: px_senv_def class_update_dropped_iff setup_controllers_def NewConfig_def)
  have "om_labels wx_class \<noteq> om_labels px_class" by (simp add: wx_class_def px_class_def empty_meta_def)
  then show "wx_class \<noteq> px_class" by auto
qed

text \<open>A change that is not dropped wakes every claim of the class.\<close>

lemma mapAndEnqueue_ret: "f x = ret (Some rs) \<Longrightarrow> mapAndEnqueue f x reqs = ret (Some (reqs @ filter (\<lambda>q. q \<notin> set reqs) (remdups rs)))"
  by (simp add: mapAndEnqueue_def)

lemma run_ScMapFunc:
  assumes "s_listPVC s (trace w) () = Inr claims"
  shows "run_state (ScMapFunc s sc) w = (map pvc_request (filter (\<lambda>p. om_name sc \<in> set (storageClassIndex p)) claims),
    w\<lparr>trace := trace w @ [ApiList ''PersistentVolumeClaim'' []]\<rparr>)"
  using assms by (simp add: ScMapFunc_def List_PVC_def run_defs)

lemma class_update_wakes:
  assumes "mgr_claims m = ClaimsByClass" "\<not> class_update_dropped s m old new" "\<forall>h. s_listPVC s h () = Inr claims"
    and "p \<in> set claims" "pvc_storageClassName p = Some (om_name new)" "om_name new \<noteq> []"
  shows "\<exists>reqs w'. run_state (woken (Claim_watches s m) (UpdateEvent (W_StorageClass old) (W_StorageClass new))) w = (Some reqs, w') \<and>
    pvc_request p \<in> set reqs"
proof -
  have pass: "passes storage_class_filter (UpdateEvent (W_StorageClass old) (W_StorageClass new))"
    using assms(1,2) by (simp add: class_update_dropped_iff drops_update_def)
  have "om_name new \<in> set (storageClassIndex p)" using assms(5,6) by (simp add: storageClassIndex_def)
  with assms(1,3,4) pass show ?thesis
    by (auto simp: Claim_watches_def watch_defs deliver_def mapAndEnqueue_def map_class_def run_ScMapFunc simp del: passes.simps)
qed

section \<open>Nodes and network fence classes\<close>

lemma emits_bind_call:
  assumes "\<And>h. R h ev" "\<And>h. emits R (f (ans h))"
  shows "emits R (State_Monad.bind (call ans ev) f)"
  unfolding emits_def
proof (rule htriple_bind)
  show "htriple (\<lambda>_. True) (call ans ev) (\<lambda>x _. \<exists>h. x = ans h) R"
    by (rule htriple_call) (auto simp: assms(1))
  show "htriple (\<lambda>_. \<exists>h. x = ans h) (f x) (\<lambda>_ _. True) R" for x
    using assms(2) unfolding emits_def htriple_def by blast
qed

text \<open>The update of a node that changes its list of classes, as the controllers see it.\<close>

abbreviation node_update :: "csiaddons_node \<Rightarrow> csiaddons_node \<Rightarrow> watch_event" where
  "node_update n m \<equiv> UpdateEvent (W_Obj (O_Node n)) (W_Obj (O_Node m))"

lemma run_woken_node:
  "run_state (woken Node_watches (node_update n m)) w =
     (Some (if om_generation (can_meta m) \<noteq> om_generation (can_meta n) \<or>
         \<not> maps_Equal (om_annotations (can_meta m)) (om_annotations (can_meta n))
       then [\<lparr>nn_namespace = om_namespace (can_meta m), nn_name = om_name (can_meta m)\<rparr>] else []), w)"
  by (simp add: watch_defs deliver_def predicate_defs watched_key_def)

lemma run_woken_class: "run_state (woken (NFC_watches l) (node_update n m)) w = (Some [], w)"
  by (simp add: watch_defs deliver_def predicate_defs)

lemma step_node_noticed:
  assumes "(if mget (om_annotations (can_meta n)) networkFenceClassAnnotationKey = [] then Inr []
      else json_Unmarshal (mget (om_annotations (can_meta n)) networkFenceClassAnnotationKey)) = Inr cs"
    and "(x \<in> set cs) = del"
  shows "\<not> maps_Equal (om_annotations (can_meta (step_node del x cs n))) (om_annotations (can_meta n))"
proof
  let ?k = networkFenceClassAnnotationKey
  assume eq: "maps_Equal (om_annotations (can_meta (step_node del x cs n))) (om_annotations (can_meta n))"
  have changed: "step_classes del x cs \<noteq> cs"
  proof (cases del)
    case True
    with assms(2) have "length (step_classes del x cs) < length cs"
      using length_pos_if_in_set [of x cs] by (simp add: step_classes_def length_remove1)
    then show ?thesis by auto
  qed (use assms(2) in \<open>simp add: step_classes_def\<close>)
  show False
  proof (cases "step_classes del x cs = []")
    case True
    with changed have "cs \<noteq> []" by auto
    with assms(1) have "mget (om_annotations (can_meta n)) ?k \<noteq> []" by auto
    then have "map_of (om_annotations (can_meta n)) ?k \<noteq> None"
      by (auto simp: mget_def split: option.splits)
    then have "?k \<in> fst ` set (om_annotations (can_meta n))"
      by (simp add: map_of_eq_None_iff)
    then have "length (AList.delete ?k (om_annotations (can_meta n))) < length (om_annotations (can_meta n))"
      by (force simp: AList.delete_eq intro!: length_filter_less)
    with eq True show False by (simp add: maps_Equal_def step_node_def drop_classes_def)
  next
    case False
    then have "(?k, json_Marshal (step_classes del x cs)) \<in> set (om_annotations (can_meta (step_node del x cs n)))"
      by (auto simp: step_node_def set_classes_def update_conv' intro!: map_of_SomeD)
    with eq have "map_of (om_annotations (can_meta n)) ?k = Some (json_Marshal (step_classes del x cs))"
      by (auto simp: maps_Equal_def list_all_iff)
    then have "json_Unmarshal (json_Marshal (step_classes del x cs)) = Inr cs"
      using assms(1) by (simp add: mget_def)
    with changed show False by (simp add: json_roundtrip)
  qed
qed

text \<open>Every node the class controller writes is one it was given in the list of the nodes, and the node
  controller notices the write.\<close>

definition noticed_write :: "aenv \<Rightarrow> event list \<Rightarrow> event \<Rightarrow> bool" where
  "noticed_write a h ev \<longleftrightarrow> (\<forall>m. ev = ApiUpdate (O_Node m) \<longrightarrow>
     (\<exists>h' drv items n. a_listNodes a h' drv = Inr items \<and> n \<in> set items \<and> om_name (can_meta m) = om_name (can_meta n) \<and>
        om_namespace (can_meta m) = om_namespace (can_meta n) \<and>
        \<not> maps_Equal (om_annotations (can_meta m)) (om_annotations (can_meta n))))"

lemma noticed_write_simps [simp]:
  "noticed_write a h (ApiGet k nn)" "noticed_write a h (ApiList k ns)" "noticed_write a h (ApiUpdate (O_FenceClass c))"
  by (simp_all add: noticed_write_def)

lemma step_node_meta:
  "om_name (can_meta (step_node del x cs n)) = om_name (can_meta n)"
  "om_namespace (can_meta (step_node del x cs n)) = om_namespace (can_meta n)"
  by (simp_all add: step_node_def set_classes_def drop_classes_def)

lemma emits_processCapabilities:
  assumes "(om_name (nfc_meta c) \<in> set cs) = del \<Longrightarrow> \<forall>h. R h (ApiUpdate (O_Node (step_node del (om_name (nfc_meta c)) cs n)))"
  shows "emits R (processCapabilities a n c del cs caps)"
  using assms unfolding emits_def htriple_def run_processCapabilities
  by (auto simp: steps_ok_def split: if_splits)

lemma emits_noticed_node:
  assumes "a_listNodes a h0 drv = Inr items" "n \<in> set items"
  shows "emits (noticed_write a) (processCSIAddonsNode a n c del)"
proof (cases "if mget (om_annotations (can_meta n)) networkFenceClassAnnotationKey = [] then Inr []
    else json_Unmarshal (mget (om_annotations (can_meta n)) networkFenceClassAnnotationKey)")
  case (Inl err)
  then show ?thesis unfolding processCSIAddonsNode_def Let_def by (simp add: emits_intros)
next
  case (Inr cs)
  have "emits (noticed_write a) (processCapabilities a n c del cs caps)" for caps
  proof (rule emits_processCapabilities)
    assume "(om_name (nfc_meta c) \<in> set cs) = del"
    from step_node_noticed [OF Inr this] assms
    show "\<forall>h. noticed_write a h (ApiUpdate (O_Node (step_node del (om_name (nfc_meta c)) cs n)))"
      unfolding noticed_write_def by (metis event.inject(4) obj.inject(5) step_node_meta)
  qed
  with Inr show ?thesis unfolding processCSIAddonsNode_def Let_def by (simp add: emits_intros)
qed

lemma emits_noticed_nodes:
  assumes "a_listNodes a h0 drv = Inr items" "set ns \<subseteq> set items"
  shows "emits (noticed_write a) (NFC_processNodes a c del ns errs)"
  using assms(2)
  by (induction ns arbitrary: errs) (auto intro!: emits_intros emits_noticed_node [OF assms(1)])

lemma emits_noticed_NFC: "emits (noticed_write a) (NFC_Reconcile a req)"
proof -
  have nodes: "emits (noticed_write a) (NFC_nodes a c del)" for c del
    unfolding NFC_nodes_def listCSIAddonsNodes_def
  proof (rule emits_bind_call, goal_cases)
    case (2 h)
    show ?case
    proof (cases "a_listNodes a h (nfc_provisioner c)")
      case (Inr items)
      then show ?thesis
        by (auto simp: NFC_removeFinalizer_def Update_NFC_def Let_def intro!: emits_intros emits_noticed_nodes)
    qed (simp add: emits_intros)
  qed simp
  show ?thesis
    unfolding NFC_Reconcile_def getNetworkFenceClass_def NFC_addFinalizer_def Update_NFC_def node_api_defs
    by (intro emits_intros nodes) simp_all
qed

text \<open>C29: when the controller of network fence classes writes its class to a node or takes it away, the write
  wakes the node controller for exactly that node, which then publishes the clients of the class, and it does not
  wake the controller of classes again.\<close>

theorem class_assignment_wakes_node:
  assumes "run_state (NFC_Reconcile a req) w = (out, w')" "appended w w' i (ApiUpdate (O_Node m))"
  shows "\<exists>h drv items n. a_listNodes a h drv = Inr items \<and> n \<in> set items \<and>
    (\<forall>v. run_state (woken Node_watches (UpdateEvent (W_Obj (O_Node n)) (W_Obj (O_Node m)))) v =
       (Some [\<lparr>nn_namespace = om_namespace (can_meta n), nn_name = om_name (can_meta n)\<rparr>], v)) \<and>
    (\<forall>l v. run_state (woken (NFC_watches l) (UpdateEvent (W_Obj (O_Node n)) (W_Obj (O_Node m)))) v = (Some [], v))"
proof -
  from emits_appended [OF emits_noticed_NFC assms] obtain h drv items n where
    "a_listNodes a h drv = Inr items" "n \<in> set items" "om_name (can_meta m) = om_name (can_meta n)"
    "om_namespace (can_meta m) = om_namespace (can_meta n)"
    "\<not> maps_Equal (om_annotations (can_meta m)) (om_annotations (can_meta n))"
    unfolding noticed_write_def by blast
  moreover from this have "run_state (woken Node_watches (node_update n m)) v =
      (Some [\<lparr>nn_namespace = om_namespace (can_meta n), nn_name = om_name (can_meta n)\<rparr>], v)" for v
    unfolding run_woken_node by simp
  ultimately show ?thesis using run_woken_class by blast
qed

theorem class_assignment_wakes_node_witness:
  "\<exists>m. (\<forall>v. run_state (woken Node_watches (UpdateEvent (W_Obj (O_Node fx_node)) (W_Obj (O_Node m)))) v =
     (Some [\<lparr>nn_namespace = ''dns'', nn_name = ''node''\<rparr>], v)) \<and>
     appended fx_world (snd (run_state (NFC_Reconcile fx_aenv fx_req) fx_world)) 2 (ApiUpdate (O_Node m))"
proof -
  let ?w = "snd (run_state (NFC_Reconcile fx_aenv fx_req) fx_world)"
  let ?m = "step_node True ''fc'' [''fc'', ''fd''] fx_node"
  have len: "length (trace ?w) = 4" and ev: "trace ?w ! 2 = ApiUpdate (O_Node ?m)" by code_simp+
  have app: "appended fx_world ?w 2 (ApiUpdate (O_Node ?m))"
    unfolding appended_def len ev by (simp add: fx_world_def)
  from class_assignment_wakes_node [OF surjective_pairing app]
  show ?thesis
  proof (elim exE conjE)
    fix h drv items n
    assume "a_listNodes fx_aenv h drv = Inr items" "n \<in> set items"
    then have n: "n = fx_node" by (auto simp: fx_aenv_def)
    have meta: "om_namespace (can_meta fx_node) = ''dns''" "om_name (can_meta fx_node) = ''node''"
      by (simp_all add: fx_node_def empty_meta_def)
    assume "\<forall>v. run_state (woken Node_watches (node_update n ?m)) v =
      (Some [\<lparr>nn_namespace = om_namespace (can_meta n), nn_name = om_name (can_meta n)\<rparr>], v)"
    then have "\<forall>v. run_state (woken Node_watches (node_update fx_node ?m)) v = (Some [\<lparr>nn_namespace = ''dns'', nn_name = ''node''\<rparr>], v)"
      unfolding n meta by simp
    with app show ?thesis by blast
  qed
qed

section \<open>Groups\<close>

abbreviation claim_update :: "pvc \<Rightarrow> pvc \<Rightarrow> watch_event" where
  "claim_update p p' \<equiv> UpdateEvent (W_Obj (O_PVC p)) (W_Obj (O_PVC p'))"

text \<open>What the group controller is not woken for: a replication whose status, and a content whose specification
  stays the same, and a claim whose generation does.\<close>

lemma group_not_woken:
  "vr_status a = vr_status b \<Longrightarrow>
     run_state (woken (VGR_watches matches l) (UpdateEvent (W_Obj (O_VR a)) (W_Obj (O_VR b)))) w = (Some [], w)"
  "vgrc_spec c = vgrc_spec d \<Longrightarrow>
     run_state (woken (VGR_watches matches l) (UpdateEvent (W_Obj (O_VGRContent c)) (W_Obj (O_VGRContent d)))) w = (Some [], w)"
  "om_generation (pvc_meta p) = om_generation (pvc_meta p') \<Longrightarrow>
     run_state (woken (VGR_watches matches l) (claim_update p p')) w = (Some [], w)"
  by (simp_all add: watch_defs deliver_def predicate_defs Let_def)

text \<open>For replications this loses nothing: the part of a run that looks at the replication reads its status only.\<close>

lemma dropped_replication_updates:
  "vr_status a = vr_status b \<Longrightarrow> VGR_status e vgr a = VGR_status e vgr b"
  unfolding VGR_status_def group_status_def by simp

text \<open>No controller that filters by generation is woken by an update of the status of its object, which leaves the
  generation as it is.\<close>

lemma status_updates_do_not_wake:
  "om_generation (vr_meta a) = om_generation (vr_meta b) \<Longrightarrow>
     run_state (woken VR_watches (UpdateEvent (W_Obj (O_VR a)) (W_Obj (O_VR b)))) w = (Some [], w)"
  "om_generation (nf_meta f) = om_generation (nf_meta g) \<Longrightarrow>
     run_state (woken Fence_watches (UpdateEvent (W_Obj (O_Fence f)) (W_Obj (O_Fence g)))) w = (Some [], w)"
  "om_generation (job_meta j) = om_generation (job_meta k) \<Longrightarrow>
     run_state (woken RSJob_watches (UpdateEvent (W_Obj (O_RSJob j)) (W_Obj (O_RSJob k)))) w = (Some [], w)"
  "om_generation (job_meta j) = om_generation (job_meta k) \<Longrightarrow>
     run_state (woken KRJob_watches (UpdateEvent (W_Obj (O_KRJob j)) (W_Obj (O_KRJob k)))) w = (Some [], w)"
  "om_generation (vgr_meta x) = om_generation (vgr_meta y) \<Longrightarrow>
     run_state (woken (VGR_watches matches l) (UpdateEvent (W_Obj (O_VGR x)) (W_Obj (O_VGR y)))) w = (Some [], w)"
  by (simp_all add: watch_defs deliver_def predicate_defs Let_def)

text \<open>The jobs of a scheduler wake it whatever changes on them, also when only their status does.\<close>

lemma job_updates_wake_scheduler:
  assumes "GetControllerOf (job_meta j) = Some (owner_ref_to g owner)" "GetControllerOf (job_meta j0) = Some (owner_ref_to g owner)"
    and "g = \<lparr>gvk_group = csiaddons_group, gvk_version = ''v1alpha1'', gvk_kind = ''ReclaimSpaceCronJob''\<rparr>"
    and "om_namespace (job_meta j) = om_namespace (job_meta j0)"
  shows "run_state (woken RSCron_watches (UpdateEvent (W_Obj (O_RSJob j0)) (W_Obj (O_RSJob j)))) w =
    (Some [\<lparr>nn_namespace = om_namespace (job_meta j), nn_name = om_name owner\<rparr>], w)"
proof -
  have "ParseGroupVersion ''csiaddons.openshift.io/v1alpha1'' = Some (csiaddons_group, ''v1alpha1'')" by code_simp
  with assms show ?thesis
    by (simp add: watch_defs deliver_def getOwnerReconcileRequest_def owner_ref_to_def gvk_apiVersion_def)
qed

text \<open>C30: a claim that is given labels a group selects does not wake the group: its update passes the filter only
  when its generation changes. The creation of a claim with the same labels does wake the group.\<close>

theorem relabelled_claim_unnoticed:
  assumes "om_generation (pvc_meta p) = om_generation (pvc_meta p')" "om_labels (pvc_meta p') \<noteq> []"
    and "\<not> vgs_external (vgr_spec vgr)" "mget (om_annotations (vgr_meta vgr)) pvcSelector = sel" "sel \<noteq> []"
    and "matches sel = Inr selects" "selects (om_labels (pvc_meta p'))" "\<forall>h. listVGR h () = Inr (vgr # vgrs)"
  shows "fst (run_state (woken (VGR_watches matches listVGR) (UpdateEvent (W_Obj (O_PVC p)) (W_Obj (O_PVC p')))) w) = Some [] \<and>
    fst (run_state (woken (VGR_watches matches listVGR) (CreateEvent (W_Obj (O_PVC p')))) w) = Some [vgr_key vgr]"
proof
  show "fst (run_state (woken (VGR_watches matches listVGR) (claim_update p p')) w) = Some []"
    by (simp add: group_not_woken(3) [OF assms(1)])
  show "fst (run_state (woken (VGR_watches matches listVGR) (CreateEvent (W_Obj (O_PVC p')))) w) = Some [vgr_key vgr]"
    using assms(2-)
    by (simp add: watch_defs deliver_def predicate_defs Let_def mapAndEnqueue_def enqueueVGRForPVCRequest_def run_defs)
qed

theorem relabelled_claim_unnoticed_witness:
  "let claim = px_claim\<lparr>pvc_meta := (pvc_meta px_claim)\<lparr>om_labels := [(''app'', ''db'')]\<rparr>\<rparr>;
       vgr = gx_vgr\<lparr>vgr_meta := (vgr_meta gx_vgr)\<lparr>om_annotations := [(pvcSelector, ''app=db'')]\<rparr>,
          vgr_spec := (vgr_spec gx_vgr)\<lparr>vgs_external := False\<rparr>\<rparr>;
       matches = (\<lambda>_. Inr (\<lambda>labels. map_of labels ''app'' = Some ''db''));
       srcs = VGR_watches matches (\<lambda>_ _. Inr [vgr])
   in fst (run_state (woken srcs (UpdateEvent (W_Obj (O_PVC px_claim)) (W_Obj (O_PVC claim)))) px_world) = Some [] \<and>
      fst (run_state (woken srcs (CreateEvent (W_Obj (O_PVC claim)))) px_world) = Some [vgr_key vgr]"
  unfolding Let_def
  by (rule relabelled_claim_unnoticed [where sel = "''app=db''" and vgrs = "[]" and
        selects = "\<lambda>labels. map_of labels ''app'' = Some ''db''"])
    (simp_all add: mget_def)

end
