(* ===== verification/Operator_Start.thy ===== *)
theory Operator_Start
  imports Watches
begin

text \<open>
  The second half of \<open>main\<close> in \<open>cmd/manager/main.go\<close>: the controllers are set up one after the other, then the
  health checks are added and the manager is started. A setup that fails ends the process; one that waits for a
  resource definition blocks all that follow, and the start. What the framework answers to the registration of an
  index, of a controller or of a check, and to the start, is an argument.
\<close>

section \<open>Setting up the controllers\<close>

record setup_env =
  su_indexField :: "watched_kind \<Rightarrow> string \<Rightarrow> goerr option"
  su_complete :: "string \<Rightarrow> goerr option"
  su_listCRD :: "nat \<Rightarrow> string \<Rightarrow> crd_answer"
  su_addHealthzCheck :: "goerr option"
  su_addReadyzCheck :: "goerr option"
  su_start :: "goerr option"

text \<open>The result of a setup: \<open>None\<close> when it never returns, otherwise the error and the number of lists made so far.\<close>

type_synonym setup_step = "nat \<Rightarrow> (goerr option \<times> nat) option"

definition complete :: "setup_env \<Rightarrow> string \<Rightarrow> setup_step" where
  "complete u name i = Some (su_complete u name, i)"

definition indexed :: "setup_env \<Rightarrow> (watched_kind \<times> string) list \<Rightarrow> setup_step \<Rightarrow> setup_step" where
  "indexed u indices rest i =
     (case setupIndexers (su_indexField u) indices of Some err \<Rightarrow> Some (Some err, i) | None \<Rightarrow> rest i)"

definition awaiting :: "(nat \<Rightarrow> (goerr option \<times> nat) option) \<Rightarrow> setup_step \<Rightarrow> setup_step" where
  "awaiting wait rest i =
     (case wait i of None \<Rightarrow> None | Some (Some err, j) \<Rightarrow> Some (Some err, j) | Some (None, j) \<Rightarrow> rest j)"

definition wrap_index_error :: "string \<Rightarrow> goerr \<Rightarrow> goerr" where
  "wrap_index_error kind err = ErrMsg (''unable to set up FieldIndexer for '' @ kind @ '' Provisioner: '' @ Error err)"

definition NFC_setup :: "setup_env \<Rightarrow> setup_step" where
  "NFC_setup u i =
     (case su_indexField u K_Node ''spec.driver.name'' of
        Some err \<Rightarrow> Some (Some (wrap_index_error ''CSIAddonsNode'' err), i)
      | None \<Rightarrow>
          (case su_indexField u K_FenceClass ''spec.provisioner'' of
             Some err \<Rightarrow> Some (Some (wrap_index_error ''NetworkFenceClass'' err), i)
           | None \<Rightarrow> complete u ''NetworkFenceClass'' i))"

definition Claim_setup :: "setup_env \<Rightarrow> manager \<Rightarrow> setup_step" where
  "Claim_setup u m =
     (case mgr_claims m of
        ClaimsByClass \<Rightarrow> indexed u PVCNew_indices (complete u ''PersistentVolumeClaim'')
      | ClaimsByPrecedence _ \<Rightarrow> indexed u PVC_indices (complete u ''PersistentVolumeClaim''))"

text \<open>The controllers in the order in which they are set up, with the names under which a failure is logged.\<close>

definition setups :: "setup_env \<Rightarrow> manager \<Rightarrow> (string \<times> setup_step) list" where
  "setups u m =
     [(''CSIAddonsNode'', complete u ''CSIAddonsNode''),
      (''ReclaimSpaceJob'', complete u ''ReclaimSpaceJob''),
      (''NetworkFence'', complete u ''NetworkFence''),
      (''ReclaimSpaceCronJob'', indexed u [(K_RSJob, JobOwnerKey)] (complete u ''ReclaimSpaceCronJob'')),
      (''PersistentVolumeClaim'', Claim_setup u m),
      (''VolumeReplication'', awaiting (waitForCrds (su_listCRD u)) (complete u ''VolumeReplication'')),
      (''VolumeGroupReplication'', awaiting (waitForGroupCrds (su_listCRD u)) (complete u ''VolumeGroupReplication'')),
      (''VolumeGroupReplicationContent'', complete u ''VolumeGroupReplicationContent''),
      (''EncryptionKeyRotationJob'', complete u ''EncryptionKeyRotationJob''),
      (''EncryptionKeyRotationCronJob'', indexed u [(K_KRJob, JobOwnerKey)] (complete u ''EncryptionKeyRotationCronJob'')),
      (''NetworkFenceClass'', NFC_setup u)]"

section \<open>The end of main\<close>

datatype main_end = Exited string goerr | Stopped

text \<open>\<open>Some None\<close> when every controller is set up.\<close>

fun run_setups :: "(string \<times> setup_step) list \<Rightarrow> nat \<Rightarrow> main_end option option" where
  "run_setups [] i = Some None"
| "run_setups ((name, f) # fs) i =
     (case f i of
        None \<Rightarrow> None
      | Some (Some err, _) \<Rightarrow> Some (Some (Exited (''unable to create controller '' @ name) err))
      | Some (None, j) \<Rightarrow> run_setups fs j)"

text \<open>\<open>None\<close>: the process waits for a definition. \<open>Exited\<close>: it ends with status 1. \<open>Stopped\<close>: the manager ran until it was
  told to stop.\<close>

definition start_manager :: "setup_env \<Rightarrow> main_end" where
  "start_manager u =
     (case su_addHealthzCheck u of
        Some err \<Rightarrow> Exited ''unable to set up health check'' err
      | None \<Rightarrow>
          (case su_addReadyzCheck u of
             Some err \<Rightarrow> Exited ''unable to set up ready check'' err
           | None \<Rightarrow>
               (case su_start u of
                  Some err \<Rightarrow> Exited ''problem running manager'' err
                | None \<Rightarrow> Stopped)))"

definition main_run :: "setup_env \<Rightarrow> manager \<Rightarrow> main_end option" where
  "main_run u m = map_option (\<lambda>r. case r of Some e \<Rightarrow> e | None \<Rightarrow> start_manager u) (run_setups (setups u m) 0)"

section \<open>When the operator starts\<close>

lemmas setup_defs = complete_def indexed_def awaiting_def NFC_setup_def Claim_setup_def

lemma setupIndexers_ok: "(\<And>k f. indexField k f = None) \<Longrightarrow> setupIndexers indexField ixs = None"
  by (induction ixs) auto

definition sets_up :: "setup_step \<Rightarrow> bool" where
  "sets_up f \<longleftrightarrow> (\<forall>i. \<exists>j. f i = Some (None, j))"

lemma run_setups_append:
  "list_all (\<lambda>(name, f). sets_up f) fs \<Longrightarrow> \<exists>j. run_setups (fs @ gs) i = run_setups gs j"
proof (induction fs arbitrary: i)
  case (Cons x fs)
  obtain name f where x: "x = (name, f)" by fastforce
  with Cons.prems obtain j where "f i = Some (None, j)" by (auto simp: sets_up_def)
  with Cons x show ?case by simp
qed auto

text \<open>No registration fails.\<close>

definition registers :: "setup_env \<Rightarrow> bool" where
  "registers u \<longleftrightarrow> (\<forall>k f. su_indexField u k f = None) \<and> (\<forall>name. su_complete u name = None)"

lemma sets_up_registered:
  assumes "registers u"
  shows "sets_up (complete u name)" "sets_up (indexed u ixs (complete u name))" "sets_up (NFC_setup u)" "sets_up (Claim_setup u m)"
  using assms
  by (auto simp: sets_up_def setup_defs registers_def setupIndexers_ok split: claim_controller.split)

lemma sets_up_awaiting:
  assumes "registers u" "\<And>i. \<exists>j. wait i = Some (None, j)"
  shows "sets_up (awaiting wait (complete u name))"
  unfolding sets_up_def
proof
  fix i
  from assms(2) obtain j where "wait i = Some (None, j)" by blast
  with assms(1) show "\<exists>j. awaiting wait (complete u name) i = Some (None, j)"
    by (simp add: awaiting_def complete_def registers_def)
qed

abbreviation replication_crds :: "string list" where
  "replication_crds \<equiv> [''VolumeReplicationClass'', ''VolumeReplication'', ''VolumeGroupReplicationClass'', ''VolumeGroupReplication'',
     ''VolumeGroupReplicationContent'']"

text \<open>The manager is started when no registration fails, every resource definition of replication is listed from some
  attempt on, and no list of them fails in another way; what follows is the end of the manager.\<close>

theorem operator_starts:
  assumes "registers u"
    and "\<forall>r \<in> set replication_crds. (\<exists>n. \<forall>k \<ge> n. su_listCRD u k r = Listed) \<and> (\<forall>k err. su_listCRD u k r \<noteq> ListFailed err)"
  shows "main_run u m = Some (start_manager u)"
proof -
  have wait: "\<exists>j. wait_all (su_listCRD u) rs i = Some (None, j)" if "set rs \<subseteq> set replication_crds" for rs i
    by (rule wait_all_returns) (use that assms(2) in blast)
  have "\<exists>j. waitForCrds (su_listCRD u) i = Some (None, j)" "\<exists>j. waitForGroupCrds (su_listCRD u) i = Some (None, j)" for i
    unfolding waitForCrds_def waitForGroupCrds_def by (rule wait, simp)+
  then have "list_all (\<lambda>(name, f). sets_up f) (setups u m)"
    unfolding setups_def by (simp add: sets_up_registered [OF assms(1)] sets_up_awaiting [OF assms(1)])
  from run_setups_append [OF this, of "[]" 0] show ?thesis by (simp add: main_run_def)
qed

text \<open>Without the definitions of replication nothing starts, although nodes, fences and jobs do not need them.\<close>

theorem operator_blocked:
  assumes "registers u" "\<forall>k. su_listCRD u k ''VolumeReplicationClass'' = NoMatch"
  shows "main_run u m = None"
proof -
  have "WaitForVolumeReplicationResource (su_listCRD u) ''VolumeReplicationClass'' i = None" for i
    using wait_returned_pair [of "su_listCRD u" "''VolumeReplicationClass''" i] assms(2)
    by (cases "WaitForVolumeReplicationResource (su_listCRD u) ''VolumeReplicationClass'' i") (auto split: option.splits)
  then have blocked: "awaiting (waitForCrds (su_listCRD u)) f i = None" for f i
    by (simp add: awaiting_def waitForCrds_def)
  have "list_all (\<lambda>(name, f). sets_up f) (take 5 (setups u m))"
    unfolding setups_def by (simp add: sets_up_registered [OF assms(1)])
  from run_setups_append [OF this, of "drop 5 (setups u m)" 0] obtain j
    where "run_setups (setups u m) 0 = run_setups (drop 5 (setups u m)) j" by auto
  also have "\<dots> = None" by (simp add: setups_def blocked)
  finally show ?thesis by (simp add: main_run_def)
qed

end
