(* ===== verification/Sidecar_Server.thy ===== *)
theory Sidecar_Server
  imports Sidecar_Start Pvc_Schedules
begin

text \<open>
  The life of the gRPC server of a sidecar, \<open>Start\<close>, \<open>serve\<close> and \<open>Stop\<close> of \<open>sidecar/internal/server/server.go\<close>, and
  the files and certificates of \<open>internal/kubernetes/token/grpc.go\<close>. The file system, the random key, the signing
  of a certificate and the socket are arguments.
\<close>

section \<open>The token of a service account\<close>

text \<open>An error of the deferred \<open>Close\<close> is logged and does not reach the caller.\<close>

definition readFile :: "(string \<Rightarrow> goerr + 'f) \<Rightarrow> ('f \<Rightarrow> goerr + string) \<Rightarrow> string \<Rightarrow> goerr + string" where
  "readFile openFile readAll filePath =
     (case openFile filePath of
        Inl err \<Rightarrow> Inl err
      | Inr file \<Rightarrow> (case readAll file of Inl err \<Rightarrow> Inl err | Inr data \<Rightarrow> Inr data))"

definition getToken :: "(string \<Rightarrow> goerr + 'f) \<Rightarrow> ('f \<Rightarrow> goerr + string) \<Rightarrow> goerr + string" where
  "getToken openFile readAll = readFile openFile readAll ''/var/run/secrets/kubernetes.io/serviceaccount/token''"

section \<open>The certificate\<close>

record cert_template =
  ct_serialNumber :: int
  ct_organization :: "string list"
  ct_notBefore :: time
  ct_notAfter :: time
  ct_isCA :: bool

text \<open>The clock is read twice; \<open>sign\<close> is \<open>x509.CreateCertificate\<close> with the key for subject and issuer, followed by the
  encoding and loading of the pair.\<close>

definition GenerateSelfSignedCert ::
  "(goerr + 'key) \<Rightarrow> time \<Rightarrow> time \<Rightarrow> (cert_template \<Rightarrow> 'key \<Rightarrow> goerr + 'cert) \<Rightarrow> goerr + 'cert" where
  "GenerateSelfSignedCert key t1 t2 sign =
     (case key of
        Inl err \<Rightarrow> Inl err
      | Inr k \<Rightarrow> sign \<lparr>ct_serialNumber = 1, ct_organization = [''k8s-addons-sidecar-server''], ct_notBefore = t1,
          ct_notAfter = t2 + 365 * 24 * 60 * minute, ct_isCA = True\<rparr> k)"

section \<open>The server\<close>

record 'cert grpc_server =
  gs_interceptor :: bool
  gs_creds :: "'cert option"
  gs_services :: "sidecar_service list"

datatype 'cert served = ServerPanic string | ServerFatal string | ServerStopped "'cert grpc_server"

text \<open>The grpc server of \<open>Start\<close>, with the services registered in order.\<close>

definition grpc_NewServer :: "(goerr + 'cert) \<Rightarrow> sidecar_server \<Rightarrow> string + 'cert grpc_server" where
  "grpc_NewServer cert ss =
     (if ss_enableAuthChecks ss then
        (case cert of
           Inl err \<Rightarrow> Inl (''Failed to generate self-signed certificate: '' @ Error err)
         | Inr c \<Rightarrow> Inr \<lparr>gs_interceptor = True, gs_creds = Some c, gs_services = ss_services ss\<rparr>)
      else Inr \<lparr>gs_interceptor = False, gs_creds = None, gs_services = ss_services ss\<rparr>)"

definition serve :: "goerr option \<Rightarrow> 'cert grpc_server \<Rightarrow> 'cert served" where
  "serve served gs =
     (case served of
        Some err \<Rightarrow>
          if \<not> errors_Is err (Sentinel ''grpc: the server has been stopped'')
          then ServerFatal (''Failed to setup CSI-Addons server: '' @ Error err) else ServerStopped gs
      | None \<Rightarrow> ServerStopped gs)"

definition Start :: "(goerr + 'cert) \<Rightarrow> (string \<Rightarrow> string \<Rightarrow> goerr option) \<Rightarrow> goerr option \<Rightarrow> sidecar_server \<Rightarrow> 'cert served" where
  "Start cert listen served ss =
     (case grpc_NewServer cert ss of
        Inl msg \<Rightarrow> ServerPanic msg
      | Inr gs \<Rightarrow>
          (case listen (ss_scheme ss) (ss_endpoint ss) of
             Some err \<Rightarrow> ServerFatal (''failed to listen on '' @ ss_endpoint ss @ '' ('' @ ss_scheme ss @ ''): '' @ Error err)
           | None \<Rightarrow> serve served gs))"

text \<open>Stopping a server that was not started does nothing.\<close>

definition Stop :: "'cert grpc_server option \<Rightarrow> bool" where
  "Stop server \<longleftrightarrow> server \<noteq> None"

text \<open>A request to the server: the interceptor comes first, when there is one.\<close>

definition handle :: "denv \<Rightarrow> 'cert grpc_server \<Rightarrow> call_metadata option \<Rightarrow> (goerr + 'a) sprog \<Rightarrow> (goerr + 'a) sprog" where
  "handle d gs md handler = (if gs_interceptor gs then AuthorizationInterceptor d md handler else handler)"

section \<open>Facts\<close>

text \<open>A server that served requests did so the way \<open>serve_request\<close> says, with every registered service, and with a
  certificate exactly when it checks tokens.\<close>

theorem started_server:
  assumes "Start cert listen served ss = ServerStopped gs"
  shows "handle d gs md handler = serve_request d ss md handler \<and> gs_services gs = ss_services ss \<and>
    (gs_creds gs \<noteq> None \<longleftrightarrow> ss_enableAuthChecks ss) \<and> listen (ss_scheme ss) (ss_endpoint ss) = None"
  using assms
  by (auto simp: Start_def grpc_NewServer_def serve_def handle_def serve_request_def split: sum.splits option.splits if_splits)

text \<open>The certificate of a server is valid for a year from its start; nothing renews it while the server runs.\<close>

lemma certificate_validity:
  assumes "GenerateSelfSignedCert key t1 t2 (\<lambda>t k. Inr t) = Inr c" "t1 \<le> t2" "t \<le> t1 + 365 * 24 * 60 * minute" "t1 \<le> t"
  shows "ct_notBefore c \<le> t \<and> t \<le> ct_notAfter c"
  using assms by (auto simp: GenerateSelfSignedCert_def split: sum.splits)

text \<open>A token that can be read is sent in the header that the other side parses.\<close>

theorem token_reaches_review:
  assumes "openFile ''/var/run/secrets/kubernetes.io/serviceaccount/token'' = Inr file" "readAll file = Inr token"
    and "map_of md authorizationKey = None"
  shows "addAuthorizationHeader (getToken openFile readAll) md invoker = invoker (AList.update authorizationKey [bearerPrefix @ token] md) \<and>
    parseToken (bearerPrefix @ token) = token"
  using assms
  by (simp add: addAuthorizationHeader_def getToken_def readFile_def AppendToOutgoingContext_def parseToken_def strings_HasPrefix_def)

end
