(* ===== verification/Spec2Isabelle.thy ===== *)
theory Spec2Isabelle
  imports Props_Replication Props_Base Props_Node Props_Fence Props_Jobs Props_Cron Props_Group Props_Pvc Manager
    Props_Sidecar Props_Register Props_Start Props_Condition Props_Tool Pool_Machine Props_Watches Operator_Start
    Sidecar_Server
begin

text \<open>
  Verification of CSI-Addons for Kubernetes: the operator (\<open>cmd/manager\<close>, \<open>internal/controller\<close>,
  \<open>internal/connection\<close>, \<open>internal/client\<close>, \<open>internal/util\<close>) and the sidecar that runs beside every CSI driver
  (\<open>sidecar\<close>, \<open>internal/sidecar\<close>). All paths below are relative to \<open>src/\<close>.

  \<^bold>\<open>The program.\<close> The operator is a set of controllers. Each has a function \<open>Reconcile\<close> that is called with
  the name of an object, reads it and others from the API server, calls sidecars over gRPC, and writes
  objects back: finalizers and owner annotations before an operation, a status after it. The controllers
  share the pool of connections to the sidecars, which the controller of CSIAddonsNode objects fills. A
  sidecar registers itself with such an object, competes for a lease when its driver has a controller,
  authenticates the requests it gets, completes them with the secrets and volumes of the cluster, and hands
  them on to the driver.

  \<^bold>\<open>The model of effects.\<close> A controller is a program of \<open>State_Monad\<close> over a world (\<^verbatim>\<open>Cluster\<close>): the trace of the
  calls it made and the connection pool. A call appends an event to the trace and gets its answer from an
  environment record (\<open>env\<close>, and \<open>aenv\<close>, \<open>jenv\<close>, \<open>cenv\<close>, \<open>genv\<close>, \<open>senv\<close> for what single controllers ask), whose
  fields are functions of the trace so far: a theorem for all environments covers every API server, driver
  and clock, with any failure at any time, and with changes made by others between two calls. \<open>Reconcile\<close>
  returns an \<open>outcome\<close>, with a value of its own for a panic. A small logic on traces carries the proofs:
  \<open>htriple H m K R\<close> (from traces with \<open>H\<close>, every event is allowed by \<open>R\<close> where it happens, and \<open>K\<close> holds at the
  end) and its special case \<open>emits\<close>, with rules for each construct. Objects passed by pointer are returned as
  the call leaves them. The sidecar's programs have traces of their own (\<^verbatim>\<open>Sidecar_Services\<close>,
  \<^verbatim>\<open>Volume_Condition\<close>), since they run in other processes.

  \<^bold>\<open>Shared theories.\<close> \<^verbatim>\<open>Prelude\<close>: Go maps as association lists, strings, integers of 32 and 64 bits, named
  collections. \<^verbatim>\<open>Go_Errors\<close>: error values and \<open>internal/util/error.go\<close>. \<^verbatim>\<open>Go_Time\<close>, \<^verbatim>\<open>Go_Url\<close>, \<^verbatim>\<open>Go_Json\<close>: RFC 3339,
  \<open>url.Parse\<close> and lists of strings in JSON, with their round trips. \<^verbatim>\<open>Api_Types\<close>: the objects. \<^verbatim>\<open>Params\<close>:
  \<open>internal/util/config.go\<close>, the parameters of classes and small helpers. \<^verbatim>\<open>Owners\<close>: owner references.
  \<^verbatim>\<open>Examples\<close>: a cluster for the witnesses.

  \<^bold>\<open>The operator.\<close>
  \<^item> \<^verbatim>\<open>Conditions\<close>: \<open>replication.storage/status.go\<close>. The locales \<open>condition_writer\<close> and \<open>condition_store\<close> say what
    writing a condition promises; the setters of the replication and of the job controllers satisfy them.
  \<^item> \<^verbatim>\<open>Conn_Pool\<close>: \<open>internal/connection\<close> and \<open>internal/util/normalize.go\<close>. Locale \<open>keyed_store\<close>: the pool refines a
    map. A method runs under the lock of the pool and is one atomic program.
  \<^item> \<^verbatim>\<open>Finalizers\<close>: \<open>finalizers.go\<close>, \<open>pvc.go\<close> and the class lookups of \<open>replication.storage\<close>. Locale
    \<open>finalizer_kind\<close>, interpreted for every kind of object that carries a finalizer.
  \<^item> \<^verbatim>\<open>Replication_Client\<close>: \<open>internal/client\<close> and \<open>replication.storage/replication\<close>. Locale \<open>replication_client\<close>, for
    the clients of volumes and of groups.
  \<^item> \<^verbatim>\<open>Volume_Replication\<close>, \<^verbatim>\<open>VR_Facts\<close>, \<^verbatim>\<open>Props_Replication\<close>: \<open>volumereplication_controller.go\<close>. Force is used only after a
    refusal, a state is reported only when it was reached, deletion disables replication first, and the
    handler does not panic under stated conditions.
  \<^item> \<^verbatim>\<open>Group_Content\<close>, \<^verbatim>\<open>Volume_Group_Replication\<close>, \<^verbatim>\<open>Group_Facts\<close>, \<^verbatim>\<open>Props_Group\<close>: the two controllers of volume groups
    with \<open>volumegroup-client.go\<close>. Groups are built before they are replicated and taken apart in the opposite
    order; the handle of a group comes from the driver.
  \<^item> \<^verbatim>\<open>CSIAddons_Node\<close>, \<^verbatim>\<open>Node_Facts\<close>, \<^verbatim>\<open>Props_Node\<close>: \<open>csiaddonsnode_controller.go\<close>. A node is connected when it is
    reported so, retries and deletions follow a fixed scheme, and the panics are characterised.
  \<^item> \<^verbatim>\<open>Network_Fence_Class\<close>, \<^verbatim>\<open>Network_Fence\<close>, \<^verbatim>\<open>Fence_Facts\<close>, \<^verbatim>\<open>Props_Fence\<close>: the two fencing controllers.
  \<^item> \<^verbatim>\<open>Jobs\<close>, \<^verbatim>\<open>Job_Facts\<close>, \<^verbatim>\<open>Props_Jobs\<close>: the controllers of single jobs. The locales \<open>job_body\<close> and \<open>working_body\<close>
    hold what the two share: a result is earned and the number of attempts is bounded.
  \<^item> \<^verbatim>\<open>Cron_Jobs\<close>, \<^verbatim>\<open>Cron_Facts\<close>, \<^verbatim>\<open>Props_Cron\<close>: the controllers that start jobs on a schedule (locale
    \<open>cron_controller\<close>): which run is due, that no run is started twice.
  \<^item> \<^verbatim>\<open>Pvc_Schedules\<close>, \<^verbatim>\<open>Pvc_Facts\<close>, \<^verbatim>\<open>Sched_Server\<close>, \<^verbatim>\<open>Props_Pvc\<close>: the two controllers that keep a scheduler for every
    annotated claim, \<open>persistentvolumeclaim_controller.go\<close> and \<open>pvc_new_controller.go\<close>, with
    \<open>internal/controller/utils\<close>. The locale \<open>sched_server\<close> is the contract of an API server that keeps what it is
    told; against it the second controller refines "store what the class asks for" and converges in one run.
  \<^item> \<^verbatim>\<open>Manager\<close>: \<open>cmd/manager/main.go\<close>, which settings reach which controller.
  \<^item> \<^verbatim>\<open>Watches\<close>, \<^verbatim>\<open>Props_Watches\<close>: what wakes the controllers, \<open>SetupWithManager\<close> and the indexers of each with
    \<open>internal/controller/utils/predicates.go\<close>, over the filters and handlers of the vendored framework. A
    controller is a list of sources built by \<open>doWatch\<close>; \<open>woken\<close> gives the requests an event leads to. The locale
    \<open>class_filter\<close> is the contract of a filter of storage classes: what it drops changes no run. The class
    controller wakes the node controller; a claim that is relabelled does not wake its group.
  \<^item> \<^verbatim>\<open>Operator_Start\<close>: the second half of \<open>main\<close>. The operator starts when the resource definitions of replication
    exist and waits for ever when they do not.
  \<^item> \<^verbatim>\<open>Pool_Frame\<close>, \<^verbatim>\<open>Pool_Machine\<close>: the operator as a transition system (\<open>operator_step\<close>) whose steps are the runs of
    the eleven controllers in any order and with any answers. Only the node controller changes whom the pool
    knows; the pool stays well typed in every reachable state, and with that a leader that is found belongs to
    the pod and the namespace of its lease.

  \<^bold>\<open>The sidecar.\<close>
  \<^item> \<^verbatim>\<open>Sidecar_Util\<close>: \<open>sidecar/internal/util\<close>, the address a sidecar announces.
  \<^item> \<^verbatim>\<open>Sidecar_Services\<close>, \<^verbatim>\<open>Props_Sidecar\<close>: \<open>internal/sidecar/service\<close> and \<open>internal/kubernetes/secret.go\<close>. Requests are
    handed on once with the named secret; composed with the operator, a forced promotion and a successful
    rotation are traced to answers of the driver itself.
  \<^item> \<^verbatim>\<open>Sidecar_Node\<close>, \<^verbatim>\<open>Props_Register\<close>: \<open>sidecar/internal/csiaddonsnode\<close>. The registered object is accepted by the
    operator, is updated with care, and is watched until ten failures in a row.
  \<^item> \<^verbatim>\<open>Sidecar_Start\<close>, \<^verbatim>\<open>Props_Start\<close>: \<open>sidecar/main.go\<close>, \<open>sidecar/internal/client\<close>, \<open>sidecar/internal/server\<close> and
    \<open>internal/kubernetes/token\<close>. Only authenticated requests reach a handler; the sidecar that holds the lease is
    the leader the operator finds.
  \<^item> \<^verbatim>\<open>Sidecar_Server\<close>: the life of the gRPC server, the token file and the certificate. A started server treats
    requests as the model of a request says.
  \<^item> \<^verbatim>\<open>Volume_Condition\<close>, \<^verbatim>\<open>Props_Condition\<close>: \<open>sidecar/internal/volume-condition\<close>. The events on a claim are exactly
    the changes of the condition of its volume.

  \<^bold>\<open>The tool.\<close> \<^verbatim>\<open>Command_Tool\<close>, \<^verbatim>\<open>Props_Tool\<close>: \<open>cmd/csi-addons\<close>, which runs the services of the sidecar with requests
  made from its flags.

  \<^bold>\<open>Parameters.\<close> Code outside the model enters as an argument or as a field of an environment, and every theorem
  holds for all of its values unless a hypothesis says otherwise: \<open>time.ParseDuration\<close>, \<open>net.ParseIP\<close>, SHA-256,
  the parser of cron schedules (only that the next instant is later than the given one, where it is
  needed), the offset of the local zone, the order of equal elements in \<open>sort.Slice\<close>, label selectors, the
  text of protobuf capabilities, the mapping of access modes, the decoding of \<open>vol_data.json\<close>. The order of a
  \<open>range\<close> over a map is the order of the association list, about which nothing is assumed.

  \<^bold>\<open>Loops.\<close> Loops over slices are structural recursion. The loop over missed runs of a schedule stops by itself
  after a hundred and one steps, which is its fuel. \<open>poll_loop\<close> gets one attempt more than the time limit has
  intervals. Loops that are meant to go on for ever (\<open>dispatch_loop\<close>, \<open>Probe\<close>, \<open>run_ticks\<close>) take the number of
  rounds as fuel and return \<open>None\<close> while they are still running; the theorems hold for every number of rounds,
  and that the sidecar gives up is proved for eleven rounds or more. The wait for a resource definition is a
  partial function whose value \<open>None\<close> is waiting for ever; when it returns, and when not, is proved.

  \<^bold>\<open>Not modelled.\<close> The work queues between events and runs, with their priorities, and the caches; log lines of the
  controllers and recorded events of the group controller; deadlines, whose expiry is an answer of the
  environment; concurrency of two runs of one controller, which the framework excludes for one object; the
  options of the metrics, webhook and leader election servers, sockets; the election behind
  the lease; generated code (deep copies, protobuf); what the command line tool prints; \<open>internal/version\<close> and
  test doubles.
\<close>

end
